(* ===== verification/Prelude.thy ===== *)
theory Prelude imports Main "HOL-Library.Sublist" begin

text \<open>
  Shared ground of the development: the collections of rules the component theories feed and
  the generic facts on lists and options that several of them use.

  \<^item> \<open>io_simps\<close>: equations that push a predicate over the effect programs through the
    program combinators (sequencing, try/catch, try/finally);
  \<^item> \<open>io_rules\<close>: introduction rules of the same predicates for the operations that issue
    requests, in the form the page proofs apply them;
  \<^item> \<open>app_ops\<close>: the defining equations of the operations of the application shell.
\<close>

named_theorems io_simps
named_theorems io_rules
named_theorems app_ops

subsection \<open>Lists\<close>

text \<open>\<open>xs.slice(-n)\<close> of JavaScript for a positive \<open>n\<close>: the last \<open>n\<close> elements.\<close>

definition last_n :: "nat \<Rightarrow> 'a list \<Rightarrow> 'a list" where
  "last_n n xs = drop (length xs - n) xs"

lemma length_last_n [simp]: "length (last_n n xs) = min n (length xs)"
  by (simp add: last_n_def)

lemma set_last_n: "set (last_n n xs) \<subseteq> set xs"
  by (simp add: last_n_def set_drop_subset)

lemma sublist_last_n: "suffix (last_n n xs) xs"
  by (simp add: last_n_def suffix_drop)

lemma distinct_map_last_n: "distinct (map f xs) \<Longrightarrow> distinct (map f (last_n n xs))"
  by (simp add: last_n_def drop_map [symmetric])

lemma last_n_snoc: "0 < n \<Longrightarrow> last_n n (xs @ [x]) = last_n (n - 1) xs @ [x]"
  by (cases n) (auto simp: last_n_def)

text \<open>The first element a predicate holds for, as \<open>Array.prototype.find\<close>.\<close>

definition find_first :: "('a \<Rightarrow> bool) \<Rightarrow> 'a list \<Rightarrow> 'a option" where
  "find_first p xs = (case filter p xs of [] \<Rightarrow> None | x # _ \<Rightarrow> Some x)"

lemma find_first_None [simp]: "find_first p xs = None \<longleftrightarrow> (\<forall>x\<in>set xs. \<not> p x)"
proof (induction xs)
  case (Cons x xs)
  then show ?case by (simp add: find_first_def)
qed (simp add: find_first_def)

lemma find_first_SomeD: "find_first p xs = Some x \<Longrightarrow> x \<in> set xs \<and> p x"
  by (cases "filter p xs") (auto simp: find_first_def dest!: filter_eq_ConsD)

lemma find_first_Cons [simp]:
  "find_first p [] = None"
  "find_first p (x # xs) = (if p x then Some x else find_first p xs)"
  by (simp_all add: find_first_def)

subsection \<open>Joining and splitting\<close>

fun join_with :: "'a list \<Rightarrow> 'a list list \<Rightarrow> 'a list" where
  "join_with sep [] = []"
| "join_with sep [x] = x"
| "join_with sep (x # y # ys) = x @ sep @ join_with sep (y # ys)"

text \<open>Splitting at every occurrence of one separator element, as \<open>split\<close> with a
  one-character separator: the result is never empty.\<close>

fun split_at :: "'a \<Rightarrow> 'a list \<Rightarrow> 'a list list" where
  "split_at c [] = [[]]"
| "split_at c (x # xs) =
     (if x = c then [] # split_at c xs
      else case split_at c xs of [] \<Rightarrow> [[x]] | p # ps \<Rightarrow> (x # p) # ps)"

lemma split_at_nonempty [simp]: "split_at c xs \<noteq> []"
  by (cases xs) (auto split: list.splits)

lemma split_at_no_sep: "c \<notin> set xs \<Longrightarrow> split_at c xs = [xs]"
  by (induction xs) auto

lemma split_at_append: "c \<notin> set xs \<Longrightarrow> split_at c (xs @ c # ys) = xs # split_at c ys"
  by (induction xs) auto

lemma split_at_parts: "p \<in> set (split_at c xs) \<Longrightarrow> c \<notin> set p"
  by (induction xs arbitrary: p) (force split: if_splits list.splits)+

lemma join_split_at: "join_with [c] (split_at c xs) = xs"
proof (induction xs)
  case Nil
  then show ?case by simp
next
  case (Cons x xs)
  obtain p ps where s: "split_at c xs = p # ps"
    by (cases "split_at c xs") auto
  with Cons.IH show ?case by (cases ps) auto
qed

lemma split_join_with:
  "ps \<noteq> [] \<Longrightarrow> \<forall>p\<in>set ps. c \<notin> set p \<Longrightarrow> split_at c (join_with [c] ps) = ps"
proof (induction ps rule: induct_list012)
  case (3 x y zs)
  then have "c \<notin> set x" and "split_at c (join_with [c] (y # zs)) = y # zs"
    by simp_all
  then show ?case by (simp add: split_at_append)
qed (simp_all add: split_at_no_sep)

subsection \<open>Association lists\<close>

lemma map_of_filter_neq: "k' \<noteq> k \<Longrightarrow> map_of (filter (\<lambda>p. fst p \<noteq> k') xs) k = map_of xs k"
  by (induction xs) auto

lemma map_of_append_Some: "map_of xs k = Some v \<Longrightarrow> map_of (xs @ ys) k = Some v"
  by (simp add: map_add_Some_iff)

end
