(* ===== verification/Js_String.thy ===== *)
theory Js_String imports Prelude begin

text \<open>
  Strings of the program. A JavaScript string is the \<open>string\<close> (character list) of its UTF-8
  bytes: an ASCII literal of the source is the same literal here, and concatenation, equality,
  splitting at an ASCII character and substring search agree with JavaScript's on well-formed
  text. Operations that count (\<open>length\<close>, \<open>slice\<close>, \<open>padStart\<close>) count UTF-16 units, which
  \<open>js_chars\<close> recovers from the bytes. \<open>to_lower\<close> lowers ASCII letters only, as the names of HTTP headers are compared;
  the case conversion of texts is \<open>toLowerCase\<close>, with the case table of Unicode. \<open>to_upper\<close> is used for HTTP methods and
  for the flags of a network interface, which are ASCII.
\<close>

subsection \<open>Characters of a text\<close>

definition code :: "char \<Rightarrow> nat" where
  "code c = of_char c"

definition is_cont :: "char \<Rightarrow> bool" where
  "is_cont c \<longleftrightarrow> 128 \<le> code c \<and> code c < 192"

text \<open>The UTF-8 encoding of a list of code points, for the texts the source writes outside
  ASCII.\<close>

definition utf8 :: "nat \<Rightarrow> string" where
  "utf8 n =
     (if n < 128 then [char_of n]
      else if n < 2048 then [char_of (192 + n div 64), char_of (128 + n mod 64)]
      else if n < 65536 then
        [char_of (224 + n div 4096), char_of (128 + n div 64 mod 64), char_of (128 + n mod 64)]
      else
        [char_of (240 + n div 262144), char_of (128 + n div 4096 mod 64),
         char_of (128 + n div 64 mod 64), char_of (128 + n mod 64)])"

definition uni :: "nat list \<Rightarrow> string" where
  "uni ns = concat (map utf8 ns)"

text \<open>A text cut before every byte that starts a character.\<close>

function js_chars :: "string \<Rightarrow> string list" where
  "js_chars [] = []"
| "js_chars (c # cs) = (c # takeWhile is_cont cs) # js_chars (dropWhile is_cont cs)"
  by pat_completeness auto
termination
  by (relation "measure length") (auto simp: le_imp_less_Suc length_dropWhile_le)

lemma concat_js_chars [simp]: "concat (js_chars s) = s"
  by (induction s rule: js_chars.induct) auto

lemma js_chars_nonempty: "x \<in> set (js_chars s) \<Longrightarrow> x \<noteq> []"
  by (induction s rule: js_chars.induct) auto

text \<open>A character is two UTF-16 units when its UTF-8 form has four bytes, one otherwise.\<close>

definition units :: "string \<Rightarrow> nat" where
  "units ch = (if length ch = 4 then 2 else 1)"

definition js_length :: "string \<Rightarrow> nat" where
  "js_length s = sum_list (map units (js_chars s))"

fun take_units :: "nat \<Rightarrow> string list \<Rightarrow> string list" where
  "take_units n [] = []"
| "take_units n (ch # chs) = (if units ch \<le> n then ch # take_units (n - units ch) chs else [])"

text \<open>\<open>s.slice(0, n)\<close>. A cut inside a surrogate pair would leave half a character in
  JavaScript; the model drops that half.\<close>

definition js_take :: "nat \<Rightarrow> string \<Rightarrow> string" where
  "js_take n s = concat (take_units n (js_chars s))"

definition js_pad_start :: "nat \<Rightarrow> char \<Rightarrow> string \<Rightarrow> string" where
  "js_pad_start n c s = replicate (n - js_length s) c @ s"

lemma take_units_prefix: "prefix (take_units n chs) chs"
  by (induction n chs rule: take_units.induct) auto

lemma js_take_prefix: "prefix (js_take n s) s"
proof -
  obtain rest where "js_chars s = take_units n (js_chars s) @ rest"
    using take_units_prefix by (auto simp: prefix_def)
  then have "concat (js_chars s) = js_take n s @ concat rest"
    unfolding js_take_def by (metis concat_append)
  then show ?thesis by (auto simp: prefix_def)
qed

lemma take_units_bound: "sum_list (map units (take_units n chs)) \<le> n"
  by (induction n chs rule: take_units.induct) auto

subsection \<open>Trimming\<close>

definition is_space :: "string \<Rightarrow> bool" where
  "is_space ch \<longleftrightarrow> ch \<in> set (map utf8
     ([9, 10, 11, 12, 13, 32, 160, 5760, 8232, 8233, 8239, 8287, 12288, 65279] @ [8192..<8203]))"

definition js_trim :: "string \<Rightarrow> string" where
  "js_trim s = concat (rev (dropWhile is_space (rev (dropWhile is_space (js_chars s)))))"

subsection \<open>Case, search, splitting\<close>

definition lower_char :: "char \<Rightarrow> char" where
  "lower_char c = (if 65 \<le> code c \<and> code c \<le> 90 then char_of (code c + 32) else c)"

definition upper_char :: "char \<Rightarrow> char" where
  "upper_char c = (if 97 \<le> code c \<and> code c \<le> 122 then char_of (code c - 32) else c)"

definition to_lower :: "string \<Rightarrow> string" where
  "to_lower s = map lower_char s"

definition to_upper :: "string \<Rightarrow> string" where
  "to_upper s = map upper_char s"

definition str_includes :: "string \<Rightarrow> string \<Rightarrow> bool" where
  "str_includes s t \<longleftrightarrow> sublist t s"

definition starts_with :: "string \<Rightarrow> string \<Rightarrow> bool" where
  "starts_with s t \<longleftrightarrow> prefix t s"

definition ends_with :: "string \<Rightarrow> string \<Rightarrow> bool" where
  "ends_with s t \<longleftrightarrow> suffix t s"

definition replace_char :: "char \<Rightarrow> char \<Rightarrow> string \<Rightarrow> string" where
  "replace_char a b s = map (\<lambda>c. if c = a then b else c) s"

text \<open>\<open>split(/\r?\n/)\<close>: a line ends at a line feed, and one carriage return before it is
  part of the separator.\<close>

definition strip_cr :: "string \<Rightarrow> string" where
  "strip_cr l = (if l \<noteq> [] \<and> last l = CHR 0x0D then butlast l else l)"

definition split_lines :: "string \<Rightarrow> string list" where
  "split_lines s = (let ls = split_at (CHR 0x0A) s in map strip_cr (butlast ls) @ [last ls])"

lemma str_includes_empty [simp]: "str_includes s []"
  by (simp add: str_includes_def)

lemma replace_char_involution:
  "b \<notin> set s \<Longrightarrow> replace_char b a (replace_char a b s) = s"
  by (induction s) (auto simp: replace_char_def)

lemma split_lines_nonempty [simp]: "split_lines s \<noteq> []"
  by (simp add: split_lines_def Let_def)

subsection \<open>Decimal numerals\<close>

fun nat_str :: "nat \<Rightarrow> string" where
  "nat_str n = (if n < 10 then [char_of (48 + n)] else nat_str (n div 10) @ [char_of (48 + n mod 10)])"

declare nat_str.simps [simp del]

definition int_str :: "int \<Rightarrow> string" where
  "int_str i = (if i < 0 then CHR ''-'' # nat_str (nat (- i)) else nat_str (nat i))"

definition is_digit :: "char \<Rightarrow> bool" where
  "is_digit c \<longleftrightarrow> 48 \<le> code c \<and> code c \<le> 57"

definition digits_val :: "string \<Rightarrow> nat" where
  "digits_val ds = foldl (\<lambda>n c. 10 * n + (code c - 48)) 0 ds"

lemma digits_val_snoc: "digits_val (ds @ [c]) = 10 * digits_val ds + (code c - 48)"
  by (simp add: digits_val_def)

lemma code_char_of [simp]: "n < 256 \<Longrightarrow> code (char_of n) = n"
  by (simp add: code_def)

lemma code_less [simp]: "code c < 256"
  unfolding code_def by simp

lemma char_of_code [simp]: "char_of (code c) = c"
  by (simp add: code_def)

lemma nat_str_digits: "\<forall>c\<in>set (nat_str n). is_digit c"
proof (induction n rule: nat_str.induct)
  case (1 n)
  show ?case
  proof (cases "n < 10")
    case True
    then show ?thesis by (simp add: nat_str.simps [of n] is_digit_def)
  next
    case False
    have "n mod 10 < 10" by simp
    then have "is_digit (char_of (48 + n mod 10))" by (simp add: is_digit_def)
    with False "1" show ?thesis by (simp add: nat_str.simps [of n])
  qed
qed

lemma nat_str_nonempty [simp]: "nat_str n \<noteq> []"
  by (simp add: nat_str.simps [of n])

lemma digits_val_nat_str [simp]: "digits_val (nat_str n) = n"
proof (induction n rule: nat_str.induct)
  case (1 n)
  show ?case
  proof (cases "n < 10")
    case True
    then show ?thesis by (simp add: nat_str.simps [of n] digits_val_def)
  next
    case False
    have "n mod 10 < 10" by simp
    with False "1" show ?thesis
      by (simp add: nat_str.simps [of n] digits_val_snoc)
  qed
qed

lemma nat_str_inject [simp]: "nat_str m = nat_str n \<longleftrightarrow> m = n"
  by (metis digits_val_nat_str)

subsection \<open>Case conversion of texts\<close>

text \<open>The capitals of Unicode beyond ASCII: first and last code point, distance, and what to add for the small
  letter. One capital is not here, the I with a dot, whose small form has two code points in JavaScript.\<close>

definition lower_ranges :: "(nat \<times> nat \<times> nat \<times> int) list" where
  "lower_ranges =
    [
     (0xC0, 0xD6, 1, 32), (0xD8, 0xDE, 1, 32), (0x100, 0x12E, 2, 1), (0x132, 0x136, 2, 1), (0x139, 0x147, 2, 1),
     (0x14A, 0x176, 2, 1), (0x178, 0x178, 1, - 121), (0x179, 0x17D, 2, 1), (0x181, 0x181, 1, 210),
     (0x182, 0x184, 2, 1), (0x186, 0x186, 1, 206), (0x187, 0x187, 1, 1), (0x189, 0x18A, 1, 205),
     (0x18B, 0x18B, 1, 1), (0x18E, 0x18E, 1, 79), (0x18F, 0x18F, 1, 202), (0x190, 0x190, 1, 203),
     (0x191, 0x191, 1, 1), (0x193, 0x193, 1, 205), (0x194, 0x194, 1, 207), (0x196, 0x196, 1, 211),
     (0x197, 0x197, 1, 209), (0x198, 0x198, 1, 1), (0x19C, 0x19C, 1, 211), (0x19D, 0x19D, 1, 213),
     (0x19F, 0x19F, 1, 214), (0x1A0, 0x1A4, 2, 1), (0x1A6, 0x1A6, 1, 218), (0x1A7, 0x1A7, 1, 1),
     (0x1A9, 0x1A9, 1, 218), (0x1AC, 0x1AC, 1, 1), (0x1AE, 0x1AE, 1, 218), (0x1AF, 0x1AF, 1, 1),
     (0x1B1, 0x1B2, 1, 217), (0x1B3, 0x1B5, 2, 1), (0x1B7, 0x1B7, 1, 219), (0x1B8, 0x1B8, 1, 1),
     (0x1BC, 0x1BC, 1, 1), (0x1C4, 0x1C4, 1, 2), (0x1C5, 0x1C5, 1, 1), (0x1C7, 0x1C7, 1, 2), (0x1C8, 0x1C8, 1, 1),
     (0x1CA, 0x1CA, 1, 2), (0x1CB, 0x1DB, 2, 1), (0x1DE, 0x1EE, 2, 1), (0x1F1, 0x1F1, 1, 2), (0x1F2, 0x1F4, 2, 1),
     (0x1F6, 0x1F6, 1, - 97), (0x1F7, 0x1F7, 1, - 56), (0x1F8, 0x21E, 2, 1), (0x220, 0x220, 1, - 130),
     (0x222, 0x232, 2, 1), (0x23A, 0x23A, 1, 10795), (0x23B, 0x23B, 1, 1), (0x23D, 0x23D, 1, - 163),
     (0x23E, 0x23E, 1, 10792), (0x241, 0x241, 1, 1), (0x243, 0x243, 1, - 195), (0x244, 0x244, 1, 69),
     (0x245, 0x245, 1, 71), (0x246, 0x24E, 2, 1), (0x370, 0x372, 2, 1), (0x376, 0x376, 1, 1),
     (0x37F, 0x37F, 1, 116), (0x386, 0x386, 1, 38), (0x388, 0x38A, 1, 37), (0x38C, 0x38C, 1, 64),
     (0x38E, 0x38F, 1, 63), (0x391, 0x3A1, 1, 32), (0x3A3, 0x3AB, 1, 32), (0x3CF, 0x3CF, 1, 8),
     (0x3D8, 0x3EE, 2, 1), (0x3F4, 0x3F4, 1, - 60), (0x3F7, 0x3F7, 1, 1), (0x3F9, 0x3F9, 1, - 7),
     (0x3FA, 0x3FA, 1, 1), (0x3FD, 0x3FF, 1, - 130), (0x400, 0x40F, 1, 80), (0x410, 0x42F, 1, 32),
     (0x460, 0x480, 2, 1), (0x48A, 0x4BE, 2, 1), (0x4C0, 0x4C0, 1, 15), (0x4C1, 0x4CD, 2, 1),
     (0x4D0, 0x52E, 2, 1), (0x531, 0x556, 1, 48), (0x10A0, 0x10C5, 1, 7264), (0x10C7, 0x10C7, 1, 7264),
     (0x10CD, 0x10CD, 1, 7264), (0x13A0, 0x13EF, 1, 38864), (0x13F0, 0x13F5, 1, 8), (0x1C90, 0x1CBA, 1, - 3008),
     (0x1CBD, 0x1CBF, 1, - 3008), (0x1E00, 0x1E94, 2, 1), (0x1E9E, 0x1E9E, 1, - 7615), (0x1EA0, 0x1EFE, 2, 1),
     (0x1F08, 0x1F0F, 1, - 8), (0x1F18, 0x1F1D, 1, - 8), (0x1F28, 0x1F2F, 1, - 8), (0x1F38, 0x1F3F, 1, - 8),
     (0x1F48, 0x1F4D, 1, - 8), (0x1F59, 0x1F5F, 2, - 8), (0x1F68, 0x1F6F, 1, - 8), (0x1F88, 0x1F8F, 1, - 8),
     (0x1F98, 0x1F9F, 1, - 8), (0x1FA8, 0x1FAF, 1, - 8), (0x1FB8, 0x1FB9, 1, - 8), (0x1FBA, 0x1FBB, 1, - 74),
     (0x1FBC, 0x1FBC, 1, - 9), (0x1FC8, 0x1FCB, 1, - 86), (0x1FCC, 0x1FCC, 1, - 9), (0x1FD8, 0x1FD9, 1, - 8),
     (0x1FDA, 0x1FDB, 1, - 100), (0x1FE8, 0x1FE9, 1, - 8), (0x1FEA, 0x1FEB, 1, - 112), (0x1FEC, 0x1FEC, 1, - 7),
     (0x1FF8, 0x1FF9, 1, - 128), (0x1FFA, 0x1FFB, 1, - 126), (0x1FFC, 0x1FFC, 1, - 9),
     (0x2126, 0x2126, 1, - 7517), (0x212A, 0x212A, 1, - 8383), (0x212B, 0x212B, 1, - 8262),
     (0x2132, 0x2132, 1, 28), (0x2160, 0x216F, 1, 16), (0x2183, 0x2183, 1, 1), (0x24B6, 0x24CF, 1, 26),
     (0x2C00, 0x2C2F, 1, 48), (0x2C60, 0x2C60, 1, 1), (0x2C62, 0x2C62, 1, - 10743), (0x2C63, 0x2C63, 1, - 3814),
     (0x2C64, 0x2C64, 1, - 10727), (0x2C67, 0x2C6B, 2, 1), (0x2C6D, 0x2C6D, 1, - 10780),
     (0x2C6E, 0x2C6E, 1, - 10749), (0x2C6F, 0x2C6F, 1, - 10783), (0x2C70, 0x2C70, 1, - 10782),
     (0x2C72, 0x2C72, 1, 1), (0x2C75, 0x2C75, 1, 1), (0x2C7E, 0x2C7F, 1, - 10815), (0x2C80, 0x2CE2, 2, 1),
     (0x2CEB, 0x2CED, 2, 1), (0x2CF2, 0x2CF2, 1, 1), (0xA640, 0xA66C, 2, 1), (0xA680, 0xA69A, 2, 1),
     (0xA722, 0xA72E, 2, 1), (0xA732, 0xA76E, 2, 1), (0xA779, 0xA77B, 2, 1), (0xA77D, 0xA77D, 1, - 35332),
     (0xA77E, 0xA786, 2, 1), (0xA78B, 0xA78B, 1, 1), (0xA78D, 0xA78D, 1, - 42280), (0xA790, 0xA792, 2, 1),
     (0xA796, 0xA7A8, 2, 1), (0xA7AA, 0xA7AA, 1, - 42308), (0xA7AB, 0xA7AB, 1, - 42319),
     (0xA7AC, 0xA7AC, 1, - 42315), (0xA7AD, 0xA7AD, 1, - 42305), (0xA7AE, 0xA7AE, 1, - 42308),
     (0xA7B0, 0xA7B0, 1, - 42258), (0xA7B1, 0xA7B1, 1, - 42282), (0xA7B2, 0xA7B2, 1, - 42261),
     (0xA7B3, 0xA7B3, 1, 928), (0xA7B4, 0xA7C2, 2, 1), (0xA7C4, 0xA7C4, 1, - 48), (0xA7C5, 0xA7C5, 1, - 42307),
     (0xA7C6, 0xA7C6, 1, - 35384), (0xA7C7, 0xA7C9, 2, 1), (0xA7D0, 0xA7D0, 1, 1), (0xA7D6, 0xA7D8, 2, 1),
     (0xA7F5, 0xA7F5, 1, 1), (0xFF21, 0xFF3A, 1, 32), (0x10400, 0x10427, 1, 40), (0x104B0, 0x104D3, 1, 40),
     (0x10570, 0x1057A, 1, 39), (0x1057C, 0x1058A, 1, 39), (0x1058C, 0x10592, 1, 39), (0x10594, 0x10595, 1, 39),
     (0x10C80, 0x10CB2, 1, 64), (0x118A0, 0x118BF, 1, 32), (0x16E40, 0x16E5F, 1, 32), (0x1E900, 0x1E921, 1, 34)
    ]"

definition in_range :: "nat \<Rightarrow> nat \<times> nat \<times> nat \<times> int \<Rightarrow> bool" where
  "in_range n r = (case r of (lo, hi, step, d) \<Rightarrow> lo \<le> n \<and> n \<le> hi \<and> (n - lo) mod step = 0)"

definition lower_rune :: "nat \<Rightarrow> nat" where
  "lower_rune n = (if n < 128 then (if 65 \<le> n \<and> n \<le> 90 then n + 32 else n)
     else case find_first (in_range n) lower_ranges of None \<Rightarrow> n | Some (lo, hi, step, d) \<Rightarrow> nat (int n + d))"

text \<open>The code point of a character given by its UTF-8 bytes.\<close>

fun rune_of :: "string \<Rightarrow> nat" where
  "rune_of [a] = code a"
| "rune_of [a, b] = (code a - 192) * 64 + (code b - 128)"
| "rune_of [a, b, c] = (code a - 224) * 4096 + (code b - 128) * 64 + (code c - 128)"
| "rune_of [a, b, c, d] =
     (code a - 240) * 262144 + (code b - 128) * 4096 + (code c - 128) * 64 + (code d - 128)"
| "rune_of s = 0"

text \<open>\<open>toLowerCase\<close> of JavaScript, and \<open>strings.ToLower\<close> of Go. They differ in the capital I with a dot; a
  capital sigma becomes the small letter in both (at the end of a word JavaScript writes its other form, which
  the model does not distinguish). Bytes that are no character stay as they are.\<close>

definition lower_with :: "(nat \<Rightarrow> nat list) \<Rightarrow> string \<Rightarrow> string" where
  "lower_with f s = concat (map (\<lambda>ch. if utf8 (rune_of ch) = ch then uni (f (rune_of ch)) else ch) (js_chars s))"

definition toLowerCase :: "string \<Rightarrow> string" where
  "toLowerCase s = lower_with (\<lambda>n. if n = 0x130 then [105, 0x307] else [lower_rune n]) s"

definition ToLower :: "string \<Rightarrow> string" where
  "ToLower s = lower_with (\<lambda>n. [if n = 0x130 then 105 else lower_rune n]) s"

lemma ascii_chars: "\<forall>c\<in>set s. code c < 128 \<Longrightarrow> js_chars s = map (\<lambda>c. [c]) s"
proof (induction s rule: js_chars.induct)
  case (2 c cs)
  then have "\<not> is_cont x" if "x \<in> set cs" for x using that by (auto simp: is_cont_def)
  then have "takeWhile is_cont cs = []" "dropWhile is_cont cs = cs"
    by (cases cs; auto)+
  then show ?case using 2 by simp
qed simp

lemma lower_ascii:
  assumes "\<forall>c\<in>set s. code c < 128"
  shows "toLowerCase s = to_lower s" "ToLower s = to_lower s"
proof -
  have ch: "utf8 (code c) = [c] \<and> uni [lower_rune (code c)] = [lower_char c] \<and> code c \<noteq> 0x130" if "c \<in> set s" for c
    using assms that by (auto simp: utf8_def uni_def lower_rune_def lower_char_def)
  then have "map (\<lambda>c. uni [lower_rune (code c)]) s = map (\<lambda>c. [lower_char c]) s" by simp
  with ch show "toLowerCase s = to_lower s" "ToLower s = to_lower s"
    by (simp_all add: toLowerCase_def ToLower_def lower_with_def ascii_chars [OF assms] to_lower_def comp_def
        cong: map_cong)
qed

lemma lower_Nil [simp]: "toLowerCase [] = []" "ToLower [] = []"
  by (simp_all add: toLowerCase_def ToLower_def lower_with_def)

text \<open>Letters outside ASCII: one with an acute accent, a Cyrillic and a Greek one, one of Deseret.\<close>

lemma lower_letters:
  "map lower_rune [0xC9, 0x416, 0x3A3, 0x10400] = [0xE9, 0x436, 0x3C3, 0x10428]"
  by (simp add: lower_rune_def lower_ranges_def in_range_def)

lemma toLowerCase_letter: "toLowerCase (uni [98, 0xC9]) = uni [98, 0xE9]" "ToLower (uni [0x130]) = uni [105]"
  by (simp_all add: toLowerCase_def ToLower_def lower_with_def uni_def utf8_def is_cont_def code_def lower_rune_def
      lower_ranges_def in_range_def)

end
