(* ===== verification/Texts.thy ===== *)
theory Texts imports Js_String begin

text \<open>
  The user-visible texts of the panel that are not ASCII, named by an English gloss: each
  constant is the literal of the source, its code points written out and encoded as UTF-8 by
  \<open>uni\<close>. Texts in ASCII stand in the components as they stand in the source.
\<close>

definition t_overview :: string where
  "t_overview =
     uni [0x6982, 0x89C8]"

definition t_overview_sub :: string where
  "t_overview_sub =
     uni [0x670D, 0x52A1, 0x5668, 0x72B6, 0x6001, 0x4E0E, 0x5173, 0x952E, 0x6307, 0x6807]"

definition t_system :: string where
  "t_system =
     uni [0x7CFB, 0x7EDF]"

definition t_system_sub :: string where
  "t_system_sub =
     uni [0x4E3B, 0x673A, 0x3001, 0x670D, 0x52A1, 0x3001, 0x7F51, 0x7EDC, 0x4E0E, 0x7EF4, 0x62A4]"

definition t_services :: string where
  "t_services =
     uni [0x670D, 0x52A1, 0x7BA1, 0x7406]"

definition t_services_sub :: string where
  "t_services_sub =
     ''systemd '' @ uni [0x670D, 0x52A1, 0x72B6, 0x6001, 0x3001, 0x63A7, 0x5236, 0x4E0E, 0x65E5,
     0x5FD7]"

definition t_processes :: string where
  "t_processes =
     uni [0x8FDB, 0x7A0B, 0x7BA1, 0x7406]"

definition t_processes_sub :: string where
  "t_processes_sub =
     uni [0x8FDB, 0x7A0B, 0x8D44, 0x6E90, 0x3001, 0x7B5B, 0x9009, 0x4E0E, 0x4FE1, 0x53F7, 0x64CD,
     0x4F5C]"

definition t_network :: string where
  "t_network =
     uni [0x7F51, 0x7EDC, 0x72B6, 0x6001]"

definition t_network_sub :: string where
  "t_network_sub =
     uni [0x63A5, 0x53E3, 0x3001, 0x5730, 0x5740, 0x4E0E, 0x76D1, 0x542C, 0x7AEF, 0x53E3]"

definition t_storage :: string where
  "t_storage =
     uni [0x5B58, 0x50A8, 0x7A7A, 0x95F4]"

definition t_storage_sub :: string where
  "t_storage_sub =
     uni [0x6587, 0x4EF6, 0x7CFB, 0x7EDF, 0x3001, 0x6302, 0x8F7D, 0x70B9, 0x4E0E, 0x5BB9, 0x91CF]"

definition t_scheduled_tasks :: string where
  "t_scheduled_tasks =
     uni [0x8BA1, 0x5212, 0x4EFB, 0x52A1]"

definition t_scheduled_tasks_sub :: string where
  "t_scheduled_tasks_sub =
     uni [0x8BA1, 0x5212, 0x4EFB, 0x52A1, 0x4E0E] @ '' systemd timers''"

definition t_packages :: string where
  "t_packages =
     uni [0x8F6F, 0x4EF6, 0x7BA1, 0x7406]"

definition t_packages_sub :: string where
  "t_packages_sub =
     ''APT '' @ uni [0x66F4, 0x65B0, 0x3001, 0x8F6F, 0x4EF6, 0x5305, 0x4E0E, 0x8F6F, 0x4EF6, 0x6E90]"

definition t_host_settings :: string where
  "t_host_settings =
     uni [0x4E3B, 0x673A, 0x8BBE, 0x7F6E]"

definition t_host_settings_sub :: string where
  "t_host_settings_sub =
     uni [0x4E3B, 0x673A, 0x540D, 0x3001, 0x65F6, 0x533A, 0x3001] @ ''DNS'' @ uni [0x3001] @ ''Swap
     '' @ uni [0x4E0E, 0x5185, 0x6838, 0x53C2, 0x6570]"

definition t_snapshots :: string where
  "t_snapshots =
     uni [0x5907, 0x4EFD, 0x4E0E, 0x5FEB, 0x7167]"

definition t_snapshots_sub :: string where
  "t_snapshots_sub =
     uni [0x914D, 0x7F6E, 0x5BFC, 0x51FA, 0x3001, 0x5BFC, 0x5165, 0x4E0E, 0x6062, 0x590D, 0x70B9]"

definition t_docker_sub :: string where
  "t_docker_sub =
     uni [0x5BB9, 0x5668, 0x3001, 0x955C, 0x50CF, 0x3001] @ ''Compose'' @ uni [0x3001, 0x7F51,
     0x7EDC, 0x4E0E, 0x5377]"

definition t_files :: string where
  "t_files =
     uni [0x6587, 0x4EF6, 0x7BA1, 0x7406]"

definition t_files_sub :: string where
  "t_files_sub =
     uni [0x6D4F, 0x89C8, 0x3001, 0x7F16, 0x8F91, 0x3001, 0x4E0A, 0x4F20, 0x4E0E, 0x5F52, 0x6863]"

definition t_tools :: string where
  "t_tools =
     uni [0x5E38, 0x7528, 0x5DE5, 0x5177]"

definition t_tools_sub :: string where
  "t_tools_sub =
     uni [0x7F51, 0x7EDC, 0x8BCA, 0x65AD, 0x4E0E, 0x5B89, 0x5168, 0x7EF4, 0x62A4, 0x5DE5, 0x5177]"

definition t_github :: string where
  "t_github =
     ''GitHub '' @ uni [0x52A9, 0x624B]"

definition t_github_sub :: string where
  "t_github_sub =
     uni [0x4ED3, 0x5E93, 0x3001] @ ''Actions'' @ uni [0x3001] @ ''Release '' @ uni [0x4E0E, 0x5BFC,
     0x5165]"

definition t_ssh :: string where
  "t_ssh =
     ''SSH '' @ uni [0x7BA1, 0x7406]"

definition t_ssh_sub :: string where
  "t_ssh_sub =
     uni [0x767B, 0x5F55, 0x65B9, 0x5F0F, 0x3001, 0x7528, 0x6237, 0x3001, 0x5BC6, 0x94A5, 0x4E0E,
     0x7AEF, 0x53E3]"

definition t_logs_center :: string where
  "t_logs_center =
     uni [0x65E5, 0x5FD7, 0x4E2D, 0x5FC3]"

definition t_logs_center_sub :: string where
  "t_logs_center_sub =
     uni [0x7CFB, 0x7EDF, 0x65E5, 0x5FD7, 0x4E0E, 0x64CD, 0x4F5C, 0x5BA1, 0x8BA1]"

definition t_security :: string where
  "t_security =
     uni [0x5B89, 0x5168, 0x4E2D, 0x5FC3]"

definition t_security_sub :: string where
  "t_security_sub =
     uni [0x9632, 0x706B, 0x5899, 0x3001] @ ''Fail2ban '' @ uni [0x4E0E, 0x767B, 0x5F55, 0x9632,
     0x62A4]"

definition t_mine :: string where
  "t_mine =
     uni [0x6211, 0x7684]"

definition t_mine_sub :: string where
  "t_mine_sub =
     uni [0x8D26, 0x6237, 0x3001, 0x8BA4, 0x8BC1, 0x3001, 0x4F1A, 0x8BDD, 0x4E0E, 0x9762, 0x677F,
     0x8BBE, 0x7F6E]"

definition t_enabled :: string where
  "t_enabled =
     uni [0x5DF2, 0x542F, 0x7528]"

definition t_not_enabled :: string where
  "t_not_enabled =
     uni [0x672A, 0x542F, 0x7528]"

definition t_em_dash :: string where
  "t_em_dash =
     uni [0x2014]"

definition t_days_unit :: string where
  "t_days_unit =
     uni [0x5929]"

definition t_hours_unit :: string where
  "t_hours_unit =
     uni [0x5C0F, 0x65F6]"

definition t_minutes_unit :: string where
  "t_minutes_unit =
     uni [0x5206, 0x949F]"

definition t_seconds_unit :: string where
  "t_seconds_unit =
     uni [0x79D2]"

definition t_ellipsis :: string where
  "t_ellipsis =
     uni [0x2026]"

definition t_task_service_restart :: string where
  "t_task_service_restart =
     uni [0x91CD, 0x542F] @ '' systemd '' @ uni [0x670D, 0x52A1]"

definition t_task_docker_restart :: string where
  "t_task_docker_restart =
     uni [0x91CD, 0x542F] @ '' Docker '' @ uni [0x5BB9, 0x5668]"

definition t_task_docker_cleanup :: string where
  "t_task_docker_cleanup =
     uni [0x5B89, 0x5168, 0x6E05, 0x7406] @ '' Docker''"

definition t_task_panel_backup :: string where
  "t_task_panel_backup =
     uni [0x521B, 0x5EFA, 0x9762, 0x677F, 0x5907, 0x4EFD]"

definition t_target_docker_cleanup :: string where
  "t_target_docker_cleanup =
     uni [0x5220, 0x9664, 0x672A, 0x4F7F, 0x7528, 0x4E14, 0x4E0D, 0x5F71, 0x54CD, 0x8FD0, 0x884C,
     0x5BB9, 0x5668, 0x7684] @ '' Docker '' @ uni [0x8D44, 0x6E90]"

definition t_target_panel_backup :: string where
  "t_target_panel_backup =
     uni [0x4FDD, 0x5B58, 0x5230, 0x5B9A, 0x65F6, 0x5907, 0x4EFD, 0x76EE, 0x5F55]"

definition t_every_hour_at :: string where
  "t_every_hour_at =
     uni [0x6BCF, 0x5C0F, 0x65F6, 0x7B2C] @ '' ''"

definition t_minute_suffix :: string where
  "t_minute_suffix =
     '' '' @ uni [0x5206, 0x949F]"

definition t_sunday :: string where
  "t_sunday =
     uni [0x5468, 0x65E5]"

definition t_monday :: string where
  "t_monday =
     uni [0x5468, 0x4E00]"

definition t_tuesday :: string where
  "t_tuesday =
     uni [0x5468, 0x4E8C]"

definition t_wednesday :: string where
  "t_wednesday =
     uni [0x5468, 0x4E09]"

definition t_thursday :: string where
  "t_thursday =
     uni [0x5468, 0x56DB]"

definition t_friday :: string where
  "t_friday =
     uni [0x5468, 0x4E94]"

definition t_saturday :: string where
  "t_saturday =
     uni [0x5468, 0x516D]"

definition t_every_week :: string where
  "t_every_week =
     uni [0x6BCF, 0x5468]"

definition t_every_day_at :: string where
  "t_every_day_at =
     uni [0x6BCF, 0x5929] @ '' ''"

definition t_copy_refused :: string where
  "t_copy_refused =
     uni [0x6D4F, 0x89C8, 0x5668, 0x672A, 0x5141, 0x8BB8, 0x590D, 0x5236, 0xFF0C, 0x8BF7, 0x957F,
     0x6309, 0x5185, 0x5BB9, 0x624B, 0x52A8, 0x590D, 0x5236]"

definition t_network_failed :: string where
  "t_network_failed =
     uni [0x7F51, 0x7EDC, 0x8FDE, 0x63A5, 0x5931, 0x8D25]"

definition t_request_failed_open :: string where
  "t_request_failed_open =
     uni [0x8BF7, 0x6C42, 0x5931, 0x8D25, 0xFF08]"

definition t_paren_close :: string where
  "t_paren_close =
     uni [0xFF09]"

definition t_second_factor :: string where
  "t_second_factor =
     uni [0x4E8C, 0x6B21, 0x9A8C, 0x8BC1]"

definition t_upload_broken :: string where
  "t_upload_broken =
     uni [0x7F51, 0x7EDC, 0x8FDE, 0x63A5, 0x4E2D, 0x65AD, 0xFF0C, 0x4E0A, 0x4F20, 0x672A, 0x5B8C,
     0x6210]"

definition t_upload_cancelled :: string where
  "t_upload_cancelled =
     uni [0x4E0A, 0x4F20, 0x5DF2, 0x53D6, 0x6D88]"

definition t_unknown_error :: string where
  "t_unknown_error =
     uni [0x672A, 0x77E5, 0x9519, 0x8BEF]"

definition t_load_failed :: string where
  "t_load_failed =
     uni [0x52A0, 0x8F7D, 0x5931, 0x8D25]"

definition t_retry :: string where
  "t_retry =
     uni [0x91CD, 0x8BD5]"

definition t_server_verifying :: string where
  "t_server_verifying =
     uni [0x670D, 0x52A1, 0x5668, 0x6B63, 0x5728, 0x6821, 0x9A8C, 0x5E76, 0x5199, 0x5165, 0xFF0C,
     0x8BF7, 0x52FF, 0x5173, 0x95ED, 0x9875, 0x9762]"

definition t_percent_dot :: string where
  "t_percent_dot =
     ''% '' @ uni [0x00B7] @ '' ''"

definition t_unknown_size :: string where
  "t_unknown_size =
     uni [0x672A, 0x77E5, 0x5927, 0x5C0F]"

definition t_cancel :: string where
  "t_cancel =
     uni [0x53D6, 0x6D88]"

definition t_measuring_speed :: string where
  "t_measuring_speed =
     uni [0x6B63, 0x5728, 0x8BA1, 0x7B97, 0x901F, 0x5EA6]"

definition t_remaining_prefix :: string where
  "t_remaining_prefix =
     uni [0x9884, 0x8BA1, 0x5269, 0x4F59] @ '' ''"

definition t_almost_done :: string where
  "t_almost_done =
     uni [0x5373, 0x5C06, 0x5B8C, 0x6210]"

definition t_no_output :: string where
  "t_no_output =
     uni [0x6682, 0x65E0, 0x8F93, 0x51FA]"

definition t_raw_data :: string where
  "t_raw_data =
     uni [0x539F, 0x59CB, 0x6570, 0x636E]"

definition t_back_to :: string where
  "t_back_to =
     uni [0x8FD4, 0x56DE]"

definition t_parent_page :: string where
  "t_parent_page =
     uni [0x4E0A, 0x7EA7, 0x9875, 0x9762]"

definition t_refresh :: string where
  "t_refresh =
     uni [0x5237, 0x65B0]"

definition t_close :: string where
  "t_close =
     uni [0x5173, 0x95ED]"

definition t_totp_needed :: string where
  "t_totp_needed =
     uni [0x8FD8, 0x9700, 0x8981, 0x4E24, 0x6B65, 0x9A8C, 0x8BC1, 0x7801]"

definition t_totp_wrong :: string where
  "t_totp_wrong =
     uni [0x9A8C, 0x8BC1, 0x7801, 0x4E0D, 0x6B63, 0x786E]"

definition t_login_failed :: string where
  "t_login_failed =
     uni [0x767B, 0x5F55, 0x5931, 0x8D25]"

definition t_no_passkey_credential :: string where
  "t_no_passkey_credential =
     uni [0x672A, 0x53D6, 0x5F97] @ '' Passkey '' @ uni [0x51ED, 0x636E]"

definition t_passkey_cancelled :: string where
  "t_passkey_cancelled =
     uni [0x5DF2, 0x53D6, 0x6D88] @ '' Passkey '' @ uni [0x767B, 0x5F55]"

definition t_passkey_failed :: string where
  "t_passkey_failed =
     ''Passkey '' @ uni [0x767B, 0x5F55, 0x5931, 0x8D25]"

definition t_login_hero :: string where
  "t_login_hero =
     uni [0x628A, 0x670D, 0x52A1, 0x5668, 0x7BA1, 0x7406, 0xFF0C, 0x6536, 0x8FDB, 0x4E00, 0x4E2A,
     0x6E05, 0x6670, 0x7684, 0x754C, 0x9762, 0x3002]"

definition t_login_lead :: string where
  "t_login_lead =
     ''LukePanel '' @ uni [0x4E13, 0x6CE8, 0x4E8E] @ '' VPS '' @ uni [0x4E0E, 0x5BB6, 0x5EAD, 0x670D,
     0x52A1, 0x5668, 0x7684, 0x65E5, 0x5E38, 0x8FD0, 0x7EF4, 0xFF0C, 0x6240, 0x6709, 0x9AD8, 0x98CE,
     0x9669, 0x64CD, 0x4F5C, 0x90FD, 0x8981, 0x6C42, 0x4E8C, 0x6B21, 0x786E, 0x8BA4, 0x3002]"

definition t_react_suffix :: string where
  "t_react_suffix =
     '' '' @ uni [0x00B7] @ '' React 18''"

definition t_login_title :: string where
  "t_login_title =
     uni [0x767B, 0x5F55] @ '' LukePanel''"

definition t_passkey_login :: string where
  "t_passkey_login =
     ''Passkey '' @ uni [0x767B, 0x5F55]"

definition t_account_password :: string where
  "t_account_password =
     uni [0x8D26, 0x6237, 0x5BC6, 0x7801]"

definition t_username :: string where
  "t_username =
     uni [0x7528, 0x6237, 0x540D]"

definition t_password :: string where
  "t_password =
     uni [0x5BC6, 0x7801]"

definition t_otp_or_recovery :: string where
  "t_otp_or_recovery =
     uni [0x9A8C, 0x8BC1, 0x7801, 0x6216, 0x6062, 0x590D, 0x7801]"

definition t_verify_and_login :: string where
  "t_verify_and_login =
     uni [0x9A8C, 0x8BC1, 0x5E76, 0x767B, 0x5F55]"

definition t_password_login :: string where
  "t_password_login =
     uni [0x8D26, 0x6237, 0x5BC6, 0x7801, 0x767B, 0x5F55]"

definition t_live_status :: string where
  "t_live_status =
     uni [0x5B9E, 0x65F6, 0x72B6, 0x6001]"

definition t_server :: string where
  "t_server =
     uni [0x670D, 0x52A1, 0x5668]"

definition t_uptime :: string where
  "t_uptime =
     uni [0x8FD0, 0x884C, 0x65F6, 0x95F4]"

definition t_cpu_usage :: string where
  "t_cpu_usage =
     ''CPU '' @ uni [0x4F7F, 0x7528, 0x7387]"

definition t_cores_load :: string where
  "t_cores_load =
     '' '' @ uni [0x6838] @ '' '' @ uni [0x00B7] @ '' '' @ uni [0x8D1F, 0x8F7D] @ '' ''"

definition t_memory_usage :: string where
  "t_memory_usage =
     uni [0x5185, 0x5B58, 0x4F7F, 0x7528, 0x7387]"

definition t_system_disk :: string where
  "t_system_disk =
     uni [0x7CFB, 0x7EDF, 0x76D8]"

definition t_resource_usage :: string where
  "t_resource_usage =
     uni [0x8D44, 0x6E90, 0x4F7F, 0x7528]"

definition t_resource_usage_sub :: string where
  "t_resource_usage_sub =
     uni [0x670D, 0x52A1, 0x5668, 0x5F53, 0x524D, 0x8D44, 0x6E90, 0x5360, 0x7528]"

definition t_view_processes :: string where
  "t_view_processes =
     uni [0x67E5, 0x770B, 0x8FDB, 0x7A0B]"

definition t_cores :: string where
  "t_cores =
     '' '' @ uni [0x6838, 0x5FC3]"

definition t_memory :: string where
  "t_memory =
     uni [0x5185, 0x5B58]"

definition t_not_configured :: string where
  "t_not_configured =
     uni [0x672A, 0x914D, 0x7F6E]"

definition t_create_in_host :: string where
  "t_create_in_host =
     uni [0x53EF, 0x5728, 0x4E3B, 0x673A, 0x8BBE, 0x7F6E, 0x4E2D, 0x521B, 0x5EFA]"

definition t_runtime_env :: string where
  "t_runtime_env =
     uni [0x8FD0, 0x884C, 0x73AF, 0x5883]"

definition t_runtime_env_sub :: string where
  "t_runtime_env_sub =
     uni [0x57FA, 0x7840, 0x7CFB, 0x7EDF, 0x4E0E, 0x5B89, 0x5168, 0x72B6, 0x6001]"

definition t_hostname :: string where
  "t_hostname =
     uni [0x4E3B, 0x673A, 0x540D]"

definition t_kernel :: string where
  "t_kernel =
     uni [0x5185, 0x6838]"

definition t_architecture :: string where
  "t_architecture =
     uni [0x67B6, 0x6784]"

definition t_read_failed :: string where
  "t_read_failed =
     uni [0x8BFB, 0x53D6, 0x5931, 0x8D25]"

definition t_available_dot :: string where
  "t_available_dot =
     uni [0x53EF, 0x7528] @ '' '' @ uni [0x00B7] @ '' ''"

definition t_version_unknown :: string where
  "t_version_unknown =
     uni [0x7248, 0x672C, 0x672A, 0x77E5]"

definition t_unavailable :: string where
  "t_unavailable =
     uni [0x4E0D, 0x53EF, 0x7528]"

definition t_state_unknown :: string where
  "t_state_unknown =
     uni [0x72B6, 0x6001, 0x672A, 0x77E5]"

definition t_security_score :: string where
  "t_security_score =
     uni [0x5B89, 0x5168, 0x8BC4, 0x5206]"

definition t_not_evaluated :: string where
  "t_not_evaluated =
     uni [0x672A, 0x8BC4, 0x4F30]"

definition t_shortcuts :: string where
  "t_shortcuts =
     uni [0x5FEB, 0x6377, 0x5165, 0x53E3]"

definition t_shortcuts_sub :: string where
  "t_shortcuts_sub =
     uni [0x5E38, 0x7528, 0x7BA1, 0x7406, 0x80FD, 0x529B]"

definition t_sc_files :: string where
  "t_sc_files =
     uni [0x6D4F, 0x89C8, 0x3001, 0x7F16, 0x8F91, 0x4E0E, 0x5B89, 0x5168, 0x4E0A, 0x4F20]"

definition t_sc_updates :: string where
  "t_sc_updates =
     uni [0x66F4, 0x65B0, 0x7CFB, 0x7EDF, 0x548C, 0x7BA1, 0x7406, 0x8F6F, 0x4EF6, 0x6E90]"

definition t_sc_audit :: string where
  "t_sc_audit =
     uni [0x5BA1, 0x8BA1, 0x64CD, 0x4F5C, 0x548C, 0x7CFB, 0x7EDF, 0x65E5, 0x5FD7]"

definition t_sc_security :: string where
  "t_sc_security =
     uni [0x9632, 0x706B, 0x5899, 0x4E0E, 0x767B, 0x5F55, 0x9632, 0x62A4]"

definition t_system_admin :: string where
  "t_system_admin =
     uni [0x7CFB, 0x7EDF, 0x7BA1, 0x7406]"

definition t_system_admin_sub :: string where
  "t_system_admin_sub =
     uni [0x8FDB, 0x5165, 0x5177, 0x4F53, 0x6A21, 0x5757, 0x540E, 0x624D, 0x663E, 0x793A, 0x8FD4,
     0x56DE, 0x6309, 0x94AE, 0xFF1B, 0x5F53, 0x524D, 0x4E00, 0x7EA7, 0x9875, 0x9762, 0x4E0D, 0x663E,
     0x793A, 0x8FD4, 0x56DE]"

definition t_has_been :: string where
  "t_has_been =
     '' '' @ uni [0x5DF2]"

definition t_restart :: string where
  "t_restart =
     uni [0x91CD, 0x542F]"

definition t_start :: string where
  "t_start =
     uni [0x542F, 0x52A8]"

definition t_stop :: string where
  "t_stop =
     uni [0x505C, 0x6B62]"

definition t_service_action_failed :: string where
  "t_service_action_failed =
     uni [0x670D, 0x52A1, 0x64CD, 0x4F5C, 0x5931, 0x8D25]"

definition t_logs_suffix :: string where
  "t_logs_suffix =
     '' '' @ uni [0x00B7] @ '' '' @ uni [0x65E5, 0x5FD7]"

definition t_read_logs_failed :: string where
  "t_read_logs_failed =
     uni [0x8BFB, 0x53D6, 0x65E5, 0x5FD7, 0x5931, 0x8D25]"

definition t_search_services :: string where
  "t_search_services =
     uni [0x641C, 0x7D22, 0x670D, 0x52A1]"

definition t_logs :: string where
  "t_logs =
     uni [0x65E5, 0x5FD7]"

definition t_no_matching_services :: string where
  "t_no_matching_services =
     uni [0x6CA1, 0x6709, 0x5339, 0x914D, 0x7684, 0x670D, 0x52A1]"

definition t_adjust_search :: string where
  "t_adjust_search =
     uni [0x8C03, 0x6574, 0x641C, 0x7D22, 0x6761, 0x4EF6, 0x540E, 0x91CD, 0x8BD5]"

definition t_kill_process :: string where
  "t_kill_process =
     uni [0x5F3A, 0x5236, 0x7ED3, 0x675F, 0x8FDB, 0x7A0B]"

definition t_end_process :: string where
  "t_end_process =
     uni [0x7ED3, 0x675F, 0x8FDB, 0x7A0B]"

definition t_mid_dot :: string where
  "t_mid_dot =
     '' '' @ uni [0x00B7] @ '' ''"

definition t_force_kill :: string where
  "t_force_kill =
     uni [0x5F3A, 0x5236, 0x7ED3, 0x675F]"

definition t_send_sigterm :: string where
  "t_send_sigterm =
     uni [0x53D1, 0x9001] @ '' SIGTERM''"

definition t_signal_sent :: string where
  "t_signal_sent =
     uni [0x4FE1, 0x53F7, 0x5DF2, 0x53D1, 0x9001]"

definition t_process_action_failed :: string where
  "t_process_action_failed =
     uni [0x8FDB, 0x7A0B, 0x64CD, 0x4F5C, 0x5931, 0x8D25]"

definition t_search_processes :: string where
  "t_search_processes =
     ''PID'' @ uni [0x3001, 0x7528, 0x6237, 0x6216, 0x547D, 0x4EE4]"

definition t_process_sort :: string where
  "t_process_sort =
     uni [0x8FDB, 0x7A0B, 0x6392, 0x5E8F, 0x65B9, 0x5F0F]"

definition t_sort_cpu :: string where
  "t_sort_cpu =
     ''CPU '' @ uni [0x6392, 0x5E8F]"

definition t_sort_memory :: string where
  "t_sort_memory =
     uni [0x5185, 0x5B58, 0x6392, 0x5E8F]"

definition t_sort_pid :: string where
  "t_sort_pid =
     ''PID '' @ uni [0x6392, 0x5E8F]"

definition t_user :: string where
  "t_user =
     uni [0x7528, 0x6237]"

definition t_process :: string where
  "t_process =
     uni [0x8FDB, 0x7A0B]"

definition t_actions :: string where
  "t_actions =
     uni [0x64CD, 0x4F5C]"

definition t_end_it :: string where
  "t_end_it =
     uni [0x7ED3, 0x675F]"

definition t_force :: string where
  "t_force =
     uni [0x5F3A, 0x5236]"

definition t_no_matching_processes :: string where
  "t_no_matching_processes =
     uni [0x6CA1, 0x6709, 0x5339, 0x914D, 0x7684, 0x8FDB, 0x7A0B]"

definition t_no_address :: string where
  "t_no_address =
     uni [0x65E0, 0x5730, 0x5740]"

definition t_arrow_down :: string where
  "t_arrow_down =
     uni [0x2193] @ '' ''"

definition t_arrow_up :: string where
  "t_arrow_up =
     uni [0x2191] @ '' ''"

definition t_listening_ports :: string where
  "t_listening_ports =
     uni [0x76D1, 0x542C, 0x7AEF, 0x53E3]"

definition t_listening_ports_sub :: string where
  "t_listening_ports_sub =
     uni [0x6765, 0x81EA, 0x7CFB, 0x7EDF, 0x5F53, 0x524D, 0x76D1, 0x542C, 0x72B6, 0x6001]"

definition t_no_listening :: string where
  "t_no_listening =
     uni [0x672A, 0x8BFB, 0x53D6, 0x5230, 0x76D1, 0x542C, 0x7AEF, 0x53E3]"

definition t_active_connections :: string where
  "t_active_connections =
     uni [0x6D3B, 0x52A8, 0x8FDE, 0x63A5]"

definition t_show_virtual :: string where
  "t_show_virtual =
     uni [0x663E, 0x793A, 0x865A, 0x62DF, 0x6302, 0x8F7D]"

definition t_virtual :: string where
  "t_virtual =
     uni [0x865A, 0x62DF]"

definition t_no_mounts :: string where
  "t_no_mounts =
     uni [0x6682, 0x65E0, 0x6302, 0x8F7D, 0x70B9]"

definition t_task_created :: string where
  "t_task_created =
     uni [0x8BA1, 0x5212, 0x4EFB, 0x52A1, 0x5DF2, 0x521B, 0x5EFA, 0x5E76, 0x542F, 0x7528]"

definition t_create_failed :: string where
  "t_create_failed =
     uni [0x521B, 0x5EFA, 0x5931, 0x8D25]"

definition t_name :: string where
  "t_name =
     uni [0x540D, 0x79F0]"

definition t_task_name_example :: string where
  "t_task_name_example =
     uni [0x4F8B, 0x5982, 0xFF1A, 0x6BCF, 0x65E5, 0x914D, 0x7F6E, 0x5907, 0x4EFD]"

definition t_task_type :: string where
  "t_task_type =
     uni [0x4EFB, 0x52A1, 0x7C7B, 0x578B]"

definition t_service_name :: string where
  "t_service_name =
     uni [0x670D, 0x52A1, 0x540D, 0x79F0]"

definition t_container_name :: string where
  "t_container_name =
     uni [0x5BB9, 0x5668, 0x540D, 0x79F0]"

definition t_service_name_hint :: string where
  "t_service_name_hint =
     uni [0x5FC5, 0x987B, 0x662F, 0x5B8C, 0x6574, 0x7684] @ '' .service '' @ uni [0x5355, 0x5143,
     0x540D]"

definition t_container_name_hint :: string where
  "t_container_name_hint =
     uni [0x586B, 0x5199, 0x73B0, 0x6709] @ '' Docker '' @ uni [0x5BB9, 0x5668, 0x540D, 0x79F0]"

definition t_cleanup_notice :: string where
  "t_cleanup_notice =
     uni [0x53EA, 0x6267, 0x884C] @ '' docker system prune -f'' @ uni [0xFF0C, 0x4E0D, 0x4F1A,
     0x5220, 0x9664, 0x6B63, 0x5728, 0x4F7F, 0x7528, 0x7684, 0x8D44, 0x6E90, 0x3002]"

definition t_backup_notice :: string where
  "t_backup_notice =
     uni [0x7531] @ '' LukePanel '' @ uni [0x521B, 0x5EFA, 0x914D, 0x7F6E, 0x5907, 0x4EFD, 0x5E76,
     0x6309, 0x5B9A, 0x65F6, 0x5907, 0x4EFD, 0x7B56, 0x7565, 0x4FDD, 0x7559, 0x3002]"

definition t_frequency :: string where
  "t_frequency =
     uni [0x6267, 0x884C, 0x9891, 0x7387]"

definition t_hourly :: string where
  "t_hourly =
     uni [0x6BCF, 0x5C0F, 0x65F6]"

definition t_daily :: string where
  "t_daily =
     uni [0x6BCF, 0x5929]"

definition t_hour_field :: string where
  "t_hour_field =
     uni [0x5C0F, 0x65F6, 0xFF08] @ ''0-23'' @ uni [0xFF09]"

definition t_weekday_field :: string where
  "t_weekday_field =
     uni [0x661F, 0x671F]"

definition t_minute_field :: string where
  "t_minute_field =
     uni [0x5206, 0x949F, 0xFF08] @ ''0-59'' @ uni [0xFF09]"

definition t_create_and_enable :: string where
  "t_create_and_enable =
     uni [0x521B, 0x5EFA, 0x5E76, 0x542F, 0x7528]"

definition t_no_timer_output :: string where
  "t_no_timer_output =
     uni [0x672A, 0x8BFB, 0x53D6, 0x5230] @ '' systemd timer '' @ uni [0x8F93, 0x51FA]"

definition t_create_task_title :: string where
  "t_create_task_title =
     uni [0x521B, 0x5EFA, 0x8BA1, 0x5212, 0x4EFB, 0x52A1]"

definition t_delete_task :: string where
  "t_delete_task =
     uni [0x5220, 0x9664, 0x8BA1, 0x5212, 0x4EFB, 0x52A1]"

definition t_delete_task_detail :: string where
  "t_delete_task_detail =
     uni [0x5BF9, 0x5E94, 0x7684] @ '' systemd service '' @ uni [0x548C] @ '' timer '' @ uni [0x4F1A,
     0x4E00, 0x8D77, 0x79FB, 0x9664, 0x3002]"

definition t_delete :: string where
  "t_delete =
     uni [0x5220, 0x9664]"

definition t_task_started :: string where
  "t_task_started =
     uni [0x4EFB, 0x52A1, 0x5DF2, 0x5F00, 0x59CB]"

definition t_task_deleted :: string where
  "t_task_deleted =
     uni [0x4EFB, 0x52A1, 0x5DF2, 0x5220, 0x9664]"

definition t_task_updated :: string where
  "t_task_updated =
     uni [0x4EFB, 0x52A1, 0x72B6, 0x6001, 0x5DF2, 0x66F4, 0x65B0]"

definition t_task_action_failed :: string where
  "t_task_action_failed =
     uni [0x4EFB, 0x52A1, 0x64CD, 0x4F5C, 0x5931, 0x8D25]"

definition t_new_task :: string where
  "t_new_task =
     uni [0x65B0, 0x5EFA, 0x4EFB, 0x52A1]"

definition t_tasks_managed :: string where
  "t_tasks_managed =
     uni [0x7531] @ '' LukePanel '' @ uni [0x7BA1, 0x7406, 0x5E76, 0x751F, 0x6210, 0x72EC, 0x7ACB,
     0x7684] @ '' systemd service '' @ uni [0x4E0E] @ '' timer''"

definition t_next_run :: string where
  "t_next_run =
     uni [0x4E0B, 0x6B21, 0xFF1A]"

definition t_last_run :: string where
  "t_last_run =
     uni [0x4E0A, 0x6B21, 0xFF1A]"

definition t_never_run :: string where
  "t_never_run =
     uni [0x5C1A, 0x672A, 0x8FD0, 0x884C]"

definition t_run :: string where
  "t_run =
     uni [0x8FD0, 0x884C]"

definition t_disable :: string where
  "t_disable =
     uni [0x505C, 0x7528]"

definition t_enable :: string where
  "t_enable =
     uni [0x542F, 0x7528]"

definition t_no_tasks :: string where
  "t_no_tasks =
     uni [0x6682, 0x65E0, 0x8BA1, 0x5212, 0x4EFB, 0x52A1]"

definition t_no_tasks_detail :: string where
  "t_no_tasks_detail =
     ''LukePanel '' @ uni [0x4EC5, 0x5141, 0x8BB8, 0x9884, 0x5B9A, 0x4E49, 0x7684, 0x5B89, 0x5168,
     0x4EFB, 0x52A1, 0x7C7B, 0x578B, 0xFF0C, 0x4E0D, 0x652F, 0x6301, 0x4EFB, 0x610F, 0x547D, 0x4EE4,
     0x6267, 0x884C]"

definition t_create_task :: string where
  "t_create_task =
     uni [0x521B, 0x5EFA, 0x4EFB, 0x52A1]"

definition t_system_timers :: string where
  "t_system_timers =
     uni [0x7CFB, 0x7EDF] @ '' Timers''"

definition t_system_timers_sub :: string where
  "t_system_timers_sub =
     uni [0x540E, 0x7AEF, 0x8FD4, 0x56DE] @ '' systemctl list-timers '' @ uni [0x7684, 0x539F,
     0x59CB, 0x8F93, 0x51FA, 0xFF0C, 0x4E0D, 0x4F2A, 0x9020, 0x7ED3, 0x6784, 0x5316, 0x72B6, 0x6001]"

definition t_search_failed :: string where
  "t_search_failed =
     uni [0x641C, 0x7D22, 0x5931, 0x8D25]"

definition t_download_only_updates :: string where
  "t_download_only_updates =
     uni [0x53EA, 0x4E0B, 0x8F7D, 0x66F4, 0x65B0]"

definition t_run_system_upgrade :: string where
  "t_run_system_upgrade =
     uni [0x6267, 0x884C, 0x7CFB, 0x7EDF, 0x5347, 0x7EA7]"

definition t_install_package :: string where
  "t_install_package =
     uni [0x5B89, 0x88C5, 0x8F6F, 0x4EF6, 0x5305]"

definition t_remove_package :: string where
  "t_remove_package =
     uni [0x5378, 0x8F7D, 0x8F6F, 0x4EF6, 0x5305]"

definition t_no_apt :: string where
  "t_no_apt =
     uni [0x5F53, 0x524D, 0x7CFB, 0x7EDF, 0x6CA1, 0x6709] @ '' apt-get''"

definition t_apt_busy :: string where
  "t_apt_busy =
     ''APT '' @ uni [0x6B63, 0x88AB, 0x5176, 0x4ED6, 0x8FDB, 0x7A0B, 0x5360, 0x7528]"

definition t_long_operation :: string where
  "t_long_operation =
     uni [0x8BE5, 0x64CD, 0x4F5C, 0x53EF, 0x80FD, 0x6301, 0x7EED, 0x6570, 0x5206, 0x949F, 0xFF0C,
     0x671F, 0x95F4, 0x8BF7, 0x52FF, 0x5173, 0x95ED, 0x670D, 0x52A1, 0x5668, 0x3002]"

definition t_confirm :: string where
  "t_confirm =
     uni [0x786E, 0x8BA4]"

definition t_completed :: string where
  "t_completed =
     uni [0x5DF2, 0x5B8C, 0x6210]"

definition t_result :: string where
  "t_result =
     uni [0x7ED3, 0x679C]"

definition t_package_action_failed :: string where
  "t_package_action_failed =
     uni [0x8F6F, 0x4EF6, 0x64CD, 0x4F5C, 0x5931, 0x8D25]"

definition t_delete_source :: string where
  "t_delete_source =
     uni [0x5220, 0x9664, 0x8F6F, 0x4EF6, 0x6E90]"

definition t_source_updated :: string where
  "t_source_updated =
     uni [0x8F6F, 0x4EF6, 0x6E90, 0x5DF2, 0x66F4, 0x65B0]"

definition t_source_action_failed :: string where
  "t_source_action_failed =
     uni [0x8F6F, 0x4EF6, 0x6E90, 0x64CD, 0x4F5C, 0x5931, 0x8D25]"

definition t_add_source :: string where
  "t_add_source =
     uni [0x6DFB, 0x52A0, 0x8F6F, 0x4EF6, 0x6E90]"

definition t_source_added :: string where
  "t_source_added =
     uni [0x8F6F, 0x4EF6, 0x6E90, 0x5DF2, 0x6DFB, 0x52A0]"

definition t_add_failed :: string where
  "t_add_failed =
     uni [0x6DFB, 0x52A0, 0x5931, 0x8D25]"

definition t_file_name :: string where
  "t_file_name =
     uni [0x6587, 0x4EF6, 0x540D]"

definition t_file_name_hint :: string where
  "t_file_name_hint =
     uni [0x4EC5, 0x586B, 0x5199, 0x6587, 0x4EF6, 0x540D, 0xFF0C, 0x4F8B, 0x5982] @ ''
     custom.sources''"

definition t_source_content :: string where
  "t_source_content =
     uni [0x8F6F, 0x4EF6, 0x6E90, 0x5185, 0x5BB9]"

definition t_add :: string where
  "t_add =
     uni [0x6DFB, 0x52A0]"

definition t_apt_missing :: string where
  "t_apt_missing =
     uni [0x5F53, 0x524D, 0x7CFB, 0x7EDF, 0x672A, 0x68C0, 0x6D4B, 0x5230] @ '' apt-get'' @ uni
     [0xFF0C, 0x8F6F, 0x4EF6, 0x66F4, 0x65B0, 0x4E0E, 0x5B89, 0x88C5, 0x529F, 0x80FD, 0x4E0D, 0x53EF,
     0x7528, 0x3002]"

definition t_apt_busy_by :: string where
  "t_apt_busy_by =
     ''APT '' @ uni [0x6B63, 0x88AB, 0x5176, 0x4ED6, 0x8FDB, 0x7A0B, 0x5360, 0x7528, 0xFF1A]"

definition t_refresh_later :: string where
  "t_refresh_later =
     uni [0x8BF7, 0x7A0D, 0x540E, 0x5237, 0x65B0]"

definition t_reboot_required :: string where
  "t_reboot_required =
     uni [0x7CFB, 0x7EDF, 0x68C0, 0x6D4B, 0x5230, 0x9700, 0x8981, 0x91CD, 0x542F, 0x624D, 0x80FD,
     0x5B8C, 0x6210, 0x5DF2, 0x5B89, 0x88C5, 0x66F4, 0x65B0, 0x3002]"

definition t_upgradable :: string where
  "t_upgradable =
     uni [0x53EF, 0x5347, 0x7EA7]"

definition t_packages_unit :: string where
  "t_packages_unit =
     uni [0x4E2A, 0x8F6F, 0x4EF6, 0x5305]"

definition t_newly_installed :: string where
  "t_newly_installed =
     uni [0x65B0, 0x5B89, 0x88C5]"

definition t_newly_installed_sub :: string where
  "t_newly_installed_sub =
     uni [0x5347, 0x7EA7, 0x8FC7, 0x7A0B, 0x4E2D, 0x65B0, 0x589E]"

definition t_to_remove :: string where
  "t_to_remove =
     uni [0x5C06, 0x5220, 0x9664]"

definition t_to_remove_sub :: string where
  "t_to_remove_sub =
     uni [0x5347, 0x7EA7, 0x8FC7, 0x7A0B, 0x4E2D, 0x79FB, 0x9664]"

definition t_expected_download :: string where
  "t_expected_download =
     uni [0x9884, 0x8BA1, 0x4E0B, 0x8F7D]"

definition t_disk_change :: string where
  "t_disk_change =
     uni [0x78C1, 0x76D8, 0x53D8, 0x5316] @ '' ''"

definition t_system_update :: string where
  "t_system_update =
     uni [0x7CFB, 0x7EDF, 0x66F4, 0x65B0]"

definition t_system_update_sub :: string where
  "t_system_update_sub =
     uni [0x6570, 0x636E, 0x6765, 0x81EA] @ '' apt-get '' @ uni [0x6A21, 0x62DF, 0x6267, 0x884C,
     0x7ED3, 0x679C, 0xFF1B, 0x64CD, 0x4F5C, 0x8FD4, 0x56DE, 0x540E, 0x624D, 0x8868, 0x793A, 0x5B8C,
     0x6210]"

definition t_download_only :: string where
  "t_download_only =
     uni [0x53EA, 0x4E0B, 0x8F7D]"

definition t_run_upgrade :: string where
  "t_run_upgrade =
     uni [0x6267, 0x884C, 0x5347, 0x7EA7]"

definition t_no_pending_updates :: string where
  "t_no_pending_updates =
     uni [0x5F53, 0x524D, 0x6CA1, 0x6709, 0x5F85, 0x66F4, 0x65B0, 0x8F6F, 0x4EF6, 0x5305, 0xFF0C,
     0x6216, 0x5C1A, 0x672A, 0x53D6, 0x5F97, 0x9884, 0x68C0, 0x7ED3, 0x679C, 0x3002]"

definition t_apt_raw_output :: string where
  "t_apt_raw_output =
     ''APT '' @ uni [0x9884, 0x68C0, 0x539F, 0x59CB, 0x8F93, 0x51FA]"

definition t_search_packages :: string where
  "t_search_packages =
     uni [0x641C, 0x7D22, 0x8F6F, 0x4EF6, 0x5305]"

definition t_two_chars :: string where
  "t_two_chars =
     uni [0x81F3, 0x5C11, 0x8F93, 0x5165, 0x4E24, 0x4E2A, 0x5B57, 0x7B26]"

definition t_package_example :: string where
  "t_package_example =
     uni [0x4F8B, 0x5982] @ '' nginx'' @ uni [0x3001] @ ''curl''"

definition t_search :: string where
  "t_search =
     uni [0x641C, 0x7D22]"

definition t_uninstall :: string where
  "t_uninstall =
     uni [0x5378, 0x8F7D]"

definition t_install :: string where
  "t_install =
     uni [0x5B89, 0x88C5]"

definition t_sources :: string where
  "t_sources =
     uni [0x8F6F, 0x4EF6, 0x6E90]"

definition t_sources_sub :: string where
  "t_sources_sub =
     uni [0x542F, 0x505C, 0x6216, 0x7EF4, 0x62A4] @ '' APT '' @ uni [0x6E90, 0x6587, 0x4EF6]"

definition t_no_sources :: string where
  "t_no_sources =
     uni [0x6CA1, 0x6709, 0x68C0, 0x6D4B, 0x5230, 0x53EF, 0x7BA1, 0x7406, 0x7684, 0x8F6F, 0x4EF6,
     0x6E90]"

definition t_change_failed :: string where
  "t_change_failed =
     uni [0x4FEE, 0x6539, 0x5931, 0x8D25]"

definition t_swap_not_managed :: string where
  "t_swap_not_managed =
     uni [0x5F53, 0x524D] @ '' Swap '' @ uni [0x4E0D, 0x662F] @ '' LukePanel '' @ uni [0x7BA1,
     0x7406, 0x7684] @ '' /swapfile'' @ uni [0xFF0C, 0x4E0D, 0x80FD, 0x81EA, 0x52A8, 0x5220, 0x9664]"

definition t_delete_swap :: string where
  "t_delete_swap =
     uni [0x5220, 0x9664] @ '' Swap''"

definition t_delete_swap_detail :: string where
  "t_delete_swap_detail =
     uni [0x5C06, 0x5173, 0x95ED, 0x5E76, 0x6C38, 0x4E45, 0x5220, 0x9664] @ '' LukePanel '' @ uni
     [0x7BA1, 0x7406, 0x7684] @ '' /swapfile'' @ uni [0x3002]"

definition t_swap_deleted :: string where
  "t_swap_deleted =
     ''Swap '' @ uni [0x5DF2, 0x5220, 0x9664]"

definition t_delete_swap_failed :: string where
  "t_delete_swap_failed =
     uni [0x5220, 0x9664] @ '' Swap '' @ uni [0x5931, 0x8D25]"

definition t_basic_info :: string where
  "t_basic_info =
     uni [0x57FA, 0x7840, 0x4FE1, 0x606F]"

definition t_basic_info_sub :: string where
  "t_basic_info_sub =
     uni [0x4E3B, 0x673A, 0x540D, 0x4E0E, 0x7CFB, 0x7EDF, 0x65F6, 0x533A]"

definition t_basic_updated :: string where
  "t_basic_updated =
     uni [0x57FA, 0x7840, 0x8BBE, 0x7F6E, 0x5DF2, 0x66F4, 0x65B0]"

definition t_timezone :: string where
  "t_timezone =
     uni [0x65F6, 0x533A]"

definition t_save_basic :: string where
  "t_save_basic =
     uni [0x4FDD, 0x5B58, 0x57FA, 0x7840, 0x8BBE, 0x7F6E]"

definition t_dns_servers :: string where
  "t_dns_servers =
     ''DNS '' @ uni [0x670D, 0x52A1, 0x5668]"

definition t_dns_managed :: string where
  "t_dns_managed =
     uni [0x7531] @ '' systemd-resolved '' @ uni [0x7BA1, 0x7406, 0xFF0C, 0x6BCF, 0x884C, 0x4E00,
     0x4E2A, 0x5730, 0x5740]"

definition t_dns_unmanaged :: string where
  "t_dns_unmanaged =
     uni [0x5F53, 0x524D, 0x672A, 0x8FD0, 0x884C] @ '' systemd-resolved'' @ uni [0xFF0C] @
     ''LukePanel '' @ uni [0x4E0D, 0x4F1A, 0x63A5, 0x7BA1] @ '' resolv.conf''"

definition t_dns_unavailable :: string where
  "t_dns_unavailable =
     uni [0x5F53, 0x524D, 0x7CFB, 0x7EDF, 0x6CA1, 0x6709, 0x8FD0, 0x884C] @ '' systemd-resolved'' @
     uni [0xFF0C, 0x6B64, 0x8868, 0x5355, 0x4E0D, 0x53EF, 0x7528, 0x3002]"

definition t_dns_updated :: string where
  "t_dns_updated =
     ''DNS '' @ uni [0x5DF2, 0x66F4, 0x65B0, 0x5E76, 0x5B8C, 0x6210, 0x89E3, 0x6790, 0x9A8C, 0x8BC1]"

definition t_dns_address :: string where
  "t_dns_address =
     ''DNS '' @ uni [0x5730, 0x5740]"

definition t_save_dns :: string where
  "t_save_dns =
     uni [0x4FDD, 0x5B58] @ '' DNS''"

definition t_ntp_sync :: string where
  "t_ntp_sync =
     ''NTP '' @ uni [0x65F6, 0x95F4, 0x540C, 0x6B65]"

definition t_ntp_sync_sub :: string where
  "t_ntp_sync_sub =
     uni [0x4EC5, 0x63A7, 0x5236, 0x7CFB, 0x7EDF] @ '' NTP '' @ uni [0x5F00, 0x5173, 0xFF1B, 0x5237,
     0x65B0, 0x72B6, 0x6001, 0x4E0D, 0x4F1A, 0x4FEE, 0x6539, 0x670D, 0x52A1, 0x5668]"

definition t_service :: string where
  "t_service =
     uni [0x670D, 0x52A1]"

definition t_status :: string where
  "t_status =
     uni [0x72B6, 0x6001]"

definition t_synced :: string where
  "t_synced =
     uni [0x5DF2, 0x540C, 0x6B65]"

definition t_waiting_sync :: string where
  "t_waiting_sync =
     uni [0x7B49, 0x5F85, 0x540C, 0x6B65]"

definition t_turned_off :: string where
  "t_turned_off =
     uni [0x5DF2, 0x5173, 0x95ED]"

definition t_server_address :: string where
  "t_server_address =
     uni [0x670D, 0x52A1, 0x5668, 0x5730, 0x5740]"

definition t_last_sync :: string where
  "t_last_sync =
     uni [0x4E0A, 0x6B21, 0x540C, 0x6B65]"

definition t_poll_interval :: string where
  "t_poll_interval =
     uni [0x8F6E, 0x8BE2, 0x95F4, 0x9694]"

definition t_refresh_status :: string where
  "t_refresh_status =
     uni [0x5237, 0x65B0, 0x72B6, 0x6001]"

definition t_ntp_off :: string where
  "t_ntp_off =
     ''NTP '' @ uni [0x5DF2, 0x5173, 0x95ED]"

definition t_ntp_on :: string where
  "t_ntp_on =
     ''NTP '' @ uni [0x5DF2, 0x5F00, 0x542F]"

definition t_disable_ntp :: string where
  "t_disable_ntp =
     uni [0x5173, 0x95ED] @ '' NTP''"

definition t_enable_ntp :: string where
  "t_enable_ntp =
     uni [0x5F00, 0x542F] @ '' NTP''"

definition t_swap_sub :: string where
  "t_swap_sub =
     uni [0x53EA, 0x4F1A, 0x81EA, 0x52A8, 0x5220, 0x9664] @ '' LukePanel '' @ uni [0x521B, 0x5EFA,
     0x7684] @ '' /swapfile''"

definition t_total_capacity :: string where
  "t_total_capacity =
     uni [0x603B, 0x5BB9, 0x91CF]"

definition t_used :: string where
  "t_used =
     uni [0x5DF2, 0x4F7F, 0x7528]"

definition t_path :: string where
  "t_path =
     uni [0x8DEF, 0x5F84]"

definition t_managed_by_panel :: string where
  "t_managed_by_panel =
     ''LukePanel '' @ uni [0x7BA1, 0x7406]"

definition t_yes :: string where
  "t_yes =
     uni [0x662F]"

definition t_no :: string where
  "t_no =
     uni [0x5426]"

definition t_swap_created :: string where
  "t_swap_created =
     ''Swap '' @ uni [0x5DF2, 0x521B, 0x5EFA]"

definition t_swap_size :: string where
  "t_swap_size =
     ''Swap '' @ uni [0x5927, 0x5C0F] @ '' MB''"

definition t_create_swap :: string where
  "t_create_swap =
     uni [0x521B, 0x5EFA] @ '' Swap''"

definition t_swap_foreign :: string where
  "t_swap_foreign =
     uni [0x68C0, 0x6D4B, 0x5230, 0x7CFB, 0x7EDF, 0x5DF2, 0x6709] @ '' Swap'' @ uni [0xFF0C, 0x4F46,
     0x4E0D, 0x662F] @ '' LukePanel '' @ uni [0x7BA1, 0x7406, 0x7684] @ '' /swapfile'' @ uni [0xFF0C,
     0x56E0, 0x6B64, 0x4E0D, 0x4F1A, 0x63D0, 0x4F9B, 0x5220, 0x9664, 0x6216, 0x8C03, 0x6574, 0x64CD,
     0x4F5C, 0x3002]"

definition t_kernel_tuning :: string where
  "t_kernel_tuning =
     uni [0x5185, 0x6838, 0x4F18, 0x5316, 0x65B9, 0x6848]"

definition t_kernel_tuning_sub :: string where
  "t_kernel_tuning_sub =
     uni [0x4EC5, 0x5E94, 0x7528, 0x540E, 0x7AEF, 0x660E, 0x786E, 0x652F, 0x6301, 0x5E76, 0x53EF,
     0x56DE, 0x6EDA, 0x7684, 0x9884, 0x8BBE, 0xFF0C, 0x4E0D, 0x5141, 0x8BB8, 0x4EFB, 0x610F, 0x5199,
     0x5165] @ '' sysctl''"

definition t_current_preset :: string where
  "t_current_preset =
     uni [0x5F53, 0x524D, 0x65B9, 0x6848]"

definition t_system_default :: string where
  "t_system_default =
     uni [0x7CFB, 0x7EDF, 0x9ED8, 0x8BA4]"

definition t_by_panel :: string where
  "t_by_panel =
     uni [0x7531] @ '' LukePanel '' @ uni [0x7BA1, 0x7406]"

definition t_congestion :: string where
  "t_congestion =
     uni [0x62E5, 0x585E, 0x63A7, 0x5236]"

definition t_default_queue :: string where
  "t_default_queue =
     uni [0x9ED8, 0x8BA4, 0x961F, 0x5217]"

definition t_tuning_applied :: string where
  "t_tuning_applied =
     uni [0x5185, 0x6838, 0x4F18, 0x5316, 0x65B9, 0x6848, 0x5DF2, 0x5E94, 0x7528]"

definition t_preset_reset :: string where
  "t_preset_reset =
     uni [0x7CFB, 0x7EDF, 0x9ED8, 0x8BA4, 0xFF08, 0x79FB, 0x9664] @ '' LukePanel '' @ uni [0x914D,
     0x7F6E, 0xFF09]"

definition t_preset_balanced :: string where
  "t_preset_balanced =
     uni [0x5747, 0x8861]"

definition t_preset_network :: string where
  "t_preset_network =
     uni [0x7F51, 0x7EDC, 0x541E, 0x5410] @ '' / BBR''"

definition t_preset_low_memory :: string where
  "t_preset_low_memory =
     uni [0x5C0F, 0x5185, 0x5B58] @ '' VPS''"

definition t_apply_preset :: string where
  "t_apply_preset =
     uni [0x5E94, 0x7528, 0x65B9, 0x6848]"

definition t_restore_snapshot :: string where
  "t_restore_snapshot =
     uni [0x6062, 0x590D, 0x914D, 0x7F6E, 0x5FEB, 0x7167]"

definition t_delete_snapshot :: string where
  "t_delete_snapshot =
     uni [0x5220, 0x9664, 0x914D, 0x7F6E, 0x5FEB, 0x7167]"

definition t_restore_snapshot_detail :: string where
  "t_restore_snapshot_detail =
     uni [0x6062, 0x590D, 0x4F1A, 0x8986, 0x76D6, 0x5FEB, 0x7167, 0x6D89, 0x53CA, 0x7684, 0x914D,
     0x7F6E, 0x6587, 0x4EF6, 0xFF1B, 0x82E5, 0x6062, 0x590D, 0x5931, 0x8D25, 0xFF0C, 0x540E, 0x7AEF,
     0x4F1A, 0x5C1D, 0x8BD5, 0x56DE, 0x6EDA, 0x3002]"

definition t_delete_snapshot_detail :: string where
  "t_delete_snapshot_detail =
     uni [0x786E, 0x8BA4, 0x6C38, 0x4E45, 0x5220, 0x9664, 0x8FD9, 0x4E2A, 0x5FEB, 0x7167, 0xFF1F]"

definition t_restore :: string where
  "t_restore =
     uni [0x6062, 0x590D]"

definition t_snapshot_restored :: string where
  "t_snapshot_restored =
     uni [0x5FEB, 0x7167, 0x5DF2, 0x6062, 0x590D]"

definition t_snapshot_deleted :: string where
  "t_snapshot_deleted =
     uni [0x5FEB, 0x7167, 0x5DF2, 0x5220, 0x9664]"

definition t_action_failed :: string where
  "t_action_failed =
     uni [0x64CD, 0x4F5C, 0x5931, 0x8D25]"

definition t_import_backup_title :: string where
  "t_import_backup_title =
     uni [0x5BFC, 0x5165, 0x5E76, 0x6062, 0x590D, 0x5907, 0x4EFD]"

definition t_import_backup_detail :: string where
  "t_import_backup_detail =
     uni [0x8BE5, 0x64CD, 0x4F5C, 0x4F1A, 0x8986, 0x76D6, 0x5F53, 0x524D, 0x9762, 0x677F, 0x914D,
     0x7F6E, 0xFF0C, 0x8BF7, 0x786E, 0x8BA4, 0x5907, 0x4EFD, 0x6765, 0x6E90, 0x53EF, 0x4FE1, 0x3002]"

definition t_import_restore :: string where
  "t_import_restore =
     uni [0x5BFC, 0x5165, 0x6062, 0x590D]"

definition t_backup_imported :: string where
  "t_backup_imported =
     uni [0x5907, 0x4EFD, 0x5DF2, 0x5BFC, 0x5165, 0xFF0C, 0x8BF7, 0x91CD, 0x65B0, 0x767B, 0x5F55,
     0x68C0, 0x67E5, 0x914D, 0x7F6E]"

definition t_import_failed :: string where
  "t_import_failed =
     uni [0x5BFC, 0x5165, 0x5931, 0x8D25]"

definition t_backup_created :: string where
  "t_backup_created =
     uni [0x9762, 0x677F, 0x5907, 0x4EFD, 0x5DF2, 0x521B, 0x5EFA]"

definition t_backup_failed :: string where
  "t_backup_failed =
     uni [0x5907, 0x4EFD, 0x5931, 0x8D25]"

definition t_delete_backup :: string where
  "t_delete_backup =
     uni [0x5220, 0x9664, 0x9762, 0x677F, 0x5907, 0x4EFD]"

definition t_backup_deleted :: string where
  "t_backup_deleted =
     uni [0x9762, 0x677F, 0x5907, 0x4EFD, 0x5DF2, 0x5220, 0x9664]"

definition t_delete_failed :: string where
  "t_delete_failed =
     uni [0x5220, 0x9664, 0x5931, 0x8D25]"

definition t_config_snapshots :: string where
  "t_config_snapshots =
     uni [0x914D, 0x7F6E, 0x5FEB, 0x7167]"

definition t_config_snapshots_sub :: string where
  "t_config_snapshots_sub =
     uni [0x7531] @ '' LukePanel '' @ uni [0x5728, 0x4FEE, 0x6539] @ '' SSH'' @ uni [0x3001] @
     ''UFW'' @ uni [0x3001] @ ''APT'' @ uni [0x3001] @ ''DNS'' @ uni [0x3001] @ ''Swap'' @ uni
     [0x3001] @ ''sysctl '' @ uni [0x548C] @ '' Compose '' @ uni [0x524D, 0x81EA, 0x52A8, 0x521B,
     0x5EFA]"

definition t_auto_snapshot :: string where
  "t_auto_snapshot =
     '' '' @ uni [0x81EA, 0x52A8, 0x5FEB, 0x7167]"

definition t_config :: string where
  "t_config =
     uni [0x914D, 0x7F6E]"

definition t_config_items :: string where
  "t_config_items =
     '' '' @ uni [0x9879, 0x914D, 0x7F6E]"

definition t_no_snapshots :: string where
  "t_no_snapshots =
     uni [0x6682, 0x65E0, 0x914D, 0x7F6E, 0x5FEB, 0x7167]"

definition t_no_snapshots_detail :: string where
  "t_no_snapshots_detail =
     uni [0x6267, 0x884C, 0x53D7, 0x652F, 0x6301, 0x7684, 0x9AD8, 0x98CE, 0x9669, 0x914D, 0x7F6E,
     0x4FEE, 0x6539, 0x524D, 0x4F1A, 0x81EA, 0x52A8, 0x751F, 0x6210, 0xFF0C, 0x8FD9, 0x91CC, 0x4E0D,
     0x63D0, 0x4F9B, 0x865A, 0x5047, 0x7684, 0x624B, 0x52A8, 0x521B, 0x5EFA, 0x6309, 0x94AE, 0x3002]"

definition t_full_backup :: string where
  "t_full_backup =
     uni [0x5B8C, 0x6574, 0x5907, 0x4EFD]"

definition t_full_backup_sub :: string where
  "t_full_backup_sub =
     uni [0x5BFC, 0x51FA, 0x6216, 0x5BFC, 0x5165, 0x9762, 0x677F, 0x914D, 0x7F6E]"

definition t_export_backup :: string where
  "t_export_backup =
     uni [0x5BFC, 0x51FA, 0x5907, 0x4EFD]"

definition t_import_backup :: string where
  "t_import_backup =
     uni [0x5BFC, 0x5165, 0x5907, 0x4EFD]"

definition t_scheduled_files :: string where
  "t_scheduled_files =
     uni [0x5B9A, 0x65F6, 0x5907, 0x4EFD, 0x6587, 0x4EF6]"

definition t_retention_prefix :: string where
  "t_retention_prefix =
     uni [0x540E, 0x7AEF, 0x56FA, 0x5B9A, 0x4FDD, 0x7559, 0x6700, 0x8FD1] @ '' ''"

definition t_retention_suffix :: string where
  "t_retention_suffix =
     '' '' @ uni [0x4EFD, 0xFF1B, 0x6267, 0x884C, 0x8BA1, 0x5212, 0x5728, 0x201C, 0x8BA1, 0x5212,
     0x4EFB, 0x52A1, 0x201D, 0x4E2D, 0x7BA1, 0x7406]"

definition t_create_now :: string where
  "t_create_now =
     uni [0x7ACB, 0x5373, 0x521B, 0x5EFA]"

definition t_download :: string where
  "t_download =
     uni [0x4E0B, 0x8F7D]"

definition t_no_backups :: string where
  "t_no_backups =
     uni [0x6682, 0x65E0, 0x9762, 0x677F, 0x5907, 0x4EFD]"

definition t_no_backups_detail :: string where
  "t_no_backups_detail =
     uni [0x53EF, 0x7ACB, 0x5373, 0x521B, 0x5EFA, 0xFF0C, 0x6216, 0x5728, 0x8BA1, 0x5212, 0x4EFB,
     0x52A1, 0x4E2D, 0x6DFB, 0x52A0, 0x201C, 0x521B, 0x5EFA, 0x9762, 0x677F, 0x5907, 0x4EFD, 0x201D,
     0x4EFB, 0x52A1, 0x3002]"

definition t_goto_tasks :: string where
  "t_goto_tasks =
     uni [0x524D, 0x5F80, 0x8BA1, 0x5212, 0x4EFB, 0x52A1]"

definition t_no_compose_files :: string where
  "t_no_compose_files =
     uni [0x6CA1, 0x6709, 0x53EF, 0x7F16, 0x8F91, 0x7684] @ '' Compose '' @ uni [0x914D, 0x7F6E,
     0x6587, 0x4EF6]"

definition t_compose_saved :: string where
  "t_compose_saved =
     ''Compose '' @ uni [0x914D, 0x7F6E, 0x5DF2, 0x6821, 0x9A8C, 0x5E76, 0x4FDD, 0x5B58]"

definition t_compose_save_failed :: string where
  "t_compose_save_failed =
     uni [0x4FDD, 0x5B58] @ '' Compose '' @ uni [0x914D, 0x7F6E, 0x5931, 0x8D25]"

definition t_config_files :: string where
  "t_config_files =
     uni [0x914D, 0x7F6E, 0x6587, 0x4EF6]"

definition t_yaml_content :: string where
  "t_yaml_content =
     ''YAML '' @ uni [0x5185, 0x5BB9]"

definition t_deploy_after_save :: string where
  "t_deploy_after_save =
     uni [0x4FDD, 0x5B58, 0x540E, 0x6267, 0x884C, 0x90E8, 0x7F72]"

definition t_compose_save_note :: string where
  "t_compose_save_note =
     uni [0x4FDD, 0x5B58, 0x65F6, 0x4F1A, 0x63D0, 0x4EA4, 0x5E76, 0x6821, 0x9A8C, 0x8BE5, 0x9879,
     0x76EE, 0x7684, 0x5168, 0x90E8] @ '' Compose '' @ uni [0x914D, 0x7F6E, 0x6587, 0x4EF6, 0xFF1B,
     0x6821, 0x9A8C, 0x5931, 0x8D25, 0x4F1A, 0x81EA, 0x52A8, 0x6062, 0x590D, 0x5FEB, 0x7167, 0x3002]"

definition t_validate_and_save :: string where
  "t_validate_and_save =
     uni [0x6821, 0x9A8C, 0x5E76, 0x4FDD, 0x5B58]"

definition t_session_ended :: string where
  "t_session_ended =
     uni [0x4F1A, 0x8BDD, 0x5DF2, 0x7ED3, 0x675F]"

definition t_upgrade_password :: string where
  "t_upgrade_password =
     uni [0x5347, 0x7EA7, 0x5BC6, 0x7801, 0x4FDD, 0x62A4]"

definition t_upgraded_argon2id :: string where
  "t_upgraded_argon2id =
     uni [0x5BC6, 0x7801, 0x4FDD, 0x62A4, 0x5DF2, 0x5347, 0x7EA7, 0x4E3A] @ '' Argon2id''"

definition t_upgrade_failed :: string where
  "t_upgrade_failed =
     uni [0x5BC6, 0x7801, 0x4FDD, 0x62A4, 0x5347, 0x7EA7, 0x5931, 0x8D25]"

definition t_old_kdf_detected :: string where
  "t_old_kdf_detected =
     uni [0x68C0, 0x6D4B, 0x5230, 0x65E7, 0x7248, 0x5BC6, 0x7801, 0x6821, 0x9A8C, 0x683C, 0x5F0F]"

definition t_old_kdf_detail :: string where
  "t_old_kdf_detail =
     '' '' @ uni [0x4ECD, 0x53EF, 0x6B63, 0x5E38, 0x767B, 0x5F55, 0x3002, 0x786E, 0x8BA4, 0x5F53,
     0x524D, 0x5BC6, 0x7801, 0x540E, 0xFF0C, 0x7CFB, 0x7EDF, 0x4F1A, 0x539F, 0x5730, 0x66FF, 0x6362,
     0x4E3A] @ '' Argon2id'' @ uni [0xFF0C, 0x4E0D, 0x4F1A, 0x4FEE, 0x6539, 0x5BC6, 0x7801, 0xFF0C,
     0x4E5F, 0x4E0D, 0x4F1A, 0x5F71, 0x54CD] @ '' Passkey '' @ uni [0x6216, 0x4E24, 0x6B65, 0x9A8C,
     0x8BC1, 0x3002]"

definition t_current_password :: string where
  "t_current_password =
     uni [0x5F53, 0x524D, 0x5BC6, 0x7801]"

definition t_upgrade_memory_note :: string where
  "t_upgrade_memory_note =
     uni [0x5347, 0x7EA7, 0x8FC7, 0x7A0B, 0x4E34, 0x65F6, 0x4F7F, 0x7528, 0x7EA6] @ '' 32 MiB '' @
     uni [0x5185, 0x5B58, 0xFF0C, 0x5B8C, 0x6210, 0x540E, 0x7ACB, 0x5373, 0x91CA, 0x653E, 0x3002,
     0x4EE5, 0x540E, 0x4EC5, 0x5728, 0x767B, 0x5F55, 0x3001, 0x4FEE, 0x6539, 0x5BC6, 0x7801, 0x6216,
     0x4E8C, 0x6B21, 0x9A8C, 0x8BC1, 0x65F6, 0x77ED, 0x6682, 0x4F7F, 0x7528, 0x3002]"

definition t_later :: string where
  "t_later =
     uni [0x7A0D, 0x540E, 0x5904, 0x7406]"

definition t_upgrade_now :: string where
  "t_upgrade_now =
     uni [0x7ACB, 0x5373, 0x5347, 0x7EA7]"

definition t_elevation_title :: string where
  "t_elevation_title =
     uni [0x9700, 0x8981, 0x4E8C, 0x6B21, 0x9A8C, 0x8BC1]"

definition t_elevation_failed :: string where
  "t_elevation_failed =
     uni [0x4E8C, 0x6B21, 0x9A8C, 0x8BC1, 0x5931, 0x8D25]"

definition t_elevation_lead :: string where
  "t_elevation_lead =
     uni [0x6B64, 0x64CD, 0x4F5C, 0x4F1A, 0x4FEE, 0x6539, 0x7CFB, 0x7EDF, 0x914D, 0x7F6E, 0xFF0C,
     0x8BF7, 0x518D, 0x6B21, 0x9A8C, 0x8BC1, 0x7BA1, 0x7406, 0x5458, 0x8EAB, 0x4EFD, 0x3002]"

definition t_otp_or_recovery_long :: string where
  "t_otp_or_recovery_long =
     uni [0x4E24, 0x6B65, 0x9A8C, 0x8BC1, 0x7801, 0x6216, 0x6062, 0x590D, 0x7801]"

definition t_otp_hint :: string where
  "t_otp_hint =
     uni [0x652F, 0x6301] @ '' 6 '' @ uni [0x4F4D, 0x9A8C, 0x8BC1, 0x7801, 0x6216, 0x5B57, 0x6BCD,
     0x6062, 0x590D, 0x7801]"

definition t_elevation_cancelled :: string where
  "t_elevation_cancelled =
     uni [0x5DF2, 0x53D6, 0x6D88, 0x4E8C, 0x6B21, 0x9A8C, 0x8BC1]"

definition t_verify_and_continue :: string where
  "t_verify_and_continue =
     uni [0x9A8C, 0x8BC1, 0x5E76, 0x7EE7, 0x7EED]"

definition t_elevation_over :: string where
  "t_elevation_over =
     uni [0x4E8C, 0x6B21, 0x9A8C, 0x8BC1, 0x6D41, 0x7A0B, 0x5DF2, 0x7ED3, 0x675F]"

definition t_connecting :: string where
  "t_connecting =
     uni [0x6B63, 0x5728, 0x8FDE, 0x63A5] @ '' LukePanel'' @ uni [0x2026]"

definition t_close_menu :: string where
  "t_close_menu =
     uni [0x5173, 0x95ED, 0x83DC, 0x5355]"

definition t_main_nav :: string where
  "t_main_nav =
     uni [0x4E3B, 0x5BFC, 0x822A]"

definition t_administrator :: string where
  "t_administrator =
     uni [0x7BA1, 0x7406, 0x5458]"

definition t_local_admin :: string where
  "t_local_admin =
     uni [0x672C, 0x673A, 0x7BA1, 0x7406, 0x5458]"

definition t_log_out :: string where
  "t_log_out =
     uni [0x9000, 0x51FA, 0x767B, 0x5F55]"

definition t_open_menu :: string where
  "t_open_menu =
     uni [0x6253, 0x5F00, 0x83DC, 0x5355]"

definition t_mobile_nav :: string where
  "t_mobile_nav =
     uni [0x79FB, 0x52A8, 0x7AEF, 0x4E3B, 0x5BFC, 0x822A]"

definition t_more :: string where
  "t_more =
     uni [0x66F4, 0x591A]"

definition t_no_root :: string where
  "t_no_root =
     uni [0x7F3A, 0x5C11] @ '' #app '' @ uni [0x6839, 0x8282, 0x70B9]"

definition t_enter_image :: string where
  "t_enter_image =
     uni [0x8BF7, 0x8F93, 0x5165, 0x955C, 0x50CF, 0x5F15, 0x7528]"

definition t_image_pulled :: string where
  "t_image_pulled =
     uni [0x955C, 0x50CF, 0x62C9, 0x53D6, 0x5B8C, 0x6210]"

definition t_context_and_tag_needed :: string where
  "t_context_and_tag_needed =
     uni [0x6784, 0x5EFA, 0x4E0A, 0x4E0B, 0x6587, 0x548C, 0x955C, 0x50CF, 0x6807, 0x7B7E, 0x4E0D,
     0x80FD, 0x4E3A, 0x7A7A]"

definition t_image_built :: string where
  "t_image_built =
     uni [0x955C, 0x50CF, 0x6784, 0x5EFA, 0x5B8C, 0x6210]"

definition t_image_failed :: string where
  "t_image_failed =
     uni [0x955C, 0x50CF, 0x64CD, 0x4F5C, 0x5931, 0x8D25]"

definition t_pull_image :: string where
  "t_pull_image =
     uni [0x62C9, 0x53D6, 0x955C, 0x50CF]"

definition t_build_from_dir :: string where
  "t_build_from_dir =
     uni [0x4ECE, 0x670D, 0x52A1, 0x5668, 0x76EE, 0x5F55, 0x6784, 0x5EFA]"

definition t_image_reference :: string where
  "t_image_reference =
     uni [0x955C, 0x50CF, 0x5F15, 0x7528]"

definition t_build_context :: string where
  "t_build_context =
     uni [0x6784, 0x5EFA, 0x4E0A, 0x4E0B, 0x6587]"

definition t_absolute_dir_hint :: string where
  "t_absolute_dir_hint =
     uni [0x670D, 0x52A1, 0x5668, 0x4E0A, 0x7684, 0x7EDD, 0x5BF9, 0x76EE, 0x5F55]"

definition t_image_tag :: string where
  "t_image_tag =
     uni [0x955C, 0x50CF, 0x6807, 0x7B7E]"

definition t_pull_base_image :: string where
  "t_pull_base_image =
     uni [0x62C9, 0x53D6, 0x57FA, 0x7840, 0x955C, 0x50CF]"

definition t_no_cache :: string where
  "t_no_cache =
     uni [0x4E0D, 0x4F7F, 0x7528, 0x7F13, 0x5B58]"

definition t_start_build :: string where
  "t_start_build =
     uni [0x5F00, 0x59CB, 0x6784, 0x5EFA]"

definition t_docker_failed :: string where
  "t_docker_failed =
     ''Docker '' @ uni [0x64CD, 0x4F5C, 0x5931, 0x8D25]"

definition t_delete_container :: string where
  "t_delete_container =
     uni [0x5220, 0x9664, 0x5BB9, 0x5668]"

definition t_kill_container :: string where
  "t_kill_container =
     uni [0x5F3A, 0x5236, 0x7EC8, 0x6B62, 0x5BB9, 0x5668]"

definition t_stop_container :: string where
  "t_stop_container =
     uni [0x505C, 0x6B62, 0x5BB9, 0x5668]"

definition t_container_deleted :: string where
  "t_container_deleted =
     uni [0x5BB9, 0x5668, 0x5DF2, 0x5220, 0x9664]"

definition t_container_updated :: string where
  "t_container_updated =
     uni [0x5BB9, 0x5668, 0x72B6, 0x6001, 0x5DF2, 0x66F4, 0x65B0]"

definition t_diag_identity :: string where
  "t_diag_identity =
     uni [0x8EAB, 0x4EFD, 0x4FE1, 0x606F]"

definition t_diag_workdir :: string where
  "t_diag_workdir =
     uni [0x5DE5, 0x4F5C, 0x76EE, 0x5F55]"

definition t_diag_environment :: string where
  "t_diag_environment =
     uni [0x73AF, 0x5883, 0x53D8, 0x91CF]"

definition t_diag_disk :: string where
  "t_diag_disk =
     uni [0x78C1, 0x76D8, 0x7A7A, 0x95F4]"

definition t_diag_processes :: string where
  "t_diag_processes =
     uni [0x8FDB, 0x7A0B, 0x5217, 0x8868]"

definition t_diag_network :: string where
  "t_diag_network =
     uni [0x7F51, 0x7EDC, 0x7EDF, 0x8BA1]"

definition t_diag_os :: string where
  "t_diag_os =
     uni [0x7CFB, 0x7EDF, 0x7248, 0x672C]"

definition t_diag_root :: string where
  "t_diag_root =
     uni [0x6839, 0x76EE, 0x5F55, 0x6587, 0x4EF6]"

definition t_diag_suffix :: string where
  "t_diag_suffix =
     '' '' @ uni [0x00B7] @ '' '' @ uni [0x5B89, 0x5168, 0x8BCA, 0x65AD]"

definition t_diag_result_suffix :: string where
  "t_diag_result_suffix =
     '' '' @ uni [0x00B7] @ '' '' @ uni [0x8BCA, 0x65AD, 0x7ED3, 0x679C]"

definition t_diag_failed :: string where
  "t_diag_failed =
     uni [0x8BCA, 0x65AD, 0x5931, 0x8D25]"

definition t_diag_command :: string where
  "t_diag_command =
     uni [0x56FA, 0x5B9A, 0x8BCA, 0x65AD, 0x547D, 0x4EE4]"

definition t_diag_note :: string where
  "t_diag_note =
     uni [0x4EC5, 0x5141, 0x8BB8, 0x540E, 0x7AEF, 0x9884, 0x5B9A, 0x4E49, 0x7684, 0x5B89, 0x5168,
     0x8BCA, 0x65AD, 0x547D, 0x4EE4, 0xFF0C, 0x4E0D, 0x63A5, 0x53D7, 0x4EFB, 0x610F] @ '' Shell'' @
     uni [0x3002]"

definition t_execute :: string where
  "t_execute =
     uni [0x6267, 0x884C]"

definition t_edit_container_dot :: string where
  "t_edit_container_dot =
     uni [0x7F16, 0x8F91, 0x5BB9, 0x5668] @ '' '' @ uni [0x00B7] @ '' ''"

definition t_bad_port :: string where
  "t_bad_port =
     uni [0x7AEF, 0x53E3, 0x683C, 0x5F0F, 0x9519, 0x8BEF, 0xFF1A]"

definition t_bad_mount :: string where
  "t_bad_mount =
     uni [0x6302, 0x8F7D, 0x683C, 0x5F0F, 0x9519, 0x8BEF, 0xFF1A]"

definition t_container_rebuilt :: string where
  "t_container_rebuilt =
     uni [0x5BB9, 0x5668, 0x5DF2, 0x5B89, 0x5168, 0x91CD, 0x5EFA]"

definition t_rebuild_failed :: string where
  "t_rebuild_failed =
     uni [0x91CD, 0x5EFA, 0x5931, 0x8D25]"

definition t_image :: string where
  "t_image =
     uni [0x955C, 0x50CF]"

definition t_restart_policy :: string where
  "t_restart_policy =
     uni [0x91CD, 0x542F, 0x7B56, 0x7565]"

definition t_max_retries :: string where
  "t_max_retries =
     uni [0x6700, 0x5927, 0x91CD, 0x8BD5, 0x6B21, 0x6570]"

definition t_max_retries_hint :: string where
  "t_max_retries_hint =
     uni [0x4EC5] @ '' on-failure '' @ uni [0x7B56, 0x7565, 0x751F, 0x6548]"

definition t_network_mode :: string where
  "t_network_mode =
     uni [0x7F51, 0x7EDC, 0x6A21, 0x5F0F]"

definition t_run_as_user :: string where
  "t_run_as_user =
     uni [0x8FD0, 0x884C, 0x7528, 0x6237]"

definition t_privileged_mode :: string where
  "t_privileged_mode =
     uni [0x7279, 0x6743, 0x6A21, 0x5F0F]"

definition t_env_hint :: string where
  "t_env_hint =
     uni [0x6BCF, 0x884C, 0x4E00, 0x4E2A] @ '' KEY=VALUE''"

definition t_start_args :: string where
  "t_start_args =
     uni [0x542F, 0x52A8, 0x53C2, 0x6570]"

definition t_args_hint :: string where
  "t_args_hint =
     uni [0x6BCF, 0x884C, 0x4E00, 0x4E2A, 0x53C2, 0x6570]"

definition t_port_mapping :: string where
  "t_port_mapping =
     uni [0x7AEF, 0x53E3, 0x6620, 0x5C04]"

definition t_port_hint :: string where
  "t_port_hint =
     ''hostPort|containerPort/protocol'' @ uni [0xFF1B, 0x7ED1, 0x5B9A] @ '' IP '' @ uni [0x65F6] @
     '' hostIP|hostPort|containerPort/protocol''"

definition t_mount :: string where
  "t_mount =
     uni [0x6302, 0x8F7D]"

definition t_mount_hint :: string where
  "t_mount_hint =
     ''bind|'' @ uni [0x6E90, 0x8DEF, 0x5F84] @ ''|'' @ uni [0x76EE, 0x6807, 0x8DEF, 0x5F84] @ ''|rw
     '' @ uni [0x6216] @ '' volume|'' @ uni [0x5377, 0x540D] @ ''|'' @ uni [0x76EE, 0x6807, 0x8DEF,
     0x5F84] @ ''|ro''"

definition t_managed_by_compose :: string where
  "t_managed_by_compose =
     uni [0x8BE5, 0x5BB9, 0x5668, 0x7531] @ '' Compose '' @ uni [0x9879, 0x76EE] @ '' ''"

definition t_managed_by_compose_end :: string where
  "t_managed_by_compose_end =
     '' '' @ uni [0x7BA1, 0x7406, 0xFF0C, 0x5EFA, 0x8BAE, 0x901A, 0x8FC7] @ '' Compose YAML '' @ uni
     [0x4FEE, 0x6539, 0x3002]"

definition t_safe_rebuild :: string where
  "t_safe_rebuild =
     uni [0x5B89, 0x5168, 0x91CD, 0x5EFA]"

definition t_read_container_failed :: string where
  "t_read_container_failed =
     uni [0x8BFB, 0x53D6, 0x5BB9, 0x5668, 0x914D, 0x7F6E, 0x5931, 0x8D25]"

definition t_stop_remove_project :: string where
  "t_stop_remove_project =
     uni [0x505C, 0x6B62, 0x5E76, 0x79FB, 0x9664] @ '' Compose '' @ uni [0x9879, 0x76EE]"

definition t_stop_remove :: string where
  "t_stop_remove =
     uni [0x505C, 0x6B62, 0x5E76, 0x79FB, 0x9664]"

definition t_compose_done :: string where
  "t_compose_done =
     ''Compose '' @ uni [0x64CD, 0x4F5C, 0x5B8C, 0x6210]"

definition t_no_compose_config :: string where
  "t_no_compose_config =
     uni [0x9879, 0x76EE, 0x6CA1, 0x6709, 0x53EF, 0x7F16, 0x8F91, 0x7684] @ '' Compose '' @ uni
     [0x914D, 0x7F6E, 0x6587, 0x4EF6]"

definition t_compose_yaml_dot :: string where
  "t_compose_yaml_dot =
     ''Compose YAML '' @ uni [0x00B7] @ '' ''"

definition t_read_compose_failed :: string where
  "t_read_compose_failed =
     uni [0x8BFB, 0x53D6] @ '' Compose '' @ uni [0x914D, 0x7F6E, 0x5931, 0x8D25]"

definition t_new_compose_project :: string where
  "t_new_compose_project =
     uni [0x65B0, 0x5EFA] @ '' Compose '' @ uni [0x9879, 0x76EE]"

definition t_compose_created :: string where
  "t_compose_created =
     ''Compose '' @ uni [0x9879, 0x76EE, 0x5DF2, 0x521B, 0x5EFA]"

definition t_project_name :: string where
  "t_project_name =
     uni [0x9879, 0x76EE, 0x540D, 0x79F0]"

definition t_save_dir :: string where
  "t_save_dir =
     uni [0x4FDD, 0x5B58, 0x76EE, 0x5F55]"

definition t_ports :: string where
  "t_ports =
     uni [0x7AEF, 0x53E3]"

definition t_start_after_create :: string where
  "t_start_after_create =
     uni [0x521B, 0x5EFA, 0x540E, 0x7ACB, 0x5373, 0x542F, 0x52A8]"

definition t_create :: string where
  "t_create =
     uni [0x521B, 0x5EFA]"

definition t_image_admin :: string where
  "t_image_admin =
     uni [0x955C, 0x50CF, 0x7BA1, 0x7406]"

definition t_new_network :: string where
  "t_new_network =
     uni [0x65B0, 0x5EFA, 0x7F51, 0x7EDC]"

definition t_new_volume :: string where
  "t_new_volume =
     uni [0x65B0, 0x5EFA, 0x5B58, 0x50A8, 0x5377]"

definition t_network_created :: string where
  "t_network_created =
     uni [0x7F51, 0x7EDC, 0x5DF2, 0x521B, 0x5EFA]"

definition t_volume_created :: string where
  "t_volume_created =
     uni [0x5B58, 0x50A8, 0x5377, 0x5DF2, 0x521B, 0x5EFA]"

definition t_driver :: string where
  "t_driver =
     uni [0x9A71, 0x52A8]"

definition t_subnet :: string where
  "t_subnet =
     uni [0x5B50, 0x7F51]"

definition t_gateway :: string where
  "t_gateway =
     uni [0x7F51, 0x5173]"

definition t_internal_only :: string where
  "t_internal_only =
     uni [0x4EC5, 0x5185, 0x90E8, 0x7F51, 0x7EDC]"

definition t_volume_usage_backup :: string where
  "t_volume_usage_backup =
     uni [0x5B58, 0x50A8, 0x5377, 0x7528, 0x91CF, 0x4E0E, 0x5907, 0x4EFD]"

definition t_volume_name :: string where
  "t_volume_name =
     uni [0x5377, 0x540D]"

definition t_usage :: string where
  "t_usage =
     uni [0x7528, 0x91CF]"

definition t_references :: string where
  "t_references =
     uni [0x5F15, 0x7528]"

definition t_restore_volume :: string where
  "t_restore_volume =
     uni [0x6062, 0x590D, 0x5B58, 0x50A8, 0x5377]"

definition t_restore_volume_detail :: string where
  "t_restore_volume_detail =
     uni [0x6062, 0x590D, 0x4F1A, 0x8986, 0x76D6, 0x5377, 0x5185, 0x540C, 0x540D, 0x6587, 0x4EF6,
     0xFF0C, 0x8BF7, 0x786E, 0x8BA4, 0x5907, 0x4EFD, 0x6765, 0x6E90, 0x53EF, 0x4FE1, 0x3002]"

definition t_confirm_restore :: string where
  "t_confirm_restore =
     uni [0x786E, 0x8BA4, 0x6062, 0x590D]"

definition t_volume_backed_up :: string where
  "t_volume_backed_up =
     uni [0x5B58, 0x50A8, 0x5377, 0x5907, 0x4EFD, 0x5B8C, 0x6210]"

definition t_volume_restored :: string where
  "t_volume_restored =
     uni [0x5B58, 0x50A8, 0x5377, 0x6062, 0x590D, 0x5B8C, 0x6210]"

definition t_volume :: string where
  "t_volume =
     uni [0x5B58, 0x50A8, 0x5377]"

definition t_backup_as_tar :: string where
  "t_backup_as_tar =
     uni [0x5907, 0x4EFD, 0x4E3A] @ '' tar.gz''"

definition t_restore_from_tar :: string where
  "t_restore_from_tar =
     uni [0x4ECE] @ '' tar.gz '' @ uni [0x6062, 0x590D]"

definition t_server_path :: string where
  "t_server_path =
     uni [0x670D, 0x52A1, 0x5668, 0x7EDD, 0x5BF9, 0x8DEF, 0x5F84]"

definition t_read_volume_failed :: string where
  "t_read_volume_failed =
     uni [0x8BFB, 0x53D6, 0x5377, 0x7528, 0x91CF, 0x5931, 0x8D25]"

definition t_docker_cleanup :: string where
  "t_docker_cleanup =
     ''Docker '' @ uni [0x6E05, 0x7406]"

definition t_do_docker_cleanup :: string where
  "t_do_docker_cleanup =
     uni [0x6267, 0x884C] @ '' Docker '' @ uni [0x6E05, 0x7406]"

definition t_docker_cleanup_detail :: string where
  "t_docker_cleanup_detail =
     uni [0x6E05, 0x7406, 0x4E0D, 0x53EF, 0x6062, 0x590D, 0xFF0C, 0x8BF7, 0x786E, 0x8BA4, 0x6CA1,
     0x6709, 0x4ECD, 0x9700, 0x4F7F, 0x7528, 0x7684, 0x955C, 0x50CF, 0x3001, 0x7F13, 0x5B58, 0x6216,
     0x5377, 0x3002]"

definition t_start_cleanup :: string where
  "t_start_cleanup =
     uni [0x5F00, 0x59CB, 0x6E05, 0x7406]"

definition t_docker_cleaned :: string where
  "t_docker_cleaned =
     ''Docker '' @ uni [0x6E05, 0x7406, 0x5B8C, 0x6210]"

definition t_cleanup_preview :: string where
  "t_cleanup_preview =
     uni [0x9884, 0x8BA1, 0x6E05, 0x7406, 0x5185, 0x5BB9]"

definition t_cleanup_mode :: string where
  "t_cleanup_mode =
     uni [0x6E05, 0x7406, 0x6A21, 0x5F0F]"

definition t_safe_cleanup :: string where
  "t_safe_cleanup =
     uni [0x5B89, 0x5168, 0x6E05, 0x7406]"

definition t_deep_cleanup :: string where
  "t_deep_cleanup =
     uni [0x6DF1, 0x5EA6, 0x6E05, 0x7406]"

definition t_cleanup_volumes :: string where
  "t_cleanup_volumes =
     uni [0x540C, 0x65F6, 0x6E05, 0x7406, 0x672A, 0x4F7F, 0x7528, 0x5B58, 0x50A8, 0x5377]"

definition t_execute_cleanup :: string where
  "t_execute_cleanup =
     uni [0x6267, 0x884C, 0x6E05, 0x7406]"

definition t_read_cleanup_failed :: string where
  "t_read_cleanup_failed =
     uni [0x8BFB, 0x53D6, 0x6E05, 0x7406, 0x9884, 0x89C8, 0x5931, 0x8D25]"

definition t_cleanup :: string where
  "t_cleanup =
     uni [0x6E05, 0x7406]"

definition t_docker_unavailable :: string where
  "t_docker_unavailable =
     ''Docker '' @ uni [0x670D, 0x52A1, 0x4E0D, 0x53EF, 0x7528]"

definition t_docker_unavailable_detail :: string where
  "t_docker_unavailable_detail =
     ''Docker Engine '' @ uni [0x672A, 0x8FD0, 0x884C, 0x6216, 0x5F53, 0x524D, 0x7528, 0x6237,
     0x65E0, 0x6CD5, 0x8BBF, 0x95EE] @ '' Docker Socket''"

definition t_docker_installed :: string where
  "t_docker_installed =
     ''Docker '' @ uni [0x5B89, 0x88C5, 0x6216, 0x4FEE, 0x590D, 0x5B8C, 0x6210]"

definition t_install_docker :: string where
  "t_install_docker =
     uni [0x5B89, 0x88C5, 0x6216, 0x4FEE, 0x590D] @ '' Docker''"

definition t_stats_failed :: string where
  "t_stats_failed =
     uni [0x5BB9, 0x5668, 0x5B9E, 0x65F6, 0x7EDF, 0x8BA1, 0x8BFB, 0x53D6, 0x5931, 0x8D25]"

definition t_stats_failed_detail :: string where
  "t_stats_failed_detail =
     uni [0x57FA, 0x7840, 0x72B6, 0x6001, 0x4ECD, 0x53EF, 0x7BA1, 0x7406, 0xFF1B] @ ''CPU '' @ uni
     [0x548C, 0x5185, 0x5B58, 0x6682, 0x65F6, 0x663E, 0x793A, 0x4E3A, 0x201C, 0x2014, 0x201D, 0x3002]"

definition t_tab_containers :: string where
  "t_tab_containers =
     uni [0x5BB9, 0x5668] @ '' ''"

definition t_tab_images :: string where
  "t_tab_images =
     uni [0x955C, 0x50CF] @ '' ''"

definition t_tab_networks :: string where
  "t_tab_networks =
     uni [0x7F51, 0x7EDC] @ '' ''"

definition t_tab_volumes :: string where
  "t_tab_volumes =
     uni [0x5B58, 0x50A8, 0x5377] @ '' ''"

definition t_memory_space :: string where
  "t_memory_space =
     uni [0x5185, 0x5B58] @ '' ''"

definition t_container_only :: string where
  "t_container_only =
     uni [0xFF08, 0x4EC5, 0x5BB9, 0x5668, 0x5185, 0xFF09]"

definition t_no_ports :: string where
  "t_no_ports =
     uni [0x65E0, 0x7AEF, 0x53E3, 0x58F0, 0x660E]"

definition t_diagnose :: string where
  "t_diagnose =
     uni [0x8BCA, 0x65AD]"

definition t_edit :: string where
  "t_edit =
     uni [0x7F16, 0x8F91]"

definition t_no_containers :: string where
  "t_no_containers =
     uni [0x6682, 0x65E0, 0x5BB9, 0x5668]"

definition t_new_compose :: string where
  "t_new_compose =
     uni [0x65B0, 0x5EFA] @ '' Compose''"

definition t_running_suffix :: string where
  "t_running_suffix =
     '' '' @ uni [0x8FD0, 0x884C]"

definition t_no_compose :: string where
  "t_no_compose =
     uni [0x6682, 0x65E0] @ '' Compose '' @ uni [0x9879, 0x76EE]"

definition t_create_project :: string where
  "t_create_project =
     uni [0x521B, 0x5EFA, 0x9879, 0x76EE]"

definition t_pull_build_image :: string where
  "t_pull_build_image =
     uni [0x62C9, 0x53D6] @ ''/'' @ uni [0x6784, 0x5EFA, 0x955C, 0x50CF]"

definition t_container_refs :: string where
  "t_container_refs =
     '' '' @ uni [0x4E2A, 0x5BB9, 0x5668, 0x5F15, 0x7528]"

definition t_delete_image :: string where
  "t_delete_image =
     uni [0x5220, 0x9664, 0x955C, 0x50CF]"

definition t_image_deleted :: string where
  "t_image_deleted =
     uni [0x955C, 0x50CF, 0x5DF2, 0x5220, 0x9664]"

definition t_internal_network :: string where
  "t_internal_network =
     uni [0x5185, 0x90E8, 0x7F51, 0x7EDC]"

definition t_external_network :: string where
  "t_external_network =
     uni [0x53EF, 0x8BBF, 0x95EE, 0x5916, 0x90E8]"

definition t_containers_suffix :: string where
  "t_containers_suffix =
     '' '' @ uni [0x4E2A, 0x5BB9, 0x5668]"

definition t_delete_network :: string where
  "t_delete_network =
     uni [0x5220, 0x9664, 0x7F51, 0x7EDC]"

definition t_network_deleted :: string where
  "t_network_deleted =
     uni [0x7F51, 0x7EDC, 0x5DF2, 0x5220, 0x9664]"

definition t_usage_and_backup :: string where
  "t_usage_and_backup =
     uni [0x7528, 0x91CF, 0x4E0E, 0x5907, 0x4EFD]"

definition t_usage_backup :: string where
  "t_usage_backup =
     uni [0x7528, 0x91CF] @ ''/'' @ uni [0x5907, 0x4EFD]"

definition t_delete_volume :: string where
  "t_delete_volume =
     uni [0x5220, 0x9664, 0x5B58, 0x50A8, 0x5377]"

definition t_delete_volume_detail :: string where
  "t_delete_volume_detail =
     uni [0x000A, 0x786E, 0x8BA4, 0x5176, 0x4E2D, 0x4E0D, 0x518D, 0x5305, 0x542B, 0x9700, 0x8981,
     0x7684, 0x6570, 0x636E, 0x3002]"

definition t_volume_deleted :: string where
  "t_volume_deleted =
     uni [0x5B58, 0x50A8, 0x5377, 0x5DF2, 0x5220, 0x9664]"

definition t_root_dir :: string where
  "t_root_dir =
     uni [0x6839, 0x76EE, 0x5F55]"

definition t_file_op_failed :: string where
  "t_file_op_failed =
     uni [0x6587, 0x4EF6, 0x64CD, 0x4F5C, 0x5931, 0x8D25]"

definition t_file_saved :: string where
  "t_file_saved =
     uni [0x6587, 0x4EF6, 0x5DF2, 0x4FDD, 0x5B58, 0xFF0C, 0x5E76, 0x751F, 0x6210, 0x5386, 0x53F2,
     0x7248, 0x672C]"

definition t_read_file_failed :: string where
  "t_read_file_failed =
     uni [0x8BFB, 0x53D6, 0x6587, 0x4EF6, 0x5931, 0x8D25]"

definition t_download_failed :: string where
  "t_download_failed =
     uni [0x4E0B, 0x8F7D, 0x51C6, 0x5907, 0x5931, 0x8D25]"

definition t_archive_suffix :: string where
  "t_archive_suffix =
     '' '' @ uni [0x00B7] @ '' '' @ uni [0x538B, 0x7F29, 0x5305, 0x5185, 0x5BB9]"

definition t_archive_entries :: string where
  "t_archive_entries =
     uni [0x5F52, 0x6863, 0x6761, 0x76EE]"

definition t_cannot_open :: string where
  "t_cannot_open =
     uni [0x65E0, 0x6CD5, 0x6253, 0x5F00, 0x6587, 0x4EF6]"

definition t_history :: string where
  "t_history =
     uni [0x5386, 0x53F2, 0x7248, 0x672C]"

definition t_version_diff :: string where
  "t_version_diff =
     uni [0x7248, 0x672C, 0x5DEE, 0x5F02]"

definition t_no_difference :: string where
  "t_no_difference =
     uni [0x6CA1, 0x6709, 0x5DEE, 0x5F02]"

definition t_restore_version :: string where
  "t_restore_version =
     uni [0x6062, 0x590D, 0x5386, 0x53F2, 0x7248, 0x672C]"

definition t_restore_to :: string where
  "t_restore_to =
     uni [0x6062, 0x590D, 0x5230] @ '' ''"

definition t_restore_to_end :: string where
  "t_restore_to_end =
     uni [0xFF1F, 0x5F53, 0x524D, 0x5185, 0x5BB9, 0x4F1A, 0x5148, 0x81EA, 0x52A8, 0x5907, 0x4EFD,
     0x3002]"

definition t_version_restored :: string where
  "t_version_restored =
     uni [0x5386, 0x53F2, 0x7248, 0x672C, 0x5DF2, 0x6062, 0x590D]"

definition t_restore_this :: string where
  "t_restore_this =
     uni [0x6062, 0x590D, 0x6B64, 0x7248, 0x672C]"

definition t_compare_failed :: string where
  "t_compare_failed =
     uni [0x7248, 0x672C, 0x5BF9, 0x6BD4, 0x5931, 0x8D25]"

definition t_compare :: string where
  "t_compare =
     uni [0x5BF9, 0x6BD4]"

definition t_question_mark :: string where
  "t_question_mark =
     uni [0xFF1F]"

definition t_restore_failed :: string where
  "t_restore_failed =
     uni [0x6062, 0x590D, 0x5931, 0x8D25]"

definition t_no_history :: string where
  "t_no_history =
     uni [0x8FD8, 0x6CA1, 0x6709, 0x5386, 0x53F2, 0x7248, 0x672C]"

definition t_no_history_detail :: string where
  "t_no_history_detail =
     uni [0x5728, 0x7EBF, 0x4FDD, 0x5B58, 0x6587, 0x4EF6, 0x524D, 0x4F1A, 0x81EA, 0x52A8, 0x751F,
     0x6210, 0x5907, 0x4EFD]"

definition t_read_history_failed :: string where
  "t_read_history_failed =
     uni [0x5386, 0x53F2, 0x7248, 0x672C, 0x8BFB, 0x53D6, 0x5931, 0x8D25]"

definition t_bad_input :: string where
  "t_bad_input =
     uni [0x8F93, 0x5165, 0x5185, 0x5BB9, 0x4E0D, 0x7B26, 0x5408, 0x8981, 0x6C42]"

definition t_new_file :: string where
  "t_new_file =
     uni [0x65B0, 0x5EFA, 0x6587, 0x4EF6]"

definition t_new_folder :: string where
  "t_new_folder =
     uni [0x65B0, 0x5EFA, 0x6587, 0x4EF6, 0x5939]"

definition t_file_created :: string where
  "t_file_created =
     uni [0x6587, 0x4EF6, 0x5DF2, 0x521B, 0x5EFA]"

definition t_folder_created :: string where
  "t_folder_created =
     uni [0x6587, 0x4EF6, 0x5939, 0x5DF2, 0x521B, 0x5EFA]"

definition t_open :: string where
  "t_open =
     uni [0x6253, 0x5F00]"

definition t_path_copied :: string where
  "t_path_copied =
     uni [0x8DEF, 0x5F84, 0x5DF2, 0x590D, 0x5236]"

definition t_full_path :: string where
  "t_full_path =
     uni [0x5B8C, 0x6574, 0x8DEF, 0x5F84]"

definition t_copy_path :: string where
  "t_copy_path =
     uni [0x590D, 0x5236, 0x5B8C, 0x6574, 0x8DEF, 0x5F84]"

definition t_rename :: string where
  "t_rename =
     uni [0x91CD, 0x547D, 0x540D]"

definition t_target_path :: string where
  "t_target_path =
     uni [0x76EE, 0x6807, 0x7EDD, 0x5BF9, 0x8DEF, 0x5F84]"

definition t_renamed :: string where
  "t_renamed =
     uni [0x5DF2, 0x91CD, 0x547D, 0x540D]"

definition t_copy_to :: string where
  "t_copy_to =
     uni [0x590D, 0x5236, 0x5230]"

definition t_copy_infix :: string where
  "t_copy_infix =
     ''-'' @ uni [0x526F, 0x672C]"

definition t_copied :: string where
  "t_copied =
     uni [0x590D, 0x5236, 0x5B8C, 0x6210]"

definition t_copy_to_dots :: string where
  "t_copy_to_dots =
     uni [0x590D, 0x5236, 0x5230, 0x2026]"

definition t_move_to :: string where
  "t_move_to =
     uni [0x79FB, 0x52A8, 0x5230]"

definition t_moved :: string where
  "t_moved =
     uni [0x79FB, 0x52A8, 0x5B8C, 0x6210]"

definition t_move_to_dots :: string where
  "t_move_to_dots =
     uni [0x79FB, 0x52A8, 0x5230, 0x2026]"

definition t_change_mode :: string where
  "t_change_mode =
     uni [0x4FEE, 0x6539, 0x6743, 0x9650]"

definition t_mode_field :: string where
  "t_mode_field =
     uni [0x6743, 0x9650, 0x6A21, 0x5F0F]"

definition t_mode_changed :: string where
  "t_mode_changed =
     uni [0x6743, 0x9650, 0x5DF2, 0x66F4, 0x65B0]"

definition t_change_owner :: string where
  "t_change_owner =
     uni [0x4FEE, 0x6539, 0x6240, 0x6709, 0x8005]"

definition t_owner_changed :: string where
  "t_owner_changed =
     uni [0x6240, 0x6709, 0x8005, 0x5DF2, 0x66F4, 0x65B0]"

definition t_user_group :: string where
  "t_user_group =
     uni [0x7528, 0x6237, 0x7EC4]"

definition t_save :: string where
  "t_save =
     uni [0x4FDD, 0x5B58]"

definition t_archive_path :: string where
  "t_archive_path =
     uni [0x538B, 0x7F29, 0x5305, 0x4FDD, 0x5B58, 0x8DEF, 0x5F84]"

definition t_archived :: string where
  "t_archived =
     uni [0x538B, 0x7F29, 0x5B8C, 0x6210]"

definition t_create_archive :: string where
  "t_create_archive =
     uni [0x521B, 0x5EFA, 0x538B, 0x7F29, 0x5305]"

definition t_move_to_trash :: string where
  "t_move_to_trash =
     uni [0x79FB, 0x5230, 0x56DE, 0x6536, 0x7AD9]"

definition t_delete_quote :: string where
  "t_delete_quote =
     uni [0x786E, 0x8BA4, 0x5220, 0x9664, 0x201C]"

definition t_delete_quote_end :: string where
  "t_delete_quote_end =
     uni [0x201D, 0xFF1F, 0x53EF, 0x7A0D, 0x540E, 0x6062, 0x590D, 0x3002]"

definition t_moved_to_trash :: string where
  "t_moved_to_trash =
     uni [0x5DF2, 0x79FB, 0x5230, 0x56DE, 0x6536, 0x7AD9]"

definition t_favorited :: string where
  "t_favorited =
     uni [0x5DF2, 0x52A0, 0x5165, 0x6536, 0x85CF]"

definition t_unfavorited :: string where
  "t_unfavorited =
     uni [0x5DF2, 0x53D6, 0x6D88, 0x6536, 0x85CF]"

definition t_favorite_failed :: string where
  "t_favorite_failed =
     uni [0x6536, 0x85CF, 0x64CD, 0x4F5C, 0x5931, 0x8D25]"

definition t_upload_space :: string where
  "t_upload_space =
     uni [0x4E0A, 0x4F20] @ '' ''"

definition t_extracted :: string where
  "t_extracted =
     uni [0x5DF2, 0x89E3, 0x538B] @ '' ''"

definition t_files_and :: string where
  "t_files_and =
     '' '' @ uni [0x4E2A, 0x6587, 0x4EF6, 0x548C] @ '' ''"

definition t_dirs_suffix :: string where
  "t_dirs_suffix =
     '' '' @ uni [0x4E2A, 0x76EE, 0x5F55]"

definition t_uploaded :: string where
  "t_uploaded =
     uni [0x5DF2, 0x4E0A, 0x4F20] @ '' ''"

definition t_files_suffix :: string where
  "t_files_suffix =
     '' '' @ uni [0x4E2A, 0x6587, 0x4EF6]"

definition t_extract_failed :: string where
  "t_extract_failed =
     ''ZIP '' @ uni [0x89E3, 0x538B, 0x5931, 0x8D25]"

definition t_upload_interrupted :: string where
  "t_upload_interrupted =
     uni [0x4E0A, 0x4F20, 0x4E2D, 0x65AD, 0xFF08]"

definition t_search_in :: string where
  "t_search_in =
     uni [0x5728] @ '' ''"

definition t_search_in_end :: string where
  "t_search_in_end =
     '' '' @ uni [0x4E2D, 0x641C, 0x7D22]"

definition t_search_results :: string where
  "t_search_results =
     uni [0x641C, 0x7D22, 0x7ED3, 0x679C, 0xFF08]"

definition t_no_matches :: string where
  "t_no_matches =
     uni [0x6CA1, 0x6709, 0x5339, 0x914D, 0x9879]"

definition t_file_or_path :: string where
  "t_file_or_path =
     uni [0x6587, 0x4EF6, 0x540D, 0x6216, 0x8DEF, 0x5F84]"

definition t_delete_forever :: string where
  "t_delete_forever =
     uni [0x6C38, 0x4E45, 0x5220, 0x9664]"

definition t_irreversible :: string where
  "t_irreversible =
     uni [0x6B64, 0x64CD, 0x4F5C, 0x4E0D, 0x53EF, 0x6062, 0x590D, 0x3002]"

definition t_file_restored :: string where
  "t_file_restored =
     uni [0x6587, 0x4EF6, 0x5DF2, 0x6062, 0x590D]"

definition t_deleted_forever :: string where
  "t_deleted_forever =
     uni [0x5DF2, 0x6C38, 0x4E45, 0x5220, 0x9664]"

definition t_trash_failed :: string where
  "t_trash_failed =
     uni [0x56DE, 0x6536, 0x7AD9, 0x64CD, 0x4F5C, 0x5931, 0x8D25]"

definition t_upload :: string where
  "t_upload =
     uni [0x4E0A, 0x4F20]"

definition t_new :: string where
  "t_new =
     uni [0x65B0, 0x5EFA]"

definition t_search_here :: string where
  "t_search_here =
     uni [0x641C, 0x7D22, 0x5F53, 0x524D, 0x76EE, 0x5F55]"

definition t_upload_folder :: string where
  "t_upload_folder =
     uni [0x4E0A, 0x4F20, 0x6587, 0x4EF6, 0x5939]"

definition t_upload_zip :: string where
  "t_upload_zip =
     uni [0x4E0A, 0x4F20] @ '' ZIP '' @ uni [0x5E76, 0x89E3, 0x538B]"

definition t_files_tab :: string where
  "t_files_tab =
     uni [0x6587, 0x4EF6]"

definition t_favorites_tab :: string where
  "t_favorites_tab =
     uni [0x6536, 0x85CF] @ '' ''"

definition t_recent_tab :: string where
  "t_recent_tab =
     uni [0x6700, 0x8FD1] @ '' ''"

definition t_trash_tab :: string where
  "t_trash_tab =
     uni [0x56DE, 0x6536, 0x7AD9] @ '' ''"

definition t_trash_empty :: string where
  "t_trash_empty =
     uni [0x56DE, 0x6536, 0x7AD9, 0x662F, 0x7A7A, 0x7684]"

definition t_current_dir :: string where
  "t_current_dir =
     uni [0x5F53, 0x524D, 0x76EE, 0x5F55]"

definition t_to_parent :: string where
  "t_to_parent =
     uni [0x8FD4, 0x56DE, 0x4E0A, 0x7EA7, 0x76EE, 0x5F55]"

definition t_copy_current_path :: string where
  "t_copy_current_path =
     uni [0x590D, 0x5236, 0x5F53, 0x524D, 0x8DEF, 0x5F84]"

definition t_current_path :: string where
  "t_current_path =
     uni [0x5F53, 0x524D, 0x8DEF, 0x5F84]"

definition t_filter_current :: string where
  "t_filter_current =
     uni [0x7B5B, 0x9009, 0x5F53, 0x524D, 0x76EE, 0x5F55]"

definition t_filter_favorites :: string where
  "t_filter_favorites =
     uni [0x7B5B, 0x9009, 0x6536, 0x85CF]"

definition t_filter_recent :: string where
  "t_filter_recent =
     uni [0x7B5B, 0x9009, 0x6700, 0x8FD1, 0x8BBF, 0x95EE]"

definition t_folder :: string where
  "t_folder =
     uni [0x6587, 0x4EF6, 0x5939]"

definition t_unfavorite :: string where
  "t_unfavorite =
     uni [0x53D6, 0x6D88, 0x6536, 0x85CF]"

definition t_favorite :: string where
  "t_favorite =
     uni [0x52A0, 0x5165, 0x6536, 0x85CF]"

definition t_star :: string where
  "t_star =
     uni [0x2605]"

definition t_file_actions :: string where
  "t_file_actions =
     uni [0x6587, 0x4EF6, 0x64CD, 0x4F5C]"

definition t_no_files :: string where
  "t_no_files =
     uni [0x6CA1, 0x6709, 0x53EF, 0x663E, 0x793A, 0x7684, 0x6587, 0x4EF6]"

definition t_discard_changes :: string where
  "t_discard_changes =
     uni [0x653E, 0x5F03, 0x672A, 0x4FDD, 0x5B58, 0x5185, 0x5BB9]"

definition t_discard_detail :: string where
  "t_discard_detail =
     uni [0x7F16, 0x8F91, 0x5668, 0x4E2D, 0x4ECD, 0x6709, 0x672A, 0x4FDD, 0x5B58, 0x7684, 0x4FEE,
     0x6539, 0xFF0C, 0x5173, 0x95ED, 0x540E, 0x8FD9, 0x4E9B, 0x4FEE, 0x6539, 0x4F1A, 0x4E22, 0x5931,
     0x3002]"

definition t_discard :: string where
  "t_discard =
     uni [0x653E, 0x5F03, 0x4FEE, 0x6539]"

definition t_open_history :: string where
  "t_open_history =
     uni [0x6253, 0x5F00, 0x5386, 0x53F2, 0x7248, 0x672C]"

definition t_open_history_detail :: string where
  "t_open_history_detail =
     uni [0x5F53, 0x524D, 0x4FEE, 0x6539, 0x5C1A, 0x672A, 0x4FDD, 0x5B58, 0x3002, 0x6253, 0x5F00,
     0x5386, 0x53F2, 0x7248, 0x672C, 0x4F1A, 0x5173, 0x95ED, 0x7F16, 0x8F91, 0x5668, 0x5E76, 0x4E22,
     0x5F03, 0x8FD9, 0x4E9B, 0x4FEE, 0x6539, 0x3002]"

definition t_continue_open :: string where
  "t_continue_open =
     uni [0x7EE7, 0x7EED, 0x6253, 0x5F00]"

definition t_tool_ping_hint :: string where
  "t_tool_ping_hint =
     uni [0x68C0, 0x67E5] @ '' ICMP '' @ uni [0x5EF6, 0x8FDF, 0x4E0E, 0x4E22, 0x5305]"

definition t_tool_dns_hint :: string where
  "t_tool_dns_hint =
     uni [0x89E3, 0x6790, 0x57DF, 0x540D, 0x7684] @ '' A/AAAA '' @ uni [0x5730, 0x5740]"

definition t_tool_port_hint :: string where
  "t_tool_port_hint =
     uni [0x6D4B, 0x8BD5, 0x76EE, 0x6807, 0x7AEF, 0x53E3, 0x53EF, 0x8FBE, 0x6027]"

definition t_tool_http_hint :: string where
  "t_tool_http_hint =
     uni [0x68C0, 0x67E5, 0x7F51, 0x5740, 0x54CD, 0x5E94, 0x548C, 0x91CD, 0x5B9A, 0x5411]"

definition t_one_click_diagnosis :: string where
  "t_one_click_diagnosis =
     uni [0x4E00, 0x952E, 0x8BCA, 0x65AD]"

definition t_tool_diagnose_hint :: string where
  "t_tool_diagnose_hint =
     uni [0x6C47, 0x603B, 0x8D1F, 0x8F7D, 0x3001, 0x78C1, 0x76D8, 0x3001, 0x670D, 0x52A1, 0x548C,
     0x7AEF, 0x53E3]"

definition t_tool_failed :: string where
  "t_tool_failed =
     uni [0x5DE5, 0x5177, 0x6267, 0x884C, 0x5931, 0x8D25]"

definition t_network_diagnosis :: string where
  "t_network_diagnosis =
     uni [0x7F51, 0x7EDC, 0x8BCA, 0x65AD]"

definition t_run_server_side :: string where
  "t_run_server_side =
     uni [0x5728, 0x670D, 0x52A1, 0x5668, 0x4FA7, 0x6267, 0x884C, 0xFF0C, 0x4E0D, 0x7ECF, 0x8FC7,
     0x6D4F, 0x89C8, 0x5668, 0x7F51, 0x7EDC]"

definition t_tools_word :: string where
  "t_tools_word =
     uni [0x5DE5, 0x5177]"

definition t_url_or_domain :: string where
  "t_url_or_domain =
     uni [0x7F51, 0x5740, 0x6216, 0x57DF, 0x540D]"

definition t_target_host :: string where
  "t_target_host =
     uni [0x76EE, 0x6807, 0x57DF, 0x540D, 0x6216] @ '' IP''"

definition t_run_start :: string where
  "t_run_start =
     uni [0x5F00, 0x59CB, 0x6267, 0x884C]"

definition t_run_result :: string where
  "t_run_result =
     uni [0x6267, 0x884C, 0x7ED3, 0x679C]"

definition t_result_shown_here :: string where
  "t_result_shown_here =
     uni [0x7ED3, 0x679C, 0x4F1A, 0x5B8C, 0x6574, 0x663E, 0x793A, 0x5728, 0x8FD9, 0x91CC]"

definition t_result_copied :: string where
  "t_result_copied =
     uni [0x7ED3, 0x679C, 0x5DF2, 0x590D, 0x5236]"

definition t_copy_word :: string where
  "t_copy_word =
     uni [0x590D, 0x5236]"

definition t_command_no_output :: string where
  "t_command_no_output =
     uni [0x547D, 0x4EE4, 0x6CA1, 0x6709, 0x8FD4, 0x56DE, 0x5185, 0x5BB9]"

definition t_waiting_run :: string where
  "t_waiting_run =
     uni [0x7B49, 0x5F85, 0x6267, 0x884C]"

definition t_choose_tool :: string where
  "t_choose_tool =
     uni [0x9009, 0x62E9, 0x5DE5, 0x5177, 0x5E76, 0x586B, 0x5199, 0x76EE, 0x6807, 0x540E, 0x6267,
     0x884C]"

definition t_ext_tools :: string where
  "t_ext_tools =
     uni [0x6269, 0x5C55, 0x5DE5, 0x5177]"

definition t_github_summary :: string where
  "t_github_summary =
     uni [0x8BBE, 0x5907, 0x767B, 0x5F55, 0x3001, 0x4ED3, 0x5E93, 0x3001] @ ''Actions'' @ uni
     [0x3001] @ ''Release '' @ uni [0x548C] @ '' ZIP '' @ uni [0x63A8, 0x9001]"

definition t_assets_read_failed :: string where
  "t_assets_read_failed =
     uni [0x8BFB, 0x53D6] @ '' Release '' @ uni [0x9644, 0x4EF6, 0x5931, 0x8D25]"

definition t_uploaded_suffix :: string where
  "t_uploaded_suffix =
     '' '' @ uni [0x5DF2, 0x4E0A, 0x4F20]"

definition t_asset_upload_cancelled :: string where
  "t_asset_upload_cancelled =
     uni [0x9644, 0x4EF6, 0x4E0A, 0x4F20, 0x5DF2, 0x53D6, 0x6D88]"

definition t_asset_upload_failed :: string where
  "t_asset_upload_failed =
     uni [0x9644, 0x4EF6, 0x4E0A, 0x4F20, 0x5931, 0x8D25]"

definition t_choose_asset :: string where
  "t_choose_asset =
     uni [0x9009, 0x62E9, 0x9644, 0x4EF6]"

definition t_asset_downloads :: string where
  "t_asset_downloads =
     '' '' @ uni [0x00B7] @ '' '' @ uni [0x4E0B, 0x8F7D] @ '' ''"

definition t_asset_times :: string where
  "t_asset_times =
     '' '' @ uni [0x6B21] @ '' '' @ uni [0x00B7] @ '' ''"

definition t_no_assets :: string where
  "t_no_assets =
     uni [0x8FD8, 0x6CA1, 0x6709, 0x9644, 0x4EF6]"

definition t_repo_read_failed :: string where
  "t_repo_read_failed =
     uni [0x8BFB, 0x53D6, 0x4ED3, 0x5E93, 0x5931, 0x8D25]"

definition t_connect_token :: string where
  "t_connect_token =
     uni [0x8FDE, 0x63A5] @ '' GitHub Token''"

definition t_github_connected_at :: string where
  "t_github_connected_at =
     uni [0x5DF2, 0x8FDE, 0x63A5] @ '' GitHub @''"

definition t_github_connect_failed :: string where
  "t_github_connect_failed =
     uni [0x8FDE, 0x63A5] @ '' GitHub '' @ uni [0x5931, 0x8D25]"

definition t_token_in_memory :: string where
  "t_token_in_memory =
     ''Token '' @ uni [0x53EA, 0x4FDD, 0x5B58, 0x5728, 0x5F53, 0x524D, 0x767B, 0x5F55, 0x4F1A,
     0x8BDD, 0x5185, 0x5B58, 0xFF0C, 0x9000, 0x51FA, 0x6216, 0x91CD, 0x542F, 0x540E, 0x5931, 0x6548]"

definition t_verify_connect :: string where
  "t_verify_connect =
     uni [0x9A8C, 0x8BC1, 0x5E76, 0x8FDE, 0x63A5]"

definition t_device_login_done :: string where
  "t_device_login_done =
     ''GitHub '' @ uni [0x8BBE, 0x5907, 0x767B, 0x5F55, 0x5B8C, 0x6210]"

definition t_device_login_expired :: string where
  "t_device_login_expired =
     uni [0x8BBE, 0x5907, 0x767B, 0x5F55, 0x5DF2, 0x8FC7, 0x671F, 0x6216, 0x88AB, 0x62D2, 0x7EDD]"

definition t_device_login_failed :: string where
  "t_device_login_failed =
     uni [0x8BBE, 0x5907, 0x767B, 0x5F55, 0x5931, 0x8D25]"

definition t_popup_blocked :: string where
  "t_popup_blocked =
     uni [0x6D4F, 0x89C8, 0x5668, 0x963B, 0x6B62, 0x4E86, 0x65B0, 0x7A97, 0x53E3, 0xFF0C, 0x8BF7,
     0x590D, 0x5236, 0x8BBE, 0x5907, 0x4EE3, 0x7801, 0x540E, 0x624B, 0x52A8, 0x6253, 0x5F00] @ ''
     GitHub''"

definition t_device_start_failed :: string where
  "t_device_start_failed =
     uni [0x65E0, 0x6CD5, 0x542F, 0x52A8, 0x8BBE, 0x5907, 0x767B, 0x5F55]"

definition t_disconnect_github :: string where
  "t_disconnect_github =
     uni [0x65AD, 0x5F00] @ '' GitHub''"

definition t_disconnect_detail :: string where
  "t_disconnect_detail =
     uni [0x5F53, 0x524D, 0x4F1A, 0x8BDD, 0x4E2D, 0x7684] @ '' Token '' @ uni [0x4F1A, 0x7ACB,
     0x5373, 0x4ECE, 0x5185, 0x5B58, 0x5220, 0x9664, 0x3002]"

definition t_disconnect :: string where
  "t_disconnect =
     uni [0x65AD, 0x5F00]"

definition t_github_disconnected :: string where
  "t_github_disconnected =
     uni [0x5DF2, 0x65AD, 0x5F00] @ '' GitHub''"

definition t_disconnect_failed :: string where
  "t_disconnect_failed =
     uni [0x65AD, 0x5F00, 0x5931, 0x8D25]"

definition t_github_op_failed :: string where
  "t_github_op_failed =
     ''GitHub '' @ uni [0x64CD, 0x4F5C, 0x5931, 0x8D25]"

definition t_jobs_suffix :: string where
  "t_jobs_suffix =
     '' '' @ uni [0x00B7] @ '' Jobs''"

definition t_log_copied :: string where
  "t_log_copied =
     uni [0x65E5, 0x5FD7, 0x5DF2, 0x590D, 0x5236]"

definition t_copy_log :: string where
  "t_copy_log =
     uni [0x590D, 0x5236, 0x65E5, 0x5FD7]"

definition t_job_log_failed :: string where
  "t_job_log_failed =
     uni [0x8BFB, 0x53D6] @ '' Job '' @ uni [0x65E5, 0x5FD7, 0x5931, 0x8D25]"

definition t_view_log :: string where
  "t_view_log =
     uni [0x67E5, 0x770B, 0x65E5, 0x5FD7]"

definition t_no_jobs :: string where
  "t_no_jobs =
     uni [0x6CA1, 0x6709, 0x53EF, 0x663E, 0x793A, 0x7684] @ '' Jobs''"

definition t_action_details_failed :: string where
  "t_action_details_failed =
     uni [0x8BFB, 0x53D6] @ '' Actions '' @ uni [0x8BE6, 0x60C5, 0x5931, 0x8D25]"

definition t_zip_too_large :: string where
  "t_zip_too_large =
     ''ZIP '' @ uni [0x4E0D, 0x80FD, 0x8D85, 0x8FC7] @ '' 64MB''"

definition t_zip_diff_done :: string where
  "t_zip_diff_done =
     ''ZIP '' @ uni [0x5DEE, 0x5F02, 0x5DF2, 0x751F, 0x6210]"

definition t_zip_upload_cancelled :: string where
  "t_zip_upload_cancelled =
     ''ZIP '' @ uni [0x4E0A, 0x4F20, 0x5DF2, 0x53D6, 0x6D88]"

definition t_zip_preview_failed :: string where
  "t_zip_preview_failed =
     ''ZIP '' @ uni [0x9884, 0x89C8, 0x5931, 0x8D25]"

definition t_commit_and_push :: string where
  "t_commit_and_push =
     ''Commit '' @ uni [0x5E76] @ '' Push''"

definition t_zip_added :: string where
  "t_zip_added =
     uni [0x65B0, 0x589E] @ '' ''"

definition t_zip_modified :: string where
  "t_zip_modified =
     '' '' @ uni [0x00B7] @ '' '' @ uni [0x4FEE, 0x6539] @ '' ''"

definition t_zip_deleted :: string where
  "t_zip_deleted =
     '' '' @ uni [0x00B7] @ '' '' @ uni [0x5220, 0x9664] @ '' ''"

definition t_commit_push :: string where
  "t_commit_push =
     uni [0x63D0, 0x4EA4, 0x63A8, 0x9001]"

definition t_pushing_to :: string where
  "t_pushing_to =
     uni [0x6B63, 0x5728, 0x5411] @ '' GitHub '' @ uni [0x63D0, 0x4EA4] @ '' ''"

definition t_files_pushed :: string where
  "t_files_pushed =
     uni [0x6587, 0x4EF6, 0x5DF2, 0x63A8, 0x9001]"

definition t_push_failed :: string where
  "t_push_failed =
     uni [0x63A8, 0x9001, 0x5931, 0x8D25]"

definition t_release_assets_of :: string where
  "t_release_assets_of =
     ''Release '' @ uni [0x9644, 0x4EF6] @ '' '' @ uni [0x00B7] @ '' ''"

definition t_waiting_github :: string where
  "t_waiting_github =
     uni [0x7B49, 0x5F85] @ '' GitHub '' @ uni [0x6388, 0x6743]"

definition t_device_code_copied :: string where
  "t_device_code_copied =
     uni [0x8BBE, 0x5907, 0x4EE3, 0x7801, 0x5DF2, 0x590D, 0x5236]"

definition t_copy_code :: string where
  "t_copy_code =
     uni [0x590D, 0x5236, 0x4EE3, 0x7801]"

definition t_connect_github :: string where
  "t_connect_github =
     uni [0x8FDE, 0x63A5] @ '' GitHub''"

definition t_token_login :: string where
  "t_token_login =
     ''Token '' @ uni [0x767B, 0x5F55]"

definition t_device_login :: string where
  "t_device_login =
     uni [0x8BBE, 0x5907, 0x767B, 0x5F55]"

definition t_choose_repo :: string where
  "t_choose_repo =
     uni [0x9009, 0x62E9, 0x4ED3, 0x5E93]"

definition t_repos_read_prefix :: string where
  "t_repos_read_prefix =
     uni [0x5DF2, 0x8BFB, 0x53D6, 0x6700, 0x8FD1, 0x66F4, 0x65B0, 0x7684] @ '' ''"

definition t_repos_suffix :: string where
  "t_repos_suffix =
     '' '' @ uni [0x4E2A, 0x53EF, 0x8BBF, 0x95EE, 0x4ED3, 0x5E93]"

definition t_quick_choice :: string where
  "t_quick_choice =
     uni [0x5FEB, 0x901F, 0x9009, 0x62E9]"

definition t_manual_repo :: string where
  "t_manual_repo =
     uni [0x624B, 0x52A8, 0x8F93, 0x5165, 0x4ED3, 0x5E93]"

definition t_repo_private :: string where
  "t_repo_private =
     '' '' @ uni [0x00B7] @ '' '' @ uni [0x79C1, 0x6709]"

definition t_repo_readonly :: string where
  "t_repo_readonly =
     '' '' @ uni [0x00B7] @ '' '' @ uni [0x53EA, 0x8BFB]"

definition t_owner_word :: string where
  "t_owner_word =
     uni [0x6240, 0x6709, 0x8005]"

definition t_repository :: string where
  "t_repository =
     uni [0x4ED3, 0x5E93]"

definition t_read_repo :: string where
  "t_read_repo =
     uni [0x8BFB, 0x53D6, 0x4ED3, 0x5E93]"

definition t_no_repo_description :: string where
  "t_no_repo_description =
     uni [0x65E0, 0x4ED3, 0x5E93, 0x8BF4, 0x660E]"

definition t_default_branch :: string where
  "t_default_branch =
     uni [0x9ED8, 0x8BA4, 0x5206, 0x652F]"

definition t_latest_commit :: string where
  "t_latest_commit =
     uni [0x6700, 0x65B0, 0x63D0, 0x4EA4]"

definition t_branches :: string where
  "t_branches =
     uni [0x5206, 0x652F]"

definition t_latest_tag :: string where
  "t_latest_tag =
     uni [0x6700, 0x65B0] @ '' Tag''"

definition t_none_yet :: string where
  "t_none_yet =
     uni [0x6682, 0x65E0]"

definition t_latest_release :: string where
  "t_latest_release =
     uni [0x6700, 0x65B0] @ '' Release''"

definition t_recent_actions :: string where
  "t_recent_actions =
     uni [0x6700, 0x8FD1] @ '' Actions''"

definition t_retry_failed_hint :: string where
  "t_retry_failed_hint =
     uni [0x5931, 0x8D25, 0x4EFB, 0x52A1, 0x53EF, 0x76F4, 0x63A5, 0x91CD, 0x8BD5]"

definition t_details_word :: string where
  "t_details_word =
     uni [0x8BE6, 0x60C5]"

definition t_retry_requested :: string where
  "t_retry_requested =
     uni [0x5DF2, 0x8BF7, 0x6C42, 0x91CD, 0x8BD5, 0x5931, 0x8D25, 0x4EFB, 0x52A1]"

definition t_no_actions :: string where
  "t_no_actions =
     uni [0x6682, 0x65E0] @ '' Actions '' @ uni [0x8BB0, 0x5F55]"

definition t_merge_protected :: string where
  "t_merge_protected =
     uni [0x5408, 0x5E76, 0x4ECD, 0x9075, 0x5B88, 0x5206, 0x652F, 0x4FDD, 0x62A4, 0x548C, 0x68C0,
     0x67E5]"

definition t_arrow_right :: string where
  "t_arrow_right =
     '' '' @ uni [0x2192] @ '' ''"

definition t_draft_suffix :: string where
  "t_draft_suffix =
     '' '' @ uni [0x00B7] @ '' '' @ uni [0x8349, 0x7A3F]"

definition t_merge_pr :: string where
  "t_merge_pr =
     uni [0x5408, 0x5E76] @ '' Pull Request''"

definition t_confirm_merge_pr :: string where
  "t_confirm_merge_pr =
     uni [0x786E, 0x8BA4, 0x5408, 0x5E76] @ '' Pull Request''"

definition t_merge_method_line :: string where
  "t_merge_method_line =
     uni [0x000A, 0x5408, 0x5E76, 0x65B9, 0x5F0F, 0xFF1A]"

definition t_merge_word :: string where
  "t_merge_word =
     uni [0x5408, 0x5E76]"

definition t_pr_merged :: string where
  "t_pr_merged =
     ''Pull Request '' @ uni [0x5DF2, 0x5408, 0x5E76]"

definition t_merge_method :: string where
  "t_merge_method =
     uni [0x5408, 0x5E76, 0x65B9, 0x5F0F]"

definition t_squash_recommended :: string where
  "t_squash_recommended =
     ''Squash merge'' @ uni [0xFF08, 0x63A8, 0x8350, 0xFF09]"

definition t_merge_respects :: string where
  "t_merge_respects =
     uni [0x5408, 0x5E76, 0x4ECD, 0x4F1A, 0x9075, 0x5B88, 0x4ED3, 0x5E93, 0x7684, 0x5206, 0x652F,
     0x4FDD, 0x62A4, 0x3001, 0x68C0, 0x67E5, 0x72B6, 0x6001, 0x548C, 0x6700, 0x65B0] @ '' Head SHA''
     @ uni [0x3002]"

definition t_continue_word :: string where
  "t_continue_word =
     uni [0x7EE7, 0x7EED]"

definition t_no_open_pr :: string where
  "t_no_open_pr =
     uni [0x6682, 0x65E0, 0x5F00, 0x653E, 0x7684] @ '' Pull Request''"

definition t_release_assets :: string where
  "t_release_assets =
     ''Release '' @ uni [0x9644, 0x4EF6]"

definition t_no_release_created :: string where
  "t_no_release_created =
     uni [0x5C1A, 0x672A, 0x521B, 0x5EFA] @ '' Release''"

definition t_manage_assets :: string where
  "t_manage_assets =
     uni [0x7BA1, 0x7406, 0x9644, 0x4EF6]"

definition t_no_release :: string where
  "t_no_release =
     uni [0x5C1A, 0x65E0] @ '' Release''"

definition t_create_branch :: string where
  "t_create_branch =
     uni [0x521B, 0x5EFA, 0x5206, 0x652F]"

definition t_from_branch_or_sha :: string where
  "t_from_branch_or_sha =
     uni [0x4ECE, 0x73B0, 0x6709, 0x5206, 0x652F, 0x6216] @ '' SHA '' @ uni [0x521B, 0x5EFA]"

definition t_new_branch_name :: string where
  "t_new_branch_name =
     uni [0x65B0, 0x5206, 0x652F, 0x540D, 0x79F0]"

definition t_source_word :: string where
  "t_source_word =
     uni [0x6765, 0x6E90]"

definition t_branch_created :: string where
  "t_branch_created =
     uni [0x5206, 0x652F, 0x5DF2, 0x521B, 0x5EFA]"

definition t_create_tag :: string where
  "t_create_tag =
     uni [0x521B, 0x5EFA, 0x7248, 0x672C] @ '' Tag''"

definition t_tag_default_head :: string where
  "t_tag_default_head =
     uni [0x9ED8, 0x8BA4, 0x6307, 0x5411, 0x9ED8, 0x8BA4, 0x5206, 0x652F, 0x6700, 0x65B0, 0x63D0,
     0x4EA4]"

definition t_create_tag_button :: string where
  "t_create_tag_button =
     uni [0x521B, 0x5EFA] @ '' Tag''"

definition t_version_tag :: string where
  "t_version_tag =
     uni [0x7248, 0x672C] @ '' Tag''"

definition t_created_suffix :: string where
  "t_created_suffix =
     '' '' @ uni [0x5DF2, 0x521B, 0x5EFA]"

definition t_create_pr :: string where
  "t_create_pr =
     uni [0x521B, 0x5EFA] @ '' Pull Request''"

definition t_no_auto_merge :: string where
  "t_no_auto_merge =
     uni [0x4E0D, 0x4F1A, 0x81EA, 0x52A8, 0x5408, 0x5E76]"

definition t_title_word :: string where
  "t_title_word =
     uni [0x6807, 0x9898]"

definition t_description_word :: string where
  "t_description_word =
     uni [0x8BF4, 0x660E]"

definition t_pr_created :: string where
  "t_pr_created =
     ''Pull Request '' @ uni [0x5DF2, 0x521B, 0x5EFA]"

definition t_create_pr_button :: string where
  "t_create_pr_button =
     uni [0x521B, 0x5EFA] @ '' PR''"

definition t_create_release :: string where
  "t_create_release =
     uni [0x521B, 0x5EFA] @ '' Release''"

definition t_tag_must_exist :: string where
  "t_tag_must_exist =
     ''Tag '' @ uni [0x5FC5, 0x987B, 0x5DF2, 0x7ECF, 0x5B58, 0x5728]"

definition t_release_notes :: string where
  "t_release_notes =
     uni [0x53D1, 0x5E03, 0x8BF4, 0x660E]"

definition t_release_created :: string where
  "t_release_created =
     ''Release '' @ uni [0x5DF2, 0x521B, 0x5EFA]"

definition t_zip_import :: string where
  "t_zip_import =
     ''ZIP '' @ uni [0x5DEE, 0x5F02, 0x5BFC, 0x5165]"

definition t_zip_import_hint :: string where
  "t_zip_import_hint =
     uni [0x5148, 0x4E0A, 0x4F20, 0x6BD4, 0x8F83, 0xFF0C, 0x518D, 0x7ECF, 0x4E8C, 0x6B21, 0x9A8C,
     0x8BC1] @ '' Commit + Push''"

definition t_choose_zip :: string where
  "t_choose_zip =
     uni [0x9009, 0x62E9] @ '' ZIP''"

definition t_target_branch :: string where
  "t_target_branch =
     uni [0x76EE, 0x6807, 0x5206, 0x652F]"

definition t_commit_message :: string where
  "t_commit_message =
     ''Commit '' @ uni [0x4FE1, 0x606F]"

definition t_diff_ready :: string where
  "t_diff_ready =
     uni [0x5DEE, 0x5F02, 0x5DF2, 0x751F, 0x6210]"

definition t_unchanged_suffix :: string where
  "t_unchanged_suffix =
     '' '' @ uni [0x00B7] @ '' '' @ uni [0x4E0D, 0x53D8] @ '' ''"

definition t_ssh_op_failed :: string where
  "t_ssh_op_failed =
     ''SSH '' @ uni [0x64CD, 0x4F5C, 0x5931, 0x8D25]"

definition t_add_key_for :: string where
  "t_add_key_for =
     uni [0x6DFB, 0x52A0, 0x516C, 0x94A5] @ '' '' @ uni [0x00B7] @ '' ''"

definition t_ssh_key_added :: string where
  "t_ssh_key_added =
     ''SSH '' @ uni [0x516C, 0x94A5, 0x5DF2, 0x6DFB, 0x52A0]"

definition t_openssh_key :: string where
  "t_openssh_key =
     ''OpenSSH '' @ uni [0x516C, 0x94A5]"

definition t_generate_key_for :: string where
  "t_generate_key_for =
     uni [0x751F, 0x6210, 0x5BC6, 0x94A5] @ '' '' @ uni [0x00B7] @ '' ''"

definition t_key_generated :: string where
  "t_key_generated =
     uni [0x5BC6, 0x94A5, 0x5DF2, 0x751F, 0x6210]"

definition t_save_private_key :: string where
  "t_save_private_key =
     uni [0x4FDD, 0x5B58, 0x79C1, 0x94A5]"

definition t_private_key_once :: string where
  "t_private_key_once =
     uni [0x79C1, 0x94A5, 0x53EA, 0x663E, 0x793A, 0x4E00, 0x6B21, 0x3002, 0x8BF7, 0x7ACB, 0x5373,
     0x4FDD, 0x5B58, 0xFF0C, 0x5173, 0x95ED, 0x540E, 0x65E0, 0x6CD5, 0x518D, 0x6B21, 0x67E5, 0x770B,
     0x3002]"

definition t_fingerprint :: string where
  "t_fingerprint =
     uni [0x6307, 0x7EB9]"

definition t_private_key_copied :: string where
  "t_private_key_copied =
     uni [0x79C1, 0x94A5, 0x5DF2, 0x590D, 0x5236]"

definition t_copy_private_key :: string where
  "t_copy_private_key =
     uni [0x590D, 0x5236, 0x79C1, 0x94A5]"

definition t_download_private_key :: string where
  "t_download_private_key =
     uni [0x4E0B, 0x8F7D, 0x79C1, 0x94A5]"

definition t_saved_it :: string where
  "t_saved_it =
     uni [0x6211, 0x5DF2, 0x4FDD, 0x5B58]"

definition t_comment_word :: string where
  "t_comment_word =
     uni [0x6CE8, 0x91CA]"

definition t_key_passphrase :: string where
  "t_key_passphrase =
     uni [0x79C1, 0x94A5, 0x53E3, 0x4EE4]"

definition t_passphrase_hint :: string where
  "t_passphrase_hint =
     uni [0x5EFA, 0x8BAE, 0x8BBE, 0x7F6E, 0xFF1B, 0x7559, 0x7A7A, 0x5219, 0x4E0D, 0x52A0, 0x5BC6]"

definition t_generate_word :: string where
  "t_generate_word =
     uni [0x751F, 0x6210]"

definition t_create_linux_user :: string where
  "t_create_linux_user =
     uni [0x521B, 0x5EFA] @ '' Linux '' @ uni [0x7528, 0x6237]"

definition t_username_rule :: string where
  "t_username_rule =
     uni [0x7528, 0x6237, 0x540D, 0x53EA, 0x80FD, 0x5305, 0x542B, 0x5C0F, 0x5199, 0x5B57, 0x6BCD,
     0x3001, 0x6570, 0x5B57, 0x3001, 0x4E0B, 0x5212, 0x7EBF, 0x548C, 0x77ED, 0x6A2A, 0x7EBF]"

definition t_linux_user_created :: string where
  "t_linux_user_created =
     ''Linux '' @ uni [0x7528, 0x6237, 0x5DF2, 0x521B, 0x5EFA]"

definition t_grant_sudo_right :: string where
  "t_grant_sudo_right =
     uni [0x6388, 0x4E88] @ '' sudo '' @ uni [0x6743, 0x9650]"

definition t_ssh_settings_applied :: string where
  "t_ssh_settings_applied =
     ''SSH '' @ uni [0x8BBE, 0x7F6E, 0x5DF2, 0x5E94, 0x7528]"

definition t_create_user_button :: string where
  "t_create_user_button =
     uni [0x521B, 0x5EFA, 0x7528, 0x6237]"

definition t_sshd_unavailable :: string where
  "t_sshd_unavailable =
     ''OpenSSH Server '' @ uni [0x5F53, 0x524D, 0x4E0D, 0x53EF, 0x7528]"

definition t_sshd_unreadable :: string where
  "t_sshd_unreadable =
     uni [0x65E0, 0x6CD5, 0x8BFB, 0x53D6] @ '' sshd '' @ uni [0x6709, 0x6548, 0x914D, 0x7F6E, 0x3002]
     @ ''SSH '' @ uni [0x8BBE, 0x7F6E, 0x3001, 0x5BC6, 0x7801, 0x767B, 0x5F55, 0x548C, 0x516C,
     0x94A5, 0x64CD, 0x4F5C, 0x5DF2, 0x7981, 0x7528, 0xFF0C, 0x907F, 0x514D, 0x628A, 0x672A, 0x77E5,
     0x72B6, 0x6001, 0x663E, 0x793A, 0x6210, 0x5DF2, 0x5F00, 0x542F, 0x3002]"

definition t_ssh_port_pending :: string where
  "t_ssh_port_pending =
     ''SSH '' @ uni [0x65B0, 0x7AEF, 0x53E3, 0x7B49, 0x5F85, 0x786E, 0x8BA4]"

definition t_first_connect_port :: string where
  "t_first_connect_port =
     uni [0x5148, 0x5728, 0x53E6, 0x4E00, 0x4E2A, 0x7EC8, 0x7AEF, 0x8FDE, 0x63A5, 0x7AEF, 0x53E3] @
     '' ''"

definition t_keep_after_success :: string where
  "t_keep_after_success =
     uni [0xFF0C, 0x786E, 0x8BA4, 0x6210, 0x529F, 0x540E, 0x518D, 0x4FDD, 0x7559, 0x3002]"

definition t_new_port_confirmed :: string where
  "t_new_port_confirmed =
     uni [0x65B0, 0x7AEF, 0x53E3, 0x5DF2, 0x786E, 0x8BA4]"

definition t_keep_new_port :: string where
  "t_keep_new_port =
     uni [0x4FDD, 0x7559, 0x65B0, 0x7AEF, 0x53E3]"

definition t_old_port_restored :: string where
  "t_old_port_restored =
     uni [0x5DF2, 0x6062, 0x590D, 0x65E7, 0x7AEF, 0x53E3]"

definition t_restore_old_port :: string where
  "t_restore_old_port =
     uni [0x6062, 0x590D, 0x65E7, 0x7AEF, 0x53E3]"

definition t_ssh_service :: string where
  "t_ssh_service =
     ''SSH '' @ uni [0x670D, 0x52A1]"

definition t_usable :: string where
  "t_usable =
     uni [0x53EF, 0x7528]"

definition t_port_space :: string where
  "t_port_space =
     uni [0x7AEF, 0x53E3] @ '' ''"

definition t_unknown_word :: string where
  "t_unknown_word =
     uni [0x672A, 0x77E5]"

definition t_no_usable_sshd :: string where
  "t_no_usable_sshd =
     uni [0x672A, 0x68C0, 0x6D4B, 0x5230, 0x53EF, 0x7528] @ '' sshd''"

definition t_linux_users :: string where
  "t_linux_users =
     ''Linux '' @ uni [0x7528, 0x6237]"

definition t_manageable_accounts :: string where
  "t_manageable_accounts =
     uni [0x53EF, 0x7BA1, 0x7406, 0x8D26, 0x6237]"

definition t_authorized_keys_count :: string where
  "t_authorized_keys_count =
     uni [0x5DF2, 0x6388, 0x6743, 0x516C, 0x94A5]"

definition t_all_users_total :: string where
  "t_all_users_total =
     uni [0x6240, 0x6709, 0x7528, 0x6237, 0x5408, 0x8BA1]"

definition t_password_login_2 :: string where
  "t_password_login_2 =
     uni [0x5BC6, 0x7801, 0x767B, 0x5F55]"

definition t_opened_word :: string where
  "t_opened_word =
     uni [0x5DF2, 0x5F00, 0x542F]"

definition t_close_after_key :: string where
  "t_close_after_key =
     uni [0x5EFA, 0x8BAE, 0x786E, 0x8BA4, 0x5BC6, 0x94A5, 0x540E, 0x5173, 0x95ED]"

definition t_keys_only_safer :: string where
  "t_keys_only_safer =
     uni [0x4EC5, 0x5BC6, 0x94A5, 0x767B, 0x5F55, 0x66F4, 0x5B89, 0x5168]"

definition t_ssh_security_settings :: string where
  "t_ssh_security_settings =
     ''SSH '' @ uni [0x5B89, 0x5168, 0x8BBE, 0x7F6E]"

definition t_port_rollback_hint :: string where
  "t_port_rollback_hint =
     uni [0x7AEF, 0x53E3, 0x4FEE, 0x6539, 0x542B, 0x56DE, 0x6EDA, 0x786E, 0x8BA4, 0x7A97, 0x53E3]"

definition t_root_login :: string where
  "t_root_login =
     ''Root '' @ uni [0x767B, 0x5F55]"

definition t_keys_only_recommended :: string where
  "t_keys_only_recommended =
     uni [0x53EA, 0x5141, 0x8BB8, 0x5BC6, 0x94A5, 0xFF08, 0x63A8, 0x8350, 0xFF09]"

definition t_forbid_all :: string where
  "t_forbid_all =
     uni [0x5B8C, 0x5168, 0x7981, 0x6B62]"

definition t_allow_word :: string where
  "t_allow_word =
     uni [0x5141, 0x8BB8]"

definition t_forced_commands_only :: string where
  "t_forced_commands_only =
     uni [0x4EC5, 0x5F3A, 0x5236, 0x547D, 0x4EE4]"

definition t_allow_tcp_forward :: string where
  "t_allow_tcp_forward =
     uni [0x5141, 0x8BB8] @ '' TCP '' @ uni [0x8F6C, 0x53D1]"

definition t_allow_agent_forward :: string where
  "t_allow_agent_forward =
     uni [0x5141, 0x8BB8] @ '' Agent '' @ uni [0x8F6C, 0x53D1]"

definition t_allow_x11_forward :: string where
  "t_allow_x11_forward =
     uni [0x5141, 0x8BB8] @ '' X11 '' @ uni [0x8F6C, 0x53D1]"

definition t_apply_ssh_settings :: string where
  "t_apply_ssh_settings =
     uni [0x5E94, 0x7528] @ '' SSH '' @ uni [0x8BBE, 0x7F6E]"

definition t_tested_key_first :: string where
  "t_tested_key_first =
     uni [0x5173, 0x95ED, 0x524D, 0x5FC5, 0x987B, 0x5DF2, 0x6D4B, 0x8BD5, 0x516C, 0x94A5, 0x767B,
     0x5F55]"

definition t_password_login_open :: string where
  "t_password_login_open =
     uni [0x5BC6, 0x7801, 0x767B, 0x5F55, 0x5F53, 0x524D, 0x5F00, 0x542F]"

definition t_password_login_closed :: string where
  "t_password_login_closed =
     uni [0x5BC6, 0x7801, 0x767B, 0x5F55, 0x5DF2, 0x5173, 0x95ED]"

definition t_public_brute_force :: string where
  "t_public_brute_force =
     uni [0x66B4, 0x9732, 0x5728, 0x516C, 0x7F51, 0x65F6, 0x66F4, 0x5BB9, 0x6613, 0x53D7, 0x5230,
     0x649E, 0x5E93, 0x653B, 0x51FB, 0x3002]"

definition t_must_use_keys :: string where
  "t_must_use_keys =
     ''Linux '' @ uni [0x7528, 0x6237, 0x5FC5, 0x987B, 0x4F7F, 0x7528, 0x516C, 0x94A5, 0x6216,
     0x5176, 0x4ED6, 0x5B89, 0x5168, 0x65B9, 0x5F0F, 0x767B, 0x5F55, 0x3002]"

definition t_restore_password_login :: string where
  "t_restore_password_login =
     uni [0x6062, 0x590D, 0x5BC6, 0x7801, 0x767B, 0x5F55]"

definition t_close_password_login :: string where
  "t_close_password_login =
     uni [0x5173, 0x95ED, 0x5BC6, 0x7801, 0x767B, 0x5F55]"

definition t_restore_password_detail :: string where
  "t_restore_password_detail =
     uni [0x6062, 0x590D, 0x540E, 0xFF0C] @ ''Linux '' @ uni [0x8D26, 0x6237, 0x5BC6, 0x7801, 0x53EF,
     0x518D, 0x6B21, 0x7528, 0x4E8E, 0x8FDC, 0x7A0B, 0x767B, 0x5F55, 0x3002]"

definition t_close_password_detail :: string where
  "t_close_password_detail =
     uni [0x5FC5, 0x987B, 0x5DF2, 0x5728, 0x53E6, 0x4E00, 0x4E2A, 0x7EC8, 0x7AEF, 0x6210, 0x529F,
     0x6D4B, 0x8BD5, 0x516C, 0x94A5, 0x767B, 0x5F55, 0xFF0C, 0x907F, 0x514D, 0x5931, 0x8054, 0x3002]"

definition t_confirm_close :: string where
  "t_confirm_close =
     uni [0x786E, 0x8BA4, 0x5173, 0x95ED]"

definition t_password_login_restored :: string where
  "t_password_login_restored =
     uni [0x5BC6, 0x7801, 0x767B, 0x5F55, 0x5DF2, 0x6062, 0x590D]"

definition t_users_and_keys :: string where
  "t_users_and_keys =
     uni [0x7528, 0x6237, 0x4E0E, 0x516C, 0x94A5]"

definition t_choose_user_keys :: string where
  "t_choose_user_keys =
     uni [0x9009, 0x62E9, 0x7528, 0x6237, 0x540E, 0x7BA1, 0x7406] @ '' authorized_keys''"

definition t_choose_ssh_user :: string where
  "t_choose_ssh_user =
     uni [0x9009, 0x62E9] @ '' SSH '' @ uni [0x7528, 0x6237]"

definition t_add_public_key :: string where
  "t_add_public_key =
     uni [0x6DFB, 0x52A0, 0x516C, 0x94A5]"

definition t_generate_key :: string where
  "t_generate_key =
     uni [0x751F, 0x6210, 0x5BC6, 0x94A5]"

definition t_normal_user :: string where
  "t_normal_user =
     uni [0x666E, 0x901A, 0x7528, 0x6237]"

definition t_unnamed_key :: string where
  "t_unnamed_key =
     uni [0x672A, 0x547D, 0x540D, 0x516C, 0x94A5]"

definition t_delete_ssh_key :: string where
  "t_delete_ssh_key =
     uni [0x5220, 0x9664] @ '' SSH '' @ uni [0x516C, 0x94A5]"

definition t_keep_other_login :: string where
  "t_keep_other_login =
     uni [0x8BF7, 0x786E, 0x8BA4, 0x4ECD, 0x6709, 0x5176, 0x4ED6, 0x53EF, 0x7528, 0x767B, 0x5F55,
     0x65B9, 0x5F0F, 0xFF0C, 0x907F, 0x514D, 0x5931, 0x8054, 0x3002]"

definition t_public_key_deleted :: string where
  "t_public_key_deleted =
     uni [0x516C, 0x94A5, 0x5DF2, 0x5220, 0x9664]"

definition t_user_no_keys :: string where
  "t_user_no_keys =
     uni [0x8BE5, 0x7528, 0x6237, 0x6CA1, 0x6709, 0x516C, 0x94A5]"

definition t_linux_user_admin :: string where
  "t_linux_user_admin =
     ''Linux '' @ uni [0x7528, 0x6237, 0x7BA1, 0x7406]"

definition t_careful_sudo :: string where
  "t_careful_sudo =
     uni [0x8C28, 0x614E, 0x4FEE, 0x6539] @ '' sudo '' @ uni [0x6743, 0x9650, 0x6216, 0x5220, 0x9664,
     0x7528, 0x6237]"

definition t_permission_word :: string where
  "t_permission_word =
     uni [0x6743, 0x9650]"

definition t_normal_word :: string where
  "t_normal_word =
     uni [0x666E, 0x901A]"

definition t_sudo_changed :: string where
  "t_sudo_changed =
     ''sudo '' @ uni [0x6743, 0x9650, 0x5DF2, 0x66F4, 0x65B0]"

definition t_remove_sudo :: string where
  "t_remove_sudo =
     uni [0x79FB, 0x9664] @ '' sudo''"

definition t_grant_sudo :: string where
  "t_grant_sudo =
     uni [0x6388, 0x4E88] @ '' sudo''"

definition t_delete_linux_user :: string where
  "t_delete_linux_user =
     uni [0x5220, 0x9664] @ '' Linux '' @ uni [0x7528, 0x6237]"

definition t_confirm_delete_prefix :: string where
  "t_confirm_delete_prefix =
     uni [0x786E, 0x8BA4, 0x5220, 0x9664] @ '' ''"

definition t_and_home_suffix :: string where
  "t_and_home_suffix =
     '' '' @ uni [0x5E76, 0x79FB, 0x9664, 0x5176, 0x4E3B, 0x76EE, 0x5F55, 0xFF1F]"

definition t_user_deleted :: string where
  "t_user_deleted =
     uni [0x7528, 0x6237, 0x5DF2, 0x5220, 0x9664]"

definition t_audit_title :: string where
  "t_audit_title =
     uni [0x64CD, 0x4F5C, 0x5BA1, 0x8BA1]"

definition t_system_logs :: string where
  "t_system_logs =
     uni [0x7CFB, 0x7EDF, 0x65E5, 0x5FD7]"

definition t_audit_hint :: string where
  "t_audit_hint =
     uni [0x8BB0, 0x5F55, 0x9762, 0x677F, 0x5185, 0x9AD8, 0x98CE, 0x9669, 0x64CD, 0x4F5C, 0x4E0E,
     0x7ED3, 0x679C]"

definition t_audit_search :: string where
  "t_audit_search =
     uni [0x7528, 0x6237, 0x3001, 0x8DEF, 0x5F84, 0x3001, 0x52A8, 0x4F5C, 0x6216] @ '' IP''"

definition t_audit_filter :: string where
  "t_audit_filter =
     uni [0x7B5B, 0x9009, 0x5BA1, 0x8BA1, 0x7ED3, 0x679C]"

definition t_all_results :: string where
  "t_all_results =
     uni [0x5168, 0x90E8, 0x7ED3, 0x679C]"

definition t_succeeded_word :: string where
  "t_succeeded_word =
     uni [0x6210, 0x529F]"

definition t_failed_word :: string where
  "t_failed_word =
     uni [0x5931, 0x8D25]"

definition t_no_audit_match :: string where
  "t_no_audit_match =
     uni [0x6CA1, 0x6709, 0x5339, 0x914D, 0x7684, 0x5BA1, 0x8BA1, 0x8BB0, 0x5F55]"

definition t_auto_refresh_hint :: string where
  "t_auto_refresh_hint =
     uni [0x5B9A, 0x671F, 0x81EA, 0x52A8, 0x5237, 0x65B0, 0xFF1B, 0x9875, 0x9762, 0x9690, 0x85CF,
     0x65F6, 0x6682, 0x505C]"

definition t_systemd_unit :: string where
  "t_systemd_unit =
     ''systemd '' @ uni [0x5355, 0x5143]"

definition t_unit_example :: string where
  "t_unit_example =
     uni [0x4F8B, 0x5982] @ '' ssh.service''"

definition t_priority_word :: string where
  "t_priority_word =
     uni [0x4F18, 0x5148, 0x7EA7]"

definition t_all_word :: string where
  "t_all_word =
     uni [0x5168, 0x90E8]"

definition t_errors_up :: string where
  "t_errors_up =
     uni [0x9519, 0x8BEF, 0x53CA, 0x4EE5, 0x4E0A]"

definition t_warnings_up :: string where
  "t_warnings_up =
     uni [0x8B66, 0x544A, 0x53CA, 0x4EE5, 0x4E0A]"

definition t_infos_up :: string where
  "t_infos_up =
     uni [0x4FE1, 0x606F, 0x53CA, 0x4EE5, 0x4E0A]"

definition t_line_count :: string where
  "t_line_count =
     uni [0x884C, 0x6570]"

definition t_security_op_failed :: string where
  "t_security_op_failed =
     uni [0x5B89, 0x5168, 0x64CD, 0x4F5C, 0x5931, 0x8D25]"

definition t_enter_port :: string where
  "t_enter_port =
     uni [0x8BF7, 0x8F93, 0x5165, 0x7AEF, 0x53E3, 0x6216, 0x7AEF, 0x53E3, 0x8303, 0x56F4]"

definition t_limit_tcp_only :: string where
  "t_limit_tcp_only =
     ''UFW '' @ uni [0x9650, 0x901F, 0x89C4, 0x5219, 0x53EA, 0x652F, 0x6301] @ '' TCP'' @ uni
     [0xFF0C, 0x8BF7, 0x5C06, 0x534F, 0x8BAE, 0x6539, 0x4E3A] @ '' TCP''"

definition t_fw_rule_added :: string where
  "t_fw_rule_added =
     uni [0x9632, 0x706B, 0x5899, 0x89C4, 0x5219, 0x5DF2, 0x6DFB, 0x52A0]"

definition t_fw_add_failed :: string where
  "t_fw_add_failed =
     uni [0x6DFB, 0x52A0, 0x89C4, 0x5219, 0x5931, 0x8D25]"

definition t_fw_delete_rule :: string where
  "t_fw_delete_rule =
     uni [0x5220, 0x9664, 0x9632, 0x706B, 0x5899, 0x89C4, 0x5219]"

definition t_confirm_delete_rule :: string where
  "t_confirm_delete_rule =
     uni [0x786E, 0x8BA4, 0x5220, 0x9664, 0x89C4, 0x5219] @ '' #''"

definition t_fw_rule_deleted :: string where
  "t_fw_rule_deleted =
     uni [0x9632, 0x706B, 0x5899, 0x89C4, 0x5219, 0x5DF2, 0x5220, 0x9664]"

definition t_fw_delete_failed :: string where
  "t_fw_delete_failed =
     uni [0x5220, 0x9664, 0x89C4, 0x5219, 0x5931, 0x8D25]"

definition t_recovery_page :: string where
  "t_recovery_page =
     uni [0x6062, 0x590D, 0x9875, 0x9762, 0xFF1A]"

definition t_recovery_token :: string where
  "t_recovery_token =
     uni [0x000A, 0x4E00, 0x6B21, 0x6027, 0x6062, 0x590D, 0x4EE4, 0x724C, 0xFF1A]"

definition t_save_recovery_info :: string where
  "t_save_recovery_info =
     uni [0x4FDD, 0x5B58, 0x8BBF, 0x95EE, 0x6062, 0x590D, 0x4FE1, 0x606F]"

definition t_access_limit_enabled :: string where
  "t_access_limit_enabled =
     uni [0x8BBF, 0x95EE, 0x9650, 0x5236, 0x5DF2, 0x542F, 0x7528, 0x3002, 0x8BF7, 0x5C06, 0x6062,
     0x590D, 0x9875, 0x9762, 0x548C, 0x4E00, 0x6B21, 0x6027, 0x4EE4, 0x724C, 0x5206, 0x5F00, 0x5B89,
     0x5168, 0x4FDD, 0x5B58, 0xFF1B, 0x4EE4, 0x724C, 0x4E0D, 0x4F1A, 0x51FA, 0x73B0, 0x5728] @ '' URL
     '' @ uni [0x4E2D, 0xFF0C, 0x6709, 0x6548, 0x671F, 0x4E3A] @ '' 15 '' @ uni [0x5206, 0x949F,
     0x3002]"

definition t_recovery_copied :: string where
  "t_recovery_copied =
     uni [0x6062, 0x590D, 0x4FE1, 0x606F, 0x5DF2, 0x590D, 0x5236]"

definition t_copy_recovery :: string where
  "t_copy_recovery =
     uni [0x590D, 0x5236, 0x6062, 0x590D, 0x4FE1, 0x606F]"

definition t_allowlist_saved :: string where
  "t_allowlist_saved =
     ''IP '' @ uni [0x5141, 0x8BB8, 0x5217, 0x8868, 0x5DF2, 0x4FDD, 0x5B58]"

definition t_access_limit_failed :: string where
  "t_access_limit_failed =
     uni [0x8BBF, 0x95EE, 0x9650, 0x5236, 0x4FDD, 0x5B58, 0x5931, 0x8D25]"

definition t_test_sent :: string where
  "t_test_sent =
     uni [0x6D4B, 0x8BD5, 0x6D88, 0x606F, 0x5DF2, 0x53D1, 0x9001]"

definition t_login_notice_saved :: string where
  "t_login_notice_saved =
     uni [0x767B, 0x5F55, 0x901A, 0x77E5, 0x5DF2, 0x4FDD, 0x5B58]"

definition t_notice_failed :: string where
  "t_notice_failed =
     uni [0x901A, 0x77E5, 0x914D, 0x7F6E, 0x5931, 0x8D25]"

definition t_enable_auto_security :: string where
  "t_enable_auto_security =
     uni [0x542F, 0x7528, 0x81EA, 0x52A8, 0x5B89, 0x5168, 0x66F4, 0x65B0]"

definition t_auto_security_detail :: string where
  "t_auto_security_detail =
     uni [0x5C06, 0x5B89, 0x88C5] @ '' unattended-upgrades '' @ uni [0x5E76, 0x542F, 0x7528, 0x6BCF,
     0x65E5, 0x5B89, 0x5168, 0x66F4, 0x65B0, 0xFF0C, 0x4E0D, 0x4F1A, 0x81EA, 0x52A8, 0x91CD, 0x542F,
     0x670D, 0x52A1, 0x5668, 0x3002]"

definition t_auto_security_enabled :: string where
  "t_auto_security_enabled =
     uni [0x81EA, 0x52A8, 0x5B89, 0x5168, 0x66F4, 0x65B0, 0x5DF2, 0x542F, 0x7528]"

definition t_install_fail2ban :: string where
  "t_install_fail2ban =
     uni [0x5B89, 0x88C5, 0x5E76, 0x542F, 0x7528] @ '' Fail2ban''"

definition t_install_fail2ban_detail :: string where
  "t_install_fail2ban_detail =
     uni [0x5C06, 0x4FDD, 0x62A4] @ '' SSH '' @ uni [0x767B, 0x5F55, 0xFF0C, 0x5E76, 0x81EA, 0x52A8,
     0x5FFD, 0x7565, 0x5F53, 0x524D, 0x8BBF, 0x95EE] @ '' IP '' @ uni [0x548C, 0x5185, 0x7F51,
     0x5730, 0x5740, 0x3002]"

definition t_install_and_enable :: string where
  "t_install_and_enable =
     uni [0x5B89, 0x88C5, 0x5E76, 0x542F, 0x7528]"

definition t_fail2ban_installed :: string where
  "t_fail2ban_installed =
     ''Fail2ban '' @ uni [0x5B89, 0x88C5, 0x5B8C, 0x6210]"

definition t_grade_good :: string where
  "t_grade_good =
     uni [0x826F, 0x597D]"

definition t_grade_advice :: string where
  "t_grade_advice =
     uni [0x5EFA, 0x8BAE]"

definition t_grade_risk :: string where
  "t_grade_risk =
     uni [0x98CE, 0x9669]"

definition t_grade_pending :: string where
  "t_grade_pending =
     uni [0x5F85, 0x68C0, 0x67E5]"

definition t_security_overview :: string where
  "t_security_overview =
     uni [0x5B89, 0x5168, 0x6982, 0x89C8]"

definition t_firewall_word :: string where
  "t_firewall_word =
     uni [0x9632, 0x706B, 0x5899]"

definition t_access_protection :: string where
  "t_access_protection =
     uni [0x8BBF, 0x95EE, 0x4FDD, 0x62A4]"

definition t_overall_good :: string where
  "t_overall_good =
     uni [0x6574, 0x4F53, 0x72B6, 0x6001, 0x826F, 0x597D]"

definition t_room_to_improve :: string where
  "t_room_to_improve =
     uni [0x4ECD, 0x6709, 0x6539, 0x8FDB, 0x7A7A, 0x95F4]"

definition t_fix_soon :: string where
  "t_fix_soon =
     uni [0x9700, 0x8981, 0x5C3D, 0x5FEB, 0x5904, 0x7406]"

definition t_score_from :: string where
  "t_score_from =
     uni [0x8BC4, 0x5206, 0x6765, 0x81EA, 0x4E3B, 0x673A, 0x3001, 0x9762, 0x677F, 0x3001] @ ''SSH'' @
     uni [0x3001, 0x8BA4, 0x8BC1, 0x548C, 0x66F4, 0x65B0, 0x7B56, 0x7565, 0x68C0, 0x67E5, 0x3002]"

definition t_advice_colon :: string where
  "t_advice_colon =
     uni [0x5EFA, 0x8BAE, 0xFF1A]"

definition t_configure_firewall :: string where
  "t_configure_firewall =
     uni [0x524D, 0x5F80, 0x914D, 0x7F6E, 0x9632, 0x706B, 0x5899]"

definition t_ufw_status :: string where
  "t_ufw_status =
     ''UFW '' @ uni [0x72B6, 0x6001]"

definition t_not_installed :: string where
  "t_not_installed =
     uni [0x672A, 0x5B89, 0x88C5]"

definition t_protecting :: string where
  "t_protecting =
     uni [0x6B63, 0x5728, 0x4FDD, 0x62A4]"

definition t_installed_disabled :: string where
  "t_installed_disabled =
     uni [0x5DF2, 0x5B89, 0x88C5, 0x4F46, 0x672A, 0x542F, 0x7528]"

definition t_default_in :: string where
  "t_default_in =
     uni [0x9ED8, 0x8BA4, 0x5165, 0x7AD9] @ '' ''"

definition t_default_out :: string where
  "t_default_out =
     '' '' @ uni [0x00B7] @ '' '' @ uni [0x9ED8, 0x8BA4, 0x51FA, 0x7AD9] @ '' ''"

definition t_ufw_can_manage :: string where
  "t_ufw_can_manage =
     uni [0x5B89, 0x88C5, 0x540E, 0x53EF, 0x7BA1, 0x7406, 0x5165, 0x7AD9, 0x3001, 0x51FA, 0x7AD9,
     0x548C, 0x7AEF, 0x53E3, 0x89C4, 0x5219, 0x3002]"

definition t_ufw_installed :: string where
  "t_ufw_installed =
     ''UFW '' @ uni [0x5B89, 0x88C5, 0x5B8C, 0x6210]"

definition t_install_ufw :: string where
  "t_install_ufw =
     uni [0x5B89, 0x88C5] @ '' UFW''"

definition t_ufw_safe_enable :: string where
  "t_ufw_safe_enable =
     uni [0x5B89, 0x5168, 0x542F, 0x7528] @ '' UFW''"

definition t_ufw_enable_detail :: string where
  "t_ufw_enable_detail =
     uni [0x7CFB, 0x7EDF, 0x4F1A, 0x5148, 0x653E, 0x884C, 0x5F53, 0x524D, 0x8BBF, 0x95EE] @ '' IP ''
     @ uni [0x548C] @ '' SSH '' @ uni [0x7AEF, 0x53E3, 0xFF0C, 0x5E76, 0x521B, 0x5EFA] @ '' 5 '' @
     uni [0x5206, 0x949F, 0x81EA, 0x52A8, 0x6062, 0x590D, 0x7A97, 0x53E3, 0x3002, 0x542F, 0x7528,
     0x540E, 0x8BF7, 0x786E, 0x8BA4, 0x65B0, 0x8FDE, 0x63A5, 0x6B63, 0x5E38, 0x3002]"

definition t_safe_enable :: string where
  "t_safe_enable =
     uni [0x5B89, 0x5168, 0x542F, 0x7528]"

definition t_ufw_enabled_verify :: string where
  "t_ufw_enabled_verify =
     ''UFW '' @ uni [0x5DF2, 0x542F, 0x7528, 0xFF0C, 0x8BF7, 0x9A8C, 0x8BC1, 0x8FDE, 0x63A5, 0x540E,
     0x786E, 0x8BA4]"

definition t_disable_ufw :: string where
  "t_disable_ufw =
     uni [0x5173, 0x95ED] @ '' UFW''"

definition t_disable_ufw_detail :: string where
  "t_disable_ufw_detail =
     uni [0x5173, 0x95ED, 0x540E, 0x7CFB, 0x7EDF, 0x5C06, 0x5931, 0x53BB] @ '' UFW '' @ uni [0x5165,
     0x7AD9, 0x4FDD, 0x62A4, 0x3002]"

definition t_ufw_disabled :: string where
  "t_ufw_disabled =
     ''UFW '' @ uni [0x5DF2, 0x5173, 0x95ED]"

definition t_lockout_window :: string where
  "t_lockout_window =
     uni [0x9632, 0x5931, 0x8054, 0x6062, 0x590D, 0x7A97, 0x53E3, 0x6B63, 0x5728, 0x8FD0, 0x884C]"

definition t_confirm_keep_ufw :: string where
  "t_confirm_keep_ufw =
     uni [0x786E, 0x8BA4, 0x5F53, 0x524D, 0x9875, 0x9762, 0x548C, 0x65B0, 0x7684] @ '' SSH '' @ uni
     [0x8FDE, 0x63A5, 0x6B63, 0x5E38, 0x540E, 0xFF0C, 0x7ACB, 0x5373, 0x786E, 0x8BA4, 0x4FDD, 0x7559]
     @ '' UFW'' @ uni [0x3002]"

definition t_ufw_confirmed :: string where
  "t_ufw_confirmed =
     ''UFW '' @ uni [0x914D, 0x7F6E, 0x5DF2, 0x786E, 0x8BA4]"

definition t_connection_ok :: string where
  "t_connection_ok =
     uni [0x8FDE, 0x63A5, 0x6B63, 0x5E38, 0xFF0C, 0x786E, 0x8BA4, 0x4FDD, 0x7559]"

definition t_add_fw_rule :: string where
  "t_add_fw_rule =
     uni [0x6DFB, 0x52A0, 0x9632, 0x706B, 0x5899, 0x89C4, 0x5219]"

definition t_fw_rule_hint :: string where
  "t_fw_rule_hint =
     uni [0x4F7F, 0x7528, 0x6B63, 0x786E] @ '' UFW '' @ uni [0x8BED, 0x4E49, 0xFF1B, 0x5931, 0x8D25,
     0x65F6, 0x663E, 0x793A, 0x5B9E, 0x9645, 0x547D, 0x4EE4, 0x548C, 0x8F93, 0x51FA]"

definition t_action_word :: string where
  "t_action_word =
     uni [0x52A8, 0x4F5C]"

definition t_deny_word :: string where
  "t_deny_word =
     uni [0x62D2, 0x7EDD]"

definition t_reject_word :: string where
  "t_reject_word =
     uni [0x62D2, 0x7EDD, 0x5E76, 0x56DE, 0x5E94]"

definition t_limit_word :: string where
  "t_limit_word =
     uni [0x8FDE, 0x63A5, 0x9650, 0x901F]"

definition t_direction_word :: string where
  "t_direction_word =
     uni [0x65B9, 0x5411]"

definition t_inbound :: string where
  "t_inbound =
     uni [0x5165, 0x7AD9]"

definition t_outbound :: string where
  "t_outbound =
     uni [0x51FA, 0x7AD9]"

definition t_protocol_word :: string where
  "t_protocol_word =
     uni [0x534F, 0x8BAE]"

definition t_all_protocols :: string where
  "t_all_protocols =
     uni [0x6240, 0x6709, 0x534F, 0x8BAE]"

definition t_ports_example :: string where
  "t_ports_example =
     ''443 '' @ uni [0x6216] @ '' 8000:8100''"

definition t_source_optional :: string where
  "t_source_optional =
     uni [0x6765, 0x6E90, 0xFF08, 0x53EF, 0x9009, 0xFF09]"

definition t_ip_cidr_or_empty :: string where
  "t_ip_cidr_or_empty =
     ''IP'' @ uni [0x3001] @ ''CIDR '' @ uni [0x6216, 0x7559, 0x7A7A]"

definition t_note_optional :: string where
  "t_note_optional =
     uni [0x5907, 0x6CE8, 0xFF08, 0x53EF, 0x9009, 0xFF09]"

definition t_add_rule_button :: string where
  "t_add_rule_button =
     uni [0x6DFB, 0x52A0, 0x89C4, 0x5219]"

definition t_source_colon :: string where
  "t_source_colon =
     uni [0x6765, 0x6E90, 0xFF1A]"

definition t_no_custom_rules :: string where
  "t_no_custom_rules =
     uni [0x6682, 0x65E0, 0x81EA, 0x5B9A, 0x4E49, 0x89C4, 0x5219]"

definition t_fail2ban_missing :: string where
  "t_fail2ban_missing =
     ''Fail2ban '' @ uni [0x672A, 0x5B89, 0x88C5]"

definition t_fail2ban_hint :: string where
  "t_fail2ban_hint =
     uni [0x5B89, 0x88C5, 0x540E, 0x5C06, 0x81EA, 0x52A8, 0x4FDD, 0x62A4] @ '' SSH'' @ uni [0xFF0C,
     0x5E76, 0x628A, 0x5F53, 0x524D, 0x8BBF, 0x95EE] @ '' IP '' @ uni [0x52A0, 0x5165, 0x5FFD,
     0x7565, 0x5217, 0x8868, 0x3002]"

definition t_now_failed :: string where
  "t_now_failed =
     uni [0x5F53, 0x524D, 0x5931, 0x8D25]"

definition t_current_jail :: string where
  "t_current_jail =
     uni [0x5F53, 0x524D] @ '' jail''"

definition t_total_failed :: string where
  "t_total_failed =
     uni [0x7D2F, 0x8BA1, 0x5931, 0x8D25]"

definition t_history_total :: string where
  "t_history_total =
     uni [0x5386, 0x53F2, 0x7D2F, 0x8BA1]"

definition t_now_banned :: string where
  "t_now_banned =
     uni [0x5F53, 0x524D, 0x5C01, 0x7981]"

definition t_blocking_now :: string where
  "t_blocking_now =
     uni [0x6B63, 0x5728, 0x963B, 0x6B62]"

definition t_total_banned :: string where
  "t_total_banned =
     uni [0x7D2F, 0x8BA1, 0x5C01, 0x7981]"

definition t_banned_ips :: string where
  "t_banned_ips =
     uni [0x5DF2, 0x5C01, 0x7981] @ '' IP''"

definition t_sshd_jail_records :: string where
  "t_sshd_jail_records =
     ''sshd jail '' @ uni [0x5F53, 0x524D, 0x8BB0, 0x5F55]"

definition t_unbanned_suffix :: string where
  "t_unbanned_suffix =
     '' '' @ uni [0x5DF2, 0x89E3, 0x5C01]"

definition t_unban_word :: string where
  "t_unban_word =
     uni [0x89E3, 0x5C01]"

definition t_no_banned :: string where
  "t_no_banned =
     uni [0x5F53, 0x524D, 0x6CA1, 0x6709, 0x5C01, 0x7981, 0x5730, 0x5740]"

definition t_ignore_list :: string where
  "t_ignore_list =
     uni [0x5FFD, 0x7565, 0x5217, 0x8868]"

definition t_ignore_list_hint :: string where
  "t_ignore_list_hint =
     uni [0x4E0D, 0x4F1A, 0x88AB] @ '' Fail2ban '' @ uni [0x5C01, 0x7981, 0x7684, 0x5730, 0x5740]"

definition t_ignore_list_updated :: string where
  "t_ignore_list_updated =
     ''Fail2ban '' @ uni [0x767D, 0x540D, 0x5355, 0x5DF2, 0x66F4, 0x65B0]"

definition t_ip_or_cidr :: string where
  "t_ip_or_cidr =
     ''IP '' @ uni [0x6216] @ '' CIDR''"

definition t_remove_from_whitelist :: string where
  "t_remove_from_whitelist =
     uni [0x4ECE, 0x767D, 0x540D, 0x5355, 0x79FB, 0x9664] @ '' ''"

definition t_whitelist_removed :: string where
  "t_whitelist_removed =
     uni [0x767D, 0x540D, 0x5355, 0x6761, 0x76EE, 0x5DF2, 0x79FB, 0x9664]"

definition t_panel_allowlist :: string where
  "t_panel_allowlist =
     uni [0x9762, 0x677F] @ '' IP '' @ uni [0x5141, 0x8BB8, 0x5217, 0x8868]"

definition t_panel_allowlist_hint :: string where
  "t_panel_allowlist_hint =
     uni [0x5F00, 0x542F, 0x540E, 0x53EA, 0x6709, 0x6307, 0x5B9A] @ '' IP '' @ uni [0x6216, 0x7F51,
     0x6BB5, 0x80FD, 0x8BBF, 0x95EE, 0x9762, 0x677F]"

definition t_not_opened :: string where
  "t_not_opened =
     uni [0x672A, 0x5F00, 0x542F]"

definition t_allowed_addresses :: string where
  "t_allowed_addresses =
     uni [0x5141, 0x8BB8, 0x5730, 0x5740]"

definition t_allowlist_hint :: string where
  "t_allowlist_hint =
     uni [0x6BCF, 0x884C, 0x4E00, 0x4E2A] @ '' IP '' @ uni [0x6216] @ '' CIDR'' @ uni [0xFF1B,
     0x5F00, 0x542F, 0x65F6, 0x81EA, 0x52A8, 0x5305, 0x542B, 0x5F53, 0x524D] @ '' IP''"

definition t_current_ip :: string where
  "t_current_ip =
     uni [0x5F53, 0x524D, 0x8BBF, 0x95EE] @ '' IP'' @ uni [0xFF1A]"

definition t_not_recognised :: string where
  "t_not_recognised =
     uni [0x65E0, 0x6CD5, 0x8BC6, 0x522B]"

definition t_save_access_limit :: string where
  "t_save_access_limit =
     uni [0x4FDD, 0x5B58, 0x8BBF, 0x95EE, 0x9650, 0x5236]"

definition t_telegram_notice :: string where
  "t_telegram_notice =
     ''Telegram '' @ uni [0x767B, 0x5F55, 0x901A, 0x77E5]"

definition t_telegram_hint :: string where
  "t_telegram_hint =
     uni [0x767B, 0x5F55, 0x6210, 0x529F, 0x540E, 0x53D1, 0x9001, 0x8BBE, 0x5907, 0x3001] @ ''IP '' @
     uni [0x548C, 0x767B, 0x5F55, 0x65B9, 0x5F0F]"

definition t_token_saved_hint :: string where
  "t_token_saved_hint =
     uni [0x5DF2, 0x4FDD, 0x5B58] @ '' Token'' @ uni [0xFF0C, 0x7559, 0x7A7A, 0x4FDD, 0x6301, 0x4E0D,
     0x53D8]"

definition t_first_enable_required :: string where
  "t_first_enable_required =
     uni [0x9996, 0x6B21, 0x542F, 0x7528, 0x65F6, 0x5FC5, 0x586B]"

definition t_save_and_test :: string where
  "t_save_and_test =
     uni [0x4FDD, 0x5B58, 0x5E76, 0x6D4B, 0x8BD5]"

definition t_save_recovery_codes :: string where
  "t_save_recovery_codes =
     uni [0x4FDD, 0x5B58, 0x6062, 0x590D, 0x7801]"

definition t_recovery_codes_once :: string where
  "t_recovery_codes_once =
     uni [0x6BCF, 0x4E2A, 0x6062, 0x590D, 0x7801, 0x53EA, 0x80FD, 0x4F7F, 0x7528, 0x4E00, 0x6B21,
     0xFF0C, 0x5173, 0x95ED, 0x540E, 0x4E0D, 0x4F1A, 0x518D, 0x6B21, 0x663E, 0x793A, 0x3002]"

definition t_recovery_codes_copied :: string where
  "t_recovery_codes_copied =
     uni [0x6062, 0x590D, 0x7801, 0x5DF2, 0x590D, 0x5236]"

definition t_copy_all :: string where
  "t_copy_all =
     uni [0x590D, 0x5236, 0x5168, 0x90E8]"

definition t_totp_setup_failed :: string where
  "t_totp_setup_failed =
     uni [0x65E0, 0x6CD5, 0x5F00, 0x59CB, 0x4E24, 0x6B65, 0x9A8C, 0x8BC1, 0x8BBE, 0x7F6E]"

definition t_setup_totp :: string where
  "t_setup_totp =
     uni [0x8BBE, 0x7F6E, 0x4E24, 0x6B65, 0x9A8C, 0x8BC1]"

definition t_totp_confirm_failed :: string where
  "t_totp_confirm_failed =
     uni [0x9A8C, 0x8BC1, 0x7801, 0x786E, 0x8BA4, 0x5931, 0x8D25]"

definition t_totp_enabled :: string where
  "t_totp_enabled =
     uni [0x4E24, 0x6B65, 0x9A8C, 0x8BC1, 0x5DF2, 0x5F00, 0x542F]"

definition t_totp_manual :: string where
  "t_totp_manual =
     uni [0x5728, 0x8EAB, 0x4EFD, 0x9A8C, 0x8BC1, 0x5668, 0x4E2D, 0x624B, 0x52A8, 0x6DFB, 0x52A0,
     0x5BC6, 0x94A5, 0xFF0C, 0x6216, 0x4F7F, 0x7528, 0x4E0B, 0x65B9] @ '' OTPAuth URI'' @ uni
     [0x3002]"

definition t_secret_word :: string where
  "t_secret_word =
     uni [0x5BC6, 0x94A5]"

definition t_copy_secret :: string where
  "t_copy_secret =
     uni [0x590D, 0x5236, 0x5BC6, 0x94A5]"

definition t_secret_copied :: string where
  "t_secret_copied =
     uni [0x5BC6, 0x94A5, 0x5DF2, 0x590D, 0x5236]"

definition t_six_digit_code :: string where
  "t_six_digit_code =
     ''6 '' @ uni [0x4F4D, 0x9A8C, 0x8BC1, 0x7801]"

definition t_verify_and_open :: string where
  "t_verify_and_open =
     uni [0x9A8C, 0x8BC1, 0x5E76, 0x5F00, 0x542F]"

definition t_passkey_register_failed :: string where
  "t_passkey_register_failed =
     ''Passkey '' @ uni [0x6CE8, 0x518C, 0x5931, 0x8D25]"

definition t_passkey_unsupported :: string where
  "t_passkey_unsupported =
     uni [0x5F53, 0x524D, 0x6D4F, 0x89C8, 0x5668, 0x4E0D, 0x652F, 0x6301] @ '' Passkey''"

definition t_current_device :: string where
  "t_current_device =
     uni [0x5F53, 0x524D, 0x8BBE, 0x5907]"

definition t_passkey_not_created :: string where
  "t_passkey_not_created =
     uni [0x672A, 0x5B8C, 0x6210] @ '' Passkey '' @ uni [0x521B, 0x5EFA]"

definition t_passkey_added :: string where
  "t_passkey_added =
     ''Passkey '' @ uni [0x5DF2, 0x6DFB, 0x52A0]"

definition t_password_unchanged_note :: string where
  "t_password_unchanged_note =
     uni [0x4E0D, 0x4F1A, 0x4FEE, 0x6539, 0x4F60, 0x7684, 0x767B, 0x5F55, 0x5BC6, 0x7801]"

definition t_argon_regenerates :: string where
  "t_argon_regenerates =
     uni [0x7CFB, 0x7EDF, 0x53EA, 0x4F1A, 0x5728, 0x786E, 0x8BA4, 0x5F53, 0x524D, 0x5BC6, 0x7801,
     0x6B63, 0x786E, 0x540E, 0xFF0C, 0x7528] @ '' Argon2id '' @ uni [0x91CD, 0x65B0, 0x751F, 0x6210,
     0x5E76, 0x4FDD, 0x5B58, 0x5BC6, 0x7801, 0x6821, 0x9A8C, 0x503C, 0x3002]"

definition t_argon_costs :: string where
  "t_argon_costs =
     ''Argon2id '' @ uni [0x4F7F, 0x7528] @ '' 32 MiB '' @ uni [0x4E34, 0x65F6, 0x5185, 0x5B58,
     0x3001] @ ''3 '' @ uni [0x8F6E, 0x8BA1, 0x7B97, 0x3001, 0x5E76, 0x884C, 0x5EA6] @ '' 1'' @ uni
     [0xFF1B, 0x4EC5, 0x5728, 0x767B, 0x5F55, 0x6216, 0x9A8C, 0x8BC1, 0x5BC6, 0x7801, 0x65F6, 0x77ED,
     0x6682, 0x5360, 0x7528, 0x3002]"

definition t_later_word :: string where
  "t_later_word =
     uni [0x7A0D, 0x540E]"

definition t_password_compat_mode :: string where
  "t_password_compat_mode =
     uni [0x5BC6, 0x7801, 0x4FDD, 0x62A4, 0x4ECD, 0x4F7F, 0x7528, 0x517C, 0x5BB9, 0x6A21, 0x5F0F]"

definition t_pbkdf2_still_ok :: string where
  "t_pbkdf2_still_ok =
     uni [0x65E7] @ '' PBKDF2 '' @ uni [0x6821, 0x9A8C, 0x503C, 0x4ECD, 0x53EF, 0x6B63, 0x5E38,
     0x767B, 0x5F55, 0xFF1B, 0x5347, 0x7EA7, 0x4E3A] @ '' Argon2id '' @ uni [0x540E, 0x53EF, 0x83B7,
     0x5F97, 0x66F4, 0x5F3A, 0x7684] @ '' GPU '' @ uni [0x66B4, 0x529B, 0x7834, 0x89E3, 0x9632,
     0x62A4, 0x3002]"

definition t_admin_account :: string where
  "t_admin_account =
     uni [0x7BA1, 0x7406, 0x5458, 0x8D26, 0x6237]"

definition t_rename_revokes :: string where
  "t_rename_revokes =
     uni [0x4FEE, 0x6539, 0x7528, 0x6237, 0x540D, 0x540E, 0x4F1A, 0x64A4, 0x9500, 0x5176, 0x4ED6,
     0x767B, 0x5F55, 0x4F1A, 0x8BDD]"

definition t_rename_failed :: string where
  "t_rename_failed =
     uni [0x7528, 0x6237, 0x540D, 0x4FEE, 0x6539, 0x5931, 0x8D25]"

definition t_admin_renamed :: string where
  "t_admin_renamed =
     uni [0x7BA1, 0x7406, 0x5458, 0x7528, 0x6237, 0x540D, 0x5DF2, 0x66F4, 0x65B0]"

definition t_admin_username :: string where
  "t_admin_username =
     uni [0x7BA1, 0x7406, 0x5458, 0x7528, 0x6237, 0x540D]"

definition t_save_username :: string where
  "t_save_username =
     uni [0x4FDD, 0x5B58, 0x7528, 0x6237, 0x540D]"

definition t_change_password :: string where
  "t_change_password =
     uni [0x4FEE, 0x6539, 0x5BC6, 0x7801]"

definition t_password_strength :: string where
  "t_password_strength =
     uni [0x65B0, 0x5BC6, 0x7801, 0x5FC5, 0x987B, 0x6EE1, 0x8DB3, 0x540E, 0x7AEF, 0x5B89, 0x5168,
     0x5F3A, 0x5EA6, 0x8981, 0x6C42]"

definition t_passwords_differ :: string where
  "t_passwords_differ =
     uni [0x4E24, 0x6B21, 0x8F93, 0x5165, 0x7684, 0x65B0, 0x5BC6, 0x7801, 0x4E0D, 0x4E00, 0x81F4]"

definition t_password_change_failed :: string where
  "t_password_change_failed =
     uni [0x5BC6, 0x7801, 0x4FEE, 0x6539, 0x5931, 0x8D25]"

definition t_password_changed :: string where
  "t_password_changed =
     uni [0x5BC6, 0x7801, 0x5DF2, 0x4FEE, 0x6539, 0xFF0C, 0x5176, 0x4ED6, 0x4F1A, 0x8BDD, 0x5DF2,
     0x64A4, 0x9500]"

definition t_new_password :: string where
  "t_new_password =
     uni [0x65B0, 0x5BC6, 0x7801]"

definition t_confirm_new_password :: string where
  "t_confirm_new_password =
     uni [0x786E, 0x8BA4, 0x65B0, 0x5BC6, 0x7801]"

definition t_totp_word :: string where
  "t_totp_word =
     uni [0x4E24, 0x6B65, 0x9A8C, 0x8BC1]"

definition t_totp_hint :: string where
  "t_totp_hint =
     uni [0x8EAB, 0x4EFD, 0x9A8C, 0x8BC1, 0x5668, 0x548C, 0x4E00, 0x6B21, 0x6027, 0x6062, 0x590D,
     0x7801]"

definition t_codes_left :: string where
  "t_codes_left =
     uni [0x5269, 0x4F59, 0x6062, 0x590D, 0x7801, 0xFF1A]"

definition t_codes_unit :: string where
  "t_codes_unit =
     '' '' @ uni [0x4E2A]"

definition t_totp_recommended :: string where
  "t_totp_recommended =
     uni [0x5F3A, 0x70C8, 0x5EFA, 0x8BAE, 0x7BA1, 0x7406, 0x5458, 0x8D26, 0x6237, 0x5F00, 0x542F,
     0x4E24, 0x6B65, 0x9A8C, 0x8BC1, 0x3002]"

definition t_begin_setup :: string where
  "t_begin_setup =
     uni [0x5F00, 0x59CB, 0x8BBE, 0x7F6E]"

definition t_regenerate_codes :: string where
  "t_regenerate_codes =
     uni [0x91CD, 0x65B0, 0x751F, 0x6210, 0x6062, 0x590D, 0x7801]"

definition t_old_codes_invalid :: string where
  "t_old_codes_invalid =
     uni [0x65E7, 0x6062, 0x590D, 0x7801, 0x5C06, 0x7ACB, 0x5373, 0x5931, 0x6548, 0x3002]"

definition t_codes_regenerated :: string where
  "t_codes_regenerated =
     uni [0x6062, 0x590D, 0x7801, 0x5DF2, 0x91CD, 0x65B0, 0x751F, 0x6210]"

definition t_disable_totp :: string where
  "t_disable_totp =
     uni [0x5173, 0x95ED, 0x4E24, 0x6B65, 0x9A8C, 0x8BC1]"

definition t_disable_totp_detail :: string where
  "t_disable_totp_detail =
     uni [0x5173, 0x95ED, 0x540E, 0x8D26, 0x6237, 0x5B89, 0x5168, 0x6027, 0x4F1A, 0x964D, 0x4F4E,
     0x3002]"

definition t_totp_disabled :: string where
  "t_totp_disabled =
     uni [0x4E24, 0x6B65, 0x9A8C, 0x8BC1, 0x5DF2, 0x5173, 0x95ED]"

definition t_panel_preferences :: string where
  "t_panel_preferences =
     uni [0x9762, 0x677F, 0x504F, 0x597D]"

definition t_refresh_control :: string where
  "t_refresh_control =
     uni [0x7EDF, 0x4E00, 0x63A7, 0x5236, 0x9875, 0x9762, 0x81EA, 0x52A8, 0x5237, 0x65B0, 0x9891,
     0x7387]"

definition t_save_failed :: string where
  "t_save_failed =
     uni [0x4FDD, 0x5B58, 0x5931, 0x8D25]"

definition t_refresh_saved :: string where
  "t_refresh_saved =
     uni [0x5237, 0x65B0, 0x9891, 0x7387, 0x5DF2, 0x4FDD, 0x5B58]"

definition t_refresh_seconds :: string where
  "t_refresh_seconds =
     uni [0x81EA, 0x52A8, 0x5237, 0x65B0, 0x95F4, 0x9694, 0xFF08, 0x79D2, 0xFF09]"

definition t_save_preferences :: string where
  "t_save_preferences =
     uni [0x4FDD, 0x5B58, 0x504F, 0x597D]"

definition t_version_word :: string where
  "t_version_word =
     uni [0x7248, 0x672C]"

definition t_listen_word :: string where
  "t_listen_word =
     uni [0x76D1, 0x542C]"

definition t_password_storage :: string where
  "t_password_storage =
     uni [0x5F53, 0x524D, 0x5BC6, 0x7801, 0x5B58, 0x50A8]"

definition t_to_upgrade :: string where
  "t_to_upgrade =
     uni [0x5F85, 0x5347, 0x7EA7]"

definition t_kdf_word :: string where
  "t_kdf_word =
     uni [0x5BC6, 0x7801, 0x6D3E, 0x751F]"

definition t_memory_cost :: string where
  "t_memory_cost =
     uni [0x5185, 0x5B58, 0x6210, 0x672C]"

definition t_mib_temporary :: string where
  "t_mib_temporary =
     '' MiB'' @ uni [0xFF08, 0x9A8C, 0x8BC1, 0x65F6, 0x4E34, 0x65F6, 0x5360, 0x7528, 0xFF09]"

definition t_time_cost :: string where
  "t_time_cost =
     uni [0x65F6, 0x95F4, 0x6210, 0x672C]"

definition t_rounds_suffix :: string where
  "t_rounds_suffix =
     '' '' @ uni [0x8F6E]"

definition t_parallelism :: string where
  "t_parallelism =
     uni [0x5E76, 0x884C, 0x5EA6]"

definition t_kdf_limit :: string where
  "t_kdf_limit =
     uni [0x6D3E, 0x751F, 0x5E76, 0x53D1, 0x4E0A, 0x9650]"

definition t_about_open :: string where
  "t_about_open =
     uni [0xFF08, 0x7EA6] @ '' ''"

definition t_mib_peak :: string where
  "t_mib_peak =
     '' MiB '' @ uni [0x5CF0, 0x503C, 0xFF09]"

definition t_session_signature :: string where
  "t_session_signature =
     uni [0x4F1A, 0x8BDD, 0x7B7E, 0x540D]"

definition t_pq_outbound :: string where
  "t_pq_outbound =
     uni [0x540E, 0x91CF, 0x5B50, 0x51FA, 0x7AD9]"

definition t_ml_kem_enabled :: string where
  "t_ml_kem_enabled =
     uni [0x5DF2, 0x542F, 0x7528, 0x6DF7, 0x5408] @ '' ML-KEM''"

definition t_not_in_build :: string where
  "t_not_in_build =
     uni [0x5F53, 0x524D, 0x6784, 0x5EFA, 0x672A, 0x542F, 0x7528]"

definition t_negotiated :: string where
  "t_negotiated =
     uni [0x534F, 0x5546, 0x65B9, 0x6848]"

definition t_inbound_https :: string where
  "t_inbound_https =
     uni [0x5165, 0x7AD9] @ '' HTTPS''"

definition t_runtime_word :: string where
  "t_runtime_word =
     uni [0x8FD0, 0x884C, 0x65F6]"

definition t_passkey_hint :: string where
  "t_passkey_hint =
     uni [0x65E0, 0x9700, 0x7528, 0x6237, 0x540D, 0xFF0C, 0x76F4, 0x63A5, 0x4F7F, 0x7528] @ '' Face
     ID'' @ uni [0x3001] @ ''Touch ID '' @ uni [0x6216, 0x5B89, 0x5168, 0x5BC6, 0x94A5, 0x767B,
     0x5F55]"

definition t_device_name_example :: string where
  "t_device_name_example =
     uni [0x8BBE, 0x5907, 0x540D, 0x79F0, 0xFF0C, 0x4F8B, 0x5982] @ '' iPhone''"

definition t_add_passkey :: string where
  "t_add_passkey =
     uni [0x6DFB, 0x52A0] @ '' Passkey''"

definition t_unnamed_passkey :: string where
  "t_unnamed_passkey =
     uni [0x672A, 0x547D, 0x540D] @ '' Passkey''"

definition t_created_colon :: string where
  "t_created_colon =
     uni [0x521B, 0x5EFA, 0xFF1A]"

definition t_last_used :: string where
  "t_last_used =
     '' '' @ uni [0x00B7] @ '' '' @ uni [0x6700, 0x8FD1, 0x4F7F, 0x7528, 0xFF1A]"

definition t_delete_passkey :: string where
  "t_delete_passkey =
     uni [0x5220, 0x9664] @ '' Passkey''"

definition t_quote_question :: string where
  "t_quote_question =
     uni [0x201D, 0xFF1F]"

definition t_passkey_deleted :: string where
  "t_passkey_deleted =
     ''Passkey '' @ uni [0x5DF2, 0x5220, 0x9664]"

definition t_no_passkeys :: string where
  "t_no_passkeys =
     uni [0x5C1A, 0x672A, 0x6DFB, 0x52A0] @ '' Passkey''"

definition t_login_sessions :: string where
  "t_login_sessions =
     uni [0x767B, 0x5F55, 0x4F1A, 0x8BDD]"

definition t_current_not_revoked :: string where
  "t_current_not_revoked =
     uni [0x5F53, 0x524D, 0x4F1A, 0x8BDD, 0x4E0D, 0x4F1A, 0x88AB, 0x6279, 0x91CF, 0x64A4, 0x9500]"

definition t_revoke_failed :: string where
  "t_revoke_failed =
     uni [0x64A4, 0x9500, 0x5931, 0x8D25]"

definition t_revoked_prefix :: string where
  "t_revoked_prefix =
     uni [0x5DF2, 0x64A4, 0x9500] @ '' ''"

definition t_other_sessions_suffix :: string where
  "t_other_sessions_suffix =
     '' '' @ uni [0x4E2A, 0x5176, 0x4ED6, 0x4F1A, 0x8BDD]"

definition t_revoke_others :: string where
  "t_revoke_others =
     uni [0x64A4, 0x9500, 0x5176, 0x4ED6, 0x4F1A, 0x8BDD]"

definition t_current_word :: string where
  "t_current_word =
     uni [0x5F53, 0x524D]"

definition t_auth_rules :: string where
  "t_auth_rules =
     uni [0x767B, 0x5F55, 0x8BA4, 0x8BC1, 0x89C4, 0x5219]"

definition t_no_trusted_devices :: string where
  "t_no_trusted_devices =
     uni [0x4E0D, 0x5B58, 0x5728, 0x53EF, 0x7ED5, 0x8FC7, 0x4E24, 0x6B65, 0x9A8C, 0x8BC1, 0x7684,
     0x53EF, 0x4FE1, 0x8BBE, 0x5907]"

definition t_totp_every_time :: string where
  "t_totp_every_time =
     uni [0x6BCF, 0x6B21, 0x5F3A, 0x5236] @ '' TOTP''"

definition t_password_only :: string where
  "t_password_only =
     uni [0x4EC5, 0x5BC6, 0x7801]"

definition t_no_username_auth :: string where
  "t_no_username_auth =
     uni [0x65E0, 0x7528, 0x6237, 0x540D, 0x72EC, 0x7ACB, 0x8BA4, 0x8BC1]"

definition t_risky_ops :: string where
  "t_risky_ops =
     uni [0x9AD8, 0x98CE, 0x9669, 0x64CD, 0x4F5C]"

definition t_password_and_totp :: string where
  "t_password_and_totp =
     uni [0x5F53, 0x524D, 0x5BC6, 0x7801] @ '' + TOTP''"

definition t_trusted_device :: string where
  "t_trusted_device =
     uni [0x514D, 0x9A8C, 0x8BC1, 0x8BBE, 0x5907]"

definition t_not_supported :: string where
  "t_not_supported =
     uni [0x4E0D, 0x652F, 0x6301]"

end
