(* ===== verification/Js_Value.thy ===== *)
theory Js_Value imports Complex_Main Texts begin

text \<open>
  The values the panel handles: what a response of the server holds after JSON parsing, and the
  coercions of JavaScript the code applies to them (\<open>String(v)\<close>, \<open>Number(v)\<close>, truthiness,
  \<open>||\<close>, \<open>??\<close>, property reads), followed by the guards every page reads payloads through:
  \<open>asObject\<close>, \<open>listOf\<close>, \<open>boolText\<close>, \<open>text\<close>, \<open>number\<close>, \<open>lines\<close>, \<open>truncate\<close> and
  \<open>query\<close> (\<open>web/assets/app.js\<close>, lines 73 to 113).

  A number is an exact rational: the rounding of binary64 arithmetic is not modelled, and a
  value JavaScript holds as NaN or an infinity is \<open>None\<close> where \<open>Number\<close> can produce it. An
  object is an association list in insertion order. Reading a property of \<open>undefined\<close> or
  \<open>null\<close>, a TypeError in the browser, reads \<open>undefined\<close> here.
\<close>

datatype json =
    JUndef
  | JNull
  | JBool bool
  | JNum rat
  | JStr string
  | JArr "json list"
  | JObj "(string \<times> json) list"

subsection \<open>Property reads\<close>

fun fld :: "json \<Rightarrow> string \<Rightarrow> json" where
  "fld (JObj kvs) k = (case map_of kvs k of Some v \<Rightarrow> v | None \<Rightarrow> JUndef)"
| "fld (JArr xs) k = (if k = ''length'' then JNum (of_nat (length xs)) else JUndef)"
| "fld (JStr s) k = (if k = ''length'' then JNum (of_nat (js_length s)) else JUndef)"
| "fld v k = JUndef"

fun idx :: "json \<Rightarrow> nat \<Rightarrow> json" where
  "idx (JArr xs) n = (if n < length xs then xs ! n else JUndef)"
| "idx v n = JUndef"

definition list_idx :: "json list \<Rightarrow> nat \<Rightarrow> json" where
  "list_idx xs n = (if n < length xs then xs ! n else JUndef)"

fun obj_keys :: "json \<Rightarrow> string list" where
  "obj_keys (JObj kvs) = map fst kvs"
| "obj_keys v = []"

text \<open>\<open>{...a, ...b}\<close> and \<open>Object.fromEntries\<close>: a later entry replaces an earlier one of the
  same key and keeps its place.\<close>

fun obj_put :: "(string \<times> json) list \<Rightarrow> string \<Rightarrow> json \<Rightarrow> (string \<times> json) list" where
  "obj_put [] k v = [(k, v)]"
| "obj_put ((k', v') # kvs) k v = (if k' = k then (k, v) # kvs else (k', v') # obj_put kvs k v)"

fun entries_of :: "json \<Rightarrow> (string \<times> json) list" where
  "entries_of (JObj kvs) = kvs"
| "entries_of v = []"

definition spread :: "json \<Rightarrow> (string \<times> json) list \<Rightarrow> json" where
  "spread a kvs = JObj (foldl (\<lambda>acc (k, v). obj_put acc k v) (entries_of a) kvs)"

definition from_entries :: "(string \<times> json) list \<Rightarrow> json" where
  "from_entries kvs = JObj (foldl (\<lambda>acc (k, v). obj_put acc k v) [] kvs)"

lemma map_of_obj_put [simp]: "map_of (obj_put kvs k v) = (map_of kvs)(k \<mapsto> v)"
  by (induction kvs k v rule: obj_put.induct) auto

lemma map_of_foldl_obj_put:
  "map_of (foldl (\<lambda>acc (k, v). obj_put acc k v) acc kvs) = map_of acc ++ map_of (rev kvs)"
  by (induction kvs arbitrary: acc) (auto simp: map_add_def fun_eq_iff split: option.splits)

lemma keys_obj_put: "map fst (obj_put kvs k v) = map fst kvs @ (if k \<in> fst ` set kvs then [] else [k])"
  by (induction kvs k v rule: obj_put.induct) auto

lemma distinct_obj_put: "distinct (map fst kvs) \<Longrightarrow> distinct (map fst (obj_put kvs k v))"
  by (auto simp: keys_obj_put)

subsection \<open>Truthiness\<close>

fun truthy :: "json \<Rightarrow> bool" where
  "truthy JUndef = False"
| "truthy JNull = False"
| "truthy (JBool b) = b"
| "truthy (JNum r) = (r \<noteq> 0)"
| "truthy (JStr s) = (s \<noteq> [])"
| "truthy v = True"

definition nullish :: "json \<Rightarrow> bool" where
  "nullish v \<longleftrightarrow> v = JUndef \<or> v = JNull"

definition jor :: "json \<Rightarrow> json \<Rightarrow> json" where
  "jor a b = (if truthy a then a else b)"

definition jand :: "json \<Rightarrow> json \<Rightarrow> json" where
  "jand a b = (if truthy a then b else a)"

definition jnn :: "json \<Rightarrow> json \<Rightarrow> json" where
  "jnn a b = (if nullish a then b else a)"

lemma truthy_jor [simp]: "truthy (jor a b) \<longleftrightarrow> truthy a \<or> truthy b"
  by (simp add: jor_def)

lemma truthy_jand [simp]: "truthy (jand a b) \<longleftrightarrow> truthy a \<and> truthy b"
  by (simp add: jand_def)

subsection \<open>Numbers as text\<close>

text \<open>The fractional digits of a number in \<open>[0, 1)\<close>, at most \<open>n\<close> of them, stopping when the
  rest is zero.\<close>

fun frac_digits :: "nat \<Rightarrow> rat \<Rightarrow> string" where
  "frac_digits 0 r = []"
| "frac_digits (Suc n) r =
     (if r = 0 then [] else char_of (48 + nat \<lfloor>10 * r\<rfloor>) # frac_digits n (10 * r - of_int \<lfloor>10 * r\<rfloor>))"

text \<open>\<open>String(r)\<close>: integers are exact; a fraction is its decimal expansion up to 17 places.\<close>

definition num_str :: "rat \<Rightarrow> string" where
  "num_str r =
     (let a = \<bar>r\<bar>; i = \<lfloor>a\<rfloor>; f = a - of_int i
      in (if r < 0 then ''-'' else []) @ nat_str (nat i) @
         (if f = 0 then [] else CHR ''.'' # frac_digits 17 f))"

text \<open>\<open>r.toFixed(d)\<close>: the integer \<open>n\<close> with \<open>n / 10^d\<close> closest to \<open>|r|\<close>, the larger of
  two, written with \<open>d\<close> decimals.\<close>

definition to_fixed :: "nat \<Rightarrow> rat \<Rightarrow> string" where
  "to_fixed d r =
     (let n = nat \<lfloor>\<bar>r\<bar> * 10 ^ d + 1 / 2\<rfloor>;
          ds = nat_str (n mod 10 ^ d)
      in (if r < 0 then ''-'' else []) @ nat_str (n div 10 ^ d) @
         (if d = 0 then [] else CHR ''.'' # replicate (d - length ds) (CHR ''0'') @ ds))"

fun jstring :: "json \<Rightarrow> string" where
  "jstring JUndef = ''undefined''"
| "jstring JNull = ''null''"
| "jstring (JBool b) = (if b then ''true'' else ''false'')"
| "jstring (JNum r) = num_str r"
| "jstring (JStr s) = s"
| "jstring (JArr xs) = join_with '','' (map (\<lambda>v. if nullish v then [] else jstring v) xs)"
| "jstring (JObj kvs) = ''[object Object]''"

subsection \<open>Texts as numbers\<close>

text \<open>The decimal literal grammar of \<open>Number(text)\<close>: sign, digits with an optional point,
  optional exponent. \<open>None\<close> is NaN or an infinity.\<close>

definition unsigned_num :: "string \<Rightarrow> rat option" where
  "unsigned_num s =
     (let whole = takeWhile is_digit s; s1 = dropWhile is_digit s;
          (frac, s2) = (case s1 of CHR ''.'' # t \<Rightarrow> (takeWhile is_digit t, dropWhile is_digit t)
                        | _ \<Rightarrow> ([], s1));
          mant = (of_nat (digits_val (whole @ frac)) :: rat) / 10 ^ length frac
      in if whole @ frac = [] then None
         else case s2 of
             [] \<Rightarrow> Some mant
           | e # t \<Rightarrow>
               (if e \<noteq> CHR ''e'' \<and> e \<noteq> CHR ''E'' then None
                else let (neg, ds) = (case t of CHR ''-'' # u \<Rightarrow> (True, u)
                                      | CHR ''+'' # u \<Rightarrow> (False, u) | _ \<Rightarrow> (False, t))
                     in if ds = [] \<or> \<not> list_all is_digit ds then None
                        else Some (if neg then mant / 10 ^ digits_val ds
                                   else mant * 10 ^ digits_val ds)))"

definition radix_digit :: "nat \<Rightarrow> char \<Rightarrow> nat option" where
  "radix_digit b c =
     (let d = (if is_digit c then code c - 48
               else if 97 \<le> code (lower_char c) \<and> code (lower_char c) \<le> 102
                 then code (lower_char c) - 87 else 99)
      in if d < b then Some d else None)"

definition radix_num :: "nat \<Rightarrow> string \<Rightarrow> rat option" where
  "radix_num b s =
     (if s = [] \<or> list_ex (\<lambda>c. radix_digit b c = None) s then None
      else Some (of_nat (foldl (\<lambda>n c. b * n + the (radix_digit b c)) 0 s)))"

definition finite_num :: "rat option \<Rightarrow> rat option" where
  "finite_num r = (case r of None \<Rightarrow> None | Some q \<Rightarrow> if \<bar>q\<bar> < 2 ^ 1024 then Some q else None)"

definition str_num :: "string \<Rightarrow> rat option" where
  "str_num s0 =
     (let s = js_trim s0
      in if s = [] then Some 0
         else if starts_with s ''0x'' \<or> starts_with s ''0X'' then finite_num (radix_num 16 (drop 2 s))
         else if starts_with s ''0o'' \<or> starts_with s ''0O'' then finite_num (radix_num 8 (drop 2 s))
         else if starts_with s ''0b'' \<or> starts_with s ''0B'' then finite_num (radix_num 2 (drop 2 s))
         else case s of
             CHR ''-'' # t \<Rightarrow> finite_num (map_option uminus (unsigned_num t))
           | CHR ''+'' # t \<Rightarrow> finite_num (unsigned_num t)
           | _ \<Rightarrow> finite_num (unsigned_num s))"

text \<open>\<open>Number(v)\<close> when it is finite.\<close>

fun to_number :: "json \<Rightarrow> rat option" where
  "to_number JUndef = None"
| "to_number JNull = Some 0"
| "to_number (JBool b) = Some (if b then 1 else 0)"
| "to_number (JNum r) = Some r"
| "to_number (JStr s) = str_num s"
| "to_number (JArr xs) = str_num (jstring (JArr xs))"
| "to_number (JObj kvs) = None"


subsection \<open>The guards the pages read payloads through\<close>

definition asObject :: "json \<Rightarrow> json" where
  "asObject v = (case v of JObj kvs \<Rightarrow> v | _ \<Rightarrow> JObj [])"

fun first_list :: "json \<Rightarrow> string list \<Rightarrow> json list" where
  "first_list obj [] = []"
| "first_list obj (k # ks) = (case fld obj k of JArr xs \<Rightarrow> xs | _ \<Rightarrow> first_list obj ks)"

definition listOf :: "json \<Rightarrow> string list \<Rightarrow> json list" where
  "listOf v ks = (case v of JArr xs \<Rightarrow> xs | _ \<Rightarrow> first_list (asObject v) ks)"

definition boolText_or :: "json \<Rightarrow> string \<Rightarrow> string \<Rightarrow> string" where
  "boolText_or v yes no = (if truthy v then yes else no)"

definition boolText :: "json \<Rightarrow> string" where
  "boolText v = boolText_or v t_enabled t_not_enabled"

definition text_or :: "json \<Rightarrow> string \<Rightarrow> string" where
  "text_or v fallback = (if v = JUndef \<or> v = JNull \<or> v = JStr [] then fallback else jstring v)"

definition js_text :: "json \<Rightarrow> string" where
  "js_text v = text_or v t_em_dash"

definition number_or :: "json \<Rightarrow> rat \<Rightarrow> rat" where
  "number_or v fallback = (case to_number v of Some r \<Rightarrow> r | None \<Rightarrow> fallback)"

definition number :: "json \<Rightarrow> rat" where
  "number v = number_or v 0"

definition lines :: "string \<Rightarrow> string list" where
  "lines s = filter (\<lambda>l. l \<noteq> []) (map js_trim (split_lines s))"

definition truncate_text :: "json \<Rightarrow> nat \<Rightarrow> string" where
  "truncate_text v n = (let out = text_or v [] in
     if js_length out > n then js_take n out @ t_ellipsis else out)"

text \<open>\<open>listOf\<close> answers with the first of the named members that is an array, and with the
  value itself when it is one.\<close>

lemma listOf_JArr [simp]: "listOf (JArr xs) ks = xs"
  by (simp add: listOf_def)

lemma first_list_cases:
  "first_list obj ks = [] \<or> (\<exists>k\<in>set ks. fld obj k = JArr (first_list obj ks))"
  by (induction obj ks rule: first_list.induct) (auto split: json.splits)

lemma asObject_cases: "asObject v = v \<or> asObject v = JObj []"
  by (cases v) (simp_all add: asObject_def)

lemma asObject_idem [simp]: "asObject (asObject v) = asObject v"
  by (cases v) (simp_all add: asObject_def)

lemma lines_nonblank: "l \<in> set (lines s) \<Longrightarrow> l \<noteq> []"
  by (simp add: lines_def)

subsection \<open>Query strings\<close>

definition hex_char :: "nat \<Rightarrow> char" where
  "hex_char n = (if n < 10 then char_of (48 + n) else char_of (55 + n))"

definition percent :: "char \<Rightarrow> string" where
  "percent c = [CHR ''%'', hex_char (code c div 16), hex_char (code c mod 16)]"

definition is_alnum :: "char \<Rightarrow> bool" where
  "is_alnum c \<longleftrightarrow> is_digit c \<or> (65 \<le> code c \<and> code c \<le> 90) \<or> (97 \<le> code c \<and> code c \<le> 122)"

text \<open>The \<open>application/x-www-form-urlencoded\<close> serialisation of \<open>URLSearchParams\<close>, and
  \<open>encodeURIComponent\<close>.\<close>

definition form_char :: "char \<Rightarrow> string" where
  "form_char c = (if is_alnum c \<or> c \<in> set ''*-._'' then [c]
     else if c = CHR '' '' then ''+'' else percent c)"

definition form_encode :: "string \<Rightarrow> string" where
  "form_encode s = concat (map form_char s)"

definition uri_char :: "char \<Rightarrow> string" where
  "uri_char c = (if is_alnum c \<or> c \<in> set ''-_.!~*()'' \<or> code c = 39 then [c] else percent c)"

definition encodeURIComponent :: "string \<Rightarrow> string" where
  "encodeURIComponent s = concat (map uri_char s)"

definition kept_params :: "(string \<times> json) list \<Rightarrow> (string \<times> string) list" where
  "kept_params params =
     map (\<lambda>(k, v). (k, jstring v)) (filter (\<lambda>(k, v). v \<noteq> JUndef \<and> v \<noteq> JNull \<and> v \<noteq> JStr []) params)"

definition form_pair :: "string \<times> string \<Rightarrow> string" where
  "form_pair kv = form_encode (fst kv) @ ''='' @ form_encode (snd kv)"

definition query :: "(string \<times> json) list \<Rightarrow> string" where
  "query params = (let out = join_with ''&'' (map form_pair (kept_params params))
     in if out \<noteq> [] then ''?'' @ out else [])"

text \<open>The server's reading of the same serialisation, which the round trip below is about.\<close>

definition hex_val :: "char \<Rightarrow> nat" where
  "hex_val c = (if is_digit c then code c - 48 else code c - 55)"

fun form_decode :: "string \<Rightarrow> string" where
  "form_decode (c # a # b # cs) =
     (if c = CHR ''%'' then char_of (16 * hex_val a + hex_val b) # form_decode cs
      else (if c = CHR ''+'' then CHR '' '' else c) # form_decode (a # b # cs))"
| "form_decode (c # cs) = (if c = CHR ''+'' then CHR '' '' else c) # form_decode cs"
| "form_decode [] = []"

definition parse_pair :: "string \<Rightarrow> string \<times> string" where
  "parse_pair p = (form_decode (takeWhile (\<lambda>c. c \<noteq> CHR ''='') p),
     form_decode (drop 1 (dropWhile (\<lambda>c. c \<noteq> CHR ''='') p)))"

definition parse_query :: "string \<Rightarrow> (string \<times> string) list" where
  "parse_query q = (if q = [] then [] else map parse_pair (split_at (CHR ''&'') (drop 1 q)))"

lemma code_hex_char: "n < 16 \<Longrightarrow> code (hex_char n) = (if n < 10 then 48 + n else 55 + n)"
  by (simp add: hex_char_def)

lemma hex_val_hex_char [simp]: "n < 16 \<Longrightarrow> hex_val (hex_char n) = n"
  by (simp add: hex_val_def is_digit_def code_hex_char)

lemma code_inject: "c = d \<longleftrightarrow> code c = code d"
  by (metis char_of_code)

lemma is_alnum_safe: "is_alnum c \<Longrightarrow> c \<notin> {CHR ''%'', CHR ''+'', CHR ''&'', CHR ''='', CHR '' ''}"
  by (auto simp: is_alnum_def is_digit_def code_def)

lemma is_alnum_hex_char [simp]: "n < 16 \<Longrightarrow> is_alnum (hex_char n)"
  by (auto simp: is_alnum_def is_digit_def code_hex_char)

lemma form_decode_plain:
  "c \<noteq> CHR ''%'' \<Longrightarrow> form_decode (c # cs) = (if c = CHR ''+'' then CHR '' '' else c) # form_decode cs"
  by (cases cs; cases "tl cs") auto

lemma form_decode_char: "form_decode (form_char c @ cs) = c # form_decode cs"
proof -
  have bound: "code c div 16 < 16" "code c mod 16 < 16"
    using code_less [of c] by linarith+
  have split: "16 * (code c div 16) + code c mod 16 = code c" by simp
  consider "is_alnum c" | "c \<in> set ''*-._''" | "c = CHR '' ''" 
    | "\<not> is_alnum c" "c \<notin> set ''*-._''" "c \<noteq> CHR '' ''" by blast
  then show ?thesis
  proof cases
    case 1
    then show ?thesis using is_alnum_safe [OF 1] by (simp add: form_char_def form_decode_plain)
  next
    case 2
    then show ?thesis by (auto simp: form_char_def form_decode_plain)
  next
    case 3
    then show ?thesis by (simp add: form_char_def form_decode_plain is_alnum_def is_digit_def code_def)
  next
    case 4
    then show ?thesis using bound split by (auto simp: form_char_def percent_def)
  qed
qed

lemma form_decode_encode [simp]: "form_decode (form_encode s) = s"
  by (induction s) (simp_all add: form_encode_def form_decode_char)

lemma form_char_safe: "d \<in> set (form_char c) \<Longrightarrow> d \<noteq> CHR ''&'' \<and> d \<noteq> CHR ''=''"
proof -
  assume d: "d \<in> set (form_char c)"
  have bound: "code c div 16 < 16" "code c mod 16 < 16"
    using code_less [of c] by linarith+
  have "is_alnum d \<or> d \<in> set ''*-._+%''"
    using d bound by (auto simp: form_char_def percent_def split: if_splits)
  then show ?thesis using is_alnum_safe by auto
qed

lemma form_encode_safe: "d \<in> set (form_encode s) \<Longrightarrow> d \<noteq> CHR ''&'' \<and> d \<noteq> CHR ''=''"
  by (auto simp: form_encode_def dest: form_char_safe)

lemma parse_pair_form_pair [simp]: "parse_pair (form_pair kv) = kv"
proof -
  have ne: "\<forall>d\<in>set (form_encode (fst kv)). d \<noteq> CHR ''=''"
    by (auto dest: form_encode_safe)
  have "takeWhile (\<lambda>c. c \<noteq> CHR ''='') (form_pair kv) = form_encode (fst kv)"
    using ne by (simp add: form_pair_def takeWhile_append)
  moreover have "dropWhile (\<lambda>c. c \<noteq> CHR ''='') (form_pair kv) = CHR ''='' # form_encode (snd kv)"
    using ne by (simp add: form_pair_def dropWhile_append)
  ultimately show ?thesis by (simp add: parse_pair_def)
qed

lemma form_pair_no_amp: "CHR ''&'' \<notin> set (form_pair kv)"
  by (auto simp: form_pair_def dest: form_encode_safe)

lemma form_pair_nonempty [simp]: "form_pair kv \<noteq> []"
  by (simp add: form_pair_def)

lemma join_with_eq_Nil: "\<forall>p\<in>set ps. p \<noteq> [] \<Longrightarrow> join_with sep ps = [] \<longleftrightarrow> ps = []"
  by (induction ps rule: induct_list012) auto

lemma parse_query_query: "parse_query (query params) = kept_params params"
proof (cases "kept_params params = []")
  case True
  then show ?thesis by (simp add: query_def parse_query_def)
next
  case False
  let ?ps = "map form_pair (kept_params params)"
  have "join_with ''&'' ?ps \<noteq> []"
    using False by (subst join_with_eq_Nil) auto
  moreover have "split_at (CHR ''&'') (join_with ''&'' ?ps) = ?ps"
    using False by (intro split_join_with) (auto simp: form_pair_no_amp)
  ultimately show ?thesis
    by (simp add: query_def parse_query_def comp_def)
qed

text \<open>C27. The query string \<open>query\<close> appends to a URL decodes, by the server's reading of the
  serialisation, to exactly the parameters that are neither undefined, null nor the empty text, in their
  order and each with the text of its value, whatever characters the names and values hold: no value can add, drop or
  rename a parameter.\<close>

theorem query_roundtrip:
  "parse_query (query params) = [(k, jstring v). (k, v) \<leftarrow> params, v \<notin> {JUndef, JNull, JStr []}]"
proof -
  have "kept_params params = [(k, jstring v). (k, v) \<leftarrow> params, v \<notin> {JUndef, JNull, JStr []}]"
    by (induction params) (auto simp: kept_params_def)
  then show ?thesis by (simp add: parse_query_query)
qed

end
