(* ===== verification/Effects.thy ===== *)
theory Effects imports Js_Value begin

text \<open>
  The asynchronous code of the panel as programs over effects. A handler (\<open>async\<close> arrow
  function, form submit, click) is a tree of type \<open>'s io\<close>: it returns or throws, reads or
  updates the state \<open>'s\<close> of its component, opens a modal, or performs an effect and continues
  with the answer its environment gives. Elements of the rendered page (\<open>'s vnode\<close>) carry the
  handlers bound to them, so the two types are mutually recursive.

  \<open>run\<close> executes a program against a list of answers. Each answer comes with a function on the
  state: what other handlers did to the component while this one was suspended. \<open>wp\<close> is the
  matching weakest precondition, with a ghost value that accumulates over the effects; its
  equations for the combinators are in \<open>io_simps\<close>, and \<open>wp_sound\<close> transfers what it shows to
  every run.
\<close>

subsection \<open>Requests, responses and errors\<close>

datatype body = Json_body json | Text_body string | Form_body json

record init =
  i_method :: "string option"
  i_headers :: "(string \<times> string) list"
  i_body :: "body option"

record request =
  req_method :: string
  req_url :: string
  req_headers :: "(string \<times> string) list"
  req_body :: "body option"

text \<open>A response: its status, its content type, and what reading the body as JSON and as text
  would give (\<open>None\<close> when that reading fails).\<close>

record response =
  resp_status :: nat
  resp_type :: string
  resp_json :: "json option"
  resp_text :: "string option"

record api_error =
  e_message :: string
  e_status :: nat
  e_code :: string
  e_command :: string
  e_output :: string

datatype cause =
    Api_error api_error
  | Js_error string
  | Dom_exception string string
  | Other_cause json

datatype toast_kind = Success | Failure | Info | Warning

fun kind_str :: "toast_kind \<Rightarrow> string" where
  "kind_str Success = ''success''"
| "kind_str Failure = ''error''"
| "kind_str Info = ''info''"
| "kind_str Warning = ''warning''"

subsection \<open>Effects and answers\<close>

text \<open>\<open>Read_csrf\<close>, \<open>Has_elevation\<close>, \<open>Elevate\<close> and \<open>Call_unauthorized\<close> are the module
  variables \<open>csrfToken\<close>, \<open>elevationHandler\<close> and \<open>unauthorizedHandler\<close> the shell sets; \<open>Notify\<close>
  to \<open>Navigate\<close> are the callbacks every page gets from the shell; \<open>Prop_call\<close> is any other
  function-valued property; \<open>Browser\<close> is a call of a browser interface that can fail, \<open>Dom\<close> an update
  of the document or its storage that cannot; \<open>Race\<close> is the order in
  which concurrent requests fail.\<close>

datatype eff =
    Fetch request
  | Upload string json string
  | Read_csrf
  | Call_unauthorized
  | Has_elevation
  | Elevate
  | Notify toast_kind string json
  | Confirm string string string bool
  | Close_modal
  | Navigate string
  | Prevent_default
  | Prop_call string "json list"
  | Browser string "json list"
  | Dom string "json list"
  | Race nat

datatype answer = AVal json | AResp response | AFail cause | APick nat

fun possible :: "eff \<Rightarrow> answer \<Rightarrow> bool" where
  "possible (Fetch r) a = (case a of AResp p \<Rightarrow> True | AFail c \<Rightarrow> True | _ \<Rightarrow> False)"
| "possible (Upload u f n) a = (case a of AVal v \<Rightarrow> True | AFail c \<Rightarrow> True | _ \<Rightarrow> False)"
| "possible Read_csrf a = (case a of AVal (JStr t) \<Rightarrow> True | _ \<Rightarrow> False)"
| "possible Has_elevation a = (case a of AVal (JBool b) \<Rightarrow> True | _ \<Rightarrow> False)"
| "possible Elevate a = (case a of AVal JUndef \<Rightarrow> True | AFail c \<Rightarrow> True | _ \<Rightarrow> False)"
| "possible (Confirm t m l d) a = (case a of AVal (JBool b) \<Rightarrow> True | _ \<Rightarrow> False)"
| "possible (Prop_call n vs) a = (case a of AVal v \<Rightarrow> True | AFail c \<Rightarrow> True | _ \<Rightarrow> False)"
| "possible (Browser n vs) a = (case a of AVal v \<Rightarrow> True | AFail c \<Rightarrow> True | _ \<Rightarrow> False)"
| "possible (Race n) a = (case a of APick i \<Rightarrow> i < n | _ \<Rightarrow> False)"
| "possible e a = (a = AVal JUndef)"

declare possible.simps [simp del]

lemma possible_iff [simp]:
  "possible (Fetch r) a \<longleftrightarrow> (\<exists>p. a = AResp p) \<or> (\<exists>c. a = AFail c)"
  "possible (Upload u f n) a \<longleftrightarrow> (\<exists>v. a = AVal v) \<or> (\<exists>c. a = AFail c)"
  "possible Read_csrf a \<longleftrightarrow> (\<exists>t. a = AVal (JStr t))"
  "possible Has_elevation a \<longleftrightarrow> a = AVal (JBool True) \<or> a = AVal (JBool False)"
  "possible Elevate a \<longleftrightarrow> a = AVal JUndef \<or> (\<exists>c. a = AFail c)"
  "possible (Confirm t m l d) a \<longleftrightarrow> a = AVal (JBool True) \<or> a = AVal (JBool False)"
  "possible (Prop_call nm vs) a \<longleftrightarrow> (\<exists>v. a = AVal v) \<or> (\<exists>c. a = AFail c)"
  "possible (Browser nm vs) a \<longleftrightarrow> (\<exists>v. a = AVal v) \<or> (\<exists>c. a = AFail c)"
  "possible (Race k) a \<longleftrightarrow> (\<exists>i<k. a = APick i)"
  "possible Call_unauthorized a \<longleftrightarrow> a = AVal JUndef"
  "possible (Notify kd t j) a \<longleftrightarrow> a = AVal JUndef"
  "possible Close_modal a \<longleftrightarrow> a = AVal JUndef"
  "possible (Navigate u) a \<longleftrightarrow> a = AVal JUndef"
  "possible Prevent_default a \<longleftrightarrow> a = AVal JUndef"
  "possible (Dom n vs) a \<longleftrightarrow> a = AVal JUndef"
  by (cases a; auto simp: possible.simps split: json.splits)+

subsection \<open>Programs and rendered elements\<close>

datatype (dead 's) io =
    Ret json
  | Throw cause
  | Get "'s \<Rightarrow> 's io"
  | Put "'s \<Rightarrow> 's" "'s io"
  | Do eff "answer \<Rightarrow> 's io"
  | Show string string "'s vnode list" "'s io"
and (dead 's) vnode =
    Txt string
  | El string "(string \<times> json) list" "(string \<times> (json \<Rightarrow> 's io)) list" "'s vnode list"
  | Bad_child

type_synonym 's handler = "string \<times> (json \<Rightarrow> 's io)"

text \<open>Induction on a program alone: the elements inside it play no part.\<close>

lemma io_induct [case_names Ret Throw Get Put Do Show]:
  assumes "\<And>v. P (Ret v)" and "\<And>c. P (Throw c)"
    and "\<And>f. (\<And>s. P (f s)) \<Longrightarrow> P (Get f)"
    and "\<And>u m. P m \<Longrightarrow> P (Put u m)"
    and "\<And>e k. (\<And>a. P (k a)) \<Longrightarrow> P (Do e k)"
    and "\<And>t z v m. P m \<Longrightarrow> P (Show t z v m)"
  shows "P (m :: 's io)"
  by (rule io.induct [where ?P1.0 = P and ?P2.0 = "\<lambda>_. True"]) (auto intro: assms)

subsection \<open>Combinators\<close>

text \<open>\<open>settle m f\<close> awaits \<open>m\<close> and continues with its outcome, value or cause.\<close>

primrec settle :: "'s io \<Rightarrow> (cause + json \<Rightarrow> 's io) \<Rightarrow> 's io" where
  "settle (Ret v) f = f (Inr v)"
| "settle (Throw c) f = f (Inl c)"
| "settle (Get g) f = Get (\<lambda>s. settle (g s) f)"
| "settle (Put u m) f = Put u (settle m f)"
| "settle (Do e k) f = Do e (\<lambda>a. settle (k a) f)"
| "settle (Show t z v m) f = Show t z v (settle m f)"

definition bnd :: "'s io \<Rightarrow> (json \<Rightarrow> 's io) \<Rightarrow> 's io" where
  "bnd m f = settle m (\<lambda>r. case r of Inl c \<Rightarrow> Throw c | Inr v \<Rightarrow> f v)"

definition try_catch :: "'s io \<Rightarrow> (cause \<Rightarrow> 's io) \<Rightarrow> 's io" where
  "try_catch m h = settle m (\<lambda>r. case r of Inl c \<Rightarrow> h c | Inr v \<Rightarrow> Ret v)"

definition try_finally :: "'s io \<Rightarrow> 's io \<Rightarrow> 's io" where
  "try_finally m f = settle m (\<lambda>r. bnd f (\<lambda>_. case r of Inl c \<Rightarrow> Throw c | Inr v \<Rightarrow> Ret v))"

definition seqs :: "'s io \<Rightarrow> 's io \<Rightarrow> 's io" where
  "seqs m n = bnd m (\<lambda>_. n)"

abbreviation skip :: "'s io" where
  "skip \<equiv> Ret JUndef"

text \<open>A sequence of statements, and a call of a state setter.\<close>

fun steps :: "'s io list \<Rightarrow> 's io" where
  "steps [] = skip"
| "steps [m] = m"
| "steps (m # n # ms) = seqs m (steps (n # ms))"

definition set_state :: "('s \<Rightarrow> 's) \<Rightarrow> 's io" where
  "set_state f = Put f skip"

definition perform :: "eff \<Rightarrow> 's io" where
  "perform e = Do e (\<lambda>a. case a of AVal v \<Rightarrow> Ret v | AFail c \<Rightarrow> Throw c | _ \<Rightarrow> skip)"

definition notify :: "toast_kind \<Rightarrow> string \<Rightarrow> json \<Rightarrow> 's io" where
  "notify k t d = perform (Notify k t d)"

definition confirm_io :: "string \<Rightarrow> string \<Rightarrow> string \<Rightarrow> bool \<Rightarrow> 's io" where
  "confirm_io t m l d = perform (Confirm t m l d)"

definition open_modal :: "string \<Rightarrow> string \<Rightarrow> 's vnode list \<Rightarrow> 's io" where
  "open_modal title sz content = Show title sz content skip"

text \<open>\<open>Promise.allSettled\<close> and \<open>Promise.all\<close>. The requests are issued in order; when some of
  them fail, \<open>Race\<close> picks the failure that came first.\<close>

fun all_settled :: "'s io list \<Rightarrow> ((cause + json) list \<Rightarrow> 's io) \<Rightarrow> 's io" where
  "all_settled [] k = k []"
| "all_settled (m # ms) k = settle m (\<lambda>r. all_settled ms (\<lambda>rs. k (r # rs)))"

definition failures :: "(cause + json) list \<Rightarrow> cause list" where
  "failures rs = concat (map (\<lambda>r. case r of Inl c \<Rightarrow> [c] | Inr v \<Rightarrow> []) rs)"

definition results :: "(cause + json) list \<Rightarrow> json list" where
  "results rs = concat (map (\<lambda>r. case r of Inl c \<Rightarrow> [] | Inr v \<Rightarrow> [v]) rs)"

definition join_results :: "(cause + json) list \<Rightarrow> 's io" where
  "join_results rs =
     (if failures rs = [] then Ret (JArr (results rs))
      else Do (Race (length (failures rs)))
        (\<lambda>a. case a of APick i \<Rightarrow> Throw (failures rs ! i) | _ \<Rightarrow> skip))"

definition promise_all :: "'s io list \<Rightarrow> 's io" where
  "promise_all ms = all_settled ms join_results"


subsection \<open>Runs\<close>

datatype event = Did eff answer | Opened string

datatype outcome = Returned json | Failed cause | Suspended

text \<open>\<open>run m as s\<close>: the events, the outcome and the last state of \<open>m\<close> from \<open>s\<close>. A run that
  has used up its answers is suspended at the next effect.\<close>

primrec run :: "'s io \<Rightarrow> (answer \<times> ('s \<Rightarrow> 's)) list \<Rightarrow> 's \<Rightarrow> event list \<times> outcome \<times> 's" where
  "run (Ret v) as s = ([], Returned v, s)"
| "run (Throw c) as s = ([], Failed c, s)"
| "run (Get g) as s = run (g s) as s"
| "run (Put u m) as s = run m as (u s)"
| "run (Do e k) as s =
     (case as of [] \<Rightarrow> ([], Suspended, s)
      | (a, other) # as' \<Rightarrow> (case run (k a) as' (other s) of (tr, r) \<Rightarrow> (Did e a # tr, r)))"
| "run (Show t z v m) as s = (case run m as s of (tr, r) \<Rightarrow> (Opened t # tr, r))"

definition events :: "event list \<times> outcome \<times> 's \<Rightarrow> event list" where
  "events r = fst r"

definition legal :: "event list \<Rightarrow> bool" where
  "legal tr \<longleftrightarrow> (\<forall>e a. Did e a \<in> set tr \<longrightarrow> possible e a)"

text \<open>The same runs with nothing else happening, for evaluation.\<close>

definition run_alone :: "'s io \<Rightarrow> answer list \<Rightarrow> 's \<Rightarrow> event list \<times> outcome \<times> 's" where
  "run_alone m as s = run m (map (\<lambda>a. (a, \<lambda>s. s)) as) s"

subsection \<open>Weakest preconditions\<close>

text \<open>\<open>ok\<close> must hold of every effect at the moment it is performed, \<open>upd\<close> accumulates the
  ghost value, \<open>Q\<close> and \<open>E\<close> are the postconditions for a return and a throw. Behind an effect
  the state is arbitrary: anything may have happened to the component meanwhile.\<close>

primrec wp :: "('g \<Rightarrow> eff \<Rightarrow> bool) \<Rightarrow> ('g \<Rightarrow> eff \<Rightarrow> answer \<Rightarrow> 'g) \<Rightarrow> 's io \<Rightarrow>
    (json \<Rightarrow> 'g \<Rightarrow> 's \<Rightarrow> bool) \<Rightarrow> (cause \<Rightarrow> 'g \<Rightarrow> 's \<Rightarrow> bool) \<Rightarrow> 'g \<Rightarrow> 's \<Rightarrow> bool" where
  "wp ok upd (Ret v) Q E g s = Q v g s"
| "wp ok upd (Throw c) Q E g s = E c g s"
| "wp ok upd (Get f) Q E g s = wp ok upd (f s) Q E g s"
| "wp ok upd (Put u m) Q E g s = wp ok upd m Q E g (u s)"
| "wp ok upd (Do e k) Q E g s =
     (ok g e \<and> (\<forall>a s'. possible e a \<longrightarrow> wp ok upd (k a) Q E (upd g e a) s'))"
| "wp ok upd (Show t z v m) Q E g s = wp ok upd m Q E g s"

declare wp.simps [io_simps]

lemma wp_settle [io_simps]:
  "wp ok upd (settle m f) Q E g s =
     wp ok upd m (\<lambda>v g s. wp ok upd (f (Inr v)) Q E g s) (\<lambda>c g s. wp ok upd (f (Inl c)) Q E g s) g s"
  by (induction m arbitrary: g s rule: io_induct) auto

lemma wp_bnd [io_simps]:
  "wp ok upd (bnd m f) Q E g s = wp ok upd m (\<lambda>v g s. wp ok upd (f v) Q E g s) E g s"
  by (simp add: bnd_def wp_settle)

lemma wp_try_catch [io_simps]:
  "wp ok upd (try_catch m h) Q E g s = wp ok upd m Q (\<lambda>c g s. wp ok upd (h c) Q E g s) g s"
  by (simp add: try_catch_def wp_settle)

lemma wp_try_finally [io_simps]:
  "wp ok upd (try_finally m f) Q E g s =
     wp ok upd m (\<lambda>v g s. wp ok upd f (\<lambda>_. Q v) E g s) (\<lambda>c g s. wp ok upd f (\<lambda>_. E c) E g s) g s"
  by (simp add: try_finally_def wp_settle wp_bnd)

lemma wp_seqs [io_simps]:
  "wp ok upd (seqs m n) Q E g s = wp ok upd m (\<lambda>_ g s. wp ok upd n Q E g s) E g s"
  by (simp add: seqs_def wp_bnd)

lemma wp_if [io_simps]:
  "wp ok upd (if b then m else n) Q E g s \<longleftrightarrow> (b \<longrightarrow> wp ok upd m Q E g s) \<and> (\<not> b \<longrightarrow> wp ok upd n Q E g s)"
  by simp

lemma wp_mono:
  assumes "wp ok upd m Q E g s"
    and "\<And>v g s. Q v g s \<Longrightarrow> Q' v g s" and "\<And>c g s. E c g s \<Longrightarrow> E' c g s"
  shows "wp ok upd m Q' E' g s"
  using assms(1) by (induction m arbitrary: g s rule: io_induct) (auto intro: assms(2,3))

definition ghost :: "('g \<Rightarrow> eff \<Rightarrow> answer \<Rightarrow> 'g) \<Rightarrow> 'g \<Rightarrow> event list \<Rightarrow> 'g" where
  "ghost upd g tr = foldl (\<lambda>g ev. case ev of Did e a \<Rightarrow> upd g e a | Opened t \<Rightarrow> g) g tr"

lemma ghost_simps [simp]:
  "ghost upd g [] = g"
  "ghost upd g (Did e a # tr) = ghost upd (upd g e a) tr"
  "ghost upd g (Opened t # tr) = ghost upd g tr"
  by (simp_all add: ghost_def)

lemma legal_simps [simp]:
  "legal []" "legal (Did e a # tr) \<longleftrightarrow> possible e a \<and> legal tr" "legal (Opened t # tr) \<longleftrightarrow> legal tr"
  by (auto simp: legal_def)

text \<open>What \<open>wp\<close> shows holds of every run whose answers are possible: each effect was allowed
  when it was performed, and the postcondition holds when the run is over.\<close>

theorem wp_sound:
  assumes "wp ok upd m Q E g s" and "run m as s = (tr, out, s')" and "legal tr"
  shows "(\<forall>pre e a post. tr = pre @ Did e a # post \<longrightarrow> ok (ghost upd g pre) e) \<and>
    (\<forall>v. out = Returned v \<longrightarrow> Q v (ghost upd g tr) s') \<and>
    (\<forall>c. out = Failed c \<longrightarrow> E c (ghost upd g tr) s')"
  using assms
proof (induction m arbitrary: g s as tr out s' rule: io_induct)
  case (Do e k)
  show ?case
  proof (cases as)
    case Nil
    with Do.prems show ?thesis by auto
  next
    case (Cons aa as')
    obtain a other where aa: "aa = (a, other)" by (cases aa)
    obtain tr' where r: "run (k a) as' (other s) = (tr', out, s')" and tr: "tr = Did e a # tr'"
      using Do.prems(2) Cons aa by (auto split: prod.splits)
    have leg: "possible e a" "legal tr'"
      using Do.prems(3) tr by simp_all
    have w: "ok g e" "wp ok upd (k a) Q E (upd g e a) (other s)"
      using Do.prems(1) leg by simp_all
    note IH = Do.IH [OF w(2) r leg(2)]
    show ?thesis
    proof (intro conjI allI impI)
      fix pre e' a' post
      assume "tr = pre @ Did e' a' # post"
      then show "ok (ghost upd g pre) e'"
        using IH w(1) tr by (cases pre) auto
    qed (use IH tr in auto)
  qed
next
  case (Show t z v m)
  obtain tr' where r: "run m as s = (tr', out, s')" and tr: "tr = Opened t # tr'"
    using Show.prems(2) by (auto split: prod.splits)
  have "wp ok upd m Q E g s" "legal tr'"
    using Show.prems tr by simp_all
  note IH = Show.IH [OF this(1) r this(2)]
  show ?case
  proof (intro conjI allI impI)
    fix pre e' a' post
    assume "tr = pre @ Did e' a' # post"
    then obtain pre' where "pre = Opened t # pre'" "tr' = pre' @ Did e' a' # post"
      using tr by (cases pre) auto
    then show "ok (ghost upd g pre) e'" using IH by auto
  qed (use IH tr in auto)
qed auto


subsection \<open>Histories\<close>

text \<open>The effects of a trace with their answers, and the requests among them. With the history
  itself as ghost value, \<open>wp\<close> can state what was performed before each effect.\<close>

definition dids :: "event list \<Rightarrow> (eff \<times> answer) list" where
  "dids tr = concat (map (\<lambda>ev. case ev of Did e a \<Rightarrow> [(e, a)] | Opened t \<Rightarrow> []) tr)"

definition requests :: "(eff \<times> answer) list \<Rightarrow> request list" where
  "requests h = concat (map (\<lambda>(e, a). case e of Fetch r \<Rightarrow> [r] | _ \<Rightarrow> []) h)"

definition hist_upd :: "(eff \<times> answer) list \<Rightarrow> eff \<Rightarrow> answer \<Rightarrow> (eff \<times> answer) list" where
  "hist_upd h e a = h @ [(e, a)]"

lemma dids_simps [simp]:
  "dids [] = []" "dids (Did e a # tr) = (e, a) # dids tr" "dids (Opened t # tr) = dids tr"
  "dids (tr @ tr') = dids tr @ dids tr'"
  by (simp_all add: dids_def)

lemma requests_simps [simp]:
  "requests [] = []" "requests (h @ h') = requests h @ requests h'"
  "requests ((e, a) # h) = (case e of Fetch r \<Rightarrow> r # requests h | _ \<Rightarrow> requests h)"
  by (auto simp: requests_def split: eff.splits)

lemma ghost_hist [simp]: "ghost hist_upd h tr = h @ dids tr"
proof (induction tr arbitrary: h)
  case (Cons ev tr)
  then show ?case by (cases ev) (auto simp: hist_upd_def)
qed simp

lemma in_dids [simp]: "(e, a) \<in> set (dids tr) \<longleftrightarrow> Did e a \<in> set tr"
proof (induction tr)
  case (Cons ev tr)
  then show ?case by (cases ev) auto
qed simp

text \<open>The rule in the form the request layer uses: \<open>ok\<close> is checked against the effects
  performed before, and the postconditions see the whole history.\<close>

lemma run_history:
  assumes "run m as s = (tr, out, s')" and "legal tr"
    and "wp ok hist_upd m (\<lambda>v h _. Q v h) (\<lambda>c h _. E c h) [] s"
  shows "(\<forall>pre e a post. tr = pre @ Did e a # post \<longrightarrow> ok (dids pre) e) \<and>
    (\<forall>v. out = Returned v \<longrightarrow> Q v (dids tr)) \<and> (\<forall>c. out = Failed c \<longrightarrow> E c (dids tr))"
  using wp_sound [OF assms(3,1,2)] by simp

subsection \<open>Every program ends\<close>

text \<open>Whatever the environment answers, a program reaches its end after finitely many effects:
  no handler of the model can wait for ever on an environment that keeps answering.\<close>

lemma run_ends: "\<exists>n. \<forall>as. n \<le> length as \<longrightarrow> (\<forall>i<n. as ! i = env i) \<longrightarrow> fst (snd (run m as s)) \<noteq> Suspended"
proof (induction m arbitrary: s env rule: io_induct)
  case (Do e k)
  obtain a other where env0: "env 0 = (a, other)" by (cases "env 0")
  have "\<exists>n. \<forall>as. n \<le> length as \<longrightarrow> (\<forall>i<n. as ! i = env (Suc i)) \<longrightarrow>
      fst (snd (run (k a) as (other s))) \<noteq> Suspended"
    by (rule Do.IH)
  then obtain n where n: "\<forall>as. n \<le> length as \<longrightarrow> (\<forall>i<n. as ! i = env (Suc i)) \<longrightarrow>
      fst (snd (run (k a) as (other s))) \<noteq> Suspended"
    by blast
  show ?case
  proof (intro exI allI impI)
    fix as
    assume len: "Suc n \<le> length as" and eq: "\<forall>i<Suc n. as ! i = env i"
    then obtain x as' where as: "as = x # as'" by (cases as) auto
    with eq env0 have x: "x = (a, other)" by force
    have "\<forall>i<n. as' ! i = env (Suc i)" using eq as by force
    with n len as have "fst (snd (run (k a) as' (other s))) \<noteq> Suspended" by simp
    then show "fst (snd (run (Do e k) as s)) \<noteq> Suspended"
      by (auto simp: as x split: prod.splits)
  qed
next
  case (Show t z v m)
  then show ?case by (simp split: prod.splits) (metis fst_conv snd_conv)
qed auto

text \<open>Further combinators under \<open>wp\<close>.\<close>

lemma wp_steps [io_simps]:
  "wp ok upd (steps []) Q E g s = Q JUndef g s"
  "wp ok upd (steps [m]) Q E g s = wp ok upd m Q E g s"
  "wp ok upd (steps (m # n # ms)) Q E g s = wp ok upd m (\<lambda>_ g s. wp ok upd (steps (n # ms)) Q E g s) E g s"
  by (simp_all add: wp_seqs)

lemma wp_set_state [io_simps]: "wp ok upd (set_state f) Q E g s = Q JUndef g (f s)"
  by (simp add: set_state_def)

lemma wp_open_modal [io_simps]:
  "wp ok upd (open_modal t z v) Q E g s = Q JUndef g s"
  by (simp add: open_modal_def)

text \<open>Concurrent requests: if each is safe and leads to the postconditions, so is their
  combination.\<close>

lemma failures_simps [simp]:
  "failures [] = []" "failures (Inl c # rs) = c # failures rs" "failures (Inr v # rs) = failures rs"
  by (simp_all add: failures_def)

lemma results_simps [simp]:
  "results [] = []" "results (Inl c # rs) = results rs" "results (Inr v # rs) = v # results rs"
  by (simp_all add: results_def)

lemma wp_all_settled:
  assumes "\<And>m s. m \<in> set ms \<Longrightarrow> wp ok upd m (\<lambda>_ g' _. g' = g) (\<lambda>_ g' _. g' = g) g s"
    and "\<And>rs s. length rs = length ms \<Longrightarrow> wp ok upd (k rs) Q E g s"
  shows "wp ok upd (all_settled ms k) Q E g s"
  using assms
proof (induction ms arbitrary: k s)
  case (Cons m ms)
  have step: "wp ok upd (all_settled ms (\<lambda>rs. k (r # rs))) Q E g s'" for r s'
    by (rule Cons.IH) (auto intro: Cons.prems)
  have "wp ok upd m (\<lambda>_ g' _. g' = g) (\<lambda>_ g' _. g' = g) g s" for s
    by (rule Cons.prems) simp
  then have "wp ok upd m (\<lambda>v g s. wp ok upd (all_settled ms (\<lambda>rs. k (Inr v # rs))) Q E g s)
      (\<lambda>c g s. wp ok upd (all_settled ms (\<lambda>rs. k (Inl c # rs))) Q E g s) g s" for s
    by (rule wp_mono) (simp_all add: step)
  then show ?case by (simp add: wp_settle)
qed simp

lemma length_results: "failures rs = [] \<Longrightarrow> length (results rs) = length rs"
  by (induction rs) (auto simp: failures_def results_def split: sum.splits)

end
