(* ===== verification/Api.thy ===== *)
theory Api imports Effects begin

text \<open>
  The request layer of \<open>web/assets/app.js\<close>, lines 123 to 186 and 241 to 252: \<open>ApiError\<close>,
  \<open>parsePayload\<close>, \<open>api\<close> with its CSRF and content-type headers, \<open>secureApi\<close> and \<open>uploadApi\<close>
  with their single retry after a second authentication, \<open>errorDetail\<close> and \<open>copyText\<close>.
\<close>

subsection \<open>Errors\<close>

definition ApiError :: "string \<Rightarrow> nat \<Rightarrow> json \<Rightarrow> api_error" where
  "ApiError message status payload =
     \<lparr>e_message = message, e_status = status,
      e_code = text_or (fld payload ''code'') [],
      e_command = text_or (jor (fld payload ''command'') (fld (fld payload ''details'') ''command'')) [],
      e_output = text_or (jor (fld payload ''output'') (fld (fld payload ''details'') ''output'')) []\<rparr>"

definition t_command_prefix :: string where
  "t_command_prefix = uni [0x6267, 0x884C, 0x547D, 0x4EE4, 0xFF1A]"

definition t_output_prefix :: string where
  "t_output_prefix = uni [0x547D, 0x4EE4, 0x8F93, 0x51FA, 0xFF1A, 0x0A]"

definition detail :: "api_error \<Rightarrow> string" where
  "detail e = join_with [CHR 0x0A, CHR 0x0A] (filter (\<lambda>p. p \<noteq> [])
     [e_message e,
      if e_command e \<noteq> [] then t_command_prefix @ e_command e else [],
      if e_output e \<noteq> [] then t_output_prefix @ e_output e else []])"

definition errorDetail :: "cause \<Rightarrow> string" where
  "errorDetail c = (case c of
       Api_error e \<Rightarrow> detail e
     | Js_error m \<Rightarrow> m
     | Dom_exception n m \<Rightarrow> m
     | Other_cause v \<Rightarrow> jstring (jor v (JStr t_unknown_error)))"

subsection \<open>Requests\<close>

definition empty_init :: init where
  "empty_init = \<lparr>i_method = None, i_headers = [], i_body = None\<rparr>"

definition with_body :: "string \<Rightarrow> body \<Rightarrow> init" where
  "with_body m b = \<lparr>i_method = Some m, i_headers = [], i_body = Some b\<rparr>"

definition no_body :: "string \<Rightarrow> init" where
  "no_body m = \<lparr>i_method = Some m, i_headers = [], i_body = None\<rparr>"

definition jsonBody :: "json \<Rightarrow> body" where
  "jsonBody v = Json_body v"

definition method_of :: "init \<Rightarrow> string" where
  "method_of i = to_upper (case i_method i of None \<Rightarrow> ''GET'' | Some m \<Rightarrow> if m = [] then ''GET'' else m)"

definition has_header :: "string \<Rightarrow> (string \<times> string) list \<Rightarrow> bool" where
  "has_header n hs \<longleftrightarrow> list_ex (\<lambda>h. to_lower (fst h) = to_lower n) hs"

definition set_header :: "string \<Rightarrow> string \<Rightarrow> (string \<times> string) list \<Rightarrow> (string \<times> string) list" where
  "set_header n v hs = filter (\<lambda>h. to_lower (fst h) \<noteq> to_lower n) hs @ [(n, v)]"

definition is_form :: "body option \<Rightarrow> bool" where
  "is_form b = (case b of Some (Form_body f) \<Rightarrow> True | _ \<Rightarrow> False)"

definition safe_method :: "string \<Rightarrow> bool" where
  "safe_method m \<longleftrightarrow> m \<in> set [''GET'', ''HEAD'', ''OPTIONS'']"

definition request_headers :: "init \<Rightarrow> string \<Rightarrow> (string \<times> string) list" where
  "request_headers i token =
     (let hs = i_headers i;
          hs = (if i_body i \<noteq> None \<and> \<not> is_form (i_body i) \<and> \<not> has_header ''Content-Type'' hs
                then set_header ''Content-Type'' ''application/json'' hs else hs)
      in if \<not> safe_method (method_of i) \<and> token \<noteq> [] then set_header ''X-CSRF-Token'' token hs else hs)"

definition mk_request :: "string \<Rightarrow> init \<Rightarrow> string \<Rightarrow> request" where
  "mk_request url i token =
     \<lparr>req_method = method_of i, req_url = url, req_headers = request_headers i token, req_body = i_body i\<rparr>"

definition parsePayload :: "response \<Rightarrow> json" where
  "parsePayload p =
     (if str_includes (resp_type p) ''application/json''
      then (case resp_json p of Some v \<Rightarrow> v | None \<Rightarrow> JObj [])
      else (case resp_text p of Some t \<Rightarrow> JStr t | None \<Rightarrow> JStr []))"

definition session_lost :: "nat \<Rightarrow> json \<Rightarrow> bool" where
  "session_lost status b \<longleftrightarrow> status = 401 \<and>
     (fld b ''code'' = JStr ''session_required'' \<or> fld b ''code'' = JStr ''session_expired'')"

definition request_failed :: "nat \<Rightarrow> json \<Rightarrow> cause" where
  "request_failed status b =
     Api_error (ApiError (text_or (fld b ''error'') (t_request_failed_open @ nat_str status @ t_paren_close)) status b)"

definition is_ok :: "response \<Rightarrow> bool" where
  "is_ok p \<longleftrightarrow> 200 \<le> resp_status p \<and> resp_status p < 300"

definition network_error :: "cause \<Rightarrow> cause" where
  "network_error c = Api_error (ApiError
     (case c of Api_error e \<Rightarrow> e_message e | Js_error m \<Rightarrow> m | Dom_exception n m \<Rightarrow> m
        | Other_cause v \<Rightarrow> t_network_failed) 0 (JObj []))"

definition handle_response :: "response \<Rightarrow> 's io" where
  "handle_response p =
     (let payload = parsePayload p; b = asObject payload
      in seqs (if session_lost (resp_status p) b then perform Call_unauthorized else skip)
           (if \<not> is_ok p then Throw (request_failed (resp_status p) b) else Ret payload))"

definition api :: "string \<Rightarrow> init \<Rightarrow> 's io" where
  "api url i =
     bnd (if \<not> safe_method (method_of i) then perform Read_csrf else Ret (JStr []))
       (\<lambda>token. Do (Fetch (mk_request url i (jstring token)))
         (\<lambda>a. case a of AResp p \<Rightarrow> handle_response p
            | AFail c \<Rightarrow> Throw (network_error c) | _ \<Rightarrow> skip))"

subsection \<open>Second authentication\<close>

definition wants_elevation :: "cause \<Rightarrow> bool" where
  "wants_elevation c = (case c of
       Api_error e \<Rightarrow> e_status e = 403 \<and>
         (e_code e = ''elevation_required'' \<or> str_includes (e_message e) t_second_factor)
     | _ \<Rightarrow> False)"

text \<open>The common shape of \<open>secureApi\<close> and \<open>uploadApi\<close>: on the refusal that asks for it, run the
  elevation and issue the request once more.\<close>

definition retry_elevated :: "'s io \<Rightarrow> 's io" where
  "retry_elevated m = try_catch m (\<lambda>c.
     if \<not> wants_elevation c then Throw c
     else bnd (perform Has_elevation) (\<lambda>h.
       if \<not> truthy h then Throw c else seqs (perform Elevate) m))"

definition secureApi :: "string \<Rightarrow> init \<Rightarrow> 's io" where
  "secureApi url i = retry_elevated (api url i)"

definition uploadApi :: "string \<Rightarrow> json \<Rightarrow> string \<Rightarrow> 's io" where
  "uploadApi url form name = retry_elevated (perform (Upload url form name))"

subsection \<open>Copying to the clipboard\<close>

text \<open>The fallback writes the text into an off-screen text area, selects it and asks the
  browser to copy the selection.\<close>

definition copyText :: "json \<Rightarrow> 's io" where
  "copyText v =
     (let fallback = bnd (perform (Browser ''execCommand'' [JStr ''copy'', v]))
            (\<lambda>copied. if truthy copied then skip else Throw (Js_error t_copy_refused))
      in bnd (perform (Browser ''clipboard.writeText?'' []))
           (\<lambda>has. if truthy has
              then settle (perform (Browser ''clipboard.writeText'' [v]))
                (\<lambda>r. case r of Inr _ \<Rightarrow> skip | Inl _ \<Rightarrow> fallback)
              else fallback))"


subsection \<open>One call is one request\<close>

lemma mk_request_simps [simp]:
  "req_method (mk_request url i t) = method_of i" "req_url (mk_request url i t) = url"
  "req_body (mk_request url i t) = i_body i" "req_headers (mk_request url i t) = request_headers i t"
  by (simp_all add: mk_request_def)

definition result_of :: "response \<Rightarrow> cause + json" where
  "result_of p = (if is_ok p then Inr (parsePayload p)
     else Inl (request_failed (resp_status p) (asObject (parsePayload p))))"

text \<open>The history of a completed call and what it says about the outcome.\<close>

definition api_history :: "string \<Rightarrow> init \<Rightarrow> (eff \<times> answer) list \<Rightarrow> (cause + json) \<Rightarrow> bool" where
  "api_history url i h r \<longleftrightarrow> (\<exists>tok a.
     (if safe_method (method_of i) then tok = [] else (Read_csrf, AVal (JStr tok)) \<in> set h) \<and>
     requests h = [mk_request url i tok] \<and> (Fetch (mk_request url i tok), a) \<in> set h \<and>
     (case a of AResp p \<Rightarrow> r = result_of p \<and>
          ((Call_unauthorized, AVal JUndef) \<in> set h \<longleftrightarrow>
             session_lost (resp_status p) (asObject (parsePayload p)))
        | AFail c \<Rightarrow> r = Inl (network_error c) | _ \<Rightarrow> False))"

lemma wp_api_history:
  "wp (\<lambda>_ _. True) hist_upd (api url i)
     (\<lambda>v h _. api_history url i h (Inr v)) (\<lambda>c h _. api_history url i h (Inl c)) [] s"
  by (auto simp: api_def handle_response_def Let_def io_simps perform_def hist_upd_def
      api_history_def result_of_def)

text \<open>A completed call of \<open>api\<close> issues exactly one request, built from its arguments and, for a
  method that changes state, from the CSRF token read in the same call. A network failure ends
  it in an \<open>ApiError\<close> of status 0; a response ends it with the parsed payload exactly when the
  status is in 200..299, and with the \<open>ApiError\<close> of that status otherwise. The handler for a lost
  session is called exactly on a 401 whose code is \<open>session_required\<close> or \<open>session_expired\<close>.\<close>

theorem api_one_request:
  assumes "run (api url i) as s = (tr, out, s')" and "legal tr" and "out \<noteq> Suspended"
  shows "\<exists>tok a. (if safe_method (method_of i) then tok = [] else Did Read_csrf (AVal (JStr tok)) \<in> set tr) \<and>
    requests (dids tr) = [mk_request url i tok] \<and> Did (Fetch (mk_request url i tok)) a \<in> set tr \<and>
    (case a of AResp p \<Rightarrow>
        out = (if is_ok p then Returned (parsePayload p)
               else Failed (request_failed (resp_status p) (asObject (parsePayload p)))) \<and>
        (Did Call_unauthorized (AVal JUndef) \<in> set tr \<longleftrightarrow>
           session_lost (resp_status p) (asObject (parsePayload p)))
      | AFail c \<Rightarrow> out = Failed (network_error c) | _ \<Rightarrow> False)"
proof -
  define r where "r = (case out of Returned v \<Rightarrow> Inr v | Failed c \<Rightarrow> Inl c | Suspended \<Rightarrow> Inr JUndef)"
  have "api_history url i (dids tr) r"
    using run_history [OF assms(1,2) wp_api_history] assms(3) by (cases out) (auto simp: r_def)
  then show ?thesis
    unfolding api_history_def using assms(3)
    by (cases out) (auto simp: r_def result_of_def split: answer.splits if_splits)
qed


subsection \<open>Headers\<close>

definition get_header :: "string \<Rightarrow> (string \<times> string) list \<Rightarrow> string option" where
  "get_header n hs = map_option snd (find_first (\<lambda>h. to_lower (fst h) = to_lower n) hs)"

lemma find_first_append:
  "find_first p (xs @ ys) = (case find_first p xs of None \<Rightarrow> find_first p ys | Some x \<Rightarrow> Some x)"
  by (induction xs) auto

lemma get_set_header:
  "get_header n (set_header m v hs) = (if to_lower n = to_lower m then Some v else get_header n hs)"
proof (cases "to_lower n = to_lower m")
  case True
  have "find_first (\<lambda>h. to_lower (fst h) = to_lower m) (filter (\<lambda>h. to_lower (fst h) \<noteq> to_lower m) hs) = None"
    by simp
  with True show ?thesis
    by (simp add: get_header_def set_header_def find_first_append option.case_eq_if)
next
  case False
  have "find_first (\<lambda>h. to_lower (fst h) = to_lower n) (filter (\<lambda>h. to_lower (fst h) \<noteq> to_lower m) hs)
      = find_first (\<lambda>h. to_lower (fst h) = to_lower n) hs"
    using False by (induction hs) auto
  with False show ?thesis
    by (auto simp: get_header_def set_header_def find_first_append split: option.splits)
qed

lemma has_header_iff: "has_header n hs \<longleftrightarrow> get_header n hs \<noteq> None"
  by (auto simp: has_header_def get_header_def list_ex_iff)

lemma header_names: "to_lower ''Content-Type'' \<noteq> to_lower ''X-CSRF-Token''"
  by code_simp

text \<open>The headers of a request: \<open>X-CSRF-Token\<close> is added exactly when the method is none of
  GET, HEAD and OPTIONS and a token is known, so a reading request never carries it;
  \<open>Content-Type\<close> is the caller's own if it gave one, \<open>application/json\<close> for any other body that
  is not a form, and left to the browser otherwise.\<close>

theorem request_headers_spec:
  "get_header ''X-CSRF-Token'' (request_headers i tok) =
     (if \<not> safe_method (method_of i) \<and> tok \<noteq> [] then Some tok else get_header ''X-CSRF-Token'' (i_headers i)) \<and>
   get_header ''Content-Type'' (request_headers i tok) =
     (if get_header ''Content-Type'' (i_headers i) = None \<and> i_body i \<noteq> None \<and> \<not> is_form (i_body i)
      then Some ''application/json'' else get_header ''Content-Type'' (i_headers i))"
  using header_names header_names [symmetric]
  by (simp add: request_headers_def Let_def get_set_header has_header_iff)

subsection \<open>The retry after a second authentication\<close>

lemma wants_elevation_network [simp]: "\<not> wants_elevation (network_error c)"
  by (simp add: wants_elevation_def network_error_def ApiError_def)

definition refused_first :: "(eff \<times> answer) list \<Rightarrow> bool" where
  "refused_first h \<longleftrightarrow> (\<exists>q p c. (Fetch q, AResp p) \<in> set h \<and> result_of p = Inl c \<and> wants_elevation c)"

definition retry_ok :: "string \<Rightarrow> init \<Rightarrow> (eff \<times> answer) list \<Rightarrow> eff \<Rightarrow> bool" where
  "retry_ok url i h e = (case e of
       Fetch r \<Rightarrow> (\<exists>tok. r = mk_request url i tok) \<and>
         (requests h = [] \<or>
          length (requests h) = 1 \<and> (Elevate, AVal JUndef) \<in> set h \<and> refused_first h)
     | Elevate \<Rightarrow> refused_first h
     | _ \<Rightarrow> True)"

text \<open>One call of \<open>api\<close> from any history: its requests and calls are appended to it.\<close>

lemma wp_api_retry:
  assumes "\<And>tok h'. requests h' = [] \<Longrightarrow> retry_ok url i (h @ h') (Fetch (mk_request url i tok))"
    and "\<And>v h' s'. length (requests h') = 1 \<Longrightarrow> Q v (h @ h') s'"
    and "\<And>c h' s'. length (requests h') = 1 \<Longrightarrow> (wants_elevation c \<Longrightarrow> refused_first h') \<Longrightarrow> E c (h @ h') s'"
  shows "wp (retry_ok url i) hist_upd (api url i) Q E h s"
proof -
  have tok: "retry_ok url i (h @ [(Read_csrf, a)]) (Fetch (mk_request url i t))"
    "retry_ok url i h (Fetch (mk_request url i t))" for a t
    using assms(1) [of "[(Read_csrf, a)]"] assms(1) [of "[]"] by simp_all
  have ret: "Q v (h @ [(Read_csrf, a), (Fetch q, b)]) s'" "Q v (h @ [(Fetch q, b)]) s'"
    "Q v (h @ [(Read_csrf, a), (Fetch q, b), (Call_unauthorized, d)]) s'"
    "Q v (h @ [(Fetch q, b), (Call_unauthorized, d)]) s'" for v a q b d s'
    by (intro assms(2); simp)+
  have fail: "(wants_elevation c \<Longrightarrow> \<exists>p. b = AResp p \<and> result_of p = Inl c) \<Longrightarrow>
      E c (h @ [(Read_csrf, a), (Fetch q, b)]) s' \<and> E c (h @ [(Fetch q, b)]) s' \<and>
      E c (h @ [(Read_csrf, a), (Fetch q, b), (Call_unauthorized, d)]) s' \<and>
      E c (h @ [(Fetch q, b), (Call_unauthorized, d)]) s'" for c a q b d s'
    by (intro conjI assms(3); fastforce simp: refused_first_def)
  have other: "retry_ok url i h' Read_csrf" "retry_ok url i h' Call_unauthorized" for h'
    by (simp_all add: retry_ok_def)
  show ?thesis
    by (auto simp: api_def handle_response_def Let_def io_simps perform_def hist_upd_def tok other ret
        result_of_def intro!: fail [THEN conjunct1] fail [THEN conjunct2, THEN conjunct1]
          fail [THEN conjunct2, THEN conjunct2, THEN conjunct1]
          fail [THEN conjunct2, THEN conjunct2, THEN conjunct2])
qed

lemma wp_secureApi_retry:
  "wp (retry_ok url i) hist_upd (secureApi url i) (\<lambda>_ h _. length (requests h) \<le> 2)
     (\<lambda>_ h _. length (requests h) \<le> 2) [] s"
  unfolding secureApi_def retry_elevated_def wp_try_catch
proof (rule wp_api_retry)
  fix tok and h' :: "(eff \<times> answer) list"
  assume "requests h' = []"
  then show "retry_ok url i ([] @ h') (Fetch (mk_request url i tok))"
    by (auto simp: retry_ok_def)
next
  fix c and h' :: "(eff \<times> answer) list" and s'
  assume h': "length (requests h') = 1" "wants_elevation c \<Longrightarrow> refused_first h'"
  have again: "wp (retry_ok url i) hist_upd (api url i) (\<lambda>_ h _. length (requests h) \<le> 2)
      (\<lambda>_ h _. length (requests h) \<le> 2) (h' @ [(Has_elevation, b), (Elevate, AVal JUndef)]) s''"
    if "wants_elevation c" for b s''
    using h' that by (intro wp_api_retry) (auto simp: retry_ok_def refused_first_def)
  show "wp (retry_ok url i) hist_upd
      (if \<not> wants_elevation c then Throw c
       else bnd (perform Has_elevation) (\<lambda>h. if \<not> truthy h then Throw c else seqs (perform Elevate) (api url i)))
      (\<lambda>_ h _. length (requests h) \<le> 2) (\<lambda>_ h _. length (requests h) \<le> 2) ([] @ h') s'"
    using h' again
    by (auto simp: io_simps perform_def hist_upd_def retry_ok_def refused_first_def)
qed simp

text \<open>C9. \<open>secureApi\<close> issues its request at most twice, always the request its arguments
  describe, and the second time only after the first was refused with the demand for a second
  authentication and that authentication succeeded; nothing but such a refusal starts one.\<close>

theorem secureApi_retries_once:
  assumes "run (secureApi url i) as s = (tr, out, s')" and "legal tr"
  shows "(\<forall>pre r a post. tr = pre @ Did (Fetch r) a # post \<longrightarrow>
      (\<exists>tok. r = mk_request url i tok) \<and>
      (requests (dids pre) = [] \<or>
       length (requests (dids pre)) = 1 \<and> Did Elevate (AVal JUndef) \<in> set pre \<and> refused_first (dids pre)))
    \<and> (\<forall>pre a post. tr = pre @ Did Elevate a # post \<longrightarrow> refused_first (dids pre))
    \<and> (out \<noteq> Suspended \<longrightarrow> length (requests (dids tr)) \<le> 2)"
proof -
  note h = run_history [OF assms wp_secureApi_retry]
  have "retry_ok url i (dids pre) e" if "tr = pre @ Did e a # post" for pre e a post
    using h that by blast
  then have ok: "tr = pre @ Did e a # post \<Longrightarrow> retry_ok url i (dids pre) e" for pre e a post .
  show ?thesis
  proof (intro conjI allI impI)
    fix pre r a post
    assume "tr = pre @ Did (Fetch r) a # post"
    from ok [OF this] show "\<exists>tok. r = mk_request url i tok" by (simp add: retry_ok_def)
  next
    fix pre r a post
    assume "tr = pre @ Did (Fetch r) a # post"
    from ok [OF this] show "requests (dids pre) = [] \<or> length (requests (dids pre)) = 1 \<and>
        Did Elevate (AVal JUndef) \<in> set pre \<and> refused_first (dids pre)"
      by (auto simp: retry_ok_def)
  next
    fix pre a post
    assume "tr = pre @ Did Elevate a # post"
    from ok [OF this] show "refused_first (dids pre)" by (simp add: retry_ok_def)
  next
    assume "out \<noteq> Suspended"
    then show "length (requests (dids tr)) \<le> 2" using h by (cases out) auto
  qed
qed

text \<open>A run of \<open>secureApi\<close> through the second authentication, for the two theorems.\<close>

definition sample_refusal :: response where
  "sample_refusal = \<lparr>resp_status = 403, resp_type = ''application/json'',
     resp_json = Some (JObj [(''code'', JStr ''elevation_required'')]), resp_text = None\<rparr>"

definition sample_success :: response where
  "sample_success = \<lparr>resp_status = 200, resp_type = ''application/json; charset=utf-8'',
     resp_json = Some (JObj [(''ok'', JBool True)]), resp_text = None\<rparr>"

definition sample_init :: init where
  "sample_init = with_body ''post'' (jsonBody (JObj [(''name'', JStr ''web'')]))"

definition sample_request :: request where
  "sample_request = mk_request ''/api/docker/restart'' sample_init ''tok''"

definition sample_events :: "event list" where
  "sample_events =
     [Did Read_csrf (AVal (JStr ''tok'')), Did (Fetch sample_request) (AResp sample_refusal),
      Did Has_elevation (AVal (JBool True)), Did Elevate (AVal JUndef),
      Did Read_csrf (AVal (JStr ''tok'')), Did (Fetch sample_request) (AResp sample_success)]"

lemma sample_payloads [simp]:
  "parsePayload sample_success = JObj [(''ok'', JBool True)]"
  "parsePayload sample_refusal = JObj [(''code'', JStr ''elevation_required'')]"
  "resp_status sample_success = 200" "resp_status sample_refusal = 403"
  by (simp_all add: parsePayload_def sample_success_def sample_refusal_def str_includes_def starts_with_def)

lemma sample_facts [simp]:
  "\<not> safe_method (method_of sample_init)" "\<not> is_ok sample_refusal" "is_ok sample_success"
  "\<not> session_lost 403 b" "\<not> session_lost 200 b"
  "wants_elevation (request_failed 403 (JObj [(''code'', JStr ''elevation_required'')]))"
  by (code_simp, simp_all add: is_ok_def session_lost_def wants_elevation_def request_failed_def
      ApiError_def text_or_def)

lemmas sample_run_simps = api_def secureApi_def retry_elevated_def handle_response_def
  try_catch_def bnd_def seqs_def perform_def Let_def asObject_def

lemma sample_api_run:
  "run (api ''/api/docker/restart'' sample_init) [(AVal (JStr ''tok''), id), (AResp sample_success, id)] () =
     ([Did Read_csrf (AVal (JStr ''tok'')), Did (Fetch sample_request) (AResp sample_success)],
      Returned (JObj [(''ok'', JBool True)]), ())"
  by (simp add: sample_run_simps sample_request_def)

lemma sample_secure_run:
  "run (secureApi ''/api/docker/restart'' sample_init)
     (map (\<lambda>a. (a, id)) [AVal (JStr ''tok''), AResp sample_refusal, AVal (JBool True), AVal JUndef,
        AVal (JStr ''tok''), AResp sample_success]) () =
     (sample_events, Returned (JObj [(''ok'', JBool True)]), ())"
  by (simp add: sample_run_simps sample_request_def sample_events_def)

theorem api_one_request_witness:
  "\<exists>tok a. Did (Fetch (mk_request ''/api/docker/restart'' sample_init tok)) a \<in>
      set [Did Read_csrf (AVal (JStr ''tok'')), Did (Fetch sample_request) (AResp sample_success)]"
  using api_one_request [OF sample_api_run] by simp blast

theorem secureApi_retries_once_witness:
  "length (requests (dids sample_events)) = 2 \<and>
   refused_first (dids [Did Read_csrf (AVal (JStr ''tok'')), Did (Fetch sample_request) (AResp sample_refusal),
      Did Has_elevation (AVal (JBool True))])"
proof -
  have legal: "legal sample_events" by (simp add: sample_events_def)
  note all = secureApi_retries_once [OF sample_secure_run legal]
  have split: "sample_events = [Did Read_csrf (AVal (JStr ''tok'')), Did (Fetch sample_request) (AResp sample_refusal),
      Did Has_elevation (AVal (JBool True))] @ Did Elevate (AVal JUndef) #
      [Did Read_csrf (AVal (JStr ''tok'')), Did (Fetch sample_request) (AResp sample_success)]"
    by (simp add: sample_events_def)
  show ?thesis
    using all split by (intro conjI) (simp add: sample_events_def, blast)
qed

end
