(* ===== verification/Router.thy ===== *)
theory Router imports Effects begin

text \<open>
  The pages of the panel and the router, \<open>web/assets/app.js\<close>, lines 7 to 34 and 253 to 273: the
  route table, the redirects of earlier versions, and \<open>useRoute\<close> over the session history of the
  browser. The laws of the table are the locale \<open>route_table\<close>; the router's invariants rest on
  its interpretation.

  \<open>normalize_path\<close> (\<open>normalize\<close> in the code) looks a path up in an object literal; a path that names a member of
  \<open>Object.prototype\<close> does not start with a slash and is not considered.
\<close>

subsection \<open>The route table\<close>

record route =
  r_path :: string
  r_title :: string
  r_subtitle :: string
  r_level :: nat
  r_parent :: "string option"
  r_nav :: bool
  r_icon :: string

definition route_row :: "string \<Rightarrow> string \<Rightarrow> string \<Rightarrow> nat \<Rightarrow> string option \<Rightarrow> bool \<Rightarrow> string \<Rightarrow> route" where
  "route_row p t s l q n i =
     \<lparr>r_path = p, r_title = t, r_subtitle = s, r_level = l, r_parent = q, r_nav = n, r_icon = i\<rparr>"

definition ROUTES :: "route list" where
  "ROUTES = [
     route_row ''/'' t_overview t_overview_sub 1 None True ''dashboard'',
     route_row ''/system'' t_system t_system_sub 1 None True ''system'',
     route_row ''/system/services'' t_services t_services_sub 2 (Some ''/system'') False ''services'',
     route_row ''/system/processes'' t_processes t_processes_sub 2 (Some ''/system'') False ''process'',
     route_row ''/system/network'' t_network t_network_sub 2 (Some ''/system'') False ''network'',
     route_row ''/system/storage'' t_storage t_storage_sub 2 (Some ''/system'') False ''storage'',
     route_row ''/system/tasks'' t_scheduled_tasks t_scheduled_tasks_sub 2 (Some ''/system'') False ''tasks'',
     route_row ''/system/updates'' t_packages t_packages_sub 2 (Some ''/system'') False ''package'',
     route_row ''/system/host'' t_host_settings t_host_settings_sub 2 (Some ''/system'') False ''server'',
     route_row ''/system/snapshots'' t_snapshots t_snapshots_sub 2 (Some ''/system'') False ''backup'',
     route_row ''/docker'' ''Docker'' t_docker_sub 1 None True ''docker'',
     route_row ''/files'' t_files t_files_sub 1 None True ''files'',
     route_row ''/tools'' t_tools t_tools_sub 1 None True ''tools'',
     route_row ''/tools/github'' t_github t_github_sub 2 (Some ''/tools'') False ''github'',
     route_row ''/ssh'' t_ssh t_ssh_sub 1 None True ''ssh'',
     route_row ''/audit'' t_logs_center t_logs_center_sub 1 None True ''audit'',
     route_row ''/security'' t_security t_security_sub 1 None True ''security'',
     route_row ''/settings'' t_mine t_mine_sub 1 None True ''settings'']"

definition LEGACY_REDIRECTS :: "(string \<times> string) list" where
  "LEGACY_REDIRECTS = [
     (''/services'', ''/system/services''),
     (''/processes'', ''/system/processes''),
     (''/network'', ''/system/network''),
     (''/storage'', ''/system/storage''),
     (''/tasks'', ''/system/tasks''),
     (''/updates'', ''/system/updates''),
     (''/host'', ''/system/host''),
     (''/snapshots'', ''/system/snapshots''),
     (''/github'', ''/tools/github'')]"

definition ROUTE_MAP :: "string \<Rightarrow> route option" where
  "ROUTE_MAP = map_of (rev (map (\<lambda>r. (r_path r, r)) ROUTES))"

definition PRIMARY_ROUTES :: "route list" where
  "PRIMARY_ROUTES = filter r_nav ROUTES"

definition MOBILE_ROUTES :: "string list" where
  "MOBILE_ROUTES = [''/'', ''/system'', ''/docker'', ''/files'', ''/settings'']"

definition normalize_path :: "string \<Rightarrow> string" where
  "normalize_path path =
     (case map_of LEGACY_REDIRECTS path of
        Some target \<Rightarrow> target
      | None \<Rightarrow> if ROUTE_MAP path \<noteq> None then path else ''/'')"

lemma route_row_simps [simp]:
  "r_path (route_row p t s l q n i) = p" "r_title (route_row p t s l q n i) = t"
  "r_level (route_row p t s l q n i) = l" "r_parent (route_row p t s l q n i) = q"
  "r_nav (route_row p t s l q n i) = n" "r_subtitle (route_row p t s l q n i) = s"
  by (simp_all add: route_row_def)

lemma ROUTE_MAP_None: "ROUTE_MAP p = None \<longleftrightarrow> p \<notin> r_path ` set ROUTES"
  by (simp add: ROUTE_MAP_def map_of_eq_None_iff image_image)

subsection \<open>The laws of the table\<close>

locale route_table =
  fixes known :: "string \<Rightarrow> bool"
    and redirect :: "string \<Rightarrow> string option"
    and home :: string
    and norm :: "string \<Rightarrow> string"
  assumes norm_eq: "norm p = (case redirect p of Some t \<Rightarrow> t | None \<Rightarrow> if known p then p else home)"
    and redirect_known: "redirect p = Some t \<Longrightarrow> known t"
    and home_known: "known home"
    and known_stays: "known p \<Longrightarrow> redirect p = None"
begin

lemma norm_known: "known (norm p)"
  using redirect_known home_known by (auto simp: norm_eq split: option.split)

lemma norm_of_known: "known p \<Longrightarrow> norm p = p"
  by (simp add: norm_eq known_stays)

lemma norm_norm: "norm (norm p) = norm p"
  by (rule norm_of_known [OF norm_known])

lemma norm_fixed: "norm p = p \<longleftrightarrow> known p"
  using norm_known norm_of_known by metis

end

definition is_route :: "string \<Rightarrow> bool" where
  "is_route p \<longleftrightarrow> p \<in> r_path ` set ROUTES"

lemma is_route_table:
  "list_all (\<lambda>(p, t). is_route t) LEGACY_REDIRECTS" "list_all (\<lambda>r. map_of LEGACY_REDIRECTS (r_path r) = None) ROUTES"
  "is_route ''/''"
  by (simp_all add: is_route_def LEGACY_REDIRECTS_def ROUTES_def)

interpretation rt: route_table is_route "map_of LEGACY_REDIRECTS" "''/''" normalize_path
proof unfold_locales
  show "normalize_path p = (case map_of LEGACY_REDIRECTS p of Some t \<Rightarrow> t | None \<Rightarrow> if is_route p then p else ''/'')" for p
    using ROUTE_MAP_None [of p]
    by (cases "ROUTE_MAP p") (auto simp: normalize_path_def is_route_def split: option.split)
  show "is_route t" if "map_of LEGACY_REDIRECTS p = Some t" for p t
    using map_of_SomeD [OF that] is_route_table(1) by (auto simp: list_all_iff)
  show "map_of LEGACY_REDIRECTS p = None" if "is_route p" for p
    using that is_route_table(2) by (auto simp: is_route_def list_all_iff)
qed (rule is_route_table)

text \<open>Every path the browser can show is sent to a page of the table: \<open>normalize_path\<close> always
  answers with the path of a route, leaves exactly the paths of routes alone, and doing it twice
  changes nothing. In the table itself every page below another one names an existing page of the
  first level as its parent, so the back button always leads to a page, and the paths are
  pairwise different.\<close>

theorem normalize_path_total:
  "is_route (normalize_path p) \<and> (normalize_path p = p \<longleftrightarrow> is_route p) \<and> normalize_path (normalize_path p) = normalize_path p \<and>
   distinct (map r_path ROUTES) \<and>
   list_all (\<lambda>r. case r_parent r of None \<Rightarrow> r_level r = 1 \<and> r_nav r
     | Some q \<Rightarrow> r_level r = 2 \<and> \<not> r_nav r \<and> (case ROUTE_MAP q of Some u \<Rightarrow> r_level u = 1 | None \<Rightarrow> False)) ROUTES"
proof -
  have "distinct (map r_path ROUTES)"
    by (simp add: ROUTES_def)
  moreover have "list_all (\<lambda>r. case r_parent r of None \<Rightarrow> r_level r = 1 \<and> r_nav r
     | Some q \<Rightarrow> r_level r = 2 \<and> \<not> r_nav r \<and> (case ROUTE_MAP q of Some u \<Rightarrow> r_level u = 1 | None \<Rightarrow> False)) ROUTES"
    by (simp add: ROUTES_def ROUTE_MAP_def)
  ultimately show ?thesis
    using rt.norm_known rt.norm_fixed rt.norm_norm by blast
qed

subsection \<open>The router over the session history\<close>

record browser =
  w_origin_null :: bool
  w_back :: "string list"
  w_here :: string
  w_forward :: "string list"

record router =
  rs_browser :: browser
  rs_path :: string
  rs_scroll :: nat

definition replaceState :: "string \<Rightarrow> browser \<Rightarrow> browser" where
  "replaceState u b = b\<lparr>w_here := u\<rparr>"

definition pushState :: "string \<Rightarrow> browser \<Rightarrow> browser" where
  "pushState u b = b\<lparr>w_back := w_here b # w_back b, w_here := u, w_forward := []\<rparr>"

text \<open>The effect that runs when the path has changed: the address bar follows the path.\<close>

definition sync_address :: "router \<Rightarrow> router" where
  "sync_address s =
     (if \<not> w_origin_null (rs_browser s) \<and> w_here (rs_browser s) \<noteq> rs_path s
      then s\<lparr>rs_browser := replaceState (rs_path s) (rs_browser s)\<rparr> else s)"

definition setPath :: "string \<Rightarrow> router \<Rightarrow> router" where
  "setPath p s = (if p = rs_path s then s else sync_address (s\<lparr>rs_path := p\<rparr>))"

definition useRoute :: "string \<Rightarrow> browser \<Rightarrow> router" where
  "useRoute test_path b = sync_address
     \<lparr>rs_browser = b, rs_path = normalize_path (if test_path \<noteq> [] then test_path else w_here b), rs_scroll = 0\<rparr>"

text \<open>\<open>navigate\<close> compares with the path of the render that created it, \<open>captured\<close>, which a
  dialog opened on an earlier page may still hold.\<close>

definition navigate :: "string \<Rightarrow> string \<Rightarrow> bool \<Rightarrow> router \<Rightarrow> router" where
  "navigate captured nxt replace s =
     (let target = normalize_path nxt
      in if target = captured \<and> \<not> replace then s
         else (let b = rs_browser s;
                   s' = (if w_origin_null b then s
                         else s\<lparr>rs_browser := (if replace then replaceState target b else pushState target b)\<rparr>)
               in (setPath target s')\<lparr>rs_scroll := 0\<rparr>))"

definition onPop :: "router \<Rightarrow> router" where
  "onPop s = setPath (normalize_path (w_here (rs_browser s))) s"

definition go_back :: "router \<Rightarrow> router" where
  "go_back s = (let b = rs_browser s in case w_back b of [] \<Rightarrow> s
     | u # us \<Rightarrow> onPop (s\<lparr>rs_browser := b\<lparr>w_back := us, w_here := u, w_forward := w_here b # w_forward b\<rparr>\<rparr>))"

definition go_forward :: "router \<Rightarrow> router" where
  "go_forward s = (let b = rs_browser s in case w_forward b of [] \<Rightarrow> s
     | u # us \<Rightarrow> onPop (s\<lparr>rs_browser := b\<lparr>w_back := w_here b # w_back b, w_here := u, w_forward := us\<rparr>\<rparr>))"

inductive router_reach :: "string \<Rightarrow> browser \<Rightarrow> router \<Rightarrow> bool" for test_path b where
  opened: "w_back b = [] \<Longrightarrow> w_forward b = [] \<Longrightarrow> router_reach test_path b (useRoute test_path b)"
| navigates: "router_reach test_path b s \<Longrightarrow> router_reach test_path b (navigate captured nxt replace s)"
| scrolls: "router_reach test_path b s \<Longrightarrow> router_reach test_path b (s\<lparr>rs_scroll := y\<rparr>)"
| goes_back: "router_reach test_path b s \<Longrightarrow> router_reach test_path b (go_back s)"
| goes_forward: "router_reach test_path b s \<Longrightarrow> router_reach test_path b (go_forward s)"

definition router_ok :: "router \<Rightarrow> bool" where
  "router_ok s \<longleftrightarrow> is_route (rs_path s) \<and>
     (let b = rs_browser s in
      if w_origin_null b then w_back b = [] \<and> w_forward b = []
      else w_here b = rs_path s \<and> list_all is_route (w_back b) \<and> list_all is_route (w_forward b))"

lemmas router_ops = navigate_def go_back_def go_forward_def onPop_def setPath_def sync_address_def
  replaceState_def pushState_def router_ok_def Let_def

lemma router_ok_start:
  "w_back b = [] \<Longrightarrow> w_forward b = [] \<Longrightarrow> router_ok (useRoute test_path b)"
  by (simp add: useRoute_def router_ops rt.norm_known)

lemma router_ok_navigate: "router_ok s \<Longrightarrow> router_ok (navigate captured nxt replace s)"
  by (simp add: router_ops rt.norm_known)

lemma router_ok_back: "router_ok s \<Longrightarrow> router_ok (go_back s)"
  by (cases "w_back (rs_browser s)") (auto simp: router_ops rt.norm_of_known)

lemma router_ok_forward: "router_ok s \<Longrightarrow> router_ok (go_forward s)"
  by (cases "w_forward (rs_browser s)") (auto simp: router_ops rt.norm_of_known)

lemma router_reach_ok: "router_reach test_path b s \<Longrightarrow> router_ok s"
proof (induction rule: router_reach.induct)
  case (scrolls s y)
  then show ?case by (simp add: router_ok_def Let_def)
qed (auto intro: router_ok_start router_ok_navigate router_ok_back router_ok_forward)

text \<open>C16. However a user moves through a tab that was opened on the panel, whatever address it was
  opened with, and even when a stale \<open>navigate\<close> is called: the page shown is one of the table, the
  address bar shows its path (unless the document has no origin to write a history for), and every
  entry the back and forward buttons lead to is a page of the table as well.\<close>

theorem router_invariant:
  assumes "router_reach test_path b s"
  shows "is_route (rs_path s) \<and>
    (\<not> w_origin_null (rs_browser s) \<longrightarrow>
       w_here (rs_browser s) = rs_path s \<and>
       (\<forall>u \<in> set (w_back (rs_browser s)) \<union> set (w_forward (rs_browser s)). is_route u))"
  using router_reach_ok [OF assms] by (auto simp: router_ok_def Let_def list_all_iff split: if_splits)

definition sample_tab :: browser where
  "sample_tab = \<lparr>w_origin_null = False, w_back = [], w_here = ''/services'', w_forward = []\<rparr>"

lemma sample_tab_reach:
  "router_reach [] sample_tab (navigate ''/system/services'' ''/docker'' False (useRoute [] sample_tab))"
  by (intro router_reach.navigates router_reach.opened) (simp_all add: sample_tab_def)

theorem router_invariant_witness:
  "is_route (rs_path (navigate ''/system/services'' ''/docker'' False (useRoute [] sample_tab)))"
  using router_invariant [OF sample_tab_reach] by blast

text \<open>Going to another page and pressing the back button returns to the page and to the history
  it was left with, and the forward button then leads to the other page.\<close>

theorem navigate_then_back:
  assumes "router_reach test_path b s" and "\<not> w_origin_null (rs_browser s)"
    and "normalize_path nxt \<noteq> rs_path s"
  defines "s' \<equiv> go_back (navigate (rs_path s) nxt False s)"
  shows "rs_path s' = rs_path s \<and> w_here (rs_browser s') = w_here (rs_browser s) \<and>
    w_back (rs_browser s') = w_back (rs_browser s) \<and> w_forward (rs_browser s') = [normalize_path nxt] \<and>
    rs_path (go_forward s') = normalize_path nxt"
proof -
  have "w_here (rs_browser s) = rs_path s" "is_route (rs_path s)"
    using router_reach_ok [OF assms(1)] assms(2) by (simp_all add: router_ok_def Let_def)
  then show ?thesis
    using assms(2,3) by (simp add: s'_def router_ops rt.norm_of_known rt.norm_norm)
qed

theorem navigate_then_back_witness:
  "rs_path (go_back (navigate ''/system/services'' ''/docker'' False (useRoute [] sample_tab))) = ''/system/services''"
proof -
  have reach: "router_reach [] sample_tab (useRoute [] sample_tab)"
    by (rule router_reach.opened) (simp_all add: sample_tab_def)
  have path: "rs_path (useRoute [] sample_tab) = ''/system/services''"
    by (simp add: useRoute_def sample_tab_def router_ops normalize_path_def LEGACY_REDIRECTS_def)
  have other: "normalize_path ''/docker'' \<noteq> rs_path (useRoute [] sample_tab)"
    unfolding path using rt.norm_of_known [of "''/docker''"]
    by (simp add: is_route_def ROUTES_def)
  have origin: "\<not> w_origin_null (rs_browser (useRoute [] sample_tab))"
    by (simp add: useRoute_def sample_tab_def router_ops)
  show ?thesis using navigate_then_back [OF reach origin other] path by simp
qed

end
