(* ===== verification/Handlers.thy ===== *)
theory Handlers imports Api begin

text \<open>
  What the handlers of the pages are checked for, and the elements they are bound to. \<open>behaves\<close>
  collects the rules the panel sets itself for its interaction (\<open>docs/UI_AND_INTERACTION.md\<close>):
  a destructive request comes after an explicit confirmation, a success message only after the
  server has acknowledged a change, a refused change is always reported, and no exception escapes
  a handler. Which requests count as destructive is a parameter, chosen per page. \<open>behavesI\<close>
  reduces it to a weakest precondition with a \<open>watch\<close> as ghost value; the rules for the operations
  are in \<open>io_simps\<close> and \<open>io_rules\<close>. The locale \<open>page\<close> lifts it to everything a page offers.
\<close>

subsection \<open>Rules of interaction\<close>

definition changing :: "request \<Rightarrow> bool" where
  "changing r \<longleftrightarrow> \<not> safe_method (req_method r)"

definition confirms :: "eff \<Rightarrow> answer \<Rightarrow> bool" where
  "confirms e a = (case e of Confirm t m l d \<Rightarrow> a = AVal (JBool True) | _ \<Rightarrow> False)"

text \<open>The answers that acknowledge what was asked for: a successful response to a request that
  changes something, a finished upload, a browser call that succeeded.\<close>

definition acknowledges :: "eff \<Rightarrow> answer \<Rightarrow> bool" where
  "acknowledges e a = (case e of
       Fetch r \<Rightarrow> changing r \<and> (case a of AResp p \<Rightarrow> is_ok p | _ \<Rightarrow> False)
     | Upload u f n \<Rightarrow> (case a of AVal v \<Rightarrow> True | _ \<Rightarrow> False)
     | Browser n vs \<Rightarrow> (case a of AVal v \<Rightarrow> True | _ \<Rightarrow> False)
     | _ \<Rightarrow> False)"

definition refuses :: "eff \<Rightarrow> answer \<Rightarrow> bool" where
  "refuses e a = (case e of
       Fetch r \<Rightarrow> changing r \<and> (case a of AResp p \<Rightarrow> \<not> is_ok p | AFail c \<Rightarrow> True | _ \<Rightarrow> False)
     | _ \<Rightarrow> False)"

definition reports :: "eff \<Rightarrow> bool" where
  "reports e = (case e of Notify k t d \<Rightarrow> k \<noteq> Success | _ \<Rightarrow> False)"

definition guarded_trace :: "(request \<Rightarrow> bool) \<Rightarrow> event list \<Rightarrow> bool" where
  "guarded_trace P tr \<longleftrightarrow> (\<forall>pre r a post. tr = pre @ Did (Fetch r) a # post \<longrightarrow> P r \<longrightarrow>
     list_ex (\<lambda>(e, a). confirms e a) (dids pre))"

definition honest_trace :: "event list \<Rightarrow> bool" where
  "honest_trace tr \<longleftrightarrow> (\<forall>pre t d a post. tr = pre @ Did (Notify Success t d) a # post \<longrightarrow>
     list_ex (\<lambda>(e, a). acknowledges e a) (dids pre))"

definition silent_failure :: "event list \<Rightarrow> bool" where
  "silent_failure tr \<longleftrightarrow> (\<exists>pre e a post. tr = pre @ Did e a # post \<and> refuses e a \<and>
     list_all (\<lambda>(e, a). \<not> reports e \<and> \<not> acknowledges e a) (dids post))"

text \<open>A handler behaves when each of its runs keeps these rules, none ends in an exception (of which
  the user would see nothing), and the state satisfies \<open>I\<close> when it is over.\<close>

definition behaves :: "(request \<Rightarrow> bool) \<Rightarrow> ('s \<Rightarrow> bool) \<Rightarrow> 's io \<Rightarrow> bool" where
  "behaves P I m \<longleftrightarrow> (\<forall>as s tr out s'. run m as s = (tr, out, s') \<longrightarrow> legal tr \<longrightarrow>
     guarded_trace P tr \<and> honest_trace tr \<and> (\<forall>c. out \<noteq> Failed c) \<and>
     (out \<noteq> Suspended \<longrightarrow> I s' \<and> \<not> silent_failure tr))"

text \<open>The same without the rule about success messages, for the pages where one of them breaks it.\<close>

definition behaves_lax :: "(request \<Rightarrow> bool) \<Rightarrow> ('s \<Rightarrow> bool) \<Rightarrow> 's io \<Rightarrow> bool" where
  "behaves_lax P I m \<longleftrightarrow> (\<forall>as s tr out s'. run m as s = (tr, out, s') \<longrightarrow> legal tr \<longrightarrow>
     guarded_trace P tr \<and> (\<forall>c. out \<noteq> Failed c) \<and> (out \<noteq> Suspended \<longrightarrow> I s' \<and> \<not> silent_failure tr))"

lemma behaves_imp_lax: "behaves P I m \<Longrightarrow> behaves_lax P I m"
  unfolding behaves_def behaves_lax_def by blast

record watch =
  w_confirmed :: bool
  w_acked :: bool
  w_failed :: bool

definition w0 :: watch where
  "w0 = \<lparr>w_confirmed = False, w_acked = False, w_failed = False\<rparr>"

definition w_upd :: "watch \<Rightarrow> eff \<Rightarrow> answer \<Rightarrow> watch" where
  "w_upd g e a =
     \<lparr>w_confirmed = w_confirmed g \<or> confirms e a, w_acked = w_acked g \<or> acknowledges e a,
      w_failed = refuses e a \<or> (w_failed g \<and> \<not> reports e \<and> \<not> acknowledges e a)\<rparr>"

definition w_ok :: "(request \<Rightarrow> bool) \<Rightarrow> watch \<Rightarrow> eff \<Rightarrow> bool" where
  "w_ok P g e = (case e of
       Fetch r \<Rightarrow> P r \<longrightarrow> w_confirmed g
     | Notify k t d \<Rightarrow> k = Success \<longrightarrow> w_acked g
     | _ \<Rightarrow> True)"

lemma watch_ghost:
  "w_confirmed (ghost w_upd g tr) \<longleftrightarrow> w_confirmed g \<or> list_ex (\<lambda>(e, a). confirms e a) (dids tr)"
  "w_acked (ghost w_upd g tr) \<longleftrightarrow> w_acked g \<or> list_ex (\<lambda>(e, a). acknowledges e a) (dids tr)"
proof (induction tr arbitrary: g)
  case (Cons ev tr)
  case 1
  show ?case using Cons.IH by (cases ev) (auto simp: w_upd_def)
next
  case (Cons ev tr)
  case 2
  show ?case using Cons.IH by (cases ev) (auto simp: w_upd_def)
qed simp_all

lemma refuses_not: "refuses e a \<Longrightarrow> \<not> reports e \<and> \<not> acknowledges e a"
  by (auto simp: refuses_def reports_def acknowledges_def split: eff.splits answer.splits)

lemma silent_failure_Cons:
  "silent_failure (ev # tr) \<longleftrightarrow> silent_failure tr \<or>
     (\<exists>e a. ev = Did e a \<and> refuses e a \<and> list_all (\<lambda>(e, a). \<not> reports e \<and> \<not> acknowledges e a) (dids tr))"
  unfolding silent_failure_def by (auto simp: Cons_eq_append_conv) metis

lemma w_failed_ghost:
  "w_failed (ghost w_upd g tr) \<longleftrightarrow> silent_failure tr \<or>
     (w_failed g \<and> list_all (\<lambda>(e, a). \<not> reports e \<and> \<not> acknowledges e a) (dids tr))"
proof (induction tr arbitrary: g)
  case Nil
  then show ?case by (simp add: silent_failure_def)
next
  case (Cons ev tr)
  then show ?case by (cases ev) (auto simp: w_upd_def silent_failure_Cons)
qed

text \<open>A watch that starts as acknowledged does not check the success messages.\<close>

definition w1 :: watch where
  "w1 = \<lparr>w_confirmed = False, w_acked = True, w_failed = False\<rparr>"

lemma watched_run:
  assumes "wp (w_ok P) w_upd m (\<lambda>_ g s. I s \<and> \<not> w_failed g) (\<lambda>_ _ _. False) g0 s"
    and "\<not> w_confirmed g0" and "run m as s = (tr, out, s')" and "legal tr"
  shows "guarded_trace P tr \<and> (\<not> w_acked g0 \<longrightarrow> honest_trace tr) \<and> (\<forall>c. out \<noteq> Failed c) \<and>
    (out \<noteq> Suspended \<longrightarrow> I s' \<and> \<not> silent_failure tr)"
proof -
  note w = wp_sound [OF assms(1,3,4)]
  have ok: "w_ok P (ghost w_upd g0 pre) e" if "tr = pre @ Did e a # post" for pre e a post
    using w that by blast
  have "guarded_trace P tr"
    unfolding guarded_trace_def
  proof (intro allI impI)
    fix pre q a post
    assume "tr = pre @ Did (Fetch q) a # post" "P q"
    then show "list_ex (\<lambda>(e, a). confirms e a) (dids pre)"
      using ok [of pre "Fetch q"] assms(2) by (auto simp: w_ok_def watch_ghost)
  qed
  moreover have "honest_trace tr" if "\<not> w_acked g0"
    unfolding honest_trace_def
  proof (intro allI impI)
    fix pre t d a post
    assume "tr = pre @ Did (Notify Success t d) a # post"
    then show "list_ex (\<lambda>(e, a). acknowledges e a) (dids pre)"
      using ok [of pre "Notify Success t d"] that by (auto simp: w_ok_def watch_ghost)
  qed
  moreover have "\<forall>c. out \<noteq> Failed c" using w by blast
  moreover have "I s' \<and> \<not> silent_failure tr" if "out \<noteq> Suspended"
    using w that by (cases out) (auto simp: w_failed_ghost)
  ultimately show ?thesis by blast
qed

lemma behavesI:
  assumes "\<And>s. wp (w_ok P) w_upd m (\<lambda>_ g s. I s \<and> \<not> w_failed g) (\<lambda>_ _ _. False) w0 s"
  shows "behaves P I m"
  using watched_run [OF assms] by (simp add: behaves_def w0_def)

lemma behaves_laxI:
  assumes "\<And>s. wp (w_ok P) w_upd m (\<lambda>_ g s. I s \<and> \<not> w_failed g) (\<lambda>_ _ _. False) w1 s"
  shows "behaves_lax P I m"
  using watched_run [OF assms] by (simp add: behaves_lax_def w1_def)

text \<open>For a page with handlers that let a refusal go unreported: every program asks before it destroys
  and claims success only after an acknowledgement, and those outside \<open>X\<close> behave in full.\<close>

definition behaves_but :: "'s io set \<Rightarrow> (request \<Rightarrow> bool) \<Rightarrow> 's io \<Rightarrow> bool" where
  "behaves_but X P m \<longleftrightarrow>
     (\<forall>as s tr out s'. run m as s = (tr, out, s') \<longrightarrow> legal tr \<longrightarrow> guarded_trace P tr \<and> honest_trace tr) \<and>
     (m \<in> X \<or> behaves P (\<lambda>_. True) m)"

lemma behaves_imp_but: "behaves P (\<lambda>_. True) m \<Longrightarrow> behaves_but X P m"
  unfolding behaves_but_def behaves_def by blast

text \<open>The same where exceptions may escape (a copy to the clipboard without a handler, an error thrown on
  after it has been reported): outside \<open>X\<close> no refused change is silent.\<close>

definition loud :: "'s io \<Rightarrow> bool" where
  "loud m \<longleftrightarrow> (\<forall>as s tr out s'. run m as s = (tr, out, s') \<longrightarrow> legal tr \<longrightarrow> out \<noteq> Suspended \<longrightarrow>
     \<not> silent_failure tr)"

definition behaves_loud :: "'s io set \<Rightarrow> (request \<Rightarrow> bool) \<Rightarrow> 's io \<Rightarrow> bool" where
  "behaves_loud X P m \<longleftrightarrow>
     (\<forall>as s tr out s'. run m as s = (tr, out, s') \<longrightarrow> legal tr \<longrightarrow> guarded_trace P tr \<and> honest_trace tr) \<and>
     (m \<in> X \<or> loud m)"

lemma behaves_imp_loud: "behaves P (\<lambda>_. True) m \<Longrightarrow> behaves_loud X P m"
  unfolding behaves_loud_def behaves_def loud_def by blast

lemma watched_run_ok:
  assumes "wp (w_ok P) w_upd m Q E w0 s" and "run m as s = (tr, out, s')" and "legal tr"
  shows "guarded_trace P tr \<and> honest_trace tr"
proof -
  have "wp (w_ok P) w_upd m (\<lambda>_ _ _. True) (\<lambda>_ _ _. True) w0 s"
    by (rule wp_mono [OF assms(1)]) simp_all
  from wp_sound [OF this assms(2,3)]
  have ok: "w_ok P (ghost w_upd w0 pre) e" if "tr = pre @ Did e a # post" for pre e a post
    using that by blast
  show ?thesis
    unfolding guarded_trace_def honest_trace_def
    using ok [of _ "Fetch _"] ok [of _ "Notify Success _ _"] by (auto simp: w_ok_def watch_ghost w0_def)
qed

lemma behaves_butI:
  assumes "\<And>s. wp (w_ok P) w_upd m (\<lambda>_ _ _. True) (\<lambda>_ _ _. True) w0 s" and "m \<in> X"
  shows "behaves_but X P m"
  using watched_run_ok [OF assms(1)] assms(2) unfolding behaves_but_def by blast

lemma loudI:
  assumes "\<And>s. wp (w_ok P) w_upd m (\<lambda>_ g s. \<not> w_failed g) (\<lambda>_ g s. \<not> w_failed g) w0 s"
  shows "behaves_loud X P m"
proof -
  have "\<not> silent_failure tr" if "run m as s = (tr, out, s')" "legal tr" "out \<noteq> Suspended" for as s tr out s'
    using wp_sound [OF assms that(1,2)] that(3) by (cases out) (auto simp: w_failed_ghost)
  then show ?thesis
    using watched_run_ok [OF assms] unfolding behaves_loud_def loud_def by blast
qed

lemma loud_exceptI:
  assumes "\<And>s. wp (w_ok P) w_upd m (\<lambda>_ _ _. True) (\<lambda>_ _ _. True) w0 s" and "m \<in> X"
  shows "behaves_loud X P m"
  using watched_run_ok [OF assms(1)] assms(2) unfolding behaves_loud_def by blast

subsection \<open>Operations under the watch\<close>

lemmas watch_simps = w_ok_def w_upd_def confirms_def acknowledges_def refuses_def reports_def

lemma watch_same [simp]:
  "\<lparr>w_confirmed = w_confirmed g, w_acked = w_acked g, w_failed = w_failed g\<rparr> = g"
  by simp

lemma w0_simps [simp]:
  "w_confirmed w0 = False" "w_acked w0 = False" "w_failed w0 = False"
  "w_confirmed w1 = False" "w_acked w1 = True" "w_failed w1 = False"
  by (simp_all add: w0_def w1_def)

text \<open>The watch after a request, and after a message.\<close>

definition w_done :: "bool \<Rightarrow> watch \<Rightarrow> watch" where
  "w_done ch g = (if ch then g\<lparr>w_acked := True, w_failed := False\<rparr> else g)"

definition w_refused :: "bool \<Rightarrow> watch \<Rightarrow> watch" where
  "w_refused ch g = (if ch then g\<lparr>w_failed := True\<rparr> else g)"

definition w_told :: "toast_kind \<Rightarrow> watch \<Rightarrow> watch" where
  "w_told k g = (if k = Success then g else g\<lparr>w_failed := False\<rparr>)"

definition w_yes :: "watch \<Rightarrow> watch" where
  "w_yes g = g\<lparr>w_confirmed := True\<rparr>"

lemma watch_moves [simp]:
  "w_confirmed (w_done ch g) = w_confirmed g" "w_acked (w_done ch g) = (ch \<or> w_acked g)"
  "w_failed (w_done ch g) = (\<not> ch \<and> w_failed g)"
  "w_confirmed (w_refused ch g) = w_confirmed g" "w_acked (w_refused ch g) = w_acked g"
  "w_failed (w_refused ch g) = (ch \<or> w_failed g)"
  "w_confirmed (w_told k g) = w_confirmed g" "w_acked (w_told k g) = w_acked g"
  "w_failed (w_told k g) = (k = Success \<and> w_failed g)"
  "w_confirmed (w_yes g) = True" "w_acked (w_yes g) = w_acked g" "w_failed (w_yes g) = w_failed g"
  "w_done False g = g" "w_refused False g = g" "w_told Success g = g"
  by (simp_all add: w_done_def w_refused_def w_told_def w_yes_def)

lemma w_told_idle [simp]: "\<not> w_failed g \<Longrightarrow> w_told k g = g"
  by (simp add: w_told_def)

lemma wp_notify [io_simps]:
  "wp (w_ok P) w_upd (notify k t d) Q E g s =
     ((k = Success \<longrightarrow> w_acked g) \<and> (\<forall>s'. Q JUndef (w_told k g) s'))"
proof -
  have "w_upd g (Notify k t d) (AVal JUndef) = w_told k g"
    by (simp add: watch_simps w_told_def)
  then show ?thesis by (simp add: notify_def perform_def w_ok_def)
qed

lemma wp_confirm [io_simps]:
  "wp (w_ok P) w_upd (confirm_io t m l d) Q E g s =
     ((\<forall>s'. Q (JBool True) (w_yes g) s') \<and> (\<forall>s'. Q (JBool False) g s'))"
proof -
  have "w_upd g (Confirm t m l d) (AVal (JBool True)) = w_yes g"
    "w_upd g (Confirm t m l d) (AVal (JBool False)) = g"
    by (simp_all add: watch_simps w_yes_def)
  then show ?thesis by (auto simp: confirm_io_def perform_def w_ok_def)
qed

definition simple_eff :: "eff \<Rightarrow> bool" where
  "simple_eff e = (case e of Close_modal \<Rightarrow> True | Navigate p \<Rightarrow> True | Prevent_default \<Rightarrow> True
     | Call_unauthorized \<Rightarrow> True | Dom n vs \<Rightarrow> True | _ \<Rightarrow> False)"

lemma wp_perform_simple [io_simps]:
  "simple_eff e \<Longrightarrow> wp (w_ok P) w_upd (perform e) Q E g s = (\<forall>s'. Q JUndef g s')"
  by (cases e) (auto simp: simple_eff_def perform_def watch_simps)

text \<open>Calls whose answer the handler cannot foresee, and those that acknowledge when they return.\<close>

definition fallible_eff :: "eff \<Rightarrow> bool" where
  "fallible_eff e = (case e of Prop_call n vs \<Rightarrow> True | Elevate \<Rightarrow> True
     | Read_csrf \<Rightarrow> True | Has_elevation \<Rightarrow> True | _ \<Rightarrow> False)"

definition acking_eff :: "eff \<Rightarrow> bool" where
  "acking_eff e = (case e of Browser n vs \<Rightarrow> True | Upload u f n \<Rightarrow> True | _ \<Rightarrow> False)"

lemma wp_perform_fallible:
  assumes "fallible_eff e" and "\<And>v s'. Q v g s'" and "\<And>c s'. E c g s'"
  shows "wp (w_ok P) w_upd (perform e) Q E g s"
  using assms by (cases e) (auto simp: fallible_eff_def perform_def watch_simps split: answer.splits)

lemma wp_perform_acking:
  assumes "acking_eff e" and "\<And>v s'. Q v (w_done True g) s'" and "\<And>c s'. E c g s'"
  shows "wp (w_ok P) w_upd (perform e) Q E g s"
proof -
  have "w_upd g e (AVal v) = w_done True g" "w_upd g e (AFail c) = g" for v c
    using assms(1) by (cases e; simp add: acking_eff_def watch_simps w_done_def)+
  with assms show ?thesis
    by (cases e) (auto simp: acking_eff_def perform_def w_ok_def split: answer.splits)
qed

lemma eff_kinds [simp]:
  "simple_eff Close_modal" "simple_eff (Navigate p)" "simple_eff Prevent_default" "simple_eff (Dom n vs)"
  "fallible_eff (Prop_call n vs)" "fallible_eff Elevate" "fallible_eff Read_csrf" "fallible_eff Has_elevation"
  "acking_eff (Browser n vs)" "acking_eff (Upload u f nm)"
  "\<not> fallible_eff (Browser n vs)" "\<not> acking_eff (Prop_call n vs)"
  by (simp_all add: simple_eff_def fallible_eff_def acking_eff_def)

lemma wp_calls [io_rules]:
  "(\<And>v s'. Q v g s') \<Longrightarrow> (\<And>c s'. E c g s') \<Longrightarrow> wp (w_ok P) w_upd (perform (Prop_call n vs)) Q E g s"
  "(\<And>v s'. Q v g s') \<Longrightarrow> (\<And>c s'. E c g s') \<Longrightarrow> wp (w_ok P) w_upd (perform Elevate) Q E g s"
  "(\<And>v s'. Q v g s') \<Longrightarrow> (\<And>c s'. E c g s') \<Longrightarrow> wp (w_ok P) w_upd (perform Has_elevation) Q E g s"
  "(\<And>v s'. Q v (w_done True g) s') \<Longrightarrow> (\<And>c s'. E c g s') \<Longrightarrow> wp (w_ok P) w_upd (perform (Browser n vs)) Q E g s"
  "(\<And>v s'. Q v (w_done True g) s') \<Longrightarrow> (\<And>c s'. E c g s') \<Longrightarrow> wp (w_ok P) w_upd (perform (Upload u f nm)) Q E g s"
  by (simp_all add: wp_perform_fallible wp_perform_acking)

subsection \<open>Requests under the watch\<close>

definition sends_change :: "init \<Rightarrow> bool" where
  "sends_change i \<longleftrightarrow> \<not> safe_method (method_of i)"

lemma sends_change_simps [simp]:
  "\<not> sends_change empty_init"
  "sends_change (with_body ''POST'' b)" "sends_change (with_body ''PUT'' b)"
  "sends_change (with_body ''DELETE'' b)" "sends_change (with_body ''PATCH'' b)"
  "sends_change (no_body ''DELETE'')" "sends_change (no_body ''POST'')"
  by (simp_all add: sends_change_def method_of_def empty_init_def with_body_def no_body_def safe_method_def; code_simp)+

lemma method_of_simps [simp]:
  "method_of empty_init = ''GET''" "method_of (with_body ''POST'' b) = ''POST''" "method_of (with_body ''PUT'' b) = ''PUT''"
  "method_of (with_body ''DELETE'' b) = ''DELETE''" "method_of (no_body ''DELETE'') = ''DELETE''"
  "method_of (no_body ''POST'') = ''POST''"
  by (simp_all add: method_of_def empty_init_def with_body_def no_body_def; code_simp)+

lemma changing_mk_request [simp]: "changing (mk_request url i tok) \<longleftrightarrow> sends_change i"
  by (simp add: changing_def sends_change_def)

lemma wp_api [io_rules]:
  assumes "\<And>tok. P (mk_request url i tok) \<Longrightarrow> w_confirmed g"
    and "\<And>v s'. Q v (w_done (sends_change i) g) s'" and "\<And>c s'. E c (w_refused (sends_change i) g) s'"
  shows "wp (w_ok P) w_upd (api url i) Q E g s"
proof -
  have upd: "w_upd g (Fetch (mk_request url i tok)) (AResp p) =
      (if is_ok p then w_done (sends_change i) g else w_refused (sends_change i) g)"
    "w_upd g (Fetch (mk_request url i tok)) (AFail c) = w_refused (sends_change i) g"
    "w_upd h Read_csrf a = h" "w_upd h Call_unauthorized a = h" for tok p c a h
    by (auto simp: watch_simps w_done_def w_refused_def)
  have ok: "w_ok P g (Fetch (mk_request url i tok))" "w_ok P h Read_csrf" "w_ok P h Call_unauthorized" for tok h
    using assms(1) by (auto simp: w_ok_def)
  show ?thesis
    using assms(2,3)
    by (auto simp: api_def handle_response_def Let_def io_simps perform_def upd ok)
qed

lemma wp_retry_elevated [io_rules]:
  assumes "\<And>s. wp (w_ok P) w_upd m Q (\<lambda>_ g' _. g' = w_refused ch g) g s"
    and "\<And>c s'. E c (w_refused ch g) s'"
    and "\<And>s. wp (w_ok P) w_upd m Q E (w_refused ch g) s"
  shows "wp (w_ok P) w_upd (retry_elevated m) Q E g s"
proof -
  have after: "wp (w_ok P) w_upd (if \<not> wants_elevation c then Throw c
      else bnd (perform Has_elevation) (\<lambda>h. if \<not> truthy h then Throw c else seqs (perform Elevate) m))
      Q E (w_refused ch g) s'" for c s'
    using assms(2,3) by (auto simp: io_simps intro!: wp_perform_fallible)
  show ?thesis
    unfolding retry_elevated_def wp_try_catch
  proof (rule wp_mono [OF assms(1)])
    fix c g' s'
    assume "g' = w_refused ch g"
    then show "wp (w_ok P) w_upd (if \<not> wants_elevation c then Throw c
      else bnd (perform Has_elevation) (\<lambda>h. if \<not> truthy h then Throw c else seqs (perform Elevate) m))
      Q E g' s'"
      by (simp only: after)
  qed
qed

lemma w_moves_twice [simp]:
  "w_done ch (w_refused ch g) = w_done ch g" "w_refused ch (w_refused ch g) = w_refused ch g"
  by (simp_all add: w_done_def w_refused_def)

lemma wp_secureApi [io_rules]:
  assumes "\<And>tok. P (mk_request url i tok) \<Longrightarrow> w_confirmed g"
    and "\<And>v s'. Q v (w_done (sends_change i) g) s'" and "\<And>c s'. E c (w_refused (sends_change i) g) s'"
  shows "wp (w_ok P) w_upd (secureApi url i) Q E g s"
  unfolding secureApi_def
proof (rule wp_retry_elevated [where ch = "sends_change i"])
  show "wp (w_ok P) w_upd (api url i) Q (\<lambda>_ g' _. g' = w_refused (sends_change i) g) g s" for s
    using assms(1,2) by (intro wp_api) auto
  show "wp (w_ok P) w_upd (api url i) Q E (w_refused (sends_change i) g) s" for s
    using assms by (intro wp_api) auto
qed (rule assms(3))

lemma wp_uploadApi [io_rules]:
  assumes "\<And>v s'. Q v (w_done True g) s'" and "\<And>c s'. E c g s'"
  shows "wp (w_ok P) w_upd (uploadApi url f n) Q E g s"
  unfolding uploadApi_def
  by (rule wp_retry_elevated [where ch = False]) (auto intro!: wp_perform_acking assms)

lemma wp_copyText [io_rules]:
  assumes "\<And>v s'. Q v (w_done True g) s'" and "\<And>c s'. E c (w_done True g) s'" and "\<And>c s'. E c g s'"
  shows "wp (w_ok P) w_upd (copyText x) Q E g s"
proof -
  have twice: "w_done True (w_done True g) = w_done True g" by (simp add: w_done_def)
  show ?thesis
    using assms by (auto simp: copyText_def Let_def io_simps twice intro!: wp_perform_acking split: sum.split)
qed

lemma wp_promise_all [io_rules]:
  assumes "\<And>m s. m \<in> set ms \<Longrightarrow> wp (w_ok P) w_upd m (\<lambda>_ g' _. g' = g) (\<lambda>_ g' _. g' = g) g s"
    and "\<And>vs s'. length vs = length ms \<Longrightarrow> Q (JArr vs) g s'" and "\<And>c s'. E c g s'"
  shows "wp (w_ok P) w_upd (promise_all ms) Q E g s"
  unfolding promise_all_def
proof (rule wp_all_settled [OF assms(1)])
  fix rs :: "(cause + json) list" and s'
  assume "length rs = length ms"
  then show "wp (w_ok P) w_upd (join_results rs) Q E g s'"
    using assms(2,3) by (auto simp: join_results_def watch_simps length_results split: answer.splits)
qed

subsection \<open>Elements\<close>

text \<open>The handlers bound anywhere in a rendered element, and those a user can trigger: a
  disabled control delivers no event.\<close>

primrec handlers_of :: "'s vnode \<Rightarrow> 's handler list" where
  "handlers_of (Txt t) = []"
| "handlers_of (El tag attrs hs kids) = hs @ concat (map handlers_of kids)"
| "handlers_of Bad_child = []"

definition is_disabled :: "(string \<times> json) list \<Rightarrow> bool" where
  "is_disabled attrs \<longleftrightarrow> (case map_of attrs ''disabled'' of Some v \<Rightarrow> truthy v | None \<Rightarrow> False)"

primrec live_handlers :: "'s vnode \<Rightarrow> 's handler list" where
  "live_handlers (Txt t) = []"
| "live_handlers (El tag attrs hs kids) =
     (if is_disabled attrs then [] else hs) @ concat (map live_handlers kids)"
| "live_handlers Bad_child = []"

text \<open>\<open>vnode_ok R v\<close>: \<open>R\<close> holds of every handler bound in \<open>v\<close>, and of every handler bound in a
  dialog such a handler opens, at any depth. \<open>shows_ok\<close> is the part about the dialogs.\<close>

primrec shows_ok :: "('s io \<Rightarrow> bool) \<Rightarrow> 's io \<Rightarrow> bool"
  and vnode_ok :: "('s io \<Rightarrow> bool) \<Rightarrow> 's vnode \<Rightarrow> bool" where
  "shows_ok R (Ret v) = True"
| "shows_ok R (Throw c) = True"
| "shows_ok R (Get g) = (\<forall>s. shows_ok R (g s))"
| "shows_ok R (Put u m) = shows_ok R m"
| "shows_ok R (Do e k) = (\<forall>a. shows_ok R (k a))"
| "shows_ok R (Show t z vs m) = ((\<forall>b\<in>set (map (vnode_ok R) vs). b) \<and> shows_ok R m)"
| "vnode_ok R (Txt t) = True"
| "vnode_ok R (El tag attrs hs kids) =
     ((\<forall>h\<in>set hs. \<forall>ev. R (snd h ev)) \<and>
      (\<forall>h\<in>set (map (map_prod id (\<lambda>f. shows_ok R \<circ> f)) hs). \<forall>ev. snd h ev) \<and>
      (\<forall>b\<in>set (map (vnode_ok R) kids). b))"
| "vnode_ok R Bad_child = True"

definition handler_ok :: "('s io \<Rightarrow> bool) \<Rightarrow> 's io \<Rightarrow> bool" where
  "handler_ok R m \<longleftrightarrow> R m \<and> shows_ok R m"

definition all_handlers :: "('s io \<Rightarrow> bool) \<Rightarrow> 's vnode list \<Rightarrow> bool" where
  "all_handlers R vs \<longleftrightarrow> (\<forall>v\<in>set vs. vnode_ok R v)"

lemma all_handlers_simps [simp]:
  "all_handlers R []"
  "all_handlers R (v # vs) \<longleftrightarrow> vnode_ok R v \<and> all_handlers R vs"
  "all_handlers R (vs @ ws) \<longleftrightarrow> all_handlers R vs \<and> all_handlers R ws"
  "all_handlers R (concat vss) \<longleftrightarrow> (\<forall>vs\<in>set vss. all_handlers R vs)"
  "all_handlers R (map f xs) \<longleftrightarrow> (\<forall>x\<in>set xs. vnode_ok R (f x))"
  "all_handlers R (if c then vs else ws) \<longleftrightarrow> (c \<longrightarrow> all_handlers R vs) \<and> (\<not> c \<longrightarrow> all_handlers R ws)"
  by (auto simp: all_handlers_def)

declare vnode_ok.simps(2) [simp del]
declare shows_ok.simps(6) [simp del]

lemma vnode_ok_simps [simp]:
  "vnode_ok R (El tag attrs hs kids) \<longleftrightarrow> (\<forall>h\<in>set hs. \<forall>ev. handler_ok R (snd h ev)) \<and> all_handlers R kids"
  "vnode_ok R (if c then v else w) \<longleftrightarrow> (c \<longrightarrow> vnode_ok R v) \<and> (\<not> c \<longrightarrow> vnode_ok R w)"
  "shows_ok R (Show t z vs m) \<longleftrightarrow> all_handlers R vs \<and> shows_ok R m"
  "shows_ok R (if c then m else n) \<longleftrightarrow> (c \<longrightarrow> shows_ok R m) \<and> (\<not> c \<longrightarrow> shows_ok R n)"
  by (auto simp: vnode_ok.simps(2) shows_ok.simps(6) all_handlers_def handler_ok_def comp_def)

lemma shows_ok_settle [simp]:
  "shows_ok R m \<Longrightarrow> \<forall>r. shows_ok R (f r) \<Longrightarrow> shows_ok R (settle m f)"
  by (induction m rule: io_induct) auto

lemma shows_ok_combinators [simp]:
  "shows_ok R m \<Longrightarrow> (\<forall>v. shows_ok R (f v)) \<Longrightarrow> shows_ok R (bnd m f)"
  "shows_ok R m \<Longrightarrow> (\<forall>c. shows_ok R (h c)) \<Longrightarrow> shows_ok R (try_catch m h)"
  "shows_ok R m \<Longrightarrow> shows_ok R n \<Longrightarrow> shows_ok R (seqs m n)"
  by (auto simp: bnd_def try_catch_def seqs_def split: sum.splits intro!: shows_ok_settle)

lemma shows_ok_finally [simp]: "shows_ok R m \<Longrightarrow> shows_ok R n \<Longrightarrow> shows_ok R (try_finally m n)"
  by (auto simp: try_finally_def split: sum.splits intro!: shows_ok_settle)

lemma shows_ok_steps [simp]: "(\<forall>m\<in>set ms. shows_ok R m) \<Longrightarrow> shows_ok R (steps ms)"
  by (induction ms rule: steps.induct) auto

lemma shows_ok_simple [simp]:
  "shows_ok R (set_state f)" "shows_ok R (perform e)" "shows_ok R (notify k t d)" "shows_ok R (confirm_io t m l dd)"
  "shows_ok R (open_modal t z vs) \<longleftrightarrow> all_handlers R vs"
  by (auto simp: set_state_def perform_def notify_def confirm_io_def open_modal_def split: answer.splits)

lemma shows_ok_all_settled:
  "\<forall>m\<in>set ms. shows_ok R m \<Longrightarrow> \<forall>rs. shows_ok R (k rs) \<Longrightarrow> shows_ok R (all_settled ms k)"
  by (induction ms k rule: all_settled.induct) (auto intro!: shows_ok_settle)

lemma shows_ok_promise_all [simp]: "\<forall>m\<in>set ms. shows_ok R m \<Longrightarrow> shows_ok R (promise_all ms)"
  unfolding promise_all_def
  by (rule shows_ok_all_settled) (auto simp: join_results_def split: answer.splits)

lemma handler_ok_if [simp]: "handler_ok R (if c then m else n) \<longleftrightarrow> (c \<longrightarrow> handler_ok R m) \<and> (\<not> c \<longrightarrow> handler_ok R n)"
  by simp

lemma elements_Let [simp]:
  "vnode_ok R (let x = a in f x) \<longleftrightarrow> vnode_ok R (f a)"
  "all_handlers R (let x = a in g x) \<longleftrightarrow> all_handlers R (g a)"
  "shows_ok R (let x = a in m x) \<longleftrightarrow> shows_ok R (m a)"
  by simp_all

lemma handler_ok_Let [simp]: "handler_ok R (let x = a in f x) \<longleftrightarrow> handler_ok R (f a)"
  by simp

subsection \<open>What a page offers\<close>

text \<open>The programs a user can start on a page: a handler of the page as rendered in any of its
  states, or of a dialog that such a program opens. \<open>contents\<close> are the dialogs of a program.\<close>

primrec contents :: "'s io \<Rightarrow> 's vnode list set" where
  "contents (Ret v) = {}"
| "contents (Throw c) = {}"
| "contents (Get g) = (\<Union>s. contents (g s))"
| "contents (Put u m) = contents m"
| "contents (Do e k) = (\<Union>a. contents (k a))"
| "contents (Show t z vs m) = insert vs (contents m)"

inductive offered :: "('s \<Rightarrow> 's vnode) \<Rightarrow> 's io \<Rightarrow> bool" for view where
  on_page: "h \<in> set (handlers_of (view s)) \<Longrightarrow> offered view (snd h ev)"
| in_dialog: "offered view m \<Longrightarrow> vs \<in> contents m \<Longrightarrow> v \<in> set vs \<Longrightarrow> h \<in> set (handlers_of v) \<Longrightarrow>
    offered view (snd h ev)"

lemma vnode_ok_handlers: "vnode_ok R v \<Longrightarrow> h \<in> set (handlers_of v) \<Longrightarrow> handler_ok R (snd h ev)"
  by (induction v rule: vnode.induct [where ?P1.0 = "\<lambda>_. True"]) (auto simp: all_handlers_def)

lemma shows_ok_contents: "shows_ok R m \<Longrightarrow> vs \<in> contents m \<Longrightarrow> all_handlers R vs"
  by (induction m rule: io_induct) auto

lemma offered_ok:
  assumes "\<And>s. vnode_ok R (view s)" and "offered view m"
  shows "handler_ok R m"
  using assms(2)
proof (induction rule: offered.induct)
  case (on_page h s ev)
  then show ?case using vnode_ok_handlers [OF assms(1)] by blast
next
  case (in_dialog m vs v h ev)
  then have "all_handlers R vs" by (auto simp: handler_ok_def dest: shows_ok_contents)
  with in_dialog show ?case by (auto simp: all_handlers_def dest: vnode_ok_handlers)
qed

lemma handler_mono:
  assumes "\<And>m. R m \<Longrightarrow> R' m"
  shows "shows_ok R m \<Longrightarrow> shows_ok R' m" and "vnode_ok R v \<Longrightarrow> vnode_ok R' v"
  by (induction m and v rule: io.induct vnode.induct)
     (auto simp: all_handlers_def handler_ok_def assms)

text \<open>The interface between a page and what is proved about it: a property that all its elements
  have is one of everything it offers.\<close>

locale elements =
  fixes view :: "'s \<Rightarrow> 's vnode" and R :: "'s io \<Rightarrow> bool"
  assumes elements_ok: "vnode_ok R (view s)"
begin

lemma offers: "offered view m \<Longrightarrow> R m"
  using offered_ok [OF elements_ok] by (simp add: handler_ok_def)

end

locale page = elements view "behaves P (\<lambda>_. True)" for view :: "'s \<Rightarrow> 's vnode" and P
begin

text \<open>Whatever the user starts, with whatever answers and whatever else goes on meanwhile.\<close>

lemma rules_kept:
  assumes "offered view m" and "run m as s = (tr, out, s')" and "legal tr"
  shows "guarded_trace P tr \<and> honest_trace tr \<and> (\<forall>c. out \<noteq> Failed c) \<and>
    (out \<noteq> Suspended \<longrightarrow> \<not> silent_failure tr)"
  using offers [OF assms(1)] assms(2,3) unfolding behaves_def by blast

end

locale lax_page = elements view "behaves_lax P (\<lambda>_. True)" for view :: "'s \<Rightarrow> 's vnode" and P
begin

lemma most_rules_kept:
  assumes "offered view m" and "run m as s = (tr, out, s')" and "legal tr"
  shows "guarded_trace P tr \<and> (\<forall>c. out \<noteq> Failed c) \<and> (out \<noteq> Suspended \<longrightarrow> \<not> silent_failure tr)"
  using offers [OF assms(1)] assms(2,3) unfolding behaves_lax_def by blast

end

locale but_page = elements view "behaves_but X P" for view :: "'s \<Rightarrow> 's vnode" and X P
begin

lemma rules_kept_but:
  assumes "offered view m" and "run m as s = (tr, out, s')" and "legal tr"
  shows "guarded_trace P tr \<and> honest_trace tr \<and>
    (m \<notin> X \<longrightarrow> (\<forall>c. out \<noteq> Failed c) \<and> (out \<noteq> Suspended \<longrightarrow> \<not> silent_failure tr))"
  using offers [OF assms(1)] assms(2,3) unfolding behaves_but_def behaves_def by blast

end

locale loud_page = elements view "behaves_loud X P" for view :: "'s \<Rightarrow> 's vnode" and X P
begin

lemma rules_kept_loud:
  assumes "offered view m" and "run m as s = (tr, out, s')" and "legal tr"
  shows "guarded_trace P tr \<and> honest_trace tr \<and> (m \<notin> X \<longrightarrow> out \<noteq> Suspended \<longrightarrow> \<not> silent_failure tr)"
  using offers [OF assms(1)] assms(2,3) unfolding behaves_loud_def loud_def by blast

end

sublocale page \<subseteq> loud: loud_page view X P for X
  by unfold_locales (rule handler_mono(2) [OF behaves_imp_loud elements_ok])

sublocale page \<subseteq> but: but_page view X P for X
  by unfold_locales (rule handler_mono(2) [OF behaves_imp_but elements_ok])

sublocale page \<subseteq> lax: lax_page view P
  by unfold_locales (rule handler_mono(2) [OF behaves_imp_lax elements_ok])

lemma live_subset: "set (live_handlers v) \<subseteq> set (handlers_of v)"
  by (induction v rule: vnode.induct [where ?P1.0 = "\<lambda>_. True"]) auto

end
