(* ===== verification/Format.thy ===== *)
theory Format imports Js_Value begin

text \<open>
  The formatters of \<open>web/assets/app.js\<close>, lines 86 to 122: byte counts, durations, dates and the
  labels of a scheduled task. The rendering of a date depends on the browser's time zone and
  locale data, so it is a parameter: \<open>loc s\<close> is the text \<open>toLocaleString\<close> gives for
  \<open>new Date(s)\<close>, \<open>None\<close> when that date is invalid.
\<close>

subsection \<open>Byte counts\<close>

definition byte_units :: "string list" where
  "byte_units = [''B'', ''KB'', ''MB'', ''GB'', ''TB'', ''PB'']"

text \<open>The loop of \<open>formatBytes\<close>: divide while the value reaches 1024 and a larger unit is
  left.\<close>

function scale_bytes :: "rat \<Rightarrow> nat \<Rightarrow> rat \<times> nat" where
  "scale_bytes b i = (if 1024 \<le> b \<and> i < length byte_units - 1 then scale_bytes (b / 1024) (i + 1) else (b, i))"
  by pat_completeness auto
termination
  by (relation "measure (\<lambda>(b, i). length byte_units - i)") (auto simp: byte_units_def)

declare scale_bytes.simps [simp del]

definition formatBytes :: "json \<Rightarrow> string" where
  "formatBytes v =
     (let bytes = number v
      in if bytes \<le> 0 then ''0 B''
         else let (b, i) = scale_bytes bytes 0
              in (if b \<ge> 100 \<or> i = 0 then to_fixed 0 b else to_fixed 1 b) @ '' '' @ byte_units ! i)"

lemma scale_bytes_spec:
  "scale_bytes b i = (r, j) \<Longrightarrow> i \<le> 5 \<Longrightarrow>
     i \<le> j \<and> j \<le> 5 \<and> r * 1024 ^ j = b * 1024 ^ i \<and> (j < 5 \<longrightarrow> r < 1024) \<and> (i < j \<longrightarrow> 1 \<le> r)"
proof (induction b i rule: scale_bytes.induct)
  case (1 b i)
  show ?case
  proof (cases "1024 \<le> b \<and> i < 5")
    case True
    then have "scale_bytes (b / 1024) (i + 1) = (r, j)"
      using "1.prems"(1) by (simp add: scale_bytes.simps [of b i] byte_units_def)
    with "1.IH" True have "i + 1 \<le> j \<and> j \<le> 5 \<and> r * 1024 ^ j = b / 1024 * 1024 ^ (i + 1) \<and>
      (j < 5 \<longrightarrow> r < 1024) \<and> (i + 1 < j \<longrightarrow> 1 \<le> r)"
      by (simp add: byte_units_def)
    moreover have "1 \<le> r" if "j = i + 1"
      using calculation True that by (simp add: field_simps)
    ultimately show ?thesis by (cases "j = i + 1") auto
  next
    case False
    then show ?thesis using "1.prems" by (auto simp: scale_bytes.simps [of b i] byte_units_def split: if_splits)
  qed
qed

text \<open>The number \<open>formatBytes\<close> prints is the byte count divided by a power of 1024 that fits
  it: scaled back it is the count itself, the unit index stays inside the table of units, the
  value is below 1024 unless the largest unit is reached, and at least 1 whenever a unit above
  bytes is chosen.\<close>

theorem scale_bytes_unit:
  assumes "scale_bytes bytes 0 = (b, i)"
  shows "i < length byte_units \<and> b * 1024 ^ i = bytes \<and>
    (i < length byte_units - 1 \<longrightarrow> b < 1024) \<and> (0 < i \<longrightarrow> 1 \<le> b)"
  using scale_bytes_spec [OF assms] by (auto simp: byte_units_def)

theorem scale_bytes_unit_witness:
  "scale_bytes 3145728 0 = (3, 2) \<and> (3::rat) * 1024 ^ 2 = 3145728"
proof -
  have run: "scale_bytes 3145728 0 = (3, 2)"
    by (simp add: scale_bytes.simps byte_units_def)
  show ?thesis using run scale_bytes_unit [OF run] by simp
qed

lemma formatBytes_examples:
  "formatBytes (JNum 0) = ''0 B''" "formatBytes JUndef = ''0 B''"
  "formatBytes (JNum 1536) = ''1.5 KB''" "formatBytes (JNum 1023) = ''1023 B''"
  by code_simp+

subsection \<open>Durations\<close>

text \<open>The list the parts are written into, empty parts dropped (\<open>filter(Boolean)\<close>) and the
  rest joined with a blank.\<close>

definition duration_text :: "int \<Rightarrow> int \<Rightarrow> int \<Rightarrow> int \<Rightarrow> string" where
  "duration_text days hours minutes seconds =
     join_with '' '' (filter (\<lambda>p. p \<noteq> [])
       [if days \<noteq> 0 then int_str days @ t_days_unit else [],
        if hours \<noteq> 0 then int_str hours @ t_hours_unit else [],
        if minutes \<noteq> 0 then int_str minutes @ t_minutes_unit else [],
        if days = 0 \<and> hours = 0 \<and> minutes = 0 then int_str seconds @ t_seconds_unit else []])"

definition formatDuration :: "json \<Rightarrow> string" where
  "formatDuration v =
     (let seconds = max 0 \<lfloor>number v\<rfloor>;
          days = seconds div 86400; seconds = seconds mod 86400;
          hours = seconds div 3600; seconds = seconds mod 3600;
          minutes = seconds div 60
      in duration_text days hours minutes (seconds mod 60))"

lemma duration_parts:
  fixes s :: int
  assumes "0 \<le> s"
  defines "d \<equiv> s div 86400" and "h \<equiv> s mod 86400 div 3600"
    and "m \<equiv> s mod 86400 mod 3600 div 60" and "r \<equiv> s mod 86400 mod 3600 mod 60"
  shows "s = d * 86400 + h * 3600 + m * 60 + r \<and> 0 \<le> d \<and> 0 \<le> h \<and> h < 24 \<and> 0 \<le> m \<and> m < 60 \<and> 0 \<le> r \<and> r < 60"
proof -
  define s1 where "s1 = s mod 86400"
  define s2 where "s2 = s1 mod 3600"
  have s1: "0 \<le> s1" "s1 < 86400" and s2: "0 \<le> s2" "s2 < 3600"
    by (simp_all add: s1_def s2_def)
  have "s = d * 86400 + s1" and "s1 = h * 3600 + s2" and "s2 = m * 60 + r"
    by (simp_all add: d_def h_def m_def r_def s1_def s2_def)
  moreover have "0 \<le> d" using assms(1) by (simp add: d_def)
  moreover have "0 \<le> r" "r < 60" by (simp_all add: r_def)
  ultimately show ?thesis using s1 s2 by arith
qed

lemma int_str_nonempty [simp]: "int_str i \<noteq> []"
  by (simp add: int_str_def)

lemma duration_text_parts:
  "duration_text d h m s =
      join_with '' '' ((if d = 0 then [] else [int_str d @ t_days_unit]) @
        (if h = 0 then [] else [int_str h @ t_hours_unit]) @
        (if m = 0 then [] else [int_str m @ t_minutes_unit]) @
        (if d = 0 \<and> h = 0 \<and> m = 0 then [int_str s @ t_seconds_unit] else []))"
  by (simp add: duration_text_def)

lemma duration_text_nonempty [simp]: "duration_text d h m s \<noteq> []"
  by (simp add: duration_text_parts)

text \<open>\<open>formatDuration\<close> prints a decomposition of the whole seconds of its argument (zero when
  the argument is negative or no number) into days, hours below 24 and minutes below 60: the
  non-zero parts in that order, separated by a blank, or the seconds alone when the duration is
  below one minute. The text is never empty.\<close>

theorem formatDuration_parts:
  "\<exists>d h m s. formatDuration v =
      join_with '' '' ((if d = 0 then [] else [int_str d @ t_days_unit]) @
        (if h = 0 then [] else [int_str h @ t_hours_unit]) @
        (if m = 0 then [] else [int_str m @ t_minutes_unit]) @
        (if d = 0 \<and> h = 0 \<and> m = 0 then [int_str s @ t_seconds_unit] else []))
    \<and> max 0 \<lfloor>number v\<rfloor> = d * 86400 + h * 3600 + m * 60 + s
    \<and> 0 \<le> d \<and> 0 \<le> h \<and> h < 24 \<and> 0 \<le> m \<and> m < 60 \<and> 0 \<le> s \<and> s < 60
    \<and> formatDuration v \<noteq> []"
proof -
  let ?n = "max 0 \<lfloor>number v\<rfloor>"
  define d h m s where "d = ?n div 86400" and "h = ?n mod 86400 div 3600"
    and "m = ?n mod 86400 mod 3600 div 60" and "s = ?n mod 86400 mod 3600 mod 60"
  have fmt: "formatDuration v = duration_text d h m s"
    by (simp only: formatDuration_def Let_def d_def h_def m_def s_def)
  have "?n = d * 86400 + h * 3600 + m * 60 + s \<and> 0 \<le> d \<and> 0 \<le> h \<and> h < 24 \<and>
      0 \<le> m \<and> m < 60 \<and> 0 \<le> s \<and> s < 60"
    unfolding d_def h_def m_def s_def by (rule duration_parts) simp
  then show ?thesis unfolding fmt using duration_text_parts duration_text_nonempty by blast
qed

subsection \<open>Dates and task labels\<close>

type_synonym locale_date = "string \<Rightarrow> string option"

definition formatDate :: "locale_date \<Rightarrow> json \<Rightarrow> string" where
  "formatDate loc v =
     (if \<not> truthy v then t_em_dash
      else case loc (jstring v) of None \<Rightarrow> jstring v | Some t \<Rightarrow> t)"

definition taskTypeLabel :: "json \<Rightarrow> string" where
  "taskTypeLabel type =
     (case map_of [(''service-restart'', t_task_service_restart), (''docker-restart'', t_task_docker_restart),
        (''docker-cleanup-safe'', t_task_docker_cleanup), (''panel-backup'', t_task_panel_backup)] (jstring type) of
        Some l \<Rightarrow> l | None \<Rightarrow> js_text type)"

definition taskTargetLabel :: "json \<Rightarrow> string" where
  "taskTargetLabel task =
     (if fld task ''type'' = JStr ''docker-cleanup-safe'' then t_target_docker_cleanup
      else if fld task ''type'' = JStr ''panel-backup'' then t_target_panel_backup
      else js_text (fld task ''target''))"

definition day_names :: "string list" where
  "day_names = [t_sunday, t_monday, t_tuesday, t_wednesday, t_thursday, t_friday, t_saturday]"

definition taskScheduleLabel :: "json \<Rightarrow> string" where
  "taskScheduleLabel task =
     (let minute = js_pad_start 2 (CHR ''0'') (num_str (number (fld task ''minute'')));
          hour = js_pad_start 2 (CHR ''0'') (num_str (number (fld task ''hour'')))
      in if fld task ''frequency'' = JStr ''hourly'' then t_every_hour_at @ minute @ t_minute_suffix
         else if fld task ''frequency'' = JStr ''weekly'' then
           (let w = number (fld task ''weekday'');
                day = (case find_first (\<lambda>p. rat_of_nat (fst p) = w) (zip [0..<7] day_names) of
                         Some p \<Rightarrow> snd p | None \<Rightarrow> t_every_week)
            in day @ '' '' @ hour @ '':'' @ minute)
         else t_every_day_at @ hour @ '':'' @ minute)"

end
