(* ===== verification/Widgets.thy ===== *)
theory Widgets imports Router Handlers Format begin

text \<open>
  The shared elements of the pages, \<open>web/assets/app.js\<close>, lines 35 to 72, 301 to 379, 440 to 446
  and 647 to 659. An element is a function from its properties, handlers and children to the
  element React would render; a property that holds elements (\<open>actions\<close>, \<open>action\<close>, \<open>value\<close>) is an
  argument of its own. For each of them a simplification rule says which handlers it binds: that
  is all the proofs about the pages need to know of it.
\<close>

type_synonym attrs = "(string \<times> json) list"

definition attr :: "attrs \<Rightarrow> string \<Rightarrow> json" where
  "attr as k = (case map_of as k of Some v \<Rightarrow> v | None \<Rightarrow> JUndef)"

text \<open>A destructured property with a default: the default replaces \<open>undefined\<close> only.\<close>

definition attr_or :: "attrs \<Rightarrow> string \<Rightarrow> json \<Rightarrow> json" where
  "attr_or as k d = (if attr as k = JUndef then d else attr as k)"

definition put_attr :: "attrs \<Rightarrow> string \<Rightarrow> json \<Rightarrow> attrs" where
  "put_attr as k v = obj_put as k v"

definition without :: "string list \<Rightarrow> attrs \<Rightarrow> attrs" where
  "without ks as = filter (\<lambda>(k, v). k \<notin> set ks) as"

text \<open>What React renders for a value in child position: nothing for \<open>undefined\<close>, \<open>null\<close> and
  booleans, the elements of an array, and an exception for any other object.\<close>

fun child :: "json \<Rightarrow> 's vnode list" where
  "child JUndef = []"
| "child JNull = []"
| "child (JBool b) = []"
| "child (JNum r) = [Txt (num_str r)]"
| "child (JStr s) = [Txt s]"
| "child (JArr xs) = concat (map child xs)"
| "child (JObj kvs) = [Bad_child]"

definition has_children :: "'s vnode list \<Rightarrow> bool" where
  "has_children kids \<longleftrightarrow> (case kids of [] \<Rightarrow> False | [Txt t] \<Rightarrow> t \<noteq> [] | _ \<Rightarrow> True)"

lemma all_handlers_child [simp]: "all_handlers R (child v)"
  by (induction v rule: child.induct) auto

subsection \<open>JSON text\<close>

definition hex4 :: "nat \<Rightarrow> string" where
  "hex4 n = ''00'' @ [hex_char (n div 16), lower_char (hex_char (n mod 16))]"

definition json_escape :: "char \<Rightarrow> string" where
  "json_escape c =
     (if code c = 0x22 \<or> code c = 0x5C then [CHR 0x5C, c]
      else if code c = 0x08 then [CHR 0x5C, CHR ''b''] else if code c = 0x09 then [CHR 0x5C, CHR ''t'']
      else if code c = 0x0A then [CHR 0x5C, CHR ''n''] else if code c = 0x0C then [CHR 0x5C, CHR ''f'']
      else if code c = 0x0D then [CHR 0x5C, CHR ''r'']
      else if code c < 0x20 then [CHR 0x5C, CHR ''u''] @ hex4 (code c) else [c])"

definition json_quote :: "string \<Rightarrow> string" where
  "json_quote s = CHR 0x22 # concat (map json_escape s) @ [CHR 0x22]"

definition nl :: string where
  "nl = [CHR 0x0A]"

text \<open>\<open>JSON.stringify(v, null, 2)\<close> at an indentation of \<open>n\<close>.\<close>

fun pretty :: "nat \<Rightarrow> json \<Rightarrow> string" where
  "pretty n (JArr xs) =
     (if xs = [] then ''[]''
      else ''['' @ nl @ join_with ('','' @ nl) (map (\<lambda>v. replicate (n + 2) (CHR '' '') @ pretty (n + 2) v) xs) @
           nl @ replicate n (CHR '' '') @ '']'')"
| "pretty n (JObj kvs) =
     (let rows = concat (map (\<lambda>kv. if snd kv = JUndef then []
          else [replicate (n + 2) (CHR '' '') @ json_quote (fst kv) @ '': '' @ pretty (n + 2) (snd kv)]) kvs)
      in if rows = [] then ''{}'' else ''{'' @ nl @ join_with ('','' @ nl) rows @ nl @ replicate n (CHR '' '') @ ''}'')"
| "pretty n (JStr s) = json_quote s"
| "pretty n (JNum r) = num_str r"
| "pretty n (JBool b) = (if b then ''true'' else ''false'')"
| "pretty n JNull = ''null''"
| "pretty n JUndef = ''null''"

definition stringify2 :: "json \<Rightarrow> json" where
  "stringify2 v = (if v = JUndef then JUndef else JStr (pretty 0 v))"

fun compact :: "json \<Rightarrow> string" where
  "compact (JArr xs) = ''['' @ join_with '','' (map compact xs) @ '']''"
| "compact (JObj kvs) = ''{'' @ join_with '','' (concat (map (\<lambda>kv. if snd kv = JUndef then []
     else [json_quote (fst kv) @ '':'' @ compact (snd kv)]) kvs)) @ ''}''"
| "compact (JStr s) = json_quote s"
| "compact (JNum r) = num_str r"
| "compact (JBool b) = (if b then ''true'' else ''false'')"
| "compact JNull = ''null''"
| "compact JUndef = ''null''"

definition stringify :: "json \<Rightarrow> json" where
  "stringify v = (if v = JUndef then JUndef else JStr (compact v))"

subsection \<open>Icons\<close>

definition ICONS :: "(string \<times> string list) list" where
  "ICONS = [
     (''dashboard'', [''M4 13h6V4H4v9Z'', ''M14 20h6v-9h-6v9Z'', ''M14 4h6v3h-6V4Z'', ''M4 17h6v3H4v-3Z'']),
     (''system'', [''M4 4h16v16H4z'', ''M8 8h8'', ''M8 12h5'', ''M8 16h3'']),
     (''services'', [''M12 3v3'', ''M12 18v3'', ''M3 12h3'', ''M18 12h3'', ''M6.6 6.6l2.1 2.1'',
       ''M15.3 15.3l2.1 2.1'', ''M17.4 6.6l-2.1 2.1'', ''M8.7 15.3l-2.1 2.1'',
       ''M12 16a4 4 0 1 0 0-8 4 4 0 0 0 0 8Z'']),
     (''process'', [''M4 7h16'', ''M7 4v6'', ''M4 17h16'', ''M17 14v6'', ''M10 12h4'']),
     (''network'', [''M5 12.6a10 10 0 0 1 14 0'', ''M8.5 16a5 5 0 0 1 7 0'', ''M12 20h.01'',
       ''M2 9a15 15 0 0 1 20 0'']),
     (''storage'', [''M4 6c0-1.1 3.6-2 8-2s8 .9 8 2-3.6 2-8 2-8-.9-8-2Z'',
       ''M4 6v6c0 1.1 3.6 2 8 2s8-.9 8-2V6'', ''M4 12v6c0 1.1 3.6 2 8 2s8-.9 8-2v-6'']),
     (''tasks'', [''M6 3v3'', ''M18 3v3'', ''M4 8h16'', ''M5 5h14a1 1 0 0 1 1 1v14H4V6a1 1 0 0 1 1-1Z'',
       ''M8 12h3'', ''M8 16h5'']),
     (''package'', [''M4 7 12 3l8 4-8 4-8-4Z'', ''M4 7v10l8 4 8-4V7'', ''M12 11v10'']),
     (''server'', [''M4 4h16v6H4z'', ''M4 14h16v6H4z'', ''M8 7h.01'', ''M8 17h.01'']),
     (''backup'', [''M4 4v6h6'', ''M5.5 15a8 8 0 1 0 1-8.5L4 10'', ''M12 8v5l3 2'']),
     (''docker'', [''M4 11h16c0 5-3 9-8 9s-8-4-8-9Z'', ''M7 8h3v3H7z'', ''M11 8h3v3h-3z'',
       ''M15 8h3v3h-3z'', ''M11 4h3v3h-3z'', ''M20 9c1-1 2-1 3-1'']),
     (''files'', [''M3 6h7l2 2h9v12H3z'', ''M3 6V4h7l2 2'']),
     (''tools'', [''M14 6a4 4 0 0 0-5 5L3 17l4 4 6-6a4 4 0 0 0 5-5l-3 3-3-3 3-4Z'']),
     (''github'', [''M12 2a10 10 0 0 0-3 19.5c.5.1.7-.2.7-.5v-2c-2.8.6-3.4-1.2-3.4-1.2-.5-1.2-1.2-1.5-1.2-1.5-1-.7.1-.7.1-.7 1.1.1 1.7 1.1 1.7 1.1 1 1.7 2.7 1.2 3.4.9.1-.7.4-1.2.7-1.5-2.2-.3-4.5-1.1-4.5-5A4 4 0 0 1 6 8.2 3.7 3.7 0 0 1 6.1 5s.9-.3 3 1.1a10.5 10.5 0 0 1 5.5 0c2.1-1.4 3-1.1 3-1.1a3.7 3.7 0 0 1 .1 3.2 4 4 0 0 1 1.1 2.8c0 3.9-2.3 4.7-4.5 5 .4.3.7 1 .7 2v3c0 .3.2.6.7.5A10 10 0 0 0 12 2Z'']),
     (''ssh'', [''M4 5h16v14H4z'', ''m8 9 3 3-3 3'', ''M13 15h3'']),
     (''audit'', [''M6 4h12v16H6z'', ''M9 8h6'', ''M9 12h6'', ''M9 16h4'']),
     (''security'', [''M12 3 4 6v5c0 5.2 3.4 8.4 8 10 4.6-1.6 8-4.8 8-10V6l-8-3Z'', ''m9 12 2 2 4-4'']),
     (''settings'', [''M12 8a4 4 0 1 0 0 8 4 4 0 0 0 0-8Z'', ''M4.9 19.1 7 17'', ''M17 7l2.1-2.1'',
       ''M4.9 4.9 7 7'', ''M17 17l2.1 2.1'', ''M2 12h3'', ''M19 12h3'', ''M12 2v3'', ''M12 19v3'']),
     (''back'', [''m15 18-6-6 6-6'']),
     (''refresh'', [''M20 6v5h-5'', ''M4 18v-5h5'', ''M18.4 9a7 7 0 0 0-12-2.5L4 11'',
       ''M5.6 15a7 7 0 0 0 12 2.5L20 13'']),
     (''menu'', [''M4 7h16'', ''M4 12h16'', ''M4 17h16'']),
     (''close'', [''M6 6l12 12'', ''M18 6 6 18'']),
     (''search'', [''M11 18a7 7 0 1 1 0-14 7 7 0 0 1 0 14Z'', ''m20 20-4-4'']),
     (''plus'', [''M12 5v14'', ''M5 12h14'']),
     (''play'', [''m8 5 11 7-11 7Z'']),
     (''stop'', [''M7 7h10v10H7z'']),
     (''restart'', [''M20 11a8 8 0 1 0-2 5'', ''m20 4v7h-7'']),
     (''trash'', [''M4 7h16'', ''M9 7V4h6v3'', ''m7 7 1 13h8l1-13'', ''M10 11v5'', ''M14 11v5'']),
     (''edit'', [''m4 20 4-1 10-10-3-3L5 16l-1 4Z'', ''m13 5 3 3'']),
     (''download'', [''M12 3v12'', ''m7 10 5 5 5-5'', ''M5 21h14'']),
     (''upload'', [''M12 21V9'', ''m7 14 5-5 5 5'', ''M5 3h14'']),
     (''chevron'', [''m9 18 6-6-6-6'']),
     (''check'', [''m5 12 4 4L19 6'']),
     (''warning'', [''M12 3 2 21h20L12 3Z'', ''M12 9v5'', ''M12 18h.01'']),
     (''terminal'', [''m5 7 4 4-4 4'', ''M11 17h8'']),
     (''user'', [''M12 12a4 4 0 1 0 0-8 4 4 0 0 0 0 8Z'', ''M4 21a8 8 0 0 1 16 0'']),
     (''key'', [''M21 2l-2 2'', ''m15 6 3 3'', ''M14.5 9.5 9 15H6v3H3v3H1v-4.5l6.5-6.5'', ''M15.5 8.5h.01'']),
     (''fingerprint'', [''M12 11a1 1 0 0 0-1 1c0 2.6-.8 4.8-2.4 6.6'',
       ''M12 7a5 5 0 0 0-5 5c0 1.2-.1 2.3-.4 3.4'', ''M12 3a9 9 0 0 0-9 9c0 1.8-.3 3.5-.9 5'',
       ''M12 15a3 3 0 0 0 3-3 3 3 0 0 0-6 0c0 3.8-1.2 6.7-3.5 8.8'',
       ''M16.6 20.6c1.6-2.5 2.4-5.3 2.4-8.6a7 7 0 0 0-14 0c0 1.5-.2 2.9-.6 4.2'']),
     (''passkey'', [''M12 11a1 1 0 0 0-1 1c0 2.6-.8 4.8-2.4 6.6'',
       ''M12 7a5 5 0 0 0-5 5c0 1.2-.1 2.3-.4 3.4'', ''M12 3a9 9 0 0 0-9 9c0 1.8-.3 3.5-.9 5'',
       ''M12 15a3 3 0 0 0 3-3 3 3 0 0 0-6 0c0 3.8-1.2 6.7-3.5 8.8'',
       ''M16.6 20.6c1.6-2.5 2.4-5.3 2.4-8.6a7 7 0 0 0-14 0c0 1.5-.2 2.9-.6 4.2'']),
     (''memory'', [''M6 4h12v16H6z'', ''M9 8h6v8H9z'', ''M9 1v3'', ''M15 1v3'', ''M9 20v3'', ''M15 20v3'',
       ''M1 9h5'', ''M1 15h5'', ''M18 9h5'', ''M18 15h5'']),
     (''disk'', [''M4 5h16v14H4z'', ''M7 9h10'', ''M7 15h.01'', ''M11 15h6'']),
     (''copy'', [''M8 8h12v12H8z'', ''M4 4h12v4'', ''M4 4v12h4'']),
     (''info'', [''M12 22a10 10 0 1 0 0-20 10 10 0 0 0 0 20Z'', ''M12 10v7'', ''M12 7h.01'']),
     (''more'', [''M5 12h.01'', ''M12 12h.01'', ''M19 12h.01'']),
     (''logout'', [''M10 5H5v14h5'', ''m15 16 4-4-4-4'', ''M19 12H9''])]"

definition Icon :: "attrs \<Rightarrow> 's vnode" where
  "Icon as =
     (let paths = (case map_of ICONS (jstring (attr as ''name'')) of Some ps \<Rightarrow> ps | None \<Rightarrow> the (map_of ICONS ''info''));
          sz = attr_or as ''size'' (JNum 20)
      in El ''svg'' [(''className'', JStr (''icon '' @ jstring (attr_or as ''className'' (JStr [])))),
             (''width'', sz), (''height'', sz), (''viewBox'', JStr ''0 0 24 24''), (''fill'', JStr ''none''),
             (''stroke'', JStr ''currentColor''), (''strokeWidth'', JStr ''1.8''),
             (''strokeLinecap'', JStr ''round''), (''strokeLinejoin'', JStr ''round''), (''aria-hidden'', JStr ''true'')] []
           (map (\<lambda>(i, p). El ''path'' [(''key'', JNum (of_nat i)), (''d'', JStr p)] [] []) (enumerate 0 paths)))"

lemma Icon_handlers [simp]: "vnode_ok R (Icon as)"
  by (auto simp: Icon_def Let_def)

subsection \<open>Buttons, badges and cards\<close>

definition Button :: "attrs \<Rightarrow> 's handler list \<Rightarrow> 's vnode list \<Rightarrow> 's vnode" where
  "Button as hs kids =
     (let label = jor (attr as ''ariaLabel'') (jor (attr as ''aria-label'')
            (if \<not> has_children kids then attr as ''title'' else JUndef));
          busy = attr_or as ''busy'' (JBool False)
      in El ''button'' (without [''icon'', ''tone'', ''busy'', ''disabled'', ''type'', ''className'', ''title'', ''ariaLabel'', ''aria-label''] as @
            [(''type'', attr_or as ''type'' (JStr ''button'')), (''title'', attr as ''title''), (''aria-label'', label),
             (''className'', JStr (''button button-'' @ jstring (attr_or as ''tone'' (JStr ''default'')) @ '' '' @
                jstring (attr_or as ''className'' (JStr [])))),
             (''disabled'', jor (attr_or as ''disabled'' (JBool False)) busy)]) hs
           ((if truthy busy then [El ''span'' [(''className'', JStr ''spinner'')] [] []]
             else if truthy (attr as ''icon'') then [Icon [(''name'', attr as ''icon''), (''size'', JNum 17)]] else []) @
            (if has_children kids then [El ''span'' [] [] kids] else [])))"

lemma not_has_children_handlers: "\<not> has_children kids \<Longrightarrow> all_handlers R kids"
  by (auto simp: has_children_def split: list.splits vnode.splits)

lemma Button_handlers [simp]:
  "vnode_ok R (Button as hs kids) \<longleftrightarrow> (\<forall>h\<in>set hs. \<forall>ev. handler_ok R (snd h ev)) \<and> all_handlers R kids"
  by (auto simp: Button_def Let_def not_has_children_handlers)

text \<open>While an operation runs its button is disabled, so it delivers no second click.\<close>

lemma map_of_without: "k \<in> set ks \<Longrightarrow> map_of (without ks as) k = None"
  by (auto simp: without_def map_of_eq_None_iff)

lemma live_Icon [simp]: "live_handlers (Icon as) = []"
  by (auto simp: Icon_def Let_def)

lemma Button_busy_dead:
  assumes "truthy (attr as ''busy'')"
  shows "live_handlers (Button as hs kids) = (if has_children kids then concat (map live_handlers kids) else [])"
proof -
  have "truthy (attr_or as ''busy'' (JBool False))"
    using assms by (auto simp: attr_or_def)
  then show ?thesis
    by (simp add: Button_def Let_def is_disabled_def map_of_without map_add_def)
qed

definition Badge :: "attrs \<Rightarrow> 's vnode list \<Rightarrow> 's vnode" where
  "Badge as kids = El ''span''
     [(''className'', JStr (''badge badge-'' @ jstring (attr_or as ''tone'' (JStr ''neutral'')))), (''title'', attr as ''title'')] [] kids"

lemma Badge_handlers [simp]: "vnode_ok R (Badge as kids) \<longleftrightarrow> all_handlers R kids"
  by (simp add: Badge_def)

definition Card :: "attrs \<Rightarrow> 's vnode list \<Rightarrow> 's vnode" where
  "Card as kids = El ''section''
     [(''className'', JStr (''card '' @ jstring (attr_or as ''className'' (JStr []))))] [] kids"

lemma Card_handlers [simp]: "vnode_ok R (Card as kids) \<longleftrightarrow> all_handlers R kids"
  by (simp add: Card_def)

definition SectionTitle :: "attrs \<Rightarrow> 's vnode list \<Rightarrow> 's vnode" where
  "SectionTitle as actions = El ''div'' [(''className'', JStr ''section-title'')] []
     ([El ''div'' [] [] ([El ''h2'' [] [] (child (attr as ''title''))] @
         (if truthy (attr as ''subtitle'') then [El ''p'' [] [] (child (attr as ''subtitle''))] else []))] @
      (if has_children actions then [El ''div'' [(''className'', JStr ''section-actions'')] [] actions] else []))"

lemma SectionTitle_handlers [simp]: "vnode_ok R (SectionTitle as actions) \<longleftrightarrow> all_handlers R actions"
  by (auto simp: SectionTitle_def not_has_children_handlers)

subsection \<open>Form elements\<close>

definition Field :: "attrs \<Rightarrow> 's vnode list \<Rightarrow> 's vnode" where
  "Field as kids = El ''label'' [(''className'', JStr (''field '' @ jstring (attr_or as ''className'' (JStr []))))] []
     ([El ''span'' [(''className'', JStr ''field-label'')] [] (child (attr as ''label''))] @ kids @
      (if truthy (attr as ''hint'') then [El ''small'' [] [] (child (attr as ''hint''))] else []))"

lemma Field_handlers [simp]: "vnode_ok R (Field as kids) \<longleftrightarrow> all_handlers R kids"
  by (simp add: Field_def)

definition input_class :: "string \<Rightarrow> attrs \<Rightarrow> attrs" where
  "input_class c as = put_attr as ''className'' (JStr (c @ jstring (jor (attr as ''className'') (JStr []))))"

definition TextInput :: "attrs \<Rightarrow> 's handler list \<Rightarrow> 's vnode" where
  "TextInput as hs = El ''input'' (input_class ''input '' as) hs []"

definition SecondFactorInput :: "attrs \<Rightarrow> 's handler list \<Rightarrow> 's vnode" where
  "SecondFactorInput as hs = TextInput (foldl (\<lambda>acc (k, v). put_attr acc k v)
     [(''inputMode'', JStr ''text''), (''autoCapitalize'', JStr ''characters''), (''autoCorrect'', JStr ''off''),
      (''spellCheck'', JBool False), (''autoComplete'', JStr ''one-time-code'')] as) hs"

definition SelectInput :: "attrs \<Rightarrow> 's handler list \<Rightarrow> 's vnode list \<Rightarrow> 's vnode" where
  "SelectInput as hs kids = El ''select'' (input_class ''input '' as) hs kids"

definition TextArea :: "attrs \<Rightarrow> 's handler list \<Rightarrow> 's vnode" where
  "TextArea as hs = El ''textarea'' (input_class ''input textarea '' as) hs []"

lemma input_handlers [simp]:
  "vnode_ok R (TextInput as hs) \<longleftrightarrow> (\<forall>h\<in>set hs. \<forall>ev. handler_ok R (snd h ev))"
  "vnode_ok R (SecondFactorInput as hs) \<longleftrightarrow> (\<forall>h\<in>set hs. \<forall>ev. handler_ok R (snd h ev))"
  "vnode_ok R (SelectInput as hs kids) \<longleftrightarrow> (\<forall>h\<in>set hs. \<forall>ev. handler_ok R (snd h ev)) \<and> all_handlers R kids"
  "vnode_ok R (TextArea as hs) \<longleftrightarrow> (\<forall>h\<in>set hs. \<forall>ev. handler_ok R (snd h ev))"
  by (simp_all add: TextInput_def SecondFactorInput_def SelectInput_def TextArea_def)

definition Toggle :: "attrs \<Rightarrow> (json \<Rightarrow> 's io) \<Rightarrow> 's vnode" where
  "Toggle as onChange =
     (let disabled = attr_or as ''disabled'' (JBool False)
      in El ''label'' [(''className'', JStr (''toggle-row '' @ (if truthy disabled then ''is-disabled'' else [])))] []
         [El ''span'' [] [] ([El ''strong'' [] [] (child (attr as ''label''))] @
            (if truthy (attr as ''description'') then [El ''small'' [] [] (child (attr as ''description''))] else [])),
          El ''input'' [(''type'', JStr ''checkbox''), (''checked'', attr as ''checked''), (''disabled'', disabled)]
            [(''onChange'', \<lambda>ev. onChange (fld ev ''checked''))] [],
          El ''span'' [(''className'', JStr ''switch'')] [] []])"

lemma Toggle_handlers [simp]:
  "(\<forall>v. handler_ok R (onChange v)) \<Longrightarrow> vnode_ok R (Toggle as onChange)"
  by (simp add: Toggle_def Let_def)

subsection \<open>States of a page\<close>

definition EmptyState :: "attrs \<Rightarrow> 's vnode list \<Rightarrow> 's vnode" where
  "EmptyState as action = El ''div'' [(''className'', JStr ''empty-state'')] []
     ([El ''span'' [(''className'', JStr ''empty-icon'')] []
         [Icon [(''name'', attr_or as ''icon'' (JStr ''info'')), (''size'', JNum 27)]],
       El ''strong'' [] [] (child (attr as ''title''))] @
      (if truthy (attr as ''description'') then [El ''p'' [] [] (child (attr as ''description''))] else []) @
      action)"

definition ErrorState :: "json \<Rightarrow> (json \<Rightarrow> 's io) \<Rightarrow> 's vnode" where
  "ErrorState error retry = El ''div'' [(''className'', JStr ''error-state'')] []
     [Icon [(''name'', JStr ''warning''), (''size'', JNum 22)],
      El ''div'' [] [] [El ''strong'' [] [] [Txt t_load_failed], El ''pre'' [] [] (child error)],
      Button [(''tone'', JStr ''ghost'')] [(''onClick'', retry)] [Txt t_retry]]"

definition LoadingState :: "nat \<Rightarrow> 's vnode" where
  "LoadingState rows = El ''div'' [(''className'', JStr ''skeleton-list'')] []
     (map (\<lambda>i. El ''div'' [(''className'', JStr ''skeleton-row''), (''key'', JNum (of_nat i))] []
        [El ''span'' [] [] [], El ''span'' [] [] []]) [0..<rows])"

lemma state_handlers [simp]:
  "vnode_ok R (EmptyState as action) \<longleftrightarrow> all_handlers R action"
  "vnode_ok R (ErrorState error retry) \<longleftrightarrow> (\<forall>ev. handler_ok R (retry ev))"
  "vnode_ok R (LoadingState rows)"
  by (auto simp: EmptyState_def ErrorState_def LoadingState_def)

definition Progress :: "rat \<Rightarrow> string \<Rightarrow> 's vnode" where
  "Progress v tone =
     (let safe = max 0 (min 100 v)
      in El ''div'' [(''className'', JStr ''progress'')] []
           [El ''span'' [(''className'', JStr (''progress-'' @ tone)), (''style'', JObj [(''width'', JStr (num_str safe @ ''%''))])] [] []])"

definition KeyValue :: "attrs \<Rightarrow> 's vnode list \<Rightarrow> 's vnode" where
  "KeyValue as v = El ''div'' [(''className'', JStr ''key-value'')] []
     [El ''dt'' [] [] (child (attr as ''label'')),
      El ''dd'' [(''className'', JStr (if truthy (attr_or as ''mono'' (JBool False)) then ''mono'' else []))] [] v]"

definition Terminal :: "attrs \<Rightarrow> 's vnode list \<Rightarrow> 's vnode" where
  "Terminal as kids = El ''pre'' [(''className'', JStr ''terminal''),
       (''style'', JObj [(''maxHeight'', attr_or as ''maxHeight'' (JNum 420))])] []
     (if has_children kids then kids else [Txt t_no_output])"

definition JsonDetails :: "attrs \<Rightarrow> 's vnode" where
  "JsonDetails as = El ''details'' [(''className'', JStr ''json-details'')] []
     [El ''summary'' [] [] (child (attr_or as ''title'' (JStr t_raw_data))),
      Terminal [] (child (stringify2 (attr as ''data'')))]"

lemma display_handlers [simp]:
  "vnode_ok R (Progress v tone)"
  "vnode_ok R (KeyValue as kids) \<longleftrightarrow> all_handlers R kids"
  "all_handlers R kids \<Longrightarrow> vnode_ok R (Terminal as kids)"
  "vnode_ok R (JsonDetails as)"
  by (auto simp: Progress_def Let_def KeyValue_def Terminal_def JsonDetails_def)

subsection \<open>Page headers\<close>

text \<open>\<open>{...props}\<close> of a page header: what the shell passes to every page.\<close>

definition PageHeader :: "route \<Rightarrow> json \<Rightarrow> (json \<Rightarrow> 's io) option \<Rightarrow> 's vnode list \<Rightarrow> 's vnode" where
  "PageHeader route busy onRefresh actions =
     El ''header'' [(''className'', JStr (''page-header '' @ (if has_children actions then ''has-custom-actions'' else [])))] []
       ([El ''div'' [(''className'', JStr ''page-heading'')] []
           ((case r_parent route of None \<Rightarrow> []
             | Some up \<Rightarrow> [El ''button''
                 [(''className'', JStr ''back-button''),
                  (''aria-label'', JStr (t_back_to @ (case ROUTE_MAP up of Some r \<Rightarrow> r_title r | None \<Rightarrow> t_parent_page)))]
                 [(''onClick'', \<lambda>ev. perform (Navigate up))]
                 [Icon [(''name'', JStr ''back''), (''size'', JNum 21)]]]) @
            [El ''div'' [] [] [El ''h1'' [] [] [Txt (r_title route)], El ''p'' [] [] [Txt (r_subtitle route)]]])] @
        (if has_children actions then [El ''div'' [(''className'', JStr ''page-actions'')] [] actions] else []) @
        (case onRefresh of None \<Rightarrow> []
         | Some refresh \<Rightarrow> [El ''div'' [(''className'', JStr ''page-header-refresh'')] []
             [Button [(''icon'', JStr ''refresh''), (''className'', JStr ''header-refresh-button''), (''busy'', busy)]
                [(''onClick'', refresh)] [Txt t_refresh]]]))"

lemma PageHeader_handlers [simp]:
  "(\<forall>p. handler_ok R (perform (Navigate p))) \<Longrightarrow>
     vnode_ok R (PageHeader route busy onRefresh actions) \<longleftrightarrow>
       (\<forall>f ev. onRefresh = Some f \<longrightarrow> handler_ok R (f ev)) \<and> all_handlers R actions"
  by (auto simp: PageHeader_def not_has_children_handlers split: option.splits)

definition Metric :: "attrs \<Rightarrow> 's vnode" where
  "Metric as = Card [(''className'', JStr (''metric metric-'' @ jstring (attr_or as ''tone'' (JStr ''normal''))))]
     [El ''div'' [(''className'', JStr ''metric-icon'')] [] [Icon [(''name'', attr as ''icon'')]],
      El ''div'' [] [] [El ''span'' [] [] (child (attr as ''title'')), El ''strong'' [] [] (child (attr as ''value'')),
        El ''small'' [] [] (child (attr as ''detail''))]]"

definition ResourceRow :: "attrs \<Rightarrow> 's vnode" where
  "ResourceRow as =
     (let hasProgress = (case attr as ''percent'' of JNum r \<Rightarrow> True | _ \<Rightarrow> False)
      in El ''div'' [(''className'', JStr (''resource-row '' @ (if hasProgress then [] else ''resource-row-empty'')))] []
         ([El ''div'' [] [] [El ''strong'' [] [] (child (attr as ''label'')), El ''span'' [] [] (child (attr as ''value''))]] @
          (case attr as ''percent'' of
             JNum r \<Rightarrow> [Progress r (if r > 90 then ''danger'' else if r > 75 then ''warning'' else ''primary'')]
           | _ \<Rightarrow> []) @
          [El ''small'' [] [] (child (attr as ''detail''))]))"

lemma metric_handlers [simp]: "vnode_ok R (Metric as)" "vnode_ok R (ResourceRow as)"
  by (auto simp: Metric_def ResourceRow_def Let_def split: json.split)

subsection \<open>Transfers and toasts\<close>

record transfer =
  tr_name :: string
  tr_phase :: string
  tr_loaded :: rat
  tr_total :: rat
  tr_percent :: rat
  tr_rate :: rat
  tr_eta :: rat

definition TransferProgress :: "transfer \<Rightarrow> (json \<Rightarrow> 's io) option \<Rightarrow> 's vnode" where
  "TransferProgress st onCancel =
     (let processing = (tr_phase st = ''processing'')
      in El ''div'' [(''className'', JStr ''transfer-panel''), (''role'', JStr ''status''), (''aria-live'', JStr ''polite'')] []
         ([El ''div'' [(''className'', JStr ''transfer-heading'')] []
             ([El ''div'' [] []
                 [El ''strong'' [] [] [Txt (tr_name st)],
                  El ''span'' [] [] [Txt (if processing then t_server_verifying
                     else to_fixed 1 (tr_percent st) @ t_percent_dot @ formatBytes (JNum (tr_loaded st)) @ '' / '' @
                       (if tr_total st \<noteq> 0 then formatBytes (JNum (tr_total st)) else t_unknown_size))]]] @
              (case onCancel of None \<Rightarrow> []
               | Some f \<Rightarrow> if processing then [] else [Button [(''tone'', JStr ''ghost'')] [(''onClick'', f)] [Txt t_cancel]])),
           El ''div'' [(''className'', JStr (''progress transfer-progress '' @ (if processing then ''is-processing'' else [])))] []
             [El ''span'' [(''className'', JStr ''progress-primary''),
                (''style'', JObj [(''width'', JStr (if processing then ''100%'' else num_str (max 1 (tr_percent st)) @ ''%''))])] [] []]] @
          (if \<not> processing then [El ''div'' [(''className'', JStr ''transfer-meta'')] []
             [El ''span'' [] [] [Txt (if tr_rate st > 0 then formatBytes (JNum (tr_rate st)) @ ''/s'' else t_measuring_speed)],
              El ''span'' [] [] [Txt (if tr_eta st > 0 then t_remaining_prefix @ formatDuration (JNum (tr_eta st)) else t_almost_done)]]]
           else [])))"

lemma TransferProgress_handlers [simp]:
  "(\<forall>f ev. onCancel = Some f \<longrightarrow> handler_ok R (f ev)) \<Longrightarrow> vnode_ok R (TransferProgress st onCancel)"
  by (auto simp: TransferProgress_def Let_def split: option.split)

record toast =
  to_id :: nat
  to_kind :: toast_kind
  to_title :: string
  to_detail :: json

definition Toasts :: "toast list \<Rightarrow> (nat \<Rightarrow> 's io) \<Rightarrow> 's vnode" where
  "Toasts items dismiss = El ''div'' [(''className'', JStr ''toast-stack''), (''aria-live'', JStr ''polite'')] []
     (map (\<lambda>item. El ''article''
        [(''className'', JStr (''toast toast-'' @ kind_str (to_kind item))), (''key'', JNum (of_nat (to_id item)))] []
        [Icon [(''name'', JStr (case to_kind item of Success \<Rightarrow> ''check'' | Failure \<Rightarrow> ''warning'' | _ \<Rightarrow> ''info'')), (''size'', JNum 20)],
         El ''div'' [] [] ([El ''strong'' [] [] [Txt (to_title item)]] @
           (if truthy (to_detail item) then [El ''pre'' [] [] (child (to_detail item))] else [])),
         El ''button'' [(''aria-label'', JStr t_close)] [(''onClick'', \<lambda>ev. dismiss (to_id item))]
           [Icon [(''name'', JStr ''close''), (''size'', JNum 16)]]]) items)"

lemma Toasts_handlers [simp]: "vnode_ok R (Toasts items dismiss) \<longleftrightarrow> (\<forall>t\<in>set items. handler_ok R (dismiss (to_id t)))"
  by (auto simp: Toasts_def)

subsection \<open>The handlers inside a component\<close>

text \<open>Which handlers a component binds, for the events a page really offers.\<close>

definition handlers_in :: "'s vnode list \<Rightarrow> 's handler set" where
  "handlers_in vs = (\<Union>v\<in>set vs. set (handlers_of v))"

lemma handlers_in_simps [simp]:
  "handlers_in [] = {}" "handlers_in (v # vs) = set (handlers_of v) \<union> handlers_in vs"
  "handlers_in (vs @ ws) = handlers_in vs \<union> handlers_in ws"
  "handlers_in (map f xs) = (\<Union>x\<in>set xs. set (handlers_of (f x)))"
  "set (handlers_of (El tag as hs kids)) = set hs \<union> handlers_in kids"
  by (auto simp: handlers_in_def)

declare handlers_of.simps(2) [simp del]

lemma not_has_children_in: "\<not> has_children kids \<Longrightarrow> handlers_in kids = {}"
  by (auto simp: has_children_def handlers_in_def split: list.splits vnode.splits)

lemma handlers_in_child [simp]: "handlers_in (child j) = {}"
  by (induction j rule: child.induct) (auto simp: handlers_in_def)

lemma handlers_in_if [simp]: "handlers_in (if c then vs else ws) = (if c then handlers_in vs else handlers_in ws)"
  by simp

lemma Icon_no_handlers [simp]: "handlers_of (Icon as) = []"
  by (auto simp: Icon_def Let_def handlers_of.simps(2))

lemma component_handlers [simp]:
  "set (handlers_of (Button as hs kids)) = set hs \<union> handlers_in kids"
  "set (handlers_of (Badge as kids)) = handlers_in kids"
  "set (handlers_of (Card as kids)) = handlers_in kids"
  "set (handlers_of (SectionTitle as kids)) = handlers_in kids"
  "set (handlers_of (Field as kids)) = handlers_in kids"
  "set (handlers_of (EmptyState as kids)) = handlers_in kids"
  "set (handlers_of (TextInput as hs)) = set hs"
  "set (handlers_of (SelectInput as hs kids)) = set hs \<union> handlers_in kids"
  "set (handlers_of (KeyValue as kids)) = handlers_in kids"
  "set (handlers_of (TextArea as hs)) = set hs"
  "set (handlers_of (ErrorState err retry)) = {(''onClick'', retry)}"
  by (auto simp: TextArea_def ErrorState_def Button_def Badge_def Card_def SectionTitle_def Field_def EmptyState_def TextInput_def
      SelectInput_def KeyValue_def Let_def not_has_children_in)

lemma header_handlers [simp]:
  "handlers_in actions \<subseteq> set (handlers_of (PageHeader route busy onRefresh actions))"
  by (auto simp: PageHeader_def not_has_children_in)

end
