(* ===== verification/Upload.thy ===== *)
theory Upload imports Api Widgets begin

text \<open>
  \<open>xhrUpload\<close> (\<open>web/assets/app.js\<close>, lines 187 to 240): one upload as a machine. The state is the
  request object with the promise it settles; the events are those the browser delivers to the
  handlers the function installs. \<open>parse\<close> is \<open>JSON.parse\<close> (\<open>None\<close> when it throws). \<open>fires\<close> says
  when the browser can deliver an event: progress and the final events only for a request that
  was sent and is not over, an abort of the signal only while its listener is installed. The
  handlers do not rely on it for the promise to settle once.
\<close>

record xhr =
  x_headers :: "(string \<times> string) list"
  x_sent :: bool
  x_over :: bool
  x_settled :: bool
  x_listening :: bool
  x_result :: "(cause + json) option"
  x_unauthorized :: nat
  x_progress :: "transfer list"

datatype signal = No_signal | Live_signal | Aborted_signal

datatype xhr_event =
    Upload_progress bool rat rat rat
  | Upload_sent "string option" json
  | Failed_transfer
  | Aborted_transfer
  | Loaded nat string

definition new_xhr :: xhr where
  "new_xhr = \<lparr>x_headers = [], x_sent = False, x_over = False, x_settled = False, x_listening = False,
     x_result = None, x_unauthorized = 0, x_progress = []\<rparr>"

text \<open>Installing the handlers and sending. With a signal that is already aborted the function calls
  \<open>abort\<close>, which does nothing to a request that has not been sent, and returns.\<close>

definition xhrUpload :: "string \<Rightarrow> signal \<Rightarrow> xhr" where
  "xhrUpload csrf sig =
     (let x = new_xhr\<lparr>x_headers := (if csrf \<noteq> [] then [(''X-CSRF-Token'', csrf)] else [])\<rparr>
      in case sig of
           Aborted_signal \<Rightarrow> x
         | Live_signal \<Rightarrow> x\<lparr>x_listening := True, x_sent := True\<rparr>
         | No_signal \<Rightarrow> x\<lparr>x_sent := True\<rparr>)"

definition finish :: "(xhr \<Rightarrow> xhr) \<Rightarrow> xhr \<Rightarrow> xhr" where
  "finish callback x = (if x_settled x then x else callback (x\<lparr>x_settled := True, x_listening := False\<rparr>))"

definition settle_with :: "cause + json \<Rightarrow> xhr \<Rightarrow> xhr" where
  "settle_with r x = x\<lparr>x_result := Some r\<rparr>"

definition progress_report :: "string \<Rightarrow> bool \<Rightarrow> rat \<Rightarrow> rat \<Rightarrow> rat \<Rightarrow> transfer" where
  "progress_report name computable total0 loaded elapsed_ms =
     (let total = (if computable \<and> total0 > 0 then total0 else 0);
          seconds = max (1 / 4) (elapsed_ms / 1000);
          rate = loaded / seconds
      in \<lparr>tr_name = name, tr_phase = ''uploading'', tr_loaded = loaded, tr_total = total,
          tr_percent = (if total \<noteq> 0 then min 100 (loaded / total * 100) else 0), tr_rate = rate,
          tr_eta = (if total \<noteq> 0 \<and> rate \<noteq> 0 then max 0 ((total - loaded) / rate) else 0)\<rparr>)"

definition processing_report :: "string \<Rightarrow> string option \<Rightarrow> json \<Rightarrow> transfer" where
  "processing_report name size_header file_size =
     (let header = (case size_header of None \<Rightarrow> 0 | Some h \<Rightarrow> number (JStr h));
          total = (if header \<noteq> 0 then header else number file_size)
      in \<lparr>tr_name = name, tr_phase = ''processing'', tr_loaded = total, tr_total = total,
          tr_percent = 100, tr_rate = 0, tr_eta = 0\<rparr>)"

definition load_payload :: "(string \<Rightarrow> json option) \<Rightarrow> string \<Rightarrow> json" where
  "load_payload parse body =
     (if body = [] then JObj [] else case parse body of Some v \<Rightarrow> v | None \<Rightarrow> JStr body)"

definition upload_result :: "(string \<Rightarrow> json option) \<Rightarrow> nat \<Rightarrow> string \<Rightarrow> cause + json" where
  "upload_result parse status body =
     (let payload = load_payload parse body
      in if status < 200 \<or> status \<ge> 300 then Inl (request_failed status (asObject payload)) else Inr payload)"

definition onload :: "(string \<Rightarrow> json option) \<Rightarrow> nat \<Rightarrow> string \<Rightarrow> xhr \<Rightarrow> xhr" where
  "onload parse status body = finish (\<lambda>x.
     let x = (if session_lost status (asObject (load_payload parse body))
              then x\<lparr>x_unauthorized := x_unauthorized x + 1\<rparr> else x)
     in settle_with (upload_result parse status body) x)"

definition upload_broken :: cause where
  "upload_broken = Api_error (ApiError t_upload_broken 0 (JObj []))"

definition upload_cancelled :: cause where
  "upload_cancelled = Dom_exception ''AbortError'' t_upload_cancelled"

definition is_final :: "xhr_event \<Rightarrow> bool" where
  "is_final ev = (case ev of Failed_transfer \<Rightarrow> True | Aborted_transfer \<Rightarrow> True | Loaded s b \<Rightarrow> True | _ \<Rightarrow> False)"

definition xhr_handle :: "(string \<Rightarrow> json option) \<Rightarrow> string \<Rightarrow> xhr_event \<Rightarrow> xhr \<Rightarrow> xhr" where
  "xhr_handle parse name ev x0 =
     (let x = (if is_final ev then x0\<lparr>x_over := True\<rparr> else x0)
      in case ev of
           Upload_progress computable total0 loaded ms \<Rightarrow>
             x\<lparr>x_progress := x_progress x @ [progress_report name computable total0 loaded ms]\<rparr>
         | Upload_sent size_header file_size \<Rightarrow>
             x\<lparr>x_progress := x_progress x @ [processing_report name size_header file_size]\<rparr>
         | Failed_transfer \<Rightarrow> finish (settle_with (Inl upload_broken)) x
         | Aborted_transfer \<Rightarrow> finish (settle_with (Inl upload_cancelled)) x
         | Loaded status body \<Rightarrow> onload parse status body x)"

definition xhr_run :: "(string \<Rightarrow> json option) \<Rightarrow> string \<Rightarrow> xhr_event list \<Rightarrow> xhr \<Rightarrow> xhr" where
  "xhr_run parse name evs x = foldl (\<lambda>x ev. xhr_handle parse name ev x) x evs"

text \<open>What the browser can deliver; an abort of the signal reaches the request through its
  listener as \<open>Aborted_transfer\<close>.\<close>

definition fires :: "xhr \<Rightarrow> xhr_event \<Rightarrow> bool" where
  "fires x ev \<longleftrightarrow> x_sent x \<and> \<not> x_over x"

inductive uploads :: "(string \<Rightarrow> json option) \<Rightarrow> string \<Rightarrow> string \<Rightarrow> signal \<Rightarrow> xhr \<Rightarrow> bool" for parse name csrf sig where
  called: "uploads parse name csrf sig (xhrUpload csrf sig)"
| event: "uploads parse name csrf sig x \<Longrightarrow> fires x ev \<Longrightarrow> uploads parse name csrf sig (xhr_handle parse name ev x)"

subsection \<open>Settling\<close>

definition final_result :: "(string \<Rightarrow> json option) \<Rightarrow> xhr_event \<Rightarrow> cause + json" where
  "final_result parse ev = (case ev of
       Failed_transfer \<Rightarrow> Inl upload_broken
     | Aborted_transfer \<Rightarrow> Inl upload_cancelled
     | Loaded status body \<Rightarrow> upload_result parse status body
     | _ \<Rightarrow> Inr JUndef)"

lemmas xhr_ops = xhr_handle_def finish_def settle_with_def onload_def Let_def

lemma xhr_run_simps [simp]:
  "xhr_run parse name [] x = x"
  "xhr_run parse name (ev # evs) x = xhr_run parse name evs (xhr_handle parse name ev x)"
  "xhr_run parse name (evs @ evs') x = xhr_run parse name evs' (xhr_run parse name evs x)"
  by (simp_all add: xhr_run_def)

lemma handle_settled:
  "x_settled x \<Longrightarrow> x_settled (xhr_handle parse name ev x) \<and> x_result (xhr_handle parse name ev x) = x_result x \<and>
     x_unauthorized (xhr_handle parse name ev x) = x_unauthorized x"
  by (cases ev) (simp_all add: xhr_ops is_final_def)

lemma run_settled:
  "x_settled x \<Longrightarrow> x_result (xhr_run parse name evs x) = x_result x \<and>
     x_unauthorized (xhr_run parse name evs x) = x_unauthorized x"
  by (induction evs arbitrary: x) (auto simp: handle_settled)

lemma handle_not_final:
  "\<not> is_final ev \<Longrightarrow> x_settled (xhr_handle parse name ev x) = x_settled x \<and>
     x_result (xhr_handle parse name ev x) = x_result x"
  by (cases ev) (simp_all add: xhr_ops is_final_def)

lemma run_not_final:
  "\<forall>ev\<in>set evs. \<not> is_final ev \<Longrightarrow> x_settled (xhr_run parse name evs x) = x_settled x \<and>
     x_result (xhr_run parse name evs x) = x_result x"
  by (induction evs arbitrary: x) (auto simp: handle_not_final)

lemma handle_final:
  "is_final ev \<Longrightarrow> \<not> x_settled x \<Longrightarrow> x_settled (xhr_handle parse name ev x) \<and>
     x_result (xhr_handle parse name ev x) = Some (final_result parse ev)"
  by (cases ev) (simp_all add: xhr_ops is_final_def final_result_def)

lemma xhrUpload_fresh [simp]: "\<not> x_settled (xhrUpload csrf sig)" "x_result (xhrUpload csrf sig) = None"
  by (auto simp: xhrUpload_def new_xhr_def Let_def split: signal.split)

text \<open>C25. The promise of an upload is settled by the first final event and by nothing else: progress
  never settles it, the first of error, abort and load decides value or error, and whatever events
  follow, a late load after a cancellation for instance, change neither the result nor the number
  of times the session is reported lost.\<close>

theorem upload_first_event_decides:
  assumes "\<forall>ev\<in>set pre. \<not> is_final ev"
  shows "x_result (xhr_run parse name pre (xhrUpload csrf sig)) = None \<and>
    (is_final ev \<longrightarrow>
      (let x = xhr_run parse name (pre @ [ev]) (xhrUpload csrf sig);
           y = xhr_run parse name (pre @ ev # post) (xhrUpload csrf sig)
       in x_result y = Some (final_result parse ev) \<and> x_unauthorized y = x_unauthorized x))"
proof -
  let ?x = "xhr_run parse name pre (xhrUpload csrf sig)"
  have fresh: "\<not> x_settled ?x" "x_result ?x = None"
    using run_not_final [OF assms] by simp_all
  show ?thesis
    using fresh handle_final [of ev ?x] run_settled by (simp add: Let_def)
qed

theorem upload_first_event_decides_witness:
  "x_result (xhr_run (\<lambda>s. None) ''f'' [Upload_progress True 10 5 100, Aborted_transfer, Loaded 200 ''ok'']
     (xhrUpload ''t'' Live_signal)) = Some (Inl upload_cancelled)"
  using upload_first_event_decides [of "[Upload_progress True 10 5 100]" "\<lambda>s. None" "''f''" "''t''" Live_signal
      Aborted_transfer "[Loaded 200 ''ok'']"]
  by (simp add: is_final_def final_result_def Let_def)

text \<open>An upload called with a signal that is already aborted is never sent and its promise never
  settles: no event can reach it, so the caller waits for ever and the busy state of the page it
  came from is never left.\<close>

theorem aborted_upload_never_settles:
  assumes "uploads parse name csrf Aborted_signal x"
  shows "x = xhrUpload csrf Aborted_signal \<and> \<not> x_sent x \<and> x_result x = None"
  using assms
proof (induction rule: uploads.induct)
  case called
  then show ?case by (simp add: xhrUpload_def new_xhr_def Let_def)
next
  case (event x ev)
  then have False by (metis fires_def)
  then show ?case ..
qed

theorem aborted_upload_never_settles_witness:
  "uploads (\<lambda>s. None) ''f'' ''t'' Aborted_signal (xhrUpload ''t'' Aborted_signal) \<and>
   x_result (xhrUpload ''t'' Aborted_signal) = None"
  using aborted_upload_never_settles [OF uploads.called [of "\<lambda>s. None" "''f''" "''t''" Aborted_signal]]
  by (simp add: uploads.called)

text \<open>What the progress bar is given is always displayable: for every progress event the share is
  between 0 and 100, rate and remaining time are not negative, no division by zero occurs however
  early the event comes, and the bar shows no share when the total is unknown.\<close>

theorem progress_report_bounds:
  assumes "0 \<le> loaded"
  shows "let t = progress_report name computable total0 loaded ms in
    0 \<le> tr_percent t \<and> tr_percent t \<le> 100 \<and> 0 \<le> tr_rate t \<and> tr_rate t \<le> 4 * loaded \<and> 0 \<le> tr_eta t \<and>
    (tr_total t = 0 \<longrightarrow> tr_percent t = 0 \<and> tr_eta t = 0) \<and>
    (tr_total t \<noteq> 0 \<and> loaded \<le> tr_total t \<longrightarrow> tr_percent t * tr_total t = 100 * loaded)"
proof -
  define secs where "secs = max (1 / 4) (ms / 1000)"
  have secs: "1 / 4 \<le> secs" by (simp add: secs_def)
  then have pos: "0 < secs" by linarith
  have rate: "0 \<le> loaded / secs" using assms pos by simp
  have "loaded \<le> 4 * loaded * secs"
    using mult_left_mono [OF secs, of "4 * loaded"] assms by simp
  then have fast: "loaded / secs \<le> 4 * loaded"
    using pos by (simp add: divide_le_eq)
  show ?thesis
    unfolding progress_report_def Let_def secs_def [symmetric]
    using assms rate fast by (auto simp: min_def field_simps)
qed

theorem progress_report_bounds_witness:
  "tr_percent (progress_report ''f'' True 200 50 100) \<le> 100"
  using progress_report_bounds [of 50 "''f''" True 200 100] by (simp add: Let_def)

end
