(* ===== verification/Resource.thy ===== *)
theory Resource imports Handlers begin

text \<open>
  \<open>useResource\<close> (\<open>web/assets/app.js\<close>, lines 274 to 300): the loading state of a page and the
  generation counter that keeps a late answer from overwriting a newer one. \<open>reload\<close> is the
  program a page runs; \<open>loads\<close> is the interleaving of any number of such runs, one step for the
  synchronous part before the request and one for the part behind it. \<open>resource_slot\<close> is what a
  component state has to offer to hold a resource; each page interprets it on its own record.
\<close>

record resource =
  res_data :: json
  res_loading :: bool
  res_error :: string
  res_generation :: nat

definition new_resource :: resource where
  "new_resource = \<lparr>res_data = JNull, res_loading = True, res_error = [], res_generation = 0\<rparr>"

definition reload_start :: "bool \<Rightarrow> resource \<Rightarrow> resource" where
  "reload_start silent r =
     r\<lparr>res_generation := res_generation r + 1,
       res_loading := (if silent then res_loading r else True), res_error := []\<rparr>"

definition reload_done :: "nat \<Rightarrow> (string + json) \<Rightarrow> resource \<Rightarrow> resource" where
  "reload_done current out r =
     (if current = res_generation r
      then (case out of Inr v \<Rightarrow> r\<lparr>res_data := v, res_loading := False\<rparr>
            | Inl e \<Rightarrow> r\<lparr>res_error := e, res_loading := False\<rparr>)
      else r)"

definition leave_resource :: "resource \<Rightarrow> resource" where
  "leave_resource r = r\<lparr>res_generation := res_generation r + 1\<rparr>"

definition load_result :: "cause + json \<Rightarrow> string + json" where
  "load_result r = (case r of Inl c \<Rightarrow> Inl (errorDetail c) | Inr v \<Rightarrow> Inr v)"

definition reload ::
  "('s \<Rightarrow> resource) \<Rightarrow> ((resource \<Rightarrow> resource) \<Rightarrow> 's \<Rightarrow> 's) \<Rightarrow> 's io \<Rightarrow> bool \<Rightarrow> 's io" where
  "reload get upd loader silent =
     Put (upd (reload_start silent)) (Get (\<lambda>s.
       let current = res_generation (get s)
       in settle loader (\<lambda>r. Put (upd (reload_done current (load_result r))) skip)))"

subsection \<open>One reload\<close>

lemma wp_reload [io_rules]:
  assumes "\<And>s. wp (w_ok P) w_upd loader (\<lambda>_ g' _. g' = g) (\<lambda>_ g' _. g' = g) g s"
    and "\<And>s'. Q JUndef g s'"
  shows "wp (w_ok P) w_upd (reload get upd loader silent) Q E g s"
  unfolding reload_def Let_def wp.simps wp_settle
  by (rule wp_mono [OF assms(1)]) (simp_all add: assms(2))

text \<open>The tail of a program that performs no effects itself.\<close>

lemma run_settle_done:
  assumes "run m as s = (tr, out, s1)"
  shows "(out = Returned v \<longrightarrow> run (settle m (\<lambda>r. Put (h r) (Ret w))) as s = (tr, Returned w, h (Inr v) s1)) \<and>
    (out = Failed c \<longrightarrow> run (settle m (\<lambda>r. Put (h r) (Ret w))) as s = (tr, Returned w, h (Inl c) s1)) \<and>
    (out = Suspended \<longrightarrow> run (settle m (\<lambda>r. Put (h r) (Ret w))) as s = (tr, Suspended, s1))"
  using assms
proof (induction m arbitrary: as s tr rule: io_induct)
  case (Do e k)
  show ?case
  proof (cases as)
    case Nil
    with Do.prems show ?thesis by auto
  next
    case (Cons aa as')
    obtain a other where aa: "aa = (a, other)" by (cases aa)
    obtain tr' where r: "run (k a) as' (other s) = (tr', out, s1)" and tr: "tr = Did e a # tr'"
      using Do.prems Cons aa by (auto split: prod.splits)
    show ?thesis using Do.IH [OF r] by (auto simp: Cons aa tr)
  qed
next
  case (Show t z vs m)
  obtain tr' where r: "run m as s = (tr', out, s1)" and tr: "tr = Opened t # tr'"
    using Show.prems by (auto split: prod.splits)
  show ?case using Show.IH [OF r] by (auto simp: tr)
qed auto

locale resource_slot =
  fixes get :: "'s \<Rightarrow> resource" and upd :: "(resource \<Rightarrow> resource) \<Rightarrow> 's \<Rightarrow> 's"
  assumes get_upd: "get (upd f s) = f (get s)"
begin

text \<open>One call of \<open>reload\<close>: the start step at once, the effects of the loader, and when they are
  over the step of its own answer, in whatever state the page is then. It never fails.\<close>

lemma run_reload:
  assumes "run loader as (upd (reload_start silent) s) = (tr, out, s1)"
  defines "gen \<equiv> res_generation (get s) + 1"
  shows "run (reload get upd loader silent) as s =
    (case out of Suspended \<Rightarrow> (tr, Suspended, s1)
     | Returned v \<Rightarrow> (tr, Returned JUndef, upd (reload_done gen (Inr v)) s1)
     | Failed c \<Rightarrow> (tr, Returned JUndef, upd (reload_done gen (Inl (errorDetail c))) s1))"
proof -
  have gen: "res_generation (get (upd (reload_start silent) s)) = gen"
    by (simp add: get_upd reload_start_def gen_def)
  show ?thesis
    using run_settle_done [OF assms(1), of _ "\<lambda>r. upd (reload_done gen (load_result r))" JUndef]
    by (cases out) (simp_all add: reload_def Let_def gen load_result_def)
qed

text \<open>Undisturbed, a reload ends with the loading flag cleared and the answer or its error shown.\<close>

lemma reload_alone:
  assumes "run loader as (upd (reload_start silent) s) = (tr, out, s1)"
    and "get s1 = get (upd (reload_start silent) s)" and "out \<noteq> Suspended"
  shows "\<exists>s2. run (reload get upd loader silent) as s = (tr, Returned JUndef, s2) \<and>
    \<not> res_loading (get s2) \<and>
    (case out of Returned v \<Rightarrow> res_data (get s2) = v \<and> res_error (get s2) = []
     | Failed c \<Rightarrow> res_error (get s2) = errorDetail c \<and> res_data (get s2) = res_data (get s)
     | Suspended \<Rightarrow> False)"
  using run_reload [OF assms(1)] assms(2,3)
  by (cases out) (auto simp: get_upd reload_done_def reload_start_def)

end

interpretation whole: resource_slot "\<lambda>r. r" "\<lambda>f r. f r"
  by unfold_locales simp

subsection \<open>Interleaved reloads\<close>

datatype load_event = Reload bool | Answer nat "string + json" | Leave

text \<open>\<open>loads r P evs r' P'\<close>: from resource \<open>r\<close> with the loads of the generations \<open>P\<close> in flight, the
  steps \<open>evs\<close> lead to \<open>r'\<close> and \<open>P'\<close>. Answers arrive in any order; \<open>Leave\<close> is the clean-up when the
  page goes away or its dependencies change.\<close>

inductive loads :: "resource \<Rightarrow> nat list \<Rightarrow> load_event list \<Rightarrow> resource \<Rightarrow> nat list \<Rightarrow> bool" where
  none: "loads r P [] r P"
| started: "loads (reload_start silent r) (P @ [res_generation r + 1]) evs r' P' \<Longrightarrow>
    loads r P (Reload silent # evs) r' P'"
| answered: "g \<in> set P \<Longrightarrow> loads (reload_done g out r) (remove1 g P) evs r' P' \<Longrightarrow>
    loads r P (Answer g out # evs) r' P'"
| left: "loads (leave_resource r) P evs r' P' \<Longrightarrow> loads r P (Leave # evs) r' P'"

inductive_cases loads_NilE: "loads r P [] r' P'"
inductive_cases loads_ReloadE: "loads r P (Reload silent # evs) r' P'"
inductive_cases loads_AnswerE: "loads r P (Answer g out # evs) r' P'"
inductive_cases loads_LeaveE: "loads r P (Leave # evs) r' P'"

lemmas loads_elims = loads_NilE loads_ReloadE loads_AnswerE loads_LeaveE

definition in_flight_ok :: "resource \<Rightarrow> nat list \<Rightarrow> bool" where
  "in_flight_ok r P \<longleftrightarrow> distinct P \<and> (\<forall>g\<in>set P. g \<le> res_generation r)"

lemma in_flight_start: "in_flight_ok r P \<Longrightarrow> in_flight_ok (reload_start silent r) (P @ [res_generation r + 1])"
  by (auto simp: in_flight_ok_def reload_start_def)

lemma generation_done [simp]: "res_generation (reload_done g out r) = res_generation r"
  by (simp add: reload_done_def split: sum.split)

lemma in_flight_done: "in_flight_ok r P \<Longrightarrow> in_flight_ok (reload_done g out r) (remove1 g P)"
  by (auto simp: in_flight_ok_def)

lemma in_flight_leave: "in_flight_ok r P \<Longrightarrow> in_flight_ok (leave_resource r) P"
  by (auto simp: in_flight_ok_def leave_resource_def)

lemma loads_split:
  assumes "loads r P (pre @ post) r' P'" and "in_flight_ok r P"
  shows "\<exists>r1 P1. loads r P pre r1 P1 \<and> loads r1 P1 post r' P' \<and> in_flight_ok r1 P1"
  using assms
proof (induction pre arbitrary: r P)
  case Nil
  then show ?case by (auto intro: loads.none)
next
  case (Cons ev pre)
  show ?case
  proof (cases ev)
    case (Reload silent)
    with Cons.prems have rest: "loads (reload_start silent r) (P @ [res_generation r + 1]) (pre @ post) r' P'"
      by (auto elim: loads_ReloadE)
    from Cons.IH [OF rest in_flight_start [OF Cons.prems(2)]] Reload show ?thesis
      using loads.started by blast
  next
    case (Answer g out)
    with Cons.prems have g: "g \<in> set P" and rest: "loads (reload_done g out r) (remove1 g P) (pre @ post) r' P'"
      by (auto elim!: loads_AnswerE)
    from Cons.IH [OF rest in_flight_done [OF Cons.prems(2)]] g Answer show ?thesis
      by (auto intro: loads.answered)
  next
    case Leave
    with Cons.prems have rest: "loads (leave_resource r) P (pre @ post) r' P'"
      by (auto elim: loads_LeaveE)
    from Cons.IH [OF rest in_flight_leave [OF Cons.prems(2)]] Leave show ?thesis
      by (auto intro: loads.left)
  qed
qed

definition only_answers :: "load_event list \<Rightarrow> bool" where
  "only_answers evs \<longleftrightarrow> (\<forall>ev\<in>set evs. case ev of Answer g out \<Rightarrow> True | _ \<Rightarrow> False)"

text \<open>Answers alone: those of older generations leave no trace, the current one decides.\<close>

lemma loads_answers:
  assumes "loads r P evs r' P'" and "only_answers evs" and "distinct P"
  shows "(\<forall>out. Answer (res_generation r) out \<in> set evs \<longrightarrow> r' = reload_done (res_generation r) out r) \<and>
    ((\<forall>out. Answer (res_generation r) out \<notin> set evs) \<longrightarrow> r' = r)"
  using assms
proof (induction evs arbitrary: r P)
  case Nil
  then show ?case by (auto elim: loads_NilE)
next
  case (Cons ev evs)
  then obtain g out where ev: "ev = Answer g out"
    by (cases ev) (auto simp: only_answers_def)
  from Cons.prems(1) ev have g: "g \<in> set P" and rest: "loads (reload_done g out r) (remove1 g P) evs r' P'"
    by (auto elim: loads_AnswerE)
  have only: "only_answers evs" using Cons.prems(2) by (simp add: only_answers_def)
  note IH = Cons.IH [OF rest only] Cons.prems(3)
  have gone: "loads q Q es q' Q' \<Longrightarrow> only_answers es \<Longrightarrow> n \<notin> set Q \<Longrightarrow> Answer n o2 \<notin> set es" for q Q es q' Q' n o2
  proof (induction es arbitrary: q Q)
    case (Cons e es)
    then obtain h u where e: "e = Answer h u" by (cases e) (auto simp: only_answers_def)
    from Cons.prems(1) e have "h \<in> set Q" and l: "loads (reload_done h u q) (remove1 h Q) es q' Q'"
      by (auto elim: loads_AnswerE)
    moreover have "n \<notin> set (remove1 h Q)" using Cons.prems(3) set_remove1_subset by fast
    ultimately show ?case using Cons.IH [OF l] Cons.prems(2,3) e by (auto simp: only_answers_def)
  qed simp
  show ?case
  proof (cases "g = res_generation r")
    case True
    have "Answer g o2 \<notin> set evs" for o2
      by (rule gone [OF rest only]) (simp add: Cons.prems(3))
    with IH True show ?thesis by (auto simp: ev)
  next
    case False
    then have "reload_done g out r = r" by (simp add: reload_done_def)
    with IH False show ?thesis by (auto simp: ev)
  qed
qed

lemma in_flight_new: "in_flight_ok new_resource []"
  by (simp add: in_flight_ok_def)

text \<open>C13. The newest reload wins. Whatever reloads and clean-ups came before, and in whatever order
  the answers of all of them arrive after the last reload was started: what the page shows in the
  end is what the last reload's own answer alone would have made of it, its value or its error
  with the loading flag cleared; and until that answer is there the page keeps loading with the
  data it had.\<close>

theorem newest_reload_wins:
  assumes "loads new_resource [] (pre @ Reload silent # post) r P" and "only_answers post"
  shows "\<exists>r0 P0. loads new_resource [] pre r0 P0 \<and>
    (let g = res_generation r0 + 1 in
      (\<forall>v. Answer g (Inr v) \<in> set post \<longrightarrow>
         res_data r = v \<and> res_error r = [] \<and> \<not> res_loading r) \<and>
      (\<forall>e. Answer g (Inl e) \<in> set post \<longrightarrow>
         res_data r = res_data r0 \<and> res_error r = e \<and> \<not> res_loading r) \<and>
      ((\<forall>out. Answer g out \<notin> set post) \<longrightarrow>
         res_data r = res_data r0 \<and> res_error r = [] \<and> (\<not> silent \<longrightarrow> res_loading r)))"
proof -
  from loads_split [OF assms(1) in_flight_new] obtain r0 P0 where
    pre: "loads new_resource [] pre r0 P0" and step: "loads r0 P0 (Reload silent # post) r P"
    and ok: "in_flight_ok r0 P0" by blast
  from step have post: "loads (reload_start silent r0) (P0 @ [res_generation r0 + 1]) post r P"
    by (auto elim: loads_ReloadE)
  have dist: "distinct (P0 @ [res_generation r0 + 1])"
    using in_flight_start [OF ok] by (simp add: in_flight_ok_def)
  have gen: "res_generation (reload_start silent r0) = res_generation r0 + 1"
    by (simp add: reload_start_def)
  from loads_answers [OF post assms(2) dist] pre show ?thesis
    unfolding gen by (intro exI [of _ r0] exI [of _ P0]) (auto simp: Let_def reload_done_def reload_start_def)
qed

theorem newest_reload_wins_witness:
  "\<exists>r P. loads new_resource []
      ([Reload False] @ Reload False # [Answer 2 (Inr (JStr ''new'')), Answer 1 (Inr (JStr ''old''))]) r P \<and>
    res_data r = JStr ''new'' \<and> \<not> res_loading r"
proof -
  define r2 where "r2 = reload_start False (reload_start False new_resource)"
  define r where "r = reload_done 1 (Inr (JStr ''old'')) (reload_done 2 (Inr (JStr ''new'')) r2)"
  have run: "loads new_resource []
      ([Reload False] @ Reload False # [Answer 2 (Inr (JStr ''new'')), Answer 1 (Inr (JStr ''old''))]) r []"
    by (auto simp: r_def r2_def new_resource_def reload_start_def intro!: loads.intros)
  have only: "only_answers [Answer 2 (Inr (JStr ''new'')), Answer 1 (Inr (JStr ''old''))]"
    by (simp add: only_answers_def)
  from newest_reload_wins [OF run only] obtain r0 P0 where
    "loads new_resource [] [Reload False] r0 P0"
    "\<forall>v. Answer (res_generation r0 + 1) (Inr v) \<in> set [Answer 2 (Inr (JStr ''new'')), Answer 1 (Inr (JStr ''old''))] \<longrightarrow>
       res_data r = v \<and> res_error r = [] \<and> \<not> res_loading r"
    by (auto simp: Let_def)
  moreover from this(1) have "res_generation r0 = 1"
    by (auto elim!: loads_ReloadE loads_NilE simp: reload_start_def new_resource_def)
  ultimately show ?thesis using run by auto
qed

text \<open>After a page has gone away no answer changes its resource: whatever was in flight when the
  clean-up ran is dropped when it arrives.\<close>

theorem left_page_stays_put:
  assumes "loads new_resource [] (pre @ Leave # post) r P" and "only_answers post"
  shows "\<exists>r0 P0. loads new_resource [] pre r0 P0 \<and> r = leave_resource r0"
proof -
  from loads_split [OF assms(1) in_flight_new] obtain r0 P0 where
    pre: "loads new_resource [] pre r0 P0" and step: "loads r0 P0 (Leave # post) r P"
    and ok: "in_flight_ok r0 P0" by blast
  from step have post: "loads (leave_resource r0) P0 post r P"
    by (auto elim: loads_LeaveE)
  have "g \<le> res_generation r0" if "g \<in> set P0" for g
    using ok that by (simp add: in_flight_ok_def)
  have stale: "loads q Q es q' Q' \<Longrightarrow> only_answers es \<Longrightarrow> \<forall>g\<in>set Q. g < res_generation q \<Longrightarrow> q' = q" for q Q es q' Q'
  proof (induction es arbitrary: q Q)
    case Nil
    then show ?case by (auto elim: loads_NilE)
  next
    case (Cons e es)
    then obtain h u where e: "e = Answer h u" by (cases e) (auto simp: only_answers_def)
    from Cons.prems(1) e have h: "h \<in> set Q" and l: "loads (reload_done h u q) (remove1 h Q) es q' Q'"
      by (auto elim: loads_AnswerE)
    have "reload_done h u q = q" using h Cons.prems(3) by (auto simp: reload_done_def)
    moreover have "\<forall>g\<in>set (remove1 h Q). g < res_generation q"
      using Cons.prems(3) set_remove1_subset by fast
    ultimately show ?case using Cons.IH l Cons.prems(2) by (auto simp: only_answers_def)
  qed
  have "\<forall>g\<in>set P0. g < res_generation (leave_resource r0)"
    using ok by (auto simp: in_flight_ok_def leave_resource_def)
  with stale [OF post assms(2)] pre show ?thesis by blast
qed

theorem left_page_stays_put_witness:
  "\<exists>r P. loads new_resource [] ([Reload False] @ Leave # [Answer 1 (Inr (JStr ''late''))]) r P \<and> res_data r = JNull"
proof -
  define r where "r = reload_done 1 (Inr (JStr ''late'')) (leave_resource (reload_start False new_resource))"
  have run: "loads new_resource [] ([Reload False] @ Leave # [Answer 1 (Inr (JStr ''late''))]) r []"
    by (auto simp: r_def new_resource_def reload_start_def intro!: loads.intros)
  have only: "only_answers [Answer 1 (Inr (JStr ''late''))]" by (simp add: only_answers_def)
  from left_page_stays_put [OF run only] obtain r0 P0 where
    "loads new_resource [] [Reload False] r0 P0" "r = leave_resource r0" by blast
  then have "res_data r = JNull"
    by (auto elim!: loads_ReloadE loads_NilE simp: reload_start_def new_resource_def leave_resource_def)
  with run show ?thesis by blast
qed

end
