(* ===== verification/Page_Base.thy ===== *)
theory Page_Base imports Resource Widgets begin

text \<open>
  What the page theories share: reading forms and dynamic members of payloads the way the code
  does, and the rules that show a handler safe, \<open>safe P m\<close>: \<open>m\<close> behaves, and so does every handler
  of every dialog it opens.
\<close>

subsection \<open>Reads the pages use\<close>

text \<open>The version shown: the one injected into the document, or the one the script was built with.\<close>

definition VERSION :: "json \<Rightarrow> string" where
  "VERSION injected = jstring (jor injected (JStr ''v2.0.8''))"

text \<open>\<open>values.get(name)\<close> on the form data of a submit event: \<open>null\<close> for a field that is not there.\<close>

definition form_get :: "json \<Rightarrow> string \<Rightarrow> json" where
  "form_get form k = (if fld form k = JUndef then JNull else fld form k)"

definition form_append :: "json \<Rightarrow> string \<Rightarrow> json \<Rightarrow> json" where
  "form_append form k v = JObj (entries_of form @ [(k, v)])"

definition array_of :: "json \<Rightarrow> json list" where
  "array_of v = (case v of JArr xs \<Rightarrow> xs | _ \<Rightarrow> [])"

definition is_array :: "json \<Rightarrow> bool" where
  "is_array v = (case v of JArr xs \<Rightarrow> True | _ \<Rightarrow> False)"

definition is_string :: "json \<Rightarrow> bool" where
  "is_string v = (case v of JStr s \<Rightarrow> True | _ \<Rightarrow> False)"

text \<open>\<open>xs.find(p)\<close>, the elements of \<open>xs.join(sep)\<close>, \<open>xs[n]\<close> and \<open>xs.pop()\<close> of a list of texts, and
  \<open>Object.entries\<close>.\<close>

definition find_json :: "(json \<Rightarrow> bool) \<Rightarrow> json list \<Rightarrow> json" where
  "find_json p xs = (case find_first p xs of Some v \<Rightarrow> v | None \<Rightarrow> JUndef)"

definition array_text :: "json \<Rightarrow> string" where
  "array_text v = (if nullish v then [] else jstring v)"

definition text_at :: "string list \<Rightarrow> nat \<Rightarrow> json" where
  "text_at xs n = (if n < length xs then JStr (xs ! n) else JUndef)"

definition last_text :: "string list \<Rightarrow> json" where
  "last_text xs = (if xs = [] then JUndef else JStr (last xs))"

definition entry_arrays :: "json \<Rightarrow> json list" where
  "entry_arrays v = map (\<lambda>(k, w). JArr [JStr k, w]) (entries_of v)"

subsection \<open>Lines of a text area\<close>

text \<open>Visible ASCII text: nothing to trim, no line break.\<close>

definition plain :: "string \<Rightarrow> bool" where
  "plain s \<longleftrightarrow> (\<forall>c\<in>set s. 33 \<le> code c \<and> code c < 127)"

lemma dropWhile_none: "\<forall>x\<in>set xs. \<not> P x \<Longrightarrow> dropWhile P xs = xs"
  by (cases xs) auto

lemma js_trim_plain [simp]:
  assumes "plain s" shows "js_trim s = s"
proof -
  have "js_chars s = map (\<lambda>c. [c]) s" using assms by (intro ascii_chars) (auto simp: plain_def)
  moreover have "\<not> is_space [c]" if "c \<in> set s" for c
    using assms that by (auto simp: plain_def is_space_def utf8_def)
  ultimately have "dropWhile is_space (js_chars s) = js_chars s"
    "dropWhile is_space (rev (js_chars s)) = rev (js_chars s)"
    by (auto intro!: dropWhile_none)
  then show ?thesis by (simp add: js_trim_def)
qed

lemma plain_simps [simp]:
  "plain []" "plain (c # s) \<longleftrightarrow> 33 \<le> code c \<and> code c < 127 \<and> plain s" "plain (s @ t) \<longleftrightarrow> plain s \<and> plain t"
  by (auto simp: plain_def)

text \<open>A text that begins and ends with visible ASCII characters is left alone by \<open>trim\<close>, whatever is in between.\<close>

lemma js_chars_snoc: "\<not> is_cont c \<Longrightarrow> js_chars (s @ [c]) = js_chars s @ [[c]]"
proof (induction s rule: js_chars.induct)
  case (2 d cs)
  show ?case
  proof (cases "\<forall>x\<in>set cs. is_cont x")
    case True
    then have whole: "takeWhile is_cont cs = cs" "dropWhile is_cont cs = []" by (simp_all add: takeWhile_eq_all_conv)
    show ?thesis using 2 True by (simp add: takeWhile_append dropWhile_append whole)
  next
    case False
    then show ?thesis using 2 by (auto simp: takeWhile_append dropWhile_append)
  qed
qed simp

lemma visible_char: "33 \<le> code c \<Longrightarrow> code c < 127 \<Longrightarrow> \<not> is_cont c \<and> \<not> is_space [c]"
  by (auto simp: is_cont_def is_space_def utf8_def)

lemma js_trim_between:
  assumes "plain [a, b]" and "plain [z]"
  shows "js_trim (a # b # s @ [z]) = a # b # s @ [z]"
proof -
  have vis: "\<not> is_cont b" "\<not> is_space [a]" "\<not> is_cont z" "\<not> is_space [z]" using assms visible_char by auto
  have chars: "js_chars (a # b # s @ [z]) = [a] # js_chars (b # s) @ [[z]]"
    using vis js_chars_snoc [of z "b # s"] by simp
  then have "dropWhile is_space (js_chars (a # b # s @ [z])) = js_chars (a # b # s @ [z])"
    "dropWhile is_space (rev (js_chars (a # b # s @ [z]))) = rev (js_chars (a # b # s @ [z]))"
    using vis by simp_all
  then show ?thesis unfolding js_trim_def by simp
qed

lemma plain_strip_cr:
  assumes "plain s" shows "strip_cr s = s"
proof -
  have "last s \<noteq> CHR 0x0D" if "s \<noteq> []"
  proof
    assume "last s = CHR 0x0D"
    then have "33 \<le> code (CHR 0x0D)" using assms last_in_set [OF that] by (auto simp: plain_def)
    then show False by (simp add: code_def)
  qed
  then show ?thesis by (cases "s = []") (simp_all add: strip_cr_def)
qed

lemma lines_trimmed:
  assumes "\<forall>l\<in>set ls. js_trim l = l \<and> l \<noteq> [] \<and> CHR 0x0A \<notin> set l \<and> strip_cr l = l"
  shows "lines (join_with nl ls) = ls"
proof (cases "ls = []")
  case True
  then show ?thesis by (simp add: lines_def split_lines_def js_trim_def)
next
  case False
  then have "split_at (CHR 0x0A) (join_with nl ls) = ls"
    unfolding nl_def using assms by (intro split_join_with) auto
  moreover have "map strip_cr (butlast ls) @ [last ls] = ls"
    using assms False by (simp add: in_set_butlastD map_idI)
  moreover have "map js_trim ls = ls" "filter (\<lambda>l. l \<noteq> []) ls = ls"
    using assms by (auto intro: map_idI simp: filter_id_conv)
  ultimately show ?thesis by (simp add: lines_def split_lines_def Let_def)
qed

lemma lines_plain: "\<forall>l\<in>set ls. plain l \<and> l \<noteq> [] \<Longrightarrow> lines (join_with nl ls) = ls"
  by (rule lines_trimmed) (fastforce simp: plain_strip_cr plain_def code_def)

subsection \<open>What a request asks for\<close>

text \<open>A member of the JSON body of a request, and of the request a handler is about to build.\<close>

definition init_fld :: "init \<Rightarrow> string \<Rightarrow> json" where
  "init_fld i k = (case i_body i of Some (Json_body b) \<Rightarrow> fld b k | _ \<Rightarrow> JUndef)"

definition body_fld :: "request \<Rightarrow> string \<Rightarrow> json" where
  "body_fld r k = (case req_body r of Some (Json_body b) \<Rightarrow> fld b k | _ \<Rightarrow> JUndef)"

lemma body_fld_mk_request [simp]: "body_fld (mk_request url i tok) k = init_fld i k"
  by (simp add: body_fld_def init_fld_def)

lemma init_fld_simps [simp]:
  "init_fld (with_body m (jsonBody b)) k = fld b k" "init_fld (with_body m (Text_body t)) k = JUndef"
  "init_fld (with_body m (Form_body f)) k = JUndef" "init_fld empty_init k = JUndef" "init_fld (no_body m) k = JUndef"
  by (simp_all add: init_fld_def with_body_def jsonBody_def empty_init_def no_body_def)

lemma offered_handler: "(n, f) \<in> set (handlers_of (view s)) \<Longrightarrow> offered view (f ev)"
  using offered.on_page [of "(n, f)" view s ev] by simp

text \<open>\<open>Number(v)\<close>, where only the JSON text of a request body uses it: \<open>NaN\<close> is sent as \<open>null\<close>.\<close>

definition number_js :: "json \<Rightarrow> json" where
  "number_js v = (case to_number v of Some r \<Rightarrow> JNum r | None \<Rightarrow> JNull)"

definition strip_prefix :: "string \<Rightarrow> string \<Rightarrow> string" where
  "strip_prefix p s = (if starts_with s p then drop (length p) s else s)"

text \<open>A computation that may throw, inside a handler, and one over a list: the first failure wins.\<close>

definition lift_result :: "cause + json \<Rightarrow> 's io" where
  "lift_result r = (case r of Inl c \<Rightarrow> Throw c | Inr v \<Rightarrow> Ret v)"

fun try_map :: "('a \<Rightarrow> cause + json) \<Rightarrow> 'a list \<Rightarrow> cause + json" where
  "try_map f [] = Inr (JArr [])"
| "try_map f (x # xs) = (case f x of Inl c \<Rightarrow> Inl c
     | Inr v \<Rightarrow> (case try_map f xs of Inr (JArr vs) \<Rightarrow> Inr (JArr (v # vs)) | r \<Rightarrow> r))"

lemma try_map_Inr: "(\<And>x. x \<in> set xs \<Longrightarrow> f x = Inr (g x)) \<Longrightarrow> try_map f xs = Inr (JArr (map g xs))"
  by (induction xs) auto

lemma try_map_first:
  "(\<And>x. x \<in> set xs \<Longrightarrow> f (g x) = (if bad x then Inl (e x) else Inr (h x))) \<Longrightarrow>
    try_map f (map g xs) = (case find_first bad xs of Some x \<Rightarrow> Inl (e x) | None \<Rightarrow> Inr (JArr (map h xs)))"
proof (induction xs)
  case (Cons x xs)
  then show ?case using Cons.prems [of x] by (cases "bad x") (auto split: option.split dest: find_first_SomeD)
qed simp

lemma wp_lift_result [io_rules]:
  "(\<And>v. Q v g s) \<Longrightarrow> (\<And>c. E c g s) \<Longrightarrow> wp ok upd (lift_result r) Q E g s"
  by (simp add: lift_result_def split: sum.split)

lemma shows_ok_lift [simp]: "shows_ok R (lift_result r)"
  by (simp add: lift_result_def split: sum.split)

text \<open>The collections split the conditionals of control flow themselves; splitting those inside
  attributes and texts as well would multiply the cases of a page.\<close>

declare if_split [split del]

subsection \<open>Safe handlers\<close>

abbreviation safe :: "(request \<Rightarrow> bool) \<Rightarrow> 's io \<Rightarrow> bool" where
  "safe P m \<equiv> handler_ok (behaves P (\<lambda>_. True)) m"

abbreviation safe_view :: "(request \<Rightarrow> bool) \<Rightarrow> 's vnode \<Rightarrow> bool" where
  "safe_view P v \<equiv> vnode_ok (behaves P (\<lambda>_. True)) v"

lemma safeI:
  assumes "\<And>s. wp (w_ok P) w_upd m (\<lambda>_ g s. \<not> w_failed g) (\<lambda>_ _ _. False) w0 s"
    and "shows_ok (behaves P (\<lambda>_. True)) m"
  shows "safe P m"
  using assms by (auto simp: handler_ok_def intro: behavesI)

lemma shows_ok_requests [simp]:
  "shows_ok R (api url i)" "shows_ok R (secureApi url i)" "shows_ok R (uploadApi url f n)" "shows_ok R (copyText v)"
  by (auto simp: api_def handle_response_def Let_def secureApi_def uploadApi_def retry_elevated_def copyText_def
      split: answer.splits sum.splits intro!: shows_ok_settle)

lemma shows_ok_reload [simp]: "shows_ok R loader \<Longrightarrow> shows_ok R (reload get upd loader silent)"
  by (auto simp: reload_def Let_def intro!: shows_ok_settle)

lemma safe_simple [simp]:
  "safe P skip" "safe P (set_state f)" "safe P (perform Close_modal)" "safe P (perform (Navigate p))"
  "safe P (perform Prevent_default)" "safe P (perform (Dom n ws))"
  "safe P (open_modal t z vs) \<longleftrightarrow> all_handlers (behaves P (\<lambda>_. True)) vs"
proof -
  show "safe P skip" "safe P (set_state f)" "safe P (perform Close_modal)" "safe P (perform (Navigate p))"
    "safe P (perform Prevent_default)" "safe P (perform (Dom n ws))"
    by (auto intro!: safeI simp: io_simps)
  have "behaves P (\<lambda>_. True) (open_modal t z vs)"
    by (rule behavesI) (simp add: io_simps)
  then show "safe P (open_modal t z vs) \<longleftrightarrow> all_handlers (behaves P (\<lambda>_. True)) vs"
    by (simp add: handler_ok_def)
qed

text \<open>The same for the pages where a success message breaks its rule.\<close>

abbreviation safe_lax :: "(request \<Rightarrow> bool) \<Rightarrow> 's io \<Rightarrow> bool" where
  "safe_lax P m \<equiv> handler_ok (behaves_lax P (\<lambda>_. True)) m"

lemma safe_imp_lax: "safe P m \<Longrightarrow> safe_lax P m"
  unfolding handler_ok_def using behaves_imp_lax handler_mono(1) by blast

lemma safe_laxI:
  assumes "\<And>s. wp (w_ok P) w_upd m (\<lambda>_ g s. \<not> w_failed g) (\<lambda>_ _ _. False) w1 s"
    and "shows_ok (behaves_lax P (\<lambda>_. True)) m"
  shows "safe_lax P m"
  using assms by (auto simp: handler_ok_def intro: behaves_laxI)

lemma safe_lax_simple [simp]:
  "safe_lax P skip" "safe_lax P (set_state f)" "safe_lax P (perform Close_modal)" "safe_lax P (perform (Navigate p))"
  "safe_lax P (perform Prevent_default)" "safe_lax P (perform (Dom n ws))"
  by (simp_all add: safe_imp_lax)

text \<open>And for those where some handlers, the set \<open>X\<close>, let a refusal pass.\<close>

abbreviation safe_but :: "'s io set \<Rightarrow> (request \<Rightarrow> bool) \<Rightarrow> 's io \<Rightarrow> bool" where
  "safe_but X P m \<equiv> handler_ok (behaves_but X P) m"

abbreviation safe_view_but :: "'s io set \<Rightarrow> (request \<Rightarrow> bool) \<Rightarrow> 's vnode \<Rightarrow> bool" where
  "safe_view_but X P v \<equiv> vnode_ok (behaves_but X P) v"

lemma safe_imp_but: "safe P m \<Longrightarrow> safe_but X P m"
  unfolding handler_ok_def using behaves_imp_but handler_mono(1) by blast

lemma safe_butI:
  assumes "\<And>s. wp (w_ok P) w_upd m (\<lambda>_ g s. \<not> w_failed g) (\<lambda>_ _ _. False) w0 s"
    and "shows_ok (behaves_but X P) m"
  shows "safe_but X P m"
proof -
  have "behaves P (\<lambda>_. True) m" using assms(1) by (auto intro: behavesI)
  with assms(2) show ?thesis by (simp add: handler_ok_def behaves_imp_but)
qed

lemma safe_exceptI:
  assumes "\<And>s. wp (w_ok P) w_upd m (\<lambda>_ _ _. True) (\<lambda>_ _ _. True) w0 s"
    and "shows_ok (behaves_but X P) m" and "m \<in> X"
  shows "safe_but X P m"
  using assms by (auto simp: handler_ok_def intro: behaves_butI)

lemma safe_but_simple [simp]:
  "safe_but X P skip" "safe_but X P (set_state f)" "safe_but X P (perform Close_modal)"
  "safe_but X P (perform (Navigate p))" "safe_but X P (perform Prevent_default)" "safe_but X P (perform (Dom n ws))"
  "safe_but X P (open_modal t z vs) \<longleftrightarrow> all_handlers (behaves_but X P) vs"
proof -
  have "behaves_but X P (open_modal t z vs)"
    by (rule behaves_imp_but, rule behavesI) (simp add: io_simps)
  then show "safe_but X P (open_modal t z vs) \<longleftrightarrow> all_handlers (behaves_but X P) vs"
    by (simp add: handler_ok_def)
qed (simp_all add: safe_imp_but)

abbreviation safe_loud :: "'s io set \<Rightarrow> (request \<Rightarrow> bool) \<Rightarrow> 's io \<Rightarrow> bool" where
  "safe_loud X P m \<equiv> handler_ok (behaves_loud X P) m"

lemma safe_loudI:
  assumes "\<And>s. wp (w_ok P) w_upd m (\<lambda>_ g s. \<not> w_failed g) (\<lambda>_ g s. \<not> w_failed g) w0 s"
    and "shows_ok (behaves_loud X P) m"
  shows "safe_loud X P m"
  using assms by (simp add: handler_ok_def loudI)

lemma safe_imp_loud: "safe P m \<Longrightarrow> safe_loud X P m"
  unfolding handler_ok_def using behaves_imp_loud handler_mono(1) by blast

lemma safe_loud_exceptI:
  assumes "\<And>s. wp (w_ok P) w_upd m (\<lambda>_ _ _. True) (\<lambda>_ _ _. True) w0 s"
    and "shows_ok (behaves_loud X P) m" and "m \<in> X"
  shows "safe_loud X P m"
  using assms by (auto simp: handler_ok_def intro: loud_exceptI)

lemma safe_loud_simple [simp]:
  "safe_loud X P skip" "safe_loud X P (set_state f)" "safe_loud X P (perform Close_modal)"
  "safe_loud X P (perform (Navigate p))" "safe_loud X P (perform Prevent_default)" "safe_loud X P (perform (Dom n ws))"
  "safe_loud X P (open_modal t z vs) \<longleftrightarrow> all_handlers (behaves_loud X P) vs"
  "safe_loud X P (seqs (copyText v) (notify Success m JUndef))"
proof -
  have "behaves_loud X P (open_modal t z vs)"
    by (rule behaves_imp_loud, rule behavesI) (simp add: io_simps)
  then show "safe_loud X P (open_modal t z vs) \<longleftrightarrow> all_handlers (behaves_loud X P) vs"
    by (simp add: handler_ok_def)
  show "safe_loud X P (seqs (copyText v) (notify Success m JUndef))"
    by (rule safe_loudI) (auto simp: io_simps intro!: io_rules)
qed (simp_all add: safe_imp_loud)

text \<open>A handler that sets state first.\<close>

lemma after_set_state [simp]: "seqs (set_state f) m = Put f m"
  by (simp add: seqs_def bnd_def set_state_def)

lemma safe_after_set_state [simp]:
  "safe P m \<Longrightarrow> safe P (Put f m)" "safe_loud {} P m \<Longrightarrow> safe_loud {} P (Put f m)"
proof -
  have "behaves P (\<lambda>_. True) m \<Longrightarrow> behaves P (\<lambda>_. True) (Put f m)"
    unfolding behaves_def run.simps by blast
  then show "safe P m \<Longrightarrow> safe P (Put f m)" by (simp add: handler_ok_def)
  have "behaves_loud {} P m \<Longrightarrow> behaves_loud {} P (Put f m)"
    unfolding behaves_loud_def loud_def run.simps by blast
  then show "safe_loud {} P m \<Longrightarrow> safe_loud {} P (Put f m)" by (simp add: handler_ok_def)
qed

lemma wp_get_quiet:
  "wp (w_ok P) w_upd (api url empty_init) (\<lambda>_ g' _. g' = g) (\<lambda>_ g' _. g' = g) g s"
  if "\<And>tok. \<not> P (mk_request url empty_init tok)"
  using that by (intro wp_api) auto

text \<open>A reload is safe when its loader only reads.\<close>

lemma safe_reload:
  assumes "\<And>g s. wp (w_ok P) w_upd loader (\<lambda>_ g' _. g' = g) (\<lambda>_ g' _. g' = g) g s" and "shows_ok (behaves P (\<lambda>_. True)) loader"
  shows "safe P (reload get upd loader silent)"
  using assms by (intro safeI) (auto intro!: wp_reload)

subsection \<open>Concrete runs\<close>

lemma run_alone_split: "run m (map (\<lambda>a. (a, \<lambda>s. s)) as) s =
   (events (run_alone m as s), fst (snd (run_alone m as s)), snd (snd (run_alone m as s)))"
  by (simp add: run_alone_def events_def)

lemmas run_ops = sample_run_simps run_alone_def events_def confirm_io_def notify_def set_state_def
  open_modal_def try_finally_def

lemma run_facts [simp]:
  "\<not> safe_method ''POST''" "\<not> safe_method ''PUT''" "\<not> safe_method ''DELETE''" "\<not> safe_method ''PATCH''"
  "safe_method ''GET''" "\<not> wants_elevation (network_error c)"
  by (code_simp, code_simp, code_simp, code_simp, code_simp, simp add: wants_elevation_def network_error_def ApiError_def)

definition sample_route :: route where
  "sample_route = hd ROUTES"

text \<open>The user confirms a handler that sends one changing request, and the network is down.\<close>

definition yes_but_down :: "answer list" where
  "yes_but_down = [AVal (JBool True), AVal (JStr []), AFail (Js_error ''down''), AVal JUndef]"

subsection \<open>Busy states\<close>

text \<open>A handler that has sent a request leaves its component idle when it is over.\<close>

definition ends_idle :: "('s \<Rightarrow> bool) \<Rightarrow> 's io \<Rightarrow> bool" where
  "ends_idle busy m \<longleftrightarrow> (\<forall>as s tr out s'. run m as s = (tr, out, s') \<and> legal tr \<and> out \<noteq> Suspended \<and>
     requests (dids tr) \<noteq> [] \<longrightarrow> \<not> busy s')"

text \<open>Any post-condition that always holds.\<close>

lemma wp_any: "(\<And>v g s. Q v g s) \<Longrightarrow> (\<And>c g s. E c g s) \<Longrightarrow> wp (\<lambda>_ _. True) upd m Q E g s"
  by (induction m arbitrary: g s rule: io_induct) auto

lemma ends_idleI:
  assumes "\<And>s. wp (\<lambda>_ _. True) hist_upd m (\<lambda>_ h s. requests h \<noteq> [] \<longrightarrow> \<not> busy s) (\<lambda>_ h s. requests h \<noteq> [] \<longrightarrow> \<not> busy s) [] s"
  shows "ends_idle busy m"
  unfolding ends_idle_def
proof (intro allI impI, elim conjE)
  fix as s tr out s' assume run: "run m as s = (tr, out, s')" "legal tr" "out \<noteq> Suspended" "requests (dids tr) \<noteq> []"
  from wp_sound [OF assms run(1,2)] run(3,4) show "\<not> busy s'" by (cases out) auto
qed

text \<open>The same for a component that leaves the request to its owner: after a call of the owner's function \<open>name\<close>.\<close>

definition idle_after_call :: "string \<Rightarrow> ('s \<Rightarrow> bool) \<Rightarrow> 's io \<Rightarrow> bool" where
  "idle_after_call name busy m \<longleftrightarrow> (\<forall>as s tr out s'. run m as s = (tr, out, s') \<and> legal tr \<and> out \<noteq> Suspended \<and>
     list_ex (\<lambda>(e, a). case e of Prop_call n vs \<Rightarrow> n = name | _ \<Rightarrow> False) (dids tr) \<longrightarrow> \<not> busy s')"

lemma idle_after_callI:
  assumes "\<And>s. wp (\<lambda>_ _. True) hist_upd m (\<lambda>_ _ s. \<not> busy s) (\<lambda>_ _ s. \<not> busy s) [] s"
  shows "idle_after_call name busy m"
  unfolding idle_after_call_def
proof (intro allI impI, elim conjE)
  fix as s tr out s' assume run: "run m as s = (tr, out, s')" "legal tr" "out \<noteq> Suspended"
  from wp_sound [OF assms run(1,2)] run(3) show "\<not> busy s'" by (cases out) auto
qed

lemmas idle_simps = io_simps perform_def confirm_io_def notify_def hist_upd_def

end
