(* ===== verification/Overview_Pages.thy ===== *)
theory Overview_Pages imports Page_Base begin

text \<open>
  The overview and the system directory, \<open>web/assets/app.js\<close>, lines 570 to 646 and 660 to 673:
  \<open>DashboardPage\<close> with its composite loader, and \<open>SystemPage\<close>. In this and the other page theories
  a component is a record of its state variables, one definition per derived value and handler,
  named \<open><component>_<name>\<close>, and \<open><component>_view\<close>, its rendering. A handler takes the state \<open>st\<close>
  of the render that created it, as the closure in the code does.
\<close>

text \<open>A result of \<open>Promise.allSettled\<close>: the object, or the reason why there is none.\<close>

definition settled_object :: "cause + json \<Rightarrow> json" where
  "settled_object r = (case r of Inr v \<Rightarrow> asObject v | Inl c \<Rightarrow> JObj [(''_load_error'', JStr (errorDetail c))])"

record Dashboard_state =
  Dashboard_resource :: resource

definition Dashboard_init :: Dashboard_state where
  "Dashboard_init = \<lparr>Dashboard_resource = new_resource\<rparr>"

interpretation Dashboard_resource_slot: resource_slot Dashboard_resource "Dashboard_resource_update"
  by unfold_locales simp

definition Dashboard_loader :: "Dashboard_state \<Rightarrow> Dashboard_state io" where
  "Dashboard_loader st =
     bnd (api ''/api/v1/system/overview'' empty_init)
       (\<lambda>r1.
          let overview = asObject r1
          in all_settled [api ''/api/v1/docker/status'' empty_init,
                          api ''/api/v1/security/status'' empty_init]
               (\<lambda>rs.
                  case rs of [dockerResult, securityResult] \<Rightarrow> Ret
                    (JObj [(''overview'', overview), (''docker'', settled_object dockerResult),
                           (''security'', settled_object securityResult)])
                    | _ \<Rightarrow> skip))"

definition Dashboard_reload :: "Dashboard_state \<Rightarrow> bool \<Rightarrow> Dashboard_state io" where
  "Dashboard_reload st silent = reload Dashboard_resource Dashboard_resource_update (Dashboard_loader st) silent"

definition Dashboard_data :: "Dashboard_state \<Rightarrow> json" where
  "Dashboard_data st =
     jor (res_data (Dashboard_resource st))
       (JObj [(''overview'', JObj []), (''docker'', JObj []), (''security'', JObj [])])"

definition Dashboard_overview :: "Dashboard_state \<Rightarrow> json" where
  "Dashboard_overview st =
     fld (Dashboard_data st) ''overview''"

definition Dashboard_cpu :: "Dashboard_state \<Rightarrow> rat" where
  "Dashboard_cpu st =
     number (jnn (fld (Dashboard_overview st) ''cpu_percent'')
               (fld (fld (Dashboard_overview st) ''cpu'') ''percent''))"

definition Dashboard_memoryUsed :: "Dashboard_state \<Rightarrow> rat" where
  "Dashboard_memoryUsed st =
     number (jnn (fld (fld (Dashboard_overview st) ''memory'') ''used'')
               (fld (fld (Dashboard_overview st) ''memory'') ''Used''))"

definition Dashboard_memoryTotal :: "Dashboard_state \<Rightarrow> rat" where
  "Dashboard_memoryTotal st =
     number (jnn (fld (fld (Dashboard_overview st) ''memory'') ''total'')
               (fld (fld (Dashboard_overview st) ''memory'') ''Total''))"

definition Dashboard_memoryPct :: "Dashboard_state \<Rightarrow> rat" where
  "Dashboard_memoryPct st =
     number_or (fld (fld (Dashboard_overview st) ''memory'') ''percent'')
       (if Dashboard_memoryTotal st \<noteq> 0
          then (Dashboard_memoryUsed st / Dashboard_memoryTotal st) * 100
        else 0)"

definition Dashboard_swapUsed :: "Dashboard_state \<Rightarrow> rat" where
  "Dashboard_swapUsed st =
     number (jnn (jnn (jnn (fld (fld (Dashboard_overview st) ''swap'') ''used'')
                         (fld (fld (Dashboard_overview st) ''swap'') ''Used''))
                    (fld (fld (Dashboard_overview st) ''memory'') ''swap_used''))
               (fld (fld (Dashboard_overview st) ''memory'') ''SwapUsed''))"

definition Dashboard_swapTotal :: "Dashboard_state \<Rightarrow> rat" where
  "Dashboard_swapTotal st =
     number (jnn (jnn (jnn (fld (fld (Dashboard_overview st) ''swap'') ''total'')
                         (fld (fld (Dashboard_overview st) ''swap'') ''Total''))
                    (fld (fld (Dashboard_overview st) ''memory'') ''swap_total''))
               (fld (fld (Dashboard_overview st) ''memory'') ''SwapTotal''))"

definition Dashboard_swapPct :: "Dashboard_state \<Rightarrow> rat" where
  "Dashboard_swapPct st =
     number_or (fld (fld (Dashboard_overview st) ''swap'') ''percent'')
       (if Dashboard_swapTotal st \<noteq> 0 then (Dashboard_swapUsed st / Dashboard_swapTotal st) * 100
        else 0)"

definition Dashboard_disk :: "Dashboard_state \<Rightarrow> json" where
  "Dashboard_disk st =
     jor (jor (list_idx (listOf (fld (Dashboard_overview st) ''disks'') []) 0)
            (fld (Dashboard_overview st) ''disk''))
       (JObj [])"

definition Dashboard_diskPct :: "Dashboard_state \<Rightarrow> rat" where
  "Dashboard_diskPct st =
     number_or (fld (Dashboard_disk st) ''percent'')
       (if number (jnn (fld (Dashboard_disk st) ''total'') (fld (Dashboard_disk st) ''Total'')) \<noteq> 0
          then (number (jnn (fld (Dashboard_disk st) ''used'') (fld (Dashboard_disk st) ''Used'')) /
                  number (jnn (fld (Dashboard_disk st) ''total'') (fld (Dashboard_disk st) ''Total'')))
                 * 100
        else 0)"

definition Dashboard_view :: "locale_date \<Rightarrow> route \<Rightarrow> Dashboard_state \<Rightarrow> Dashboard_state vnode" where
  "Dashboard_view loc route st =
     El ''div'' [(''className'', JStr ''page-stack'')] []
       ([PageHeader route (JBool (res_loading (Dashboard_resource st)))
           (Some (\<lambda>ev. Dashboard_reload st False)) []] @
        (if res_error (Dashboard_resource st) \<noteq> []
           then [ErrorState (JStr (res_error (Dashboard_resource st)))
                   (\<lambda>ev. Dashboard_reload st False)]
         else if res_loading (Dashboard_resource st) \<and> \<not> truthy (res_data (Dashboard_resource st))
           then [LoadingState 6]
         else [El ''div'' [(''className'', JStr ''status-line'')] []
                 [El ''span'' [(''className'', JStr ''live-dot'')] [] [],
                  El ''strong'' [] [] [Txt t_live_status],
                  El ''span'' [] []
                    [Txt (text_or (fld (Dashboard_overview st) ''hostname'') t_server)],
                  El ''time'' [] []
                    [Txt (formatDate loc (fld (Dashboard_overview st) ''collected_at''))]],
               El ''section'' [(''className'', JStr ''metric-grid'')] []
                 [Metric [(''title'', JStr t_uptime),
                          (''value'',
                           JStr (formatDuration (fld (Dashboard_overview st) ''uptime_seconds''))),
                          (''detail'',
                           JStr (text_or (jor (fld (Dashboard_overview st) ''platform'')
                                            (fld (Dashboard_overview st) ''os''))
                                   ''Linux'')),
                          (''icon'', JStr ''server'')],
                  Metric [(''title'', JStr t_cpu_usage),
                          (''value'', JStr (to_fixed 1 (Dashboard_cpu st) @ ''%'')),
                          (''detail'',
                           JStr (text_or (jnn (fld (Dashboard_overview st) ''cpu_cores'')
                                            (fld (fld (Dashboard_overview st) ''cpu'') ''cores''))
                                   t_em_dash @
                                 t_cores_load @
                                 to_fixed 2 (number (jnn (fld (Dashboard_overview st) ''load_1'')
                                                       (idx (fld (Dashboard_overview st) ''load'') 0))))),
                          (''icon'', JStr ''process''),
                          (''tone'',
                           JStr (if Dashboard_cpu st > 90 then ''danger''
                                 else if Dashboard_cpu st > 70 then ''warning'' else ''normal''))],
                  Metric [(''title'', JStr t_memory_usage),
                          (''value'', JStr (to_fixed 1 (Dashboard_memoryPct st) @ ''%'')),
                          (''detail'',
                           JStr (formatBytes (JNum (Dashboard_memoryUsed st)) @ '' / '' @
                                 formatBytes (JNum (Dashboard_memoryTotal st)))),
                          (''icon'', JStr ''memory''),
                          (''tone'',
                           JStr (if Dashboard_memoryPct st > 90 then ''danger''
                                 else if Dashboard_memoryPct st > 75 then ''warning'' else ''normal''))],
                  Metric [(''title'', JStr t_system_disk),
                          (''value'', JStr (to_fixed 1 (Dashboard_diskPct st) @ ''%'')),
                          (''detail'',
                           JStr (formatBytes (jnn (fld (Dashboard_disk st) ''used'')
                                                (fld (Dashboard_disk st) ''Used'')) @
                                 '' / '' @
                                 formatBytes (jnn (fld (Dashboard_disk st) ''total'')
                                                (fld (Dashboard_disk st) ''Total'')))),
                          (''icon'', JStr ''disk''),
                          (''tone'',
                           JStr (if Dashboard_diskPct st > 90 then ''danger''
                                 else if Dashboard_diskPct st > 80 then ''warning'' else ''normal''))]],
               El ''section'' [(''className'', JStr ''dashboard-grid'')] []
                 [Card []
                    [SectionTitle [(''title'', JStr t_resource_usage),
                                   (''subtitle'', JStr t_resource_usage_sub)]
                       [Button [(''tone'', JStr ''ghost'')]
                          [(''onClick'', \<lambda>ev. perform (Navigate ''/system/processes''))]
                          [Txt t_view_processes]],
                     ResourceRow
                       [(''label'', JStr ''CPU''),
                        (''value'', JStr (to_fixed 1 (Dashboard_cpu st) @ ''%'')),
                        (''detail'',
                         JStr (text_or (jnn (fld (Dashboard_overview st) ''cpu_cores'')
                                          (fld (fld (Dashboard_overview st) ''cpu'') ''cores''))
                                 t_em_dash @
                               t_cores)),
                        (''percent'', JNum (Dashboard_cpu st))],
                     ResourceRow [(''label'', JStr t_memory),
                                  (''value'', JStr (to_fixed 1 (Dashboard_memoryPct st) @ ''%'')),
                                  (''detail'',
                                   JStr (formatBytes (JNum (Dashboard_memoryUsed st)) @ '' / '' @
                                         formatBytes (JNum (Dashboard_memoryTotal st)))),
                                  (''percent'', JNum (Dashboard_memoryPct st))],
                     ResourceRow [(''label'', JStr t_system_disk),
                                  (''value'', JStr (to_fixed 1 (Dashboard_diskPct st) @ ''%'')),
                                  (''detail'',
                                   JStr (text_or (jnn (fld (Dashboard_disk st) ''mount'')
                                                    (fld (Dashboard_disk st) ''mountpoint''))
                                           ''/'')),
                                  (''percent'', JNum (Dashboard_diskPct st))],
                     ResourceRow
                       [(''label'', JStr ''Swap''),
                        (''value'',
                         JStr (if Dashboard_swapTotal st \<noteq> 0
                                 then to_fixed 1 (Dashboard_swapPct st) @ ''%''
                               else t_not_configured)),
                        (''detail'',
                         JStr (if Dashboard_swapTotal st \<noteq> 0
                                 then formatBytes (JNum (Dashboard_swapUsed st)) @ '' / '' @
                                      formatBytes (JNum (Dashboard_swapTotal st))
                               else t_create_in_host)),
                        (''percent'',
                         (if Dashboard_swapTotal st \<noteq> 0 then JNum (Dashboard_swapPct st) else JUndef))]],
                  Card []
                    [SectionTitle
                       [(''title'', JStr t_runtime_env), (''subtitle'', JStr t_runtime_env_sub)] [],
                     El ''dl'' [(''className'', JStr ''key-value-list'')] []
                       [KeyValue [(''label'', JStr t_hostname)]
                          [Txt (js_text (fld (Dashboard_overview st) ''hostname''))],
                        KeyValue [(''label'', JStr t_system)]
                          [Txt (js_text (jor (fld (Dashboard_overview st) ''os'')
                                           (fld (Dashboard_overview st) ''platform'')))],
                        KeyValue [(''label'', JStr t_kernel), (''mono'', JBool True)]
                          [Txt (js_text (fld (Dashboard_overview st) ''kernel''))],
                        KeyValue [(''label'', JStr t_architecture)]
                          [Txt (js_text (jor (fld (Dashboard_overview st) ''architecture'')
                                           (fld (Dashboard_overview st) ''arch'')))],
                        KeyValue [(''label'', JStr ''Docker'')]
                          (if truthy (fld (fld (Dashboard_data st) ''docker'') ''_load_error'')
                             then [Badge [(''tone'', JStr ''danger''),
                                          (''title'',
                                           JStr (js_text (fld (fld (Dashboard_data st) ''docker'')
                                                            ''_load_error'')))]
                                     [Txt t_read_failed]]
                           else if fld (fld (Dashboard_data st) ''docker'') ''available'' = JBool True
                             then [Badge [(''tone'', JStr ''success'')]
                                     [Txt t_available_dot,
                                      Txt (text_or
                                             (fld (fld (Dashboard_data st) ''docker'') ''version'')
                                             t_version_unknown)]]
                           else if fld (fld (Dashboard_data st) ''docker'') ''available'' = JBool False
                             then [Badge [(''tone'', JStr ''warning''),
                                          (''title'',
                                           JStr (js_text (fld (fld (Dashboard_data st) ''docker'')
                                                            ''error'')))]
                                     [Txt t_unavailable]]
                           else [Badge [(''tone'', JStr ''neutral'')] [Txt t_state_unknown]]),
                        KeyValue [(''label'', JStr t_security_score)]
                          (if truthy (fld (fld (Dashboard_data st) ''security'') ''_load_error'')
                             then [Badge [(''tone'', JStr ''danger''),
                                          (''title'',
                                           JStr (js_text (fld (fld (Dashboard_data st) ''security'')
                                                            ''_load_error'')))]
                                     [Txt t_read_failed]]
                           else if fld (fld (Dashboard_data st) ''security'') ''score'' = JUndef \<or>
                              fld (fld (Dashboard_data st) ''security'') ''score'' = JNull
                             then [Badge [(''tone'', JStr ''neutral'')] [Txt t_not_evaluated]]
                           else [Txt (js_text (fld (fld (Dashboard_data st) ''security'') ''score''))])]]],
               Card []
                 [SectionTitle [(''title'', JStr t_shortcuts), (''subtitle'', JStr t_shortcuts_sub)] [],
                  El ''div'' [(''className'', JStr ''shortcut-grid'')] []
                    (map
                       (\<lambda>item.
                          El ''button'' [(''className'', JStr ''shortcut''), (''key'', idx item 2)]
                            [(''onClick'', \<lambda>ev. perform (Navigate (jstring (idx item 2))))]
                            [El ''span'' [] [] [Icon [(''name'', idx item 3)]],
                             El ''div'' [] [] [El ''strong'' [] [] (child (idx item 0)),
                                               El ''small'' [] [] (child (idx item 1))],
                             Icon [(''name'', JStr ''chevron''), (''size'', JNum 17)]])
                       [JArr [JStr t_files, JStr t_sc_files, JStr ''/files'', JStr ''files''],
                        JArr [JStr t_packages, JStr t_sc_updates, JStr ''/system/updates'',
                              JStr ''package''],
                        JArr [JStr t_logs_center, JStr t_sc_audit, JStr ''/audit'', JStr ''audit''],
                        JArr [JStr t_security, JStr t_sc_security, JStr ''/security'',
                              JStr ''security'']])]]))"

type_synonym System_state = unit

definition System_entries :: "System_state \<Rightarrow> route list" where
  "System_entries st =
     filter (\<lambda>route. r_parent route = Some ''/system'') ROUTES"

definition System_view :: "route \<Rightarrow> System_state \<Rightarrow> System_state vnode" where
  "System_view route st =
     El ''div'' [(''className'', JStr ''page-stack'')] []
       [PageHeader route JUndef None [],
        Card []
          [SectionTitle [(''title'', JStr t_system_admin), (''subtitle'', JStr t_system_admin_sub)] [],
           El ''div'' [(''className'', JStr ''module-grid'')] []
             (map (\<lambda>route.
                     El ''button''
                       [(''className'', JStr ''module-card''), (''key'', JStr (r_path route))]
                       [(''onClick'', \<lambda>ev. perform (Navigate (r_path route)))]
                       [El ''span'' [(''className'', JStr ''module-icon'')] []
                          [Icon [(''name'', JStr (r_icon route))]],
                        El ''div'' [] [] [El ''strong'' [] [] [Txt (r_title route)],
                                          El ''p'' [] [] [Txt (r_subtitle route)]],
                        Icon [(''name'', JStr ''chevron''), (''size'', JNum 18)]])
                (System_entries st))]]"

subsection \<open>The two pages keep the rules\<close>

text \<open>Neither page sends a changing request, so for them no request is excepted: any request that
  changed something would need a confirmation.\<close>

lemma Dashboard_loader_quiet:
  "wp (w_ok changing) w_upd (Dashboard_loader st) (\<lambda>_ g' _. g' = g) (\<lambda>_ g' _. g' = g) g s"
  unfolding Dashboard_loader_def io_simps
  by (rule wp_mono [OF wp_get_quiet])
     (auto simp: Let_def io_simps intro!: wp_api)

lemma Dashboard_loader_shows [simp]: "shows_ok R (Dashboard_loader st)"
  by (auto simp: Dashboard_loader_def Let_def intro!: shows_ok_all_settled split: list.split)

lemma Dashboard_reload_safe [simp]: "safe changing (Dashboard_reload st silent)"
  unfolding Dashboard_reload_def by (rule safe_reload) (auto intro: Dashboard_loader_quiet)

interpretation dashboard: page "Dashboard_view loc route" changing
  by unfold_locales (simp add: Dashboard_view_def)

interpretation system_page: page "System_view route" changing
  by unfold_locales (simp add: System_view_def)

end
