(* ===== verification/System_Pages.thy ===== *)
theory System_Pages imports Page_Base begin

text \<open>
  The read-mostly system pages, \<open>web/assets/app.js\<close>, lines 674 to 819: services, processes, network
  and storage.
\<close>

record Services_state =
  Services_search :: string
  Services_working :: string
  Services_resource :: resource

definition Services_init :: Services_state where
  "Services_init = \<lparr>Services_search = [], Services_working = [], Services_resource = new_resource\<rparr>"

interpretation Services_resource_slot: resource_slot Services_resource "Services_resource_update"
  by unfold_locales simp

definition Services_loader :: "Services_state \<Rightarrow> Services_state io" where
  "Services_loader st =
     api (''/api/v1/system/services'' @ query [(''query'', JStr (Services_search st))]) empty_init"

definition Services_reload :: "Services_state \<Rightarrow> bool \<Rightarrow> Services_state io" where
  "Services_reload st silent = reload Services_resource Services_resource_update (Services_loader st) silent"

definition Services_services :: "Services_state \<Rightarrow> json list" where
  "Services_services st =
     listOf (res_data (Services_resource st)) [''services'', ''items'']"

definition Services_act :: "Services_state \<Rightarrow> json \<Rightarrow> string \<Rightarrow> Services_state io" where
  "Services_act st service action =
     (let key = jstring (fld service ''name'') @ '':'' @ action
      in steps [set_state (\<lambda>s. s\<lparr>Services_working := key\<rparr>),
                try_finally
                  (try_catch
                     (steps [secureApi ''/api/v1/system/services/action''
                               (with_body ''POST'' (jsonBody (JObj [(''name'', fld service ''name''),
                                                                    (''action'', JStr action)]))),
                             notify Success (jstring (fld service ''name'') @ t_has_been @
                                             (if action = ''restart'' then t_restart
                                              else if action = ''start'' then t_start else t_stop))
                               JUndef,
                             Services_reload st True])
                     (\<lambda>cause. notify Failure t_service_action_failed (JStr (errorDetail cause))))
                  (set_state (\<lambda>s. s\<lparr>Services_working := []\<rparr>))])"

definition Services_logs :: "Services_state \<Rightarrow> json \<Rightarrow> Services_state io" where
  "Services_logs st service =
     try_catch (bnd (api (''/api/v1/system/services/logs'' @
                          query [(''name'', fld service ''name''), (''lines'', JNum 400)])
                       empty_init)
                  (\<lambda>out.
                     open_modal (jstring (fld service ''name'') @ t_logs_suffix) ''large''
                       [Terminal [(''maxHeight'', JNum 620)]
                          (child (jor (fld out ''logs'') (fld out ''output'')))]))
       (\<lambda>cause. notify Failure t_read_logs_failed (JStr (errorDetail cause)))"

definition Services_view :: "route \<Rightarrow> Services_state \<Rightarrow> Services_state vnode" where
  "Services_view route st =
     El ''div'' [(''className'', JStr ''page-stack'')] []
       ([PageHeader route (JBool (res_loading (Services_resource st)))
           (Some (\<lambda>ev. Services_reload st False))
           [El ''div'' [(''className'', JStr ''search-box'')] []
              [Icon [(''name'', JStr ''search''), (''size'', JNum 17)],
               El ''input''
                 [(''value'', JStr (Services_search st)), (''placeholder'', JStr t_search_services)]
                 [(''onChange'',
                   \<lambda>ev. set_state (\<lambda>s. s\<lparr>Services_search := jstring (fld ev ''value'')\<rparr>))]
                 []]]] @
        (if res_error (Services_resource st) \<noteq> []
           then [ErrorState (JStr (res_error (Services_resource st))) (\<lambda>ev. Services_reload st False)]
         else if res_loading (Services_resource st) \<and> \<not> truthy (res_data (Services_resource st))
           then [LoadingState 4]
         else if length (Services_services st) \<noteq> 0
           then [El ''div'' [(''className'', JStr ''card-list'')] []
                   (map
                      (\<lambda>service.
                         let active = jor (JBool (toLowerCase
                                                    (jstring (jor (jor (fld service ''active_state'')
                                                                     (fld service ''active''))
                                                                (JStr [])))
                                                    = ''active''))
                                        (fld service ''running'')
                         in Card [(''className'', JStr ''service-card''),
                                  (''key'', fld service ''name'')]
                              [El ''div'' [(''className'', JStr ''list-main'')] []
                                 [El ''span''
                                    [(''className'',
                                      JStr (''state-indicator '' @
                                            (if truthy active then ''is-up'' else ''is-down'')))]
                                    [] [],
                                  El ''div'' [] []
                                    [El ''strong'' [] [] (child (fld service ''name'')),
                                     El ''p'' [] [] [Txt (js_text (fld service ''description''))],
                                     El ''div'' [(''className'', JStr ''inline-meta'')] []
                                       [Badge
                                          [(''tone'',
                                            JStr (if truthy active then ''success'' else ''neutral''))]
                                          [Txt
                                             (text_or (jor (jor (fld service ''active_state'')
                                                              (fld service ''active''))
                                                         (fld service ''status''))
                                                (if truthy active then ''active'' else ''inactive''))],
                                        El ''span'' [] []
                                          [Txt (js_text (jor (fld service ''sub_state'')
                                                           (fld service ''sub'')))],
                                        El ''span'' [] [] [Txt (js_text (fld service ''enabled''))]]]],
                               El ''div'' [(''className'', JStr ''list-actions'')] []
                                 [Button [(''icon'', JStr ''play''),
                                          (''busy'',
                                           JBool (Services_working st =
                                                    (jstring (fld service ''name'') @ '':start''))),
                                          (''disabled'', active)]
                                    [(''onClick'', \<lambda>ev. Services_act st service ''start'')]
                                    [Txt t_start],
                                  Button [(''icon'', JStr ''restart''),
                                          (''busy'',
                                           JBool (Services_working st =
                                                    (jstring (fld service ''name'') @ '':restart'')))]
                                    [(''onClick'', \<lambda>ev. Services_act st service ''restart'')]
                                    [Txt t_restart],
                                  Button [(''icon'', JStr ''stop''), (''tone'', JStr ''danger''),
                                          (''busy'',
                                           JBool (Services_working st =
                                                    (jstring (fld service ''name'') @ '':stop''))),
                                          (''disabled'', JBool (\<not> truthy active))]
                                    [(''onClick'', \<lambda>ev. Services_act st service ''stop'')]
                                    [Txt t_stop],
                                  Button [(''tone'', JStr ''ghost''), (''icon'', JStr ''audit'')]
                                    [(''onClick'', \<lambda>ev. Services_logs st service)] [Txt t_logs]]])
                      (Services_services st))]
         else [EmptyState [(''icon'', JStr ''services''), (''title'', JStr t_no_matching_services),
                           (''description'', JStr t_adjust_search)]
                 []]))"

record Processes_state =
  Processes_search :: string
  Processes_sort :: string
  Processes_resource :: resource

definition Processes_init :: Processes_state where
  "Processes_init = \<lparr>Processes_search = [], Processes_sort = ''cpu'', Processes_resource = new_resource\<rparr>"

interpretation Processes_resource_slot: resource_slot Processes_resource "Processes_resource_update"
  by unfold_locales simp

definition Processes_loader :: "Processes_state \<Rightarrow> Processes_state io" where
  "Processes_loader st =
     api ''/api/v1/system/processes'' empty_init"

definition Processes_reload :: "Processes_state \<Rightarrow> bool \<Rightarrow> Processes_state io" where
  "Processes_reload st silent = reload Processes_resource Processes_resource_update (Processes_loader st) silent"

definition Processes_source :: "Processes_state \<Rightarrow> json list" where
  "Processes_source st =
     listOf (res_data (Processes_resource st)) [''processes'', ''items'']"

definition Processes_processes :: "Processes_state \<Rightarrow> json list" where
  "Processes_processes st =
     (let v = (\<lambda>item.
                 (if Processes_sort st = ''cpu''
                    then number (jnn (fld item ''cpu_percent'') (fld item ''cpu''))
                  else if Processes_sort st = ''memory''
                    then number (jnn (jnn (fld item ''memory_bytes'') (fld item ''memory_percent''))
                                   (fld item ''memory''))
                  else number (fld item ''pid'')))
      in sort_key (\<lambda>x. - v x)
           (filter (\<lambda>item.
                      str_includes (toLowerCase (jstring (fld item ''pid'') @ '' '' @
                                              jstring (fld item ''user'') @ '' '' @
                                              jstring (fld item ''command'') @ '' '' @
                                              jstring (fld item ''name'')))
                        (toLowerCase (Processes_search st)))
              (Processes_source st)))"

definition Processes_signal :: "Processes_state \<Rightarrow> json \<Rightarrow> string \<Rightarrow> Processes_state io" where
  "Processes_signal st item name =
     bnd (confirm_io (if name = ''kill'' then t_kill_process else t_end_process)
            (''PID '' @ jstring (fld item ''pid'') @ t_mid_dot @
             js_text (jor (fld item ''command'') (fld item ''name'')))
            (if name = ''kill'' then t_force_kill else t_send_sigterm) (name = ''kill''))
       (\<lambda>r1.
          if \<not> truthy r1 then skip
          else try_catch (steps [secureApi ''/api/v1/system/processes/action''
                                   (with_body ''POST'' (jsonBody (JObj [(''pid'', fld item ''pid''),
                                                                        (''signal'', JStr name)]))),
                                 notify Success t_signal_sent JUndef, Processes_reload st True])
                 (\<lambda>cause. notify Failure t_process_action_failed (JStr (errorDetail cause))))"

definition Processes_view :: "route \<Rightarrow> Processes_state \<Rightarrow> Processes_state vnode" where
  "Processes_view route st =
     El ''div'' [(''className'', JStr ''page-stack'')] []
       ([PageHeader route (JBool (res_loading (Processes_resource st)))
           (Some (\<lambda>ev. Processes_reload st False))
           [El ''div'' [(''className'', JStr ''search-box'')] []
              [Icon [(''name'', JStr ''search''), (''size'', JNum 17)],
               El ''input'' [(''value'', JStr (Processes_search st)),
                             (''placeholder'', JStr t_search_processes)]
                 [(''onChange'',
                   \<lambda>ev. set_state (\<lambda>s. s\<lparr>Processes_search := jstring (fld ev ''value'')\<rparr>))]
                 []],
            SelectInput
              [(''aria-label'', JStr t_process_sort), (''value'', JStr (Processes_sort st))]
              [(''onChange'', \<lambda>ev. set_state (\<lambda>s. s\<lparr>Processes_sort := jstring (fld ev ''value'')\<rparr>))]
              [El ''option'' [(''value'', JStr ''cpu'')] [] [Txt t_sort_cpu],
               El ''option'' [(''value'', JStr ''memory'')] [] [Txt t_sort_memory],
               El ''option'' [(''value'', JStr ''pid'')] [] [Txt t_sort_pid]]]] @
        (if res_error (Processes_resource st) \<noteq> []
           then [ErrorState (JStr (res_error (Processes_resource st)))
                   (\<lambda>ev. Processes_reload st False)]
         else [Card [(''className'', JStr ''table-card'')]
                 [El ''div'' [(''className'', JStr ''responsive-table process-table'')] []
                    ([El ''div'' [(''className'', JStr ''table-head'')] []
                        [El ''span'' [] [] [Txt ''PID''], El ''span'' [] [] [Txt t_user],
                         El ''span'' [] [] [Txt t_process], El ''span'' [] [] [Txt ''CPU''],
                         El ''span'' [] [] [Txt t_memory], El ''span'' [] [] [Txt t_actions]]] @
                     map (\<lambda>item.
                            El ''div''
                              [(''className'', JStr ''table-row''), (''key'', fld item ''pid'')] []
                              [El ''span''
                                 [(''data-label'', JStr ''PID''), (''className'', JStr ''mono'')] []
                                 (child (fld item ''pid'')),
                               El ''span'' [(''data-label'', JStr t_user)] []
                                 [Txt (js_text (fld item ''user''))],
                               El ''span'' [(''data-label'', JStr t_process)] []
                                 [El ''strong'' [] []
                                    [Txt (js_text
                                            (jor (fld item ''name'')
                                               (text_at (split_at (CHR '' '')
                                                           (jstring (jor (fld item ''command'') (JStr []))))
                                                  0)))],
                                  El ''small'' [(''className'', JStr ''mono'')] []
                                    [Txt (truncate_text (fld item ''command'') 120)]],
                               El ''span'' [(''data-label'', JStr ''CPU'')] []
                                 [Txt (to_fixed 1
                                         (number (jnn (fld item ''cpu'') (fld item ''cpu_percent'')))),
                                  Txt ''%''],
                               El ''span'' [(''data-label'', JStr t_memory)] []
                                 [Txt (if truthy (fld item ''memory_bytes'')
                                         then formatBytes (fld item ''memory_bytes'')
                                       else to_fixed 1 (number (jnn (fld item ''memory'')
                                                                  (fld item ''memory_percent''))) @
                                            ''%'')],
                               El ''span'' [(''data-label'', JStr t_actions),
                                            (''className'', JStr ''row-buttons'')]
                                 [] [Button [(''tone'', JStr ''ghost'')]
                                       [(''onClick'', \<lambda>ev. Processes_signal st item ''term'')]
                                       [Txt t_end_it],
                                     Button [(''tone'', JStr ''danger'')]
                                       [(''onClick'', \<lambda>ev. Processes_signal st item ''kill'')]
                                       [Txt t_force]]])
                       (Processes_processes st) @
                     (if length (Processes_processes st) = 0 \<and> \<not> res_loading (Processes_resource st)
                        then [EmptyState [(''icon'', JStr ''process''),
                                          (''title'', JStr t_no_matching_processes)]
                                []]
                      else []))]]))"

record Network_state =
  Network_resource :: resource

definition Network_init :: Network_state where
  "Network_init = \<lparr>Network_resource = new_resource\<rparr>"

interpretation Network_resource_slot: resource_slot Network_resource "Network_resource_update"
  by unfold_locales simp

definition Network_loader :: "Network_state \<Rightarrow> Network_state io" where
  "Network_loader st =
     api ''/api/v1/system/network'' empty_init"

definition Network_reload :: "Network_state \<Rightarrow> bool \<Rightarrow> Network_state io" where
  "Network_reload st silent = reload Network_resource Network_resource_update (Network_loader st) silent"

definition Network_interfaces :: "Network_state \<Rightarrow> json list" where
  "Network_interfaces st =
     listOf (res_data (Network_resource st)) [''interfaces'']"

definition Network_object :: "Network_state \<Rightarrow> json" where
  "Network_object st =
     asObject (res_data (Network_resource st))"

definition Network_view :: "route \<Rightarrow> Network_state \<Rightarrow> Network_state vnode" where
  "Network_view route st =
     El ''div'' [(''className'', JStr ''page-stack'')] []
       ([PageHeader route (JBool (res_loading (Network_resource st)))
           (Some (\<lambda>ev. Network_reload st False)) []] @
        (if res_error (Network_resource st) \<noteq> []
           then [ErrorState (JStr (res_error (Network_resource st))) (\<lambda>ev. Network_reload st False)]
         else if res_loading (Network_resource st) \<and> \<not> truthy (res_data (Network_resource st))
           then [LoadingState 4]
         else ([El ''section'' [(''className'', JStr ''interface-grid'')] []
                  (map
                     (\<lambda>item.
                        Card
                          [(''className'', JStr ''interface-card''), (''key'', fld item ''name'')]
                          [El ''div'' [(''className'', JStr ''card-topline'')] []
                             [El ''strong'' [] [] [Txt (js_text (fld item ''name''))],
                              Badge [(''tone'',
                                      JStr (if str_includes
                                                 (to_upper (jstring (jor (fld item ''flags'') (JStr []))))
                                                 ''UP'' \<or>
                                               truthy (fld item ''up'')
                                              then ''success''
                                            else ''neutral''))]
                                [Txt (if truthy (fld item ''up'') then ''UP''
                                      else js_text (fld item ''flags''))]],
                           El ''div'' [(''className'', JStr ''address-list'')] []
                             (map (\<lambda>address. El ''code'' [(''key'', address)] [] (child address))
                                (listOf (fld item ''addresses'') []) @
                              (if length (listOf (fld item ''addresses'') []) = 0
                                 then [El ''span'' [] [] [Txt t_no_address]]
                               else [])),
                           El ''div'' [(''className'', JStr ''split-meta'')] []
                             [El ''span'' [] [] [Txt ''MTU '', Txt (js_text (fld item ''mtu''))],
                              El ''span'' [] [] [Txt t_arrow_down,
                                                 Txt (formatBytes (jnn (fld item ''received_bytes'')
                                                                     (fld item ''rx_bytes'')))],
                              El ''span'' [] [] [Txt t_arrow_up,
                                                 Txt (formatBytes (jnn (fld item ''sent_bytes'')
                                                                     (fld item ''tx_bytes'')))]]])
                     (Network_interfaces st)),
                Card [] [SectionTitle [(''title'', JStr t_listening_ports),
                                       (''subtitle'', JStr t_listening_ports_sub)]
                           [],
                         Terminal [] [Txt (text_or (jor (fld (Network_object st) ''listening'')
                                                      (fld (Network_object st) ''listeners''))
                                             t_no_listening)]]] @
               (if truthy (fld (Network_object st) ''connections'')
                  then [Card [] [SectionTitle [(''title'', JStr t_active_connections)] [],
                                 Terminal []
                                   (child (if is_string (fld (Network_object st) ''connections'')
                                             then fld (Network_object st) ''connections''
                                           else stringify2 (fld (Network_object st) ''connections'')))]]
                else []))))"

record Storage_state =
  Storage_showVirtual :: bool
  Storage_resource :: resource

definition Storage_init :: Storage_state where
  "Storage_init = \<lparr>Storage_showVirtual = False, Storage_resource = new_resource\<rparr>"

interpretation Storage_resource_slot: resource_slot Storage_resource "Storage_resource_update"
  by unfold_locales simp

definition Storage_loader :: "Storage_state \<Rightarrow> Storage_state io" where
  "Storage_loader st =
     api ''/api/v1/system/storage'' empty_init"

definition Storage_reload :: "Storage_state \<Rightarrow> bool \<Rightarrow> Storage_state io" where
  "Storage_reload st silent = reload Storage_resource Storage_resource_update (Storage_loader st) silent"

definition Storage_all :: "Storage_state \<Rightarrow> json list" where
  "Storage_all st =
     listOf (res_data (Storage_resource st)) [''mounts'', ''filesystems'']"

definition Storage_mounts :: "Storage_state \<Rightarrow> json list" where
  "Storage_mounts st =
     (if Storage_showVirtual st then Storage_all st
      else filter (\<lambda>item. \<not> truthy (fld item ''virtual'')) (Storage_all st))"

definition Storage_view :: "route \<Rightarrow> Storage_state \<Rightarrow> Storage_state vnode" where
  "Storage_view route st =
     El ''div'' [(''className'', JStr ''page-stack'')] []
       ([PageHeader route (JBool (res_loading (Storage_resource st)))
           (Some (\<lambda>ev. Storage_reload st False))
           [Toggle [(''checked'', JBool (Storage_showVirtual st)), (''label'', JStr t_show_virtual)]
              (\<lambda>v. set_state (\<lambda>s. s\<lparr>Storage_showVirtual := truthy v\<rparr>))]] @
        (if res_error (Storage_resource st) \<noteq> []
           then [ErrorState (JStr (res_error (Storage_resource st))) (\<lambda>ev. Storage_reload st False)]
         else [El ''section'' [(''className'', JStr ''storage-grid'')] []
                 (map (\<lambda>item.
                         let total0 = number (fld item ''total'')
                         in let used0 = number (fld item ''used'')
                            in let percent = number_or (fld item ''percent'')
                                               (if total0 \<noteq> 0 then (used0 / total0) * 100 else 0)
                               in Card [(''className'', JStr ''storage-card''),
                                        (''key'',
                                         JStr (jstring
                                                 (jor (fld item ''mountpoint'') (fld item ''mount'')) @
                                               ''-'' @ jstring (fld item ''device'')))]
                                    [El ''div'' [(''className'', JStr ''card-topline'')] []
                                       ([El ''strong'' [] []
                                           [Txt (js_text (jor (fld item ''mountpoint'')
                                                            (fld item ''mount'')))]] @
                                        (if truthy (fld item ''virtual'')
                                           then [Badge [] [Txt t_virtual]]
                                         else [Badge [(''tone'',
                                                       JStr (if percent > 90 then ''danger''
                                                             else if percent > 80 then ''warning''
                                                             else ''success''))]
                                                 [Txt (to_fixed 1 percent), Txt ''%'']])),
                                     El ''code'' [] [] [Txt (js_text (fld item ''device''))],
                                     Progress percent
                                       (if percent > 90 then ''danger''
                                        else if percent > 80 then ''warning'' else ''primary''),
                                     El ''div'' [(''className'', JStr ''split-meta'')] []
                                       [El ''span'' [] [] [Txt (js_text (fld item ''filesystem''))],
                                        El ''span'' [] []
                                          [Txt (formatBytes (JNum used0)), Txt '' / '',
                                           Txt (formatBytes (JNum total0))]]])
                    (Storage_mounts st) @
                  (if length (Storage_mounts st) = 0 \<and> \<not> res_loading (Storage_resource st)
                     then [EmptyState [(''icon'', JStr ''storage''), (''title'', JStr t_no_mounts)] []]
                   else []))]))"

subsection \<open>The pages keep the rules\<close>

text \<open>Ending a process is the destructive request of these pages. The lists reload with reading
  requests only.\<close>

definition ends_process :: "request \<Rightarrow> bool" where
  "ends_process r \<longleftrightarrow> changing r \<and> req_url r = ''/api/v1/system/processes/action''"

lemma ends_process_mk [simp]:
  "ends_process (mk_request url i tok) \<longleftrightarrow> sends_change i \<and> url = ''/api/v1/system/processes/action''"
  by (simp add: ends_process_def)

lemma Services_reload_safe [simp]: "safe ends_process (Services_reload st silent)"
  unfolding Services_reload_def by (rule safe_reload) (auto simp: Services_loader_def intro!: wp_get_quiet)

lemma Services_logs_safe [simp]: "safe ends_process (Services_logs st service)"
  by (rule safeI) (auto simp: Services_logs_def io_simps intro!: io_rules)

lemma Services_act_ends:
  "behaves ends_process (\<lambda>s. Services_working s = []) (Services_act st service action)"
  by (rule behavesI)
     (auto simp: Services_act_def Let_def io_simps Services_reload_def Services_loader_def intro!: io_rules)

lemma Services_act_safe [simp]: "safe ends_process (Services_act st service action)"
  by (rule safeI)
     (auto simp: Services_act_def Let_def io_simps Services_reload_def Services_loader_def intro!: io_rules)

interpretation services: page "Services_view route" ends_process
  by unfold_locales (simp add: Services_view_def)

lemma Processes_reload_safe [simp]: "safe ends_process (Processes_reload st silent)"
  unfolding Processes_reload_def by (rule safe_reload) (auto simp: Processes_loader_def intro!: wp_get_quiet)

lemma Processes_signal_safe [simp]: "safe ends_process (Processes_signal st item name)"
  by (rule safeI)
     (auto simp: Processes_signal_def io_simps Processes_reload_def Processes_loader_def intro!: io_rules)

interpretation processes: page "Processes_view route" ends_process
  by unfold_locales (simp add: Processes_view_def)

lemma Network_reload_safe [simp]: "safe changing (Network_reload st silent)"
  unfolding Network_reload_def by (rule safe_reload) (auto simp: Network_loader_def intro!: wp_get_quiet)

interpretation network: page "Network_view route" changing
  by unfold_locales (simp add: Network_view_def)

lemma Storage_reload_safe [simp]: "safe changing (Storage_reload st silent)"
  unfolding Storage_reload_def by (rule safe_reload) (auto simp: Storage_loader_def intro!: wp_get_quiet)

interpretation storage: page "Storage_view route" changing
  by unfold_locales (simp add: Storage_view_def)


text \<open>The service page is usable again after every operation: whatever the server answers to
  starting, stopping or restarting a service, when the handler ends the page has left its busy state,
  no exception has escaped it, and a refusal has been shown.\<close>

theorem services_busy_reset:
  assumes "run (Services_act st service action) as s = (tr, out, s')" and "legal tr" and "out \<noteq> Suspended"
  shows "Services_working s' = [] \<and> (\<forall>c. out \<noteq> Failed c) \<and> \<not> silent_failure tr"
  using Services_act_ends assms unfolding behaves_def by blast

theorem services_busy_reset_witness:
  "let r = run_alone (Services_act Services_init (JStr ''nginx'') ''restart'') (tl yes_but_down) Services_init
   in length (requests (dids (events r))) = 1 \<and> Services_working (snd (snd r)) = [] \<and> \<not> silent_failure (events r)"
proof -
  let ?r = "run_alone (Services_act Services_init (JStr ''nginx'') ''restart'') (tl yes_but_down) Services_init"
  have "legal (events ?r) \<and> length (requests (dids (events ?r))) = 1 \<and> fst (snd ?r) \<noteq> Suspended"
    by (simp add: Services_act_def yes_but_down_def run_ops)
  then show ?thesis
    using services_busy_reset [OF run_alone_split] by (simp add: Let_def)
qed

definition sample_process :: json where
  "sample_process = JObj [(''pid'', JNum 7)]"

definition sample_processes :: Processes_state where
  "sample_processes = Processes_init\<lparr>Processes_resource := new_resource\<lparr>res_data := JArr [sample_process]\<rparr>\<rparr>"

text \<open>Rules of interaction of the process page. Take any handler the page, or a dialog opened from it, offers in any state, and any run of it (any answers, other handlers in between): the request that ends a process is sent only after the user confirmed it; a success message appears only after the server acknowledged a change; the handler never ends in an exception; and when it ends, a refused change has been reported.\<close>

theorem processes_rules:
  assumes "offered (Processes_view route) m" and "run m as s = (tr, out, s')" and "legal tr"
  shows "guarded_trace ends_process tr \<and> honest_trace tr \<and> (\<forall>c. out \<noteq> Failed c) \<and>
    (out \<noteq> Suspended \<longrightarrow> \<not> silent_failure tr)"
  by (rule processes.rules_kept [OF assms])

theorem processes_rules_witness:
  "let r = run_alone (Processes_signal sample_processes sample_process ''kill'') yes_but_down sample_processes
   in length (requests (dids (events r))) = 1 \<and> guarded_trace ends_process (events r) \<and> \<not> silent_failure (events r)"
proof -
  let ?m = "Processes_signal sample_processes sample_process ''kill''" and ?s = "sample_processes"
  let ?r = "run_alone ?m yes_but_down ?s"
  have "offered (Processes_view sample_route) ?m"
    by (rule offered_handler [of "''onClick''" "\<lambda>ev. ?m" _ ?s])
       (auto simp: Processes_view_def Processes_processes_def Processes_source_def sample_processes_def sample_process_def Processes_init_def new_resource_def listOf_def find_json_def lower_Nil)
  moreover have "legal (events ?r) \<and> length (requests (dids (events ?r))) = 1 \<and> fst (snd ?r) \<noteq> Suspended"
    by (simp add: Processes_signal_def yes_but_down_def run_ops)
  ultimately show ?thesis
    using processes_rules [OF _ run_alone_split] by (simp add: Let_def)
qed

end
