(* ===== verification/Tasks_Page.thy ===== *)
theory Tasks_Page imports Page_Base begin

text \<open>
  The scheduled tasks, \<open>web/assets/app.js\<close>, lines 820 to 923: the page and the form of its
  dialog, a component of its own that is given the page's \<open>reload\<close>.
\<close>

record TaskCreateForm_state =
  TaskCreateForm_type :: string
  TaskCreateForm_frequency :: string
  TaskCreateForm_working :: bool

definition TaskCreateForm_init :: TaskCreateForm_state where
  "TaskCreateForm_init = \<lparr>TaskCreateForm_type = ''service-restart'', TaskCreateForm_frequency = ''daily'',
                   TaskCreateForm_working = False\<rparr>"

definition TaskCreateForm_needsTarget :: "TaskCreateForm_state \<Rightarrow> bool" where
  "TaskCreateForm_needsTarget st =
     (TaskCreateForm_type st = ''service-restart'' \<or> TaskCreateForm_type st = ''docker-restart'')"

definition TaskCreateForm_view :: "route \<Rightarrow> TaskCreateForm_state \<Rightarrow> TaskCreateForm_state vnode" where
  "TaskCreateForm_view route st =
     El ''form'' [(''className'', JStr ''form-stack'')]
       [(''onSubmit'',
         \<lambda>ev.
           steps
             [perform Prevent_default,
              let values = fld ev ''form''
              in steps
                   [set_state (\<lambda>s. s\<lparr>TaskCreateForm_working := True\<rparr>),
                    try_finally
                      (try_catch
                         (steps
                            [secureApi ''/api/v1/system/tasks/create''
                               (with_body ''POST''
                                  (jsonBody
                                     (JObj
                                        [(''name'', form_get values ''name''),
                                         (''type'', JStr (TaskCreateForm_type st)),
                                         (''target'',
                                          (if TaskCreateForm_needsTarget st
                                             then form_get values ''target''
                                           else JStr [])),
                                         (''frequency'', JStr (TaskCreateForm_frequency st)),
                                         (''hour'', JNum (number (form_get values ''hour''))),
                                         (''minute'', JNum (number (form_get values ''minute''))),
                                         (''weekday'', JNum (number (form_get values ''weekday'')))]))),
                             perform Close_modal, notify Success t_task_created JUndef,
                             perform (Prop_call ''reload'' [])])
                         (\<lambda>cause. notify Failure t_create_failed (JStr (errorDetail cause))))
                      (set_state (\<lambda>s. s\<lparr>TaskCreateForm_working := False\<rparr>))]])]
       ([Field [(''label'', JStr t_name)]
           [TextInput [(''name'', JStr ''name''), (''required'', JBool True),
                       (''maxLength'', JStr ''80''), (''placeholder'', JStr t_task_name_example)]
              []],
         Field [(''label'', JStr t_task_type)]
           [SelectInput [(''value'', JStr (TaskCreateForm_type st))]
              [(''onChange'',
                \<lambda>ev. set_state (\<lambda>s. s\<lparr>TaskCreateForm_type := jstring (fld ev ''value'')\<rparr>))]
              [El ''option'' [(''value'', JStr ''service-restart'')] [] [Txt t_task_service_restart],
               El ''option'' [(''value'', JStr ''docker-restart'')] [] [Txt t_task_docker_restart],
               El ''option'' [(''value'', JStr ''docker-cleanup-safe'')] []
                 [Txt t_task_docker_cleanup],
               El ''option'' [(''value'', JStr ''panel-backup'')] [] [Txt t_task_panel_backup]]]] @
        (if TaskCreateForm_needsTarget st
           then [Field
                   [(''label'',
                     JStr (if TaskCreateForm_type st = ''service-restart'' then t_service_name
                           else t_container_name)),
                    (''hint'',
                     JStr (if TaskCreateForm_type st = ''service-restart'' then t_service_name_hint
                           else t_container_name_hint))]
                   [TextInput [(''name'', JStr ''target''), (''required'', JBool True),
                               (''placeholder'',
                                JStr (if TaskCreateForm_type st = ''service-restart''
                                        then ''nginx.service''
                                      else ''nginx''))]
                      []]]
         else [El ''div'' [(''className'', JStr ''notice'')] []
                 [Txt (if TaskCreateForm_type st = ''docker-cleanup-safe'' then t_cleanup_notice
                       else t_backup_notice)]]) @
        [Field [(''label'', JStr t_frequency)]
           [SelectInput [(''value'', JStr (TaskCreateForm_frequency st))]
              [(''onChange'',
                \<lambda>ev. set_state (\<lambda>s. s\<lparr>TaskCreateForm_frequency := jstring (fld ev ''value'')\<rparr>))]
              [El ''option'' [(''value'', JStr ''hourly'')] [] [Txt t_hourly],
               El ''option'' [(''value'', JStr ''daily'')] [] [Txt t_daily],
               El ''option'' [(''value'', JStr ''weekly'')] [] [Txt t_every_week]]],
         El ''div'' [(''className'', JStr ''form-grid'')] []
           ((if TaskCreateForm_frequency st \<noteq> ''hourly''
               then [Field [(''label'', JStr t_hour_field)]
                       [TextInput [(''name'', JStr ''hour''), (''type'', JStr ''number''),
                                   (''min'', JStr ''0''), (''max'', JStr ''23''),
                                   (''defaultValue'', JStr ''3''), (''required'', JBool True)]
                          []]]
             else [El ''input'' [(''type'', JStr ''hidden''), (''name'', JStr ''hour''),
                                 (''value'', JStr ''0'')]
                     [] []]) @
            (if TaskCreateForm_frequency st = ''weekly''
               then [Field [(''label'', JStr t_weekday_field)]
                       [SelectInput [(''name'', JStr ''weekday''), (''defaultValue'', JStr ''1'')] []
                          [El ''option'' [(''value'', JStr ''0'')] [] [Txt t_sunday],
                           El ''option'' [(''value'', JStr ''1'')] [] [Txt t_monday],
                           El ''option'' [(''value'', JStr ''2'')] [] [Txt t_tuesday],
                           El ''option'' [(''value'', JStr ''3'')] [] [Txt t_wednesday],
                           El ''option'' [(''value'', JStr ''4'')] [] [Txt t_thursday],
                           El ''option'' [(''value'', JStr ''5'')] [] [Txt t_friday],
                           El ''option'' [(''value'', JStr ''6'')] [] [Txt t_saturday]]]]
             else [El ''input'' [(''type'', JStr ''hidden''), (''name'', JStr ''weekday''),
                                 (''value'', JStr ''0'')]
                     [] []]) @
            [Field [(''label'', JStr t_minute_field)]
               [TextInput [(''name'', JStr ''minute''), (''type'', JStr ''number''),
                           (''min'', JStr ''0''), (''max'', JStr ''59''),
                           (''defaultValue'', JStr ''0''), (''required'', JBool True)]
                  []]]),
         El ''div'' [(''className'', JStr ''form-actions'')] []
           [Button [] [(''onClick'', \<lambda>ev. perform Close_modal)] [Txt t_cancel],
            Button [(''type'', JStr ''submit''), (''tone'', JStr ''primary''),
                    (''busy'', JBool (TaskCreateForm_working st))]
              [] [Txt t_create_and_enable]]])"

record Tasks_state =
  Tasks_data :: json
  Tasks_loading :: bool
  Tasks_error :: string

definition Tasks_init :: Tasks_state where
  "Tasks_init = \<lparr>Tasks_data = JNull, Tasks_loading = True, Tasks_error = []\<rparr>"

definition Tasks_reload :: "Tasks_state \<Rightarrow> Tasks_state io" where
  "Tasks_reload st =
     steps [set_state (\<lambda>s. s\<lparr>Tasks_loading := True\<rparr>),
            set_state (\<lambda>s. s\<lparr>Tasks_error := []\<rparr>),
            try_finally (try_catch (bnd (promise_all [api ''/api/v1/system/tasks'' empty_init,
                                                      api ''/api/v1/system/timers'' empty_init])
                                      (\<lambda>r1.
                                         let tasks = idx r1 0;
                                             timers = idx r1 1
                                         in set_state (\<lambda>s.
                                                         s\<lparr>Tasks_data := JObj [(''tasks'', tasks),
                                                                               (''timers'', timers)]\<rparr>)))
                           (\<lambda>cause. set_state (\<lambda>s. s\<lparr>Tasks_error := errorDetail cause\<rparr>)))
              (set_state (\<lambda>s. s\<lparr>Tasks_loading := False\<rparr>))]"

definition Tasks_effect :: "Tasks_state \<Rightarrow> Tasks_state io" where
  "Tasks_effect st = Tasks_reload st"

definition Tasks_taskList :: "Tasks_state \<Rightarrow> json list" where
  "Tasks_taskList st =
     listOf (fld (Tasks_data st) ''tasks'') [''tasks'']"

definition Tasks_timerOutput :: "Tasks_state \<Rightarrow> string" where
  "Tasks_timerOutput st =
     text_or (fld (asObject (fld (Tasks_data st) ''timers'')) ''timers'') t_no_timer_output"

definition Tasks_createDialog :: "Tasks_state \<Rightarrow> Tasks_state io" where
  "Tasks_createDialog st =
     open_modal t_create_task_title [] [El ''TaskCreateForm'' [] [(''reload'', \<lambda>ev. Tasks_reload st)] []]"

definition Tasks_act :: "Tasks_state \<Rightarrow> json \<Rightarrow> string \<Rightarrow> Tasks_state io" where
  "Tasks_act st item action =
     bnd (if action = ''delete'' then confirm_io t_delete_task t_delete_task_detail t_delete True
          else Ret (JBool True))
       (\<lambda>r2.
          if \<not> truthy r2 then skip
          else try_catch (steps [secureApi ''/api/v1/system/tasks/action''
                                   (with_body ''POST'' (jsonBody (JObj [(''id'', fld item ''id''),
                                                                        (''action'', JStr action)]))),
                                 notify Success
                                   (if action = ''run'' then t_task_started
                                    else if action = ''delete'' then t_task_deleted else t_task_updated)
                                   JUndef,
                                 Tasks_reload st])
                 (\<lambda>cause. notify Failure t_task_action_failed (JStr (errorDetail cause))))"

definition Tasks_view :: "route \<Rightarrow> Tasks_state \<Rightarrow> Tasks_state vnode" where
  "Tasks_view route st =
     El ''div'' [(''className'', JStr ''page-stack'')] []
       ([PageHeader route (JBool (Tasks_loading st)) (Some (\<lambda>ev. Tasks_reload st))
           [Button [(''tone'', JStr ''primary''), (''icon'', JStr ''plus'')]
              [(''onClick'', \<lambda>ev. Tasks_createDialog st)] [Txt t_new_task]]] @
        (if Tasks_error st \<noteq> [] then [ErrorState (JStr (Tasks_error st)) (\<lambda>ev. Tasks_reload st)]
         else [Card []
                 ([SectionTitle
                     [(''title'', JStr t_scheduled_tasks), (''subtitle'', JStr t_tasks_managed)] []] @
                  (if length (Tasks_taskList st) \<noteq> 0
                     then [El ''div'' [(''className'', JStr ''card-list compact-list'')] []
                             (map
                                (\<lambda>item.
                                   El ''div'' [(''className'', JStr ''task-row''),
                                               (''key'', fld item ''id'')]
                                     []
                                     [El ''div'' [] []
                                        ([El ''strong'' [] []
                                            [Txt (js_text (jor (fld item ''name'') (fld item ''id'')))],
                                          El ''code'' [] [] [Txt (taskScheduleLabel item)],
                                          El ''small'' [] []
                                            [Txt (taskTypeLabel (fld item ''type'')),
                                             Txt t_mid_dot, Txt (taskTargetLabel item)]] @
                                         (if truthy (fld item ''next_run'')
                                            then [El ''small'' [] []
                                                    [Txt t_next_run,
                                                     Txt (js_text (fld item ''next_run''))]]
                                          else [])),
                                      El ''div'' [(''className'', JStr ''inline-meta'')] []
                                        [Badge [(''tone'',
                                                 JStr (if truthy (fld item ''enabled'')
                                                         then ''success''
                                                       else ''neutral''))]
                                           [Txt (boolText (fld item ''enabled''))],
                                         El ''span'' [] []
                                           [Txt (if truthy (fld item ''last_run'')
                                                   then t_last_run @ js_text (fld item ''last_run'')
                                                 else t_never_run)]],
                                      El ''div'' [(''className'', JStr ''row-buttons'')] []
                                        [Button [(''icon'', JStr ''play'')]
                                           [(''onClick'', \<lambda>ev. Tasks_act st item ''run'')]
                                           [Txt t_run],
                                         Button [(''tone'', JStr ''ghost'')]
                                           [(''onClick'',
                                             \<lambda>ev.
                                               Tasks_act st item
                                                 (if truthy (fld item ''enabled'') then ''disable''
                                                  else ''enable''))]
                                           [Txt (if truthy (fld item ''enabled'') then t_disable
                                                 else t_enable)],
                                         Button
                                           [(''tone'', JStr ''danger''), (''icon'', JStr ''trash'')]
                                           [(''onClick'', \<lambda>ev. Tasks_act st item ''delete'')]
                                           [Txt t_delete]]])
                                (Tasks_taskList st))]
                   else if \<not> Tasks_loading st
                     then [EmptyState [(''icon'', JStr ''tasks''), (''title'', JStr t_no_tasks),
                                       (''description'', JStr t_no_tasks_detail)]
                             [Button [(''tone'', JStr ''primary''), (''icon'', JStr ''plus'')]
                                [(''onClick'', \<lambda>ev. Tasks_createDialog st)] [Txt t_create_task]]]
                   else [LoadingState 4])),
               Card []
                 [SectionTitle
                    [(''title'', JStr t_system_timers), (''subtitle'', JStr t_system_timers_sub)] [],
                  Terminal [] [Txt (Tasks_timerOutput st)]]]))"

subsection \<open>The page keeps the rules\<close>

text \<open>Deleting a task is the destructive request of this page.\<close>

definition deletes_task :: "request \<Rightarrow> bool" where
  "deletes_task r \<longleftrightarrow> changing r \<and> req_url r = ''/api/v1/system/tasks/action'' \<and>
     body_fld r ''action'' = JStr ''delete''"

lemma deletes_task_mk [simp]:
  "deletes_task (mk_request url i tok) \<longleftrightarrow>
     sends_change i \<and> url = ''/api/v1/system/tasks/action'' \<and> init_fld i ''action'' = JStr ''delete''"
  by (simp add: deletes_task_def)

lemma Tasks_reload_wp [io_rules]:
  assumes "\<And>s'. Q JUndef g s'" and "\<And>tok. \<not> P (mk_request ''/api/v1/system/tasks'' empty_init tok)"
    and "\<And>tok. \<not> P (mk_request ''/api/v1/system/timers'' empty_init tok)"
  shows "wp (w_ok P) w_upd (Tasks_reload st) Q E g s"
  unfolding Tasks_reload_def io_simps
  by (rule wp_promise_all) (auto simp: io_simps Let_def assms intro!: wp_get_quiet)

lemma Tasks_reload_shows [simp]: "shows_ok R (Tasks_reload st)"
  by (simp add: Tasks_reload_def)

lemma Tasks_reload_safe [simp]: "safe deletes_task (Tasks_reload st)"
  by (rule safeI) (auto intro!: Tasks_reload_wp)

lemma Tasks_act_safe [simp]: "safe deletes_task (Tasks_act st item action)"
  by (rule safeI) (auto simp: Tasks_act_def io_simps intro!: io_rules)

lemma Tasks_createDialog_safe [simp]: "safe deletes_task (Tasks_createDialog st)"
  by (simp add: Tasks_createDialog_def)

interpretation tasks: page "Tasks_view route" deletes_task
  by unfold_locales (simp add: Tasks_view_def)

lemma TaskCreateForm_view_safe: "safe_view deletes_task (TaskCreateForm_view route st)"
  by (auto simp: TaskCreateForm_view_def Let_def io_simps intro!: safeI io_rules)

interpretation task_form: page "TaskCreateForm_view route" deletes_task
  by unfold_locales (rule TaskCreateForm_view_safe)

definition sample_task :: json where
  "sample_task = JObj [(''id'', JStr ''t1'')]"

definition sample_tasks :: Tasks_state where
  "sample_tasks = Tasks_init\<lparr>Tasks_data := JObj [(''tasks'', JArr [sample_task])]\<rparr>"

text \<open>Rules of interaction of the page of scheduled tasks. Take any handler the page, or a dialog opened from it, offers in any state, and any run of it (any answers, other handlers in between): the request that deletes a task is sent only after the user confirmed it; a success message appears only after the server acknowledged a change; the handler never ends in an exception; and when it ends, a refused change has been reported.\<close>

theorem tasks_rules:
  assumes "offered (Tasks_view route) m" and "run m as s = (tr, out, s')" and "legal tr"
  shows "guarded_trace deletes_task tr \<and> honest_trace tr \<and> (\<forall>c. out \<noteq> Failed c) \<and>
    (out \<noteq> Suspended \<longrightarrow> \<not> silent_failure tr)"
  by (rule tasks.rules_kept [OF assms])

theorem tasks_rules_witness:
  "let r = run_alone (Tasks_act sample_tasks sample_task ''delete'') yes_but_down sample_tasks
   in length (requests (dids (events r))) = 1 \<and> guarded_trace deletes_task (events r) \<and> \<not> silent_failure (events r)"
proof -
  let ?m = "Tasks_act sample_tasks sample_task ''delete''" and ?s = "sample_tasks"
  let ?r = "run_alone ?m yes_but_down ?s"
  have "offered (Tasks_view sample_route) ?m"
    by (rule offered_handler [of "''onClick''" "\<lambda>ev. ?m" _ ?s])
       (auto simp: Tasks_view_def Tasks_taskList_def sample_tasks_def sample_task_def Tasks_init_def listOf_def find_json_def)
  moreover have "legal (events ?r) \<and> length (requests (dids (events ?r))) = 1 \<and> fst (snd ?r) \<noteq> Suspended"
    by (simp add: Tasks_act_def yes_but_down_def run_ops)
  ultimately show ?thesis
    using tasks_rules [OF _ run_alone_split] by (simp add: Let_def)
qed

end
