(* ===== verification/Updates_Page.thy ===== *)
theory Updates_Page imports Page_Base begin

text \<open>
  The software page, \<open>web/assets/app.js\<close>, lines 924 to 1044: APT updates, package search and
  software sources.
\<close>

record Updates_state =
  Updates_preflight :: json
  Updates_sources :: "json list"
  Updates_loading :: bool
  Updates_search :: string
  Updates_results :: "json list"
  Updates_working :: bool
  Updates_error :: string

definition Updates_init :: Updates_state where
  "Updates_init = \<lparr>Updates_preflight = JObj [], Updates_sources = [], Updates_loading = True,
            Updates_search = [], Updates_results = [], Updates_working = False, Updates_error = []\<rparr>"

definition Updates_reload :: "Updates_state \<Rightarrow> Updates_state io" where
  "Updates_reload st =
     steps
       [set_state (\<lambda>s. s\<lparr>Updates_loading := True\<rparr>),
        set_state (\<lambda>s. s\<lparr>Updates_error := []\<rparr>),
        try_finally
          (try_catch
             (bnd (promise_all [api ''/api/v1/system/apt/preflight'' empty_init,
                                api ''/api/v1/system/apt/sources'' empty_init])
                (\<lambda>r1.
                   let check = idx r1 0;
                       sourceData = idx r1 1
                   in steps [set_state (\<lambda>s. s\<lparr>Updates_preflight := asObject check\<rparr>),
                             set_state (\<lambda>s. s\<lparr>Updates_sources := listOf sourceData [''sources'']\<rparr>)]))
             (\<lambda>cause. set_state (\<lambda>s. s\<lparr>Updates_error := errorDetail cause\<rparr>)))
          (set_state (\<lambda>s. s\<lparr>Updates_loading := False\<rparr>))]"

definition Updates_effect :: "Updates_state \<Rightarrow> Updates_state io" where
  "Updates_effect st = Updates_reload st"

definition Updates_aptBlocked :: "Updates_state \<Rightarrow> bool" where
  "Updates_aptBlocked st =
     (fld (Updates_preflight st) ''available'' = JBool False \<or>
      truthy (fld (Updates_preflight st) ''locked''))"

definition Updates_find :: "Updates_state \<Rightarrow> Updates_state io" where
  "Updates_find st =
     (if js_length (js_trim (Updates_search st)) < 2 then skip
      else steps
             [set_state (\<lambda>s. s\<lparr>Updates_working := True\<rparr>),
              try_finally
                (try_catch
                   (bnd (api (''/api/v1/system/apt/search'' @
                              query [(''q'', JStr (js_trim (Updates_search st)))])
                           empty_init)
                      (\<lambda>out.
                         set_state (\<lambda>s. s\<lparr>Updates_results := listOf out [''packages'', ''results'']\<rparr>)))
                   (\<lambda>cause. notify Failure t_search_failed (JStr (errorDetail cause))))
                (set_state (\<lambda>s. s\<lparr>Updates_working := False\<rparr>))])"

definition Updates_action :: "Updates_state \<Rightarrow> string \<Rightarrow> json list \<Rightarrow> Updates_state io" where
  "Updates_action st name packages =
     (let label = JObj [(''download'', JStr t_download_only_updates),
                        (''upgrade'', JStr t_run_system_upgrade),
                        (''install'', JStr t_install_package), (''remove'', JStr t_remove_package)]
      in if Updates_aptBlocked st
           then notify Warning
                  (if fld (Updates_preflight st) ''available'' = JBool False then t_no_apt
                   else t_apt_busy)
                  (JStr (js_text (fld (Updates_preflight st) ''lock_detail'')))
         else bnd (confirm_io (jstring (jor (fld label name) (JStr name)))
                     (if length packages \<noteq> 0 then join_with '', '' (map array_text packages)
                      else t_long_operation)
                     t_confirm (name = ''remove''))
                (\<lambda>r3.
                   if \<not> truthy r3 then skip
                   else steps
                          [set_state (\<lambda>s. s\<lparr>Updates_working := True\<rparr>),
                           try_finally
                             (try_catch
                                (let endpoint =
                                       (if name = ''download'' then ''/api/v1/system/apt/download''
                                        else if name = ''upgrade'' then ''/api/v1/system/apt/upgrade''
                                        else ''/api/v1/system/apt/package'')
                                 in bnd (secureApi endpoint
                                           (with_body ''POST''
                                              (jsonBody (if name = ''install'' \<or> name = ''remove''
                                                           then JObj [(''action'', JStr name),
                                                                      (''packages'', JArr packages)]
                                                         else JObj []))))
                                      (\<lambda>r4.
                                         let result = asObject r4
                                         in steps [notify Success
                                                     (jstring (fld label name) @ t_completed) JUndef,
                                                   if truthy (fld result ''output'')
                                                     then open_modal
                                                            (jstring (fld label name) @ t_result)
                                                            ''large''
                                                            [Terminal [(''maxHeight'', JNum 620)]
                                                               [Txt (jstring (fld result ''output''))]]
                                                   else skip,
                                                   Updates_reload st,
                                                   if Updates_search st \<noteq> [] then Updates_find st
                                                   else skip]))
                                (\<lambda>cause.
                                   notify Failure t_package_action_failed (JStr (errorDetail cause))))
                             (set_state (\<lambda>s. s\<lparr>Updates_working := False\<rparr>))]))"

definition Updates_sourceAction :: "Updates_state \<Rightarrow> string \<Rightarrow> json \<Rightarrow> Updates_state io" where
  "Updates_sourceAction st name source =
     bnd (if name = ''delete''
            then confirm_io t_delete_source (js_text (fld source ''path'')) t_delete True
          else Ret (JBool True))
       (\<lambda>r5.
          if \<not> truthy r5 then skip
          else try_catch
                 (steps [secureApi ''/api/v1/system/apt/sources''
                           (with_body ''POST'' (jsonBody (JObj [(''action'', JStr name),
                                                                (''path'', fld source ''path'')]))),
                         notify Success t_source_updated JUndef, Updates_reload st])
                 (\<lambda>cause. notify Failure t_source_action_failed (JStr (errorDetail cause))))"

definition Updates_addSource :: "Updates_state \<Rightarrow> Updates_state io" where
  "Updates_addSource st =
     open_modal t_add_source []
       [El ''form'' [(''className'', JStr ''form-stack'')]
          [(''onSubmit'',
            \<lambda>ev.
              steps [perform Prevent_default,
                     let values = fld ev ''form''
                     in try_catch
                          (steps [secureApi ''/api/v1/system/apt/sources''
                                    (with_body ''POST''
                                       (jsonBody (JObj [(''action'', JStr ''add''),
                                                        (''content'', form_get values ''content''),
                                                        (''name'', form_get values ''name'')]))),
                                  perform Close_modal, notify Success t_source_added JUndef,
                                  Updates_reload st])
                          (\<lambda>cause. notify Failure t_add_failed (JStr (errorDetail cause)))])]
          [Field [(''label'', JStr t_file_name), (''hint'', JStr t_file_name_hint)]
             [TextInput [(''name'', JStr ''name''), (''placeholder'', JStr ''custom.sources''),
                         (''required'', JBool True)]
                []],
           Field [(''label'', JStr t_source_content)]
             [TextArea [(''name'', JStr ''content''), (''rows'', JNum 6),
                        (''placeholder'', JStr ''deb https://... stable main''),
                        (''required'', JBool True)]
                []],
           El ''div'' [(''className'', JStr ''form-actions'')] []
             [Button [] [(''onClick'', \<lambda>ev. perform Close_modal)] [Txt t_cancel],
              Button [(''type'', JStr ''submit''), (''tone'', JStr ''primary'')] [] [Txt t_add]]]]"

definition Updates_view :: "route \<Rightarrow> Updates_state \<Rightarrow> Updates_state vnode" where
  "Updates_view route st =
     El ''div'' [(''className'', JStr ''page-stack'')] []
       ([PageHeader route (JBool (Updates_loading st)) (Some (\<lambda>ev. Updates_reload st)) []] @
        (if Updates_error st \<noteq> []
           then [ErrorState (JStr (Updates_error st)) (\<lambda>ev. Updates_reload st)]
         else ((if fld (Updates_preflight st) ''available'' = JBool False
                  then [El ''div'' [(''className'', JStr ''notice warning'')] [] [Txt t_apt_missing]]
                else []) @
               (if truthy (fld (Updates_preflight st) ''locked'')
                  then [El ''div'' [(''className'', JStr ''notice warning'')] []
                          [Txt t_apt_busy_by,
                           Txt (text_or (fld (Updates_preflight st) ''lock_detail'') t_refresh_later)]]
                else []) @
               (if truthy (fld (Updates_preflight st) ''reboot_required'')
                  then [El ''div'' [(''className'', JStr ''notice warning'')] []
                          [Txt t_reboot_required]]
                else []) @
               [El ''section'' [(''className'', JStr ''metric-grid small'')] []
                  [Metric [(''title'', JStr t_upgradable),
                           (''value'',
                            JStr (text_or (fld (Updates_preflight st) ''upgrade_count'') ''0'')),
                           (''detail'', JStr t_packages_unit), (''icon'', JStr ''package''),
                           (''tone'',
                            JStr (if number (fld (Updates_preflight st) ''upgrade_count'') \<noteq> 0
                                    then ''warning''
                                  else ''normal''))],
                   Metric [(''title'', JStr t_newly_installed),
                           (''value'',
                            JStr (text_or (fld (Updates_preflight st) ''install_count'') ''0'')),
                           (''detail'', JStr t_newly_installed_sub),
                           (''icon'', JStr ''plus''),
                           (''tone'',
                            JStr (if number (fld (Updates_preflight st) ''install_count'') \<noteq> 0
                                    then ''warning''
                                  else ''normal''))],
                   Metric [(''title'', JStr t_to_remove),
                           (''value'',
                            JStr (text_or (fld (Updates_preflight st) ''remove_count'') ''0'')),
                           (''detail'', JStr t_to_remove_sub), (''icon'', JStr ''trash''),
                           (''tone'',
                            JStr (if number (fld (Updates_preflight st) ''remove_count'') \<noteq> 0
                                    then ''danger''
                                  else ''normal''))],
                   Metric
                     [(''title'', JStr t_expected_download),
                      (''value'',
                       JStr (formatBytes (fld (Updates_preflight st) ''download_bytes''))),
                      (''detail'',
                       JStr (t_disk_change @
                             formatBytes
                               (JNum (\<bar>number (fld (Updates_preflight st) ''disk_delta_bytes'') \<bar>)))),
                      (''icon'', JStr ''download'')]],
                Card []
                  ([SectionTitle
                      [(''title'', JStr t_system_update), (''subtitle'', JStr t_system_update_sub)]
                      [Button [(''busy'', JBool (Updates_working st)),
                               (''disabled'', JBool (Updates_aptBlocked st)),
                               (''icon'', JStr ''download'')]
                         [(''onClick'', \<lambda>ev. Updates_action st ''download'' [])]
                         [Txt t_download_only],
                       Button [(''busy'', JBool (Updates_working st)),
                               (''disabled'', JBool (Updates_aptBlocked st)),
                               (''tone'', JStr ''primary''), (''icon'', JStr ''package'')]
                         [(''onClick'', \<lambda>ev. Updates_action st ''upgrade'' [])] [Txt t_run_upgrade]]] @
                   (if is_array (fld (Updates_preflight st) ''packages'') \<and>
                       truthy (fld (fld (Updates_preflight st) ''packages'') ''length'')
                      then [Terminal [] [Txt (join_with nl
                                                (map array_text (array_of (fld (Updates_preflight st)
                                                                             ''packages''))))]]
                    else [El ''p'' [(''className'', JStr ''muted'')] [] [Txt t_no_pending_updates]]) @
                   (if truthy (fld (Updates_preflight st) ''output'')
                      then [JsonDetails [(''data'',
                                          JObj [(''output'', fld (Updates_preflight st) ''output'')]),
                                         (''title'', JStr t_apt_raw_output)]]
                    else [])),
                Card []
                  [SectionTitle
                     [(''title'', JStr t_search_packages), (''subtitle'', JStr t_two_chars)] [],
                   El ''form'' [(''className'', JStr ''search-form'')]
                     [(''onSubmit'', \<lambda>ev. steps [perform Prevent_default, Updates_find st])]
                     [El ''div'' [(''className'', JStr ''search-box grow'')] []
                        [Icon [(''name'', JStr ''search''), (''size'', JNum 17)],
                         El ''input'' [(''value'', JStr (Updates_search st)),
                                       (''placeholder'', JStr t_package_example)]
                           [(''onChange'',
                             \<lambda>ev. set_state (\<lambda>s. s\<lparr>Updates_search := jstring (fld ev ''value'')\<rparr>))]
                           []],
                      Button [(''type'', JStr ''submit''), (''tone'', JStr ''primary''),
                              (''busy'', JBool (Updates_working st)),
                              (''disabled'',
                               JBool (fld (Updates_preflight st) ''available'' = JBool False))]
                        [] [Txt t_search]],
                   El ''div'' [(''className'', JStr ''package-list'')] []
                     (map (\<lambda>item.
                             El ''div''
                               [(''className'', JStr ''package-row''), (''key'', fld item ''name'')] []
                               [El ''div'' [] []
                                  [El ''strong'' [] [] (child (fld item ''name'')),
                                   El ''p'' [] [] [Txt (js_text (fld item ''description''))],
                                   El ''small'' [] [] [Txt (js_text (jor (fld item ''version'')
                                                                       (fld item ''candidate'')))]],
                                El ''div'' [] []
                                  (if truthy (fld item ''installed'')
                                     then [Button [(''tone'', JStr ''danger''),
                                                   (''disabled'', JBool (Updates_aptBlocked st))]
                                             [(''onClick'',
                                               \<lambda>ev. Updates_action st ''remove'' [fld item ''name''])]
                                             [Txt t_uninstall]]
                                   else [Button [(''tone'', JStr ''primary''),
                                                 (''disabled'', JBool (Updates_aptBlocked st))]
                                           [(''onClick'',
                                             \<lambda>ev. Updates_action st ''install'' [fld item ''name''])]
                                           [Txt t_install]])])
                        (Updates_results st))],
                Card []
                  ([SectionTitle [(''title'', JStr t_sources), (''subtitle'', JStr t_sources_sub)]
                      [Button [(''tone'', JStr ''primary''), (''icon'', JStr ''plus''),
                               (''disabled'',
                                JBool (fld (Updates_preflight st) ''available'' = JBool False))]
                         [(''onClick'', \<lambda>ev. Updates_addSource st)] [Txt t_add_source]]] @
                   (if length (Updates_sources st) \<noteq> 0
                      then [El ''div'' [(''className'', JStr ''card-list compact-list'')] []
                              (map (\<lambda>source.
                                      El ''div'' [(''className'', JStr ''source-row''),
                                                  (''key'', fld source ''path'')]
                                        [] [El ''div'' [] []
                                              [El ''strong'' [] []
                                                 [Txt (js_text (jor (fld source ''name'')
                                                                  (fld source ''path'')))],
                                               El ''code'' [] [] [Txt (js_text (fld source ''path''))],
                                               El ''small'' [] []
                                                 [Txt (truncate_text (fld source ''content'') 180)]],
                                            El ''div'' [(''className'', JStr ''row-buttons'')] []
                                              [Badge [(''tone'',
                                                       JStr (if truthy (fld source ''enabled'')
                                                               then ''success''
                                                             else ''neutral''))]
                                                 [Txt (boolText (fld source ''enabled''))],
                                               Button [(''tone'', JStr ''ghost'')]
                                                 [(''onClick'',
                                                   \<lambda>ev.
                                                     Updates_sourceAction st
                                                       (if truthy (fld source ''enabled'')
                                                          then ''disable''
                                                        else ''enable'')
                                                       source)]
                                                 [Txt (if truthy (fld source ''enabled'')
                                                         then t_disable
                                                       else t_enable)],
                                               Button [(''tone'', JStr ''danger''),
                                                       (''icon'', JStr ''trash'')]
                                                 [(''onClick'',
                                                   \<lambda>ev. Updates_sourceAction st ''delete'' source)]
                                                 [Txt t_delete]]])
                                 (Updates_sources st))]
                    else [EmptyState [(''icon'', JStr ''package''), (''title'', JStr t_no_sources)] []]))])))"

subsection \<open>The page keeps the rules\<close>

text \<open>Installing, removing and upgrading software and deleting a source count as destructive.\<close>

definition changes_software :: "request \<Rightarrow> bool" where
  "changes_software r \<longleftrightarrow> changing r \<and>
     (req_url r = ''/api/v1/system/apt/download'' \<or> req_url r = ''/api/v1/system/apt/upgrade'' \<or>
      req_url r = ''/api/v1/system/apt/package'' \<or>
      req_url r = ''/api/v1/system/apt/sources'' \<and> body_fld r ''action'' = JStr ''delete'')"

lemma changes_software_mk [simp]:
  "changes_software (mk_request url i tok) \<longleftrightarrow> sends_change i \<and>
     (url = ''/api/v1/system/apt/download'' \<or> url = ''/api/v1/system/apt/upgrade'' \<or>
      url = ''/api/v1/system/apt/package'' \<or>
      url = ''/api/v1/system/apt/sources'' \<and> init_fld i ''action'' = JStr ''delete'')"
  by (simp add: changes_software_def)

lemma Updates_reload_wp [io_rules]:
  assumes "\<And>s'. Q JUndef g s'"
    and "\<And>tok. \<not> P (mk_request ''/api/v1/system/apt/preflight'' empty_init tok)"
    and "\<And>tok. \<not> P (mk_request ''/api/v1/system/apt/sources'' empty_init tok)"
  shows "wp (w_ok P) w_upd (Updates_reload st) Q E g s"
  unfolding Updates_reload_def io_simps
  by (rule wp_promise_all) (auto simp: io_simps Let_def assms intro!: wp_get_quiet)

lemma Updates_reload_shows [simp]: "shows_ok R (Updates_reload st)"
  by (simp add: Updates_reload_def)

lemma Updates_reload_safe [simp]: "safe changes_software (Updates_reload st)"
  by (rule safeI) (auto intro!: Updates_reload_wp)


lemma Updates_find_wp [io_rules]:
  assumes "\<And>s'. Q JUndef g s'" and "\<And>url tok. \<not> P (mk_request url empty_init tok)" and "\<not> w_failed g"
  shows "wp (w_ok P) w_upd (Updates_find st) Q E g s"
  using assms by (auto simp: Updates_find_def io_simps intro!: wp_api)

lemma Updates_find_shows [simp]: "shows_ok R (Updates_find st)"
  by (simp add: Updates_find_def)

lemma Updates_find_safe [simp]: "safe changes_software (Updates_find st)"
  by (rule safeI) (auto intro!: Updates_find_wp)

lemma Updates_action_shows [simp]: "shows_ok R (Updates_action st name packages)"
  by (simp add: Updates_action_def Let_def)

lemma Updates_action_ends:
  "behaves changes_software (\<lambda>s. True) (Updates_action st name packages)"
  by (rule behavesI)
     (auto simp: Updates_action_def Let_def io_simps 
       intro!: wp_secureApi Updates_reload_wp Updates_find_wp)

lemma Updates_action_safe [simp]: "safe changes_software (Updates_action st name packages)"
  by (simp add: handler_ok_def Updates_action_ends)

lemma Updates_sourceAction_safe [simp]: "safe changes_software (Updates_sourceAction st name source)"
  by (rule safeI) (auto simp: Updates_sourceAction_def io_simps intro!: io_rules)

lemma Updates_addSource_safe [simp]: "safe changes_software (Updates_addSource st)"
  by (auto simp: Updates_addSource_def Let_def io_simps intro!: safeI io_rules)

interpretation updates: page "Updates_view route" changes_software
  by unfold_locales (auto simp: Updates_view_def io_simps intro!: safeI Updates_find_wp)

text \<open>Rules of interaction of the software page. Take any handler the page, or a dialog opened from it, offers in any state, and any run of it (any answers, other handlers in between): a request that installs, removes or upgrades packages or deletes a source is sent only after the user confirmed it; a success message appears only after the server acknowledged a change; the handler never ends in an exception; and when it ends, a refused change has been reported.\<close>

theorem updates_rules:
  assumes "offered (Updates_view route) m" and "run m as s = (tr, out, s')" and "legal tr"
  shows "guarded_trace changes_software tr \<and> honest_trace tr \<and> (\<forall>c. out \<noteq> Failed c) \<and>
    (out \<noteq> Suspended \<longrightarrow> \<not> silent_failure tr)"
  by (rule updates.rules_kept [OF assms])

theorem updates_rules_witness:
  "let r = run_alone (Updates_action Updates_init ''upgrade'' []) yes_but_down Updates_init
   in length (requests (dids (events r))) = 1 \<and> guarded_trace changes_software (events r) \<and> \<not> silent_failure (events r)"
proof -
  let ?m = "Updates_action Updates_init ''upgrade'' []" and ?s = "Updates_init"
  let ?r = "run_alone ?m yes_but_down ?s"
  have "offered (Updates_view sample_route) ?m"
    by (rule offered_handler [of "''onClick''" "\<lambda>ev. ?m" _ ?s])
       (auto simp: Updates_view_def Updates_init_def)
  moreover have "legal (events ?r) \<and> length (requests (dids (events ?r))) = 1 \<and> fst (snd ?r) \<noteq> Suspended"
    by (simp add: Updates_action_def Updates_aptBlocked_def Updates_init_def yes_but_down_def run_ops)
  ultimately show ?thesis
    using updates_rules [OF _ run_alone_split] by (simp add: Let_def)
qed

end
