(* ===== verification/Host_Page.thy ===== *)
theory Host_Page imports Page_Base begin

text \<open>
  The host settings, \<open>web/assets/app.js\<close>, lines 1045 to 1164: host name, time zone, DNS, NTP, swap
  and kernel presets.
\<close>

record Host_state =
  Host_data :: json
  Host_ntp :: json
  Host_loading :: bool
  Host_working :: bool
  Host_error :: string

definition Host_init :: Host_state where
  "Host_init = \<lparr>Host_data = JObj [], Host_ntp = JObj [], Host_loading = True, Host_working = False,
         Host_error = []\<rparr>"

definition Host_reload :: "Host_state \<Rightarrow> Host_state io" where
  "Host_reload st =
     steps [set_state (\<lambda>s. s\<lparr>Host_loading := True\<rparr>), set_state (\<lambda>s. s\<lparr>Host_error := []\<rparr>),
            try_finally (try_catch (bnd (promise_all [api ''/api/v1/system/host'' empty_init,
                                                      api ''/api/v1/system/host/ntp'' empty_init])
                                      (\<lambda>r1.
                                         let host = idx r1 0;
                                             ntpData = idx r1 1
                                         in steps [set_state (\<lambda>s. s\<lparr>Host_data := asObject host\<rparr>),
                                                   set_state (\<lambda>s. s\<lparr>Host_ntp := asObject ntpData\<rparr>)]))
                           (\<lambda>cause. set_state (\<lambda>s. s\<lparr>Host_error := errorDetail cause\<rparr>)))
              (set_state (\<lambda>s. s\<lparr>Host_loading := False\<rparr>))]"

definition Host_effect :: "Host_state \<Rightarrow> Host_state io" where
  "Host_effect st = Host_reload st"

definition Host_mutate :: "Host_state \<Rightarrow> string \<Rightarrow> json \<Rightarrow> string \<Rightarrow> Host_state io" where
  "Host_mutate st endpoint body0 success =
     steps [set_state (\<lambda>s. s\<lparr>Host_working := True\<rparr>),
            try_finally (try_catch (steps [secureApi (''/api/v1/system/host/'' @ endpoint)
                                             (with_body ''POST'' (jsonBody body0)),
                                           notify Success success JUndef, Host_reload st])
                           (\<lambda>cause. notify Failure t_change_failed (JStr (errorDetail cause))))
              (set_state (\<lambda>s. s\<lparr>Host_working := False\<rparr>))]"

definition Host_deleteSwap :: "Host_state \<Rightarrow> Host_state io" where
  "Host_deleteSwap st =
     (if \<not> truthy (fld (fld (Host_data st) ''swap'') ''managed'')
        then notify Warning t_swap_not_managed JUndef
      else bnd (confirm_io t_delete_swap t_delete_swap_detail t_delete_swap True)
             (\<lambda>r2.
                if \<not> truthy r2 then skip
                else steps
                       [set_state (\<lambda>s. s\<lparr>Host_working := True\<rparr>),
                        try_finally
                          (try_catch
                             (steps [secureApi ''/api/v1/system/host/swap'' (no_body ''DELETE''),
                                     notify Success t_swap_deleted JUndef, Host_reload st])
                             (\<lambda>cause. notify Failure t_delete_swap_failed (JStr (errorDetail cause))))
                          (set_state (\<lambda>s. s\<lparr>Host_working := False\<rparr>))]))"

definition Host_view :: "route \<Rightarrow> Host_state \<Rightarrow> Host_state vnode" where
  "Host_view route st =
     El ''div'' [(''className'', JStr ''page-stack'')] []
       ([PageHeader route (JBool (Host_loading st)) (Some (\<lambda>ev. Host_reload st)) []] @
        (if Host_error st \<noteq> [] then [ErrorState (JStr (Host_error st)) (\<lambda>ev. Host_reload st)]
         else if Host_loading st \<and> length (obj_keys (Host_data st)) = 0 then [LoadingState 4]
         else [El ''div'' [(''className'', JStr ''settings-grid'')] []
                 [Card []
                    [SectionTitle
                       [(''title'', JStr t_basic_info), (''subtitle'', JStr t_basic_info_sub)] [],
                     El ''form'' [(''key'',
                                   JStr (jstring (fld (Host_data st) ''hostname'') @ ''|'' @
                                         jstring (fld (Host_data st) ''timezone''))),
                                  (''className'', JStr ''form-stack'')]
                       [(''onSubmit'',
                         \<lambda>ev.
                           steps
                             [perform Prevent_default,
                              let values = fld ev ''form''
                              in steps
                                   [set_state (\<lambda>s. s\<lparr>Host_working := True\<rparr>),
                                    try_finally
                                      (try_catch
                                         (let hostname = form_get values ''hostname''
                                          in let timezone = form_get values ''timezone''
                                             in steps
                                                  [if hostname \<noteq> fld (Host_data st) ''hostname''
                                                     then secureApi ''/api/v1/system/host/hostname''
                                                            (with_body ''POST''
                                                               (jsonBody
                                                                  (JObj [(''hostname'', hostname)])))
                                                   else skip,
                                                   if timezone \<noteq> fld (Host_data st) ''timezone''
                                                     then secureApi ''/api/v1/system/host/timezone''
                                                            (with_body ''POST''
                                                               (jsonBody
                                                                  (JObj [(''timezone'', timezone)])))
                                                   else skip,
                                                   notify Success t_basic_updated JUndef,
                                                   Host_reload st])
                                         (\<lambda>cause.
                                            notify Failure t_change_failed (JStr (errorDetail cause))))
                                      (set_state (\<lambda>s. s\<lparr>Host_working := False\<rparr>))]])]
                       [Field [(''label'', JStr t_hostname)]
                          [TextInput [(''name'', JStr ''hostname''),
                                      (''defaultValue'',
                                       JStr (text_or (fld (Host_data st) ''hostname'') [])),
                                      (''required'', JBool True)]
                             []],
                        Field [(''label'', JStr t_timezone)]
                          [TextInput [(''name'', JStr ''timezone''),
                                      (''defaultValue'',
                                       JStr (text_or (fld (Host_data st) ''timezone'') ''UTC'')),
                                      (''required'', JBool True)]
                             []],
                        Button [(''type'', JStr ''submit''), (''tone'', JStr ''primary''),
                                (''busy'', JBool (Host_working st))]
                          [] [Txt t_save_basic]]],
                  Card []
                    ([SectionTitle [(''title'', JStr t_dns_servers),
                                    (''subtitle'',
                                     JStr (if truthy (fld (Host_data st) ''systemd_resolved'')
                                             then t_dns_managed
                                           else t_dns_unmanaged))]
                        []] @
                     (if \<not> truthy (fld (Host_data st) ''systemd_resolved'')
                        then [El ''div'' [(''className'', JStr ''notice warning'')] []
                                [Txt t_dns_unavailable]]
                      else []) @
                     [El ''form'' [(''key'', stringify (jor (fld (Host_data st) ''dns'') (JArr []))),
                                   (''className'', JStr ''form-stack'')]
                        [(''onSubmit'',
                          \<lambda>ev.
                            steps [perform Prevent_default,
                                   let values = fld ev ''form''
                                   in Host_mutate st ''dns''
                                        (JObj [(''servers'',
                                                JArr (map JStr (lines (jstring (jor (form_get values
                                                                                       ''servers'')
                                                                                  (JStr []))))))])
                                        t_dns_updated])]
                        [Field [(''label'', JStr t_dns_address)]
                           [TextArea
                              [(''name'', JStr ''servers''), (''rows'', JNum 5),
                               (''defaultValue'',
                                JStr (if is_array (fld (Host_data st) ''dns'')
                                        then join_with nl
                                               (map array_text (array_of (fld (Host_data st) ''dns'')))
                                      else text_or (fld (Host_data st) ''dns'') [])),
                               (''placeholder'', JStr (''1.1.1.1'' @ nl @ ''8.8.8.8'')),
                               (''disabled'',
                                JBool (\<not> truthy (fld (Host_data st) ''systemd_resolved'')))]
                              []],
                         Button [(''type'', JStr ''submit''), (''tone'', JStr ''primary''),
                                 (''busy'', JBool (Host_working st)),
                                 (''disabled'',
                                  JBool (\<not> truthy (fld (Host_data st) ''systemd_resolved'')))]
                           [] [Txt t_save_dns]]]),
                  Card []
                    [SectionTitle
                       [(''title'', JStr t_ntp_sync), (''subtitle'', JStr t_ntp_sync_sub)] [],
                     El ''dl'' [(''className'', JStr ''key-value-list'')] []
                       [KeyValue [(''label'', JStr t_service)]
                          [Txt (js_text (fld (Host_ntp st) ''service''))],
                        KeyValue [(''label'', JStr t_status)]
                          [Badge [(''tone'',
                                   JStr (if truthy (fld (Host_ntp st) ''synchronized'')
                                           then ''success''
                                         else if truthy (fld (Host_ntp st) ''enabled'') then ''warning''
                                         else ''neutral''))]
                             [Txt (if truthy (fld (Host_ntp st) ''synchronized'') then t_synced
                                   else if truthy (fld (Host_ntp st) ''enabled'') then t_waiting_sync
                                   else t_turned_off)]],
                        KeyValue [(''label'', JStr t_server)]
                          [Txt (js_text (jor (fld (Host_ntp st) ''server_name'')
                                           (fld (Host_ntp st) ''server_address'')))],
                        KeyValue [(''label'', JStr t_server_address), (''mono'', JBool True)]
                          [Txt (js_text (fld (Host_ntp st) ''server_address''))],
                        KeyValue [(''label'', JStr t_last_sync)]
                          [Txt (js_text (fld (Host_ntp st) ''last_sync''))],
                        KeyValue [(''label'', JStr t_poll_interval)]
                          [Txt (js_text (fld (Host_ntp st) ''poll_interval''))],
                        KeyValue [(''label'', JStr t_timezone)]
                          [Txt (js_text (jor (fld (Host_ntp st) ''timezone'')
                                           (fld (Host_data st) ''timezone'')))]],
                     El ''div'' [(''className'', JStr ''row-buttons'')] []
                       [Button [(''busy'', JBool (Host_loading st))]
                          [(''onClick'', \<lambda>ev. Host_reload st)] [Txt t_refresh_status],
                        Button [(''tone'', JStr ''ghost''), (''busy'', JBool (Host_working st))]
                          [(''onClick'',
                            \<lambda>ev.
                              Host_mutate st ''ntp''
                                (JObj
                                   [(''enabled'', JBool (\<not> truthy (fld (Host_ntp st) ''enabled'')))])
                                (if truthy (fld (Host_ntp st) ''enabled'') then t_ntp_off
                                 else t_ntp_on))]
                          [Txt (if truthy (fld (Host_ntp st) ''enabled'') then t_disable_ntp
                                else t_enable_ntp)]]],
                  Card []
                    ([SectionTitle [(''title'', JStr ''Swap''), (''subtitle'', JStr t_swap_sub)] [],
                      El ''dl'' [(''className'', JStr ''key-value-list'')] []
                        [KeyValue [(''label'', JStr t_status)]
                           [Badge [(''tone'',
                                    JStr (if truthy (fld (fld (Host_data st) ''swap'') ''enabled'')
                                            then ''success''
                                          else ''neutral''))]
                              [Txt (if truthy (fld (fld (Host_data st) ''swap'') ''enabled'')
                                      then t_enabled
                                    else t_not_enabled)]],
                         KeyValue [(''label'', JStr t_total_capacity)]
                           [Txt (formatBytes (fld (fld (Host_data st) ''swap'') ''total''))],
                         KeyValue [(''label'', JStr t_used)]
                           [Txt (formatBytes (fld (fld (Host_data st) ''swap'') ''used''))],
                         KeyValue [(''label'', JStr t_path), (''mono'', JBool True)]
                           [Txt (js_text (fld (fld (Host_data st) ''swap'') ''path''))],
                         KeyValue [(''label'', JStr t_managed_by_panel)]
                           [Txt (boolText_or (fld (fld (Host_data st) ''swap'') ''managed'') t_yes
                                   t_no)]],
                      El ''form'' [(''className'', JStr ''inline-form'')]
                        [(''onSubmit'',
                          \<lambda>ev.
                            steps [perform Prevent_default,
                                   let values = fld ev ''form''
                                   in Host_mutate st ''swap''
                                        (JObj [(''size_mb'',
                                                JNum (number_or (form_get values ''size_mb'') 2048))])
                                        t_swap_created])]
                        [TextInput [(''name'', JStr ''size_mb''), (''type'', JStr ''number''),
                                    (''min'', JStr ''256''), (''max'', JStr ''32768''),
                                    (''step'', JStr ''256''), (''defaultValue'', JStr ''2048''),
                                    (''aria-label'', JStr t_swap_size),
                                    (''disabled'',
                                     JBool (truthy (fld (fld (Host_data st) ''swap'') ''enabled'')))]
                           [],
                         Button [(''type'', JStr ''submit''), (''tone'', JStr ''primary''),
                                 (''busy'', JBool (Host_working st)),
                                 (''disabled'',
                                  JBool (truthy (fld (fld (Host_data st) ''swap'') ''enabled'')))]
                           [] [Txt t_create_swap],
                         Button [(''tone'', JStr ''danger''), (''busy'', JBool (Host_working st)),
                                 (''disabled'',
                                  JBool (\<not> truthy (fld (fld (Host_data st) ''swap'') ''managed'')))]
                           [(''onClick'', \<lambda>ev. Host_deleteSwap st)] [Txt t_delete]]] @
                     (if truthy (fld (fld (Host_data st) ''swap'') ''enabled'') \<and>
                         \<not> truthy (fld (fld (Host_data st) ''swap'') ''managed'')
                        then [El ''div'' [(''className'', JStr ''notice'')] [] [Txt t_swap_foreign]]
                      else [])),
                  Card [(''className'', JStr ''span-2'')]
                    [SectionTitle
                       [(''title'', JStr t_kernel_tuning), (''subtitle'', JStr t_kernel_tuning_sub)] [],
                     El ''dl'' [(''className'', JStr ''key-value-list'')] []
                       [KeyValue [(''label'', JStr t_current_preset)]
                          [Txt (text_or (fld (fld (Host_data st) ''sysctl'') ''label'')
                                  t_system_default)],
                        KeyValue [(''label'', JStr t_by_panel)]
                          [Txt (boolText_or (fld (fld (Host_data st) ''sysctl'') ''managed'') t_yes
                                  t_no)],
                        KeyValue [(''label'', JStr ''BBR'')]
                          [Txt (boolText_or (fld (fld (Host_data st) ''sysctl'') ''bbr'') t_enabled
                                  t_not_enabled)],
                        KeyValue [(''label'', JStr t_congestion), (''mono'', JBool True)]
                          [Txt (js_text (fld (fld (Host_data st) ''sysctl'') ''congestion_control''))],
                        KeyValue [(''label'', JStr t_default_queue), (''mono'', JBool True)]
                          [Txt (js_text (fld (fld (Host_data st) ''sysctl'') ''default_qdisc''))],
                        KeyValue [(''label'', JStr ''Swappiness'')]
                          [Txt (js_text (fld (fld (Host_data st) ''sysctl'') ''swappiness''))]],
                     El ''form'' [(''className'', JStr ''inline-form'')]
                       [(''onSubmit'',
                         \<lambda>ev.
                           steps [perform Prevent_default,
                                  let values = fld ev ''form''
                                  in Host_mutate st ''sysctl''
                                       (JObj [(''preset'', form_get values ''preset'')])
                                       t_tuning_applied])]
                       [SelectInput
                          [(''key'',
                            JStr (text_or (fld (fld (Host_data st) ''sysctl'') ''preset'') ''reset'')),
                           (''name'', JStr ''preset''),
                           (''defaultValue'',
                            JStr (text_or (fld (fld (Host_data st) ''sysctl'') ''preset'') ''reset''))]
                          []
                          [El ''option'' [(''value'', JStr ''reset'')] [] [Txt t_preset_reset],
                           El ''option'' [(''value'', JStr ''balanced'')] [] [Txt t_preset_balanced],
                           El ''option'' [(''value'', JStr ''network'')] [] [Txt t_preset_network],
                           El ''option'' [(''value'', JStr ''low-memory'')] []
                             [Txt t_preset_low_memory]],
                        Button [(''type'', JStr ''submit''), (''tone'', JStr ''primary''),
                                (''busy'', JBool (Host_working st))]
                          [] [Txt t_apply_preset]]]]]))"

subsection \<open>The page keeps the rules\<close>

text \<open>Deleting the swap file is the destructive request of this page.\<close>

definition deletes_swap :: "request \<Rightarrow> bool" where
  "deletes_swap r \<longleftrightarrow> req_method r = ''DELETE''"

lemma deletes_swap_mk [simp]: "deletes_swap (mk_request url i tok) \<longleftrightarrow> method_of i = ''DELETE''"
  by (simp add: deletes_swap_def)

lemma Host_reload_wp [io_rules]:
  assumes "\<And>s'. Q JUndef g s'"
    and "\<And>tok. \<not> P (mk_request ''/api/v1/system/host'' empty_init tok)"
    and "\<And>tok. \<not> P (mk_request ''/api/v1/system/host/ntp'' empty_init tok)"
  shows "wp (w_ok P) w_upd (Host_reload st) Q E g s"
  unfolding Host_reload_def io_simps
  by (rule wp_promise_all) (auto simp: io_simps Let_def assms intro!: wp_get_quiet)

lemma Host_reload_shows [simp]: "shows_ok R (Host_reload st)"
  by (simp add: Host_reload_def)

lemma Host_reload_safe [simp]: "safe deletes_swap (Host_reload st)"
  by (rule safeI) (auto intro!: Host_reload_wp)


lemma Host_mutate_shows [simp]: "shows_ok R (Host_mutate st endpoint b t)"
  by (simp add: Host_mutate_def)

lemma Host_mutate_wp [io_rules]:
  assumes "\<And>h s'. \<not> w_failed h \<Longrightarrow> Q JUndef h s'" and "\<not> w_failed g"
  shows "wp (w_ok deletes_swap) w_upd (Host_mutate st endpoint b t) Q E g s"
  using assms by (auto simp: Host_mutate_def io_simps intro!: io_rules)

lemma Host_mutate_safe [simp]: "safe deletes_swap (Host_mutate st endpoint b t)"
  by (rule safeI) (auto intro!: Host_mutate_wp)

lemma Host_deleteSwap_safe [simp]: "safe deletes_swap (Host_deleteSwap st)"
  by (rule safeI) (auto simp: Host_deleteSwap_def io_simps intro!: io_rules)

interpretation host: lax_page "Host_view route" deletes_swap
  by unfold_locales
     (auto simp: Host_view_def Let_def io_simps safe_imp_lax intro!: safe_laxI Host_mutate_wp io_rules)

definition sample_host :: Host_state where
  "sample_host = Host_init\<lparr>Host_data := JObj [(''hostname'', JStr ''web''), (''timezone'', JStr ''UTC''),
     (''swap'', JObj [(''managed'', JBool True)])]\<rparr>"

text \<open>Rules of interaction of the host page. Take any handler it offers and any run of it: the request that deletes the swap file is sent only after the user confirmed it, the handler never ends in an exception, and when it ends a refused change has been reported. (Its success messages are the subject of the next property.)\<close>

theorem host_rules:
  assumes "offered (Host_view route) m" and "run m as s = (tr, out, s')" and "legal tr"
  shows "guarded_trace deletes_swap tr \<and> (\<forall>c. out \<noteq> Failed c) \<and>
    (out \<noteq> Suspended \<longrightarrow> \<not> silent_failure tr)"
  by (rule host.most_rules_kept [OF assms])

theorem host_rules_witness:
  "let r = run_alone (Host_deleteSwap sample_host) yes_but_down sample_host
   in length (requests (dids (events r))) = 1 \<and> guarded_trace deletes_swap (events r) \<and> \<not> silent_failure (events r)"
proof -
  let ?m = "Host_deleteSwap sample_host" and ?s = "sample_host"
  let ?r = "run_alone ?m yes_but_down ?s"
  have "offered (Host_view sample_route) ?m"
    by (rule offered_handler [of "''onClick''" "\<lambda>ev. ?m" _ ?s])
       (auto simp: Host_view_def sample_host_def Host_init_def Let_def)
  moreover have "legal (events ?r) \<and> length (requests (dids (events ?r))) = 1 \<and> fst (snd ?r) \<noteq> Suspended"
    by (simp add: Host_deleteSwap_def sample_host_def yes_but_down_def run_ops)
  ultimately show ?thesis
    using host_rules [OF _ run_alone_split] by (simp add: Let_def)
qed

text \<open>The form of the basic settings announces that they were updated although no request was sent:
  submitted with the host name and the time zone the page shows, it sends nothing and reports success.\<close>

theorem host_claims_success:
  "\<exists>m as tr out s'. offered (Host_view sample_route) m \<and> run m as sample_host = (tr, out, s') \<and> legal tr \<and>
     (\<forall>r a. Did (Fetch r) a \<notin> set tr) \<and> Did (Notify Success t_basic_updated JUndef) (AVal JUndef) \<in> set tr \<and>
     \<not> honest_trace tr"
proof -
  let ?ev = "JObj [(''form'', JObj [(''hostname'', JStr ''web''), (''timezone'', JStr ''UTC'')])]"
  let ?tr = "[Did Prevent_default (AVal JUndef), Did (Notify Success t_basic_updated JUndef) (AVal JUndef)]"
  have "\<exists>f. (''onSubmit'', f) \<in> set (handlers_of (Host_view sample_route sample_host)) \<and>
      run (f ?ev) (map (\<lambda>a. (a, \<lambda>s. s)) [AVal JUndef, AVal JUndef]) sample_host =
      (?tr, Suspended, sample_host\<lparr>Host_working := True\<rparr>)"
    by (simp add: Host_view_def sample_host_def Host_init_def ex_disj_distrib conj_disj_distribR run_ops form_get_def
      Host_reload_def promise_all_def)
  then obtain f where f: "(''onSubmit'', f) \<in> set (handlers_of (Host_view sample_route sample_host))"
    and run: "run (f ?ev) (map (\<lambda>a. (a, \<lambda>s. s)) [AVal JUndef, AVal JUndef]) sample_host =
      (?tr, Suspended, sample_host\<lparr>Host_working := True\<rparr>)"
    by blast
  let ?as = "map (\<lambda>a. (a, \<lambda>s. s)) [AVal JUndef, AVal JUndef] :: (answer \<times> (Host_state \<Rightarrow> Host_state)) list"
  have "\<not> honest_trace ?tr"
    unfolding honest_trace_def by (auto simp: acknowledges_def intro!: exI [of _ "[Did Prevent_default (AVal JUndef)]"])
  moreover have "legal ?tr" by simp
  ultimately show ?thesis
    using offered_handler [where view = "Host_view sample_route", OF f, of ?ev] run
    by (intro exI [of _ "f ?ev"] exI [of _ ?as] exI [of _ ?tr] exI conjI) auto
qed

end
