(* ===== verification/Snapshots_Page.thy ===== *)
theory Snapshots_Page imports Page_Base begin

text \<open>
  Snapshots and backups, \<open>web/assets/app.js\<close>, lines 1165 to 1280. The file input of the import is cleared before
  \<open>importFile\<close> is started; the code clears it once \<open>importFile\<close> waits for its confirmation.
\<close>

record Snapshots_state =
  Snapshots_data :: json
  Snapshots_scheduled :: json
  Snapshots_loading :: bool
  Snapshots_working :: bool
  Snapshots_error :: string

definition Snapshots_init :: Snapshots_state where
  "Snapshots_init = \<lparr>Snapshots_data = JObj [], Snapshots_scheduled = JObj [], Snapshots_loading = True,
              Snapshots_working = False, Snapshots_error = []\<rparr>"

definition Snapshots_reload :: "Snapshots_state \<Rightarrow> Snapshots_state io" where
  "Snapshots_reload st =
     steps [set_state (\<lambda>s. s\<lparr>Snapshots_loading := True\<rparr>),
            set_state (\<lambda>s. s\<lparr>Snapshots_error := []\<rparr>),
            try_finally
              (try_catch
                 (bnd (promise_all [api ''/api/v1/system/snapshots'' empty_init,
                                    api ''/api/v1/backup/scheduled'' empty_init])
                    (\<lambda>r1.
                       let snapshots = idx r1 0;
                           scheduledBackups = idx r1 1
                       in steps [set_state (\<lambda>s. s\<lparr>Snapshots_data := asObject snapshots\<rparr>),
                                 set_state (\<lambda>s. s\<lparr>Snapshots_scheduled := asObject scheduledBackups\<rparr>)]))
                 (\<lambda>cause. set_state (\<lambda>s. s\<lparr>Snapshots_error := errorDetail cause\<rparr>)))
              (set_state (\<lambda>s. s\<lparr>Snapshots_loading := False\<rparr>))]"

definition Snapshots_effect :: "Snapshots_state \<Rightarrow> Snapshots_state io" where
  "Snapshots_effect st = Snapshots_reload st"

definition Snapshots_snapshots :: "Snapshots_state \<Rightarrow> json list" where
  "Snapshots_snapshots st =
     listOf (Snapshots_data st) [''snapshots'', ''items'']"

definition Snapshots_scheduledBackups :: "Snapshots_state \<Rightarrow> json list" where
  "Snapshots_scheduledBackups st =
     listOf (Snapshots_scheduled st) [''backups'']"

definition Snapshots_action :: "Snapshots_state \<Rightarrow> json \<Rightarrow> string \<Rightarrow> Snapshots_state io" where
  "Snapshots_action st item operation =
     bnd (confirm_io (if operation = ''restore'' then t_restore_snapshot else t_delete_snapshot)
            (if operation = ''restore'' then t_restore_snapshot_detail else t_delete_snapshot_detail)
            (if operation = ''restore'' then t_restore else t_delete) True)
       (\<lambda>r2.
          if \<not> truthy r2 then skip
          else steps
                 [set_state (\<lambda>s. s\<lparr>Snapshots_working := True\<rparr>),
                  try_finally
                    (try_catch
                       (steps [secureApi ''/api/v1/system/snapshots''
                                 (with_body ''POST'' (jsonBody (JObj [(''id'', fld item ''id''),
                                                                      (''action'', JStr operation)]))),
                               notify Success (if operation = ''restore'' then t_snapshot_restored
                                               else t_snapshot_deleted)
                                 JUndef,
                               Snapshots_reload st])
                       (\<lambda>cause. notify Failure t_action_failed (JStr (errorDetail cause))))
                    (set_state (\<lambda>s. s\<lparr>Snapshots_working := False\<rparr>))])"

definition Snapshots_importFile :: "Snapshots_state \<Rightarrow> json \<Rightarrow> Snapshots_state io" where
  "Snapshots_importFile st file =
     bnd (confirm_io t_import_backup_title t_import_backup_detail t_import_restore True)
       (\<lambda>r3.
          if \<not> truthy r3 then skip
          else steps
                 [set_state (\<lambda>s. s\<lparr>Snapshots_working := True\<rparr>),
                  try_finally (try_catch (let form = JObj []
                                          in let form = form_append form ''file'' file
                                             in steps [secureApi ''/api/v1/backup/import''
                                                         (with_body ''POST'' (Form_body form)),
                                                       notify Success t_backup_imported JUndef])
                                 (\<lambda>cause. notify Failure t_import_failed (JStr (errorDetail cause))))
                    (set_state (\<lambda>s. s\<lparr>Snapshots_working := False\<rparr>))])"

definition Snapshots_createScheduledBackup :: "Snapshots_state \<Rightarrow> Snapshots_state io" where
  "Snapshots_createScheduledBackup st =
     steps
       [set_state (\<lambda>s. s\<lparr>Snapshots_working := True\<rparr>),
        try_finally
          (try_catch (steps [secureApi ''/api/v1/backup/scheduled''
                               (with_body ''POST'' (jsonBody (JObj [(''action'', JStr ''create'')]))),
                             notify Success t_backup_created JUndef, Snapshots_reload st])
             (\<lambda>cause. notify Failure t_backup_failed (JStr (errorDetail cause))))
          (set_state (\<lambda>s. s\<lparr>Snapshots_working := False\<rparr>))]"

definition Snapshots_deleteScheduledBackup :: "Snapshots_state \<Rightarrow> json \<Rightarrow> Snapshots_state io" where
  "Snapshots_deleteScheduledBackup st item =
     bnd (confirm_io t_delete_backup (js_text (fld item ''name'')) t_delete True)
       (\<lambda>r4.
          if \<not> truthy r4 then skip
          else steps
                 [set_state (\<lambda>s. s\<lparr>Snapshots_working := True\<rparr>),
                  try_finally
                    (try_catch
                       (steps [secureApi ''/api/v1/backup/scheduled''
                                 (with_body ''POST'' (jsonBody (JObj [(''action'', JStr ''delete''),
                                                                      (''name'', fld item ''name'')]))),
                               notify Success t_backup_deleted JUndef, Snapshots_reload st])
                       (\<lambda>cause. notify Failure t_delete_failed (JStr (errorDetail cause))))
                    (set_state (\<lambda>s. s\<lparr>Snapshots_working := False\<rparr>))])"

definition Snapshots_view :: "locale_date \<Rightarrow> route \<Rightarrow> Snapshots_state \<Rightarrow> Snapshots_state vnode" where
  "Snapshots_view loc route st =
     El ''div'' [(''className'', JStr ''page-stack'')] []
       ([PageHeader route (JBool (Snapshots_loading st)) (Some (\<lambda>ev. Snapshots_reload st)) []] @
        (if Snapshots_error st \<noteq> []
           then [ErrorState (JStr (Snapshots_error st)) (\<lambda>ev. Snapshots_reload st)]
         else [Card []
                 ([SectionTitle [(''title'', JStr t_config_snapshots),
                                 (''subtitle'', JStr t_config_snapshots_sub)]
                     []] @
                  (if length (Snapshots_snapshots st) \<noteq> 0
                     then [El ''div'' [(''className'', JStr ''card-list compact-list'')] []
                             (map
                                (\<lambda>item.
                                   El ''div'' [(''className'', JStr ''snapshot-row''),
                                               (''key'', fld item ''id'')]
                                     []
                                     [El ''div'' [] []
                                        [El ''strong'' [] []
                                           [Txt (js_text (jor (fld item ''name'') (fld item ''id'')))],
                                         El ''p'' [] []
                                           [Txt (text_or (fld item ''note'')
                                                   (text_or (fld item ''kind'') t_config @
                                                    t_auto_snapshot))],
                                         El ''small'' [] []
                                           [Txt (formatDate loc (fld item ''created_at'')),
                                            Txt t_mid_dot, Txt (formatBytes (fld item ''size'')),
                                            Txt t_mid_dot,
                                            Txt (nat_str (length (listOf (fld item ''items'') []))),
                                            Txt t_config_items]],
                                      El ''div'' [(''className'', JStr ''row-buttons'')] []
                                        [Button [(''busy'', JBool (Snapshots_working st))]
                                           [(''onClick'', \<lambda>ev. Snapshots_action st item ''restore'')]
                                           [Txt t_restore],
                                         Button [(''busy'', JBool (Snapshots_working st)),
                                                 (''tone'', JStr ''danger''),
                                                 (''icon'', JStr ''trash'')]
                                           [(''onClick'', \<lambda>ev. Snapshots_action st item ''delete'')]
                                           [Txt t_delete]]])
                                (Snapshots_snapshots st))]
                   else if \<not> Snapshots_loading st
                     then [EmptyState
                             [(''icon'', JStr ''backup''), (''title'', JStr t_no_snapshots),
                              (''description'', JStr t_no_snapshots_detail)]
                             []]
                   else [LoadingState 4])),
               El ''div'' [(''className'', JStr ''settings-grid'')] []
                 [Card []
                    [SectionTitle
                       [(''title'', JStr t_full_backup), (''subtitle'', JStr t_full_backup_sub)] [],
                     El ''div'' [(''className'', JStr ''stacked-actions'')] []
                       [El ''a'' [(''className'', JStr ''button button-default''),
                                  (''href'', JStr ''/api/v1/backup/export''),
                                  (''download'', JBool True)]
                          [] [Icon [(''name'', JStr ''download''), (''size'', JNum 17)],
                              El ''span'' [] [] [Txt t_export_backup]],
                        El ''label'' [(''className'', JStr ''button button-default file-button'')] []
                          [Icon [(''name'', JStr ''upload''), (''size'', JNum 17)],
                           El ''span'' [] [] [Txt t_import_backup],
                           El ''input''
                             [(''type'', JStr ''file''), (''accept'', JStr ''.tar.gz,.tgz'')]
                             [(''onChange'',
                               \<lambda>ev.
                                 let file = idx (fld (fld ev ''target'') ''files'') 0
                                 in steps
                                      [perform (Dom ''currentTarget.value'' [JStr []]),
                                       if truthy file then Snapshots_importFile st file else skip])]
                             []]]],
                  Card []
                    ([SectionTitle
                        [(''title'', JStr t_scheduled_files),
                         (''subtitle'',
                          JStr (t_retention_prefix @
                                num_str (number_or (fld (Snapshots_scheduled st) ''retention'') 7) @
                                t_retention_suffix))]
                        [Button
                           [(''tone'', JStr ''primary''), (''busy'', JBool (Snapshots_working st))]
                           [(''onClick'', \<lambda>ev. Snapshots_createScheduledBackup st)]
                           [Txt t_create_now]]] @
                     (if length (Snapshots_scheduledBackups st) \<noteq> 0
                        then [El ''div'' [(''className'', JStr ''compact-list'')] []
                                (map
                                   (\<lambda>item.
                                      El ''div'' [(''className'', JStr ''compact-row''),
                                                  (''key'', fld item ''name'')]
                                        []
                                        [El ''div'' [] []
                                           [El ''strong'' [] [] [Txt (js_text (fld item ''name''))],
                                            El ''small'' [] []
                                              [Txt (formatDate loc (fld item ''modified_at'')),
                                               Txt t_mid_dot,
                                               Txt (formatBytes (fld item ''size''))]],
                                         El ''div'' [(''className'', JStr ''row-buttons'')] []
                                           [El ''a''
                                              [(''className'', JStr ''button button-default''),
                                               (''href'',
                                                JStr (''/api/v1/backup/scheduled?download='' @
                                                      encodeURIComponent (jstring (fld item ''name'')))),
                                               (''download'', JBool True)]
                                              [] [Icon [(''name'', JStr ''download''),
                                                        (''size'', JNum 17)],
                                                  El ''span'' [] [] [Txt t_download]],
                                            Button [(''tone'', JStr ''danger''),
                                                    (''icon'', JStr ''trash''),
                                                    (''busy'', JBool (Snapshots_working st))]
                                              [(''onClick'',
                                                \<lambda>ev. Snapshots_deleteScheduledBackup st item)]
                                              [Txt t_delete]]])
                                   (Snapshots_scheduledBackups st))]
                      else [EmptyState
                              [(''icon'', JStr ''backup''), (''title'', JStr t_no_backups),
                               (''description'', JStr t_no_backups_detail)]
                              []]) @
                     [El ''div'' [(''className'', JStr ''form-actions'')] []
                        [Button [(''tone'', JStr ''ghost'')]
                           [(''onClick'', \<lambda>ev. perform (Navigate ''/system/tasks''))]
                           [Txt t_goto_tasks]]])]]))"

subsection \<open>The page keeps the rules\<close>

text \<open>Restoring or deleting a snapshot, importing a backup and deleting one count as destructive.\<close>

definition changes_backups :: "request \<Rightarrow> bool" where
  "changes_backups r \<longleftrightarrow> changing r \<and>
     (req_url r = ''/api/v1/system/snapshots'' \<or> req_url r = ''/api/v1/backup/import'' \<or>
      req_url r = ''/api/v1/backup/scheduled'' \<and> body_fld r ''action'' = JStr ''delete'')"

lemma changes_backups_mk [simp]:
  "changes_backups (mk_request url i tok) \<longleftrightarrow> sends_change i \<and>
     (url = ''/api/v1/system/snapshots'' \<or> url = ''/api/v1/backup/import'' \<or>
      url = ''/api/v1/backup/scheduled'' \<and> init_fld i ''action'' = JStr ''delete'')"
  by (simp add: changes_backups_def)

lemma Snapshots_reload_wp [io_rules]:
  assumes "\<And>s'. Q JUndef g s'"
    and "\<And>tok. \<not> P (mk_request ''/api/v1/system/snapshots'' empty_init tok)"
    and "\<And>tok. \<not> P (mk_request ''/api/v1/backup/scheduled'' empty_init tok)"
  shows "wp (w_ok P) w_upd (Snapshots_reload st) Q E g s"
  unfolding Snapshots_reload_def io_simps
  by (rule wp_promise_all) (auto simp: io_simps Let_def assms intro!: wp_get_quiet)

lemma Snapshots_reload_shows [simp]: "shows_ok R (Snapshots_reload st)"
  by (simp add: Snapshots_reload_def)

lemma Snapshots_reload_safe [simp]: "safe changes_backups (Snapshots_reload st)"
  by (rule safeI) (auto intro!: Snapshots_reload_wp)


lemma Snapshots_shows [simp]:
  "shows_ok R (Snapshots_action st item operation)" "shows_ok R (Snapshots_importFile st file)"
  "shows_ok R (Snapshots_createScheduledBackup st)" "shows_ok R (Snapshots_deleteScheduledBackup st item)"
  by (simp_all add: Snapshots_action_def Snapshots_importFile_def Snapshots_createScheduledBackup_def
      Snapshots_deleteScheduledBackup_def Let_def)

lemma Snapshots_importFile_wp [io_rules]:
  assumes "\<And>h s'. \<not> w_failed h \<Longrightarrow> Q JUndef h s'"
  shows "wp (w_ok changes_backups) w_upd (Snapshots_importFile st file) Q E w0 s"
  using assms by (auto simp: Snapshots_importFile_def Let_def io_simps intro!: io_rules)

lemma Snapshots_safe [simp]:
  "safe changes_backups (Snapshots_action st item operation)"
  "safe changes_backups (Snapshots_importFile st file)"
  "safe changes_backups (Snapshots_createScheduledBackup st)"
  "safe changes_backups (Snapshots_deleteScheduledBackup st item)"
  by (auto simp: Snapshots_action_def Snapshots_createScheduledBackup_def Snapshots_deleteScheduledBackup_def
      io_simps intro!: safeI io_rules)

interpretation snapshots: page "Snapshots_view loc route" changes_backups
  by unfold_locales (auto simp: Snapshots_view_def Let_def io_simps intro!: safeI Snapshots_importFile_wp)

definition sample_snapshot :: json where
  "sample_snapshot = JObj [(''id'', JStr ''s1'')]"

definition sample_snapshots :: Snapshots_state where
  "sample_snapshots = Snapshots_init\<lparr>Snapshots_data := JArr [sample_snapshot]\<rparr>"

text \<open>C28. Rules of interaction of the page of snapshots and backups. Take any handler the page, or a dialog opened from it, offers in any state, and any run of it (any answers, other handlers in between): a request that restores or deletes a snapshot or a backup is sent only after the user confirmed it; a success message appears only after the server acknowledged a change; the handler never ends in an exception; and when it ends, a refused change has been reported.\<close>

theorem snapshots_rules:
  assumes "offered (Snapshots_view loc route) m" and "run m as s = (tr, out, s')" and "legal tr"
  shows "guarded_trace changes_backups tr \<and> honest_trace tr \<and> (\<forall>c. out \<noteq> Failed c) \<and>
    (out \<noteq> Suspended \<longrightarrow> \<not> silent_failure tr)"
  by (rule snapshots.rules_kept [OF assms])

theorem snapshots_rules_witness:
  "let r = run_alone (Snapshots_action sample_snapshots sample_snapshot ''restore'') yes_but_down sample_snapshots
   in length (requests (dids (events r))) = 1 \<and> guarded_trace changes_backups (events r) \<and> \<not> silent_failure (events r)"
proof -
  let ?m = "Snapshots_action sample_snapshots sample_snapshot ''restore''" and ?s = "sample_snapshots"
  let ?r = "run_alone ?m yes_but_down ?s"
  have "offered (Snapshots_view (\<lambda>n. None) sample_route) ?m"
    by (rule offered_handler [of "''onClick''" "\<lambda>ev. ?m" _ ?s])
       (auto simp: Snapshots_view_def Snapshots_snapshots_def sample_snapshots_def sample_snapshot_def Snapshots_init_def listOf_def find_json_def)
  moreover have "legal (events ?r) \<and> length (requests (dids (events ?r))) = 1 \<and> fst (snd ?r) \<noteq> Suspended"
    by (simp add: Snapshots_action_def yes_but_down_def run_ops)
  ultimately show ?thesis
    using snapshots_rules [OF _ run_alone_split] by (simp add: Let_def)
qed

end
