(* ===== verification/Docker_Page.thy ===== *)
theory Docker_Page imports Page_Base begin

text \<open>
  The container page, \<open>web/assets/app.js\<close>, lines 1281 to 1741: containers, images, networks, volumes
  and Compose projects, with the two dialogs that are components of their own. \<open>Prop_call\<close> in a dialog
  is a callback of the page: \<open>reload\<close>, and \<open>mutate\<close> of the image dialog.
\<close>

record ComposeEditor_state =
  ComposeEditor_project :: json
  ComposeEditor_files :: "json list"
  ComposeEditor_selectedPath :: string
  ComposeEditor_contents :: json
  ComposeEditor_deploy :: bool
  ComposeEditor_saving :: bool

definition ComposeEditor_initialFiles :: "ComposeEditor_state \<Rightarrow> json" where
  "ComposeEditor_initialFiles st =
     from_entries
       (map (\<lambda>file.
               (jstring (fld file ''path''), JStr (jstring (jor (fld file ''content'') (JStr [])))))
          (ComposeEditor_files st))"

definition ComposeEditor_paths :: "ComposeEditor_state \<Rightarrow> string list" where
  "ComposeEditor_paths st =
     obj_keys (ComposeEditor_initialFiles st)"

definition ComposeEditor_submit :: "ComposeEditor_state \<Rightarrow> json \<Rightarrow> ComposeEditor_state io" where
  "ComposeEditor_submit st ev =
     steps
       [perform Prevent_default,
        if ComposeEditor_selectedPath st = [] \<or> length (ComposeEditor_paths st) = 0
          then notify Failure t_no_compose_files JUndef
        else steps
               [set_state (\<lambda>s. s\<lparr>ComposeEditor_saving := True\<rparr>),
                try_finally
                  (try_catch
                     (bnd (secureApi ''/api/v1/docker/compose/config''
                             (with_body ''PUT''
                                (jsonBody (JObj [(''project'', ComposeEditor_project st),
                                                 (''files'', ComposeEditor_contents st),
                                                 (''deploy'', JBool (ComposeEditor_deploy st))]))))
                        (\<lambda>result.
                           steps [notify Success t_compose_saved (jor (fld result ''output'') JUndef),
                                  perform (Prop_call ''reload'' []), perform Close_modal]))
                     (\<lambda>cause. notify Failure t_compose_save_failed (JStr (errorDetail cause))))
                  (set_state (\<lambda>s. s\<lparr>ComposeEditor_saving := False\<rparr>))]]"

definition ComposeEditor_view :: "route \<Rightarrow> ComposeEditor_state \<Rightarrow> ComposeEditor_state vnode" where
  "ComposeEditor_view route st =
     El ''form'' [(''className'', JStr ''form-stack'')]
       [(''onSubmit'', \<lambda>ev. ComposeEditor_submit st ev)]
       [Field [(''label'', JStr t_config_files)]
          [SelectInput [(''value'', JStr (ComposeEditor_selectedPath st))]
             [(''onChange'',
               \<lambda>ev. set_state (\<lambda>s. s\<lparr>ComposeEditor_selectedPath := jstring (fld ev ''value'')\<rparr>))]
             (map (\<lambda>path. El ''option'' [(''value'', JStr path), (''key'', JStr path)] [] [Txt path])
                (ComposeEditor_paths st))],
        Field [(''label'', JStr t_yaml_content)]
          [TextArea [(''className'', JStr ''code-input''), (''rows'', JNum 22),
                     (''value'',
                      jor (fld (ComposeEditor_contents st) (ComposeEditor_selectedPath st)) (JStr [])),
                     (''required'', JBool True)]
             [(''onChange'',
               \<lambda>ev.
                 set_state (\<lambda>s.
                              s\<lparr>ComposeEditor_contents := spread (ComposeEditor_contents s)
                                  [(ComposeEditor_selectedPath st, fld ev ''value'')]\<rparr>))]],
        El ''label'' [(''className'', JStr ''check-field'')] []
          [El ''input''
             [(''type'', JStr ''checkbox''), (''checked'', JBool (ComposeEditor_deploy st))]
             [(''onChange'',
               \<lambda>ev. set_state (\<lambda>s. s\<lparr>ComposeEditor_deploy := truthy (fld ev ''checked'')\<rparr>))]
             [],
           Txt t_deploy_after_save],
        El ''p'' [(''className'', JStr ''muted'')] [] [Txt t_compose_save_note],
        El ''div'' [(''className'', JStr ''form-actions'')] []
          [Button [] [(''onClick'', \<lambda>ev. perform Close_modal)] [Txt t_cancel],
           Button [(''type'', JStr ''submit''), (''tone'', JStr ''primary''),
                   (''busy'', JBool (ComposeEditor_saving st))]
             [] [Txt t_validate_and_save]]]"

text \<open>The two properties of the dialog, \<open>project\<close> and \<open>files\<close>, are fields of its state: they do not
  change while it is open.\<close>

definition ComposeEditor_init :: "json \<Rightarrow> json list \<Rightarrow> ComposeEditor_state" where
  "ComposeEditor_init project files =
     (let initial = from_entries (map (\<lambda>file. (jstring (fld file ''path''),
            JStr (jstring (jor (fld file ''content'') (JStr []))))) files)
      in \<lparr>ComposeEditor_project = project, ComposeEditor_files = files,
          ComposeEditor_selectedPath = (case obj_keys initial of [] \<Rightarrow> [] | p # ps \<Rightarrow> p),
          ComposeEditor_contents = initial, ComposeEditor_deploy = True, ComposeEditor_saving = False\<rparr>)"

record DockerImage_state =
  DockerImage_working :: bool
  DockerImage_mode :: string

definition DockerImage_submit :: "DockerImage_state \<Rightarrow> json \<Rightarrow> DockerImage_state io" where
  "DockerImage_submit st ev =
     steps
       [perform Prevent_default,
        let values = fld ev ''form''
        in try_catch
             (if DockerImage_mode st = ''pull''
                then let reference = js_trim (jstring (jor (form_get values ''reference'') (JStr [])))
                     in if reference = [] then Throw (Js_error t_enter_image)
                        else bnd
                               (perform (Prop_call ''mutate'' [JStr ''/api/v1/docker/images/pull'',
                                                               JObj [(''reference'', JStr reference)],
                                                               JStr t_image_pulled]))
                               (\<lambda>r2. if \<not> truthy r2 then skip else perform Close_modal)
              else let contextDir = js_trim (jstring (jor (form_get values ''context_dir'') (JStr [])))
                   in let tag = js_trim (jstring (jor (form_get values ''tag'') (JStr [])))
                      in if contextDir = [] \<or> tag = []
                           then Throw (Js_error t_context_and_tag_needed)
                         else bnd
                                (perform
                                   (Prop_call ''mutate''
                                      [JStr ''/api/v1/docker/images/build'',
                                       JObj
                                         [(''context_dir'', JStr contextDir),
                                          (''dockerfile'',
                                           JStr (if (js_trim
                                                       (jstring (jor (form_get values ''dockerfile'')
                                                                   (JStr ''Dockerfile''))))
                                                      \<noteq> []
                                                   then js_trim (jstring (jor (form_get values
                                                                                 ''dockerfile'')
                                                                            (JStr ''Dockerfile'')))
                                                 else ''Dockerfile'')),
                                          (''tag'', JStr tag),
                                          (''no_cache'',
                                           JBool (form_get values ''no_cache'' = JStr ''on'')),
                                          (''pull'', JBool (form_get values ''pull'' = JStr ''on''))],
                                       JStr t_image_built]))
                                (\<lambda>r3. if \<not> truthy r3 then skip else perform Close_modal))
             (\<lambda>cause. notify Failure t_image_failed (JStr (errorDetail cause)))]"

definition DockerImage_view :: "route \<Rightarrow> DockerImage_state \<Rightarrow> DockerImage_state vnode" where
  "DockerImage_view route st =
     El ''form'' [(''className'', JStr ''form-stack'')]
       [(''onSubmit'', \<lambda>ev. DockerImage_submit st ev)]
       ([Field [(''label'', JStr t_actions)]
           [SelectInput [(''name'', JStr ''mode''), (''value'', JStr (DockerImage_mode st))]
              [(''onChange'',
                \<lambda>ev. set_state (\<lambda>s. s\<lparr>DockerImage_mode := jstring (fld ev ''value'')\<rparr>))]
              [El ''option'' [(''value'', JStr ''pull'')] [] [Txt t_pull_image],
               El ''option'' [(''value'', JStr ''build'')] [] [Txt t_build_from_dir]]]] @
        (if DockerImage_mode st = ''pull''
           then [Field [(''label'', JStr t_image_reference)]
                   [TextInput
                      [(''name'', JStr ''reference''), (''placeholder'', JStr ''nginx:latest''),
                       (''autoCapitalize'', JStr ''none''), (''required'', JBool True),
                       (''autoFocus'', JBool True)]
                      []]]
         else [Field [(''label'', JStr t_build_context), (''hint'', JStr t_absolute_dir_hint)]
                 [TextInput
                    [(''name'', JStr ''context_dir''), (''placeholder'', JStr ''/opt/project''),
                     (''required'', JBool True), (''autoFocus'', JBool True)]
                    []],
               El ''div'' [(''className'', JStr ''form-grid'')] []
                 [Field [(''label'', JStr ''Dockerfile'')]
                    [TextInput
                       [(''name'', JStr ''dockerfile''), (''defaultValue'', JStr ''Dockerfile''),
                        (''required'', JBool True)]
                       []],
                  Field [(''label'', JStr t_image_tag)]
                    [TextInput [(''name'', JStr ''tag''), (''placeholder'', JStr ''myapp:latest''),
                                (''required'', JBool True)]
                       []]],
               El ''div'' [(''className'', JStr ''inline-checks'')] []
                 [El ''label'' [(''className'', JStr ''check-field'')] []
                    [El ''input'' [(''type'', JStr ''checkbox''), (''name'', JStr ''pull''),
                                   (''defaultChecked'', JBool True)]
                       [] [],
                     Txt t_pull_base_image],
                  El ''label'' [(''className'', JStr ''check-field'')] []
                    [El ''input'' [(''type'', JStr ''checkbox''), (''name'', JStr ''no_cache'')] [] [],
                     Txt t_no_cache]]]) @
        [El ''div'' [(''className'', JStr ''form-actions'')] []
           [Button [] [(''onClick'', \<lambda>ev. perform Close_modal)] [Txt t_cancel],
            Button [(''type'', JStr ''submit''), (''tone'', JStr ''primary''),
                    (''busy'', JBool (DockerImage_working st))]
              [] [Txt (if DockerImage_mode st = ''pull'' then t_pull_image else t_start_build)]]])"

subsection \<open>Ports and mounts as text\<close>

text \<open>The lines of the two text areas of the container form, read and written.\<close>

definition Docker_parsePort :: "string \<Rightarrow> cause + json" where
  "Docker_parsePort line =
     (let parts = map js_trim (split_at (CHR 0x7C) line)
      in if length parts < 2 \<or> length parts > 3 then Inl (Js_error (t_bad_port @ line))
         else let target = split_at (CHR ''/'') (last parts)
              in Inr (JObj [(''host_ip'', JStr (if length parts = 3 then parts ! 0 else [])),
                            (''host_port'', JStr (if length parts = 3 then parts ! 1 else parts ! 0)),
                            (''container_port'', JStr (target ! 0)),
                            (''protocol'', jor (text_at target 1) (JStr ''tcp''))]))"

definition Docker_parsePorts :: "string \<Rightarrow> cause + json" where
  "Docker_parsePorts v = try_map Docker_parsePort (lines v)"

text \<open>An array pattern with defaults: a missing field takes its default, an empty one does not.\<close>

definition field_or :: "string list \<Rightarrow> nat \<Rightarrow> string \<Rightarrow> string" where
  "field_or parts n d = (if n < length parts then parts ! n else d)"

definition Docker_parseMount :: "string \<Rightarrow> cause + json" where
  "Docker_parseMount line =
     (let parts = map js_trim (split_at (CHR 0x7C) line);
          source = field_or parts 1 []; target = field_or parts 2 []
      in if source = [] \<or> \<not> starts_with target ''/'' then Inl (Js_error (t_bad_mount @ line))
         else Inr (JObj [(''type'', JStr (field_or parts 0 ''bind'')), (''source'', JStr source),
                         (''target'', JStr target), (''read_only'', JBool (field_or parts 3 ''rw'' = ''ro''))]))"

definition Docker_parseMounts :: "string \<Rightarrow> cause + json" where
  "Docker_parseMounts v = try_map Docker_parseMount (lines v)"

definition Docker_portLine :: "json \<Rightarrow> string" where
  "Docker_portLine port = join_with [CHR 0x7C] (map array_text (filter truthy
     [fld port ''host_ip'', fld port ''host_port'',
      JStr (jstring (fld port ''container_port'') @ ''/'' @ jstring (jor (fld port ''protocol'') (JStr ''tcp'')))]))"

definition Docker_mountLine :: "json \<Rightarrow> string" where
  "Docker_mountLine mount =
     jstring (jor (fld mount ''type'') (JStr ''bind'')) @ [CHR 0x7C] @ jstring (fld mount ''source'') @ [CHR 0x7C] @
     jstring (fld mount ''target'') @ [CHR 0x7C] @ (if truthy (fld mount ''read_only'') then ''ro'' else ''rw'')"

record Docker_state =
  Docker_tab :: string
  Docker_state :: json
  Docker_loading :: bool
  Docker_working :: bool
  Docker_error :: string

definition Docker_init :: Docker_state where
  "Docker_init = \<lparr>Docker_tab = ''containers'',
           Docker_state = JObj [(''status'', JObj []), (''containers'', JArr []),
                                (''images'', JArr []), (''networks'', JArr []),
                                (''volumes'', JArr []), (''projects'', JArr []),
                                (''stats'', JObj []), (''statsError'', JStr [])],
           Docker_loading = True, Docker_working = False, Docker_error = []\<rparr>"

text \<open>The statistics of the running containers; their failure is shown, not fatal.\<close>

definition Docker_stats :: "json list \<Rightarrow> Docker_state io" where
  "Docker_stats ids =
     (if ids = [] then Ret (JObj [(''stats'', JObj []), (''statsError'', JStr [])])
      else try_catch
             (bnd (api (''/api/v1/docker/stats?'' @
                        join_with ''&'' (map (\<lambda>i. ''id='' @ encodeURIComponent (jstring i)) ids)) empty_init)
                (\<lambda>r. Ret (JObj
                   [(''stats'', from_entries (map (\<lambda>item. (jstring (fld item ''id''), item)) (listOf r [''stats'']))),
                    (''statsError'', JStr [])])))
             (\<lambda>cause. Ret (JObj [(''stats'', JObj []), (''statsError'', JStr (errorDetail cause))])))"

definition Docker_reload :: "Docker_state \<Rightarrow> Docker_state io" where
  "Docker_reload st =
     steps [set_state (\<lambda>s. s\<lparr>Docker_loading := True\<rparr>), set_state (\<lambda>s. s\<lparr>Docker_error := []\<rparr>),
            try_finally (try_catch
              (bnd (api ''/api/v1/docker/status'' empty_init)
                 (\<lambda>r. let status = asObject r
                   in if fld status ''available'' \<noteq> JBool True
                        then set_state (\<lambda>s. s\<lparr>Docker_state :=
                               JObj [(''status'', status), (''containers'', JArr []), (''images'', JArr []),
                                     (''networks'', JArr []), (''volumes'', JArr []), (''projects'', JArr []),
                                     (''stats'', JObj []), (''statsError'', JStr [])]\<rparr>)
                      else bnd (promise_all [api ''/api/v1/docker/containers'' empty_init,
                                             api ''/api/v1/docker/images'' empty_init,
                                             api ''/api/v1/docker/networks'' empty_init,
                                             api ''/api/v1/docker/volumes'' empty_init,
                                             api ''/api/v1/docker/compose'' empty_init])
                             (\<lambda>rs. let containerList = listOf (idx rs 0) [''containers''];
                                 ids = map (\<lambda>item. fld item ''id'')
                                   (take 40 (filter (\<lambda>item. fld item ''state'' = JStr ''running'') containerList))
                               in bnd (Docker_stats ids)
                                    (\<lambda>r. set_state (\<lambda>s. s\<lparr>Docker_state :=
                                       JObj [(''status'', status), (''containers'', JArr containerList),
                                             (''images'', JArr (listOf (idx rs 1) [''images''])),
                                             (''networks'', JArr (listOf (idx rs 2) [''networks''])),
                                             (''volumes'', JArr (listOf (idx rs 3) [''volumes''])),
                                             (''projects'', JArr (listOf (idx rs 4) [''projects''])),
                                             (''stats'', fld r ''stats''),
                                             (''statsError'', fld r ''statsError'')]\<rparr>)))))
              (\<lambda>cause. set_state (\<lambda>s. s\<lparr>Docker_error := errorDetail cause\<rparr>)))
              (set_state (\<lambda>s. s\<lparr>Docker_loading := False\<rparr>))]"

definition Docker_effect :: "Docker_state \<Rightarrow> Docker_state io" where
  "Docker_effect st = Docker_reload st"

text \<open>The timer of the effect, every 15 seconds: a hidden document does not reload.\<close>

definition Docker_tick :: "bool \<Rightarrow> Docker_state \<Rightarrow> Docker_state io" where
  "Docker_tick hidden st = (if hidden then skip else Docker_reload st)"

definition Docker_mutate :: "Docker_state \<Rightarrow> string \<Rightarrow> json \<Rightarrow> string \<Rightarrow> Docker_state io" where
  "Docker_mutate st endpoint body0 success =
     steps
       [set_state (\<lambda>s. s\<lparr>Docker_working := True\<rparr>),
        try_finally
          (try_catch (bnd (secureApi endpoint (with_body ''POST'' (jsonBody body0)))
                        (\<lambda>result.
                           steps [notify Success success
                                    (jor (fld result ''output'') (fld result ''warning'')),
                                  Docker_reload st, Ret (jor result (JObj [(''ok'', JBool True)]))]))
             (\<lambda>cause. steps [notify Failure t_docker_failed (JStr (errorDetail cause)), Ret JNull]))
          (set_state (\<lambda>s. s\<lparr>Docker_working := False\<rparr>))]"

definition Docker_containerName :: "Docker_state \<Rightarrow> json \<Rightarrow> string" where
  "Docker_containerName st item =
     js_take 80 (strip_prefix ''/''
                   (jstring (jor (jor (jor (idx (fld item ''names'') 0) (fld item ''name''))
                                    (fld item ''id''))
                               (JStr []))))"

definition Docker_containerAction :: "Docker_state \<Rightarrow> json \<Rightarrow> string \<Rightarrow> Docker_state io" where
  "Docker_containerAction st item action =
     (if action \<in> set [''stop'', ''kill'', ''remove'']
        then bnd (confirm_io (if action = ''remove'' then t_delete_container
                              else if action = ''kill'' then t_kill_container else t_stop_container)
                    (Docker_containerName st item) t_confirm (action \<noteq> ''stop''))
               (\<lambda>ok.
                  if \<not> truthy ok then skip
                  else Docker_mutate st ''/api/v1/docker/action''
                         (JObj [(''id'', fld item ''id''), (''action'', JStr action)])
                         (if action = ''remove'' then t_container_deleted else t_container_updated))
      else Docker_mutate st ''/api/v1/docker/action''
             (JObj [(''id'', fld item ''id''), (''action'', JStr action)])
             (if action = ''remove'' then t_container_deleted else t_container_updated))"

definition Docker_showLogs :: "Docker_state \<Rightarrow> json \<Rightarrow> Docker_state io" where
  "Docker_showLogs st item =
     try_catch (bnd (secureApi (''/api/v1/docker/logs'' @
                                query [(''id'', fld item ''id''), (''tail'', JNum 500)])
                       empty_init)
                  (\<lambda>result.
                     open_modal (Docker_containerName st item @ t_logs_suffix) ''large''
                       [Terminal [(''maxHeight'', JNum 650)] (child (fld result ''logs''))]))
       (\<lambda>cause. notify Failure t_read_logs_failed (JStr (errorDetail cause)))"

definition Docker_diagnosticSubmit :: "Docker_state \<Rightarrow> json \<Rightarrow> json \<Rightarrow> Docker_state io" where
  "Docker_diagnosticSubmit st item ev =
     steps
       [perform Prevent_default,
        let values = fld ev ''form''
        in try_catch
             (bnd (secureApi ''/api/v1/docker/exec''
                     (with_body ''POST'' (jsonBody (JObj [(''id'', fld item ''id''),
                                                          (''command'', form_get values ''command'')]))))
                (\<lambda>out.
                   open_modal (Docker_containerName st item @ t_diag_result_suffix) ''large''
                     [Terminal [(''maxHeight'', JNum 650)] (child (fld out ''output''))]))
             (\<lambda>cause. notify Failure t_diag_failed (JStr (errorDetail cause)))]"

definition Docker_runDiagnostic :: "Docker_state \<Rightarrow> json \<Rightarrow> Docker_state io" where
  "Docker_runDiagnostic st item =
     (let commands = [JArr (map JStr [''identity'', t_diag_identity]),
                      JArr (map JStr [''working-directory'', t_diag_workdir]),
                      JArr (map JStr [''environment'', t_diag_environment]),
                      JArr (map JStr [''disk'', t_diag_disk]),
                      JArr (map JStr [''processes'', t_diag_processes]),
                      JArr (map JStr [''network'', t_diag_network]),
                      JArr (map JStr [''os-release'', t_diag_os]),
                      JArr (map JStr [''list-root'', t_diag_root])]
      in open_modal (Docker_containerName st item @ t_diag_suffix) []
           [El ''form'' [(''className'', JStr ''form-stack'')]
              [(''onSubmit'', \<lambda>ev. Docker_diagnosticSubmit st item ev)]
              [Field [(''label'', JStr t_diag_command)]
                 [SelectInput [(''name'', JStr ''command'')] []
                    (map (\<lambda>pr6.
                            El ''option'' [(''value'', (idx pr6 0)), (''key'', (idx pr6 0))] []
                              (child (idx pr6 1)))
                       commands)],
               El ''p'' [(''className'', JStr ''muted'')] [] [Txt t_diag_note],
               El ''div'' [(''className'', JStr ''form-actions'')] []
                 [Button [] [(''onClick'', \<lambda>ev. perform Close_modal)] [Txt t_cancel],
                  Button [(''type'', JStr ''submit''), (''tone'', JStr ''primary''),
                          (''icon'', JStr ''terminal'')]
                    [] [Txt t_execute]]]])"

definition Docker_editSubmit :: "Docker_state \<Rightarrow> json \<Rightarrow> json \<Rightarrow> json \<Rightarrow> Docker_state io" where
  "Docker_editSubmit st item edit ev =
     steps
       [perform Prevent_default,
        let values = fld ev ''form''
        in try_catch
             (bnd (lift_result (Docker_parsePorts (jstring (jor (form_get values ''ports'') (JStr [])))))
                (\<lambda>r8.
                   bnd (lift_result
                          (Docker_parseMounts (jstring (jor (form_get values ''mounts'') (JStr [])))))
                     (\<lambda>r9.
                        let body0 =
                              JObj
                                [(''id'', jor (fld edit ''id'') (fld item ''id'')),
                                 (''name'', form_get values ''name''),
                                 (''image'', form_get values ''image''),
                                 (''env'',
                                  JArr
                                    (map JStr (lines (jstring (jor (form_get values ''env'') (JStr [])))))),
                                 (''cmd'',
                                  JArr
                                    (map JStr (lines (jstring (jor (form_get values ''cmd'') (JStr [])))))),
                                 (''entrypoint'',
                                  JArr
                                    (map JStr
                                       (lines (jstring (jor (form_get values ''entrypoint'') (JStr [])))))),
                                 (''working_dir'', form_get values ''working_dir''),
                                 (''user'', form_get values ''user''),
                                 (''hostname'', form_get values ''hostname''),
                                 (''restart_policy'', form_get values ''restart_policy''),
                                 (''restart_maximum_retry_count'',
                                  number_js
                                    (jor (form_get values ''restart_maximum_retry_count'') (JNum 0))),
                                 (''network_mode'', form_get values ''network_mode''),
                                 (''privileged'',
                                  JBool (form_get values ''privileged'' = JStr ''on'')),
                                 (''start'', JBool (truthy (fld edit ''running''))),
                                 (''ports'', r8), (''mounts'', r9)]
                        in bnd
                             (Docker_mutate st ''/api/v1/docker/recreate'' body0 t_container_rebuilt)
                             (\<lambda>r10. if truthy r10 then perform Close_modal else skip))))
             (\<lambda>cause. notify Failure t_rebuild_failed (JStr (errorDetail cause)))]"

definition Docker_editContainer :: "Docker_state \<Rightarrow> json \<Rightarrow> Docker_state io" where
  "Docker_editContainer st item =
     try_catch
       (bnd (secureApi (''/api/v1/docker/inspect'' @ query [(''id'', fld item ''id'')]) empty_init)
          (\<lambda>r7.
             let edit = asObject r7
             in let ports = join_with nl (map Docker_portLine (listOf (fld edit ''ports'') []))
                in let mounts = join_with nl (map Docker_mountLine (listOf (fld edit ''mounts'') []))
                   in open_modal (t_edit_container_dot @ Docker_containerName st item) ''large''
                        [El ''form'' [(''className'', JStr ''form-stack'')]
                           [(''onSubmit'', \<lambda>ev. Docker_editSubmit st item edit ev)]
                           ([El ''div'' [(''className'', JStr ''form-grid'')] []
                               [Field [(''label'', JStr t_container_name)]
                                  [TextInput [(''name'', JStr ''name''),
                                              (''defaultValue'',
                                               JStr (text_or (fld edit ''name'')
                                                       (Docker_containerName st item)))]
                                     []],
                                Field [(''label'', JStr t_image)]
                                  [TextInput
                                     [(''name'', JStr ''image''),
                                      (''defaultValue'', JStr (js_text (fld edit ''image''))),
                                      (''required'', JBool True)]
                                     []],
                                Field [(''label'', JStr t_restart_policy)]
                                  [SelectInput [(''name'', JStr ''restart_policy''),
                                                (''defaultValue'',
                                                 JStr (text_or (fld edit ''restart_policy'')
                                                         ''unless-stopped''))]
                                     [] (map (\<lambda>v.
                                                El ''option''
                                                  [(''value'', JStr v), (''key'', JStr v)] [] [Txt v])
                                           [''no'', ''always'', ''on-failure'', ''unless-stopped''])],
                                Field [(''label'', JStr t_max_retries),
                                       (''hint'', JStr t_max_retries_hint)]
                                  [TextInput [(''name'', JStr ''restart_maximum_retry_count''),
                                              (''type'', JStr ''number''), (''min'', JStr ''0''),
                                              (''defaultValue'',
                                               JStr (num_str (number (fld edit
                                                                        ''restart_maximum_retry_count''))))]
                                     []],
                                Field [(''label'', JStr t_network_mode)]
                                  [TextInput [(''name'', JStr ''network_mode''),
                                              (''defaultValue'',
                                               JStr (text_or (fld edit ''network_mode'') ''default''))]
                                     []],
                                Field [(''label'', JStr t_hostname)]
                                  [TextInput
                                     [(''name'', JStr ''hostname''),
                                      (''defaultValue'', JStr (text_or (fld edit ''hostname'') []))]
                                     []],
                                Field [(''label'', JStr t_run_as_user)]
                                  [TextInput
                                     [(''name'', JStr ''user''),
                                      (''defaultValue'', JStr (text_or (fld edit ''user'') []))]
                                     []],
                                Field [(''label'', JStr t_diag_workdir)]
                                  [TextInput [(''name'', JStr ''working_dir''),
                                              (''defaultValue'',
                                               JStr (text_or (fld edit ''working_dir'') []))]
                                     []],
                                El ''label'' [(''className'', JStr ''check-field'')] []
                                  [El ''input''
                                     [(''name'', JStr ''privileged''),
                                      (''type'', JStr ''checkbox''),
                                      (''defaultChecked'', JBool (truthy (fld edit ''privileged'')))]
                                     [] [],
                                   Txt t_privileged_mode]],
                             Field
                               [(''label'', JStr t_diag_environment), (''hint'', JStr t_env_hint)]
                               [TextArea
                                  [(''name'', JStr ''env''), (''rows'', JNum 6),
                                   (''defaultValue'',
                                    JStr (join_with nl (map array_text (listOf (fld edit ''env'') []))))]
                                  []],
                             Field [(''label'', JStr t_start_args), (''hint'', JStr t_args_hint)]
                               [TextArea
                                  [(''name'', JStr ''cmd''), (''rows'', JNum 4),
                                   (''defaultValue'',
                                    JStr (join_with nl (map array_text (listOf (fld edit ''cmd'') []))))]
                                  []],
                             Field [(''label'', JStr ''Entrypoint''), (''hint'', JStr t_args_hint)]
                               [TextArea [(''name'', JStr ''entrypoint''), (''rows'', JNum 3),
                                          (''defaultValue'',
                                           JStr (join_with nl
                                                   (map array_text (listOf (fld edit ''entrypoint'') []))))]
                                  []],
                             Field [(''label'', JStr t_port_mapping), (''hint'', JStr t_port_hint)]
                               [TextArea [(''name'', JStr ''ports''), (''rows'', JNum 5),
                                          (''defaultValue'', JStr ports)]
                                  []],
                             Field [(''label'', JStr t_mount), (''hint'', JStr t_mount_hint)]
                               [TextArea [(''name'', JStr ''mounts''), (''rows'', JNum 5),
                                          (''defaultValue'', JStr mounts)]
                                  []]] @
                            (if truthy (fld edit ''compose_managed'')
                               then [El ''div'' [(''className'', JStr ''notice warning'')] []
                                       [Icon [(''name'', JStr ''warning'')],
                                        El ''span'' [] []
                                          [Txt t_managed_by_compose,
                                           Txt (js_text (fld edit ''compose_project'')),
                                           Txt t_managed_by_compose_end]]]
                             else []) @
                            [El ''div'' [(''className'', JStr ''form-actions'')] []
                               [Button [] [(''onClick'', \<lambda>ev. perform Close_modal)] [Txt t_cancel],
                                Button
                                  [(''type'', JStr ''submit''), (''tone'', JStr ''primary''),
                                   (''busy'', JBool (Docker_working st)),
                                   (''disabled'', JBool (truthy (fld edit ''compose_managed'')))]
                                  [] [Txt t_safe_rebuild]]])]))
       (\<lambda>cause. notify Failure t_read_container_failed (JStr (errorDetail cause)))"

definition Docker_composeAction :: "Docker_state \<Rightarrow> json \<Rightarrow> string \<Rightarrow> Docker_state io" where
  "Docker_composeAction st project action =
     bnd
       (if action = ''down''
          then confirm_io t_stop_remove_project (jstring (fld project ''name'')) t_stop_remove True
        else Ret (JBool True))
       (\<lambda>r11.
          if \<not> truthy r11 then skip
          else Docker_mutate st ''/api/v1/docker/compose/action''
                 (JObj [(''project'', fld project ''name''), (''action'', JStr action)])
                 t_compose_done)"

definition Docker_editCompose :: "Docker_state \<Rightarrow> json \<Rightarrow> Docker_state io" where
  "Docker_editCompose st project =
     try_catch
       (bnd (secureApi
               (''/api/v1/docker/compose/config'' @ query [(''project'', fld project ''name'')])
               empty_init)
          (\<lambda>r12.
             let config = asObject r12
             in let files = listOf config [''files'']
                in if length files = 0 then Throw (Js_error t_no_compose_config)
                   else open_modal (t_compose_yaml_dot @ jstring (fld project ''name'')) ''large''
                          [El ''ComposeEditorForm''
                             [(''project'', fld project ''name''), (''files'', JArr files)]
                             [(''reload'', \<lambda>ev. Docker_reload st)] []]))
       (\<lambda>cause. notify Failure t_read_compose_failed (JStr (errorDetail cause)))"

definition Docker_createSubmit :: "Docker_state \<Rightarrow> json \<Rightarrow> Docker_state io" where
  "Docker_createSubmit st ev =
     steps
       [perform Prevent_default,
        let values = fld ev ''form''
        in let service =
                 JObj
                   [(''name'', form_get values ''service''),
                    (''image'', form_get values ''image''),
                    (''container_name'', form_get values ''container_name''),
                    (''restart'', form_get values ''restart''),
                    (''environment'',
                     JArr (map JStr (lines (jstring (jor (form_get values ''environment'') (JStr [])))))),
                    (''ports'',
                     JArr (map JStr (lines (jstring (jor (form_get values ''ports'') (JStr [])))))),
                    (''volumes'',
                     JArr (map JStr (lines (jstring (jor (form_get values ''volumes'') (JStr []))))))]
           in try_catch (bnd (Docker_mutate st ''/api/v1/docker/compose/create''
                                (JObj [(''project'', form_get values ''project''),
                                       (''directory'', form_get values ''directory''),
                                       (''services'', JArr [service]),
                                       (''start'', JBool (form_get values ''start'' = JStr ''on''))])
                                t_compose_created)
                           (\<lambda>r13. if truthy r13 then perform Close_modal else skip))
                (\<lambda>c. skip)]"

definition Docker_createCompose :: "Docker_state \<Rightarrow> Docker_state io" where
  "Docker_createCompose st =
     open_modal t_new_compose_project ''large''
       [El ''form'' [(''className'', JStr ''form-stack'')]
          [(''onSubmit'', \<lambda>ev. Docker_createSubmit st ev)]
          [El ''div'' [(''className'', JStr ''form-grid'')] []
             [Field [(''label'', JStr t_project_name)]
                [TextInput [(''name'', JStr ''project''), (''required'', JBool True)] []],
              Field [(''label'', JStr t_save_dir)]
                [TextInput
                   [(''name'', JStr ''directory''), (''defaultValue'', JStr ''/opt/compose''),
                    (''required'', JBool True)]
                   []],
              Field [(''label'', JStr t_service_name)]
                [TextInput [(''name'', JStr ''service''), (''defaultValue'', JStr ''app''),
                            (''required'', JBool True)]
                   []],
              Field [(''label'', JStr t_image)]
                [TextInput [(''name'', JStr ''image''), (''placeholder'', JStr ''nginx:latest''),
                            (''required'', JBool True)]
                   []],
              Field [(''label'', JStr t_container_name)]
                [TextInput [(''name'', JStr ''container_name'')] []],
              Field [(''label'', JStr t_restart_policy)]
                [SelectInput
                   [(''name'', JStr ''restart''), (''defaultValue'', JStr ''unless-stopped'')] []
                   (map (\<lambda>v. El ''option'' [(''key'', JStr v)] [] [Txt v])
                      [''no'', ''always'', ''on-failure'', ''unless-stopped''])]],
           Field [(''label'', JStr t_diag_environment)]
             [TextArea [(''name'', JStr ''environment''), (''rows'', JNum 3)] []],
           Field [(''label'', JStr t_ports)]
             [TextArea [(''name'', JStr ''ports''), (''rows'', JNum 3),
                        (''placeholder'', JStr ''8080:80'')]
                []],
           Field [(''label'', JStr t_mount)]
             [TextArea [(''name'', JStr ''volumes''), (''rows'', JNum 3),
                        (''placeholder'', JStr ''./data:/data'')]
                []],
           El ''label'' [(''className'', JStr ''check-field'')] []
             [El ''input'' [(''type'', JStr ''checkbox''), (''name'', JStr ''start''),
                            (''defaultChecked'', JBool True)]
                [] [],
              Txt t_start_after_create],
           El ''div'' [(''className'', JStr ''form-actions'')] []
             [Button [] [(''onClick'', \<lambda>ev. perform Close_modal)] [Txt t_cancel],
              Button [(''type'', JStr ''submit''), (''tone'', JStr ''primary''),
                      (''busy'', JBool (Docker_working st))]
                [] [Txt t_create]]]]"

definition Docker_imageDialog :: "Docker_state \<Rightarrow> Docker_state io" where
  "Docker_imageDialog st =
     open_modal t_image_admin [] [El ''DockerImageForm'' [(''working'', JBool (Docker_working st))] [] []]"

definition Docker_resourceSubmit :: "Docker_state \<Rightarrow> string \<Rightarrow> json \<Rightarrow> Docker_state io" where
  "Docker_resourceSubmit st kind ev =
     steps [perform Prevent_default,
            let values = fld ev ''form''
            in let endpoint = (if kind = ''network'' then ''/api/v1/docker/networks/create''
                               else ''/api/v1/docker/volumes/create'')
               in let body0 = (if kind = ''network''
                                 then JObj [(''name'', form_get values ''name''),
                                            (''driver'', form_get values ''driver''),
                                            (''subnet'', form_get values ''subnet''),
                                            (''gateway'', form_get values ''gateway''),
                                            (''internal'',
                                             JBool (form_get values ''internal'' = JStr ''on''))]
                               else JObj [(''name'', form_get values ''name''),
                                          (''driver'', form_get values ''driver'')])
                  in try_catch
                       (bnd (Docker_mutate st endpoint body0
                               (if kind = ''network'' then t_network_created else t_volume_created))
                          (\<lambda>r14. if truthy r14 then perform Close_modal else skip))
                       (\<lambda>c. skip)]"

definition Docker_createResource :: "Docker_state \<Rightarrow> string \<Rightarrow> Docker_state io" where
  "Docker_createResource st kind =
     open_modal (if kind = ''network'' then t_new_network else t_new_volume) []
       [El ''form'' [(''className'', JStr ''form-stack'')]
          [(''onSubmit'', \<lambda>ev. Docker_resourceSubmit st kind ev)]
          ([Field [(''label'', JStr t_name)]
              [TextInput [(''name'', JStr ''name''), (''required'', JBool True)] []],
            Field [(''label'', JStr t_driver)]
              [TextInput
                 [(''name'', JStr ''driver''),
                  (''defaultValue'', JStr (if kind = ''network'' then ''bridge'' else ''local''))]
                 []]] @
           (if kind = ''network''
              then [Field [(''label'', JStr t_subnet)]
                      [TextInput
                         [(''name'', JStr ''subnet''), (''placeholder'', JStr ''172.30.0.0/16'')] []],
                    Field [(''label'', JStr t_gateway)]
                      [TextInput
                         [(''name'', JStr ''gateway''), (''placeholder'', JStr ''172.30.0.1'')] []],
                    El ''label'' [(''className'', JStr ''check-field'')] []
                      [El ''input'' [(''type'', JStr ''checkbox''), (''name'', JStr ''internal'')] [] [],
                       Txt t_internal_only]]
            else []) @
           [El ''div'' [(''className'', JStr ''form-actions'')] []
              [Button [] [(''onClick'', \<lambda>ev. perform Close_modal)] [Txt t_cancel],
               Button [(''type'', JStr ''submit''), (''tone'', JStr ''primary''),
                       (''busy'', JBool (Docker_working st))]
                 [] [Txt t_create]]])]"

definition Docker_volumeSubmit :: "Docker_state \<Rightarrow> json \<Rightarrow> Docker_state io" where
  "Docker_volumeSubmit st ev =
     steps
       [perform Prevent_default,
        let values = fld ev ''form''
        in let action = jstring (form_get values ''action'')
           in bnd (if action = ''restore''
                     then confirm_io t_restore_volume t_restore_volume_detail t_confirm_restore True
                   else Ret (JBool True))
                (\<lambda>r16.
                   if \<not> truthy r16 then skip
                   else try_catch (bnd (Docker_mutate st ''/api/v1/docker/volumes/archive''
                                          (JObj [(''action'', JStr action),
                                                 (''name'', form_get values ''name''),
                                                 (''path'', form_get values ''path'')])
                                          (if action = ''backup'' then t_volume_backed_up
                                           else t_volume_restored))
                                     (\<lambda>r17. if truthy r17 then perform Close_modal else skip))
                          (\<lambda>c. skip))]"

definition Docker_volumeTools :: "Docker_state \<Rightarrow> json \<Rightarrow> Docker_state io" where
  "Docker_volumeTools st selected =
     try_catch
       (bnd (api ''/api/v1/docker/volumes/usage'' empty_init)
          (\<lambda>r15.
             let usage = listOf r15 [''volumes'']
             in open_modal t_volume_usage_backup ''large''
                  [El ''div'' [(''className'', JStr ''form-stack'')] []
                     [El ''div'' [(''className'', JStr ''responsive-table'')] []
                        ([El ''div'' [(''className'', JStr ''table-head'')] []
                            [El ''span'' [] [] [Txt t_volume_name],
                             El ''span'' [] [] [Txt t_usage], El ''span'' [] [] [Txt t_references]]] @
                         map (\<lambda>item.
                                El ''div'' [(''className'', JStr ''table-row''),
                                            (''key'', fld item ''name'')]
                                  [] [El ''span'' [(''data-label'', JStr t_volume_name)] []
                                        (child (fld item ''name'')),
                                      El ''span'' [(''data-label'', JStr t_usage)] []
                                        [Txt (formatBytes (fld item ''size''))],
                                      El ''span'' [(''data-label'', JStr t_references)] []
                                        [Txt (num_str (number (fld item ''ref_count'')))]])
                           usage),
                      El ''form'' [(''className'', JStr ''form-stack'')]
                        [(''onSubmit'', \<lambda>ev. Docker_volumeSubmit st ev)]
                        [El ''div'' [(''className'', JStr ''form-grid'')] []
                           [Field [(''label'', JStr t_volume)]
                              [SelectInput
                                 [(''name'', JStr ''name''),
                                  (''defaultValue'',
                                   jor (fld selected ''name'') (fld (list_idx usage 0) ''name''))]
                                 [] (map (\<lambda>item.
                                            El ''option'' [(''key'', fld item ''name'')] []
                                              (child (fld item ''name'')))
                                       usage)],
                            Field [(''label'', JStr t_actions)]
                              [SelectInput
                                 [(''name'', JStr ''action''), (''defaultValue'', JStr ''backup'')] []
                                 [El ''option'' [(''value'', JStr ''backup'')] []
                                    [Txt t_backup_as_tar],
                                  El ''option'' [(''value'', JStr ''restore'')] []
                                    [Txt t_restore_from_tar]]]],
                         Field [(''label'', JStr t_server_path)]
                           [TextInput
                              [(''name'', JStr ''path''),
                               (''defaultValue'', JStr ''/var/backups/lukepanel-volume.tar.gz''),
                               (''required'', JBool True)]
                              []],
                         El ''div'' [(''className'', JStr ''form-actions'')] []
                           [Button [] [(''onClick'', \<lambda>ev. perform Close_modal)] [Txt t_cancel],
                            Button [(''type'', JStr ''submit''), (''tone'', JStr ''primary'')] []
                              [Txt t_execute]]]]]))
       (\<lambda>cause. notify Failure t_read_volume_failed (JStr (errorDetail cause)))"

definition Docker_cleanupSubmit :: "Docker_state \<Rightarrow> json \<Rightarrow> Docker_state io" where
  "Docker_cleanupSubmit st ev =
     steps [perform Prevent_default,
            let values = fld ev ''form''
            in bnd (confirm_io t_do_docker_cleanup t_docker_cleanup_detail t_start_cleanup True)
                 (\<lambda>r19.
                    if \<not> truthy r19 then skip
                    else try_catch (bnd (Docker_mutate st ''/api/v1/docker/cleanup''
                                           (JObj [(''mode'', form_get values ''mode''),
                                                  (''include_volumes'',
                                                   JBool (form_get values ''volumes'' = JStr ''on''))])
                                           t_docker_cleaned)
                                      (\<lambda>r20. if truthy r20 then perform Close_modal else skip))
                           (\<lambda>c. skip))]"

definition Docker_cleanup :: "Docker_state \<Rightarrow> Docker_state io" where
  "Docker_cleanup st =
     try_catch
       (bnd (api ''/api/v1/docker/cleanup/preview'' empty_init)
          (\<lambda>r18.
             let preview = asObject r18
             in open_modal t_docker_cleanup []
                  [El ''form'' [(''className'', JStr ''form-stack'')]
                     [(''onSubmit'', \<lambda>ev. Docker_cleanupSubmit st ev)]
                     [JsonDetails [(''data'', preview), (''title'', JStr t_cleanup_preview)],
                      Field [(''label'', JStr t_cleanup_mode)]
                        [SelectInput [(''name'', JStr ''mode'')] []
                           [El ''option'' [(''value'', JStr ''safe'')] [] [Txt t_safe_cleanup],
                            El ''option'' [(''value'', JStr ''deep'')] [] [Txt t_deep_cleanup]]],
                      El ''label'' [(''className'', JStr ''check-field'')] []
                        [El ''input'' [(''type'', JStr ''checkbox''), (''name'', JStr ''volumes'')] [] [],
                         Txt t_cleanup_volumes],
                      El ''div'' [(''className'', JStr ''form-actions'')] []
                        [Button [] [(''onClick'', \<lambda>ev. perform Close_modal)] [Txt t_cancel],
                         Button [(''type'', JStr ''submit''), (''tone'', JStr ''danger'')] []
                           [Txt t_execute_cleanup]]]]))
       (\<lambda>cause. notify Failure t_read_cleanup_failed (JStr (errorDetail cause)))"

definition Docker_status :: "Docker_state \<Rightarrow> json" where
  "Docker_status st =
     jor (fld (Docker_state st) ''status'') (JObj [])"

definition Docker_available :: "Docker_state \<Rightarrow> bool" where
  "Docker_available st =
     (fld (Docker_status st) ''available'' = JBool True)"

definition Docker_containerCard :: "Docker_state \<Rightarrow> json \<Rightarrow> bool \<Rightarrow> json \<Rightarrow> Docker_state vnode" where
  "Docker_containerCard st item running stats =
     Card [(''className'', JStr ''container-card''), (''key'', fld item ''id'')]
       [El ''div'' [(''className'', JStr ''list-main'')] []
          [El ''span'' [(''className'',
                         JStr (''state-indicator '' @ (if running then ''is-up'' else ''is-down'')))]
             [] [],
           El ''div'' [] []
             [El ''div'' [(''className'', JStr ''card-topline'')] []
                [El ''strong'' [] [] [Txt (Docker_containerName st item)],
                 Badge [(''tone'', JStr (if running then ''success'' else ''neutral''))]
                   [Txt (js_text (fld item ''state''))]],
              El ''p'' [] [] [Txt (js_text (fld item ''image''))],
              El ''small'' [] [] [Txt (js_text (fld item ''status''))],
              El ''div'' [(''className'', JStr ''container-stats'')] []
                [El ''span'' [] []
                   [Txt ''CPU '',
                    Txt (if fld stats ''cpu_percent'' = JUndef \<or> fld stats ''cpu_percent'' = JNull
                           then t_em_dash
                         else to_fixed 1 (number (fld stats ''cpu_percent'')) @ ''%'')],
                 El ''span'' [] [] [Txt t_memory_space,
                                    Txt (if truthy (fld stats ''memory_usage'')
                                           then formatBytes (fld stats ''memory_usage'')
                                         else t_em_dash)],
                 El ''span'' [] []
                   [Txt (if (join_with t_mid_dot
                               (map (\<lambda>port.
                                       (if number (fld port ''PublicPort'') > 0
                                          then (if truthy (fld port ''IP'')
                                                  then jstring (fld port ''IP'') @ '':''
                                                else []) @
                                               jstring (fld port ''PublicPort'') @ '':'' @
                                               jstring (fld port ''PrivatePort'') @ ''/'' @
                                               jstring (jor (fld port ''Type'') (JStr ''tcp''))
                                        else jstring (fld port ''PrivatePort'') @ ''/'' @
                                             jstring (jor (fld port ''Type'') (JStr ''tcp'')) @
                                             t_container_only))
                                  (listOf (fld item ''ports'') [])))
                              \<noteq> []
                           then join_with t_mid_dot
                                  (map (\<lambda>port.
                                          (if number (fld port ''PublicPort'') > 0
                                             then (if truthy (fld port ''IP'')
                                                     then jstring (fld port ''IP'') @ '':''
                                                   else []) @
                                                  jstring (fld port ''PublicPort'') @ '':'' @
                                                  jstring (fld port ''PrivatePort'') @ ''/'' @
                                                  jstring (jor (fld port ''Type'') (JStr ''tcp''))
                                           else jstring (fld port ''PrivatePort'') @ ''/'' @
                                                jstring (jor (fld port ''Type'') (JStr ''tcp'')) @
                                                t_container_only))
                                     (listOf (fld item ''ports'') []))
                         else t_no_ports)]]]],
        El ''div'' [(''className'', JStr ''list-actions'')] []
          ((if running
              then [Button [(''icon'', JStr ''restart'')]
                      [(''onClick'', \<lambda>ev. Docker_containerAction st item ''restart'')]
                      [Txt t_restart],
                    Button [(''icon'', JStr ''stop'')]
                      [(''onClick'', \<lambda>ev. Docker_containerAction st item ''stop'')] [Txt t_stop]]
            else [Button [(''tone'', JStr ''primary''), (''icon'', JStr ''play'')]
                    [(''onClick'', \<lambda>ev. Docker_containerAction st item ''start'')] [Txt t_start]]) @
           [Button [(''tone'', JStr ''ghost'')] [(''onClick'', \<lambda>ev. Docker_showLogs st item)]
              [Txt t_logs],
            Button [(''tone'', JStr ''ghost'')] [(''onClick'', \<lambda>ev. Docker_runDiagnostic st item)]
              [Txt t_diagnose],
            Button [(''tone'', JStr ''ghost'')] [(''onClick'', \<lambda>ev. Docker_editContainer st item)]
              [Txt t_edit],
            Button [(''tone'', JStr ''danger''), (''icon'', JStr ''trash'')]
              [(''onClick'', \<lambda>ev. Docker_containerAction st item ''remove'')] [Txt t_delete]])]"

definition Docker_projectCard :: "Docker_state \<Rightarrow> json \<Rightarrow> Docker_state vnode" where
  "Docker_projectCard st project =
     Card [(''className'', JStr ''compose-card''), (''key'', fld project ''name'')]
       [El ''div'' [] []
          [El ''div'' [(''className'', JStr ''card-topline'')] []
             [El ''strong'' [] [] (child (fld project ''name'')),
              Badge [(''tone'',
                      JStr (if number (fld project ''running'') = number (fld project ''total'') \<and>
                               number (fld project ''total'') > 0
                              then ''success''
                            else ''warning''))]
                [Txt (num_str (number (fld project ''running''))),
                 Txt ''/'', Txt (num_str (number (fld project ''total''))),
                 Txt t_running_suffix]],
           El ''p'' [(''className'', JStr ''mono'')] [] [Txt (js_text (fld project ''working_dir''))],
           El ''small'' [] []
             [Txt (join_with '', '' (map array_text (listOf (fld project ''config_files'') [])))]],
        El ''div'' [(''className'', JStr ''list-actions'')] []
          [Button [(''icon'', JStr ''play'')]
             [(''onClick'', \<lambda>ev. Docker_composeAction st project ''up'')] [Txt t_start],
           Button [(''icon'', JStr ''restart'')]
             [(''onClick'', \<lambda>ev. Docker_composeAction st project ''restart'')] [Txt t_restart],
           Button [(''tone'', JStr ''ghost''), (''icon'', JStr ''edit'')]
             [(''onClick'', \<lambda>ev. Docker_editCompose st project)] [Txt ''YAML''],
           Button [(''tone'', JStr ''danger''), (''icon'', JStr ''stop'')]
             [(''onClick'', \<lambda>ev. Docker_composeAction st project ''down'')] [Txt ''Down'']]]"

definition Docker_imageGrid :: "locale_date \<Rightarrow> Docker_state \<Rightarrow> Docker_state vnode" where
  "Docker_imageGrid loc st =
     El ''div'' [(''className'', JStr ''docker-card-grid'')] []
       (map (\<lambda>item.
               let name = jor (idx (fld item ''repo_tags'') 0)
                            (JStr (js_take 12 (strip_prefix ''sha256:'' (jstring (fld item ''id'')))))
               in Card [(''className'', JStr ''docker-resource-card''), (''key'', fld item ''id'')]
                    [El ''div'' [(''className'', JStr ''card-topline'')] []
                       [El ''strong'' [] [] (child name),
                        Badge [] [Txt (formatBytes (fld item ''size''))]],
                     El ''code'' [] []
                       [Txt (js_take 24 (strip_prefix ''sha256:'' (jstring (fld item ''id''))))],
                     El ''small'' [] []
                       [Txt (formatDate loc (JNum (number (fld item ''created'') * 1000))),
                        Txt t_mid_dot, Txt (num_str (number (fld item ''containers''))),
                        Txt t_container_refs],
                     Button [(''tone'', JStr ''danger''), (''icon'', JStr ''trash'')]
                       [(''onClick'',
                         \<lambda>ev.
                           bnd (confirm_io t_delete_image (jstring name) t_delete True)
                             (\<lambda>r22.
                                if truthy r22
                                  then Docker_mutate st ''/api/v1/docker/images/delete''
                                         (JObj [(''id'', fld item ''id'')]) t_image_deleted
                                else skip))]
                       [Txt t_delete_image]])
          (array_of (fld (Docker_state st) ''images'')))"

definition Docker_networkGrid :: "Docker_state \<Rightarrow> Docker_state vnode" where
  "Docker_networkGrid st =
     El ''div'' [(''className'', JStr ''docker-card-grid'')] []
       (map (\<lambda>item.
               Card [(''className'', JStr ''docker-resource-card''), (''key'', fld item ''id'')]
                 ([El ''div'' [(''className'', JStr ''card-topline'')] []
                     [El ''strong'' [] [] (child (fld item ''name'')),
                      Badge [] [Txt (js_text (fld item ''driver''))]],
                   El ''code'' [] [] [Txt (js_take 24 (jstring (fld item ''id'')))],
                   El ''small'' [] []
                     [Txt (js_text (fld item ''scope'')), Txt t_mid_dot,
                      Txt (if truthy (fld item ''internal'') then t_internal_network
                           else t_external_network),
                      Txt t_mid_dot, Txt (num_str (number (fld item ''containers''))),
                      Txt t_containers_suffix]] @
                  (if \<not> ((fld item ''name'') \<in> JStr ` set [''bridge'', ''host'', ''none''])
                     then [Button [(''tone'', JStr ''danger''), (''icon'', JStr ''trash'')]
                             [(''onClick'',
                               \<lambda>ev.
                                 bnd (confirm_io t_delete_network (jstring (fld item ''name''))
                                        t_delete True)
                                   (\<lambda>r23.
                                      if truthy r23
                                        then Docker_mutate st ''/api/v1/docker/networks/delete''
                                               (JObj [(''id'', fld item ''id'')]) t_network_deleted
                                      else skip))]
                             [Txt t_delete_network]]
                   else [])))
          (array_of (fld (Docker_state st) ''networks'')))"

definition Docker_volumeGrid :: "Docker_state \<Rightarrow> Docker_state vnode" where
  "Docker_volumeGrid st =
     El ''div'' [(''className'', JStr ''docker-card-grid'')] []
       (map
          (\<lambda>item.
             Card [(''className'', JStr ''docker-resource-card''), (''key'', fld item ''name'')]
               [El ''div'' [(''className'', JStr ''card-topline'')] []
                  [El ''strong'' [] [] (child (fld item ''name'')),
                   Badge [] [Txt (js_text (fld item ''driver''))]],
                El ''code'' [] [] [Txt (js_text (fld item ''mountpoint''))],
                El ''small'' [] [] [Txt (js_text (fld item ''scope''))],
                El ''div'' [(''className'', JStr ''row-buttons'')] []
                  [Button [] [(''onClick'', \<lambda>ev. Docker_volumeTools st item)] [Txt t_usage_backup],
                   Button [(''tone'', JStr ''danger''), (''icon'', JStr ''trash'')]
                     [(''onClick'',
                       \<lambda>ev.
                         bnd (confirm_io t_delete_volume
                                (jstring (fld item ''name'') @ t_delete_volume_detail) t_delete True)
                           (\<lambda>r24.
                              if truthy r24
                                then Docker_mutate st ''/api/v1/docker/volumes/delete''
                                       (JObj [(''name'', fld item ''name'')]) t_volume_deleted
                              else skip))]
                     [Txt t_delete]]])
          (array_of (fld (Docker_state st) ''volumes'')))"

definition Docker_view :: "locale_date \<Rightarrow> route \<Rightarrow> Docker_state \<Rightarrow> Docker_state vnode" where
  "Docker_view loc route st =
     El ''div'' [(''className'', JStr ''page-stack'')] []
       ([PageHeader route (JBool (Docker_loading st)) (Some (\<lambda>ev. Docker_reload st))
           (if Docker_available st
              then [Button [(''tone'', JStr ''ghost''), (''icon'', JStr ''trash'')]
                      [(''onClick'', \<lambda>ev. Docker_cleanup st)] [Txt t_cleanup]]
            else [])] @
        (if Docker_error st \<noteq> [] then [ErrorState (JStr (Docker_error st)) (\<lambda>ev. Docker_reload st)]
         else if \<not> Docker_available st
           then [Card []
                   [EmptyState
                      [(''icon'', JStr ''docker''), (''title'', JStr t_docker_unavailable),
                       (''description'',
                        JStr (text_or (fld (Docker_status st) ''error'') t_docker_unavailable_detail))]
                      [Button [(''tone'', JStr ''primary''), (''busy'', JBool (Docker_working st))]
                         [(''onClick'',
                           \<lambda>ev.
                             Docker_mutate st ''/api/v1/docker/install'' (JObj [])
                               t_docker_installed)]
                         [Txt t_install_docker]]]]
         else ((if truthy (fld (Docker_state st) ''statsError'')
                  then [El ''div'' [(''className'', JStr ''notice warning'')] []
                          [Icon [(''name'', JStr ''warning'')],
                           El ''div'' [] []
                             [El ''strong'' [] [] [Txt t_stats_failed],
                              El ''span'' [] [] ([Txt t_stats_failed_detail] @
                                                 child (fld (Docker_state st) ''statsError''))]]]
                else []) @
               [El ''div'' [(''className'', JStr ''tab-bar''), (''role'', JStr ''tablist'')] []
                  (map
                     (\<lambda>pr21.
                        El ''button''
                          [(''role'', JStr ''tab''),
                           (''aria-selected'', JBool (JStr (Docker_tab st) = (idx pr21 0))),
                           (''className'',
                            JStr (if JStr (Docker_tab st) = (idx pr21 0) then ''active'' else [])),
                           (''key'', (idx pr21 0))]
                          [(''onClick'', \<lambda>ev. set_state (\<lambda>s. s\<lparr>Docker_tab := jstring (idx pr21 0)\<rparr>))]
                          (child (idx pr21 1)))
                     [JArr [JStr ''containers'',
                            JStr (t_tab_containers @
                                  jstring (fld (fld (Docker_state st) ''containers'') ''length''))],
                      JArr [JStr ''compose'',
                            JStr (''Compose '' @
                                  jstring (fld (fld (Docker_state st) ''projects'') ''length''))],
                      JArr [JStr ''images'',
                            JStr (t_tab_images @
                                  jstring (fld (fld (Docker_state st) ''images'') ''length''))],
                      JArr [JStr ''networks'',
                            JStr (t_tab_networks @
                                  jstring (fld (fld (Docker_state st) ''networks'') ''length''))],
                      JArr [JStr ''volumes'',
                            JStr (t_tab_volumes @
                                  jstring (fld (fld (Docker_state st) ''volumes'') ''length''))]])] @
               (if Docker_tab st = ''containers''
                  then [El ''div'' [(''className'', JStr ''card-list'')] []
                          (map (\<lambda>item.
                                  let running = fld item ''state'' = JStr ''running''
                                  in let stats = jor (fld (fld (Docker_state st) ''stats'')
                                                        (jstring (fld item ''id'')))
                                                   (JObj [])
                                     in Docker_containerCard st item running stats)
                             (array_of (fld (Docker_state st) ''containers'')) @
                           (if \<not> truthy (fld (fld (Docker_state st) ''containers'') ''length'')
                              then [EmptyState [(''icon'', JStr ''docker''),
                                                (''title'', JStr t_no_containers)]
                                      []]
                            else []))]
                else []) @
               (if Docker_tab st = ''compose''
                  then [El ''div'' [(''className'', JStr ''toolbar-row'')] []
                          [Button [(''tone'', JStr ''primary''), (''icon'', JStr ''plus'')]
                             [(''onClick'', \<lambda>ev. Docker_createCompose st)] [Txt t_new_compose]],
                        El ''div'' [(''className'', JStr ''card-list'')] []
                          (map (\<lambda>project. Docker_projectCard st project)
                             (array_of (fld (Docker_state st) ''projects'')) @
                           (if \<not> truthy (fld (fld (Docker_state st) ''projects'') ''length'')
                              then [EmptyState
                                      [(''icon'', JStr ''docker''), (''title'', JStr t_no_compose)]
                                      [Button
                                         [(''tone'', JStr ''primary''), (''icon'', JStr ''plus'')]
                                         [(''onClick'', \<lambda>ev. Docker_createCompose st)]
                                         [Txt t_create_project]]]
                            else []))]
                else []) @
               (if Docker_tab st = ''images''
                  then [El ''div'' [(''className'', JStr ''toolbar-row'')] []
                          [Button [(''tone'', JStr ''primary''), (''icon'', JStr ''plus'')]
                             [(''onClick'', \<lambda>ev. Docker_imageDialog st)] [Txt t_pull_build_image]],
                        Docker_imageGrid loc st]
                else []) @
               (if Docker_tab st = ''networks''
                  then [El ''div'' [(''className'', JStr ''toolbar-row'')] []
                          [Button [(''tone'', JStr ''primary''), (''icon'', JStr ''plus'')]
                             [(''onClick'', \<lambda>ev. Docker_createResource st ''network'')]
                             [Txt t_new_network]],
                        Docker_networkGrid st]
                else []) @
               (if Docker_tab st = ''volumes''
                  then [El ''div'' [(''className'', JStr ''toolbar-row'')] []
                          [Button [(''tone'', JStr ''primary''), (''icon'', JStr ''plus'')]
                             [(''onClick'', \<lambda>ev. Docker_createResource st ''volume'')]
                             [Txt t_new_volume],
                           Button [] [(''onClick'', \<lambda>ev. Docker_volumeTools st JUndef)]
                             [Txt t_usage_and_backup]],
                        Docker_volumeGrid st]
                else []))))"

subsection \<open>The page keeps the rules\<close>

text \<open>What counts as destructive: stopping, killing and removing a container, taking down a project,
  restoring a volume over its content, cleaning up, and deleting an image, a network or a volume.\<close>

definition destroys :: "string \<Rightarrow> json \<Rightarrow> bool" where
  "destroys url action \<longleftrightarrow>
     url = ''/api/v1/docker/action'' \<and> action \<in> JStr ` set [''stop'', ''kill'', ''remove''] \<or>
     url = ''/api/v1/docker/compose/action'' \<and> action = JStr ''down'' \<or>
     url = ''/api/v1/docker/volumes/archive'' \<and> action = JStr ''restore'' \<or>
     url \<in> set [''/api/v1/docker/cleanup'', ''/api/v1/docker/images/delete'', ''/api/v1/docker/networks/delete'',
       ''/api/v1/docker/volumes/delete'']"

definition harms_docker :: "request \<Rightarrow> bool" where
  "harms_docker r \<longleftrightarrow> changing r \<and> destroys (req_url r) (body_fld r ''action'')"

lemma harms_docker_mk [simp]:
  "harms_docker (mk_request url i tok) \<longleftrightarrow> sends_change i \<and> destroys url (init_fld i ''action'')"
  by (simp add: harms_docker_def)

lemma Docker_stats_wp:
  assumes "\<And>v s'. Q v g s'" and "\<And>url tok. \<not> P (mk_request url empty_init tok)"
  shows "wp (w_ok P) w_upd (Docker_stats ids) Q E g s"
  unfolding Docker_stats_def io_simps
  by (auto simp: io_simps assms intro!: wp_mono [OF wp_get_quiet])

lemma Docker_stats_shows [simp]: "shows_ok R (Docker_stats ids)"
  by (simp add: Docker_stats_def)

lemma Docker_reload_wp:
  assumes "\<And>s'. Q JUndef g s'" and "\<And>url tok. \<not> P (mk_request url empty_init tok)"
  shows "wp (w_ok P) w_upd (Docker_reload st) Q E g s"
proof -
  have all: "wp (w_ok P) w_upd (promise_all (map (\<lambda>u. api u empty_init) us)) Q' E' g s"
    if "\<And>v s'. Q' v g s'" "\<And>c s'. E' c g s'" for us Q' E' s
    using that by (intro wp_promise_all) (auto intro!: wp_get_quiet assms)
  show ?thesis
    unfolding Docker_reload_def io_simps
    by (rule wp_mono [OF wp_get_quiet])
       (auto simp: io_simps Let_def assms intro!: Docker_stats_wp
          all [of _ _ "[''/api/v1/docker/containers'', ''/api/v1/docker/images'', ''/api/v1/docker/networks'',
            ''/api/v1/docker/volumes'', ''/api/v1/docker/compose'']", simplified])
qed

lemma Docker_reload_shows [simp]: "shows_ok R (Docker_reload st)"
  by (simp add: Docker_reload_def Let_def)

lemma Docker_reload_safe [simp]: "safe harms_docker (Docker_reload st)"
  by (rule safeI) (auto intro!: Docker_reload_wp)

lemma Docker_mutate_wp:
  assumes "destroys endpoint (fld b ''action'') \<Longrightarrow> w_confirmed g" and "\<not> w_failed g"
    and "\<And>v h s'. \<not> w_failed h \<Longrightarrow> w_confirmed h = w_confirmed g \<Longrightarrow> Q v h s'"
  shows "wp (w_ok harms_docker) w_upd (Docker_mutate st endpoint b success) Q E g s"
  unfolding Docker_mutate_def io_simps
  using assms by (auto simp: io_simps intro!: wp_secureApi Docker_reload_wp)

lemma Docker_mutate_shows [simp]: "shows_ok R (Docker_mutate st endpoint b success)"
  by (simp add: Docker_mutate_def)

text \<open>The requests of the page that destroy nothing, whatever they ask for.\<close>

lemma destroys_nothing [simp]:
  "\<not> destroys (''/api/v1/docker/logs'' @ q) a" "\<not> destroys ''/api/v1/docker/exec'' a"
  "\<not> destroys (''/api/v1/docker/inspect'' @ q) a" "\<not> destroys ''/api/v1/docker/recreate'' a"
  "\<not> destroys (''/api/v1/docker/compose/config'' @ q) a" "\<not> destroys ''/api/v1/docker/compose/create'' a"
  "\<not> destroys ''/api/v1/docker/networks/create'' a" "\<not> destroys ''/api/v1/docker/volumes/create'' a"
  "\<not> destroys ''/api/v1/docker/install'' a" "\<not> destroys ''/api/v1/docker/compose/config'' a"
  by (simp_all add: destroys_def)

lemma Docker_submits_safe [simp]:
  "safe harms_docker (Docker_diagnosticSubmit st item ev)"
  "safe harms_docker (Docker_editSubmit st item current ev)"
  "safe harms_docker (Docker_createSubmit st ev)"
  "safe harms_docker (Docker_resourceSubmit st k ev)"
  "safe harms_docker (Docker_volumeSubmit st ev)"
  "safe harms_docker (Docker_cleanupSubmit st ev)"
proof -
  show "safe harms_docker (Docker_resourceSubmit st k ev)"
    by (auto simp: Docker_resourceSubmit_def Let_def io_simps destroys_def split: if_splits
        intro!: safeI io_rules Docker_mutate_wp shows_ok_combinators)
qed (auto simp: Docker_diagnosticSubmit_def Docker_editSubmit_def Docker_createSubmit_def Docker_volumeSubmit_def
    Docker_cleanupSubmit_def Let_def io_simps destroys_def intro!: safeI io_rules Docker_mutate_wp shows_ok_combinators)

lemma DockerImage_submit_safe [simp]: "safe harms_docker (DockerImage_submit st ev)"
  by (auto simp: DockerImage_submit_def Let_def io_simps intro!: safeI io_rules shows_ok_combinators)

lemma Docker_containerAction_safe [simp]: "safe harms_docker (Docker_containerAction st item action)"
  by (auto simp: Docker_containerAction_def Let_def io_simps destroys_def intro!: safeI io_rules Docker_mutate_wp)

lemma Docker_showLogs_safe [simp]: "safe harms_docker (Docker_showLogs st item)"
  by (auto simp: Docker_showLogs_def Let_def io_simps intro!: safeI io_rules Docker_mutate_wp)

lemma Docker_runDiagnostic_safe [simp]: "safe harms_docker (Docker_runDiagnostic st item)"
  by (auto simp: Docker_runDiagnostic_def Let_def io_simps intro!: safeI io_rules shows_ok_combinators)

lemma Docker_editContainer_safe [simp]: "safe harms_docker (Docker_editContainer st item)"
  by (auto simp: Docker_editContainer_def Let_def io_simps intro!: safeI io_rules shows_ok_combinators)

lemma Docker_composeAction_safe [simp]: "safe harms_docker (Docker_composeAction st project action)"
  by (auto simp: Docker_composeAction_def Let_def io_simps destroys_def intro!: safeI io_rules Docker_mutate_wp)

lemma Docker_editCompose_safe [simp]: "safe harms_docker (Docker_editCompose st project)"
  by (auto simp: Docker_editCompose_def Let_def io_simps intro!: safeI io_rules Docker_mutate_wp)

lemma Docker_createCompose_safe [simp]: "safe harms_docker (Docker_createCompose st)"
  by (auto simp: Docker_createCompose_def Let_def io_simps intro!: safeI io_rules shows_ok_combinators)

lemma Docker_imageDialog_safe [simp]: "safe harms_docker (Docker_imageDialog st)"
  by (auto simp: Docker_imageDialog_def Let_def io_simps intro!: safeI io_rules shows_ok_combinators)

lemma Docker_createResource_safe [simp]: "safe harms_docker (Docker_createResource st k)"
  by (auto simp: Docker_createResource_def Let_def io_simps intro!: safeI io_rules shows_ok_combinators)

lemma Docker_volumeTools_safe [simp]: "safe harms_docker (Docker_volumeTools st selected)"
  by (auto simp: Docker_volumeTools_def Let_def io_simps intro!: safeI io_rules shows_ok_combinators)

lemma Docker_cleanup_safe [simp]: "safe harms_docker (Docker_cleanup st)"
  by (auto simp: Docker_cleanup_def Let_def io_simps intro!: safeI io_rules shows_ok_combinators)

lemma ComposeEditor_submit_safe [simp]: "safe harms_docker (ComposeEditor_submit st ev)"
  by (auto simp: ComposeEditor_submit_def Let_def io_simps intro!: safeI io_rules)

interpretation compose_editor: page "ComposeEditor_view route" harms_docker
  by unfold_locales (simp add: ComposeEditor_view_def)

interpretation docker_image: page "DockerImage_view route" harms_docker
  by unfold_locales (simp add: DockerImage_view_def)

text \<open>The cards and grids of the page; a deletion asks first.\<close>

lemma Docker_mutate_safe [simp]:
  "(\<And>a. \<not> destroys endpoint a) \<Longrightarrow> safe harms_docker (Docker_mutate st endpoint b success)"
  by (rule safeI) (auto intro!: Docker_mutate_wp)

lemma Docker_confirmed_safe [simp]:
  "safe harms_docker (bnd (confirm_io t m l d) (\<lambda>r. if truthy r then Docker_mutate st endpoint b success else skip))"
  by (auto simp: io_simps intro!: safeI Docker_mutate_wp)

lemma Docker_cards_safe [simp]:
  "safe_view harms_docker (Docker_containerCard st item running stats)"
  "safe_view harms_docker (Docker_projectCard st item)"
  "safe_view harms_docker (Docker_imageGrid loc st)"
  "safe_view harms_docker (Docker_networkGrid st)"
  "safe_view harms_docker (Docker_volumeGrid st)"
  by (simp_all add: Docker_containerCard_def Docker_projectCard_def Docker_imageGrid_def Docker_networkGrid_def
      Docker_volumeGrid_def Let_def)

interpretation docker: page "Docker_view loc route" harms_docker
  by unfold_locales (simp add: Docker_view_def)


definition sample_container :: json where
  "sample_container = JObj [(''id'', JStr ''c1''), (''state'', JStr ''exited'')]"

definition sample_docker :: Docker_state where
  "sample_docker = Docker_init\<lparr>Docker_state := JObj [(''status'', JObj [(''available'', JBool True)]),
     (''containers'', JArr [sample_container])]\<rparr>"

text \<open>C14. Rules of interaction of the container page. Take any handler the page, or a dialog opened from it, offers in any state, and any run of it (any answers, other handlers in between): a request that stops, kills or removes a container, takes a project down, restores a volume, cleans up, or deletes an image, a network or a volume is sent only after the user confirmed it; a success message appears only after the server acknowledged a change; the handler never ends in an exception; and when it ends, a refused change has been reported.\<close>

theorem docker_rules:
  assumes "offered (Docker_view loc route) m" and "run m as s = (tr, out, s')" and "legal tr"
  shows "guarded_trace harms_docker tr \<and> honest_trace tr \<and> (\<forall>c. out \<noteq> Failed c) \<and>
    (out \<noteq> Suspended \<longrightarrow> \<not> silent_failure tr)"
  by (rule docker.rules_kept [OF assms])

theorem docker_rules_witness:
  "let r = run_alone (Docker_containerAction sample_docker sample_container ''remove'') yes_but_down sample_docker
   in length (requests (dids (events r))) = 1 \<and> guarded_trace harms_docker (events r) \<and> \<not> silent_failure (events r)"
proof -
  let ?m = "Docker_containerAction sample_docker sample_container ''remove''" and ?s = "sample_docker"
  let ?r = "run_alone ?m yes_but_down ?s"
  have "offered (Docker_view (\<lambda>n. None) sample_route) ?m"
    by (rule offered_handler [of "''onClick''" "\<lambda>ev. ?m" _ ?s])
       (auto simp: Docker_view_def Docker_containerCard_def Docker_available_def Docker_status_def sample_docker_def sample_container_def Docker_init_def array_of_def jor_def)
  moreover have "legal (events ?r) \<and> length (requests (dids (events ?r))) = 1 \<and> fst (snd ?r) \<noteq> Suspended"
    by (simp add: Docker_containerAction_def Docker_mutate_def yes_but_down_def sample_container_def run_ops)
  ultimately show ?thesis
    using docker_rules [OF _ run_alone_split] by (simp add: Let_def)
qed

subsection \<open>The form of a container\<close>

text \<open>The ports and mounts the server sends for the form: texts of visible ASCII characters without the separators for a
  port and for the type of a mount; paths of a mount of any characters but the separator and line ends, with no blanks around. A
  port has a protocol, a mount has a type and is mounted on an absolute path.\<close>

record port =
  po_ip :: string
  po_host :: string
  po_inner :: string
  po_proto :: string

definition port_json :: "port \<Rightarrow> json" where
  "port_json p = JObj [(''host_ip'', JStr (po_ip p)), (''host_port'', JStr (po_host p)),
     (''container_port'', JStr (po_inner p)), (''protocol'', JStr (po_proto p))]"

definition port_word :: "string \<Rightarrow> bool" where
  "port_word s \<longleftrightarrow> plain s \<and> CHR 0x7C \<notin> set s \<and> CHR ''/'' \<notin> set s"

definition port_ok :: "port \<Rightarrow> bool" where
  "port_ok p \<longleftrightarrow> port_word (po_ip p) \<and> port_word (po_host p) \<and> port_word (po_inner p) \<and> port_word (po_proto p) \<and>
     po_proto p \<noteq> []"

text \<open>A port without an address and without a host port has no line the form can read; one with an address only
  is read with the address as its host port.\<close>

definition port_lost :: "port \<Rightarrow> bool" where
  "port_lost p \<longleftrightarrow> po_ip p = [] \<and> po_host p = []"

definition port_back :: "port \<Rightarrow> port" where
  "port_back p = (if po_host p = [] then p\<lparr>po_ip := [], po_host := po_ip p\<rparr> else p)"

definition port_parts :: "port \<Rightarrow> string list" where
  "port_parts p = (if po_ip p = [] then [] else [po_ip p]) @ (if po_host p = [] then [] else [po_host p]) @
     [po_inner p @ ''/'' @ po_proto p]"

lemma port_line: "port_ok p \<Longrightarrow> Docker_portLine (port_json p) = join_with ''|'' (port_parts p)"
  by (cases "po_ip p = []"; cases "po_host p = []")
     (simp_all add: Docker_portLine_def port_json_def port_ok_def port_parts_def array_text_def nullish_def jor_def)

lemma port_line_read:
  assumes "port_ok p"
  shows "Docker_parsePort (Docker_portLine (port_json p)) =
    (if port_lost p then Inl (Js_error (t_bad_port @ po_inner p @ ''/'' @ po_proto p)) else Inr (port_json (port_back p)))"
proof -
  have w: "port_word (po_ip p)" "port_word (po_host p)" "port_word (po_inner p)" "port_word (po_proto p)" "po_proto p \<noteq> []"
    using assms by (simp_all add: port_ok_def)
  have "map js_trim (split_at (CHR 0x7C) (join_with ''|'' (port_parts p))) = port_parts p"
    using w by (subst split_join_with) (auto simp: port_word_def port_parts_def code_def split: if_splits)
  moreover have "split_at (CHR ''/'') (po_inner p @ ''/'' @ po_proto p) = [po_inner p, po_proto p]"
    using w by (auto simp: port_word_def split_at_append split_at_no_sep)
  ultimately show ?thesis
    unfolding port_line [OF assms] Docker_parsePort_def
    using w by (cases "po_ip p = []"; cases "po_host p = []")
       (simp_all add: port_json_def port_parts_def port_lost_def port_back_def text_at_def jor_def)
qed

record mount =
  mo_type :: string
  mo_source :: string
  mo_target :: string
  mo_ro :: bool

definition mount_json :: "mount \<Rightarrow> json" where
  "mount_json m = JObj [(''type'', JStr (mo_type m)), (''source'', JStr (mo_source m)),
     (''target'', JStr (mo_target m)), (''read_only'', JBool (mo_ro m))]"

definition mount_path :: "string \<Rightarrow> bool" where
  "mount_path s \<longleftrightarrow> js_trim s = s \<and> CHR 0x7C \<notin> set s \<and> CHR 0x0A \<notin> set s"

definition mount_ok :: "mount \<Rightarrow> bool" where
  "mount_ok m \<longleftrightarrow> plain (mo_type m) \<and> CHR 0x7C \<notin> set (mo_type m) \<and> mo_type m \<noteq> [] \<and>
     mount_path (mo_source m) \<and> mount_path (mo_target m) \<and> starts_with (mo_target m) ''/''"

definition mount_parts :: "mount \<Rightarrow> string list" where
  "mount_parts m = [mo_type m, mo_source m, mo_target m, if mo_ro m then ''ro'' else ''rw'']"

lemma mount_line: "mount_ok m \<Longrightarrow> Docker_mountLine (mount_json m) = join_with ''|'' (mount_parts m)"
  by (simp add: Docker_mountLine_def mount_json_def mount_ok_def mount_parts_def jor_def)

lemma mount_line_read:
  assumes "mount_ok m"
  shows "Docker_parseMount (Docker_mountLine (mount_json m)) =
    (if mo_source m = [] then Inl (Js_error (t_bad_mount @ Docker_mountLine (mount_json m))) else Inr (mount_json m))"
proof -
  have "map js_trim (split_at (CHR 0x7C) (join_with ''|'' (mount_parts m))) = mount_parts m"
    using assms by (subst split_join_with) (auto simp: mount_ok_def mount_path_def mount_parts_def code_def split: if_splits)
  then show ?thesis
    unfolding mount_line [OF assms] Docker_parseMount_def
    using assms by (simp add: field_or_def mount_parts_def mount_ok_def mount_json_def split: if_splits)
qed

lemma port_line_plain: "port_ok p \<Longrightarrow> plain (Docker_portLine (port_json p)) \<and> Docker_portLine (port_json p) \<noteq> []"
  by (cases "po_ip p = []"; cases "po_host p = []") (auto simp: port_line port_parts_def port_ok_def port_word_def code_def)

lemma mount_line_trimmed:
  assumes "mount_ok m"
  shows "let l = Docker_mountLine (mount_json m) in js_trim l = l \<and> l \<noteq> [] \<and> CHR 0x0A \<notin> set l \<and> strip_cr l = l"
proof -
  let ?l = "Docker_mountLine (mount_json m)" and ?z = "if mo_ro m then CHR ''o'' else CHR ''w''"
  have ok: "plain (mo_type m)" "mo_type m \<noteq> []" "CHR 0x0A \<notin> set (mo_source m)" "CHR 0x0A \<notin> set (mo_target m)"
    using assms by (simp_all add: mount_ok_def mount_path_def)
  obtain a ts where type: "mo_type m = a # ts" using ok(2) by (cases "mo_type m") auto
  have line: "?l = mo_type m @ ''|'' @ mo_source m @ ''|'' @ mo_target m @ ''|r'' @ [?z]"
    by (simp add: mount_line [OF assms] mount_parts_def split: if_split)
  have z: "plain [?z]" "?z \<noteq> CHR 0x0D" by (simp_all add: code_def split: if_split)
  obtain b s where l: "?l = a # b # s @ [?z]" "plain [a, b]"
  proof (cases ts)
    case Nil
    then show ?thesis using that line type ok(1) by (simp add: code_def)
  next
    case (Cons b us)
    then show ?thesis using that line type ok(1) by simp
  qed
  then have "js_trim ?l = ?l" using js_trim_between [OF l(2) z(1)] by simp
  moreover have "strip_cr ?l = ?l" using z(2) by (simp add: strip_cr_def l(1))
  moreover have "CHR 0x0A \<notin> set ?l" using ok by (auto simp: line plain_def code_def split: if_splits)
  ultimately show ?thesis using l(1) by (simp add: Let_def)
qed

text \<open>C19. What becomes of the ports and mounts of a container when its form is saved without being touched, for any
  number of them. The two text areas hold a line for each, and each line is read back. If every port has a
  host port and every mount a source, what is sent are the very lists the form was opened with. A port with an
  address only, its host port left to the engine, is sent with the address as its host port; and
  a port with neither, or a mount without a source, makes the form refuse: saving fails with a message that
  shows the first such line.\<close>

theorem container_form_roundtrip:
  assumes "\<forall>p\<in>set ports. port_ok p" and "\<forall>m\<in>set mounts. mount_ok m"
  shows "Docker_parsePorts (join_with nl (map Docker_portLine (map port_json ports))) =
      (case find_first port_lost ports of
         Some p \<Rightarrow> Inl (Js_error (t_bad_port @ po_inner p @ ''/'' @ po_proto p))
       | None \<Rightarrow> Inr (JArr (map (\<lambda>p. port_json (port_back p)) ports))) \<and>
    Docker_parseMounts (join_with nl (map Docker_mountLine (map mount_json mounts))) =
      (case find_first (\<lambda>m. mo_source m = []) mounts of
         Some m \<Rightarrow> Inl (Js_error (t_bad_mount @ Docker_mountLine (mount_json m)))
       | None \<Rightarrow> Inr (JArr (map mount_json mounts))) \<and>
    ((\<forall>p\<in>set ports. po_host p \<noteq> []) \<longrightarrow>
      Docker_parsePorts (join_with nl (map Docker_portLine (map port_json ports))) = Inr (JArr (map port_json ports)))"
proof -
  have ports: "lines (join_with nl (map Docker_portLine (map port_json ports))) = map (\<lambda>p. Docker_portLine (port_json p)) ports"
    using assms(1) port_line_plain by (subst lines_plain) (auto simp: comp_def)
  have mounts: "lines (join_with nl (map Docker_mountLine (map mount_json mounts))) =
      map (\<lambda>m. Docker_mountLine (mount_json m)) mounts"
    using assms(2) mount_line_trimmed by (subst lines_trimmed) (auto simp: comp_def Let_def)
  have read: "Docker_parsePorts (join_with nl (map Docker_portLine (map port_json ports))) =
      (case find_first port_lost ports of
         Some p \<Rightarrow> Inl (Js_error (t_bad_port @ po_inner p @ ''/'' @ po_proto p))
       | None \<Rightarrow> Inr (JArr (map (\<lambda>p. port_json (port_back p)) ports)))"
    unfolding Docker_parsePorts_def ports using assms(1) port_line_read
    by (intro try_map_first [where e = "\<lambda>p. Js_error (t_bad_port @ po_inner p @ ''/'' @ po_proto p)"]) auto
  moreover have "Docker_parseMounts (join_with nl (map Docker_mountLine (map mount_json mounts))) =
      (case find_first (\<lambda>m. mo_source m = []) mounts of
         Some m \<Rightarrow> Inl (Js_error (t_bad_mount @ Docker_mountLine (mount_json m)))
       | None \<Rightarrow> Inr (JArr (map mount_json mounts)))"
    unfolding Docker_parseMounts_def mounts using assms(2) mount_line_read
    by (intro try_map_first [where e = "\<lambda>m. Js_error (t_bad_mount @ Docker_mountLine (mount_json m))"]) auto
  moreover have "Docker_parsePorts (join_with nl (map Docker_portLine (map port_json ports))) = Inr (JArr (map port_json ports))"
    if "\<forall>p\<in>set ports. po_host p \<noteq> []"
  proof -
    have "find_first port_lost ports = None" "map (\<lambda>p. port_json (port_back p)) ports = map port_json ports"
      using that by (auto simp: port_lost_def port_back_def)
    then show ?thesis unfolding read by (simp only: option.case)
  qed
  ultimately show ?thesis by blast
qed

definition sample_port :: port where
  "sample_port = \<lparr>po_ip = ''127.0.0.1'', po_host = ''8080'', po_inner = ''80'', po_proto = ''tcp''\<rparr>"

definition sample_mount :: mount where
  "sample_mount = \<lparr>mo_type = ''bind'', mo_source = ''/srv/web'', mo_target = ''/data'', mo_ro = True\<rparr>"

theorem container_form_roundtrip_witness:
  "let picked = sample_port\<lparr>po_ip := [], po_host := []\<rparr>
   in Docker_parsePorts (join_with nl (map Docker_portLine (map port_json [sample_port, picked]))) =
        Inl (Js_error (t_bad_port @ ''80/tcp'')) \<and>
      Docker_parsePorts (join_with nl (map Docker_portLine (map port_json [sample_port]))) = Inr (JArr [port_json sample_port]) \<and>
      Docker_parseMounts (join_with nl (map Docker_mountLine (map mount_json [sample_mount]))) = Inr (JArr [mount_json sample_mount])"
proof -
  let ?picked = "sample_port\<lparr>po_ip := [], po_host := []\<rparr>"
  have ok: "port_ok sample_port" "port_ok ?picked" "mount_ok sample_mount"
    by (simp_all add: sample_port_def sample_mount_def port_ok_def mount_ok_def mount_path_def port_word_def code_def
        starts_with_def)
  have "port_lost ?picked" "\<not> port_lost sample_port" "port_back sample_port = sample_port"
    by (simp_all add: port_lost_def port_back_def sample_port_def)
  moreover have "po_inner ?picked @ ''/'' @ po_proto ?picked = ''80/tcp''" "po_host sample_port \<noteq> []" "mo_source sample_mount \<noteq> []"
    by (simp_all add: sample_port_def sample_mount_def)
  ultimately show ?thesis
    using container_form_roundtrip [of "[sample_port, ?picked]" "[sample_mount]"]
      container_form_roundtrip [of "[sample_port]" "[sample_mount]"] ok
    by (simp add: Let_def)
qed

end
