(* ===== verification/Files_Page.thy ===== *)
theory Files_Page imports Page_Base begin

text \<open>
  The file manager, \<open>web/assets/app.js\<close>, lines 1742 to 2159: the page with its four lists, its uploads and
  dialogs, and the editor, a component of its own.
\<close>

subsection \<open>Paths and modes\<close>

text \<open>The regular expressions of the page: \<open>/\/+/g\<close> replaced by one slash, the octal digits at the end
  of a mode, a mode of three or four octal digits, and the suffix of an archive.\<close>

fun collapse_slashes :: "string \<Rightarrow> string" where
  "collapse_slashes [] = []"
| "collapse_slashes [c] = [c]"
| "collapse_slashes (c # d # cs) =
     (if c = CHR ''/'' \<and> d = CHR ''/'' then collapse_slashes (d # cs) else c # collapse_slashes (d # cs))"

definition is_octal :: "char \<Rightarrow> bool" where
  "is_octal c \<longleftrightarrow> 48 \<le> code c \<and> code c \<le> 55"

definition octal_tail :: "json \<Rightarrow> json" where
  "octal_tail v = (case v of JStr s \<Rightarrow>
       (let tail = takeWhile is_octal (rev s)
        in if length tail < 3 then JUndef else JStr (rev (take 4 tail)))
     | _ \<Rightarrow> JUndef)"

definition is_mode :: "string \<Rightarrow> bool" where
  "is_mode s \<longleftrightarrow> list_all is_octal s \<and> (length s = 3 \<or> length s = 4)"

definition strip_archive :: "string \<Rightarrow> string" where
  "strip_archive s = (if ends_with (to_lower s) ''.tar.gz'' then take (length s - 7) s
     else if ends_with (to_lower s) ''.zip'' then take (length s - 4) s else s)"

definition Files_joinPath :: "string \<Rightarrow> string \<Rightarrow> string" where
  "Files_joinPath base name =
     (let p = collapse_slashes ((if base = ''/'' then [] else base) @ ''/'' @ name)
      in if p = [] then ''/'' else p)"

text \<open>\<open>slice(0, lastIndexOf('/'))\<close>: without a slash the index is -1, and the last unit is cut.\<close>

definition Files_parentOf :: "string \<Rightarrow> string" where
  "Files_parentOf path =
     (let p = (if CHR ''/'' \<in> set path then rev (tl (dropWhile (\<lambda>c. c \<noteq> CHR ''/'') (rev path)))
               else js_take (js_length path - 1) path)
      in if p = [] then ''/'' else p)"

fun crumbs :: "string \<Rightarrow> string list \<Rightarrow> json list" where
  "crumbs current [] = []"
| "crumbs current (p # ps) =
     (let c = current @ ''/'' @ p in JObj [(''label'', JStr p), (''path'', JStr c)] # crumbs c ps)"

subsection \<open>The progress of several files as one\<close>

definition Files_totalBytes :: "json list \<Rightarrow> rat" where
  "Files_totalBytes files = foldl (\<lambda>sum file. sum + number (fld file ''size'')) 0 files"

definition Files_uploadReport :: "json list \<Rightarrow> nat \<Rightarrow> rat \<Rightarrow> json \<Rightarrow> transfer \<Rightarrow> transfer" where
  "Files_uploadReport files completed completedBytes file report =
     (let total0 = Files_totalBytes files;
          loaded = min total0 (completedBytes + tr_loaded report);
          rate = tr_rate report
      in \<lparr>tr_name = (if length files > 1
              then t_upload_space @ nat_str (completed + 1) @ ''/'' @ nat_str (length files) @ t_mid_dot @
                   jstring (fld file ''name'')
              else t_upload_space @ jstring (fld file ''name'')),
          tr_phase = tr_phase report, tr_loaded = loaded, tr_total = total0,
          tr_percent = (if total0 \<noteq> 0 then loaded / total0 * 100 else tr_percent report),
          tr_rate = rate, tr_eta = (if rate \<noteq> 0 then max 0 ((total0 - loaded) / rate) else 0)\<rparr>)"

record Files_state =
  Files_listing :: json
  Files_preferences :: json
  Files_recycle :: "json list"
  Files_mode :: string
  Files_filter :: string
  Files_loading :: bool
  Files_working :: bool
  Files_error :: string
  Files_createMenuOpen :: bool
  Files_uploadMenuOpen :: bool
  Files_transfer :: "transfer option"
  Files_transferController :: "nat option"
  Files_controllers :: nat

definition Files_init :: Files_state where
  "Files_init = \<lparr>Files_listing = JObj
                            [(''path'', JStr ''/''), (''parent'', JStr []), (''entries'', JArr [])],
          Files_preferences = JObj [(''favorites'', JArr []), (''recent'', JArr [])],
          Files_recycle = [], Files_mode = ''files'', Files_filter = [], Files_loading = True,
          Files_working = False, Files_error = [], Files_createMenuOpen = False,
          Files_uploadMenuOpen = False, Files_transfer = None, Files_transferController = None,
          Files_controllers = 0\<rparr>"

definition Files_normalizePreferences :: "Files_state \<Rightarrow> json \<Rightarrow> json" where
  "Files_normalizePreferences st v =
     JObj [(''favorites'', JArr (listOf v [''favorites''])),
           (''recent'', JArr (listOf v [''recent'']))]"

definition Files_load :: "Files_state \<Rightarrow> json \<Rightarrow> Files_state io" where
  "Files_load st path =
     (let path = (if path = JUndef then jor (fld (Files_listing st) ''path'') (JStr ''/'') else path)
      in steps
           [set_state (\<lambda>s. s\<lparr>Files_loading := True\<rparr>),
            set_state (\<lambda>s. s\<lparr>Files_error := []\<rparr>),
            try_finally
              (try_catch
                 (bnd (promise_all [api (''/api/v1/files'' @ query [(''path'', path)]) empty_init,
                                    api ''/api/v1/files/preferences'' empty_init])
                    (\<lambda>r1.
                       let nxt = idx r1 0;
                           prefs = idx r1 1
                       in steps [set_state (\<lambda>s.
                                              s\<lparr>Files_listing := spread (asObject nxt)
                                                  [(''entries'', JArr (listOf nxt [''entries'']))]\<rparr>),
                                 set_state
                                   (\<lambda>s. s\<lparr>Files_preferences := Files_normalizePreferences st prefs\<rparr>)]))
                 (\<lambda>cause. set_state (\<lambda>s. s\<lparr>Files_error := errorDetail cause\<rparr>)))
              (set_state (\<lambda>s. s\<lparr>Files_loading := False\<rparr>))])"

definition Files_loadRecycle :: "Files_state \<Rightarrow> Files_state io" where
  "Files_loadRecycle st =
     steps
       [set_state (\<lambda>s. s\<lparr>Files_loading := True\<rparr>),
        set_state (\<lambda>s. s\<lparr>Files_error := []\<rparr>),
        try_finally (try_catch (bnd (api ''/api/v1/files/recycle'' empty_init)
                                  (\<lambda>r2. set_state (\<lambda>s. s\<lparr>Files_recycle := listOf r2 [''entries'']\<rparr>)))
                       (\<lambda>cause. set_state (\<lambda>s. s\<lparr>Files_error := errorDetail cause\<rparr>)))
          (set_state (\<lambda>s. s\<lparr>Files_loading := False\<rparr>))]"

definition Files_effect :: "Files_state \<Rightarrow> Files_state io" where
  "Files_effect st = Files_load st (JStr ''/'')"

definition Files_switchMode :: "Files_state \<Rightarrow> json \<Rightarrow> Files_state io" where
  "Files_switchMode st nxt =
     steps
       [set_state (\<lambda>s. s\<lparr>Files_mode := jstring nxt\<rparr>),
        set_state (\<lambda>s. s\<lparr>Files_filter := []\<rparr>),
        if nxt = JStr ''recycle'' then Files_loadRecycle st
        else if nxt = JStr ''files'' then Files_load st (fld (Files_listing st) ''path'')
        else steps [set_state (\<lambda>s. s\<lparr>Files_loading := True\<rparr>),
                    try_finally (try_catch (bnd (api ''/api/v1/files/preferences'' empty_init)
                                              (\<lambda>r3.
                                                 set_state (\<lambda>s.
                                                              s\<lparr>Files_preferences :=
                                                                  Files_normalizePreferences st r3\<rparr>)))
                                   (\<lambda>cause. set_state (\<lambda>s. s\<lparr>Files_error := errorDetail cause\<rparr>)))
                      (set_state (\<lambda>s. s\<lparr>Files_loading := False\<rparr>))]]"

definition Files_favorites :: "Files_state \<Rightarrow> json list" where
  "Files_favorites st =
     map (\<lambda>item. fld item ''path'') (listOf (Files_preferences st) [''favorites''])"

definition Files_sourceEntries :: "Files_state \<Rightarrow> json list" where
  "Files_sourceEntries st =
     (if Files_mode st = ''favorites'' then listOf (Files_preferences st) [''favorites'']
      else if Files_mode st = ''recent'' then listOf (Files_preferences st) [''recent'']
      else listOf (Files_listing st) [''entries''])"

definition Files_entries :: "Files_state \<Rightarrow> json list" where
  "Files_entries st =
     filter
       (\<lambda>item.
          Files_filter st = [] \<or>
          str_includes (toLowerCase (jstring (fld item ''name'') @ '' '' @ jstring (fld item ''path'')))
            (toLowerCase (Files_filter st)))
       (map (\<lambda>item.
               spread item
                 [(''name'',
                   jor (fld item ''name'')
                     (last_text (split_at (CHR ''/'') (jstring (jor (fld item ''path'') (JStr [])))))),
                  (''is_dir'', jnn (fld item ''is_dir'') (fld item ''directory''))])
          (Files_sourceEntries st))"

definition Files_breadcrumbs :: "Files_state \<Rightarrow> json list" where
  "Files_breadcrumbs st = JObj [(''label'', JStr t_root_dir), (''path'', JStr ''/'')] #
     crumbs [] (filter (\<lambda>p. p \<noteq> []) (split_at (CHR ''/'') (jstring (jor (fld (Files_listing st) ''path'') (JStr ''/'')))))"



definition Files_mutate :: "Files_state \<Rightarrow> string \<Rightarrow> json \<Rightarrow> string \<Rightarrow> Files_state io" where
  "Files_mutate st endpoint body0 success =
     steps
       [set_state (\<lambda>s. s\<lparr>Files_working := True\<rparr>),
        try_finally
          (try_catch
             (steps
                [secureApi endpoint (with_body ''POST'' (jsonBody body0)),
                 let sourcePath = jstring (jor (jor (fld body0 ''source'') (fld body0 ''path'')) (JStr []))
                 in let favoriteEntry = find_json (\<lambda>item. fld item ''path'' = JStr sourcePath)
                                          (listOf (Files_preferences st) [''favorites''])
                    in steps
                         [if truthy favoriteEntry \<and> endpoint = ''/api/v1/files/delete''
                            then api ''/api/v1/files/preferences''
                                   (with_body ''POST''
                                      (jsonBody (JObj [(''action'', JStr ''unfavorite''),
                                                       (''path'', JStr sourcePath),
                                                       (''is_dir'',
                                                        JBool (truthy (fld favoriteEntry ''is_dir'')))])))
                          else if truthy favoriteEntry \<and>
                             (endpoint = ''/api/v1/files/rename'' \<or>
                                         endpoint = ''/api/v1/files/move'')
                            then let destination = jstring (jor (fld body0 ''destination'') (JStr []))
                                 in steps [api ''/api/v1/files/preferences''
                                             (with_body ''POST''
                                                (jsonBody (JObj [(''action'', JStr ''unfavorite''),
                                                                 (''path'', JStr sourcePath),
                                                                 (''is_dir'',
                                                                  JBool (truthy (fld favoriteEntry
                                                                                   ''is_dir'')))]))),
                                           api ''/api/v1/files/preferences''
                                             (with_body ''POST''
                                                (jsonBody (JObj [(''action'', JStr ''favorite''),
                                                                 (''path'', JStr destination),
                                                                 (''is_dir'',
                                                                  JBool (truthy (fld favoriteEntry
                                                                                   ''is_dir'')))])))]
                          else skip,
                          notify Success success JUndef,
                          Files_load st (fld (Files_listing st) ''path''),
                          Ret (JBool True)]])
             (\<lambda>cause.
                steps
                  [notify Failure t_file_op_failed (JStr (errorDetail cause)), Ret (JBool False)]))
          (set_state (\<lambda>s. s\<lparr>Files_working := False\<rparr>))]"

definition Files_restoreCompared :: "locale_date \<Rightarrow> Files_state \<Rightarrow> json \<Rightarrow> json \<Rightarrow> Files_state io" where
  "Files_restoreCompared loc st path version =
     bnd (confirm_io t_restore_version
            (t_restore_to @ formatDate loc (fld version ''created_at'') @ t_restore_to_end)
            t_restore False)
       (\<lambda>r9.
          if truthy r9
            then steps [secureApi ''/api/v1/files/backups/restore''
                          (with_body ''POST''
                             (jsonBody (JObj [(''path'', jor (fld version ''path'') path),
                                              (''id'', fld version ''id'')]))),
                        Files_load st (fld (Files_listing st) ''path''),
                        notify Success t_version_restored JUndef,
                        perform Close_modal]
          else skip)"

definition Files_compareVersion :: "locale_date \<Rightarrow> Files_state \<Rightarrow> json \<Rightarrow> json \<Rightarrow> Files_state io" where
  "Files_compareVersion loc st path version =
     try_catch (bnd (secureApi (''/api/v1/files/backups/diff'' @
                                query [(''path'', jor (fld version ''path'') path),
                                       (''id'', fld version ''id'')])
                       empty_init)
                  (\<lambda>r8.
                     let diff = asObject r8
                     in open_modal t_version_diff ''large''
                          [El ''div'' [(''className'', JStr ''form-stack'')] []
                             [Terminal [(''maxHeight'', JNum 600)]
                                (child (jor (fld diff ''diff'') (JStr t_no_difference))),
                              El ''div'' [(''className'', JStr ''form-actions'')] []
                                [Button [] [(''onClick'', \<lambda>ev. perform Close_modal)] [Txt t_close],
                                 Button [(''tone'', JStr ''primary'')]
                                   [(''onClick'', \<lambda>ev. Files_restoreCompared loc st path version)]
                                   [Txt t_restore_this]]]]))
       (\<lambda>cause. notify Failure t_compare_failed (JStr (errorDetail cause)))"

definition Files_restoreVersion :: "locale_date \<Rightarrow> Files_state \<Rightarrow> json \<Rightarrow> json \<Rightarrow> Files_state io" where
  "Files_restoreVersion loc st path version =
     bnd (confirm_io t_restore_version
            (t_restore_to @ formatDate loc (fld version ''created_at'') @ t_question_mark) t_restore
            False)
       (\<lambda>r10.
          if truthy r10
            then try_catch (steps [secureApi ''/api/v1/files/backups/restore''
                                     (with_body ''POST''
                                        (jsonBody (JObj [(''path'', jor (fld version ''path'') path),
                                                         (''id'', fld version ''id'')]))),
                                   Files_load st (fld (Files_listing st) ''path''),
                                   notify Success t_version_restored JUndef,
                                   perform Close_modal])
                   (\<lambda>cause. notify Failure t_restore_failed (JStr (errorDetail cause)))
          else skip)"

definition Files_showHistory :: "locale_date \<Rightarrow> Files_state \<Rightarrow> json \<Rightarrow> Files_state io" where
  "Files_showHistory loc st path =
     try_catch
       (bnd (secureApi (''/api/v1/files/backups'' @ query [(''path'', path)]) empty_init)
          (\<lambda>result.
             let versions = listOf result [''backups'', ''versions'']
             in open_modal t_history ''large''
                  (if length versions \<noteq> 0
                     then [El ''div'' [(''className'', JStr ''card-list compact-list'')] []
                             (map
                                (\<lambda>version.
                                   El ''div'' [(''className'', JStr ''history-row''),
                                               (''key'', fld version ''id'')]
                                     []
                                     [El ''div'' [] []
                                        [El ''strong'' [] []
                                           [Txt (formatDate loc (fld version ''created_at''))],
                                         El ''small'' [] [] ([Txt (formatBytes (fld version ''size'')),
                                                              Txt t_mid_dot] @
                                                             child (fld version ''id''))],
                                      El ''div'' [(''className'', JStr ''row-buttons'')] []
                                        [Button []
                                           [(''onClick'', \<lambda>ev. Files_compareVersion loc st path version)]
                                           [Txt t_compare],
                                         Button [(''tone'', JStr ''primary'')]
                                           [(''onClick'', \<lambda>ev. Files_restoreVersion loc st path version)]
                                           [Txt t_restore]]])
                                versions)]
                   else [EmptyState [(''icon'', JStr ''backup''), (''title'', JStr t_no_history),
                                     (''description'', JStr t_no_history_detail)]
                           []])))
       (\<lambda>cause. notify Failure t_read_history_failed (JStr (errorDetail cause)))"

definition Files_saveContent :: "Files_state \<Rightarrow> json \<Rightarrow> json \<Rightarrow> Files_state io" where
  "Files_saveContent st item ev =
     steps [secureApi ''/api/v1/files/content''
              (with_body ''PUT'' (jsonBody (JObj [(''path'', fld item ''path''), (''content'', ev)]))),
            Files_load st (fld (Files_listing st) ''path''),
            notify Success t_file_saved JUndef]"

definition Files_openEditor :: "locale_date \<Rightarrow> Files_state \<Rightarrow> json \<Rightarrow> Files_state io" where
  "Files_openEditor loc st item =
     try_catch (bnd (secureApi (''/api/v1/files/content'' @ query [(''path'', fld item ''path'')])
                       empty_init)
                  (\<lambda>r4.
                     let content = asObject r4
                     in let v = text_or (fld content ''content'') []
                        in open_modal (jstring (fld item ''name'')) ''large''
                             [El ''FileEditorModal'' [(''item'', item), (''initial'', JStr v)]
                                [(''onClose'', \<lambda>ev. perform Close_modal),
                                 (''onSave'', \<lambda>ev. Files_saveContent st item ev),
                                 (''onHistory'', \<lambda>ev. Files_showHistory loc st (fld item ''path''))]
                                []]))
       (\<lambda>cause. notify Failure t_read_file_failed (JStr (errorDetail cause)))"

definition Files_downloadEntry :: "Files_state \<Rightarrow> json \<Rightarrow> Files_state io" where
  "Files_downloadEntry st item =
     try_catch (steps [secureApi (''/api/v1/files/preview'' @ query [(''path'', fld item ''path'')])
                         empty_init,
                       perform (Dom ''location.assign'' [JStr (''/api/v1/files/download'' @
                                                               query [(''path'', fld item ''path'')])])])
       (\<lambda>cause. notify Failure t_download_failed (JStr (errorDetail cause)))"

definition Files_openEntry :: "locale_date \<Rightarrow> Files_state \<Rightarrow> json \<Rightarrow> Files_state io" where
  "Files_openEntry loc st item =
     (if truthy (fld item ''is_dir'')
        then steps [set_state (\<lambda>s. s\<lparr>Files_mode := ''files''\<rparr>), Files_load st (fld item ''path'')]
      else steps
             [set_state (\<lambda>s. s\<lparr>Files_working := True\<rparr>),
              try_finally
                (try_catch
                   (bnd
                      (secureApi (''/api/v1/files/preview'' @ query [(''path'', fld item ''path'')])
                         empty_init)
                      (\<lambda>r5.
                         let preview = asObject r5
                         in let kind = text_or (fld preview ''kind'') ''download''
                            in if kind = ''text'' \<or> kind = ''markdown''
                                 then Files_openEditor loc st item
                               else if kind = ''image''
                                 then open_modal (jstring (fld item ''name'')) ''large''
                                        [El ''div'' [(''className'', JStr ''preview-wrap'')] []
                                           [El ''img'' [(''className'', JStr ''image-preview''),
                                                        (''src'',
                                                         JStr (''/api/v1/files/preview/raw'' @
                                                               query [(''path'', fld item ''path'')])),
                                                        (''alt'', fld item ''name'')]
                                              [] [],
                                            El ''a''
                                              [(''className'', JStr ''button button-default''),
                                               (''href'',
                                                JStr (''/api/v1/files/download'' @
                                                      query [(''path'', fld item ''path'')]))]
                                              [] [Icon [(''name'', JStr ''download''),
                                                        (''size'', JNum 17)],
                                                  El ''span'' [] [] [Txt t_download]]]]
                               else if kind = ''pdf''
                                 then open_modal (jstring (fld item ''name'')) ''large''
                                        [El ''div'' [(''className'', JStr ''preview-wrap'')] []
                                           [El ''iframe''
                                              [(''className'', JStr ''pdf-preview''),
                                               (''src'',
                                                JStr (''/api/v1/files/preview/raw'' @
                                                      query [(''path'', fld item ''path'')])),
                                               (''title'', fld item ''name'')]
                                              [] [],
                                            El ''a''
                                              [(''className'', JStr ''button button-default''),
                                               (''href'',
                                                JStr (''/api/v1/files/download'' @
                                                      query [(''path'', fld item ''path'')]))]
                                              [] [Icon [(''name'', JStr ''download''),
                                                        (''size'', JNum 17)],
                                                  El ''span'' [] [] [Txt t_download]]]]
                               else if kind = ''archive''
                                 then bnd (secureApi (''/api/v1/files/archive/list'' @
                                                      query [(''path'', fld item ''path'')])
                                             empty_init)
                                        (\<lambda>archive.
                                           open_modal
                                             (jstring (fld item ''name'') @ t_archive_suffix)
                                             ''large''
                                             [JsonDetails [(''data'', archive),
                                                           (''title'', JStr t_archive_entries)],
                                              El ''a''
                                                [(''className'', JStr ''button button-default''),
                                                 (''href'',
                                                  JStr (''/api/v1/files/download'' @
                                                        query [(''path'', fld item ''path'')]))]
                                                [] [Icon [(''name'', JStr ''download''),
                                                          (''size'', JNum 17)],
                                                    El ''span'' [] [] [Txt t_download]]])
                               else Files_downloadEntry st item))
                   (\<lambda>cause. notify Failure t_cannot_open (JStr (errorDetail cause))))
                (set_state (\<lambda>s. s\<lparr>Files_working := False\<rparr>))])"

definition Files_promptSubmit :: "Files_state \<Rightarrow> string \<Rightarrow> (string \<Rightarrow> json) \<Rightarrow> string \<Rightarrow> (string \<Rightarrow> bool) \<Rightarrow> json \<Rightarrow> Files_state io" where
  "Files_promptSubmit st endpoint body0 success pattern ev =
     steps [perform Prevent_default,
            let v = js_trim (jstring (jor (form_get (fld ev ''form'') ''value'') (JStr [])))
            in if v = [] \<or> (\<not> pattern v) then notify Warning t_bad_input JUndef
               else bnd (Files_mutate st endpoint (body0 v) success)
                      (\<lambda>r14. if truthy r14 then perform Close_modal else skip)]"

definition Files_promptMutation :: "Files_state \<Rightarrow> string \<Rightarrow> string \<Rightarrow> string \<Rightarrow> string \<Rightarrow> (string \<Rightarrow> json) \<Rightarrow> string \<Rightarrow> (string \<Rightarrow> bool) \<Rightarrow> Files_state io" where
  "Files_promptMutation st title label initial endpoint body0 success pattern =
     open_modal title []
       [El ''form'' [(''className'', JStr ''form-stack'')]
          [(''onSubmit'', \<lambda>ev. Files_promptSubmit st endpoint body0 success pattern ev)]
          [Field [(''label'', JStr label)]
             [TextInput [(''name'', JStr ''value''), (''defaultValue'', JStr initial),
                         (''autoFocus'', JBool True), (''required'', JBool True)]
                []],
           El ''div'' [(''className'', JStr ''form-actions'')] []
             [Button [] [(''onClick'', \<lambda>ev. perform Close_modal)] [Txt t_cancel],
              Button [(''type'', JStr ''submit''), (''tone'', JStr ''primary'')] [] [Txt t_confirm]]]]"

definition Files_createEntry :: "Files_state \<Rightarrow> string \<Rightarrow> Files_state io" where
  "Files_createEntry st kind =
     Files_promptMutation st (if kind = ''file'' then t_new_file else t_new_folder) t_name []
       (if kind = ''file'' then ''/api/v1/files/create'' else ''/api/v1/files/mkdir'')
       (\<lambda>v. JObj [(''path'', JStr (Files_joinPath (jstring (fld (Files_listing st) ''path'')) v))])
       (if kind = ''file'' then t_file_created else t_folder_created) (\<lambda>v. True)"

definition Files_chownSubmit :: "Files_state \<Rightarrow> json \<Rightarrow> json \<Rightarrow> Files_state io" where
  "Files_chownSubmit st item ev =
     steps [perform Prevent_default,
            let values = fld ev ''form''
            in bnd (Files_mutate st ''/api/v1/files/chown''
                      (JObj [(''path'', fld item ''path''), (''owner'', form_get values ''owner''),
                             (''group'', form_get values ''group'')])
                      t_owner_changed)
                 (\<lambda>r15. if truthy r15 then perform Close_modal else skip)]"

definition Files_trashEntry :: "Files_state \<Rightarrow> json \<Rightarrow> Files_state io" where
  "Files_trashEntry st item =
     bnd (confirm_io t_move_to_trash
            (t_delete_quote @ jstring (fld item ''name'') @ t_delete_quote_end) t_delete True)
       (\<lambda>r16.
          if truthy r16
            then bnd (Files_mutate st ''/api/v1/files/delete'' (JObj [(''path'', fld item ''path'')])
                        t_moved_to_trash)
                   (\<lambda>r17. if truthy r17 then perform Close_modal else skip)
          else skip)"

definition Files_actionMenu :: "locale_date \<Rightarrow> Files_state \<Rightarrow> json \<Rightarrow> Files_state io" where
  "Files_actionMenu loc st item =
     open_modal (jstring (fld item ''name'')) []
       [El ''div'' [(''className'', JStr ''action-menu'')] []
          ([El ''button'' []
              [(''onClick'', \<lambda>ev. steps [perform Close_modal, Files_openEntry loc st item])]
              [Icon [(''name'', JStr ''edit'')], El ''span'' [] [] [Txt t_open]],
            El ''button'' []
              [(''onClick'',
                \<lambda>ev.
                  try_catch
                    (steps [copyText (fld item ''path''), notify Success t_path_copied JUndef])
                    (\<lambda>c. open_modal t_full_path [] [Terminal [] (child (fld item ''path''))]))]
              [Icon [(''name'', JStr ''copy'')], El ''span'' [] [] [Txt t_copy_path]]] @
           (if \<not> truthy (fld item ''is_dir'')
              then [El ''button'' [] [(''onClick'', \<lambda>ev. Files_downloadEntry st item)]
                      [Icon [(''name'', JStr ''download'')], El ''span'' [] [] [Txt t_download]],
                    El ''button'' [] [(''onClick'', \<lambda>ev. Files_showHistory loc st (fld item ''path''))]
                      [Icon [(''name'', JStr ''backup'')], El ''span'' [] [] [Txt t_history]]]
            else []) @
           [El ''button'' []
              [(''onClick'',
                \<lambda>ev.
                  Files_promptMutation st t_rename t_target_path
                    (Files_joinPath (Files_parentOf (jstring (fld item ''path'')))
                       (jstring (fld item ''name'')))
                    ''/api/v1/files/rename''
                    (\<lambda>v. JObj [(''source'', fld item ''path''), (''destination'', JStr v)])
                    t_renamed (\<lambda>v. starts_with v ''/''))]
              [Icon [(''name'', JStr ''edit'')], El ''span'' [] [] [Txt t_rename]],
            El ''button'' []
              [(''onClick'',
                \<lambda>ev.
                  Files_promptMutation st t_copy_to t_target_path
                    (jstring (fld item ''path'') @ t_copy_infix) ''/api/v1/files/copy''
                    (\<lambda>v. JObj [(''source'', fld item ''path''), (''destination'', JStr v)]) t_copied
                    (\<lambda>v. starts_with v ''/''))]
              [Icon [(''name'', JStr ''copy'')], El ''span'' [] [] [Txt t_copy_to_dots]],
            El ''button'' []
              [(''onClick'',
                \<lambda>ev.
                  Files_promptMutation st t_move_to t_target_path (jstring (fld item ''path''))
                    ''/api/v1/files/move''
                    (\<lambda>v. JObj [(''source'', fld item ''path''), (''destination'', JStr v)]) t_moved
                    (\<lambda>v. starts_with v ''/''))]
              [Icon [(''name'', JStr ''files'')], El ''span'' [] [] [Txt t_move_to_dots]],
            El ''button'' []
              [(''onClick'',
                \<lambda>ev.
                  Files_promptMutation st t_change_mode t_mode_field
                    (jstring (jor (octal_tail (fld item ''mode''))
                                (JStr (if truthy (fld item ''is_dir'') then ''755'' else ''644''))))
                    ''/api/v1/files/chmod''
                    (\<lambda>v. JObj [(''path'', fld item ''path''), (''mode'', JStr v)]) t_mode_changed
                    is_mode)]
              [Icon [(''name'', JStr ''security'')], El ''span'' [] [] [Txt t_change_mode]],
            El ''button'' []
              [(''onClick'',
                \<lambda>ev.
                  open_modal t_change_owner []
                    [El ''form'' [(''className'', JStr ''form-stack'')]
                       [(''onSubmit'', \<lambda>ev. Files_chownSubmit st item ev)]
                       [Field [(''label'', JStr t_user)]
                          [TextInput [(''name'', JStr ''owner''), (''required'', JBool True)] []],
                        Field [(''label'', JStr t_user_group)]
                          [TextInput [(''name'', JStr ''group'')] []],
                        El ''div'' [(''className'', JStr ''form-actions'')] []
                          [Button [] [(''onClick'', \<lambda>ev. perform Close_modal)] [Txt t_cancel],
                           Button [(''type'', JStr ''submit''), (''tone'', JStr ''primary'')] []
                             [Txt t_save]]]])]
              [Icon [(''name'', JStr ''user'')], El ''span'' [] [] [Txt t_change_owner]],
            El ''button'' []
              [(''onClick'',
                \<lambda>ev.
                  Files_promptMutation st t_archive_path t_target_path
                    (Files_joinPath (Files_parentOf (jstring (fld item ''path'')))
                       (strip_archive (jstring (fld item ''name'')) @ ''.tar.gz''))
                    ''/api/v1/files/archive/create''
                    (\<lambda>v.
                       JObj
                         [(''destination'', JStr v), (''sources'', JArr [fld item ''path'']),
                          (''format'', JStr (if ends_with v ''.zip'' then ''zip'' else ''tar.gz''))])
                    t_archived (\<lambda>v. starts_with v ''/''))]
              [Icon [(''name'', JStr ''package'')], El ''span'' [] [] [Txt t_create_archive]],
            El ''button'' [(''className'', JStr ''danger'')]
              [(''onClick'', \<lambda>ev. Files_trashEntry st item)]
              [Icon [(''name'', JStr ''trash'')], El ''span'' [] [] [Txt t_move_to_trash]]])]"

definition Files_toggleFavorite :: "Files_state \<Rightarrow> json \<Rightarrow> Files_state io" where
  "Files_toggleFavorite st item =
     (let enabled = \<not> ((fld item ''path'') \<in> set (Files_favorites st))
      in steps
           [set_state (\<lambda>s. s\<lparr>Files_working := True\<rparr>),
            try_finally
              (try_catch
                 (bnd (api ''/api/v1/files/preferences''
                         (with_body ''POST''
                            (jsonBody (JObj [(''action'',
                                              JStr (if enabled then ''favorite'' else ''unfavorite'')),
                                             (''path'', fld item ''path''),
                                             (''is_dir'', fld item ''is_dir'')]))))
                    (\<lambda>r18.
                       steps
                         [set_state (\<lambda>s. s\<lparr>Files_preferences := Files_normalizePreferences st r18\<rparr>),
                          notify Success (if enabled then t_favorited else t_unfavorited) JUndef]))
                 (\<lambda>cause. notify Failure t_favorite_failed (JStr (errorDetail cause))))
              (set_state (\<lambda>s. s\<lparr>Files_working := False\<rparr>))])"

text \<open>The controllers of uploads are numbered as they are created; \<open>transferController\<close> holds the
  number of the current one. Aborting it makes its upload end with an \<open>AbortError\<close>.\<close>

definition Files_cancelUpload :: "Files_state io" where
  "Files_cancelUpload = Get (\<lambda>s. case Files_transferController s of None \<Rightarrow> skip
     | Some k \<Rightarrow> perform (Dom ''transferController.abort'' [JNum (of_nat k)]))"

definition Files_uploadForm :: "Files_state \<Rightarrow> json \<Rightarrow> bool \<Rightarrow> json" where
  "Files_uploadForm st file relative = JObj ([(''directory'', fld (Files_listing st) ''path'')] @
     (if relative then [(''relative_path'', jor (fld file ''webkitRelativePath'') (fld file ''name''))] else []) @
     [(''overwrite'', JStr ''false''), (''file'', file)])"

definition Files_uploadFailed :: "bool \<Rightarrow> nat \<Rightarrow> nat \<Rightarrow> cause \<Rightarrow> Files_state io" where
  "Files_uploadFailed extract n completed cause =
     (if (case cause of Dom_exception name m \<Rightarrow> name = ''AbortError'' | _ \<Rightarrow> False)
        then notify Info t_upload_cancelled JUndef
      else notify Failure
             (if extract then t_extract_failed
              else t_upload_interrupted @ nat_str completed @ ''/'' @ nat_str n @ t_paren_close)
             (JStr (errorDetail cause)))"

text \<open>The loop over the files: \<open>completed\<close> of \<open>n\<close> are done. A failure ends it.\<close>

fun Files_uploadEach :: "Files_state \<Rightarrow> nat \<Rightarrow> nat \<Rightarrow> json list \<Rightarrow> Files_state io" where
  "Files_uploadEach st n completed [] =
     try_catch (steps [notify Success (t_uploaded @ nat_str completed @ t_files_suffix) JUndef,
                       Files_load st (fld (Files_listing st) ''path'')])
       (Files_uploadFailed False n completed)"
| "Files_uploadEach st n completed (file # files) =
     settle (uploadApi ''/api/v1/files/upload'' (Files_uploadForm st file True)
               (t_upload_space @ jstring (fld file ''name'')))
       (\<lambda>r. case r of Inl cause \<Rightarrow> Files_uploadFailed False n completed cause
          | Inr v \<Rightarrow> Files_uploadEach st n (completed + 1) files)"

definition Files_uploadArchive :: "Files_state \<Rightarrow> json \<Rightarrow> Files_state io" where
  "Files_uploadArchive st file =
     try_catch
       (bnd (uploadApi ''/api/v1/files/archive/extract'' (Files_uploadForm st file False)
               (t_upload_space @ jstring (fld file ''name'')))
          (\<lambda>r. let out = asObject r
            in steps [notify Success (t_extracted @ num_str (number (fld out ''files'')) @ t_files_and @
                        num_str (number (fld out ''dirs'')) @ t_dirs_suffix) JUndef,
                      Files_load st (fld (Files_listing st) ''path'')]))
       (Files_uploadFailed True 0 0)"

definition Files_upload :: "Files_state \<Rightarrow> json \<Rightarrow> bool \<Rightarrow> Files_state io" where
  "Files_upload st event extract =
     (let files = array_of (fld event ''files'')
      in if files = [] then skip
         else Get (\<lambda>s0. let controller = Files_controllers s0
           in steps
                [Files_cancelUpload,
                 set_state (\<lambda>s. s\<lparr>Files_transferController := Some controller, Files_controllers := controller + 1\<rparr>),
                 set_state (\<lambda>s. s\<lparr>Files_working := True\<rparr>),
                 try_finally
                   (if extract then Files_uploadArchive st (list_idx files 0)
                    else Files_uploadEach st (length files) 0 files)
                   (steps
                      [set_state (\<lambda>s. s\<lparr>Files_working := False\<rparr>),
                       set_state (\<lambda>s. s\<lparr>Files_transfer := None\<rparr>),
                       set_state (\<lambda>s. if Files_transferController s = Some controller
                         then s\<lparr>Files_transferController := None\<rparr> else s),
                       perform (Dom ''input.value'' [JStr []])])]))"

definition Files_searchSubmit :: "locale_date \<Rightarrow> Files_state \<Rightarrow> json \<Rightarrow> Files_state io" where
  "Files_searchSubmit loc st ev =
     steps
       [perform Prevent_default,
        let term0 = js_trim (jstring (jor (form_get (fld ev ''form'') ''term'') (JStr [])))
        in try_catch
             (bnd (api (''/api/v1/files/search'' @
                        query [(''root'', fld (Files_listing st) ''path''), (''q'', JStr term0)])
                     empty_init)
                (\<lambda>result.
                   let rows = listOf result [''entries'', ''results'']
                   in open_modal (t_search_results @ nat_str (length rows) @ t_paren_close)
                        ''large''
                        (if length rows \<noteq> 0
                           then [El ''div'' [(''className'', JStr ''card-list compact-list'')] []
                                   (map
                                      (\<lambda>item.
                                         El ''button'' [(''className'', JStr ''search-result''),
                                                        (''key'', fld item ''path'')]
                                           [(''onClick'',
                                             \<lambda>ev.
                                               steps [perform Close_modal, Files_openEntry loc st item])]
                                           [Icon [(''name'',
                                                   JStr (if truthy (fld item ''is_dir'')
                                                           then ''files''
                                                         else ''edit''))],
                                            El ''span'' [] []
                                              [El ''strong'' [] [] (child (fld item ''name'')),
                                               El ''small'' [] [] (child (fld item ''path''))],
                                            Icon [(''name'', JStr ''chevron'')]])
                                      rows)]
                         else [EmptyState
                                 [(''icon'', JStr ''search''), (''title'', JStr t_no_matches)] []])))
             (\<lambda>cause. notify Failure t_search_failed (JStr (errorDetail cause)))]"

definition Files_searchAll :: "locale_date \<Rightarrow> Files_state \<Rightarrow> Files_state io" where
  "Files_searchAll loc st =
     open_modal (t_search_in @ jstring (fld (Files_listing st) ''path'') @ t_search_in_end) []
       [El ''form'' [(''className'', JStr ''form-stack'')]
          [(''onSubmit'', \<lambda>ev. Files_searchSubmit loc st ev)]
          [Field [(''label'', JStr t_file_or_path)]
             [TextInput
                [(''name'', JStr ''term''), (''required'', JBool True), (''autoFocus'', JBool True)] []],
           El ''div'' [(''className'', JStr ''form-actions'')] []
             [Button [] [(''onClick'', \<lambda>ev. perform Close_modal)] [Txt t_cancel],
              Button [(''type'', JStr ''submit''), (''tone'', JStr ''primary''),
                      (''icon'', JStr ''search'')]
                [] [Txt t_search]]]]"

definition Files_recycleAction :: "Files_state \<Rightarrow> json \<Rightarrow> string \<Rightarrow> Files_state io" where
  "Files_recycleAction st item action =
     bnd
       (if action = ''purge'' then confirm_io t_delete_forever t_irreversible t_delete_forever True
        else Ret (JBool True))
       (\<lambda>r20.
          if \<not> truthy r20 then skip
          else steps [set_state (\<lambda>s. s\<lparr>Files_working := True\<rparr>),
                      try_finally
                        (try_catch
                           (steps [secureApi ''/api/v1/files/recycle''
                                     (with_body ''POST'' (jsonBody (JObj [(''id'', fld item ''id''),
                                                                          (''action'', JStr action),
                                                                          (''destination'', JStr [])]))),
                                   notify Success (if action = ''restore'' then t_file_restored
                                                   else t_deleted_forever)
                                     JUndef,
                                   Files_loadRecycle st])
                           (\<lambda>cause. notify Failure t_trash_failed (JStr (errorDetail cause))))
                        (set_state (\<lambda>s. s\<lparr>Files_working := False\<rparr>))])"

definition Files_view :: "locale_date \<Rightarrow> route \<Rightarrow> Files_state \<Rightarrow> Files_state vnode" where
  "Files_view loc route st =
     El ''div'' [(''className'', JStr ''page-stack files-page'')] []
       ([PageHeader route (JBool (Files_loading st))
           (Some (\<lambda>ev.
                    if Files_mode st = ''recycle'' then Files_loadRecycle st
                    else Files_load st (fld (Files_listing st) ''path'')))
           (if Files_mode st = ''files''
              then [El ''div'' [(''className'', JStr ''file-page-actions'')] []
                      [Button [(''tone'', JStr ''primary''), (''icon'', JStr ''upload''),
                               (''busy'', JBool (Files_working st))]
                         [(''onClick'', \<lambda>ev. perform (Dom ''fileInput.click'' []))] [Txt t_upload],
                       El ''div'' [(''className'',
                                    JStr (''dropdown '' @
                                          (if Files_createMenuOpen st then ''is-open'' else [])))]
                         []
                         [Button [(''icon'', JStr ''plus''),
                                  (''aria-expanded'', JBool (Files_createMenuOpen st))]
                            [(''onClick'',
                              \<lambda>ev.
                                steps [set_state
                                         (\<lambda>s. s\<lparr>Files_createMenuOpen := \<not> (Files_createMenuOpen s)\<rparr>),
                                       set_state (\<lambda>s. s\<lparr>Files_uploadMenuOpen := False\<rparr>)])]
                            [Txt t_new],
                          El ''div'' [(''className'', JStr ''dropdown-menu'')] []
                            [El ''button'' []
                               [(''onClick'',
                                 \<lambda>ev.
                                   steps [set_state (\<lambda>s. s\<lparr>Files_createMenuOpen := False\<rparr>),
                                          Files_createEntry st ''file''])]
                               [Txt t_new_file],
                             El ''button'' []
                               [(''onClick'',
                                 \<lambda>ev.
                                   steps [set_state (\<lambda>s. s\<lparr>Files_createMenuOpen := False\<rparr>),
                                          Files_createEntry st ''folder''])]
                               [Txt t_new_folder]]],
                       El ''div'' [(''className'',
                                    JStr (''dropdown '' @
                                          (if Files_uploadMenuOpen st then ''is-open'' else [])))]
                         []
                         [Button [(''tone'', JStr ''ghost''), (''icon'', JStr ''more''),
                                  (''aria-expanded'', JBool (Files_uploadMenuOpen st))]
                            [(''onClick'',
                              \<lambda>ev.
                                steps [set_state
                                         (\<lambda>s. s\<lparr>Files_uploadMenuOpen := \<not> (Files_uploadMenuOpen s)\<rparr>),
                                       set_state (\<lambda>s. s\<lparr>Files_createMenuOpen := False\<rparr>)])]
                            [Txt t_more],
                          El ''div'' [(''className'', JStr ''dropdown-menu'')] []
                            [El ''button'' []
                               [(''onClick'',
                                 \<lambda>ev.
                                   steps [set_state (\<lambda>s. s\<lparr>Files_uploadMenuOpen := False\<rparr>),
                                          Files_searchAll loc st])]
                               [Txt t_search_here],
                             El ''button'' []
                               [(''onClick'',
                                 \<lambda>ev.
                                   steps [set_state (\<lambda>s. s\<lparr>Files_uploadMenuOpen := False\<rparr>),
                                          perform (Dom ''folderInput.click'' [])])]
                               [Txt t_upload_folder],
                             El ''button'' []
                               [(''onClick'',
                                 \<lambda>ev.
                                   steps [set_state (\<lambda>s. s\<lparr>Files_uploadMenuOpen := False\<rparr>),
                                          perform (Dom ''zipInput.click'' [])])]
                               [Txt t_upload_zip]]],
                       El ''input'' [(''className'', JStr ''visually-hidden''),
                                     (''type'', JStr ''file''), (''multiple'', JBool True)]
                         [(''onChange'', \<lambda>ev. Files_upload st ev False)] [],
                       El ''input'' [(''className'', JStr ''visually-hidden''),
                                     (''type'', JStr ''file''), (''multiple'', JBool True),
                                     (''webkitdirectory'', JStr [])]
                         [(''onChange'', \<lambda>ev. Files_upload st ev False)] [],
                       El ''input''
                         [(''className'', JStr ''visually-hidden''),
                          (''type'', JStr ''file''), (''accept'', JStr ''.zip,application/zip'')]
                         [(''onChange'', \<lambda>ev. Files_upload st ev True)] []]]
            else if Files_mode st \<noteq> ''recycle''
              then [Button [(''tone'', JStr ''ghost''), (''icon'', JStr ''search'')]
                      [(''onClick'', \<lambda>ev. Files_searchAll loc st)] [Txt t_search]]
            else [])] @
        (if Files_transfer st \<noteq> None
           then [TransferProgress (the (Files_transfer st)) (Some (\<lambda>ev. Files_cancelUpload))]
         else []) @
        [El ''div'' [(''className'', JStr ''tab-bar''), (''role'', JStr ''tablist'')] []
           (map (\<lambda>pr21.
                   El ''button''
                     [(''key'', (idx pr21 0)),
                      (''className'',
                       JStr (if JStr (Files_mode st) = (idx pr21 0) then ''active'' else []))]
                     [(''onClick'', \<lambda>ev. Files_switchMode st (idx pr21 0))] (child (idx pr21 1)))
              [JArr [JStr ''files'', JStr t_files_tab],
               JArr [JStr ''favorites'',
                     JStr (t_favorites_tab @
                           nat_str (length (listOf (Files_preferences st) [''favorites''])))],
               JArr
                 [JStr ''recent'',
                  JStr (t_recent_tab @ nat_str (length (listOf (Files_preferences st) [''recent''])))],
               JArr [JStr ''recycle'',
                     JStr (t_trash_tab @
                           jstring (jor (JNum (of_nat (length (Files_recycle st)))) (JStr [])))]])] @
        (if Files_error st \<noteq> []
           then [ErrorState (JStr (Files_error st))
                   (\<lambda>ev.
                      if Files_mode st = ''recycle'' then Files_loadRecycle st
                      else Files_load st (fld (Files_listing st) ''path''))]
         else if Files_mode st = ''recycle''
           then [Card [(''className'', JStr ''file-list-card'')]
                   (if length (Files_recycle st) \<noteq> 0
                      then map
                             (\<lambda>item.
                                El ''div''
                                  [(''className'', JStr ''file-row''), (''key'', fld item ''id'')] []
                                  [El ''span'' [(''className'', JStr ''file-icon'')] []
                                     [Icon [(''name'',
                                             JStr (if truthy (fld item ''is_dir'') then ''files''
                                                   else ''edit''))]],
                                   El ''div'' [(''className'', JStr ''file-main'')] []
                                     [El ''strong'' [] [] (child (fld item ''name'')),
                                      El ''small'' [] []
                                        (child (fld item ''original_path'') @
                                         [Txt t_mid_dot,
                                          Txt (formatDate loc (fld item ''deleted_at''))])],
                                   El ''div'' [(''className'', JStr ''row-buttons'')] []
                                     [Button [(''tone'', JStr ''primary'')]
                                        [(''onClick'', \<lambda>ev. Files_recycleAction st item ''restore'')]
                                        [Txt t_restore],
                                      Button [(''tone'', JStr ''danger'')]
                                        [(''onClick'', \<lambda>ev. Files_recycleAction st item ''purge'')]
                                        [Txt t_delete_forever]]])
                             (Files_recycle st)
                    else if \<not> Files_loading st
                      then [EmptyState [(''icon'', JStr ''trash''), (''title'', JStr t_trash_empty)] []]
                    else [LoadingState 4])]
         else [Card [(''className'', JStr ''file-toolbar'')]
                 [El ''nav''
                    [(''className'', JStr ''breadcrumbs''), (''aria-label'', JStr t_current_dir)] []
                    (map (\<lambda>crumb.
                            El ''button'' [(''key'', fld crumb ''path'')]
                              [(''onClick'', \<lambda>ev. Files_load st (fld crumb ''path''))]
                              (child (fld crumb ''label'')))
                       (Files_breadcrumbs st)),
                  El ''div'' [(''className'', JStr ''file-toolbar-actions'')] []
                    ((if truthy (fld (Files_listing st) ''parent'')
                        then [Button
                                [(''tone'', JStr ''ghost''), (''icon'', JStr ''back''),
                                 (''title'', JStr t_to_parent), (''ariaLabel'', JStr t_to_parent),
                                 (''className'', JStr ''compact-icon-button'')]
                                [(''onClick'',
                                  \<lambda>ev. Files_load st (fld (Files_listing st) ''parent''))]
                                []]
                      else []) @
                     [Button [(''tone'', JStr ''ghost''), (''icon'', JStr ''copy''),
                              (''title'', JStr t_copy_current_path),
                              (''ariaLabel'', JStr t_copy_current_path),
                              (''className'', JStr ''compact-icon-button'')]
                        [(''onClick'',
                          \<lambda>ev.
                            try_catch (steps [copyText (fld (Files_listing st) ''path''),
                                              notify Success t_path_copied JUndef])
                              (\<lambda>c.
                                 open_modal t_current_path []
                                   [Terminal [] (child (fld (Files_listing st) ''path''))]))]
                        []])],
               El ''div'' [(''className'', JStr ''file-filter'')] []
                 [El ''div'' [(''className'', JStr ''search-box'')] []
                    [Icon [(''name'', JStr ''search''), (''size'', JNum 17)],
                     El ''input'' [(''value'', JStr (Files_filter st)),
                                   (''placeholder'',
                                    JStr (if Files_mode st = ''files'' then t_filter_current
                                          else if Files_mode st = ''favorites'' then t_filter_favorites
                                          else t_filter_recent))]
                       [(''onChange'',
                         \<lambda>ev. set_state (\<lambda>s. s\<lparr>Files_filter := jstring (fld ev ''value'')\<rparr>))]
                       []],
                  Badge [] [Txt (nat_str (length (Files_entries st)))]],
               Card [(''className'', JStr ''file-list-card'')]
                 (if length (Files_entries st) \<noteq> 0
                    then map
                           (\<lambda>item.
                              El ''div''
                                [(''className'', JStr ''file-row''), (''key'', fld item ''path'')] []
                                [El ''button'' [(''className'', JStr ''file-open'')]
                                   [(''onClick'', \<lambda>ev. Files_openEntry loc st item)]
                                   [El ''span'' [(''className'', JStr ''file-icon'')] []
                                      [Icon [(''name'',
                                              JStr (if truthy (fld item ''is_dir'') then ''files''
                                                    else ''edit''))]],
                                    El ''span'' [(''className'', JStr ''file-main'')] []
                                      [El ''strong'' [] [] (child (fld item ''name'')),
                                       El ''small'' [] []
                                         (child (fld item ''path'') @
                                          [Txt
                                             (if Files_mode st = ''files''
                                                then t_mid_dot @
                                                     (if truthy (fld item ''is_dir'') then t_folder
                                                      else formatBytes (fld item ''size'')) @
                                                     t_mid_dot @
                                                     formatDate loc (fld item ''modified_at'')
                                              else [])])]],
                                 El ''button''
                                   [(''className'',
                                     JStr (''favorite-button '' @
                                           (if (fld item ''path'') \<in> set (Files_favorites st)
                                              then ''active''
                                            else []))),
                                    (''aria-label'',
                                     JStr (if (fld item ''path'') \<in> set (Files_favorites st)
                                             then t_unfavorite
                                           else t_favorite))]
                                   [(''onClick'', \<lambda>ev. Files_toggleFavorite st item)] [Txt t_star],
                                 El ''button'' [(''className'', JStr ''icon-button''),
                                                (''aria-label'', JStr t_file_actions)]
                                   [(''onClick'', \<lambda>ev. Files_actionMenu loc st item)]
                                   [Icon [(''name'', JStr ''more'')]]])
                           (Files_entries st)
                  else if \<not> Files_loading st
                    then [EmptyState [(''icon'', JStr ''files''), (''title'', JStr t_no_files)] []]
                  else [LoadingState 4])]))"

subsection \<open>The editor\<close>

record FileEditor_state =
  FileEditor_item :: json
  FileEditor_initial :: string
  FileEditor_value :: string
  FileEditor_saved :: string
  FileEditor_busy :: bool

definition FileEditor_close :: "FileEditor_state \<Rightarrow> FileEditor_state io" where
  "FileEditor_close st =
     bnd (if FileEditor_value st \<noteq> FileEditor_saved st
            then confirm_io t_discard_changes t_discard_detail t_discard True
          else Ret (JBool True))
       (\<lambda>r1. if \<not> truthy r1 then skip else perform Close_modal)"

definition FileEditor_history :: "FileEditor_state \<Rightarrow> FileEditor_state io" where
  "FileEditor_history st =
     bnd (if FileEditor_value st \<noteq> FileEditor_saved st
            then confirm_io t_open_history t_open_history_detail t_continue_open True
          else Ret (JBool True))
       (\<lambda>r2.
          if \<not> truthy r2 then skip else try_catch (perform (Prop_call ''onHistory'' [])) (\<lambda>c. skip))"

definition FileEditor_save :: "FileEditor_state \<Rightarrow> FileEditor_state io" where
  "FileEditor_save st =
     steps [set_state (\<lambda>s. s\<lparr>FileEditor_busy := True\<rparr>),
            try_finally (steps [perform (Prop_call ''onSave'' [JStr (FileEditor_value st)]),
                                set_state (\<lambda>s. s\<lparr>FileEditor_saved := FileEditor_value st\<rparr>)])
              (set_state (\<lambda>s. s\<lparr>FileEditor_busy := False\<rparr>))]"

definition FileEditor_view :: "route \<Rightarrow> FileEditor_state \<Rightarrow> FileEditor_state vnode" where
  "FileEditor_view route st =
     El ''div'' [(''className'', JStr ''editor-layout'')] []
       [El ''div'' [(''className'', JStr ''editor-toolbar'')] []
          [El ''span'' [(''className'', JStr ''mono'')] [] (child (fld (FileEditor_item st) ''path'')),
           El ''div'' [] []
             [Button [(''tone'', JStr ''ghost'')] [(''onClick'', \<lambda>ev. FileEditor_history st)]
                [Txt t_history],
              Button [(''tone'', JStr ''primary''), (''busy'', JBool (FileEditor_busy st)),
                      (''disabled'', JBool (FileEditor_value st = FileEditor_saved st))]
                [(''onClick'', \<lambda>ev. FileEditor_save st)] [Txt t_save],
              Button [(''tone'', JStr ''ghost'')] [(''onClick'', \<lambda>ev. FileEditor_close st)]
                [Txt t_close]]],
        El ''textarea'' [(''className'', JStr ''code-editor''),
                         (''value'', JStr (FileEditor_value st)), (''spellCheck'', JBool False)]
          [(''onChange'', \<lambda>ev. set_state (\<lambda>s. s\<lparr>FileEditor_value := jstring (fld ev ''value'')\<rparr>))] []]"

definition FileEditor_init :: "json \<Rightarrow> string \<Rightarrow> FileEditor_state" where
  "FileEditor_init item initial =
     \<lparr>FileEditor_item = item, FileEditor_initial = initial, FileEditor_value = initial, FileEditor_saved = initial,
      FileEditor_busy = False\<rparr>"

subsection \<open>The page keeps the rules\<close>

text \<open>What counts as destructive: deleting a file, purging it from the recycle bin, and restoring an old
  version over the present content. Taking a file back from the recycle bin is not: the page does not ask.\<close>

definition loses_file :: "string \<Rightarrow> json \<Rightarrow> bool" where
  "loses_file url action \<longleftrightarrow>
     url = ''/api/v1/files/recycle'' \<and> action = JStr ''purge'' \<or>
     url \<in> set [''/api/v1/files/delete'', ''/api/v1/files/backups/restore'']"

definition harms_files :: "request \<Rightarrow> bool" where
  "harms_files r \<longleftrightarrow> changing r \<and> loses_file (req_url r) (body_fld r ''action'')"

lemma harms_files_mk [simp]:
  "harms_files (mk_request url i tok) \<longleftrightarrow> sends_change i \<and> loses_file url (init_fld i ''action'')"
  by (simp add: harms_files_def)

text \<open>The two handlers of the page that have no handler for a refusal.\<close>

definition Files_unreported :: "Files_state io set" where
  "Files_unreported = {m. \<exists>st item v. m = Files_saveContent st item v} \<union>
     {m. \<exists>loc st path version. m = Files_restoreCompared loc st path version}"

abbreviation files_safe :: "Files_state io \<Rightarrow> bool" where
  "files_safe \<equiv> safe_but Files_unreported harms_files"

lemma Files_load_wp:
  assumes "\<And>s'. Q JUndef g s'" and "\<And>url tok. \<not> P (mk_request url empty_init tok)"
  shows "wp (w_ok P) w_upd (Files_load st path) Q E g s"
proof -
  have all: "wp (w_ok P) w_upd (promise_all (map (\<lambda>u. api u empty_init) us)) Q' E' g s"
    if "\<And>v s'. Q' v g s'" "\<And>c s'. E' c g s'" for us Q' E' s
    using that by (intro wp_promise_all) (auto intro!: wp_get_quiet assms)
  show ?thesis
    by (auto simp: Files_load_def io_simps Let_def assms(1) intro!: all [of _ _ "[_, _]", simplified])
qed

lemma Files_load_shows [simp]: "shows_ok R (Files_load st path)"
  by (simp add: Files_load_def Let_def)

lemma Files_loadRecycle_wp:
  assumes "\<And>s'. Q JUndef g s'" and "\<And>url tok. \<not> P (mk_request url empty_init tok)"
  shows "wp (w_ok P) w_upd (Files_loadRecycle st) Q E g s"
  unfolding Files_loadRecycle_def io_simps
  by (rule wp_mono [OF wp_get_quiet]) (auto simp: io_simps assms)

lemma Files_loadRecycle_shows [simp]: "shows_ok R (Files_loadRecycle st)"
  by (simp add: Files_loadRecycle_def Let_def)

lemma Files_mutate_wp:
  assumes "loses_file endpoint (fld b ''action'') \<Longrightarrow> w_confirmed g" and "\<not> w_failed g"
    and "\<And>v h s'. \<not> w_failed h \<Longrightarrow> w_confirmed h = w_confirmed g \<Longrightarrow> Q v h s'"
  shows "wp (w_ok harms_files) w_upd (Files_mutate st endpoint b success) Q E g s"
  unfolding Files_mutate_def io_simps Let_def
  using assms by (auto simp: io_simps loses_file_def intro!: wp_secureApi wp_api Files_load_wp)

lemma Files_mutate_shows [simp]: "shows_ok R (Files_mutate st endpoint b success)"
  by (simp add: Files_mutate_def Let_def)

lemma Files_loads_safe [simp]: "files_safe (Files_load st path)" "files_safe (Files_loadRecycle st)"
  by (auto intro!: safe_butI Files_load_wp Files_loadRecycle_wp)

lemma Files_switchMode_safe [simp]: "files_safe (Files_switchMode st m)"
  by (auto simp: Files_switchMode_def io_simps loses_file_def intro!: safe_butI io_rules Files_load_wp Files_loadRecycle_wp)

lemma loses_nothing [simp]:
  "\<not> loses_file (''/api/v1/files/backups?'' @ q) a" "\<not> loses_file ''/api/v1/files/content'' a"
  "\<not> loses_file ''/api/v1/files/preferences'' a" "\<not> loses_file ''/api/v1/files/chown'' a"
  "\<not> loses_file ''/api/v1/files/create'' a" "\<not> loses_file ''/api/v1/files/mkdir'' a"
  "\<not> loses_file ''/api/v1/files/rename'' a" "\<not> loses_file ''/api/v1/files/copy'' a"
  "\<not> loses_file ''/api/v1/files/move'' a" "\<not> loses_file ''/api/v1/files/chmod'' a"
  "\<not> loses_file ''/api/v1/files/archive/create'' a"
  by (simp_all add: loses_file_def)

lemma Files_restoreCompared_safe [simp]: "files_safe (Files_restoreCompared loc st path version)"
proof -
  have "Files_restoreCompared loc st path version \<in> Files_unreported"
    unfolding Files_unreported_def by blast
  then show ?thesis
    by (auto simp: Files_restoreCompared_def io_simps intro!: safe_exceptI io_rules Files_load_wp)
qed

lemma Files_compareVersion_safe [simp]: "files_safe (Files_compareVersion loc st path version)"
  by (auto simp: Files_compareVersion_def Let_def io_simps intro!: safe_butI io_rules shows_ok_combinators)

lemma Files_restoreVersion_safe [simp]: "files_safe (Files_restoreVersion loc st path version)"
  by (auto simp: Files_restoreVersion_def Let_def io_simps intro!: safe_butI io_rules Files_load_wp)

lemma Files_showHistory_safe [simp]: "files_safe (Files_showHistory loc st path)"
  by (auto simp: Files_showHistory_def Let_def io_simps intro!: safe_butI io_rules shows_ok_combinators)

lemma Files_saveContent_safe [simp]: "files_safe (Files_saveContent st item v)"
proof -
  have "Files_saveContent st item v \<in> Files_unreported" unfolding Files_unreported_def by blast
  then show ?thesis
    by (auto simp: Files_saveContent_def io_simps intro!: safe_exceptI io_rules Files_load_wp)
qed

lemma Files_openEditor_safe [simp]: "files_safe (Files_openEditor loc st item)"
  by (auto simp: Files_openEditor_def Let_def io_simps intro!: safe_butI io_rules shows_ok_combinators)

text \<open>Reading handlers leave the watch as it is.\<close>

lemma Files_reads_wp:
  assumes "\<And>v s'. Q v g s'" and "\<not> w_failed g"
  shows "wp (w_ok harms_files) w_upd (Files_openEditor loc st item) Q E g s"
    and "wp (w_ok harms_files) w_upd (Files_downloadEntry st item) Q E g s"
  by (auto simp: Files_openEditor_def Files_downloadEntry_def Let_def io_simps assms intro!: io_rules)

lemma Files_downloadEntry_safe [simp]: "files_safe (Files_downloadEntry st item)"
  by (rule safe_butI) (auto simp: Files_downloadEntry_def io_simps intro!: io_rules)

lemma Files_reads_shows [simp]:
  "shows_ok (behaves_but Files_unreported harms_files) (Files_openEditor loc st item)"
  "shows_ok R (Files_downloadEntry st item)"
  using Files_openEditor_safe by (simp_all add: handler_ok_def Files_downloadEntry_def)

lemma Files_openEntry_wp:
  assumes "\<And>v s'. Q v g s'" and "\<not> w_failed g"
  shows "wp (w_ok harms_files) w_upd (Files_openEntry loc st item) Q E g s"
  by (auto simp: Files_openEntry_def Let_def io_simps assms intro!: io_rules Files_reads_wp Files_load_wp)

lemma Files_openEntry_safe [simp]: "files_safe (Files_openEntry loc st item)"
proof (rule safe_butI)
  show "shows_ok (behaves_but Files_unreported harms_files) (Files_openEntry loc st item)"
    by (auto simp: Files_openEntry_def Let_def intro!: shows_ok_combinators shows_ok_finally)
qed (rule Files_openEntry_wp; simp)

lemma Files_promptSubmit_safe [simp]:
  "(\<And>a. \<not> loses_file endpoint a) \<Longrightarrow> files_safe (Files_promptSubmit st endpoint b success pattern ev)"
  by (auto simp: Files_promptSubmit_def Let_def io_simps intro!: safe_butI io_rules Files_mutate_wp)

lemma Files_promptMutation_safe [simp]:
  "(\<And>a. \<not> loses_file endpoint a) \<Longrightarrow>
     files_safe (Files_promptMutation st title l initial endpoint b success pattern)"
  by (simp add: Files_promptMutation_def)

lemma Files_createEntry_safe [simp]: "files_safe (Files_createEntry st k)"
  by (simp add: Files_createEntry_def split: if_splits)

lemma Files_trashEntry_safe [simp]: "files_safe (Files_trashEntry st item)"
  by (auto simp: Files_trashEntry_def io_simps intro!: safe_butI io_rules Files_mutate_wp)

lemma Files_chownSubmit_safe [simp]: "files_safe (Files_chownSubmit st item ev)"
  by (auto simp: Files_chownSubmit_def Let_def io_simps intro!: safe_butI io_rules Files_mutate_wp)

lemma Files_copy_safe [simp]:
  "all_handlers (behaves_but Files_unreported harms_files) vs \<Longrightarrow>
     files_safe (try_catch (seqs (copyText v) (notify Success m JUndef)) (\<lambda>c. open_modal t z vs))"
  by (auto simp: io_simps intro!: safe_butI io_rules)

lemma Files_close_open_safe [simp]: "files_safe (seqs (perform Close_modal) (Files_openEntry loc st item))"
proof -
  have "shows_ok (behaves_but Files_unreported harms_files) (Files_openEntry loc st item)"
    using Files_openEntry_safe by (simp add: handler_ok_def)
  then show ?thesis
    by (intro safe_butI) (auto simp: io_simps intro!: Files_openEntry_wp)
qed

lemma Files_actionMenu_safe [simp]: "files_safe (Files_actionMenu loc st item)"
  by (simp add: Files_actionMenu_def Let_def)

lemma Files_toggleFavorite_safe [simp]: "files_safe (Files_toggleFavorite st item)"
  by (auto simp: Files_toggleFavorite_def Let_def io_simps intro!: safe_butI io_rules)

lemma Files_recycleAction_safe [simp]: "files_safe (Files_recycleAction st item action)"
  by (auto simp: Files_recycleAction_def Let_def io_simps loses_file_def
      intro!: safe_butI io_rules Files_loadRecycle_wp)

lemma Files_searchSubmit_safe [simp]: "files_safe (Files_searchSubmit loc st ev)"
  by (rule safe_butI) (auto simp: Files_searchSubmit_def Let_def io_simps intro!: io_rules shows_ok_combinators)

lemma Files_searchAll_safe [simp]: "files_safe (Files_searchAll loc st)"
  by (simp add: Files_searchAll_def)

text \<open>Uploads: the message after the loop follows at least one finished upload.\<close>

lemma Files_uploadFailed_wp:
  "(\<And>s'. Q JUndef (w_told Info g) s') \<Longrightarrow> wp (w_ok P) w_upd (Files_uploadFailed b n k c) Q E g s"
  by (auto simp: Files_uploadFailed_def io_simps w_told_def)

lemma Files_uploadEach_wp:
  assumes "files = [] \<Longrightarrow> w_acked g" and "\<not> w_failed g"
    and "\<And>v h s'. \<not> w_failed h \<Longrightarrow> Q v h s'"
  shows "wp (w_ok harms_files) w_upd (Files_uploadEach st n k files) Q E g s"
  using assms(1,2)
proof (induction files arbitrary: k g s)
  case Nil
  then show ?case by (auto simp: io_simps assms(3) intro!: Files_load_wp Files_uploadFailed_wp)
next
  case (Cons f fs)
  show ?case
    using Cons.prems
    by (auto simp: io_simps assms(3) intro!: wp_uploadApi Cons.IH Files_uploadFailed_wp)
qed

lemma Files_uploads_shows [simp]:
  "shows_ok R (Files_uploadFailed b n k c)" "shows_ok R (Files_uploadArchive st f)" "shows_ok R Files_cancelUpload"
  by (simp_all add: Files_uploadFailed_def Files_uploadArchive_def Files_cancelUpload_def Let_def split: option.split)

lemma Files_uploadEach_shows [simp]: "shows_ok R (Files_uploadEach st n k files)"
  by (induction files arbitrary: k) (auto intro!: shows_ok_settle split: sum.split)

lemma Files_uploadArchive_wp:
  assumes "\<not> w_failed g" and "\<And>v h s'. \<not> w_failed h \<Longrightarrow> Q v h s'"
  shows "wp (w_ok harms_files) w_upd (Files_uploadArchive st file) Q E g s"
  using assms
  by (auto simp: Files_uploadArchive_def Let_def io_simps intro!: wp_uploadApi Files_load_wp Files_uploadFailed_wp)

lemma Files_cancelUpload_wp [io_simps]:
  "(\<And>s'. Q JUndef g s') \<Longrightarrow> wp (w_ok P) w_upd Files_cancelUpload Q E g s"
  by (auto simp: Files_cancelUpload_def io_simps split: option.split)

lemma Files_cancelUpload_safe [simp]: "files_safe Files_cancelUpload"
  by (rule safe_butI) (auto intro!: Files_cancelUpload_wp)

lemma Files_upload_safe [simp]: "files_safe (Files_upload st ev extract)"
  by (auto simp: Files_upload_def Let_def io_simps
      intro!: safe_butI Files_cancelUpload_wp Files_uploadArchive_wp Files_uploadEach_wp)

lemma Files_menus_safe [simp]:
  "files_safe (Put f (set_state h))" "files_safe (Put f (perform (Dom n ws)))"
  "files_safe (Put f (Files_createEntry s k))" "files_safe (Put f (Files_searchAll loc s))"
proof -
  have "shows_ok (behaves_but Files_unreported harms_files) (Files_createEntry s k)"
    "shows_ok (behaves_but Files_unreported harms_files) (Files_searchAll loc s)"
    using Files_createEntry_safe Files_searchAll_safe by (simp_all add: handler_ok_def)
  then show "files_safe (Put f (Files_createEntry s k))"
    "files_safe (Put f (Files_searchAll loc s))"
    by (auto simp: Files_createEntry_def Files_promptMutation_def Files_searchAll_def io_simps intro!: safe_butI)
qed (auto simp: io_simps intro!: safe_butI)

interpretation files: but_page "Files_view loc route" Files_unreported harms_files
  by unfold_locales (simp add: Files_view_def)

text \<open>The editor saves through a callback of the page, and has no handler for its failure either.\<close>

definition FileEditor_unreported :: "FileEditor_state io set" where
  "FileEditor_unreported = {m. \<exists>st. m = FileEditor_save st}"

lemma FileEditor_handlers_safe [simp]:
  "safe_but X harms_files (FileEditor_close st)" "safe_but X harms_files (FileEditor_history st)"
  "safe_but FileEditor_unreported harms_files (FileEditor_save st)"
proof -
  have "FileEditor_save st \<in> FileEditor_unreported"
    unfolding FileEditor_unreported_def by blast
  then show "safe_but FileEditor_unreported harms_files (FileEditor_save st)"
    by (auto simp: FileEditor_save_def io_simps intro!: safe_exceptI io_rules)
qed (auto simp: FileEditor_close_def FileEditor_history_def io_simps intro!: safe_butI io_rules)

interpretation file_editor: but_page "FileEditor_view route" FileEditor_unreported harms_files
  by unfold_locales (simp add: FileEditor_view_def)

subsection \<open>Properties\<close>






text \<open>C29. A refused save of the editor is silent: whatever the file and its new content, when the network
  fails the page shows no message at all and the exception leaves the handler, both that of the page
  and, behind it, that of the editor.\<close>

theorem refused_save_silent:
  "(let r = run_alone (Files_saveContent st item v) [AVal (JStr tok), AFail (Js_error m)] s
    in legal (events r) \<and> fst (snd r) = Failed (network_error (Js_error m)) \<and> silent_failure (events r) \<and>
       list_all (\<lambda>(e, a). \<forall>k t d. e \<noteq> Notify k t d) (dids (events r))) \<and>
   (let r = run_alone (FileEditor_save ed) [AFail c] ed
    in legal (events r) \<and> fst (snd r) = Failed c \<and> events r = [Did (Prop_call ''onSave'' [JStr (FileEditor_value ed)]) (AFail c)])"
  by (simp add: Files_saveContent_def FileEditor_save_def run_ops Let_def silent_failure_Cons refuses_def)

text \<open>An absolute path of the given names.\<close>

definition abs_path :: "string list \<Rightarrow> string" where
  "abs_path names = concat (map (\<lambda>n. ''/'' @ n) names)"

definition file_names :: "string list \<Rightarrow> bool" where
  "file_names names \<longleftrightarrow> (\<forall>n\<in>set names. n \<noteq> [] \<and> CHR ''/'' \<notin> set n)"

lemma abs_path_simps [simp]:
  "abs_path [] = []" "abs_path (n # ns) = ''/'' @ n @ abs_path ns" "abs_path (ns @ ms) = abs_path ns @ abs_path ms"
  by (simp_all add: abs_path_def)

lemma collapse_word: "CHR ''/'' \<notin> set n \<Longrightarrow> n \<noteq> [] \<Longrightarrow>
    collapse_slashes (n @ CHR ''/'' # r) = n @ collapse_slashes (CHR ''/'' # r) \<and> collapse_slashes n = n"
proof (induction n rule: collapse_slashes.induct)
  case (3 c d cs)
  then show ?case by (cases cs) auto
qed simp_all

lemma collapse_abs_path: "file_names names \<Longrightarrow> collapse_slashes (abs_path names) = abs_path names"
proof (induction names)
  case (Cons n ns)
  then have n: "n \<noteq> []" "CHR ''/'' \<notin> set n" and ns: "collapse_slashes (abs_path ns) = abs_path ns"
    by (auto simp: file_names_def)
  from n obtain c cs where c: "n = c # cs" "c \<noteq> CHR ''/''" by (cases n) auto
  show ?case
  proof (cases ns)
    case Nil
    then show ?thesis using collapse_word [OF n(2,1), of "[]"] c by simp
  next
    case (Cons m ms)
    then show ?thesis using collapse_word [OF n(2,1)] ns c by simp
  qed
qed simp

lemma split_abs_path:
  "file_names names \<Longrightarrow> filter (\<lambda>p. p \<noteq> []) (split_at (CHR ''/'') (abs_path names)) = names"
proof (induction names)
  case (Cons n ns)
  then have n: "n \<noteq> []" "CHR ''/'' \<notin> set n" by (auto simp: file_names_def)
  have IH: "filter (\<lambda>p. p \<noteq> []) (split_at (CHR ''/'') (abs_path ns)) = ns"
    using Cons by (auto simp: file_names_def)
  show ?case
  proof (cases ns)
    case Nil
    then show ?thesis using n by (simp add: split_at_no_sep)
  next
    case (Cons m ms)
    then show ?thesis using IH n by (simp add: split_at_append)
  qed
qed simp

lemma crumb_paths: "map (\<lambda>b. fld b ''path'') (crumbs d names) = map (\<lambda>k. JStr (d @ abs_path (take (Suc k) names))) [0..<length names]"
proof (induction names arbitrary: d)
  case (Cons n ns)
  show ?case
    by (simp add: Cons.IH Let_def upt_conv_Cons map_Suc_upt [symmetric] del: upt_Suc)
qed simp

text \<open>Paths of the file manager. For the absolute path of any non-empty list of names: its parent is the
  path of the names but the last (the root for one name), joining that parent with the last name gives
  the path back, and the breadcrumbs of a directory lead to the root and to each of its ancestors, the
  last of them to the directory itself.\<close>

theorem file_paths:
  assumes "file_names names" and "names \<noteq> []" and "fld (Files_listing st) ''path'' = JStr (abs_path names)"
  shows "Files_parentOf (abs_path names) = (if length names = 1 then ''/'' else abs_path (butlast names)) \<and>
    Files_joinPath (Files_parentOf (abs_path names)) (last names) = abs_path names \<and>
    map (\<lambda>b. fld b ''path'') (Files_breadcrumbs st) =
      JStr ''/'' # map (\<lambda>k. JStr (abs_path (take (Suc k) names))) [0..<length names]"
proof -
  have split: "abs_path names = abs_path (butlast names) @ ''/'' @ last names"
    using arg_cong [OF append_butlast_last_id [OF assms(2)], of abs_path] by simp
  have lst: "CHR ''/'' \<notin> set (last names)"
    using assms(1,2) by (simp add: file_names_def)
  have nonempty: "abs_path names \<noteq> []" using assms(2) by (cases names) auto
  have cut: "dropWhile (\<lambda>c. c \<noteq> CHR ''/'') (rev (abs_path names)) = CHR ''/'' # rev (abs_path (butlast names))"
  proof -
    have "\<And>x. x \<in> set (rev (last names)) \<Longrightarrow> x \<noteq> CHR ''/''" using lst by auto
    then show ?thesis
      unfolding split by (simp add: dropWhile_append2 del: set_rev)
  qed
  have empty: "abs_path (butlast names) = [] \<longleftrightarrow> length names = 1"
    using assms(2) by (cases names rule: rev_cases) (auto simp: abs_path_def)
  have parent: "Files_parentOf (abs_path names) = (if length names = 1 then ''/'' else abs_path (butlast names))"
    using cut empty by (simp add: Files_parentOf_def Let_def split split: if_splits)
  have "[] \<notin> set (butlast names)" using assms(1) by (auto simp: file_names_def dest: in_set_butlastD)
  then have "butlast names \<noteq> [] \<Longrightarrow> abs_path (butlast names) \<noteq> ''/''"
    by (cases "butlast names") auto
  then have "Files_joinPath (Files_parentOf (abs_path names)) (last names) = abs_path names"
    using parent split collapse_abs_path [OF assms(1)] empty assms(2)
    by (auto simp: Files_joinPath_def Let_def split: if_splits)
  moreover have "map (\<lambda>b. fld b ''path'') (Files_breadcrumbs st) =
      JStr ''/'' # map (\<lambda>k. JStr (abs_path (take (Suc k) names))) [0..<length names]"
    using assms(3) nonempty split_abs_path [OF assms(1)] crumb_paths [of "[]" names]
    by (simp add: Files_breadcrumbs_def jor_def)
  ultimately show ?thesis using parent by blast
qed

theorem file_paths_witness:
  "Files_joinPath (Files_parentOf ''/srv/www/index.html'') ''index.html'' = ''/srv/www/index.html'' \<and>
   Files_parentOf ''/srv/www/index.html'' = ''/srv/www''"
  using file_paths [of "[''srv'', ''www'', ''index.html'']" "Files_init\<lparr>Files_listing := JObj [(''path'', JStr ''/srv/www/index.html'')]\<rparr>"]
  by (auto simp: file_names_def)

text \<open>The progress bar of an upload of several files: while file number \<open>k\<close> is sent, what is shown as
  loaded is at least what the files before it amount to and at most the total, so the bar does not fall
  back from file to file; the percentage is between 0 and 100 and the remaining time is not negative.\<close>

theorem several_files_progress:
  assumes "\<forall>f\<in>set files. 0 \<le> number (fld f ''size'')" and "0 < Files_totalBytes files"
    and "0 \<le> tr_loaded report" and "0 \<le> tr_rate report"
    and "t = Files_uploadReport files k (Files_totalBytes (take k files)) (files ! k) report"
  shows "Files_totalBytes (take k files) \<le> tr_loaded t \<and> tr_loaded t \<le> tr_total t \<and>
    tr_total t = Files_totalBytes files \<and> 0 \<le> tr_percent t \<and> tr_percent t \<le> 100 \<and> 0 \<le> tr_eta t"
proof -
  have sum: "Files_totalBytes fs = sum_list (map (\<lambda>f. number (fld f ''size'')) fs)" for fs
  proof -
    have "foldl (\<lambda>a f. a + number (fld f ''size'')) b fs = b + sum_list (map (\<lambda>f. number (fld f ''size'')) fs)" for b
      by (induction fs arbitrary: b) simp_all
    then show ?thesis by (simp add: Files_totalBytes_def)
  qed
  have drop: "0 \<le> Files_totalBytes (drop k files)"
    using assms(1) unfolding sum by (intro sum_list_nonneg) (auto dest: in_set_dropD)
  have take: "0 \<le> Files_totalBytes (take k files)"
    using assms(1) unfolding sum by (intro sum_list_nonneg) (auto dest: in_set_takeD)
  have "Files_totalBytes files = Files_totalBytes (take k files) + Files_totalBytes (drop k files)"
    unfolding sum by (simp only: map_append [symmetric] sum_list.append [symmetric] append_take_drop_id)
  then have le: "Files_totalBytes (take k files) \<le> Files_totalBytes files" using drop by linarith
  define loaded where "loaded = min (Files_totalBytes files) (Files_totalBytes (take k files) + tr_loaded report)"
  have bounds: "Files_totalBytes (take k files) \<le> loaded" "loaded \<le> Files_totalBytes files" "0 \<le> loaded"
    using le assms(3) take by (auto simp: loaded_def)
  then have percent: "0 \<le> loaded / Files_totalBytes files * 100" "loaded / Files_totalBytes files * 100 \<le> 100"
    using assms(2) by (simp_all add: divide_le_eq)
  have t: "tr_loaded t = loaded" "tr_total t = Files_totalBytes files"
    "tr_percent t = loaded / Files_totalBytes files * 100" "0 \<le> tr_eta t"
    using assms(2) unfolding assms(5) Files_uploadReport_def Let_def loaded_def [symmetric]
    by (simp_all only: transfer.simps) (simp_all split: if_splits)
  show ?thesis unfolding t(1-3) using bounds percent t(4) by blast
qed

theorem several_files_progress_witness:
  "let files = [JObj [(''size'', JNum 100)], JObj [(''size'', JNum 300)]];
       t = Files_uploadReport files 1 100 (files ! 1) \<lparr>tr_name = [], tr_phase = [], tr_loaded = 200, tr_total = 300,
             tr_percent = 66, tr_rate = 50, tr_eta = 2\<rparr>
   in 100 \<le> tr_loaded t \<and> tr_percent t \<le> 100 \<and> tr_total t = 400"
  using several_files_progress [of "[JObj [(''size'', JNum 100)], JObj [(''size'', JNum 300)]]"
      "\<lparr>tr_name = [], tr_phase = [], tr_loaded = 200, tr_total = 300, tr_percent = 66, tr_rate = 50, tr_eta = 2\<rparr>" _ 1]
  by (simp add: Files_totalBytes_def Let_def number_def number_or_def)

end
