(* ===== verification/Ssh_Page.thy ===== *)
theory Ssh_Page imports Page_Base begin

text \<open>
  Three pages of \<open>web/assets/app.js\<close>: the network tools, lines 2160 to 2202, the SSH page, lines 2622 to 2836, and
  the two logs, lines 2837 to 2909.
\<close>

subsection \<open>Network tools\<close>

record Tools_state =
  Tools_tool :: string
  Tools_target :: string
  Tools_port :: rat
  Tools_result :: json
  Tools_running :: bool

definition Tools_init :: Tools_state where
  "Tools_init = \<lparr>Tools_tool = ''ping'', Tools_target = [], Tools_port = 443, Tools_result = JNull,
          Tools_running = False\<rparr>"

definition Tools_options :: "Tools_state \<Rightarrow> json" where
  "Tools_options st =
     JObj [(''ping'', JArr (map JStr [''Ping'', t_tool_ping_hint])),
           (''dns'', JArr (map JStr [''DNS'', t_tool_dns_hint])),
           (''tcp'', JArr (map JStr [''TCP'', t_tool_port_hint])),
           (''http'', JArr (map JStr [''HTTP'', t_tool_http_hint])),
           (''diagnostic'', JArr (map JStr [t_one_click_diagnosis, t_tool_diagnose_hint]))]"

definition Tools_run :: "Tools_state \<Rightarrow> json \<Rightarrow> Tools_state io" where
  "Tools_run st ev =
     steps
       [perform Prevent_default, set_state (\<lambda>s. s\<lparr>Tools_running := True\<rparr>),
        set_state (\<lambda>s. s\<lparr>Tools_result := JNull\<rparr>),
        try_finally
          (try_catch
             (bnd (api ''/api/v1/tools/run''
                     (with_body ''POST''
                        (jsonBody (JObj [(''tool'', JStr (Tools_tool st)),
                                         (''target'',
                                          JStr (if Tools_tool st = ''diagnostic'' then []
                                                else Tools_target st)),
                                         (''port'',
                                          JNum (if Tools_tool st = ''tcp'' then Tools_port st else 0))]))))
                (\<lambda>r1. set_state (\<lambda>s. s\<lparr>Tools_result := r1\<rparr>)))
             (\<lambda>cause. notify Failure t_tool_failed (JStr (errorDetail cause))))
          (set_state (\<lambda>s. s\<lparr>Tools_running := False\<rparr>))]"

definition Tools_view :: "route \<Rightarrow> Tools_state \<Rightarrow> Tools_state vnode" where
  "Tools_view route st =
     El ''div'' [(''className'', JStr ''page-stack'')] []
       [PageHeader route JUndef None [],
        El ''section'' [(''className'', JStr ''tools-grid'')] []
          [Card []
             [SectionTitle
                [(''title'', JStr t_network_diagnosis), (''subtitle'', JStr t_run_server_side)] [],
              El ''form'' [(''className'', JStr ''form-stack'')]
                [(''onSubmit'', \<lambda>ev. Tools_run st ev)]
                ([Field [(''label'', JStr t_tools_word)]
                    [SelectInput [(''value'', JStr (Tools_tool st))]
                       [(''onChange'',
                         \<lambda>ev. set_state (\<lambda>s. s\<lparr>Tools_tool := jstring (fld ev ''value'')\<rparr>))]
                       (map (\<lambda>pr2.
                               El ''option'' [(''value'', (idx pr2 0)), (''key'', (idx pr2 0))] []
                                 (child (idx (idx pr2 1) 0)))
                          (entry_arrays (Tools_options st)))]] @
                 (if Tools_tool st \<noteq> ''diagnostic''
                    then [Field [(''label'',
                                  JStr (if Tools_tool st = ''http'' then t_url_or_domain
                                        else t_target_host))]
                            [TextInput [(''value'', JStr (Tools_target st)),
                                        (''placeholder'', JStr ''example.com''),
                                        (''required'', JBool True)]
                               [(''onChange'',
                                 \<lambda>ev. set_state (\<lambda>s. s\<lparr>Tools_target := jstring (fld ev ''value'')\<rparr>))]]]
                  else []) @
                 (if Tools_tool st = ''tcp''
                    then [Field [(''label'', JStr t_ports)]
                            [TextInput
                               [(''type'', JStr ''number''), (''min'', JStr ''1''),
                                (''max'', JStr ''65535''), (''value'', JNum (Tools_port st))]
                               [(''onChange'',
                                 \<lambda>ev.
                                   set_state (\<lambda>s. s\<lparr>Tools_port := number_or (fld ev ''value'') 443\<rparr>))]]]
                  else []) @
                 [El ''p'' [(''className'', JStr ''field-hint'')] []
                    (child (idx (fld (Tools_options st) (Tools_tool st)) 1)),
                  Button
                    [(''type'', JStr ''submit''), (''tone'', JStr ''primary''),
                     (''busy'', JBool (Tools_running st)), (''className'', JStr ''full-width'')]
                    [] [Txt t_run_start]])],
           Card []
             ([SectionTitle
                 [(''title'', JStr t_run_result),
                  (''subtitle'',
                   JStr (if truthy (Tools_result st)
                           then js_text (fld (Tools_result st) ''target'') @ t_mid_dot @
                                text_or (fld (Tools_result st) ''duration_ms'') t_em_dash @ '' ms''
                         else t_result_shown_here))]
                 (if truthy (fld (Tools_result st) ''output'')
                    then [Button [(''tone'', JStr ''ghost''), (''icon'', JStr ''copy'')]
                            [(''onClick'',
                              \<lambda>ev.
                                steps [copyText (fld (Tools_result st) ''output''),
                                       notify Success t_result_copied JUndef])]
                            [Txt t_copy_word]]
                  else [])] @
              (if Tools_running st then [LoadingState 5]
               else if truthy (Tools_result st)
                 then [Terminal [(''maxHeight'', JNum 520)]
                         (child (jor (jor (fld (Tools_result st) ''output'')
                                        (JStr (join_with nl
                                                 (map array_text
                                                    (listOf (fld (Tools_result st) ''addresses'') [])))))
                                   (JStr t_command_no_output)))]
               else [EmptyState [(''icon'', JStr ''terminal''), (''title'', JStr t_waiting_run),
                                 (''description'', JStr t_choose_tool)]
                       []]))],
        Card [] [SectionTitle [(''title'', JStr t_ext_tools)] [],
                 El ''button'' [(''className'', JStr ''module-card full-module'')]
                   [(''onClick'', \<lambda>ev. perform (Navigate ''/tools/github''))]
                   [El ''span'' [(''className'', JStr ''module-icon'')] []
                      [Icon [(''name'', JStr ''github'')]],
                    El ''div'' [] []
                      [El ''strong'' [] [] [Txt t_github], El ''p'' [] [] [Txt t_github_summary]],
                    Icon [(''name'', JStr ''chevron'')]]]]"

subsection \<open>Audit log and system log\<close>

record Audit_state =
  Audit_tab :: string
  Audit_auditEvents :: "json list"
  Audit_systemLogs :: string
  Audit_loading :: bool
  Audit_error :: string
  Audit_filters :: json

definition Audit_init :: Audit_state where
  "Audit_init = \<lparr>Audit_tab = ''audit'', Audit_auditEvents = [], Audit_systemLogs = [],
          Audit_loading = True, Audit_error = [],
          Audit_filters = JObj [(''q'', JStr []), (''result'', JStr []), (''unit'', JStr []),
                                (''priority'', JStr []), (''lines'', JNum 500)]\<rparr>"

definition Audit_reload :: "Audit_state \<Rightarrow> Audit_state io" where
  "Audit_reload st =
     steps [set_state (\<lambda>s. s\<lparr>Audit_loading := True\<rparr>),
            set_state (\<lambda>s. s\<lparr>Audit_error := []\<rparr>),
            try_finally
              (try_catch
                 (if Audit_tab st = ''audit''
                    then bnd (api (''/api/v1/audit'' @
                                   query [(''q'', fld (Audit_filters st) ''q''),
                                          (''result'', fld (Audit_filters st) ''result''),
                                          (''limit'', JNum 500)])
                                empty_init)
                           (\<lambda>out. set_state (\<lambda>s. s\<lparr>Audit_auditEvents := listOf out [''events'']\<rparr>))
                  else bnd (api (''/api/v1/logs/system'' @
                                 query [(''unit'', fld (Audit_filters st) ''unit''),
                                        (''priority'', fld (Audit_filters st) ''priority''),
                                        (''lines'', fld (Audit_filters st) ''lines'')])
                              empty_init)
                         (\<lambda>r2.
                            let out = asObject r2
                            in set_state (\<lambda>s. s\<lparr>Audit_systemLogs := text_or (fld out ''logs'') []\<rparr>)))
                 (\<lambda>cause. set_state (\<lambda>s. s\<lparr>Audit_error := errorDetail cause\<rparr>)))
              (set_state (\<lambda>s. s\<lparr>Audit_loading := False\<rparr>))]"

definition Audit_effect :: "Audit_state \<Rightarrow> Audit_state io" where
  "Audit_effect st = Audit_reload st"

text \<open>The timer of the second effect, every 10 seconds while the system log is shown: a hidden document
  does not reload.\<close>

definition Audit_tick :: "bool \<Rightarrow> Audit_state \<Rightarrow> Audit_state io" where
  "Audit_tick hidden st =
     (if Audit_tab st \<noteq> ''system'' then skip else if hidden then skip else Audit_reload st)"

definition Audit_view :: "locale_date \<Rightarrow> route \<Rightarrow> Audit_state \<Rightarrow> Audit_state vnode" where
  "Audit_view loc route st =
     El ''div'' [(''className'', JStr ''page-stack'')] []
       ([PageHeader route (JBool (Audit_loading st)) (Some (\<lambda>ev. Audit_reload st))
           (if Audit_tab st = ''system'' \<and> Audit_systemLogs st \<noteq> []
              then [Button [(''tone'', JStr ''ghost''), (''icon'', JStr ''copy'')]
                      [(''onClick'',
                        \<lambda>ev.
                          steps [copyText (JStr (Audit_systemLogs st)),
                                 notify Success t_log_copied JUndef])]
                      [Txt t_copy_word]]
            else []),
         El ''div'' [(''className'', JStr ''tab-bar'')] []
           [El ''button''
              [(''className'', JStr (if Audit_tab st = ''audit'' then ''active'' else []))]
              [(''onClick'', \<lambda>ev. set_state (\<lambda>s. s\<lparr>Audit_tab := ''audit''\<rparr>))] [Txt t_audit_title],
            El ''button''
              [(''className'', JStr (if Audit_tab st = ''system'' then ''active'' else []))]
              [(''onClick'', \<lambda>ev. set_state (\<lambda>s. s\<lparr>Audit_tab := ''system''\<rparr>))] [Txt t_system_logs]]] @
        (if Audit_tab st = ''audit''
           then [Card []
                   ([SectionTitle
                       [(''title'', JStr t_audit_title), (''subtitle'', JStr t_audit_hint)] [],
                     El ''div'' [(''className'', JStr ''filter-row'')] []
                       [El ''div'' [(''className'', JStr ''search-box grow'')] []
                          [Icon [(''name'', JStr ''search''), (''size'', JNum 17)],
                           El ''input'' [(''value'', fld (Audit_filters st) ''q''),
                                         (''placeholder'', JStr t_audit_search)]
                             [(''onChange'',
                               \<lambda>ev.
                                 set_state (\<lambda>s.
                                              s\<lparr>Audit_filters := spread (Audit_filters s)
                                                  [(''q'', fld ev ''value'')]\<rparr>))]
                             []],
                        SelectInput [(''aria-label'', JStr t_audit_filter),
                                     (''value'', fld (Audit_filters st) ''result'')]
                          [(''onChange'',
                            \<lambda>ev.
                              set_state (\<lambda>s.
                                           s\<lparr>Audit_filters := spread (Audit_filters s)
                                               [(''result'', fld ev ''value'')]\<rparr>))]
                          [El ''option'' [(''value'', JStr [])] [] [Txt t_all_results],
                           El ''option'' [(''value'', JStr ''success'')] [] [Txt t_succeeded_word],
                           El ''option'' [(''value'', JStr ''failure'')] [] [Txt t_failed_word]]]] @
                    (if Audit_error st \<noteq> []
                       then [ErrorState (JStr (Audit_error st)) (\<lambda>ev. Audit_reload st)]
                     else if length (Audit_auditEvents st) \<noteq> 0
                       then [El ''div'' [(''className'', JStr ''audit-list'')] []
                               (map
                                  (\<lambda>(index, item) .
                                     El ''article''
                                       [(''className'', JStr ''audit-row''),
                                        (''key'', jor (fld item ''id'') (JNum (of_nat index)))]
                                       []
                                       [El ''span''
                                          [(''className'',
                                            JStr (''audit-status '' @
                                                  (if fld item ''result'' = JStr ''failure'' \<or>
                                                      fld item ''success'' = JBool False
                                                     then ''bad''
                                                   else ''ok'')))]
                                          [] [Icon [(''name'',
                                                     JStr (if fld item ''result'' = JStr ''failure'' \<or>
                                                              fld item ''success'' = JBool False
                                                             then ''warning''
                                                           else ''check'')),
                                                    (''size'', JNum 16)]],
                                        El ''div'' [] []
                                          ([El ''div'' [(''className'', JStr ''card-topline'')] []
                                              [El ''strong'' [] []
                                                 [Txt (js_text (jor (fld item ''action'')
                                                                  (fld item ''event'')))],
                                               Badge
                                                 [(''tone'',
                                                   JStr (if fld item ''result'' = JStr ''failure'' \<or>
                                                            fld item ''success'' = JBool False
                                                           then ''danger''
                                                         else ''success''))]
                                                 [Txt (text_or (fld item ''result'')
                                                         (if fld item ''success'' = JBool False
                                                            then ''failure''
                                                          else ''success''))]],
                                            El ''p'' [] []
                                              [Txt (js_text (jor (jor (fld item ''message'')
                                                                    (fld item ''resource''))
                                                               (fld item ''path'')))],
                                            El ''small'' [] []
                                              [Txt (formatDate loc (jor (fld item ''time'')
                                                                      (fld item ''created_at''))),
                                               Txt t_mid_dot,
                                               Txt (js_text (jor (fld item ''username'')
                                                               (fld item ''user''))),
                                               Txt t_mid_dot,
                                               Txt (js_text
                                                      (jor (fld item ''ip'') (fld item ''client_ip'')))]] @
                                           (if truthy (fld item ''details'')
                                              then [El ''details'' [] []
                                                      [El ''summary'' [] [] [Txt t_details_word],
                                                       Terminal []
                                                         (child
                                                            (if is_string (fld item ''details'')
                                                               then fld item ''details''
                                                             else stringify2 (fld item ''details'')))]]
                                            else []))])
                                  (enumerate 0 (Audit_auditEvents st)))]
                     else if \<not> Audit_loading st
                       then [EmptyState
                               [(''icon'', JStr ''audit''), (''title'', JStr t_no_audit_match)] []]
                     else [LoadingState 4]))]
         else [Card []
                 ([SectionTitle
                     [(''title'', JStr t_system_logs), (''subtitle'', JStr t_auto_refresh_hint)] [],
                   El ''div'' [(''className'', JStr ''filter-row'')] []
                     [Field [(''label'', JStr t_systemd_unit)]
                        [TextInput [(''value'', fld (Audit_filters st) ''unit''),
                                    (''placeholder'', JStr t_unit_example)]
                           [(''onChange'',
                             \<lambda>ev.
                               set_state (\<lambda>s.
                                            s\<lparr>Audit_filters := spread (Audit_filters s)
                                                [(''unit'', fld ev ''value'')]\<rparr>))]],
                      Field [(''label'', JStr t_priority_word)]
                        [SelectInput [(''value'', fld (Audit_filters st) ''priority'')]
                           [(''onChange'',
                             \<lambda>ev.
                               set_state (\<lambda>s.
                                            s\<lparr>Audit_filters := spread (Audit_filters s)
                                                [(''priority'', fld ev ''value'')]\<rparr>))]
                           [El ''option'' [(''value'', JStr [])] [] [Txt t_all_word],
                            El ''option'' [(''value'', JStr ''err'')] [] [Txt t_errors_up],
                            El ''option'' [(''value'', JStr ''warning'')] [] [Txt t_warnings_up],
                            El ''option'' [(''value'', JStr ''info'')] [] [Txt t_infos_up]]],
                      Field [(''label'', JStr t_line_count)]
                        [TextInput [(''type'', JStr ''number''), (''min'', JStr ''50''),
                                    (''max'', JStr ''5000''),
                                    (''value'', fld (Audit_filters st) ''lines'')]
                           [(''onChange'',
                             \<lambda>ev.
                               set_state
                                 (\<lambda>s.
                                    s\<lparr>Audit_filters := spread (Audit_filters s)
                                        [(''lines'', JNum (number_or (fld ev ''value'') 500))]\<rparr>))]]]] @
                  (if Audit_error st \<noteq> []
                     then [ErrorState (JStr (Audit_error st)) (\<lambda>ev. Audit_reload st)]
                   else if Audit_loading st \<and> Audit_systemLogs st = [] then [LoadingState 7]
                   else [Terminal [(''maxHeight'', JNum 720)] [Txt (Audit_systemLogs st)]]))]))"

subsection \<open>Words the page checks\<close>

text \<open>\<open>/^[a-z_][a-z0-9_-]{0,31}$/\<close>, and the first field of \<open>split(/\s+/)\<close>, empty when the text starts with
  white space.\<close>

definition is_user_name :: "string \<Rightarrow> bool" where
  "is_user_name s = (case s of [] \<Rightarrow> False
     | c # cs \<Rightarrow> (c = CHR ''_'' \<or> 97 \<le> code c \<and> code c \<le> 122) \<and> length cs \<le> 31 \<and>
         list_all (\<lambda>d. d = CHR ''_'' \<or> d = CHR ''-'' \<or> 97 \<le> code d \<and> code d \<le> 122 \<or> 48 \<le> code d \<and> code d \<le> 57) cs)"

definition first_word :: "string \<Rightarrow> string" where
  "first_word s = concat (takeWhile (\<lambda>c. \<not> is_space c) (js_chars s))"

subsection \<open>Accounts, keys and the SSH server\<close>

record Ssh_state =
  Ssh_status :: json
  Ssh_users :: "json list"
  Ssh_keys :: "json list"
  Ssh_selectedUser :: string
  Ssh_loading :: bool
  Ssh_working :: bool
  Ssh_error :: string

definition Ssh_init :: Ssh_state where
  "Ssh_init = \<lparr>Ssh_status = JObj [], Ssh_users = [], Ssh_keys = [], Ssh_selectedUser = [],
        Ssh_loading = True, Ssh_working = False, Ssh_error = []\<rparr>"

definition Ssh_enabledValue :: "Ssh_state \<Rightarrow> json \<Rightarrow> bool \<Rightarrow> bool" where
  "Ssh_enabledValue st v fallback =
     (let normalized = toLowerCase (js_trim (jstring (jnn v (JStr []))))
      in (if normalized \<in> set [''yes'', ''true'', ''on'', ''1'', ''enabled''] then True
          else if normalized \<in> set [''no'', ''false'', ''off'', ''0'', ''disabled''] then False
          else fallback))"

definition Ssh_reload :: "Ssh_state \<Rightarrow> string \<Rightarrow> Ssh_state io" where
  "Ssh_reload st user =
     steps
       [set_state (\<lambda>s. s\<lparr>Ssh_loading := True\<rparr>), set_state (\<lambda>s. s\<lparr>Ssh_error := []\<rparr>),
        try_finally
          (try_catch
             (bnd (promise_all
                     [api ''/api/v1/ssh/status'' empty_init, api ''/api/v1/ssh/users'' empty_init])
                (\<lambda>r1.
                   let statusResult = idx r1 0;
                       userResult = idx r1 1
                   in let nextStatus = asObject statusResult
                      in let userList = listOf userResult [''users'']
                         in let nextUser = jor (jor (JStr user) (fld (list_idx userList 0) ''name''))
                                             (JStr [])
                            in steps
                                 [set_state (\<lambda>s. s\<lparr>Ssh_status := nextStatus\<rparr>),
                                  set_state (\<lambda>s. s\<lparr>Ssh_users := userList\<rparr>),
                                  set_state (\<lambda>s. s\<lparr>Ssh_selectedUser := jstring nextUser\<rparr>),
                                  if fld nextStatus ''available'' = JBool True \<and> truthy nextUser
                                    then bnd
                                           (api (''/api/v1/ssh/keys'' @ query [(''user'', nextUser)])
                                              empty_init)
                                           (\<lambda>r2. set_state (\<lambda>s. s\<lparr>Ssh_keys := listOf r2 [''keys'']\<rparr>))
                                  else set_state (\<lambda>s. s\<lparr>Ssh_keys := []\<rparr>)]))
             (\<lambda>cause.
                steps [set_state (\<lambda>s. s\<lparr>Ssh_error := errorDetail cause\<rparr>),
                       set_state (\<lambda>s. s\<lparr>Ssh_keys := []\<rparr>)]))
          (set_state (\<lambda>s. s\<lparr>Ssh_loading := False\<rparr>))]"

definition Ssh_effect :: "Ssh_state \<Rightarrow> Ssh_state io" where
  "Ssh_effect st = Ssh_reload st []"

definition Ssh_mutate :: "Ssh_state \<Rightarrow> string \<Rightarrow> json \<Rightarrow> string \<Rightarrow> string \<Rightarrow> Ssh_state io" where
  "Ssh_mutate st endpoint body0 success user =
     steps
       [set_state (\<lambda>s. s\<lparr>Ssh_working := True\<rparr>),
        try_finally
          (try_catch
             (bnd (secureApi endpoint (with_body ''POST'' (jsonBody body0)))
                (\<lambda>r3.
                   let out = asObject r3
                   in steps [notify (if truthy (fld out ''pending_port_confirmation'') then Warning
                                     else Success)
                               (jstring (jor (fld out ''message'') (JStr success))) JUndef,
                             Ssh_reload st user, Ret out]))
             (\<lambda>cause. steps [notify Failure t_ssh_op_failed (JStr (errorDetail cause)), Throw cause]))
          (set_state (\<lambda>s. s\<lparr>Ssh_working := False\<rparr>))]"

definition Ssh_addSubmit :: "Ssh_state \<Rightarrow> json \<Rightarrow> Ssh_state io" where
  "Ssh_addSubmit st ev =
     steps [perform Prevent_default,
            try_catch (steps [Ssh_mutate st ''/api/v1/ssh/keys/add''
                                (JObj [(''user'', JStr (Ssh_selectedUser st)),
                                       (''key'', form_get (fld ev ''form'') ''key'')])
                                t_ssh_key_added (Ssh_selectedUser st),
                              perform Close_modal])
              (\<lambda>c. skip)]"

definition Ssh_addKey :: "Ssh_state \<Rightarrow> Ssh_state io" where
  "Ssh_addKey st =
     open_modal (t_add_key_for @ Ssh_selectedUser st) []
       [El ''form'' [(''className'', JStr ''form-stack'')] [(''onSubmit'', \<lambda>ev. Ssh_addSubmit st ev)]
          [Field [(''label'', JStr t_openssh_key)]
             [TextArea [(''name'', JStr ''key''), (''rows'', JNum 6),
                        (''placeholder'', JStr ''ssh-ed25519 AAAA...''),
                        (''required'', JBool True)]
                []],
           El ''div'' [(''className'', JStr ''form-actions'')] []
             [Button [] [(''onClick'', \<lambda>ev. perform Close_modal)] [Txt t_cancel],
              Button [(''type'', JStr ''submit''), (''tone'', JStr ''primary''),
                      (''busy'', JBool (Ssh_working st))]
                [] [Txt t_add]]]]"

definition Ssh_generateSubmit :: "Ssh_state \<Rightarrow> json \<Rightarrow> Ssh_state io" where
  "Ssh_generateSubmit st ev =
     steps
       [perform Prevent_default,
        let values = fld ev ''form''
        in try_catch
             (bnd (Ssh_mutate st ''/api/v1/ssh/keys/generate''
                     (JObj [(''user'', JStr (Ssh_selectedUser st)),
                            (''comment'', form_get values ''comment''),
                            (''passphrase'', form_get values ''passphrase'')])
                     t_key_generated (Ssh_selectedUser st))
                (\<lambda>generated.
                   open_modal t_save_private_key ''large''
                     [El ''div'' [(''className'', JStr ''form-stack'')] []
                        [El ''div'' [(''className'', JStr ''notice warning'')] []
                           [Icon [(''name'', JStr ''warning'')],
                            El ''span'' [] [] [Txt t_private_key_once]],
                         Field [(''label'', JStr t_fingerprint)]
                           [TextInput [(''readOnly'', JBool True),
                                       (''value'', JStr (js_text (fld generated ''fingerprint'')))]
                              []],
                         Terminal [(''maxHeight'', JNum 420)] (child (fld generated ''private_key'')),
                         El ''div'' [(''className'', JStr ''form-actions'')] []
                           [Button [(''icon'', JStr ''copy'')]
                              [(''onClick'',
                                \<lambda>ev.
                                  steps [copyText (JStr (text_or (fld generated ''private_key'') [])),
                                         notify Success t_private_key_copied JUndef])]
                              [Txt t_copy_private_key],
                            Button [(''tone'', JStr ''primary''), (''icon'', JStr ''download'')]
                              [(''onClick'',
                                \<lambda>ev.
                                  perform
                                    (Dom ''download'' [JStr (text_or (fld generated ''filename'')
                                                               ''lukepanel_ed25519''),
                                                       JStr (text_or (fld generated ''private_key'') [])]))]
                              [Txt t_download_private_key],
                            Button [] [(''onClick'', \<lambda>ev. perform Close_modal)] [Txt t_saved_it]]]]))
             (\<lambda>c. skip)]"

definition Ssh_generateKey :: "Ssh_state \<Rightarrow> Ssh_state io" where
  "Ssh_generateKey st =
     open_modal (t_generate_key_for @ Ssh_selectedUser st) []
       [El ''form'' [(''className'', JStr ''form-stack'')]
          [(''onSubmit'', \<lambda>ev. Ssh_generateSubmit st ev)]
          [Field [(''label'', JStr t_comment_word)]
             [TextInput [(''name'', JStr ''comment''),
                         (''placeholder'', JStr (Ssh_selectedUser st @ ''@lukepanel''))]
                []],
           Field [(''label'', JStr t_key_passphrase), (''hint'', JStr t_passphrase_hint)]
             [TextInput [(''name'', JStr ''passphrase''), (''type'', JStr ''password''),
                         (''autoComplete'', JStr ''new-password'')]
                []],
           El ''div'' [(''className'', JStr ''form-actions'')] []
             [Button [] [(''onClick'', \<lambda>ev. perform Close_modal)] [Txt t_cancel],
              Button [(''type'', JStr ''submit''), (''tone'', JStr ''primary''),
                      (''busy'', JBool (Ssh_working st))]
                [] [Txt t_generate_word]]]]"

definition Ssh_createSubmit :: "Ssh_state \<Rightarrow> json \<Rightarrow> Ssh_state io" where
  "Ssh_createSubmit st ev =
     steps [perform Prevent_default,
            let values = fld ev ''form''
            in let name = js_trim (jstring (jor (form_get values ''name'') (JStr [])))
               in if \<not> is_user_name name then notify Warning t_username_rule JUndef
                  else try_catch
                         (steps [Ssh_mutate st ''/api/v1/ssh/users/manage''
                                   (JObj [(''action'', JStr ''create''), (''name'', JStr name),
                                          (''sudo'', JBool (form_get values ''sudo'' = JStr ''on''))])
                                   t_linux_user_created name,
                                 perform Close_modal])
                         (\<lambda>c. skip)]"

definition Ssh_createUser :: "Ssh_state \<Rightarrow> Ssh_state io" where
  "Ssh_createUser st =
     open_modal t_create_linux_user []
       [El ''form'' [(''className'', JStr ''form-stack'')]
          [(''onSubmit'', \<lambda>ev. Ssh_createSubmit st ev)]
          [Field [(''label'', JStr t_username)]
             [TextInput [(''name'', JStr ''name''), (''autoCapitalize'', JStr ''none''),
                         (''required'', JBool True)]
                []],
           El ''label'' [(''className'', JStr ''check-field'')] []
             [El ''input'' [(''type'', JStr ''checkbox''), (''name'', JStr ''sudo'')] [] [],
              Txt t_grant_sudo_right],
           El ''div'' [(''className'', JStr ''form-actions'')] []
             [Button [] [(''onClick'', \<lambda>ev. perform Close_modal)] [Txt t_cancel],
              Button [(''type'', JStr ''submit''), (''tone'', JStr ''primary''),
                      (''busy'', JBool (Ssh_working st))]
                [] [Txt t_create]]]]"

definition Ssh_saveSettings :: "Ssh_state \<Rightarrow> json \<Rightarrow> Ssh_state io" where
  "Ssh_saveSettings st ev =
     steps
       [perform Prevent_default,
        let values = fld ev ''form''
        in Ssh_mutate st ''/api/v1/ssh/settings''
             (JObj [(''port'', JNum (number_or (form_get values ''port'') 22)),
                    (''permit_root_login'', form_get values ''permit_root_login''),
                    (''allow_tcp_forwarding'',
                     JBool (form_get values ''allow_tcp_forwarding'' = JStr ''on'')),
                    (''allow_agent_forwarding'',
                     JBool (form_get values ''allow_agent_forwarding'' = JStr ''on'')),
                    (''x11_forwarding'', JBool (form_get values ''x11_forwarding'' = JStr ''on''))])
             t_ssh_settings_applied (Ssh_selectedUser st)]"

definition Ssh_sshAvailable :: "Ssh_state \<Rightarrow> bool" where
  "Ssh_sshAvailable st =
     (fld (Ssh_status st) ''available'' = JBool True)"

definition Ssh_passwordEnabled :: "Ssh_state \<Rightarrow> bool" where
  "Ssh_passwordEnabled st =
     Ssh_enabledValue st (fld (Ssh_status st) ''password_authentication'') False"

definition Ssh_totalKeys :: "Ssh_state \<Rightarrow> rat" where
  "Ssh_totalKeys st =
     foldl (\<lambda>sum user. sum + number (fld user ''key_count'')) 0 (Ssh_users st)"

definition Ssh_settingsCard :: "Ssh_state \<Rightarrow> Ssh_state vnode" where
  "Ssh_settingsCard st =
     Card []
       [SectionTitle
          [(''title'', JStr t_ssh_security_settings), (''subtitle'', JStr t_port_rollback_hint)] [],
        El ''fieldset''
          [(''className'', JStr ''form-fieldset''), (''disabled'', JBool (\<not> Ssh_sshAvailable st))] []
          [El ''form'' [(''key'',
                         JStr (jstring (fld (Ssh_status st) ''port'') @ ''|'' @
                               jstring (fld (Ssh_status st) ''permit_root_login'') @ ''|'' @
                               jstring (fld (Ssh_status st) ''allow_tcp_forwarding'') @ ''|'' @
                               jstring (fld (Ssh_status st) ''allow_agent_forwarding'') @ ''|'' @
                               jstring (fld (Ssh_status st) ''x11_forwarding''))),
                        (''className'', JStr ''form-stack'')]
             [(''onSubmit'', \<lambda>ev. Ssh_saveSettings st ev)]
             [El ''div'' [(''className'', JStr ''form-grid'')] []
                [Field [(''label'', JStr t_listening_ports)]
                   [TextInput [(''name'', JStr ''port''), (''type'', JStr ''number''),
                               (''min'', JStr ''1''), (''max'', JStr ''65535''),
                               (''defaultValue'',
                                JNum (number_or (JStr (first_word
                                                         (jstring (jor (fld (Ssh_status st) ''port'')
                                                                     (JStr ''22'')))))
                                        22))]
                      []],
                 Field [(''label'', JStr t_root_login)]
                   [SelectInput [(''name'', JStr ''permit_root_login''),
                                 (''defaultValue'',
                                  JStr (text_or (fld (Ssh_status st) ''permit_root_login'')
                                          ''prohibit-password''))]
                      [] [El ''option'' [(''value'', JStr ''prohibit-password'')] []
                            [Txt t_keys_only_recommended],
                          El ''option'' [(''value'', JStr ''no'')] [] [Txt t_forbid_all],
                          El ''option'' [(''value'', JStr ''yes'')] [] [Txt t_allow_word],
                          El ''option'' [(''value'', JStr ''forced-commands-only'')] []
                            [Txt t_forced_commands_only]]]],
              El ''label'' [(''className'', JStr ''check-field'')] []
                [El ''input''
                   [(''type'', JStr ''checkbox''), (''name'', JStr ''allow_tcp_forwarding''),
                    (''defaultChecked'',
                     JBool (Ssh_enabledValue st (fld (Ssh_status st) ''allow_tcp_forwarding'') False))]
                   [] [],
                 Txt t_allow_tcp_forward],
              El ''label'' [(''className'', JStr ''check-field'')] []
                [El ''input''
                   [(''type'', JStr ''checkbox''), (''name'', JStr ''allow_agent_forwarding''),
                    (''defaultChecked'',
                     JBool
                       (Ssh_enabledValue st (fld (Ssh_status st) ''allow_agent_forwarding'') False))]
                   [] [],
                 Txt t_allow_agent_forward],
              El ''label'' [(''className'', JStr ''check-field'')] []
                [El ''input''
                   [(''type'', JStr ''checkbox''), (''name'', JStr ''x11_forwarding''),
                    (''defaultChecked'',
                     JBool (Ssh_enabledValue st (fld (Ssh_status st) ''x11_forwarding'') False))]
                   [] [],
                 Txt t_allow_x11_forward],
              Button [(''type'', JStr ''submit''), (''tone'', JStr ''primary''),
                      (''busy'', JBool (Ssh_working st))]
                [] [Txt t_apply_ssh_settings]]]]"

definition Ssh_switchPassword :: "Ssh_state \<Rightarrow> Ssh_state io" where
  "Ssh_switchPassword st =
     (let enabled = \<not> Ssh_passwordEnabled st
      in bnd (confirm_io (if enabled then t_restore_password_login else t_close_password_login)
                (if enabled then t_restore_password_detail else t_close_password_detail)
                (if enabled then t_restore else t_confirm_close) (\<not> enabled))
           (\<lambda>r5.
              if \<not> truthy r5 then skip
              else Ssh_mutate st ''/api/v1/ssh/password'' (JObj [(''enabled'', JBool enabled)])
                     (if enabled then t_password_login_restored else t_password_login_closed)
                     (Ssh_selectedUser st)))"

definition Ssh_passwordCard :: "Ssh_state \<Rightarrow> Ssh_state vnode" where
  "Ssh_passwordCard st =
     Card []
       [SectionTitle [(''title'', JStr t_password_login_2), (''subtitle'', JStr t_tested_key_first)] [],
        El ''div''
          [(''className'',
            JStr (''notice '' @ (if Ssh_passwordEnabled st then ''warning'' else ''success'')))]
          [] [Icon [(''name'', JStr (if Ssh_passwordEnabled st then ''warning'' else ''check''))],
              El ''div'' [] []
                [El ''strong'' [] [] [Txt (if Ssh_passwordEnabled st then t_password_login_open
                                           else t_password_login_closed)],
                 El ''span'' [] []
                   [Txt (if Ssh_passwordEnabled st then t_public_brute_force else t_must_use_keys)]]],
        Button [(''tone'', JStr (if Ssh_passwordEnabled st then ''danger'' else ''primary'')),
                (''busy'', JBool (Ssh_working st)), (''disabled'', JBool (\<not> Ssh_sshAvailable st))]
          [(''onClick'', \<lambda>ev. Ssh_switchPassword st)]
          [Txt (if Ssh_passwordEnabled st then t_close_password_login else t_restore_password_login)]]"

definition Ssh_deleteKey :: "Ssh_state \<Rightarrow> json \<Rightarrow> Ssh_state io" where
  "Ssh_deleteKey st item =
     bnd (confirm_io t_delete_ssh_key t_keep_other_login t_delete True)
       (\<lambda>r6.
          if truthy r6
            then Ssh_mutate st ''/api/v1/ssh/keys/delete''
                   (JObj [(''user'', JStr (Ssh_selectedUser st)), (''id'', fld item ''id'')])
                   t_public_key_deleted (Ssh_selectedUser st)
          else skip)"

definition Ssh_keysCard :: "Ssh_state \<Rightarrow> Ssh_state vnode" where
  "Ssh_keysCard st =
     Card []
       [SectionTitle [(''title'', JStr t_users_and_keys), (''subtitle'', JStr t_choose_user_keys)]
          [El ''div'' [(''className'', JStr ''row-buttons'')] []
             [SelectInput
                [(''aria-label'', JStr t_choose_ssh_user), (''value'', JStr (Ssh_selectedUser st))]
                [(''onChange'',
                  \<lambda>ev.
                    steps [set_state (\<lambda>s. s\<lparr>Ssh_selectedUser := jstring (fld ev ''value'')\<rparr>),
                           Ssh_reload st (jstring (fld ev ''value''))])]
                (map (\<lambda>user.
                        El ''option'' [(''key'', fld user ''name'')] [] (child (fld user ''name'')))
                   (Ssh_users st)),
              Button [(''tone'', JStr ''primary''), (''icon'', JStr ''plus''),
                      (''disabled'', JBool (Ssh_selectedUser st = [] \<or> \<not> Ssh_sshAvailable st))]
                [(''onClick'', \<lambda>ev. Ssh_addKey st)] [Txt t_add_public_key],
              Button [(''icon'', JStr ''key''),
                      (''disabled'', JBool (Ssh_selectedUser st = [] \<or> \<not> Ssh_sshAvailable st))]
                [(''onClick'', \<lambda>ev. Ssh_generateKey st)] [Txt t_generate_key]]],
        El ''div'' [(''className'', JStr ''user-key-layout'')] []
          [El ''div'' [(''className'', JStr ''user-list'')] []
             (map
                (\<lambda>user.
                   El ''button''
                     [(''className'',
                       JStr
                         (if JStr (Ssh_selectedUser st) = fld user ''name'' then ''active'' else [])),
                      (''key'', fld user ''name'')]
                     [(''onClick'',
                       \<lambda>ev.
                         steps [set_state (\<lambda>s. s\<lparr>Ssh_selectedUser := jstring (fld user ''name'')\<rparr>),
                                Ssh_reload st (jstring (fld user ''name''))])]
                     [El ''span'' [] []
                        [El ''strong'' [] [] (child (fld user ''name'')),
                         El ''small'' [] [] [Txt ''UID '', Txt (js_text (fld user ''uid'')),
                                             Txt t_mid_dot, Txt (js_text (fld user ''home''))]],
                      Badge [(''tone'',
                              JStr (if truthy (fld user ''sudo'') then ''warning'' else ''neutral''))]
                        [Txt (if truthy (fld user ''sudo'') then ''sudo'' else t_normal_user)]])
                (Ssh_users st)),
           El ''div'' [(''className'', JStr ''key-list'')] []
             (if length (Ssh_keys st) \<noteq> 0
                then map
                       (\<lambda>item.
                          El ''div'' [(''className'', JStr ''key-row''), (''key'', fld item ''id'')] []
                            [El ''span'' [(''className'', JStr ''credential-icon'')] []
                               [Icon [(''name'', JStr ''key'')]],
                             El ''div'' [] [] [El ''strong'' [] []
                                                 [Txt (text_or (fld item ''comment'') t_unnamed_key)],
                                               El ''p'' [(''className'', JStr ''mono'')] []
                                                 [Txt (js_text (fld item ''fingerprint''))],
                                               El ''small'' [] []
                                                 [Txt (js_text (fld item ''type'')), Txt t_mid_dot,
                                                  Txt (js_text (fld item ''preview''))]],
                             Button [(''tone'', JStr ''danger''), (''icon'', JStr ''trash''),
                                     (''disabled'', JBool (\<not> Ssh_sshAvailable st))]
                               [(''onClick'', \<lambda>ev. Ssh_deleteKey st item)] [Txt t_delete]])
                       (Ssh_keys st)
              else [EmptyState [(''icon'', JStr ''key''), (''title'', JStr t_user_no_keys)] []])]]"

definition Ssh_deleteUser :: "Ssh_state \<Rightarrow> json \<Rightarrow> Ssh_state io" where
  "Ssh_deleteUser st user =
     bnd
       (confirm_io t_delete_linux_user
          (t_confirm_delete_prefix @ jstring (fld user ''name'') @ t_and_home_suffix) t_delete True)
       (\<lambda>r7.
          if truthy r7
            then Ssh_mutate st ''/api/v1/ssh/users/manage''
                   (JObj [(''action'', JStr ''delete''), (''name'', fld user ''name''),
                          (''remove_home'', JBool True)])
                   t_user_deleted []
          else skip)"

definition Ssh_usersCard :: "Ssh_state \<Rightarrow> Ssh_state vnode" where
  "Ssh_usersCard st =
     Card []
       [SectionTitle [(''title'', JStr t_linux_user_admin), (''subtitle'', JStr t_careful_sudo)] [],
        El ''div'' [(''className'', JStr ''responsive-table'')] []
          ([El ''div'' [(''className'', JStr ''table-head'')] []
              [El ''span'' [] [] [Txt t_user], El ''span'' [] [] [Txt ''UID/GID''],
               El ''span'' [] [] [Txt ''Home / Shell''],
               El ''span'' [] [] [Txt t_permission_word],
               El ''span'' [] [] [Txt t_actions]]] @
           map
             (\<lambda>user.
                El ''div'' [(''className'', JStr ''table-row''), (''key'', fld user ''name'')] []
                  [El ''span'' [(''data-label'', JStr t_user)] []
                     [El ''strong'' [] [] (child (fld user ''name''))],
                   El ''span'' [(''data-label'', JStr ''UID/GID'')] []
                     [Txt (js_text (fld user ''uid'')), Txt ''/'', Txt (js_text (fld user ''gid''))],
                   El ''span'' [(''data-label'', JStr ''Home / Shell'')] []
                     [El ''small'' [(''className'', JStr ''mono'')] []
                        [Txt (js_text (fld user ''home'')), El ''br'' [] [] [],
                         Txt (js_text (fld user ''shell''))]],
                   El ''span'' [(''data-label'', JStr t_permission_word)] []
                     [Badge [(''tone'',
                              JStr (if truthy (fld user ''sudo'') then ''warning'' else ''neutral''))]
                        [Txt (if truthy (fld user ''sudo'') then ''sudo'' else t_normal_word)]],
                   El ''span''
                     [(''data-label'', JStr t_actions), (''className'', JStr ''row-buttons'')] []
                     [Button [(''tone'', JStr ''ghost'')]
                        [(''onClick'',
                          \<lambda>ev.
                            Ssh_mutate st ''/api/v1/ssh/users/manage''
                              (JObj [(''action'', JStr ''sudo''), (''name'', fld user ''name''),
                                     (''sudo'', JBool (\<not> truthy (fld user ''sudo'')))])
                              t_sudo_changed (Ssh_selectedUser st))]
                        [Txt (if truthy (fld user ''sudo'') then t_remove_sudo else t_grant_sudo)],
                      Button [(''tone'', JStr ''danger'')]
                        [(''onClick'', \<lambda>ev. Ssh_deleteUser st user)] [Txt t_delete]]])
             (Ssh_users st))]"

definition Ssh_view :: "route \<Rightarrow> Ssh_state \<Rightarrow> Ssh_state vnode" where
  "Ssh_view route st =
     El ''div'' [(''className'', JStr ''page-stack'')] []
       ([PageHeader route (JBool (Ssh_loading st)) (Some (\<lambda>ev. Ssh_reload st (Ssh_selectedUser st)))
           [Button [(''tone'', JStr ''primary''), (''icon'', JStr ''plus'')]
              [(''onClick'', \<lambda>ev. Ssh_createUser st)] [Txt t_create_user_button]]] @
        (if Ssh_error st \<noteq> []
           then [ErrorState (JStr (Ssh_error st)) (\<lambda>ev. Ssh_reload st (Ssh_selectedUser st))]
         else ((if \<not> Ssh_sshAvailable st
                  then [El ''div'' [(''className'', JStr ''notice danger'')] []
                          [Icon [(''name'', JStr ''warning'')],
                           El ''div'' [] []
                             [El ''strong'' [] [] [Txt t_sshd_unavailable],
                              El ''span'' [] []
                                [Txt (text_or (fld (Ssh_status st) ''error'') t_sshd_unreadable)]]]]
                else []) @
               (if truthy (fld (Ssh_status st) ''pending_new_port'')
                  then [El ''div'' [(''className'', JStr ''notice warning'')] []
                          [Icon [(''name'', JStr ''warning'')],
                           El ''div'' [] [] [El ''strong'' [] [] [Txt t_ssh_port_pending],
                                             El ''span'' [] [] [Txt t_first_connect_port,
                                                                Txt (js_text (fld (Ssh_status st)
                                                                                ''pending_new_port'')),
                                                                Txt t_keep_after_success]],
                           Button [(''tone'', JStr ''primary'')]
                             [(''onClick'',
                               \<lambda>ev.
                                 Ssh_mutate st ''/api/v1/ssh/port/confirm''
                                   (JObj [(''keep_new'', JBool True)]) t_new_port_confirmed
                                   (Ssh_selectedUser st))]
                             [Txt t_keep_new_port],
                           Button [(''tone'', JStr ''danger'')]
                             [(''onClick'',
                               \<lambda>ev.
                                 Ssh_mutate st ''/api/v1/ssh/port/confirm''
                                   (JObj [(''keep_new'', JBool False)]) t_old_port_restored
                                   (Ssh_selectedUser st))]
                             [Txt t_restore_old_port]]]
                else []) @
               [El ''section'' [(''className'', JStr ''metric-grid small'')] []
                  [Metric [(''title'', JStr t_ssh_service),
                           (''value'',
                            JStr (if Ssh_sshAvailable st
                                    then text_or (fld (Ssh_status st) ''service'') t_usable
                                  else t_unavailable)),
                           (''detail'',
                            JStr (if Ssh_sshAvailable st
                                    then t_port_space @
                                         text_or (fld (Ssh_status st) ''port'') t_unknown_word
                                  else text_or (fld (Ssh_status st) ''error'') t_no_usable_sshd)),
                           (''icon'', JStr ''ssh''),
                           (''tone'', JStr (if Ssh_sshAvailable st then ''normal'' else ''danger''))],
                   Metric [(''title'', JStr t_linux_users),
                           (''value'', JStr (nat_str (length (Ssh_users st)))),
                           (''detail'', JStr t_manageable_accounts),
                           (''icon'', JStr ''user'')],
                   Metric [(''title'', JStr t_authorized_keys_count),
                           (''value'', JStr (num_str (Ssh_totalKeys st))),
                           (''detail'', JStr t_all_users_total), (''icon'', JStr ''key'')],
                   Metric
                     [(''title'', JStr t_password_login_2),
                      (''value'',
                       JStr (if Ssh_passwordEnabled st then t_opened_word else t_turned_off)),
                      (''detail'',
                       JStr (if Ssh_passwordEnabled st then t_close_after_key else t_keys_only_safer)),
                      (''icon'', JStr ''security''),
                      (''tone'', JStr (if Ssh_passwordEnabled st then ''warning'' else ''normal''))]],
                El ''div'' [(''className'', JStr ''settings-grid'')] []
                  [Ssh_settingsCard st, Ssh_passwordCard st],
                Ssh_keysCard st, Ssh_usersCard st])))"

subsection \<open>The pages keep the rules\<close>

text \<open>What counts as destructive on the SSH page: switching password login, deleting a key, and deleting an
  account. The tools and the logs have no destructive request.\<close>

definition cuts_access :: "string \<Rightarrow> json \<Rightarrow> bool" where
  "cuts_access url action \<longleftrightarrow> url \<in> set [''/api/v1/ssh/password'', ''/api/v1/ssh/keys/delete''] \<or>
     url = ''/api/v1/ssh/users/manage'' \<and> action = JStr ''delete''"

definition harms_ssh :: "request \<Rightarrow> bool" where
  "harms_ssh r \<longleftrightarrow> changing r \<and> cuts_access (req_url r) (body_fld r ''action'')"

lemma harms_ssh_mk [simp]:
  "harms_ssh (mk_request url i tok) \<longleftrightarrow> sends_change i \<and> cuts_access url (init_fld i ''action'')"
  by (simp add: harms_ssh_def)

lemma cuts_nothing [simp]:
  "\<not> cuts_access ''/api/v1/ssh/keys/add'' a" "\<not> cuts_access ''/api/v1/ssh/keys/generate'' a"
  "\<not> cuts_access ''/api/v1/ssh/settings'' a" "\<not> cuts_access ''/api/v1/ssh/port/confirm'' a"
  "\<not> cuts_access ''/api/v1/tools/run'' a"
  by (simp_all add: cuts_access_def)

abbreviation ssh_safe :: "'s io \<Rightarrow> bool" where
  "ssh_safe \<equiv> safe_loud {} harms_ssh"

lemma Tools_run_safe [simp]: "ssh_safe (Tools_run st ev)"
  by (auto simp: Tools_run_def Let_def io_simps intro!: safe_loudI io_rules)

interpretation tools: loud_page "Tools_view route" "{}" harms_ssh
  by unfold_locales (simp add: Tools_view_def)

lemma Audit_reload_safe [simp]: "ssh_safe (Audit_reload st)" "ssh_safe (Audit_tick hidden st)"
  by (auto simp: Audit_reload_def Audit_tick_def Let_def io_simps cuts_access_def intro!: safe_loudI io_rules)

interpretation audit: loud_page "Audit_view loc route" "{}" harms_ssh
  by unfold_locales (simp add: Audit_view_def case_prod_beta)

lemma Ssh_reload_wp:
  assumes "\<And>s'. Q JUndef g s'"
  shows "wp (w_ok harms_ssh) w_upd (Ssh_reload st user) Q E g s"
proof -
  have all: "wp (w_ok harms_ssh) w_upd (promise_all (map (\<lambda>u. api u empty_init) us)) Q' E' g s"
    if "\<And>v s'. Q' v g s'" "\<And>c s'. E' c g s'" for us Q' E' s
    using that by (intro wp_promise_all) (auto intro!: wp_get_quiet)
  have one: "wp (w_ok harms_ssh) w_upd (api u empty_init) Q' E' g s"
    if "\<And>v s'. Q' v g s'" "\<And>c s'. E' c g s'" for u Q' E' s
    by (rule wp_mono [OF wp_get_quiet]) (auto simp: that)
  show ?thesis
    unfolding Ssh_reload_def io_simps Let_def
    by (auto simp: io_simps assms intro!: all [of _ _ "[_, _]", simplified] one)
qed

lemma Ssh_reload_shows [simp]: "shows_ok R (Ssh_reload st user)"
  by (simp add: Ssh_reload_def Let_def)

lemma Ssh_reload_safe [simp]: "ssh_safe (Ssh_reload st user)"
  by (rule safe_loudI) (auto intro!: Ssh_reload_wp)

text \<open>A change reports its refusal and then throws it on; what follows is not executed.\<close>

lemma Ssh_mutate_wp:
  assumes "cuts_access endpoint (fld b ''action'') \<Longrightarrow> w_confirmed g" and "\<not> w_failed g"
    and "\<And>v h s'. \<not> w_failed h \<Longrightarrow> Q v h s'" and "\<And>c h s'. \<not> w_failed h \<Longrightarrow> E c h s'"
  shows "wp (w_ok harms_ssh) w_upd (Ssh_mutate st endpoint b success user) Q E g s"
  unfolding Ssh_mutate_def io_simps Let_def
  using assms by (auto simp: io_simps intro!: wp_secureApi Ssh_reload_wp split: if_splits)

lemma Ssh_mutate_shows [simp]: "shows_ok R (Ssh_mutate st endpoint b success user)"
  by (simp add: Ssh_mutate_def Let_def)

lemma Ssh_mutate_safe [simp]:
  "(\<And>a. \<not> cuts_access endpoint a) \<Longrightarrow> ssh_safe (Ssh_mutate st endpoint b success user)"
  by (rule safe_loudI) (auto intro!: Ssh_mutate_wp)

lemma Ssh_sudo_safe [simp]:
  "ssh_safe (Ssh_mutate st ''/api/v1/ssh/users/manage'' (JObj ((''action'', JStr ''sudo'') # kvs)) success user)"
  by (rule safe_loudI) (auto simp: cuts_access_def intro!: Ssh_mutate_wp)

lemma Ssh_addSubmit_safe [simp]: "safe_loud {} harms_ssh (Ssh_addSubmit st ev)"
  by (auto simp: Ssh_addSubmit_def Let_def io_simps intro!: safe_loudI io_rules Ssh_mutate_wp)

lemma Ssh_generateSubmit_safe [simp]: "safe_loud {} harms_ssh (Ssh_generateSubmit st ev)"
  by (auto simp: Ssh_generateSubmit_def Let_def io_simps intro!: safe_loudI io_rules Ssh_mutate_wp shows_ok_combinators)

lemma Ssh_createSubmit_safe [simp]: "safe_loud {} harms_ssh (Ssh_createSubmit st ev)"
  by (auto simp: Ssh_createSubmit_def Let_def io_simps cuts_access_def intro!: safe_loudI io_rules Ssh_mutate_wp)

lemma Ssh_switchPassword_safe [simp]: "safe_loud {} harms_ssh (Ssh_switchPassword st)"
  by (auto simp: Ssh_switchPassword_def Let_def io_simps intro!: safe_loudI io_rules Ssh_mutate_wp)

lemma Ssh_deleteKey_safe [simp]: "safe_loud {} harms_ssh (Ssh_deleteKey st item)"
  by (auto simp: Ssh_deleteKey_def Let_def io_simps intro!: safe_loudI io_rules Ssh_mutate_wp)

lemma Ssh_deleteUser_safe [simp]: "safe_loud {} harms_ssh (Ssh_deleteUser st user)"
  by (auto simp: Ssh_deleteUser_def Let_def io_simps intro!: safe_loudI io_rules Ssh_mutate_wp)

lemma Ssh_saveSettings_safe [simp]: "safe_loud {} harms_ssh (Ssh_saveSettings st ev)"
  by (auto simp: Ssh_saveSettings_def Let_def io_simps intro!: safe_loudI io_rules Ssh_mutate_wp)

lemma Ssh_dialogs_safe [simp]: "ssh_safe (Ssh_addKey st)" "ssh_safe (Ssh_generateKey st)" "ssh_safe (Ssh_createUser st)"
  by (simp_all add: Ssh_addKey_def Ssh_generateKey_def Ssh_createUser_def)

lemma Ssh_cards_safe [simp]:
  "vnode_ok (behaves_loud {} harms_ssh) (Ssh_settingsCard st)" "vnode_ok (behaves_loud {} harms_ssh) (Ssh_passwordCard st)"
  "vnode_ok (behaves_loud {} harms_ssh) (Ssh_keysCard st)" "vnode_ok (behaves_loud {} harms_ssh) (Ssh_usersCard st)"
  by (simp_all add: Ssh_settingsCard_def Ssh_passwordCard_def Ssh_keysCard_def Ssh_usersCard_def)

interpretation ssh: loud_page "Ssh_view route" "{}" harms_ssh
  by unfold_locales (simp add: Ssh_view_def)

text \<open>Rules of interaction of the SSH page. Take any handler the page, or a dialog opened from it, offers
  in any state, and any run of it: switching the password login, deleting a key and deleting an account are
  sent only after the user confirmed them, a success message appears only after the server acknowledged a
  change, and no refused change is passed over in silence.\<close>

theorem ssh_rules:
  assumes "offered (Ssh_view route) m" and "run m as s = (tr, out, s')" and "legal tr"
  shows "guarded_trace harms_ssh tr \<and> honest_trace tr \<and> (out \<noteq> Suspended \<longrightarrow> \<not> silent_failure tr)"
  using ssh.rules_kept_loud [OF assms] by blast

definition sample_ssh :: Ssh_state where
  "sample_ssh = Ssh_init\<lparr>Ssh_keys := [JObj [(''id'', JStr ''k1'')]], Ssh_selectedUser := ''root''\<rparr>"

theorem ssh_rules_witness:
  "let r = run_alone (Ssh_deleteKey sample_ssh (JObj [(''id'', JStr ''k1'')])) yes_but_down sample_ssh
   in length (requests (dids (events r))) = 1 \<and> guarded_trace harms_ssh (events r) \<and> \<not> silent_failure (events r)"
proof -
  let ?m = "Ssh_deleteKey sample_ssh (JObj [(''id'', JStr ''k1'')])"
  let ?r = "run_alone ?m yes_but_down sample_ssh"
  have "offered (Ssh_view sample_route) ?m"
    by (rule offered_handler [of "''onClick''" "\<lambda>ev. ?m" _ sample_ssh])
       (auto simp: Ssh_view_def Ssh_keysCard_def sample_ssh_def Ssh_init_def)
  moreover have "legal (events ?r) \<and> length (requests (dids (events ?r))) = 1 \<and> fst (snd ?r) \<noteq> Suspended"
    by (simp add: Ssh_deleteKey_def Ssh_mutate_def yes_but_down_def run_ops)
  ultimately show ?thesis
    using ssh_rules [OF _ run_alone_split] by (simp add: Let_def)
qed

end
