(* ===== verification/Github_Page.thy ===== *)
theory Github_Page imports Page_Base begin

text \<open>
  The GitHub page, \<open>web/assets/app.js\<close>, lines 2203 to 2621, with the panel of release attachments. An upload runs
  under a numbered controller, as in the file manager; the device login polls through timers.
\<close>

subsection \<open>The attachments of a release\<close>

record Assets_state =
  Assets_owner :: string
  Assets_repo :: string
  Assets_tag :: string
  Assets_assets :: "json list"
  Assets_loading :: bool
  Assets_transfer :: "transfer option"
  Assets_controllerRef :: "nat option"
  Assets_controllers :: nat

definition Assets_abort :: "Assets_state io" where
  "Assets_abort = Get (\<lambda>s. case Assets_controllerRef s of None \<Rightarrow> skip
     | Some k \<Rightarrow> perform (Dom ''controllerRef.abort'' [JNum (of_nat k)]))"

definition Assets_load :: "Assets_state \<Rightarrow> Assets_state io" where
  "Assets_load st =
     steps
       [set_state (\<lambda>s. s\<lparr>Assets_loading := True\<rparr>),
        try_finally (try_catch (bnd (api (''/api/v1/github/release/assets'' @
                                          query [(''owner'', JStr (Assets_owner st)),
                                                 (''repo'', JStr (Assets_repo st)),
                                                 (''tag'', JStr (Assets_tag st))])
                                       empty_init)
                                  (\<lambda>r1. set_state (\<lambda>s. s\<lparr>Assets_assets := listOf r1 [''assets'']\<rparr>)))
                       (\<lambda>cause. notify Failure t_assets_read_failed (JStr (errorDetail cause))))
          (set_state (\<lambda>s. s\<lparr>Assets_loading := False\<rparr>))]"

definition Assets_effect :: "Assets_state \<Rightarrow> Assets_state io" where
  "Assets_effect st = Assets_load st"

definition Assets_upload :: "Assets_state \<Rightarrow> json \<Rightarrow> Assets_state io" where
  "Assets_upload st event =
     (case array_of (fld event ''files'') of [] \<Rightarrow> skip
      | file # more_files \<Rightarrow> Get (\<lambda>s0. let controller = Assets_controllers s0;
            form = JObj [(''owner'', JStr (Assets_owner st)), (''repo'', JStr (Assets_repo st)),
                         (''tag'', JStr (Assets_tag st)), (''file'', file)]
          in steps
               [Assets_abort,
                set_state (\<lambda>s. s\<lparr>Assets_controllerRef := Some controller, Assets_controllers := controller + 1\<rparr>),
                try_finally
                  (try_catch
                     (steps [uploadApi ''/api/v1/github/release/assets/upload'' form
                               (t_upload_space @ jstring (fld file ''name'')),
                             notify Success (jstring (fld file ''name'') @ t_uploaded_suffix) JUndef,
                             Assets_load st])
                     (\<lambda>cause.
                        if (case cause of Dom_exception name m \<Rightarrow> name = ''AbortError'' | _ \<Rightarrow> False)
                          then notify Info t_asset_upload_cancelled JUndef
                        else notify Failure t_asset_upload_failed (JStr (errorDetail cause))))
                  (steps
                     [perform (Dom ''input.value'' [JStr []]),
                      set_state (\<lambda>s. s\<lparr>Assets_transfer := None\<rparr>),
                      set_state (\<lambda>s. if Assets_controllerRef s = Some controller
                        then s\<lparr>Assets_controllerRef := None\<rparr> else s)])]))"

definition Assets_view :: "locale_date \<Rightarrow> route \<Rightarrow> Assets_state \<Rightarrow> Assets_state vnode" where
  "Assets_view loc route st =
     El ''div'' [(''className'', JStr ''form-stack'')] []
       ([Button [(''tone'', JStr ''primary''), (''icon'', JStr ''upload''),
                 (''disabled'', JBool (Assets_transfer st \<noteq> None))]
           [(''onClick'', \<lambda>ev. perform (Dom ''inputRef.click'' []))] [Txt t_choose_asset],
         El ''input'' [(''className'', JStr ''visually-hidden''), (''type'', JStr ''file'')]
           [(''onChange'', \<lambda>ev. Assets_upload st ev)] []] @
        (if Assets_transfer st \<noteq> None
           then [TransferProgress (the (Assets_transfer st)) (Some (\<lambda>ev. Assets_abort))]
         else []) @
        (if Assets_loading st then [LoadingState 3]
         else if length (Assets_assets st) \<noteq> 0
           then [El ''div'' [(''className'', JStr ''card-list compact-list'')] []
                   (map (\<lambda>asset.
                           El ''div''
                             [(''className'', JStr ''history-row''), (''key'', fld asset ''id'')] []
                             ([El ''div'' [] []
                                 [El ''strong'' [] [] (child (fld asset ''name'')),
                                  El ''small'' [] []
                                    [Txt (formatBytes (fld asset ''size'')), Txt t_asset_downloads,
                                     Txt (num_str (number (fld asset ''download_count''))),
                                     Txt t_asset_times,
                                     Txt (formatDate loc (fld asset ''created_at''))]]] @
                              (if truthy (fld asset ''browser_download_url'')
                                 then [El ''a'' [(''className'', JStr ''button button-default''),
                                                 (''href'', fld asset ''browser_download_url''),
                                                 (''target'', JStr ''_blank''),
                                                 (''rel'', JStr ''noopener'')]
                                         [] [Txt t_download]]
                               else [])))
                      (Assets_assets st))]
         else [EmptyState [(''icon'', JStr ''package''), (''title'', JStr t_no_assets)] []]))"

definition Assets_init :: "string \<Rightarrow> string \<Rightarrow> string \<Rightarrow> Assets_state" where
  "Assets_init owner repo tag =
     \<lparr>Assets_owner = owner, Assets_repo = repo, Assets_tag = tag, Assets_assets = [], Assets_loading = True,
      Assets_transfer = None, Assets_controllerRef = None, Assets_controllers = 0\<rparr>"

text \<open>Leaving the panel aborts its upload.\<close>

definition Assets_leave :: "Assets_state io" where
  "Assets_leave = Assets_abort"

subsection \<open>Repositories\<close>

record Github_state =
  Github_version :: string
  Github_auth :: json
  Github_flow :: json
  Github_summary :: json
  Github_repositories :: "json list"
  Github_owner :: string
  Github_repo :: string
  Github_loading :: bool
  Github_working :: bool
  Github_error :: string
  Github_transfer :: "transfer option"
  Github_transferController :: "nat option"
  Github_pollRef :: nat
  Github_importPlan :: json
  Github_importBranch :: string
  Github_importMessage :: string
  Github_controllers :: nat
  Github_timers :: "(nat \<times> json \<times> rat) list"
  Github_nextTimer :: nat

definition Github_abort :: "Github_state io" where
  "Github_abort = Get (\<lambda>s. case Github_transferController s of None \<Rightarrow> skip
     | Some k \<Rightarrow> perform (Dom ''transferController.abort'' [JNum (of_nat k)]))"

text \<open>The timers of the device login. \<open>setTimeout\<close> returns a new handle, which \<open>pollRef\<close> keeps;
  \<open>clearTimeout\<close> removes the timer \<open>pollRef\<close> names, and no other.\<close>

definition Github_setTimeout :: "json \<Rightarrow> rat \<Rightarrow> Github_state io" where
  "Github_setTimeout flow delay = set_state (\<lambda>s. s\<lparr>Github_pollRef := Github_nextTimer s,
     Github_timers := Github_timers s @ [(Github_nextTimer s, flow, delay)], Github_nextTimer := Github_nextTimer s + 1\<rparr>)"

definition Github_clearTimeout :: "Github_state io" where
  "Github_clearTimeout = set_state (\<lambda>s.
     s\<lparr>Github_timers := filter (\<lambda>(n, flow, delay). n \<noteq> Github_pollRef s) (Github_timers s)\<rparr>)"

definition Github_loadAuth :: "Github_state \<Rightarrow> Github_state io" where
  "Github_loadAuth st =
     bnd (api ''/api/v1/github/auth/status'' empty_init)
       (\<lambda>r1.
          let nxt = asObject r1
          in steps [set_state (\<lambda>s. s\<lparr>Github_auth := nxt\<rparr>),
                    if truthy (fld nxt ''connected'')
                      then try_catch (bnd (api ''/api/v1/github/repositories'' empty_init)
                                        (\<lambda>r2.
                                           let items = listOf r2 [''repositories'']
                                           in steps [set_state (\<lambda>s. s\<lparr>Github_repositories := items\<rparr>),
                                                     if js_trim (Github_owner st) = [] \<and>
                                                        truthy (fld nxt ''login'')
                                                       then set_state (\<lambda>s.
                                                                         s\<lparr>Github_owner := text_or
                                                                             (fld nxt ''login'') []\<rparr>)
                                                     else skip]))
                             (\<lambda>c. set_state (\<lambda>s. s\<lparr>Github_repositories := []\<rparr>))
                    else set_state (\<lambda>s. s\<lparr>Github_repositories := []\<rparr>),
                    Ret nxt])"

definition Github_loadRepo :: "Github_state \<Rightarrow> Github_state io" where
  "Github_loadRepo st =
     (if js_trim (Github_owner st) = [] \<or> js_trim (Github_repo st) = [] then skip
      else steps
             [set_state (\<lambda>s. s\<lparr>Github_working := True\<rparr>),
              try_finally
                (try_catch (bnd (api (''/api/v1/github/summary'' @
                                      query [(''owner'', JStr (js_trim (Github_owner st))),
                                             (''repo'', JStr (js_trim (Github_repo st)))])
                                   empty_init)
                              (\<lambda>r3.
                                 let nxt = asObject r3
                                 in steps [set_state (\<lambda>s. s\<lparr>Github_summary := nxt\<rparr>),
                                           perform (Dom ''localStorage.setItem''
                                                      [JStr ''lukepanel:github-owner'',
                                                       JStr (js_trim (Github_owner st))]),
                                           perform (Dom ''localStorage.setItem''
                                                      [JStr ''lukepanel:github-repo'',
                                                       JStr (js_trim (Github_repo st))]),
                                           set_state (\<lambda>s.
                                                        s\<lparr>Github_importBranch := text_or
                                                            (fld nxt ''default_branch'') ''main''\<rparr>)]))
                   (\<lambda>cause. notify Failure t_repo_read_failed (JStr (errorDetail cause))))
                (set_state (\<lambda>s. s\<lparr>Github_working := False\<rparr>))])"

definition Github_chooseRepository :: "Github_state \<Rightarrow> string \<Rightarrow> Github_state io" where
  "Github_chooseRepository st fullName =
     (if fullName = []
        then steps [set_state (\<lambda>s. s\<lparr>Github_owner := []\<rparr>), set_state (\<lambda>s. s\<lparr>Github_repo := []\<rparr>),
                    set_state (\<lambda>s. s\<lparr>Github_summary := JNull\<rparr>)]
      else let nextOwner = hd (split_at (CHR ''/'') fullName);
               parts = tl (split_at (CHR ''/'') fullName)
           in let nextRepo = join_with ''/'' parts
              in steps
                   [set_state (\<lambda>s. s\<lparr>Github_owner := nextOwner\<rparr>),
                    set_state (\<lambda>s. s\<lparr>Github_repo := nextRepo\<rparr>),
                    set_state (\<lambda>s. s\<lparr>Github_working := True\<rparr>),
                    try_finally
                      (try_catch
                         (bnd (api (''/api/v1/github/summary'' @
                                    query [(''owner'', JStr nextOwner), (''repo'', JStr nextRepo)])
                                 empty_init)
                            (\<lambda>r4.
                               let nxt = asObject r4
                               in steps
                                    [set_state (\<lambda>s. s\<lparr>Github_summary := nxt\<rparr>),
                                     set_state (\<lambda>s.
                                                  s\<lparr>Github_importBranch := text_or
                                                      (fld nxt ''default_branch'') ''main''\<rparr>),
                                     perform (Dom ''localStorage.setItem''
                                                [JStr ''lukepanel:github-owner'', JStr nextOwner]),
                                     perform (Dom ''localStorage.setItem''
                                                [JStr ''lukepanel:github-repo'', JStr nextRepo])]))
                         (\<lambda>cause. notify Failure t_repo_read_failed (JStr (errorDetail cause))))
                      (set_state (\<lambda>s. s\<lparr>Github_working := False\<rparr>))])"

definition Github_reload :: "Github_state \<Rightarrow> Github_state io" where
  "Github_reload st =
     steps
       [set_state (\<lambda>s. s\<lparr>Github_loading := True\<rparr>),
        set_state (\<lambda>s. s\<lparr>Github_error := []\<rparr>),
        try_finally
          (try_catch
             (steps
                [Github_loadAuth st,
                 if js_trim (Github_owner st) \<noteq> [] \<and> js_trim (Github_repo st) \<noteq> []
                   then bnd (api (''/api/v1/github/summary'' @
                                  query [(''owner'', JStr (js_trim (Github_owner st))),
                                         (''repo'', JStr (js_trim (Github_repo st)))])
                               empty_init)
                          (\<lambda>r5. let nxt = asObject r5 in set_state (\<lambda>s. s\<lparr>Github_summary := nxt\<rparr>))
                 else skip])
             (\<lambda>cause. set_state (\<lambda>s. s\<lparr>Github_error := errorDetail cause\<rparr>)))
          (set_state (\<lambda>s. s\<lparr>Github_loading := False\<rparr>))]"

definition Github_effect :: "Github_state \<Rightarrow> Github_state io" where
  "Github_effect st = Github_reload st"

definition Github_connectSubmit :: "Github_state \<Rightarrow> json \<Rightarrow> Github_state io" where
  "Github_connectSubmit st ev =
     steps
       [perform Prevent_default,
        let token = js_trim (jstring (jor (form_get (fld ev ''form'') ''token'') (JStr [])))
        in steps [set_state (\<lambda>s. s\<lparr>Github_working := True\<rparr>),
                  try_finally
                    (try_catch (bnd (api ''/api/v1/github/auth/token''
                                       (with_body ''POST'' (jsonBody (JObj [(''token'', JStr token)]))))
                                  (\<lambda>r6.
                                     let nxt = asObject r6
                                     in steps [Github_loadAuth st, perform Close_modal,
                                               notify Success (t_github_connected_at @
                                                               js_text (fld nxt ''login''))
                                                 JUndef]))
                       (\<lambda>cause. notify Failure t_github_connect_failed (JStr (errorDetail cause))))
                    (set_state (\<lambda>s. s\<lparr>Github_working := False\<rparr>))]]"

definition Github_connectToken :: "Github_state \<Rightarrow> Github_state io" where
  "Github_connectToken st =
     open_modal t_connect_token []
       [El ''form'' [(''className'', JStr ''form-stack'')]
          [(''onSubmit'', \<lambda>ev. Github_connectSubmit st ev)]
          [Field [(''label'', JStr ''Fine-grained Personal Access Token''),
                  (''hint'', JStr t_token_in_memory)]
             [TextInput [(''name'', JStr ''token''), (''type'', JStr ''password''),
                         (''required'', JBool True), (''autoFocus'', JBool True)]
                []],
           El ''div'' [(''className'', JStr ''form-actions'')] []
             [Button [] [(''onClick'', \<lambda>ev. perform Close_modal)] [Txt t_cancel],
              Button [(''type'', JStr ''submit''), (''tone'', JStr ''primary''),
                      (''busy'', JBool (Github_working st))]
                [] [Txt t_verify_connect]]]]"

definition Github_pollDevice :: "Github_state \<Rightarrow> json \<Rightarrow> Github_state io" where
  "Github_pollDevice st current =
     try_catch
       (bnd (api ''/api/v1/github/auth/device/poll''
               (with_body ''POST'' (jsonBody (JObj [(''flow_id'', fld current ''flow_id'')]))))
          (\<lambda>r7.
             let out = asObject r7
             in if fld out ''status'' = JStr ''authorized''
                  then steps [set_state (\<lambda>s. s\<lparr>Github_flow := JNull\<rparr>), Github_loadAuth st,
                              notify Success t_device_login_done JUndef]
                else if fld out ''status'' = JStr ''expired'' \<or> fld out ''status'' = JStr ''denied''
                  then Throw (Js_error (text_or (fld out ''message'') t_device_login_expired))
                else Github_setTimeout current
                       (max 2
                          (number_or (jor (fld out ''retry_after'') (fld current ''interval'')) 5) *
                          1000)))
       (\<lambda>cause.
          steps [set_state (\<lambda>s. s\<lparr>Github_flow := JNull\<rparr>),
                 notify Failure t_device_login_failed (JStr (errorDetail cause))])"

definition Github_startDevice :: "Github_state \<Rightarrow> Github_state io" where
  "Github_startDevice st =
     bnd
       (perform (Prop_call ''window.open'' [JStr ''about:blank'', JStr ''lukepanel-github-device'']))
       (\<lambda>popup.
          steps
            [set_state (\<lambda>s. s\<lparr>Github_working := True\<rparr>),
             try_finally
               (try_catch
                  (bnd
                     (api ''/api/v1/github/auth/device/start'' (with_body ''POST'' (Text_body ''{}'')))
                     (\<lambda>r8.
                        let nxt = asObject r8
                        in steps [set_state (\<lambda>s. s\<lparr>Github_flow := nxt\<rparr>),
                                  let target = text_or (fld nxt ''verification_uri'')
                                                 ''https://github.com/login/device''
                                  in steps [if truthy popup
                                              then steps [perform (Dom ''popup.opener'' [JNull]),
                                                          perform (Dom ''popup.location.replace''
                                                                     [JStr target])]
                                            else notify Info t_popup_blocked JUndef,
                                            Github_setTimeout nxt
                                              (max 2 (number_or (fld nxt ''interval'') 5) * 1000)]]))
                  (\<lambda>cause.
                     steps [if truthy popup then perform (Dom ''popup.close'' []) else skip,
                            notify Failure t_device_start_failed (JStr (errorDetail cause))]))
               (set_state (\<lambda>s. s\<lparr>Github_working := False\<rparr>))])"

definition Github_disconnect :: "Github_state \<Rightarrow> Github_state io" where
  "Github_disconnect st =
     bnd (confirm_io t_disconnect_github t_disconnect_detail t_disconnect True)
       (\<lambda>r9.
          if \<not> truthy r9 then skip
          else try_catch
                 (steps
                    [api ''/api/v1/github/auth/disconnect'' (with_body ''POST'' (Text_body ''{}'')),
                     set_state (\<lambda>s. s\<lparr>Github_auth := JObj [(''connected'', JBool False)]\<rparr>),
                     set_state (\<lambda>s. s\<lparr>Github_repositories := []\<rparr>),
                     set_state (\<lambda>s. s\<lparr>Github_summary := JNull\<rparr>),
                     notify Success t_github_disconnected JUndef])
                 (\<lambda>cause. notify Failure t_disconnect_failed (JStr (errorDetail cause))))"

definition Github_repoMutation :: "Github_state \<Rightarrow> string \<Rightarrow> json \<Rightarrow> string \<Rightarrow> Github_state io" where
  "Github_repoMutation st endpoint body0 success =
     steps
       [set_state (\<lambda>s. s\<lparr>Github_working := True\<rparr>),
        try_finally
          (try_catch
             (bnd (secureApi endpoint
                     (with_body ''POST''
                        (jsonBody
                           (spread
                              (JObj [(''owner'',
                                      jor (fld (Github_summary st) ''owner'') (JStr (Github_owner st))),
                                     (''repo'',
                                      jor (fld (Github_summary st) ''name'') (JStr (Github_repo st)))])
                              (entries_of body0)))))
                (\<lambda>r10.
                   let out = asObject r10
                   in steps [notify Success success (jor (fld out ''message'') (fld out ''output'')),
                             Github_loadRepo st, Ret out]))
             (\<lambda>cause.
                steps [notify Failure t_github_op_failed (JStr (errorDetail cause)), Throw cause]))
          (set_state (\<lambda>s. s\<lparr>Github_working := False\<rparr>))]"

definition Github_simpleForm :: "Github_state \<Rightarrow> string \<Rightarrow> json list \<Rightarrow> (json \<Rightarrow> Github_state io) \<Rightarrow> string \<Rightarrow> Github_state io" where
  "Github_simpleForm st title fields0 submit submitLabel =
     open_modal title []
       [El ''form'' [(''className'', JStr ''form-stack'')]
          [(''onSubmit'', \<lambda>ev. steps [perform Prevent_default, submit (fld ev ''form'')])]
          (map (\<lambda>(index, field) .
                  Field [(''label'', fld field ''label''), (''hint'', fld field ''hint''),
                         (''key'', JNum (of_nat index))]
                    (if fld field ''kind'' = JStr ''textarea''
                       then [TextArea [(''name'', fld field ''name''),
                                       (''rows'', jor (fld field ''rows'') (JNum 5)),
                                       (''defaultValue'', jor (fld field ''value'') (JStr [])),
                                       (''required'', fld field ''required'')]
                               []]
                     else if fld field ''kind'' = JStr ''select''
                       then [SelectInput [(''name'', fld field ''name''),
                                          (''defaultValue'', fld field ''value'')]
                               [] (map (\<lambda>option. El ''option'' [(''key'', option)] [] (child option))
                                     (array_of (fld field ''options'')))]
                     else [TextInput [(''name'', fld field ''name''),
                                      (''defaultValue'', jor (fld field ''value'') (JStr [])),
                                      (''required'', fld field ''required'')]
                             []]))
             (enumerate 0 fields0) @
           [El ''div'' [(''className'', JStr ''form-actions'')] []
              [Button [] [(''onClick'', \<lambda>ev. perform Close_modal)] [Txt t_cancel],
               Button [(''type'', JStr ''submit''), (''tone'', JStr ''primary''),
                       (''busy'', JBool (Github_working st))]
                 [] [Txt submitLabel]]])]"

definition Github_jobLogs :: "Github_state \<Rightarrow> json \<Rightarrow> Github_state io" where
  "Github_jobLogs st job =
     try_catch (bnd (api (''/api/v1/github/actions/job-logs'' @
                          query [(''owner'', fld (Github_summary st) ''owner''),
                                 (''repo'', fld (Github_summary st) ''name''),
                                 (''job_id'', fld job ''id'')])
                       empty_init)
                  (\<lambda>r12.
                     let out = asObject r12
                     in open_modal (jstring (fld job ''name'') @ t_logs_suffix) ''large''
                          [El ''div'' [(''className'', JStr ''form-stack'')] []
                             [Terminal [(''maxHeight'', JNum 650)] (child (fld out ''logs'')),
                              Button [(''icon'', JStr ''copy'')]
                                [(''onClick'',
                                  \<lambda>ev.
                                    steps [copyText (JStr (text_or (fld out ''logs'') [])),
                                           notify Success t_log_copied JUndef])]
                                [Txt t_copy_log]]]))
       (\<lambda>cause. notify Failure t_job_log_failed (JStr (errorDetail cause)))"

definition Github_openRun :: "locale_date \<Rightarrow> Github_state \<Rightarrow> json \<Rightarrow> Github_state io" where
  "Github_openRun loc st run0 =
     try_catch
       (bnd (api (''/api/v1/github/actions/jobs'' @
                  query [(''owner'', fld (Github_summary st) ''owner''),
                         (''repo'', fld (Github_summary st) ''name''),
                         (''run_id'', fld run0 ''id'')])
               empty_init)
          (\<lambda>r11.
             let jobs = listOf r11 [''jobs'']
             in open_modal (jstring (fld run0 ''name'') @ t_jobs_suffix) ''large''
                  (if length jobs \<noteq> 0
                     then [El ''div'' [(''className'', JStr ''card-list compact-list'')] []
                             (map (\<lambda>job.
                                     El ''div'' [(''className'', JStr ''history-row''),
                                                 (''key'', fld job ''id'')]
                                       [] [El ''div'' [] []
                                             [El ''strong'' [] [] (child (fld job ''name'')),
                                              El ''small'' [] []
                                                [Txt (js_text (jor (fld job ''conclusion'')
                                                                 (fld job ''status''))),
                                                 Txt t_mid_dot,
                                                 Txt (formatDate loc (fld job ''started_at''))]],
                                           Button [] [(''onClick'', \<lambda>ev. Github_jobLogs st job)]
                                             [Txt t_view_log]])
                                jobs)]
                   else [EmptyState [(''icon'', JStr ''audit''), (''title'', JStr t_no_jobs)] []])))
       (\<lambda>cause. notify Failure t_action_details_failed (JStr (errorDetail cause)))"

definition Github_previewImport :: "Github_state \<Rightarrow> json \<Rightarrow> Github_state io" where
  "Github_previewImport st event =
     (case array_of (fld event ''files'') of [] \<Rightarrow> skip
      | file # more_files \<Rightarrow>
          if \<not> truthy (Github_summary st) then skip
          else if number (fld file ''size'') > 64 * 1024 * 1024
            then steps [notify Warning t_zip_too_large JUndef, perform (Dom ''input.value'' [JStr []])]
          else Get (\<lambda>s0. let controller = Github_controllers s0;
            form = JObj [(''owner'', fld (Github_summary st) ''owner''), (''repo'', fld (Github_summary st) ''name''),
                         (''branch'', JStr (Github_importBranch st)), (''file'', file)]
          in steps
               [Github_abort,
                set_state (\<lambda>s. s\<lparr>Github_transferController := Some controller, Github_controllers := controller + 1\<rparr>),
                set_state (\<lambda>s. s\<lparr>Github_working := True\<rparr>),
                try_finally
                  (try_catch
                     (bnd (uploadApi ''/api/v1/github/import/preview'' form
                             (t_upload_space @ jstring (fld file ''name'')))
                        (\<lambda>plan. steps [set_state (\<lambda>s. s\<lparr>Github_importPlan := plan\<rparr>),
                                  notify Success t_zip_diff_done JUndef]))
                     (\<lambda>cause.
                        if (case cause of Dom_exception name m \<Rightarrow> name = ''AbortError'' | _ \<Rightarrow> False)
                          then notify Info t_zip_upload_cancelled JUndef
                        else notify Failure t_zip_preview_failed (JStr (errorDetail cause))))
                  (steps
                     [set_state (\<lambda>s. s\<lparr>Github_working := False\<rparr>),
                      set_state (\<lambda>s. s\<lparr>Github_transfer := None\<rparr>),
                      perform (Dom ''input.value'' [JStr []]),
                      set_state (\<lambda>s. if Github_transferController s = Some controller
                        then s\<lparr>Github_transferController := None\<rparr> else s)])]))"

definition Github_commitImport :: "Github_state \<Rightarrow> Github_state io" where
  "Github_commitImport st =
     (if \<not> truthy (Github_importPlan st) then skip
      else bnd (confirm_io t_commit_and_push
                  (t_zip_added @ num_str (number (fld (Github_importPlan st) ''added'')) @
                   t_zip_modified @ num_str (number (fld (Github_importPlan st) ''modified'')) @
                   t_zip_deleted @ num_str (number (fld (Github_importPlan st) ''deleted'')))
                  t_commit_push False)
             (\<lambda>r13.
                if \<not> truthy r13 then skip
                else steps
                       [set_state (\<lambda>s. s\<lparr>Github_working := True\<rparr>),
                        set_state
                          (\<lambda>s.
                             s\<lparr>Github_transfer := Some
                                 \<lparr>tr_name = t_pushing_to @
                                            num_str
                                              (number (fld (Github_importPlan st) ''added'') +
                                                 number (fld (Github_importPlan st) ''modified'')) @
                                            t_files_suffix,
                                  tr_phase = ''processing'',
                                  tr_loaded = number (fld (Github_importPlan st) ''bytes''),
                                  tr_total = number (fld (Github_importPlan st) ''bytes''),
                                  tr_percent = 100, tr_rate = 0, tr_eta = 0\<rparr>\<rparr>),
                        try_finally
                          (try_catch
                             (bnd (secureApi ''/api/v1/github/import/commit''
                                     (with_body ''POST''
                                        (jsonBody
                                           (JObj [(''plan_id'', fld (Github_importPlan st) ''id''),
                                                  (''message'', JStr (Github_importMessage st))]))))
                                (\<lambda>r14.
                                   let out = asObject r14
                                   in steps [set_state (\<lambda>s. s\<lparr>Github_importPlan := JNull\<rparr>),
                                             notify Success t_files_pushed JUndef,
                                             if truthy (fld out ''html_url'')
                                               then perform (Dom ''open''
                                                               [fld out ''html_url'',
                                                                JStr ''_blank'', JStr ''noopener''])
                                             else skip,
                                             Github_loadRepo st]))
                             (\<lambda>cause. notify Failure t_push_failed (JStr (errorDetail cause))))
                          (steps [set_state (\<lambda>s. s\<lparr>Github_transfer := None\<rparr>),
                                  set_state (\<lambda>s. s\<lparr>Github_working := False\<rparr>)])]))"

definition Github_openAssets :: "Github_state \<Rightarrow> Github_state io" where
  "Github_openAssets st =
     (if \<not> truthy (fld (Github_summary st) ''latest_release'') then skip
      else let tag = fld (fld (Github_summary st) ''latest_release'') ''tag_name''
           in open_modal (t_release_assets_of @ jstring tag) ''large''
                [El ''ReleaseAssetsPanel'' [(''owner'', fld (Github_summary st) ''owner''),
                                            (''repo'', fld (Github_summary st) ''name''),
                                            (''tag'', tag)]
                   [] []])"

definition Github_branches :: "Github_state \<Rightarrow> json list" where
  "Github_branches st =
     map (\<lambda>item. fld item ''name'') (listOf (Github_summary st) [''branches''])"

definition Github_runs :: "Github_state \<Rightarrow> json list" where
  "Github_runs st =
     listOf (Github_summary st) [''workflow_runs'']"

definition Github_pulls :: "Github_state \<Rightarrow> json list" where
  "Github_pulls st =
     listOf (Github_summary st) [''pull_requests'']"

definition Github_cancelDevice :: "Github_state \<Rightarrow> Github_state io" where
  "Github_cancelDevice st =
     steps [Github_clearTimeout,
            try_finally (api ''/api/v1/github/auth/device/cancel''
                           (with_body ''POST''
                              (jsonBody (JObj [(''flow_id'', fld (Github_flow st) ''flow_id'')]))))
              (set_state (\<lambda>s. s\<lparr>Github_flow := JNull\<rparr>))]"

definition Github_deviceCard :: "Github_state \<Rightarrow> Github_state vnode" where
  "Github_deviceCard st =
     Card [(''className'', JStr ''github-device-flow'')]
       [El ''div'' [(''className'', JStr ''github-identity'')] []
          [El ''span'' [(''className'', JStr ''github-mark'')] [] [Icon [(''name'', JStr ''github'')]],
           El ''div'' [] [] [El ''h2'' [] [] [Txt t_waiting_github],
                             El ''code'' [] [] [Txt (js_text (fld (Github_flow st) ''user_code''))]]],
        El ''div'' [(''className'', JStr ''row-buttons'')] []
          [Button [(''icon'', JStr ''copy'')]
             [(''onClick'',
               \<lambda>ev.
                 steps [copyText (fld (Github_flow st) ''user_code''),
                        notify Success t_device_code_copied JUndef])]
             [Txt t_copy_code],
           Button [(''tone'', JStr ''danger'')] [(''onClick'', \<lambda>ev. Github_cancelDevice st)]
             [Txt t_cancel]]]"

definition Github_authCard :: "Github_state \<Rightarrow> Github_state vnode" where
  "Github_authCard st =
     Card [(''className'', JStr ''github-auth-card'')]
       [El ''div'' [(''className'', JStr ''github-identity'')] []
          [El ''span'' [(''className'', JStr ''github-mark'')] [] [Icon [(''name'', JStr ''github'')]],
           El ''div'' [] []
             ([El ''h2'' [] [] [Txt (if truthy (fld (Github_auth st) ''connected'')
                                       then ''@'' @ js_text (fld (Github_auth st) ''login'')
                                     else t_connect_github)]] @
              (if truthy (fld (Github_auth st) ''connected'')
                 then [El ''p'' [] [] [Txt (js_text (jor (fld (Github_auth st) ''name'')
                                                       (fld (Github_auth st) ''scope'')))]]
               else []))],
        El ''div'' [(''className'', JStr ''row-buttons'')] []
          (if truthy (fld (Github_auth st) ''connected'')
             then [Button [(''tone'', JStr ''danger'')] [(''onClick'', \<lambda>ev. Github_disconnect st)]
                     [Txt t_disconnect]]
           else ([Button [] [(''onClick'', \<lambda>ev. Github_connectToken st)] [Txt t_token_login]] @
                 (if fld (Github_auth st) ''device_login_available'' \<noteq> JBool False
                    then [Button
                            [(''tone'', JStr ''primary''), (''busy'', JBool (Github_working st))]
                            [(''onClick'', \<lambda>ev. Github_startDevice st)] [Txt t_device_login]]
                  else [])))]"

definition Github_repoCard :: "Github_state \<Rightarrow> Github_state vnode" where
  "Github_repoCard st =
     Card [(''className'', JStr ''github-repo-card'')]
       ([SectionTitle [(''title'', JStr t_choose_repo),
                       (''subtitle'',
                        (if length (Github_repositories st) \<noteq> 0
                           then JStr (t_repos_read_prefix @
                                      nat_str (length (Github_repositories st)) @ t_repos_suffix)
                         else JUndef))]
           []] @
        (if length (Github_repositories st) \<noteq> 0
           then [Field [(''label'', JStr t_quick_choice)]
                   [SelectInput [(''value'',
                                  JStr (if Github_owner st \<noteq> [] \<and> Github_repo st \<noteq> []
                                          then Github_owner st @ ''/'' @ Github_repo st
                                        else []))]
                      [(''onChange'', \<lambda>ev. Github_chooseRepository st (jstring (fld ev ''value'')))]
                      ([El ''option'' [(''value'', JStr [])] [] [Txt t_manual_repo]] @
                       map
                         (\<lambda>item.
                            El ''option'' [(''key'', jor (fld item ''id'') (fld item ''full_name'')),
                                           (''value'', fld item ''full_name'')]
                              [] (child (fld item ''full_name'') @
                                  [Txt (if truthy (fld item ''private'') then t_repo_private else []),
                                   Txt (if truthy (fld (fld item ''permissions'') ''push'') then []
                                        else t_repo_readonly)]))
                         (Github_repositories st))]]
         else []) @
        [El ''form'' [(''className'', JStr ''repo-picker'')]
           [(''onSubmit'', \<lambda>ev. steps [perform Prevent_default, Github_loadRepo st])]
           [Field [(''label'', JStr t_owner_word)]
              [TextInput [(''value'', JStr (Github_owner st)), (''required'', JBool True)]
                 [(''onChange'', \<lambda>ev. set_state (\<lambda>s. s\<lparr>Github_owner := jstring (fld ev ''value'')\<rparr>))]],
            Field [(''label'', JStr t_repository)]
              [TextInput [(''value'', JStr (Github_repo st)), (''required'', JBool True)]
                 [(''onChange'', \<lambda>ev. set_state (\<lambda>s. s\<lparr>Github_repo := jstring (fld ev ''value'')\<rparr>))]],
            Button [(''type'', JStr ''submit''), (''tone'', JStr ''primary''),
                    (''busy'', JBool (Github_working st))]
              [] [Txt t_read_repo]]])"

definition Github_summaryCard :: "Github_state \<Rightarrow> Github_state vnode" where
  "Github_summaryCard st =
     Card []
       [SectionTitle [(''title'', JStr (js_text (fld (Github_summary st) ''full_name''))),
                      (''subtitle'',
                       JStr (text_or (fld (Github_summary st) ''description'') t_no_repo_description))]
          [Badge [] [Txt (js_text (fld (Github_summary st) ''visibility''))]],
        El ''dl'' [(''className'', JStr ''key-value-list'')] []
          [KeyValue [(''label'', JStr t_default_branch)]
             [Txt (js_text (fld (Github_summary st) ''default_branch''))],
           KeyValue [(''label'', JStr t_latest_commit)]
             [El ''code'' [] [] [Txt (js_take 12 (text_or (fld (Github_summary st) ''main_sha'') []))]],
           KeyValue [(''label'', JStr t_branches)] [Txt (nat_str (length (Github_branches st)))],
           KeyValue [(''label'', JStr t_latest_tag)]
             [Txt (text_or (fld (idx (fld (Github_summary st) ''tags'') 0) ''name'') t_none_yet)],
           KeyValue [(''label'', JStr t_latest_release)]
             [Txt
                (text_or (fld (fld (Github_summary st) ''latest_release'') ''tag_name'') t_none_yet)]]]"

definition Github_actionsCard :: "locale_date \<Rightarrow> Github_state \<Rightarrow> Github_state vnode" where
  "Github_actionsCard loc st =
     Card []
       ([SectionTitle [(''title'', JStr t_recent_actions), (''subtitle'', JStr t_retry_failed_hint)] []] @
        (if length (Github_runs st) \<noteq> 0
           then [El ''div'' [(''className'', JStr ''workflow-list'')] []
                   (map
                      (\<lambda>run0.
                         El ''div''
                           [(''className'', JStr ''workflow-row''), (''key'', fld run0 ''id'')] []
                           [El ''span''
                              [(''className'',
                                JStr (''workflow-dot '' @
                                      (if fld run0 ''conclusion'' = JStr ''success'' then ''ok''
                                       else if fld run0 ''status'' \<noteq> JStr ''completed'' then ''running''
                                       else ''bad'')))]
                              [] [],
                            El ''div'' [] []
                              [El ''strong'' [] [] [Txt (js_text (fld run0 ''name''))],
                               El ''small'' [] []
                                 [Txt (js_text (jor (fld run0 ''head_branch'') (fld run0 ''event''))),
                                  Txt t_mid_dot, Txt (formatDate loc (fld run0 ''created_at''))]],
                            El ''div'' [(''className'', JStr ''row-buttons'')] []
                              ([Badge [(''tone'',
                                        JStr (if fld run0 ''conclusion'' = JStr ''success''
                                                then ''success''
                                              else if fld run0 ''status'' \<noteq> JStr ''completed''
                                                then ''warning''
                                              else ''danger''))]
                                  [Txt (js_text (jor (fld run0 ''conclusion'') (fld run0 ''status'')))],
                                Button [(''tone'', JStr ''ghost'')]
                                  [(''onClick'', \<lambda>ev. Github_openRun loc st run0)] [Txt t_details_word]] @
                               (if (fld run0 ''conclusion'') \<in> JStr ` set
                                     [''failure'', ''cancelled'', ''timed_out'']
                                  then [Button []
                                          [(''onClick'',
                                            \<lambda>ev.
                                              Github_repoMutation st ''/api/v1/github/rerun''
                                                (JObj [(''run_id'', fld run0 ''id'')])
                                                t_retry_requested)]
                                          [Txt t_retry]]
                                else []))])
                      (Github_runs st))]
         else [EmptyState [(''icon'', JStr ''audit''), (''title'', JStr t_no_actions)] []]))"

definition Github_mergeSubmit :: "Github_state \<Rightarrow> json \<Rightarrow> json \<Rightarrow> Github_state io" where
  "Github_mergeSubmit st item ev =
     steps [perform Prevent_default,
            let method0 = jstring (jor (form_get (fld ev ''form'') ''method'') (JStr ''squash''))
            in bnd (confirm_io t_confirm_merge_pr
                      (''#'' @ jstring (fld item ''number'') @ t_mid_dot @
                       js_text (fld item ''title'') @ t_merge_method_line @ method0)
                      t_merge_word False)
                 (\<lambda>r15.
                    if \<not> truthy r15 then skip
                    else steps [Github_repoMutation st ''/api/v1/github/pull/merge''
                                  (JObj [(''number'', fld item ''number''),
                                         (''expected_sha'', jor (fld item ''head_sha'') (JStr [])),
                                         (''method'', JStr method0)])
                                  t_pr_merged,
                                perform Close_modal])]"

definition Github_pullsCard :: "Github_state \<Rightarrow> Github_state vnode" where
  "Github_pullsCard st =
     Card []
       ([SectionTitle [(''title'', JStr ''Pull Requests''), (''subtitle'', JStr t_merge_protected)] []] @
        (if length (Github_pulls st) \<noteq> 0
           then [El ''div'' [(''className'', JStr ''workflow-list'')] []
                   (map
                      (\<lambda>item.
                         El ''div''
                           [(''className'', JStr ''workflow-row''), (''key'', fld item ''number'')] []
                           [El ''span''
                              [(''className'',
                                JStr (''workflow-dot '' @
                                      (if truthy (fld item ''draft'') then ''running'' else ''ok'')))]
                              [] [],
                            El ''div'' [] []
                              [El ''strong'' [] []
                                 ([Txt ''#''] @ child (fld item ''number'') @
                                  [Txt t_mid_dot, Txt (js_text (fld item ''title''))]),
                               El ''small'' [] []
                                 [Txt (js_text (fld item ''head'')), Txt t_arrow_right,
                                  Txt (js_text (fld item ''base'')),
                                  Txt (if truthy (fld item ''draft'') then t_draft_suffix else [])]],
                            El ''div'' [(''className'', JStr ''row-buttons'')] []
                              ((if truthy (fld item ''html_url'')
                                  then [El ''a'' [(''className'', JStr ''button button-ghost''),
                                                  (''href'', fld item ''html_url''),
                                                  (''target'', JStr ''_blank''),
                                                  (''rel'', JStr ''noopener'')]
                                          [] [Txt t_open]]
                                else []) @
                               (if truthy (fld (Github_auth st) ''connected'') \<and>
                                   fld item ''state'' = JStr ''open'' \<and>
                                   \<not> truthy (fld item ''draft'')
                                  then [Button [(''tone'', JStr ''primary'')]
                                          [(''onClick'',
                                            \<lambda>ev.
                                              open_modal t_merge_pr []
                                                [El ''form'' [(''className'', JStr ''form-stack'')]
                                                   [(''onSubmit'',
                                                     \<lambda>ev. Github_mergeSubmit st item ev)]
                                                   [Field [(''label'', JStr t_merge_method)]
                                                      [SelectInput
                                                         [(''name'', JStr ''method''),
                                                          (''defaultValue'', JStr ''squash'')]
                                                         []
                                                         [El ''option''
                                                            [(''value'', JStr ''squash'')] []
                                                            [Txt t_squash_recommended],
                                                          El ''option'' [(''value'', JStr ''merge'')] []
                                                            [Txt ''Merge commit''],
                                                          El ''option''
                                                            [(''value'', JStr ''rebase'')] []
                                                            [Txt ''Rebase merge'']]],
                                                    El ''p'' [(''className'', JStr ''form-help'')] []
                                                      [Txt t_merge_respects],
                                                    El ''div''
                                                      [(''className'', JStr ''form-actions'')] []
                                                      [Button []
                                                         [(''onClick'', \<lambda>ev. perform Close_modal)]
                                                         [Txt t_cancel],
                                                       Button [(''type'', JStr ''submit''),
                                                               (''tone'', JStr ''primary'')]
                                                         [] [Txt t_continue_word]]]])]
                                          [Txt t_merge_word]]
                                else []))])
                      (Github_pulls st))]
         else [EmptyState [(''icon'', JStr ''github''), (''title'', JStr t_no_open_pr)] []]))"

definition Github_branchSubmit :: "Github_state \<Rightarrow> json \<Rightarrow> Github_state io" where
  "Github_branchSubmit st ev =
     steps [Github_repoMutation st ''/api/v1/github/branch''
              (JObj [(''name'', form_get ev ''name''), (''source'', form_get ev ''source'')])
              t_branch_created,
            perform Close_modal]"

definition Github_tagSubmit :: "Github_state \<Rightarrow> json \<Rightarrow> Github_state io" where
  "Github_tagSubmit st ev =
     steps [Github_repoMutation st ''/api/v1/github/tag''
              (JObj [(''tag'', form_get ev ''tag''),
                     (''target_sha'', fld (Github_summary st) ''main_sha'')])
              (''Tag '' @ jstring (form_get ev ''tag'') @ t_created_suffix),
            perform Close_modal]"

definition Github_pullSubmit :: "Github_state \<Rightarrow> json \<Rightarrow> Github_state io" where
  "Github_pullSubmit st ev =
     bnd (Github_repoMutation st ''/api/v1/github/pull''
            (JObj [(''title'', form_get ev ''title''), (''body'', form_get ev ''body''),
                   (''head'', form_get ev ''head''), (''base'', form_get ev ''base'')])
            t_pr_created)
       (\<lambda>out.
          steps
            [perform Close_modal,
             if truthy (fld out ''html_url'')
               then perform (Dom ''open'' [fld out ''html_url'', JStr ''_blank'', JStr ''noopener''])
             else skip])"

definition Github_releaseSubmit :: "Github_state \<Rightarrow> json \<Rightarrow> Github_state io" where
  "Github_releaseSubmit st ev =
     bnd (Github_repoMutation st ''/api/v1/github/release''
            (JObj [(''tag'', form_get ev ''tag''), (''name'', form_get ev ''name''),
                   (''body'', form_get ev ''body''), (''draft'', JBool False),
                   (''prerelease'', JBool False)])
            t_release_created)
       (\<lambda>out.
          steps
            [perform Close_modal,
             if truthy (fld out ''html_url'')
               then perform (Dom ''open'' [fld out ''html_url'', JStr ''_blank'', JStr ''noopener''])
             else skip])"

definition Github_createCards :: "Github_state \<Rightarrow> Github_state vnode" where
  "Github_createCards st =
     El ''div'' [(''className'', JStr ''settings-grid'')] []
       [Card []
          [SectionTitle
             [(''title'', JStr t_create_branch), (''subtitle'', JStr t_from_branch_or_sha)] [],
           Button [(''tone'', JStr ''primary'')]
             [(''onClick'',
               \<lambda>ev.
                 Github_simpleForm st t_create_branch
                   [JObj [(''label'', JStr t_new_branch_name), (''name'', JStr ''name''),
                          (''required'', JBool True)],
                    JObj [(''label'', JStr t_source_word), (''name'', JStr ''source''),
                          (''kind'', JStr ''select''), (''options'', JArr (Github_branches st)),
                          (''value'', fld (Github_summary st) ''default_branch'')]]
                   (\<lambda>ev. Github_branchSubmit st ev) t_confirm)]
             [Txt t_create_branch]],
        Card []
          [SectionTitle [(''title'', JStr t_create_tag), (''subtitle'', JStr t_tag_default_head)] [],
           Button [(''tone'', JStr ''primary'')]
             [(''onClick'',
               \<lambda>ev.
                 Github_simpleForm st t_create_tag_button
                   [JObj [(''label'', JStr t_version_tag), (''name'', JStr ''tag''),
                          (''value'', JStr (Github_version st)), (''required'', JBool True)]]
                   (\<lambda>ev. Github_tagSubmit st ev) t_confirm)]
             [Txt t_create_tag_button]],
        Card []
          [SectionTitle [(''title'', JStr t_create_pr), (''subtitle'', JStr t_no_auto_merge)] [],
           Button [(''tone'', JStr ''primary'')]
             [(''onClick'',
               \<lambda>ev.
                 Github_simpleForm st t_create_pr
                   [JObj [(''label'', JStr t_title_word), (''name'', JStr ''title''),
                          (''required'', JBool True)],
                    JObj [(''label'', JStr ''Head''), (''name'', JStr ''head''),
                          (''kind'', JStr ''select''), (''options'', JArr (Github_branches st))],
                    JObj [(''label'', JStr ''Base''), (''name'', JStr ''base''),
                          (''kind'', JStr ''select''), (''options'', JArr (Github_branches st)),
                          (''value'', fld (Github_summary st) ''default_branch'')],
                    JObj [(''label'', JStr t_description_word), (''name'', JStr ''body''),
                          (''kind'', JStr ''textarea'')]]
                   (\<lambda>ev. Github_pullSubmit st ev) t_confirm)]
             [Txt t_create_pr_button]],
        Card []
          [SectionTitle [(''title'', JStr t_create_release), (''subtitle'', JStr t_tag_must_exist)] [],
           Button [(''tone'', JStr ''primary'')]
             [(''onClick'',
               \<lambda>ev.
                 Github_simpleForm st t_create_release
                   [JObj [(''label'', JStr ''Tag''), (''name'', JStr ''tag''),
                          (''value'', JStr (Github_version st)), (''required'', JBool True)],
                    JObj [(''label'', JStr t_title_word), (''name'', JStr ''name''),
                          (''value'', JStr (''LukePanel '' @ Github_version st)),
                          (''required'', JBool True)],
                    JObj [(''label'', JStr t_release_notes), (''name'', JStr ''body''),
                          (''kind'', JStr ''textarea'')]]
                   (\<lambda>ev. Github_releaseSubmit st ev) t_confirm)]
             [Txt t_create_release]]]"

definition Github_importCard :: "Github_state \<Rightarrow> Github_state vnode" where
  "Github_importCard st =
     Card []
       ([SectionTitle [(''title'', JStr t_zip_import), (''subtitle'', JStr t_zip_import_hint)]
           [Button [(''tone'', JStr ''primary''),
                    (''disabled'', JBool (\<not> truthy (fld (Github_auth st) ''connected'')))]
              [(''onClick'', \<lambda>ev. perform (Dom ''zipRef.click'' []))] [Txt t_choose_zip]],
         El ''input'' [(''className'', JStr ''visually-hidden''),
                       (''type'', JStr ''file''), (''accept'', JStr ''.zip,application/zip'')]
           [(''onChange'', \<lambda>ev. Github_previewImport st ev)] [],
         El ''div'' [(''className'', JStr ''form-grid'')] []
           [Field [(''label'', JStr t_target_branch)]
              [SelectInput [(''value'', JStr (Github_importBranch st))]
                 [(''onChange'',
                   \<lambda>ev. set_state (\<lambda>s. s\<lparr>Github_importBranch := jstring (fld ev ''value'')\<rparr>))]
                 (map (\<lambda>branch. El ''option'' [(''key'', branch)] [] (child branch))
                    (Github_branches st))],
            Field [(''label'', JStr t_commit_message)]
              [TextInput [(''value'', JStr (Github_importMessage st))]
                 [(''onChange'',
                   \<lambda>ev. set_state (\<lambda>s. s\<lparr>Github_importMessage := jstring (fld ev ''value'')\<rparr>))]]]] @
        (if truthy (Github_importPlan st)
           then [El ''div'' [(''className'', JStr ''notice info'')] []
                   [Icon [(''name'', JStr ''check'')],
                    El ''div'' [] []
                      [El ''strong'' [] [] [Txt t_diff_ready],
                       El ''span'' [] []
                         [Txt t_zip_added,
                          Txt (num_str (number (fld (Github_importPlan st) ''added''))),
                          Txt t_zip_modified,
                          Txt (num_str (number (fld (Github_importPlan st) ''modified''))),
                          Txt t_unchanged_suffix,
                          Txt (num_str (number (fld (Github_importPlan st) ''unchanged''))),
                          Txt t_zip_deleted,
                          Txt (num_str (number (fld (Github_importPlan st) ''deleted'')))]],
                    Button [(''tone'', JStr ''primary''), (''busy'', JBool (Github_working st))]
                      [(''onClick'', \<lambda>ev. Github_commitImport st)] [Txt t_commit_and_push]]]
         else []))"

definition Github_view :: "locale_date \<Rightarrow> route \<Rightarrow> Github_state \<Rightarrow> Github_state vnode" where
  "Github_view loc route st =
     El ''div'' [(''className'', JStr ''page-stack'')] []
       ([PageHeader route (JBool (Github_loading st)) (Some (\<lambda>ev. Github_reload st)) []] @
        (if Github_transfer st \<noteq> None
           then [TransferProgress (the (Github_transfer st)) (Some (\<lambda>ev. Github_abort))]
         else []) @
        (if Github_error st \<noteq> [] then [ErrorState (JStr (Github_error st)) (\<lambda>ev. Github_reload st)]
         else ((if truthy (Github_flow st) then [Github_deviceCard st] else [Github_authCard st]) @
               (if \<not> truthy (Github_flow st) then [Github_repoCard st] else []) @
               (if truthy (Github_summary st)
                  then [El ''section'' [(''className'', JStr ''github-summary-grid'')] []
                          [Github_summaryCard st, Github_actionsCard loc st],
                        El ''section'' [(''className'', JStr ''github-summary-grid'')] []
                          [Github_pullsCard st,
                           Card [] ([SectionTitle [(''title'', JStr t_release_assets),
                                                   (''subtitle'',
                                                    JStr (text_or (fld (fld (Github_summary st)
                                                                          ''latest_release'')
                                                                     ''tag_name'')
                                                            t_no_release_created))]
                                       []] @
                                    (if truthy (fld (Github_summary st) ''latest_release'')
                                       then [El ''div'' [(''className'', JStr ''setting-card'')] []
                                               [El ''p'' [] []
                                                  [Txt (js_text (jor (fld (fld (Github_summary st)
                                                                             ''latest_release'')
                                                                        ''name'')
                                                                   (fld (fld (Github_summary st)
                                                                           ''latest_release'')
                                                                      ''tag_name''))),
                                                   Txt t_mid_dot,
                                                   Txt (formatDate loc (fld (fld (Github_summary st)
                                                                               ''latest_release'')
                                                                          ''published_at''))],
                                                Button [(''tone'', JStr ''primary'')]
                                                  [(''onClick'', \<lambda>ev. Github_openAssets st)]
                                                  [Txt t_manage_assets]]]
                                     else [EmptyState [(''icon'', JStr ''package''),
                                                       (''title'', JStr t_no_release)]
                                             []]))],
                        Github_createCards st, Github_importCard st]
                else []))))"

text \<open>The version and the two fields kept in \<open>localStorage\<close> are arguments.\<close>

definition Github_init :: "string \<Rightarrow> json \<Rightarrow> json \<Rightarrow> Github_state" where
  "Github_init version stored_owner stored_repo =
     \<lparr>Github_version = version, Github_auth = JObj [], Github_flow = JNull, Github_summary = JNull, Github_repositories = [],
      Github_owner = jstring (jor stored_owner (JStr [])), Github_repo = jstring (jor stored_repo (JStr [])),
      Github_loading = True, Github_working = False, Github_error = [], Github_transfer = None,
      Github_transferController = None, Github_pollRef = 0, Github_importPlan = JNull,
      Github_importBranch = ''main'', Github_importMessage = ''chore: import files from LukePanel'',
      Github_controllers = 0, Github_timers = [], Github_nextTimer = 1\<rparr>"

text \<open>A timer that is due is removed and polls; the effect of the page loads, and its clean-up clears the timer
  \<open>pollRef\<close> names.\<close>

definition Github_fire :: "Github_state \<Rightarrow> nat \<Rightarrow> Github_state io" where
  "Github_fire st n = Get (\<lambda>s. case map_of (Github_timers s) n of None \<Rightarrow> skip
     | Some (flow, delay) \<Rightarrow>
         steps [set_state (\<lambda>s. s\<lparr>Github_timers := filter (\<lambda>(m, r). m \<noteq> n) (Github_timers s)\<rparr>),
                Github_pollDevice st flow])"

definition Github_leave :: "Github_state io" where
  "Github_leave = Github_clearTimeout"

subsection \<open>The pages keep the rules\<close>

text \<open>What counts as destructive: dropping the token, pushing to a repository, and merging a pull request.\<close>

definition pushes :: "string \<Rightarrow> bool" where
  "pushes url \<longleftrightarrow> url \<in> set [''/api/v1/github/auth/disconnect'', ''/api/v1/github/import/commit'',
     ''/api/v1/github/pull/merge'']"

definition harms_github :: "request \<Rightarrow> bool" where
  "harms_github r \<longleftrightarrow> changing r \<and> pushes (req_url r)"

lemma harms_github_mk [simp]: "harms_github (mk_request url i tok) \<longleftrightarrow> sends_change i \<and> pushes url"
  by (simp add: harms_github_def)

lemma pushes_nothing [simp]:
  "\<not> pushes ''/api/v1/github/auth/token''" "\<not> pushes ''/api/v1/github/auth/device/poll''"
  "\<not> pushes ''/api/v1/github/auth/device/start''" "\<not> pushes ''/api/v1/github/auth/device/cancel''"
  "\<not> pushes ''/api/v1/github/branch''" "\<not> pushes ''/api/v1/github/tag''" "\<not> pushes ''/api/v1/github/pull''"
  "\<not> pushes ''/api/v1/github/release''" "\<not> pushes ''/api/v1/github/rerun''"
  by (simp_all add: pushes_def)

text \<open>The one handler that lets a refusal pass: cancelling the device login.\<close>

definition Github_unreported :: "Github_state io set" where
  "Github_unreported = {m. \<exists>st. m = Github_cancelDevice st}"

abbreviation github_safe :: "Github_state io \<Rightarrow> bool" where
  "github_safe \<equiv> safe_loud Github_unreported harms_github"

lemma Assets_abort_wp: "(\<And>s'. Q JUndef g s') \<Longrightarrow> wp (w_ok P) w_upd Assets_abort Q E g s"
  by (auto simp: Assets_abort_def io_simps split: option.split)

lemma Assets_load_wp:
  assumes "\<And>s'. Q JUndef g s'" and "\<not> w_failed g"
  shows "wp (w_ok harms_github) w_upd (Assets_load st) Q E g s"
  using assms by (auto simp: Assets_load_def io_simps intro!: io_rules)

lemma Assets_shows [simp]: "shows_ok R Assets_abort" "shows_ok R (Assets_load st)"
  by (simp_all add: Assets_abort_def Assets_load_def split: option.split)

lemma Assets_safe [simp]:
  "safe harms_github Assets_abort" "safe harms_github (Assets_load st)" "safe harms_github (Assets_upload st ev)"
  by (auto simp: Assets_upload_def Let_def io_simps split: list.split
      intro!: safeI Assets_abort_wp Assets_load_wp wp_uploadApi)

interpretation assets: page "Assets_view loc route" harms_github
  by unfold_locales (simp add: Assets_view_def)

lemma Github_abort_wp: "(\<And>s'. Q JUndef g s') \<Longrightarrow> wp (w_ok P) w_upd Github_abort Q E g s"
  by (auto simp: Github_abort_def io_simps split: option.split)

lemma Github_loads_wp:
  assumes "\<And>v s'. Q v g s'" and "\<not> w_failed g"
  shows "(\<And>c s'. E c g s') \<Longrightarrow> wp (w_ok harms_github) w_upd (Github_loadAuth st) Q E g s"
    and "wp (w_ok harms_github) w_upd (Github_loadRepo st) Q E g s"
    and "wp (w_ok harms_github) w_upd (Github_reload st) Q E g s"
proof -
  have auth: "wp (w_ok harms_github) w_upd (Github_loadAuth st) Q E g s"
    if "\<And>v s'. Q v g s'" "\<And>c s'. E c g s'" for Q E s
    using that by (auto simp: Github_loadAuth_def Let_def io_simps intro!: io_rules split: if_splits)
  show "wp (w_ok harms_github) w_upd (Github_loadAuth st) Q E g s" if "\<And>c s'. E c g s'"
    using that assms by (intro auth)
  show "wp (w_ok harms_github) w_upd (Github_loadRepo st) Q E g s"
    using assms by (auto simp: Github_loadRepo_def Let_def io_simps intro!: io_rules)
  show "wp (w_ok harms_github) w_upd (Github_reload st) Q E g s"
    using assms by (auto simp: Github_reload_def Let_def io_simps intro!: io_rules auth)
qed

lemma Github_shows [simp]:
  "shows_ok R Github_abort" "shows_ok R (Github_loadAuth st)" "shows_ok R (Github_loadRepo st)"
  "shows_ok R (Github_reload st)" "shows_ok R (Github_setTimeout f d)" "shows_ok R Github_clearTimeout"
  by (simp_all add: Github_abort_def Github_loadAuth_def Github_loadRepo_def Github_reload_def Github_setTimeout_def
      Github_clearTimeout_def Let_def split: option.split)

lemma Github_timer_wp [io_simps]:
  "wp ok upd (Github_setTimeout f d) Q E g s = Q JUndef g (s\<lparr>Github_pollRef := Github_nextTimer s,
     Github_timers := Github_timers s @ [(Github_nextTimer s, f, d)], Github_nextTimer := Github_nextTimer s + 1\<rparr>)"
  "wp ok upd Github_clearTimeout Q E g s =
     Q JUndef g (s\<lparr>Github_timers := filter (\<lambda>(n, flow, delay). n \<noteq> Github_pollRef s) (Github_timers s)\<rparr>)"
  by (simp_all add: Github_setTimeout_def Github_clearTimeout_def io_simps)

lemma Github_repoMutation_wp:
  assumes "pushes endpoint \<Longrightarrow> w_confirmed g" and "\<not> w_failed g"
    and "\<And>v h s'. \<not> w_failed h \<Longrightarrow> Q v h s'" and "\<And>c h s'. \<not> w_failed h \<Longrightarrow> E c h s'"
  shows "wp (w_ok harms_github) w_upd (Github_repoMutation st endpoint b success) Q E g s"
  unfolding Github_repoMutation_def io_simps Let_def
  using assms by (auto simp: io_simps intro!: wp_secureApi Github_loads_wp)

lemma Github_repoMutation_shows [simp]: "shows_ok R (Github_repoMutation st endpoint b success)"
  by (simp add: Github_repoMutation_def Let_def)

lemma Github_repoMutation_safe [simp]:
  "\<not> pushes endpoint \<Longrightarrow> github_safe (Github_repoMutation st endpoint b success)"
  by (rule safe_loudI) (auto intro!: Github_repoMutation_wp)

lemma Github_loads_safe [simp]: "github_safe (Github_loadRepo st)" "github_safe (Github_reload st)" "github_safe Github_abort"
  by (auto intro!: safe_loudI Github_loads_wp Github_abort_wp)

lemma Github_chooseRepository_safe [simp]: "safe_loud Github_unreported harms_github (Github_chooseRepository st fullName)"
  by (auto simp: Github_chooseRepository_def Let_def io_simps intro!: safe_loudI io_rules Github_loads_wp Github_repoMutation_wp Github_abort_wp)

lemma Github_connectSubmit_safe [simp]: "safe_loud Github_unreported harms_github (Github_connectSubmit st ev)"
  by (auto simp: Github_connectSubmit_def Let_def io_simps intro!: safe_loudI io_rules Github_loads_wp Github_repoMutation_wp Github_abort_wp)

lemma Github_pollDevice_safe [simp]: "safe_loud Github_unreported harms_github (Github_pollDevice st current)"
  by (auto simp: Github_pollDevice_def Let_def io_simps intro!: safe_loudI io_rules Github_loads_wp Github_repoMutation_wp Github_abort_wp)

lemma Github_startDevice_safe [simp]: "safe_loud Github_unreported harms_github (Github_startDevice st)"
  by (auto simp: Github_startDevice_def Let_def io_simps intro!: safe_loudI io_rules Github_loads_wp Github_repoMutation_wp Github_abort_wp)

lemma Github_disconnect_safe [simp]: "safe_loud Github_unreported harms_github (Github_disconnect st)"
  by (auto simp: Github_disconnect_def Let_def io_simps pushes_def intro!: safe_loudI io_rules Github_loads_wp Github_repoMutation_wp Github_abort_wp)

lemma Github_jobLogs_safe [simp]: "safe_loud Github_unreported harms_github (Github_jobLogs st job)"
  by (auto simp: Github_jobLogs_def Let_def io_simps intro!: safe_loudI io_rules Github_loads_wp Github_repoMutation_wp Github_abort_wp shows_ok_combinators)

lemma Github_commitImport_safe [simp]: "safe_loud Github_unreported harms_github (Github_commitImport st)"
  by (auto simp: Github_commitImport_def Let_def io_simps intro!: safe_loudI io_rules Github_loads_wp Github_repoMutation_wp Github_abort_wp)

lemma Github_previewImport_safe [simp]: "safe_loud Github_unreported harms_github (Github_previewImport st event)"
  by (auto simp: Github_previewImport_def Let_def io_simps split: list.split intro!: safe_loudI io_rules Github_loads_wp Github_repoMutation_wp Github_abort_wp)

lemma Github_mergeSubmit_safe [simp]: "safe_loud Github_unreported harms_github (Github_mergeSubmit st item ev)"
  by (auto simp: Github_mergeSubmit_def Let_def io_simps intro!: safe_loudI io_rules Github_loads_wp Github_repoMutation_wp Github_abort_wp)

lemma Github_branchSubmit_safe [simp]: "safe_loud Github_unreported harms_github (Github_branchSubmit st ev)"
  by (auto simp: Github_branchSubmit_def Let_def io_simps intro!: safe_loudI io_rules Github_loads_wp Github_repoMutation_wp Github_abort_wp)

lemma Github_tagSubmit_safe [simp]: "safe_loud Github_unreported harms_github (Github_tagSubmit st ev)"
  by (auto simp: Github_tagSubmit_def Let_def io_simps intro!: safe_loudI io_rules Github_loads_wp Github_repoMutation_wp Github_abort_wp)

lemma Github_pullSubmit_safe [simp]: "safe_loud Github_unreported harms_github (Github_pullSubmit st ev)"
  by (auto simp: Github_pullSubmit_def Let_def io_simps intro!: safe_loudI io_rules Github_loads_wp Github_repoMutation_wp Github_abort_wp)

lemma Github_releaseSubmit_safe [simp]: "safe_loud Github_unreported harms_github (Github_releaseSubmit st ev)"
  by (auto simp: Github_releaseSubmit_def Let_def io_simps intro!: safe_loudI io_rules Github_loads_wp Github_repoMutation_wp Github_abort_wp)

lemma Github_cancelDevice_safe [simp]: "github_safe (Github_cancelDevice st)"
proof -
  have "Github_cancelDevice st \<in> Github_unreported" unfolding Github_unreported_def by blast
  then show ?thesis
    by (auto simp: Github_cancelDevice_def io_simps intro!: safe_loud_exceptI io_rules)
qed

lemma Github_openRun_safe [simp]: "github_safe (Github_openRun loc st r)"
  by (auto simp: Github_openRun_def Let_def io_simps intro!: safe_loudI io_rules shows_ok_combinators)

lemma Github_dialogs_safe [simp]:
  "github_safe (Github_connectToken st)" "github_safe (Github_openAssets st)"
  "(\<And>v. github_safe (seqs (perform Prevent_default) (submit v))) \<Longrightarrow>
     github_safe (Github_simpleForm st title fields0 submit l)"
  by (simp_all add: Github_connectToken_def Github_openAssets_def Github_simpleForm_def case_prod_beta split: if_splits)

lemma Github_submits_safe [simp]:
  "github_safe (seqs (perform Prevent_default) (Github_branchSubmit st v))"
  "github_safe (seqs (perform Prevent_default) (Github_tagSubmit st v))"
  "github_safe (seqs (perform Prevent_default) (Github_pullSubmit st v))"
  "github_safe (seqs (perform Prevent_default) (Github_releaseSubmit st v))"
  "github_safe (seqs (perform Prevent_default) (Github_loadRepo st))"
  by (auto simp: Github_branchSubmit_def Github_tagSubmit_def Github_pullSubmit_def Github_releaseSubmit_def Let_def
      io_simps intro!: safe_loudI Github_repoMutation_wp Github_loads_wp)

lemma Github_cards_safe [simp]:
  "vnode_ok (behaves_loud Github_unreported harms_github) (Github_deviceCard st)"
  "vnode_ok (behaves_loud Github_unreported harms_github) (Github_authCard st)"
  "vnode_ok (behaves_loud Github_unreported harms_github) (Github_repoCard st)"
  "vnode_ok (behaves_loud Github_unreported harms_github) (Github_summaryCard st)"
  "vnode_ok (behaves_loud Github_unreported harms_github) (Github_actionsCard loc st)"
  "vnode_ok (behaves_loud Github_unreported harms_github) (Github_pullsCard st)"
  "vnode_ok (behaves_loud Github_unreported harms_github) (Github_createCards st)"
  "vnode_ok (behaves_loud Github_unreported harms_github) (Github_importCard st)"
  by (simp_all add: Github_deviceCard_def Github_authCard_def Github_repoCard_def Github_summaryCard_def
      Github_actionsCard_def Github_pullsCard_def Github_createCards_def Github_importCard_def)

interpretation github: loud_page "Github_view loc route" Github_unreported harms_github
  by unfold_locales (simp add: Github_view_def)

text \<open>The timers start their polls outside the page; they keep the same rules.\<close>

lemma Github_fire_safe: "github_safe (Github_fire st n)"
proof -
  have "wp (w_ok harms_github) w_upd (Github_pollDevice st f) Q E g s"
    if "\<And>v h s'. \<not> w_failed h \<Longrightarrow> Q v h s'" "\<not> w_failed g" for f Q E and g :: watch and s
    using that by (auto simp: Github_pollDevice_def Let_def io_simps intro!: io_rules Github_loads_wp)
  moreover have "shows_ok (behaves_loud Github_unreported harms_github) (Github_pollDevice st f)" for f
    using Github_pollDevice_safe by (simp add: handler_ok_def)
  ultimately show ?thesis
    by (auto simp: Github_fire_def io_simps intro!: safe_loudI split: option.split prod.split)
qed


definition sample_github :: Github_state where
  "sample_github = (Github_init ''v2'' JNull JNull)\<lparr>Github_auth := JObj [(''connected'', JBool True)]\<rparr>"



subsection \<open>The device login as a session\<close>

text \<open>A successful JSON answer, an answer of the polling that settles nothing, one round of the polling, and
  a session that waits: one timer, the one \<open>pollRef\<close> names, at least two seconds away.\<close>

definition answered :: "json \<Rightarrow> answer" where
  "answered v = AResp \<lparr>resp_status = 200, resp_type = ''application/json'', resp_json = Some v, resp_text = None\<rparr>"

definition undecided :: "json \<Rightarrow> bool" where
  "undecided v \<longleftrightarrow> fld (asObject v) ''status'' \<notin> {JStr ''authorized'', JStr ''expired'', JStr ''denied''}"

definition poll_round :: "Github_state \<Rightarrow> answer list \<Rightarrow> Github_state \<Rightarrow> event list \<times> outcome \<times> Github_state" where
  "poll_round st as s = run_alone (Github_fire st (Github_pollRef s)) as s"

definition poll_rounds :: "Github_state \<Rightarrow> string \<Rightarrow> json list \<Rightarrow> Github_state \<Rightarrow> Github_state" where
  "poll_rounds st tok vs s = foldl (\<lambda>s v. snd (snd (poll_round st [AVal (JStr tok), answered v] s))) s vs"

definition polling :: "json \<Rightarrow> Github_state \<Rightarrow> bool" where
  "polling flow s \<longleftrightarrow> (\<exists>d\<ge>2000. Github_timers s = [(Github_pollRef s, flow, d)])"

lemma answered_ok [simp]: "handle_response \<lparr>resp_status = 200, resp_type = ''application/json'', resp_json = Some v,
    resp_text = None\<rparr> = Ret v"
  by (simp add: handle_response_def session_lost_def is_ok_def parsePayload_def seqs_def bnd_def str_includes_def)

definition poll_delay :: "json \<Rightarrow> json \<Rightarrow> rat" where
  "poll_delay v flow = max 2 (number_or (jor (fld (asObject v) ''retry_after'') (fld flow ''interval'')) 5) * 1000"

lemma poll_delay_bound [simp]: "2000 \<le> poll_delay v flow"
  by (simp add: poll_delay_def)

lemma poll_undecided:
  assumes "undecided v" and "Github_timers s = [(Github_pollRef s, flow, d)]"
  shows "run (Github_fire st (Github_pollRef s)) [(AVal (JStr tok), f), (answered v, other)] s =
    ([Did Read_csrf (AVal (JStr tok)), Did (Fetch (mk_request ''/api/v1/github/auth/device/poll''
        (with_body ''POST'' (jsonBody (JObj [(''flow_id'', fld flow ''flow_id'')]))) tok)) (answered v)],
     Returned JUndef,
     (let s' = other (f (s\<lparr>Github_timers := []\<rparr>)) in s'\<lparr>Github_pollRef := Github_nextTimer s',
        Github_timers := Github_timers s' @ [(Github_nextTimer s', flow, poll_delay v flow)],
        Github_nextTimer := Github_nextTimer s' + 1\<rparr>))"
  using assms by (simp add: Github_fire_def Github_pollDevice_def Github_setTimeout_def undecided_def answered_def
      poll_delay_def Let_def run_ops del: asObject_def handle_response_def)

lemma poll_rounds_polling:
  assumes "polling flow s" and "\<forall>v\<in>set vs. undecided v"
  shows "polling flow (poll_rounds st tok vs s) \<and> Github_flow (poll_rounds st tok vs s) = Github_flow s"
  using assms
proof (induction vs arbitrary: s)
  case (Cons v vs)
  from Cons.prems(1) obtain d where "Github_timers s = [(Github_pollRef s, flow, d)]" by (auto simp: polling_def)
  from poll_undecided [where v = v and tok = tok and f = "\<lambda>s. s" and other = "\<lambda>s. s" and st = st, OF _ this] Cons.prems(2)
  have "polling flow (snd (snd (poll_round st [AVal (JStr tok), answered v] s))) \<and>
      Github_flow (snd (snd (poll_round st [AVal (JStr tok), answered v] s))) = Github_flow s"
    by (auto simp: poll_round_def run_alone_def polling_def Let_def)
  then show ?case using Cons.IH Cons.prems(2) by (simp add: poll_rounds_def)
qed (simp add: poll_rounds_def)

definition start_login :: "Github_state \<Rightarrow> json \<Rightarrow> string \<Rightarrow> json \<Rightarrow> Github_state \<Rightarrow> event list \<times> outcome \<times> Github_state" where
  "start_login st popup tok flow s = run_alone (Github_startDevice st)
     ([AVal popup, AVal (JStr tok), answered flow] @ replicate (if truthy popup then 2 else 1) (AVal JUndef)) s"

text \<open>What the server answers to the request for the repositories: a list, or a failure.\<close>

definition repositories_answer :: "json option \<Rightarrow> answer" where
  "repositories_answer list = (case list of Some v \<Rightarrow> answered v | None \<Rightarrow> AFail (Js_error ''down''))"

definition repositories_of :: "json option \<Rightarrow> json list" where
  "repositories_of list = (case list of Some v \<Rightarrow> listOf v [''repositories''] | None \<Rightarrow> [])"

text \<open>The last round of a login: the poll is answered with \<open>authorized\<close>, then the page asks for the account and, when
  that is connected, for its repositories.\<close>

definition authorized_round :: "Github_state \<Rightarrow> string \<Rightarrow> json \<Rightarrow> json \<Rightarrow> json option \<Rightarrow> Github_state \<Rightarrow> event list \<times> outcome \<times> Github_state" where
  "authorized_round st tok authorized account list s = poll_round st
     ([AVal (JStr tok), answered authorized, answered account] @
      (if truthy (fld account ''connected'') then [repositories_answer list] else []) @ [AVal JUndef]) s"

lemma login_waits:
  assumes "Github_timers s = []" and "asObject flow = flow" and "\<forall>v\<in>set pending. undecided v"
  shows "polling flow (poll_rounds st tok pending (snd (snd (start_login st popup tok flow s)))) \<and>
    Github_flow (poll_rounds st tok pending (snd (snd (start_login st popup tok flow s)))) = flow"
proof -
  let ?s0 = "snd (snd (start_login st popup tok flow s))"
  have "polling flow ?s0 \<and> Github_flow ?s0 = flow"
    using assms(1,2)
    by (simp add: start_login_def Github_startDevice_def Github_setTimeout_def polling_def answered_def numeral_2_eq_2
        run_ops del: asObject_def handle_response_def split: if_splits)
  then show ?thesis using poll_rounds_polling [OF _ assms(3)] by auto
qed

lemma login_authorized:
  assumes "polling flow s1" and "fld (asObject authorized) ''status'' = JStr ''authorized''" and "asObject account = account"
  shows "let r = authorized_round st tok authorized account list s1; s2 = snd (snd r)
    in fst (snd r) = Returned JUndef \<and> Github_flow s2 = JNull \<and> Github_timers s2 = [] \<and> Github_auth s2 = account \<and>
       Github_repositories s2 = (if truthy (fld account ''connected'') then repositories_of list else []) \<and>
       Did (Notify Success t_device_login_done JUndef) (AVal JUndef) \<in> set (events r)"
proof -
  obtain d where "Github_timers s1 = [(Github_pollRef s1, flow, d)]" using assms(1) by (auto simp: polling_def)
  then show ?thesis
    using assms(2,3)
    by (cases list) (auto simp: authorized_round_def poll_round_def Github_fire_def Github_pollDevice_def Github_loadAuth_def
        answered_def repositories_answer_def repositories_of_def Let_def run_ops
        simp del: asObject_def handle_response_def split: if_split)
qed

lemma login_refused:
  assumes "polling flow s1" and "fld (asObject v) ''status'' = JStr ''expired'' \<or> fld (asObject v) ''status'' = JStr ''denied''"
  shows "let r = poll_round st [AVal (JStr tok), answered v, AVal JUndef] s1; s2 = snd (snd r)
    in fst (snd r) = Returned JUndef \<and> Github_flow s2 = JNull \<and> Github_timers s2 = [] \<and>
       (\<exists>detail. Did (Notify Failure t_device_login_failed detail) (AVal JUndef) \<in> set (events r))"
proof -
  obtain d where "Github_timers s1 = [(Github_pollRef s1, flow, d)]" using assms(1) by (auto simp: polling_def)
  then show ?thesis
    using assms(2)
    by (auto simp: poll_round_def Github_fire_def Github_pollDevice_def answered_def Let_def run_ops
        simp del: asObject_def handle_response_def)
qed

text \<open>C17. A device login comes to its end. From a page with no poll pending, once the server has started a
  login, and however often it answers the polling with a status that settles nothing, exactly one poll is
  pending, at least two seconds ahead. When the server then answers that the account has authorized the panel, the
  next poll ends the session, whether the account that is read next is connected or not (the server has stored its token
  by then and says that it is) and whether its repositories can be listed or not: the card of the login disappears, no poll is
  pending, the account is shown with the repositories that were listed, and the success is
  announced. When the server answers that the login has expired or was denied, the card disappears as well, no
  poll is pending, and a failure is announced.\<close>

theorem device_login_ends:
  assumes "Github_timers s = []" and "asObject flow = flow" and "\<forall>v\<in>set pending. undecided v"
    and "fld (asObject authorized) ''status'' = JStr ''authorized''" and "asObject account = account"
    and "fld (asObject refused) ''status'' = JStr ''expired'' \<or> fld (asObject refused) ''status'' = JStr ''denied''"
  shows "let s1 = poll_rounds st tok pending (snd (snd (start_login st popup tok flow s)));
      r = authorized_round st tok authorized account list s1; s2 = snd (snd r);
      q = poll_round st [AVal (JStr tok), answered refused, AVal JUndef] s1; s3 = snd (snd q)
    in polling flow s1 \<and> Github_flow s1 = flow \<and>
       fst (snd r) = Returned JUndef \<and> Github_flow s2 = JNull \<and> Github_timers s2 = [] \<and> Github_auth s2 = account \<and>
       Github_repositories s2 = (if truthy (fld account ''connected'') then repositories_of list else []) \<and>
       Did (Notify Success t_device_login_done JUndef) (AVal JUndef) \<in> set (events r) \<and>
       fst (snd q) = Returned JUndef \<and> Github_flow s3 = JNull \<and> Github_timers s3 = [] \<and>
       (\<exists>detail. Did (Notify Failure t_device_login_failed detail) (AVal JUndef) \<in> set (events q))"
  using login_waits [OF assms(1-3)] login_authorized [OF _ assms(4,5)] login_refused [OF _ assms(6)]
  unfolding Let_def by blast

theorem device_login_ends_witness:
  "let flow = JObj [(''flow_id'', JStr ''f1''), (''interval'', JNum 5)];
      account = JObj [(''connected'', JBool True), (''login'', JStr ''luke'')];
      s1 = poll_rounds sample_github ''t'' [JObj [(''status'', JStr ''pending'')], JObj []]
        (snd (snd (start_login sample_github JNull ''t'' flow sample_github)));
      s2 = snd (snd (authorized_round sample_github ''t'' (JObj [(''status'', JStr ''authorized'')]) account
        (Some (JObj [(''repositories'', JArr [JStr ''one''])])) s1))
    in polling flow s1 \<and> Github_flow s2 = JNull \<and> Github_timers s2 = [] \<and> Github_repositories s2 = [JStr ''one'']"
  using device_login_ends [where s = sample_github and st = sample_github and popup = JNull and tok = "''t''"
      and flow = "JObj [(''flow_id'', JStr ''f1''), (''interval'', JNum 5)]"
      and pending = "[JObj [(''status'', JStr ''pending'')], JObj []]"
      and authorized = "JObj [(''status'', JStr ''authorized'')]" and refused = "JObj [(''status'', JStr ''denied'')]"
      and account = "JObj [(''connected'', JBool True), (''login'', JStr ''luke'')]"
      and list = "Some (JObj [(''repositories'', JArr [JStr ''one''])])"]
  by (simp add: sample_github_def Github_init_def undecided_def asObject_def repositories_of_def listOf_def Let_def)

text \<open>C31. A cancelled device login keeps polling. When the user cancels while an answer of the polling is
  awaited, the timer is gone and the cancelling has nothing to clear; the answer, if it settles nothing, then
  starts a new timer for the flow that was cancelled, although the page shows no login any more.\<close>

theorem cancelled_login_polls:
  assumes "Github_timers s = [(Github_pollRef s, flow, d)]" and "undecided v"
  shows "let cancel = (\<lambda>s. snd (snd (run_alone (Github_cancelDevice st) [AVal (JStr tok), answered reply] s)));
      s' = snd (snd (run (Github_fire st (Github_pollRef s))
        [(AVal (JStr tok), \<lambda>s. s), (answered v, cancel)] s))
    in Github_flow s' = JNull \<and> Github_timers s' = [(Github_pollRef s', flow, poll_delay v flow)]"
proof -
  have "Github_flow (snd (snd (run_alone (Github_cancelDevice st) [AVal (JStr tok), answered reply] (s\<lparr>Github_timers := []\<rparr>)))) = JNull"
    "Github_timers (snd (snd (run_alone (Github_cancelDevice st) [AVal (JStr tok), answered reply] (s\<lparr>Github_timers := []\<rparr>)))) = []"
    by (simp_all add: Github_cancelDevice_def Github_clearTimeout_def answered_def run_ops
        del: asObject_def handle_response_def)
  then show ?thesis
    by (simp add: poll_undecided [OF assms(2,1)] Let_def)
qed

definition waiting_github :: Github_state where
  "waiting_github = sample_github\<lparr>Github_flow := JObj [(''flow_id'', JStr ''f1'')], Github_pollRef := 3,
     Github_nextTimer := 4, Github_timers := [(3, JObj [(''flow_id'', JStr ''f1'')], 5000)]\<rparr>"

theorem cancelled_login_polls_witness:
  "let s' = snd (snd (run (Github_fire sample_github (Github_pollRef waiting_github))
      [(AVal (JStr ''t''), \<lambda>s. s), (answered (JObj [(''status'', JStr ''pending'')]),
        \<lambda>s. snd (snd (run_alone (Github_cancelDevice sample_github) [AVal (JStr ''t''), answered JNull] s)))]
      waiting_github))
    in Github_flow s' = JNull \<and> length (Github_timers s') = 1"
proof -
  have "Github_timers waiting_github = [(Github_pollRef waiting_github, JObj [(''flow_id'', JStr ''f1'')], 5000)]"
    by (simp add: waiting_github_def)
  moreover have "undecided (JObj [(''status'', JStr ''pending'')])"
    by (simp add: undecided_def asObject_def)
  ultimately show ?thesis
    using cancelled_login_polls [of waiting_github _ 5000 "JObj [(''status'', JStr ''pending'')]" sample_github "''t''" JNull]
    by (simp add: Let_def)
qed

end
