(* ===== verification/Webauthn.thy ===== *)
theory Webauthn imports Page_Base "HOL-Library.Word" begin

text \<open>
  The codec between the panel and the browser's credential interface, \<open>web/assets/app.js\<close>, lines 526 to 569: byte
  buffers as URL-safe base64, the options of a request and of a creation, and the credential sent back.
  Bytes are \<open>8 word\<close>; in a JSON value a buffer is the array of its bytes.
\<close>

subsection \<open>\<open>atob\<close> and \<open>btoa\<close>\<close>

text \<open>The six-bit digits of a byte sequence, and back; decoding drops the bits that are left over.\<close>

fun enc_digits :: "8 word list \<Rightarrow> nat list" where
  "enc_digits (a # b # c # bs) =
     [unat a div 4, unat a mod 4 * 16 + unat b div 16, unat b mod 16 * 4 + unat c div 64, unat c mod 64] @ enc_digits bs"
| "enc_digits [a, b] = [unat a div 4, unat a mod 4 * 16 + unat b div 16, unat b mod 16 * 4]"
| "enc_digits [a] = [unat a div 4, unat a mod 4 * 16]"
| "enc_digits [] = []"

fun dec_digits :: "nat list \<Rightarrow> 8 word list" where
  "dec_digits (w # x # y # z # ds) =
     [of_nat (w * 4 + x div 16), of_nat (x mod 16 * 16 + y div 4), of_nat (y mod 4 * 64 + z)] @ dec_digits ds"
| "dec_digits [w, x, y] = [of_nat (w * 4 + x div 16), of_nat (x mod 16 * 16 + y div 4)]"
| "dec_digits [w, x] = [of_nat (w * 4 + x div 16)]"
| "dec_digits ds = []"

definition b64_char :: "nat \<Rightarrow> char" where
  "b64_char n = ''ABCDEFGHIJKLMNOPQRSTUVWXYZabcdefghijklmnopqrstuvwxyz0123456789+/'' ! n"

definition b64_digit :: "char \<Rightarrow> nat option" where
  "b64_digit c =
     (if 65 \<le> code c \<and> code c \<le> 90 then Some (code c - 65)
      else if 97 \<le> code c \<and> code c \<le> 122 then Some (code c - 71)
      else if 48 \<le> code c \<and> code c \<le> 57 then Some (code c + 4)
      else if c = CHR ''+'' then Some 62
      else if c = CHR ''/'' then Some 63
      else None)"

definition btoa :: "8 word list \<Rightarrow> string" where
  "btoa bs = map b64_char (enc_digits bs) @ replicate ((3 - length bs mod 3) mod 3) (CHR ''='')"

text \<open>The forgiving decoding of the browser: white space is skipped, and of a text whose length is a multiple of
  four up to two trailing equal signs; \<open>None\<close> is an \<open>InvalidCharacterError\<close>.\<close>

definition strip_padding :: "string \<Rightarrow> string" where
  "strip_padding s =
     (if length s mod 4 \<noteq> 0 then s
      else if ends_with s ''=='' then take (length s - 2) s
      else if ends_with s ''='' then take (length s - 1) s else s)"

definition atob :: "string \<Rightarrow> 8 word list option" where
  "atob s =
     (let t = strip_padding (filter (\<lambda>c. code c \<notin> {9, 10, 12, 13, 32}) s)
      in if length t mod 4 = 1 \<or> \<not> list_all (\<lambda>c. b64_digit c \<noteq> None) t then None
         else Some (dec_digits (map (\<lambda>c. the (b64_digit c)) t)))"

subsection \<open>URL-safe base64\<close>

definition base64urlToBuffer :: "string \<Rightarrow> 8 word list option" where
  "base64urlToBuffer v =
     (let normalized = replace_char (CHR ''_'') (CHR ''/'') (replace_char (CHR ''-'') (CHR ''+'') v);
          padded = normalized @ replicate ((4 - js_length normalized mod 4) mod 4) (CHR ''='')
      in atob padded)"

text \<open>\<open>None\<close> is a value that is missing (\<open>undefined\<close> or \<open>null\<close>).\<close>

definition bufferToBase64url :: "8 word list option \<Rightarrow> string" where
  "bufferToBase64url v =
     (case v of None \<Rightarrow> []
      | Some bytes \<Rightarrow>
          rev (dropWhile (\<lambda>c. c = CHR ''='') (rev
            (replace_char (CHR ''/'') (CHR ''_'') (replace_char (CHR ''+'') (CHR ''-'') (btoa bytes))))))"

lemma digit_of_char: "n < 64 \<Longrightarrow> b64_digit (b64_char n) = Some n"
proof -
  have "list_all (\<lambda>n. b64_digit (b64_char n) = Some n) [0..<64]"
    by code_simp
  then show "n < 64 \<Longrightarrow> b64_digit (b64_char n) = Some n"
    by (simp add: list_all_iff)
qed

lemma char_safe: "n < 64 \<Longrightarrow> b64_char n \<notin> {CHR ''='', CHR ''-'', CHR ''_''} \<and> 32 < code (b64_char n) \<and> code (b64_char n) < 128"
proof -
  have "list_all (\<lambda>n. b64_char n \<notin> {CHR ''='', CHR ''-'', CHR ''_''} \<and> 32 < code (b64_char n) \<and> code (b64_char n) < 128) [0..<64]"
    by code_simp
  then show "n < 64 \<Longrightarrow> b64_char n \<notin> {CHR ''='', CHR ''-'', CHR ''_''} \<and> 32 < code (b64_char n) \<and> code (b64_char n) < 128"
    by (simp add: list_all_iff)
qed

lemma byte_bound: "unat (a :: 8 word) < 256"
proof -
  have "unat a < 2 ^ LENGTH(8)" by (rule unsigned_less)
  then show ?thesis by simp
qed

lemma enc_digits_bound: "d \<in> set (enc_digits bs) \<Longrightarrow> d < 64"
proof (induction bs rule: enc_digits.induct)
  case (1 a b c bs)
  then show ?case using byte_bound [of a] byte_bound [of b] byte_bound [of c] by auto
next
  case (2 a b)
  then show ?case using byte_bound [of a] byte_bound [of b] by auto
next
  case (3 a)
  then show ?case using byte_bound [of a] by auto
qed simp

lemma dec_enc: "dec_digits (enc_digits bs) = bs"
proof (induction bs rule: enc_digits.induct)
  case (1 a b c bs)
  have "unat b div 16 < 16" "unat c div 64 < 4" using byte_bound by (simp_all add: less_mult_imp_div_less)
  with 1 show ?case by simp
next
  case (2 a b)
  have "unat b div 16 < 16" using byte_bound by (simp add: less_mult_imp_div_less)
  then show ?case by simp
qed simp_all

lemma length_enc_digits: "length (enc_digits bs) = 4 * (length bs div 3) + (if length bs mod 3 = 0 then 0 else length bs mod 3 + 1)"
  by (induction bs rule: enc_digits.induct) simp_all

lemma plain_enc [simp]: "map ((\<lambda>c. the (b64_digit c)) \<circ> b64_char) (enc_digits bs) = enc_digits bs"
  using enc_digits_bound by (auto intro!: map_idI simp: digit_of_char comp_def)

text \<open>The URL-safe text of a byte sequence, and what undoing the replacements gives.\<close>

lemma url_text: "bufferToBase64url (Some bs) =
    replace_char (CHR ''/'') (CHR ''_'') (replace_char (CHR ''+'') (CHR ''-'') (map b64_char (enc_digits bs)))"
    (is "_ = ?t")
proof -
  have no_pad: "CHR ''='' \<notin> set ?t"
    using enc_digits_bound char_safe by (fastforce simp: replace_char_def)
  have "dropWhile (\<lambda>c. c = CHR ''='') (replicate n (CHR ''='') @ rev ?t) = rev ?t" for n
    using no_pad by (induction n) (auto intro: dropWhile_none)
  moreover have "replace_char a b (replicate n c) = replicate n (if c = a then b else c)" for a b c n
    by (simp add: replace_char_def)
  ultimately show ?thesis
    by (simp add: bufferToBase64url_def btoa_def replace_char_def)
qed

lemma url_text_back:
  "replace_char (CHR ''_'') (CHR ''/'') (replace_char (CHR ''-'') (CHR ''+'') (bufferToBase64url (Some bs))) =
     map b64_char (enc_digits bs)"
proof -
  have "c \<noteq> CHR ''-'' \<and> c \<noteq> CHR ''_''" if "c \<in> set (map b64_char (enc_digits bs))" for c
    using that enc_digits_bound char_safe by fastforce
  then show ?thesis
    unfolding url_text replace_char_def by (auto intro!: map_idI simp: comp_def)
qed

lemma strip_padding_padded:
  assumes "CHR ''='' \<notin> set t" and "length t mod 4 \<noteq> 1"
  shows "strip_padding (t @ replicate ((4 - length t mod 4) mod 4) (CHR ''='')) = t"
proof -
  have "length t mod 4 < 4" by simp
  then consider "length t mod 4 = 0" | "length t mod 4 = 2" | "length t mod 4 = 3"
    using assms(2) by linarith
  then show ?thesis
  proof cases
    case 1
    then show ?thesis
      using assms(1) by (cases t rule: rev_cases) (auto simp: strip_padding_def ends_with_def suffix_def)
  next
    case 2
    then have "(length t + 2) mod 4 = 0" by presburger
    with 2 show ?thesis by (simp add: strip_padding_def ends_with_def suffix_def numeral_2_eq_2)
  next
    case 3
    then have "(length t + 1) mod 4 = 0" by presburger
    with 3 assms(1) show ?thesis
      by (cases t rule: rev_cases) (auto simp: strip_padding_def ends_with_def suffix_def)
  qed
qed

lemma length_enc_mod: "length (enc_digits bs) mod 4 \<noteq> 1"
proof -
  have "length bs mod 3 < 3" by simp
  then consider "length bs mod 3 = 0" | "length bs mod 3 = 1" | "length bs mod 3 = 2" by linarith
  then show ?thesis unfolding length_enc_digits by cases (presburger | simp)+
qed

lemma base64_roundtrip: "base64urlToBuffer (bufferToBase64url (Some bs)) = Some bs"
proof -
  let ?t = "map b64_char (enc_digits bs)"
  have chars: "c \<noteq> CHR ''='' \<and> 32 < code c \<and> code c < 128 \<and> b64_digit c \<noteq> None" if "c \<in> set ?t" for c
    using that enc_digits_bound char_safe digit_of_char by fastforce
  then have eq: "CHR ''='' \<notin> set ?t" and ascii: "\<forall>c\<in>set ?t. code c < 128" by blast+
  have len: "js_length ?t = length ?t"
    using ascii_chars [OF ascii] by (simp add: js_length_def units_def comp_def sum_list_triv)
  have pad: "filter (\<lambda>c. code c \<notin> {9, 10, 12, 13, 32}) (?t @ replicate n (CHR ''='')) = ?t @ replicate n (CHR ''='')" for n
  proof (rule filter_True, rule ballI)
    fix c assume "c \<in> set (?t @ replicate n (CHR ''=''))"
    then have "32 < code c" using chars by (auto simp: code_def)
    then show "code c \<notin> {9, 10, 12, 13, 32}" by auto
  qed
  have "strip_padding (?t @ replicate ((4 - length ?t mod 4) mod 4) (CHR ''='')) = ?t"
    by (rule strip_padding_padded [OF eq]) (use length_enc_mod [of bs] in simp)
  then have "atob (?t @ replicate ((4 - length ?t mod 4) mod 4) (CHR ''='')) = Some (dec_digits (map (\<lambda>c. the (b64_digit c)) ?t))"
    unfolding atob_def pad Let_def using chars length_enc_mod by (simp add: list_all_iff)
  then show ?thesis
    unfolding base64urlToBuffer_def url_text_back Let_def len by (simp add: dec_enc)
qed

subsection \<open>Options and credentials\<close>

definition buffer_json :: "8 word list \<Rightarrow> json" where
  "buffer_json bs = JArr (map (\<lambda>b. JNum (of_nat (unat b))) bs)"

definition json_buffer :: "json \<Rightarrow> 8 word list option" where
  "json_buffer v = (if nullish v then None else Some (map (\<lambda>x. of_int \<lfloor>number x\<rfloor>) (array_of v)))"

definition res_bind :: "cause + 'a \<Rightarrow> ('a \<Rightarrow> cause + 'b) \<Rightarrow> cause + 'b" where
  "res_bind r f = (case r of Inl c \<Rightarrow> Inl c | Inr v \<Rightarrow> f v)"

text \<open>\<open>typeof v === 'string' ? base64urlToBuffer(v) : v\<close>, and \<open>v.map(f)\<close> with an \<open>f\<close> that may throw.\<close>

definition decode_text :: "json \<Rightarrow> cause + json" where
  "decode_text v = (case v of
       JStr s \<Rightarrow> (case base64urlToBuffer s of Some bs \<Rightarrow> Inr (buffer_json bs)
                 | None \<Rightarrow> Inl (Dom_exception ''InvalidCharacterError'' ''atob''))
     | _ \<Rightarrow> Inr v)"

definition map_array :: "(json \<Rightarrow> cause + json) \<Rightarrow> json \<Rightarrow> cause + json" where
  "map_array f v = (case v of JArr xs \<Rightarrow> try_map f xs | _ \<Rightarrow> Inl (Js_error ''map is not a function''))"

definition credential_descriptor :: "json \<Rightarrow> cause + json" where
  "credential_descriptor item =
     (if nullish item then Inl (Js_error ''cannot read properties of null'')
      else res_bind (decode_text (fld item ''id''))
        (\<lambda>i. Inr (JObj [(''type'', jor (fld item ''type'') (JStr ''public-key'')), (''id'', i),
                        (''transports'', fld item ''transports'')])))"

definition normalizeRequestOptions :: "json \<Rightarrow> cause + json" where
  "normalizeRequestOptions options =
     (if nullish options then Inl (Js_error ''cannot read properties of null'')
      else let allow = jor (jor (fld options ''allowCredentials'') (fld options ''allow_credentials'')) (JArr [])
      in res_bind (decode_text (fld options ''challenge'')) (\<lambda>challenge.
         res_bind (map_array credential_descriptor allow) (\<lambda>creds.
         Inr (JObj [(''challenge'', challenge),
                    (''rpId'', jor (fld options ''rpId'') (fld options ''rp_id'')),
                    (''timeout'', jor (fld options ''timeout'') (JNum 60000)),
                    (''userVerification'', jor (jor (fld options ''userVerification'') (fld options ''user_verification''))
                       (JStr ''required'')),
                    (''allowCredentials'', creds)]))))"

definition normalizeCreationOptions :: "json \<Rightarrow> cause + json" where
  "normalizeCreationOptions options =
     (if nullish options then Inl (Js_error ''cannot read properties of null'')
      else let user = jor (fld options ''user'') (JObj []);
          selection = jor (fld options ''authenticatorSelection'') (fld options ''authenticator_selection'');
          excluded = jor (jor (fld options ''excludeCredentials'') (fld options ''exclude_credentials'')) (JArr [])
      in res_bind (decode_text (fld options ''challenge'')) (\<lambda>challenge.
         res_bind (decode_text (fld user ''id'')) (\<lambda>user_id.
         res_bind (map_array credential_descriptor excluded) (\<lambda>creds.
         Inr (JObj [(''challenge'', challenge), (''rp'', fld options ''rp''),
                    (''user'', JObj [(''id'', user_id), (''name'', fld user ''name''),
                       (''displayName'', jor (jor (fld user ''displayName'') (fld user ''display_name'')) (fld user ''name''))]),
                    (''pubKeyCredParams'', jor (jor (fld options ''pubKeyCredParams'') (fld options ''pub_key_cred_params''))
                       (JArr [JObj [(''type'', JStr ''public-key''), (''alg'', JNum (- 7))]])),
                    (''timeout'', jor (fld options ''timeout'') (JNum 60000)),
                    (''attestation'', jor (fld options ''attestation'') (JStr ''none'')),
                    (''authenticatorSelection'',
                     if truthy selection
                       then JObj [(''residentKey'', jor (jor (fld selection ''residentKey'') (fld selection ''resident_key''))
                                      (JStr ''required'')),
                                  (''userVerification'',
                                   jor (jor (fld selection ''userVerification'') (fld selection ''user_verification''))
                                      (JStr ''required''))]
                     else JObj [(''residentKey'', JStr ''required''), (''userVerification'', JStr ''required'')]),
                    (''excludeCredentials'', creds)])))))"

text \<open>The credential of the browser: its buffers are arrays of bytes, and \<open>transports\<close> is what \<open>getTransports\<close>
  returns, missing when there is no such function.\<close>

definition encode_buffer :: "json \<Rightarrow> json" where
  "encode_buffer v = JStr (bufferToBase64url (json_buffer v))"

definition encode_if_there :: "json \<Rightarrow> json" where
  "encode_if_there v = (if truthy v then encode_buffer v else JUndef)"

definition serializeCredential :: "json \<Rightarrow> json" where
  "serializeCredential credential =
     (let response = fld credential ''response''
      in JObj [(''id'', fld credential ''id''), (''raw_id'', encode_buffer (fld credential ''rawId'')),
               (''response'', JObj
                  [(''client_data_json'', encode_buffer (fld response ''clientDataJSON'')),
                   (''authenticator_data'', encode_if_there (fld response ''authenticatorData'')),
                   (''signature'', encode_if_there (fld response ''signature'')),
                   (''user_handle'', encode_if_there (fld response ''userHandle'')),
                   (''attestation_object'', encode_if_there (fld response ''attestationObject'')),
                   (''transports'', fld response ''transports'')])])"

lemma json_buffer_back [simp]: "json_buffer (buffer_json bs) = Some bs"
proof -
  have "of_int \<lfloor>of_nat (unat b) :: rat\<rfloor> = b" for b :: "8 word"
    unfolding floor_of_nat by simp
  then have "map (\<lambda>b. of_int \<lfloor>of_nat (unat b) :: rat\<rfloor>) bs = bs"
    by (intro map_idI)
  then show ?thesis
    by (simp add: json_buffer_def buffer_json_def nullish_def array_of_def number_def number_or_def comp_def
        del: of_nat_unat)
qed

lemma decode_text_encoded [simp]:
  "decode_text (JStr (bufferToBase64url (Some bs))) = Inr (buffer_json bs)"
  by (simp add: decode_text_def base64_roundtrip)

lemma decode_encode [simp]: "decode_text (encode_buffer (buffer_json bs)) = Inr (buffer_json bs)"
  by (simp add: encode_buffer_def)

lemma truthy_buffer [simp]: "truthy (buffer_json bs)"
  by (simp add: buffer_json_def)

lemma res_bind_simps [simp]: "res_bind (Inl c) f = Inl c" "res_bind (Inr v) f = f v"
  by (simp_all add: res_bind_def)

subsection \<open>Properties\<close>

text \<open>C26. The two ends of the codec agree: every byte sequence is read back from the text it is sent as, that
  text has only letters, digits, minus and underscore (no padding), and different sequences have different texts.\<close>

theorem base64url_codec:
  "base64urlToBuffer (bufferToBase64url (Some bs)) = Some bs \<and>
   list_all (\<lambda>c. c = CHR ''-'' \<or> c = CHR ''_'' \<or> b64_digit c \<noteq> None \<and> c \<noteq> CHR ''+'' \<and> c \<noteq> CHR ''/'')
     (bufferToBase64url (Some bs)) \<and>
   (bufferToBase64url (Some bs) = bufferToBase64url (Some cs) \<longleftrightarrow> bs = cs)"
proof (intro conjI)
  show "base64urlToBuffer (bufferToBase64url (Some bs)) = Some bs" by (rule base64_roundtrip)
  have "b64_digit c \<noteq> None" if "c \<in> set (map b64_char (enc_digits bs))" for c
    using that enc_digits_bound digit_of_char by fastforce
  then show "list_all (\<lambda>c. c = CHR ''-'' \<or> c = CHR ''_'' \<or> b64_digit c \<noteq> None \<and> c \<noteq> CHR ''+'' \<and> c \<noteq> CHR ''/'')
     (bufferToBase64url (Some bs))"
    unfolding url_text replace_char_def by (auto simp: list_all_iff split: if_splits)
  show "bufferToBase64url (Some bs) = bufferToBase64url (Some cs) \<longleftrightarrow> bs = cs"
    by (metis base64_roundtrip option.inject)
qed

text \<open>The options of a request as the server may spell them, in either naming style, for the given bytes.\<close>

definition request_options :: "bool \<Rightarrow> 8 word list \<Rightarrow> string \<Rightarrow> rat \<Rightarrow> 8 word list list \<Rightarrow> json" where
  "request_options camel challenge rp timeout ids =
     (let style = (\<lambda>c s. if camel then c else s)
      in JObj [(''challenge'', JStr (bufferToBase64url (Some challenge))), (style ''rpId'' ''rp_id'', JStr rp),
           (''timeout'', JNum timeout), (style ''userVerification'' ''user_verification'', JStr ''preferred''),
           (style ''allowCredentials'' ''allow_credentials'',
            JArr (map (\<lambda>i. JObj [(''type'', JStr ''public-key''), (''id'', JStr (bufferToBase64url (Some i)))]) ids))])"

text \<open>C32. Both spellings of the server's options mean the same to the browser: for any challenge, relying party,
  time limit and list of credentials, the camel-case and the snake-case form are normalised to the same request,
  with the challenge and the identifiers as the bytes they were encoded from.\<close>

theorem request_options_spellings:
  assumes "rp \<noteq> []" and "timeout \<noteq> 0"
  shows "normalizeRequestOptions (request_options camel challenge rp timeout ids) =
    Inr (JObj [(''challenge'', buffer_json challenge), (''rpId'', JStr rp), (''timeout'', JNum timeout),
      (''userVerification'', JStr ''preferred''),
      (''allowCredentials'', JArr (map (\<lambda>i. JObj [(''type'', JStr ''public-key''), (''id'', buffer_json i),
         (''transports'', JUndef)]) ids))])"
proof -
  have creds: "try_map credential_descriptor
      (map (\<lambda>i. JObj [(''type'', JStr ''public-key''), (''id'', JStr (bufferToBase64url (Some i)))]) ids) =
    Inr (JArr (map (\<lambda>i. JObj [(''type'', JStr ''public-key''), (''id'', buffer_json i), (''transports'', JUndef)]) ids))"
    by (induction ids) (simp_all add: credential_descriptor_def jor_def nullish_def)
  show ?thesis
    using assms creds
    by (cases camel) (simp_all add: normalizeRequestOptions_def request_options_def Let_def jor_def map_array_def nullish_def)
qed

theorem request_options_spellings_witness:
  "normalizeRequestOptions (request_options True [1, 2, 255] ''panel.example'' 30000 [[7]]) =
   normalizeRequestOptions (request_options False [1, 2, 255] ''panel.example'' 30000 [[7]])"
  using request_options_spellings [of "''panel.example''" 30000 _ "[1, 2, 255]" "[[7]]"] by simp

end
