(* ===== verification/Login_Page.thy ===== *)
theory Login_Page imports Webauthn begin

text \<open>
  The login page, \<open>web/assets/app.js\<close>, lines 447 to 525: the version shown and whether the browser knows passkeys
  are fields of its state, \<open>onAuthenticated\<close> and the browser's credential store are calls that may fail.
\<close>

subsection \<open>Reading a cause\<close>

text \<open>\<open>instanceof\<close> tests, and the members of an error that the handlers read.\<close>

definition is_api_error :: "cause \<Rightarrow> bool" where
  "is_api_error c = (case c of Api_error e \<Rightarrow> True | _ \<Rightarrow> False)"

definition is_dom_exception :: "cause \<Rightarrow> bool" where
  "is_dom_exception c = (case c of Dom_exception n m \<Rightarrow> True | _ \<Rightarrow> False)"

definition cause_code :: "cause \<Rightarrow> json" where
  "cause_code c = (case c of Api_error e \<Rightarrow> JStr (e_code e) | _ \<Rightarrow> JUndef)"

definition cause_message :: "cause \<Rightarrow> json" where
  "cause_message c = (case c of Api_error e \<Rightarrow> JStr (e_message e) | Js_error m \<Rightarrow> JStr m
     | Dom_exception n m \<Rightarrow> JStr m | _ \<Rightarrow> JUndef)"

definition cause_name :: "cause \<Rightarrow> json" where
  "cause_name c = (case c of Dom_exception n m \<Rightarrow> JStr n | _ \<Rightarrow> JUndef)"

subsection \<open>Signing in\<close>

record Login_state =
  Login_version :: string
  Login_passkeys :: bool
  Login_username :: string
  Login_password :: string
  Login_totp :: string
  Login_totpRequired :: bool
  Login_busy :: bool

definition Login_changeUsername :: "Login_state \<Rightarrow> json \<Rightarrow> Login_state io" where
  "Login_changeUsername st v =
     steps [set_state (\<lambda>s. s\<lparr>Login_username := jstring v\<rparr>),
            set_state (\<lambda>s. s\<lparr>Login_totpRequired := False\<rparr>),
            set_state (\<lambda>s. s\<lparr>Login_totp := []\<rparr>)]"

definition Login_changePassword :: "Login_state \<Rightarrow> json \<Rightarrow> Login_state io" where
  "Login_changePassword st v =
     steps [set_state (\<lambda>s. s\<lparr>Login_password := jstring v\<rparr>),
            set_state (\<lambda>s. s\<lparr>Login_totpRequired := False\<rparr>),
            set_state (\<lambda>s. s\<lparr>Login_totp := []\<rparr>)]"

definition Login_submit :: "Login_state \<Rightarrow> json \<Rightarrow> Login_state io" where
  "Login_submit st ev =
     steps
       [perform Prevent_default, set_state (\<lambda>s. s\<lparr>Login_busy := True\<rparr>),
        try_finally
          (try_catch (bnd (api ''/api/v1/auth/login''
                             (with_body ''POST''
                                (jsonBody (JObj [(''username'', JStr (js_trim (Login_username st))),
                                                 (''password'', JStr (Login_password st)),
                                                 (''otp'', JStr (js_trim (Login_totp st)))]))))
                        (\<lambda>result. perform (Prop_call ''onAuthenticated'' [result])))
             (\<lambda>cause.
                if is_api_error cause \<and>
                   (cause_code cause = JStr ''totp_required'' \<or>
                    cause_code cause = JStr ''totp_invalid'')
                  then steps
                         [set_state (\<lambda>s. s\<lparr>Login_totpRequired := True\<rparr>),
                          notify
                            (if cause_code cause = JStr ''totp_required'' then Info else Failure)
                            (if cause_code cause = JStr ''totp_required'' then t_totp_needed
                             else t_totp_wrong)
                            (if cause_code cause = JStr ''totp_invalid'' then cause_message cause
                             else JUndef)]
                else notify Failure t_login_failed (JStr (errorDetail cause))))
          (set_state (\<lambda>s. s\<lparr>Login_busy := False\<rparr>))]"

definition Login_passkey :: "Login_state \<Rightarrow> Login_state io" where
  "Login_passkey st =
     steps
       [set_state (\<lambda>s. s\<lparr>Login_busy := True\<rparr>),
        try_finally
          (try_catch
             (bnd (api ''/api/v1/auth/passkey/login/begin'' (with_body ''POST'' (Text_body ''{}'')))
                (\<lambda>begin.
                   bnd (lift_result
                          (normalizeRequestOptions
                             (jor (jor (fld begin ''public_key'') (fld begin ''options'')) begin)))
                     (\<lambda>publicKey.
                        bnd (perform (Prop_call ''navigator.credentials.get''
                                        [JObj [(''publicKey'', publicKey)]]))
                          (\<lambda>credential.
                             if \<not> truthy credential then Throw (Js_error t_no_passkey_credential)
                             else bnd (api ''/api/v1/auth/passkey/login/finish''
                                         (with_body ''POST''
                                            (jsonBody (JObj [(''flow_id'', fld begin ''flow_id''),
                                                             (''credential'',
                                                              serializeCredential credential)]))))
                                    (\<lambda>result. perform (Prop_call ''onAuthenticated'' [result]))))))
             (\<lambda>cause.
                if is_dom_exception cause \<and>
                   (cause_name cause = JStr ''NotAllowedError'' \<or>
                    cause_name cause = JStr ''AbortError'')
                  then notify Info t_passkey_cancelled JUndef
                else notify Failure t_passkey_failed (JStr (errorDetail cause))))
          (set_state (\<lambda>s. s\<lparr>Login_busy := False\<rparr>))]"

definition Login_view :: "route \<Rightarrow> Login_state \<Rightarrow> Login_state vnode" where
  "Login_view route st =
     El ''main'' [(''className'', JStr ''login-layout'')] []
       [El ''section'' [(''className'', JStr ''login-brand'')] []
          [El ''div'' [(''className'', JStr ''brand-mark'')] []
             [El ''img'' [(''src'', JStr ''/assets/lukepanel-icon-192.png''), (''alt'', JStr [])] [] [],
              El ''div'' [] [] [El ''strong'' [] [] [Txt ''LukePanel''],
                                El ''span'' [] [] [Txt ''SERVER CONTROL'']]],
           El ''div'' [(''className'', JStr ''login-hero'')] []
             [El ''span'' [(''className'', JStr ''eyebrow'')] [] [Txt ''LIGHTWEIGHT SERVER CONTROL''],
              El ''h1'' [] [] [Txt t_login_hero], El ''p'' [] [] [Txt t_login_lead]],
           El ''footer'' [] [] [Txt ''LukePanel '', Txt (Login_version st), Txt t_react_suffix]],
        El ''section'' [(''className'', JStr ''login-panel'')] []
          [El ''form'' [(''className'', JStr ''login-card'')]
             [(''onSubmit'', \<lambda>ev. Login_submit st ev)]
             ([El ''div'' [(''className'', JStr ''login-card-title'')] []
                 [El ''img'' [(''src'', JStr ''/assets/favicon-64.png''), (''alt'', JStr [])] [] [],
                  El ''h2'' [] [] [Txt t_login_title]]] @
              (if Login_passkeys st
                 then [Button [(''icon'', JStr ''fingerprint''), (''tone'', JStr ''primary''),
                               (''busy'', JBool (Login_busy st)),
                               (''className'', JStr ''full-width passkey-login-button'')]
                         [(''onClick'', \<lambda>ev. Login_passkey st)] [Txt t_passkey_login]]
               else []) @
              [El ''div'' [(''className'', JStr ''login-divider'')] []
                 [El ''span'' [] [] [Txt t_account_password]],
               Field [(''label'', JStr t_username)]
                 [TextInput
                    [(''name'', JStr ''username''), (''autoCapitalize'', JStr ''none''),
                     (''autoCorrect'', JStr ''off''), (''autoComplete'', JStr ''username''),
                     (''value'', JStr (Login_username st)), (''required'', JBool True)]
                    [(''onChange'', \<lambda>ev. Login_changeUsername st (fld ev ''value''))]],
               Field [(''label'', JStr t_password)]
                 [TextInput [(''name'', JStr ''password''), (''type'', JStr ''password''),
                             (''autoComplete'', JStr ''current-password''),
                             (''value'', JStr (Login_password st)), (''required'', JBool True)]
                    [(''onChange'', \<lambda>ev. Login_changePassword st (fld ev ''value''))]]] @
              (if Login_totpRequired st
                 then [Field [(''label'', JStr t_otp_or_recovery)]
                         [SecondFactorInput
                            [(''name'', JStr ''otp''), (''value'', JStr (Login_totp st)),
                             (''autoFocus'', JBool True), (''required'', JBool True)]
                            [(''onChange'',
                              \<lambda>ev. set_state (\<lambda>s. s\<lparr>Login_totp := jstring (fld ev ''value'')\<rparr>))]]]
               else []) @
              [Button [(''type'', JStr ''submit''), (''busy'', JBool (Login_busy st)),
                       (''className'', JStr ''full-width'')]
                 [] [Txt (if Login_totpRequired st then t_verify_and_login else t_password_login)]])]]"

definition Login_init :: "string \<Rightarrow> bool \<Rightarrow> Login_state" where
  "Login_init version passkeys = \<lparr>Login_version = version, Login_passkeys = passkeys, Login_username = [],
     Login_password = [], Login_totp = [], Login_totpRequired = False, Login_busy = False\<rparr>"

subsection \<open>Who is signed in\<close>

text \<open>The payload \<open>v\<close> is the server's answer to a completed sign-in; a call of \<open>onAuthenticated\<close>; and the rule
  that it comes once, after such an answer, with that answer.\<close>

definition login_answered :: "(eff \<times> answer) list \<Rightarrow> json \<Rightarrow> bool" where
  "login_answered h v \<longleftrightarrow> (\<exists>r p. (Fetch r, AResp p) \<in> set h \<and> is_ok p \<and> v = parsePayload p \<and>
     req_method r = ''POST'' \<and>
     (req_url r = ''/api/v1/auth/login'' \<or> req_url r = ''/api/v1/auth/passkey/login/finish''))"

definition signs_in :: "eff \<Rightarrow> bool" where
  "signs_in e = (case e of Prop_call n vs \<Rightarrow> n = ''onAuthenticated'' | _ \<Rightarrow> False)"

definition login_rule :: "(eff \<times> answer) list \<Rightarrow> eff \<Rightarrow> bool" where
  "login_rule h e = (case e of
       Prop_call n vs \<Rightarrow> n = ''onAuthenticated'' \<longrightarrow>
         (\<exists>v. vs = [v] \<and> login_answered h v) \<and> \<not> list_ex (\<lambda>(e, a). signs_in e) h
     | _ \<Rightarrow> True)"

definition login_ok :: "Login_state io \<Rightarrow> bool" where
  "login_ok m \<longleftrightarrow> (\<forall>s. wp login_rule hist_upd m (\<lambda>_ _ _. True) (\<lambda>_ _ _. False) [] s)"

lemma login_rule_simps [simp]:
  "login_rule h Read_csrf" "login_rule h (Fetch r)" "login_rule h Call_unauthorized" "login_rule h (Notify k t d)"
  "login_rule h Prevent_default" "n \<noteq> ''onAuthenticated'' \<Longrightarrow> login_rule h (Prop_call n vs)"
  "\<not> signs_in Read_csrf" "\<not> signs_in (Fetch r)" "\<not> signs_in Call_unauthorized" "\<not> signs_in Prevent_default"
  "signs_in (Prop_call n vs) \<longleftrightarrow> n = ''onAuthenticated''"
  by (simp_all add: login_rule_def signs_in_def)

lemma login_rule_call:
  "login_rule h (Prop_call ''onAuthenticated'' [v]) \<longleftrightarrow>
     login_answered h v \<and> \<not> list_ex (\<lambda>(e, a). signs_in e) h"
  by (simp add: login_rule_def)

lemma login_answeredI:
  "(Fetch (mk_request url (with_body ''POST'' b) t), AResp p) \<in> set h \<Longrightarrow> is_ok p \<Longrightarrow>
   url = ''/api/v1/auth/login'' \<or> url = ''/api/v1/auth/passkey/login/finish'' \<Longrightarrow> login_answered h (parsePayload p)"
  unfolding login_answered_def by (intro exI [of _ "mk_request url (with_body ''POST'' b) t"] exI [of _ p]) auto

text \<open>A POST from a history without a call of \<open>onAuthenticated\<close>.\<close>

lemma wp_login_api:
  assumes "\<not> list_ex (\<lambda>(e, a). signs_in e) h"
    and "\<And>h' v s'. \<not> list_ex (\<lambda>(e, a). signs_in e) h' \<Longrightarrow>
      (url = ''/api/v1/auth/login'' \<or> url = ''/api/v1/auth/passkey/login/finish'' \<longrightarrow> login_answered h' v) \<Longrightarrow> Q v h' s'"
    and "\<And>h' c s'. E c h' s'"
  shows "wp login_rule hist_upd (api url (with_body ''POST'' b)) Q E h s"
  using assms(1)
  by (auto simp: api_def handle_response_def Let_def io_simps perform_def hist_upd_def
      intro!: assms(2,3)) (auto intro!: login_answeredI)

lemma login_handlers_ok [simp]:
  "login_ok (Login_submit st ev)" "login_ok (Login_passkey st)" "login_ok (set_state f)"
  "login_ok (Login_changeUsername st v)" "login_ok (Login_changePassword st v)"
proof -
  show "login_ok (Login_submit st ev)"
    unfolding login_ok_def Login_submit_def
    by (auto simp: io_simps perform_def hist_upd_def login_rule_call notify_def intro!: wp_login_api
        split: answer.splits)
  show "login_ok (Login_passkey st)"
    unfolding login_ok_def Login_passkey_def
    by (auto simp: io_simps perform_def hist_upd_def login_rule_call notify_def lift_result_def intro!: wp_login_api
        split: answer.splits sum.splits)
qed (simp_all add: login_ok_def io_simps Login_changeUsername_def Login_changePassword_def)

lemma Login_shows [simp]:
  "shows_ok R (Login_submit st ev)" "shows_ok R (Login_passkey st)" "shows_ok R (Login_changeUsername st v)"
  "shows_ok R (Login_changePassword st v)"
  by (simp_all add: Login_submit_def Login_passkey_def Login_changeUsername_def Login_changePassword_def)

lemma login_handler_ok [simp]: "login_ok m \<Longrightarrow> shows_ok login_ok m \<Longrightarrow> handler_ok login_ok m"
  by (simp add: handler_ok_def)

lemma Login_handlers_safe [simp]:
  "safe (\<lambda>_. False) (Login_submit st ev)" "safe (\<lambda>_. False) (Login_passkey st)"
  "safe (\<lambda>_. False) (Login_changeUsername st v)" "safe (\<lambda>_. False) (Login_changePassword st v)"
  by (auto simp: Login_submit_def Login_passkey_def Login_changeUsername_def Login_changePassword_def io_simps
      intro!: safeI io_rules)

interpretation login: page "Login_view route" "\<lambda>_. False"
  by unfold_locales (simp add: Login_view_def)



definition sample_login :: Login_state where
  "sample_login = (Login_init ''v2'' True)\<lparr>Login_username := ''luke'', Login_password := ''pw''\<rparr>"



text \<open>A refusal that asks for the second factor.\<close>

definition factor_refusal :: "string \<Rightarrow> answer" where
  "factor_refusal c = AResp \<lparr>resp_status = 401, resp_type = ''application/json'',
     resp_json = Some (JObj [(''code'', JStr c)]), resp_text = None\<rparr>"

lemma factor_cause:
  assumes "c = ''totp_required'' \<or> c = ''totp_invalid''"
  shows "is_api_error (request_failed 401 (JObj [(''code'', JStr c)]))"
    and "cause_code (request_failed 401 (JObj [(''code'', JStr c)])) = JStr c"
  using assms by (auto simp: request_failed_def ApiError_def is_api_error_def cause_code_def text_or_def jor_def)

lemma factor_handled:
  assumes "c = ''totp_required'' \<or> c = ''totp_invalid''"
  shows "handle_response \<lparr>resp_status = 401, resp_type = ''application/json'',
      resp_json = Some (JObj [(''code'', JStr c)]), resp_text = None\<rparr> =
    Throw (request_failed 401 (JObj [(''code'', JStr c)]))"
  using assms by (auto simp: handle_response_def parsePayload_def str_includes_def session_lost_def is_ok_def
      asObject_def seqs_def bnd_def)

lemma factor_run:
  assumes "c = ''totp_required'' \<or> c = ''totp_invalid''"
  shows "\<exists>t d e1 e2 e3. run_alone (Login_submit st ev) [AVal JUndef, AVal (JStr tok), factor_refusal c, AVal JUndef] s =
    ([e1, e2, e3, Did (Notify (if c = ''totp_required'' then Info else Failure) t d) (AVal JUndef)],
     Returned JUndef, s\<lparr>Login_totpRequired := True, Login_busy := False\<rparr>)"
  using assms
  by (auto simp: Login_submit_def factor_refusal_def factor_handled [OF assms] factor_cause [OF assms] run_ops
      simp del: handle_response_def)

text \<open>The second factor. When the server refuses a password login because the code is missing or wrong, the
  page asks for the code and says which of the two it was; it keeps the name, the password and the code typed,
  and is not busy any more. Changing the name or the password afterwards takes the question back and forgets
  the code, so that a code is never sent with other credentials than those it was asked for.\<close>

theorem second_factor_asked:
  assumes "c = ''totp_required'' \<or> c = ''totp_invalid''"
  shows "let r = run_alone (Login_submit st ev) [AVal JUndef, AVal (JStr tok), factor_refusal c, AVal JUndef] s;
      s' = snd (snd r); typed = (\<lambda>m. snd (snd (run_alone m [] s')))
    in fst (snd r) = Returned JUndef \<and> s' = s\<lparr>Login_totpRequired := True, Login_busy := False\<rparr> \<and>
       (\<exists>t d. last (events r) = Did (Notify (if c = ''totp_required'' then Info else Failure) t d) (AVal JUndef)) \<and>
       (let s1 = typed (Login_changePassword st v); s2 = typed (Login_changeUsername st v)
        in s1 = s'\<lparr>Login_password := jstring v, Login_totpRequired := False, Login_totp := []\<rparr> \<and>
           s2 = s'\<lparr>Login_username := jstring v, Login_totpRequired := False, Login_totp := []\<rparr>)"
proof -
  from factor_run [OF assms] obtain t d e1 e2 e3 where
    run: "run_alone (Login_submit st ev) [AVal JUndef, AVal (JStr tok), factor_refusal c, AVal JUndef] s =
      ([e1, e2, e3, Did (Notify (if c = ''totp_required'' then Info else Failure) t d) (AVal JUndef)],
       Returned JUndef, s\<lparr>Login_totpRequired := True, Login_busy := False\<rparr>)" by blast
  show ?thesis
    unfolding run Let_def
    by (simp add: Login_changePassword_def Login_changeUsername_def run_ops)
qed

theorem second_factor_asked_witness:
  "Login_totpRequired (snd (snd (run_alone (Login_submit sample_login JUndef)
     [AVal JUndef, AVal (JStr []), factor_refusal ''totp_required'', AVal JUndef] sample_login)))"
  using second_factor_asked [of "''totp_required''" sample_login JUndef "[]" sample_login JUndef] by (simp add: Let_def)

end
