(* ===== verification/Security_Page.thy ===== *)
theory Security_Page imports Page_Base begin

text \<open>
  The security page, \<open>web/assets/app.js\<close>, lines 2910 to 3177. The origin of the panel's own address, from which the
  recovery page is named, is a field of its state.
\<close>

subsection \<open>The security page\<close>

record Security_state =
  Security_origin :: string
  Security_tab :: string
  Security_report :: json
  Security_firewall :: json
  Security_fail2ban :: json
  Security_allowlist :: json
  Security_notifications :: json
  Security_allowlistText :: string
  Security_notificationForm :: json
  Security_rule :: json
  Security_ignoreEntry :: string
  Security_loading :: bool
  Security_working :: bool
  Security_error :: string

definition Security_reload :: "Security_state \<Rightarrow> Security_state io" where
  "Security_reload st =
     steps
       [set_state (\<lambda>s. s\<lparr>Security_loading := True\<rparr>),
        set_state (\<lambda>s. s\<lparr>Security_error := []\<rparr>),
        try_finally
          (try_catch
             (bnd (promise_all [api ''/api/v1/security/status'' empty_init,
                                api ''/api/v1/security/firewall'' empty_init,
                                api ''/api/v1/security/fail2ban'' empty_init,
                                api ''/api/v1/security/ip-allowlist'' empty_init,
                                api ''/api/v1/security/login-notifications'' empty_init])
                (\<lambda>r1.
                   let a = idx r1 0;
                       b = idx r1 1;
                       c = idx r1 2;
                       d = idx r1 3;
                       e = idx r1 4
                   in let access = asObject d
                      in let notify = asObject e
                         in steps
                              [set_state (\<lambda>s. s\<lparr>Security_report := asObject a\<rparr>),
                               set_state (\<lambda>s.
                                            s\<lparr>Security_firewall := spread (asObject b)
                                                [(''rules'', JArr (listOf b [''rules'']))]\<rparr>),
                               set_state (\<lambda>s. s\<lparr>Security_fail2ban := asObject c\<rparr>),
                               set_state (\<lambda>s. s\<lparr>Security_allowlist := access\<rparr>),
                               set_state (\<lambda>s.
                                            s\<lparr>Security_allowlistText := join_with nl
                                                (map array_text (listOf (fld access ''entries'') []))\<rparr>),
                               set_state (\<lambda>s. s\<lparr>Security_notifications := notify\<rparr>),
                               set_state
                                 (\<lambda>s.
                                    s\<lparr>Security_notificationForm := JObj
                                        [(''enabled'', JBool (truthy (fld notify ''enabled''))),
                                         (''bot_token'', JStr []),
                                         (''chat_id'', JStr (text_or (fld notify ''chat_id'') []))]\<rparr>)]))
             (\<lambda>cause. set_state (\<lambda>s. s\<lparr>Security_error := errorDetail cause\<rparr>)))
          (set_state (\<lambda>s. s\<lparr>Security_loading := False\<rparr>))]"

definition Security_effect :: "Security_state \<Rightarrow> Security_state io" where
  "Security_effect st = Security_reload st"

definition Security_securityAction :: "Security_state \<Rightarrow> string \<Rightarrow> json \<Rightarrow> string \<Rightarrow> Security_state io" where
  "Security_securityAction st endpoint body0 success =
     (let body0 = (if body0 = JUndef then JObj [] else body0)
      in steps
           [set_state (\<lambda>s. s\<lparr>Security_working := True\<rparr>),
            try_finally (try_catch (steps [secureApi (''/api/v1/security/'' @ endpoint)
                                             (with_body ''POST'' (jsonBody body0)),
                                           Security_reload st, notify Success success JUndef])
                           (\<lambda>cause. notify Failure t_security_op_failed (JStr (errorDetail cause))))
              (set_state (\<lambda>s. s\<lparr>Security_working := False\<rparr>))])"

definition Security_addRule :: "Security_state \<Rightarrow> json \<Rightarrow> Security_state io" where
  "Security_addRule st ev =
     steps
       [perform Prevent_default,
        let port = js_trim (jstring (fld (Security_rule st) ''port''))
        in if port = [] then notify Warning t_enter_port JUndef
           else if fld (Security_rule st) ''action'' = JStr ''limit'' \<and>
              fld (Security_rule st) ''protocol'' \<noteq> JStr ''tcp''
             then notify Warning t_limit_tcp_only JUndef
           else steps
                  [set_state (\<lambda>s. s\<lparr>Security_working := True\<rparr>),
                   try_finally
                     (try_catch
                        (steps [secureApi ''/api/v1/security/firewall/rule''
                                  (with_body ''POST''
                                     (jsonBody
                                        (JObj
                                           [(''operation'', JStr ''add''),
                                            (''rule'',
                                             JObj
                                               [(''action'', fld (Security_rule st) ''action''),
                                                (''direction'',
                                                 fld (Security_rule st) ''direction''),
                                                (''protocol'', fld (Security_rule st) ''protocol''),
                                                (''port'', JStr port),
                                                (''source'',
                                                 JStr (js_trim
                                                         (jstring (fld (Security_rule st) ''source'')))),
                                                (''comment'',
                                                 JStr (js_trim (jstring (fld (Security_rule st)
                                                                           ''comment''))))])]))),
                                set_state
                                  (\<lambda>s.
                                     s\<lparr>Security_rule := JObj
                                         [(''action'', JStr ''allow''),
                                          (''direction'', JStr ''in''),
                                          (''protocol'', JStr ''tcp''), (''port'', JStr []),
                                          (''source'', JStr []), (''comment'', JStr [])]\<rparr>),
                                Security_reload st, notify Success t_fw_rule_added JUndef])
                        (\<lambda>cause. notify Failure t_fw_add_failed (JStr (errorDetail cause))))
                     (set_state (\<lambda>s. s\<lparr>Security_working := False\<rparr>))]]"

definition Security_deleteRule :: "Security_state \<Rightarrow> json \<Rightarrow> Security_state io" where
  "Security_deleteRule st item =
     bnd (confirm_io t_fw_delete_rule
            (t_confirm_delete_rule @ jstring (fld item ''number'') @ t_question_mark) t_delete True)
       (\<lambda>r2.
          if \<not> truthy r2 then skip
          else steps
                 [set_state (\<lambda>s. s\<lparr>Security_working := True\<rparr>),
                  try_finally
                    (try_catch
                       (steps [secureApi ''/api/v1/security/firewall/rule''
                                 (with_body ''POST''
                                    (jsonBody (JObj [(''operation'', JStr ''delete''),
                                                     (''number'', number_js (fld item ''number''))]))),
                               Security_reload st, notify Success t_fw_rule_deleted JUndef])
                       (\<lambda>cause. notify Failure t_fw_delete_failed (JStr (errorDetail cause))))
                    (set_state (\<lambda>s. s\<lparr>Security_working := False\<rparr>))])"

definition Security_saveAllowlist :: "Security_state \<Rightarrow> Security_state io" where
  "Security_saveAllowlist st =
     steps
       [set_state (\<lambda>s. s\<lparr>Security_working := True\<rparr>),
        try_finally
          (try_catch
             (bnd (secureApi ''/api/v1/security/ip-allowlist''
                     (with_body ''POST''
                        (jsonBody
                           (JObj [(''enabled'',
                                   JBool (truthy (fld (Security_allowlist st) ''enabled''))),
                                  (''entries'', JArr (map JStr (lines (Security_allowlistText st))))]))))
                (\<lambda>r3.
                   let result = asObject r3
                   in steps
                        [Security_reload st,
                         if truthy (fld result ''recovery_path'') \<and>
                            truthy (fld result ''recovery_token'')
                           then let recoveryPage = Security_origin st @
                                                   jstring (fld result ''recovery_path'')
                                in let recoveryToken = js_text (fld result ''recovery_token'')
                                   in let recoveryBundle = t_recovery_page @ recoveryPage @
                                                           t_recovery_token @ recoveryToken
                                      in open_modal t_save_recovery_info []
                                           [El ''div'' [(''className'', JStr ''form-stack'')] []
                                              [El ''p'' [] [] [Txt t_access_limit_enabled],
                                               Terminal [] [Txt recoveryBundle],
                                               El ''div'' [(''className'', JStr ''form-actions'')] []
                                                 [Button [(''icon'', JStr ''copy'')]
                                                    [(''onClick'',
                                                      \<lambda>ev.
                                                        steps
                                                          [copyText (JStr recoveryBundle),
                                                           notify Success t_recovery_copied JUndef])]
                                                    [Txt t_copy_recovery],
                                                  Button [(''tone'', JStr ''primary'')]
                                                    [(''onClick'', \<lambda>ev. perform Close_modal)]
                                                    [Txt t_saved_it]]]]
                         else notify Success t_allowlist_saved JUndef]))
             (\<lambda>cause. notify Failure t_access_limit_failed (JStr (errorDetail cause))))
          (set_state (\<lambda>s. s\<lparr>Security_working := False\<rparr>))]"

definition Security_saveNotifications :: "Security_state \<Rightarrow> bool \<Rightarrow> Security_state io" where
  "Security_saveNotifications st test =
     steps
       [set_state (\<lambda>s. s\<lparr>Security_working := True\<rparr>),
        try_finally
          (try_catch
             (steps
                [secureApi ''/api/v1/security/login-notifications''
                   (with_body ''POST''
                      (jsonBody (JObj [(''enabled'', fld (Security_notificationForm st) ''enabled''),
                                       (''bot_token'',
                                        JStr (js_trim (jstring (fld (Security_notificationForm st)
                                                                  ''bot_token'')))),
                                       (''chat_id'',
                                        JStr (js_trim (jstring (fld (Security_notificationForm st)
                                                                  ''chat_id'')))),
                                       (''test'', JBool test)]))),
                 set_state (\<lambda>s.
                              s\<lparr>Security_notificationForm := spread (Security_notificationForm s)
                                  [(''bot_token'', JStr [])]\<rparr>),
                 Security_reload st,
                 notify Success (if test then t_test_sent else t_login_notice_saved) JUndef])
             (\<lambda>cause. notify Failure t_notice_failed (JStr (errorDetail cause))))
          (set_state (\<lambda>s. s\<lparr>Security_working := False\<rparr>))]"

definition Security_runCheck :: "Security_state \<Rightarrow> string \<Rightarrow> Security_state io" where
  "Security_runCheck st ident =
     (if ident = ''firewall'' then set_state (\<lambda>s. s\<lparr>Security_tab := ''firewall''\<rparr>)
      else bnd (if ident = ''auto-updates''
                  then confirm_io t_enable_auto_security t_auto_security_detail t_enable False
                else Ret (JBool False))
             (\<lambda>r4.
                steps [if truthy r4
                         then Security_securityAction st ''auto-updates/enable'' (JObj [])
                                t_auto_security_enabled
                       else skip,
                       bnd (if ident = ''fail2ban''
                              then confirm_io t_install_fail2ban t_install_fail2ban_detail
                                     t_install_and_enable False
                            else Ret (JBool False))
                         (\<lambda>r5.
                            if truthy r5
                              then Security_securityAction st ''fail2ban/install'' (JObj [])
                                     t_fail2ban_installed
                            else skip)]))"

definition Security_rules :: "Security_state \<Rightarrow> json list" where
  "Security_rules st =
     listOf (Security_firewall st) [''rules'']"

definition Security_checks :: "Security_state \<Rightarrow> json list" where
  "Security_checks st =
     listOf (Security_report st) [''checks'']"

definition Security_banned :: "Security_state \<Rightarrow> json list" where
  "Security_banned st =
     listOf (Security_fail2ban st) [''banned_ips'']"

definition Security_ignored :: "Security_state \<Rightarrow> json list" where
  "Security_ignored st =
     listOf (Security_fail2ban st) [''ignore_ips'']"

definition Security_checkStatus :: "Security_state \<Rightarrow> json \<Rightarrow> json" where
  "Security_checkStatus st v =
     (let status = toLowerCase (text_or v ''unknown'')
      in JObj
           [(''raw'', JStr status),
            (''css'', JStr (if status = ''advice'' then ''warning'' else status)),
            (''label'',
             JStr (if status = ''good'' then t_grade_good
                   else if status = ''warning'' \<or> status = ''advice'' then t_grade_advice
                   else if status = ''danger'' \<or> status = ''bad'' then t_grade_risk else t_grade_pending)),
            (''tone'',
             JStr (if status = ''good'' then ''success''
                   else if status = ''warning'' \<or> status = ''advice'' then ''warning'' else ''danger''))])"

definition Security_scoreCard :: "Security_state \<Rightarrow> Security_state vnode" where
  "Security_scoreCard st =
     Card [(''className'', JStr ''security-score'')]
       [El ''div'' [(''className'', JStr ''score-ring'')] []
          [El ''strong'' [] [] [Txt (text_or (fld (Security_report st) ''score'') t_em_dash)],
           El ''span'' [] [] [Txt t_security_score]],
        El ''div'' [] []
          [El ''h2'' [] []
             [Txt (if number (fld (Security_report st) ''score'') \<ge> 80 then t_overall_good
                   else if number (fld (Security_report st) ''score'') \<ge> 60 then t_room_to_improve
                   else t_fix_soon)],
           El ''p'' [] [] [Txt t_score_from]]]"

definition Security_checkGrid :: "Security_state \<Rightarrow> Security_state vnode" where
  "Security_checkGrid st =
     El ''div'' [(''className'', JStr ''security-check-grid'')] []
       (map (\<lambda>check.
               let status = Security_checkStatus st (fld check ''status'')
               in Card [(''className'', JStr ''security-check''), (''key'', fld check ''id'')]
                    [El ''span''
                       [(''className'', JStr (''check-state '' @ jstring (fld status ''css'')))] [] [],
                     El ''div'' [] []
                       ([El ''div'' [(''className'', JStr ''card-topline'')] []
                           [El ''strong'' [] [] [Txt (js_text (fld check ''title''))],
                            Badge [(''tone'', fld status ''tone'')] (child (fld status ''label''))],
                         El ''p'' [] [] [Txt (js_text (fld check ''detail''))]] @
                        (if truthy (fld check ''recommendation'')
                           then [El ''small'' [] []
                                   ([Txt t_advice_colon] @ child (fld check ''recommendation''))]
                         else []) @
                        (if fld check ''status'' \<noteq> JStr ''good'' \<and>
                            (jstring (fld check ''id'')) \<in> set
                              [''firewall'', ''fail2ban'', ''auto-updates'']
                           then [Button [(''tone'', JStr ''ghost''),
                                         (''busy'', JBool (Security_working st))]
                                   [(''onClick'',
                                     \<lambda>ev. Security_runCheck st (jstring (fld check ''id'')))]
                                   [Txt (if fld check ''id'' = JStr ''firewall''
                                           then t_configure_firewall
                                         else if fld check ''id'' = JStr ''fail2ban''
                                           then t_install_and_enable
                                         else t_enable_auto_security)]]
                         else []))])
          (Security_checks st))"

definition Security_disableFirewall :: "Security_state \<Rightarrow> Security_state io" where
  "Security_disableFirewall st =
     bnd (confirm_io t_disable_ufw t_disable_ufw_detail t_close True)
       (\<lambda>r8.
          if truthy r8
            then Security_securityAction st ''firewall/disable'' (JObj []) t_ufw_disabled
          else skip)"

definition Security_firewallCard :: "Security_state \<Rightarrow> Security_state vnode" where
  "Security_firewallCard st =
     Card [(''className'', JStr ''firewall-status-card'')]
       [El ''div'' [] []
          ([El ''span'' [(''className'', JStr ''eyebrow'')] [] [Txt t_ufw_status],
            El ''h2'' [] []
              [Txt (if \<not> truthy (fld (Security_firewall st) ''installed'') then t_not_installed
                    else if truthy (fld (Security_firewall st) ''enabled'') then t_protecting
                    else t_installed_disabled)]] @
           (if truthy (fld (Security_firewall st) ''installed'')
              then [El ''p'' [] [] [Txt t_default_in,
                                    Txt (js_text (fld (Security_firewall st) ''default_incoming'')),
                                    Txt t_default_out,
                                    Txt (js_text (fld (Security_firewall st) ''default_outgoing''))]]
            else [El ''p'' [] [] [Txt t_ufw_can_manage]])),
        El ''div'' [(''className'', JStr ''row-buttons'')] []
          (if \<not> truthy (fld (Security_firewall st) ''installed'')
             then [Button [(''tone'', JStr ''primary''), (''busy'', JBool (Security_working st))]
                     [(''onClick'',
                       \<lambda>ev.
                         Security_securityAction st ''firewall/install'' (JObj []) t_ufw_installed)]
                     [Txt t_install_ufw]]
           else if \<not> truthy (fld (Security_firewall st) ''enabled'')
             then [Button [(''tone'', JStr ''primary''), (''busy'', JBool (Security_working st))]
                     [(''onClick'',
                       \<lambda>ev.
                         bnd (confirm_io t_ufw_safe_enable t_ufw_enable_detail t_safe_enable False)
                           (\<lambda>r7.
                              if truthy r7
                                then Security_securityAction st ''firewall/enable'' (JObj [])
                                       t_ufw_enabled_verify
                              else skip))]
                     [Txt t_safe_enable]]
           else [Button [(''tone'', JStr ''danger''), (''busy'', JBool (Security_working st))]
                   [(''onClick'', \<lambda>ev. Security_disableFirewall st)] [Txt t_disable_ufw]])]"

definition Security_ruleForm :: "Security_state \<Rightarrow> Security_state vnode" where
  "Security_ruleForm st =
     Card []
       [SectionTitle [(''title'', JStr t_add_fw_rule), (''subtitle'', JStr t_fw_rule_hint)] [],
        El ''form'' [(''className'', JStr ''firewall-form-grid firewall-form'')]
          [(''onSubmit'', \<lambda>ev. Security_addRule st ev)]
          [Field [(''label'', JStr t_action_word)]
             [SelectInput
                [(''name'', JStr ''action''), (''value'', fld (Security_rule st) ''action'')]
                [(''onChange'',
                  \<lambda>ev.
                    set_state
                      (\<lambda>s.
                         s\<lparr>Security_rule := spread (Security_rule s) [(''action'', fld ev ''value'')]\<rparr>))]
                [El ''option'' [(''value'', JStr ''allow'')] [] [Txt t_allow_word],
                 El ''option'' [(''value'', JStr ''deny'')] [] [Txt t_deny_word],
                 El ''option'' [(''value'', JStr ''reject'')] [] [Txt t_reject_word],
                 El ''option'' [(''value'', JStr ''limit'')] [] [Txt t_limit_word]]],
           Field [(''label'', JStr t_direction_word)]
             [SelectInput
                [(''name'', JStr ''direction''), (''value'', fld (Security_rule st) ''direction'')]
                [(''onChange'',
                  \<lambda>ev.
                    set_state (\<lambda>s.
                                 s\<lparr>Security_rule := spread (Security_rule s)
                                     [(''direction'', fld ev ''value'')]\<rparr>))]
                [El ''option'' [(''value'', JStr ''in'')] [] [Txt t_inbound],
                 El ''option'' [(''value'', JStr ''out'')] [] [Txt t_outbound]]],
           Field [(''label'', JStr t_protocol_word)]
             [SelectInput
                [(''name'', JStr ''protocol''), (''value'', fld (Security_rule st) ''protocol'')]
                [(''onChange'',
                  \<lambda>ev.
                    set_state (\<lambda>s.
                                 s\<lparr>Security_rule := spread (Security_rule s)
                                     [(''protocol'', fld ev ''value'')]\<rparr>))]
                [El ''option'' [(''value'', JStr ''tcp'')] [] [Txt ''TCP''],
                 El ''option'' [(''value'', JStr ''udp'')] [] [Txt ''UDP''],
                 El ''option'' [(''value'', JStr ''any'')] [] [Txt t_all_protocols]]],
           Field [(''label'', JStr t_ports)]
             [TextInput [(''name'', JStr ''port''), (''value'', fld (Security_rule st) ''port''),
                         (''placeholder'', JStr t_ports_example),
                         (''inputMode'', JStr ''numeric''), (''required'', JBool True)]
                [(''onChange'',
                  \<lambda>ev.
                    set_state
                      (\<lambda>s.
                         s\<lparr>Security_rule := spread (Security_rule s) [(''port'', fld ev ''value'')]\<rparr>))]],
           Field [(''label'', JStr t_source_optional)]
             [TextInput
                [(''name'', JStr ''source''), (''value'', fld (Security_rule st) ''source''),
                 (''placeholder'', JStr t_ip_cidr_or_empty)]
                [(''onChange'',
                  \<lambda>ev.
                    set_state
                      (\<lambda>s.
                         s\<lparr>Security_rule := spread (Security_rule s) [(''source'', fld ev ''value'')]\<rparr>))]],
           Field [(''label'', JStr t_note_optional)]
             [TextInput
                [(''name'', JStr ''comment''), (''value'', fld (Security_rule st) ''comment'')]
                [(''onChange'',
                  \<lambda>ev.
                    set_state (\<lambda>s.
                                 s\<lparr>Security_rule := spread (Security_rule s)
                                     [(''comment'', fld ev ''value'')]\<rparr>))]],
           Button
             [(''type'', JStr ''submit''), (''tone'', JStr ''primary''),
              (''busy'', JBool (Security_working st)), (''className'', JStr ''firewall-submit'')]
             [] [Txt t_add_rule_button]]]"

definition Security_ruleList :: "Security_state \<Rightarrow> Security_state vnode" where
  "Security_ruleList st =
     El ''div'' [(''className'', JStr ''firewall-rule-list'')] []
       (if length (Security_rules st) \<noteq> 0
          then map
                 (\<lambda>item.
                    Card
                      [(''className'', JStr ''firewall-rule-card''), (''key'', fld item ''number'')]
                      [El ''span'' [(''className'', JStr ''rule-number'')] []
                         ([Txt ''#''] @ child (fld item ''number'')),
                       El ''div'' [(''className'', JStr ''rule-main'')] []
                         [El ''div'' [(''className'', JStr ''rule-title'')] []
                            [Badge [(''tone'',
                                     JStr (if str_includes (toLowerCase (jstring (fld item ''action'')))
                                                ''allow''
                                             then ''success''
                                           else if str_includes (toLowerCase (jstring (fld item ''action'')))
                                                ''deny'' \<or>
                                              str_includes (toLowerCase (jstring (fld item ''action'')))
                                                ''reject''
                                             then ''danger''
                                           else ''warning''))]
                               [Txt (js_text (fld item ''action''))],
                             El ''strong'' [] []
                               [Txt (text_or (jor (fld item ''to'') (fld item ''destination''))
                                       ''Anywhere'')]],
                          El ''p'' [] [] [Txt t_source_colon,
                                          Txt (text_or (jor (fld item ''from'') (fld item ''source''))
                                                 ''Anywhere''),
                                          Txt (if truthy (fld item ''version'')
                                                 then t_mid_dot @ jstring (fld item ''version'')
                                               else [])]],
                       Button [(''tone'', JStr ''danger''), (''icon'', JStr ''trash''),
                               (''busy'', JBool (Security_working st))]
                         [(''onClick'', \<lambda>ev. Security_deleteRule st item)] [Txt t_delete]])
                 (Security_rules st)
        else [Card []
                [EmptyState [(''icon'', JStr ''security''), (''title'', JStr t_no_custom_rules)] []]])"

definition Security_ignoreSubmit :: "Security_state \<Rightarrow> Security_state io" where
  "Security_ignoreSubmit st =
     steps [perform Prevent_default,
            if js_trim (Security_ignoreEntry st) = [] then skip
            else steps [Security_securityAction st ''fail2ban/ignore''
                          (JObj [(''entry'', JStr (js_trim (Security_ignoreEntry st))),
                                 (''action'', JStr ''add'')])
                          t_ignore_list_updated,
                        set_state (\<lambda>s. s\<lparr>Security_ignoreEntry := []\<rparr>)]]"

definition Security_jailLists :: "Security_state \<Rightarrow> Security_state vnode" where
  "Security_jailLists st =
     El ''div'' [(''className'', JStr ''security-split'')] []
       [Card []
          ([SectionTitle [(''title'', JStr t_banned_ips), (''subtitle'', JStr t_sshd_jail_records)] []] @
           (if length (Security_banned st) \<noteq> 0
              then [El ''div'' [(''className'', JStr ''compact-list'')] []
                      (map (\<lambda>ip.
                              El ''div'' [(''className'', JStr ''compact-row''), (''key'', ip)] []
                                [El ''code'' [] [] (child ip),
                                 Button [(''tone'', JStr ''ghost'')]
                                   [(''onClick'',
                                     \<lambda>ev.
                                       Security_securityAction st ''fail2ban/unban''
                                         (JObj [(''ip'', ip)]) (jstring ip @ t_unbanned_suffix))]
                                   [Txt t_unban_word]])
                         (Security_banned st))]
            else [EmptyState [(''icon'', JStr ''check''), (''title'', JStr t_no_banned)] []])),
        Card []
          [SectionTitle [(''title'', JStr t_ignore_list), (''subtitle'', JStr t_ignore_list_hint)] [],
           El ''form'' [(''className'', JStr ''inline-form'')]
             [(''onSubmit'', \<lambda>ev. Security_ignoreSubmit st)]
             [TextInput
                [(''value'', JStr (Security_ignoreEntry st)), (''placeholder'', JStr t_ip_or_cidr)]
                [(''onChange'',
                  \<lambda>ev. set_state (\<lambda>s. s\<lparr>Security_ignoreEntry := jstring (fld ev ''value'')\<rparr>))],
              Button [(''type'', JStr ''submit''), (''tone'', JStr ''primary''),
                      (''busy'', JBool (Security_working st))]
                [] [Txt t_add]],
           El ''div'' [(''className'', JStr ''compact-list'')] []
             (map (\<lambda>entry.
                     El ''div'' [(''className'', JStr ''compact-row''), (''key'', entry)] []
                       [El ''code'' [] [] (child entry),
                        Button [(''tone'', JStr ''danger''), (''icon'', JStr ''trash''),
                                (''title'', JStr (t_remove_from_whitelist @ jstring entry))]
                          [(''onClick'',
                            \<lambda>ev.
                              Security_securityAction st ''fail2ban/ignore''
                                (JObj [(''entry'', entry), (''action'', JStr ''remove'')])
                                t_whitelist_removed)]
                          []])
                (Security_ignored st))]]"

definition Security_allowlistCard :: "Security_state \<Rightarrow> Security_state vnode" where
  "Security_allowlistCard st =
     Card [(''className'', JStr ''setting-card'')]
       [SectionTitle
          [(''title'', JStr t_panel_allowlist), (''subtitle'', JStr t_panel_allowlist_hint)]
          [Toggle [(''checked'', JBool (truthy (fld (Security_allowlist st) ''enabled''))),
                   (''label'',
                    JStr (if truthy (fld (Security_allowlist st) ''enabled'') then t_opened_word
                          else t_not_opened))]
             (\<lambda>v.
                set_state
                  (\<lambda>s. s\<lparr>Security_allowlist := spread (Security_allowlist s) [(''enabled'', v)]\<rparr>))],
        Field [(''label'', JStr t_allowed_addresses), (''hint'', JStr t_allowlist_hint)]
          [TextArea [(''rows'', JStr ''7''), (''value'', JStr (Security_allowlistText st))]
             [(''onChange'',
               \<lambda>ev. set_state (\<lambda>s. s\<lparr>Security_allowlistText := jstring (fld ev ''value'')\<rparr>))]],
        El ''p'' [(''className'', JStr ''field-hint'')] []
          [Txt t_current_ip,
           Txt (text_or (fld (Security_allowlist st) ''current_ip'') t_not_recognised)],
        Button [(''tone'', JStr ''primary''), (''busy'', JBool (Security_working st))]
          [(''onClick'', \<lambda>ev. Security_saveAllowlist st)] [Txt t_save_access_limit]]"

definition Security_notificationCard :: "Security_state \<Rightarrow> Security_state vnode" where
  "Security_notificationCard st =
     Card [(''className'', JStr ''setting-card'')]
       [SectionTitle [(''title'', JStr t_telegram_notice), (''subtitle'', JStr t_telegram_hint)]
          [Toggle
             [(''checked'', fld (Security_notificationForm st) ''enabled''),
              (''label'',
               JStr (if truthy (fld (Security_notificationForm st) ''enabled'') then t_opened_word
                     else t_not_opened))]
             (\<lambda>v.
                set_state (\<lambda>s.
                             s\<lparr>Security_notificationForm := spread (Security_notificationForm s)
                                 [(''enabled'', v)]\<rparr>))],
        Field [(''label'', JStr ''Bot Token''),
               (''hint'',
                JStr (if truthy (fld (Security_notifications st) ''configured'')
                        then t_token_saved_hint
                      else t_first_enable_required))]
          [TextInput [(''type'', JStr ''password''),
                      (''value'', fld (Security_notificationForm st) ''bot_token''),
                      (''autoComplete'', JStr ''off'')]
             [(''onChange'',
               \<lambda>ev.
                 set_state (\<lambda>s.
                              s\<lparr>Security_notificationForm := spread (Security_notificationForm s)
                                  [(''bot_token'', fld ev ''value'')]\<rparr>))]],
        Field [(''label'', JStr ''Chat ID'')]
          [TextInput [(''value'', fld (Security_notificationForm st) ''chat_id'')]
             [(''onChange'',
               \<lambda>ev.
                 set_state (\<lambda>s.
                              s\<lparr>Security_notificationForm := spread (Security_notificationForm s)
                                  [(''chat_id'', fld ev ''value'')]\<rparr>))]],
        El ''div'' [(''className'', JStr ''form-actions'')] []
          [Button [(''tone'', JStr ''primary''), (''busy'', JBool (Security_working st))]
             [(''onClick'', \<lambda>ev. Security_saveNotifications st False)] [Txt t_save],
           Button [(''busy'', JBool (Security_working st))]
             [(''onClick'', \<lambda>ev. Security_saveNotifications st True)] [Txt t_save_and_test]]]"

definition Security_view :: "route \<Rightarrow> Security_state \<Rightarrow> Security_state vnode" where
  "Security_view route st =
     El ''div'' [(''className'', JStr ''page-stack security-page'')] []
       ([PageHeader route (JBool (Security_loading st)) (Some (\<lambda>ev. Security_reload st)) [],
         El ''div'' [(''className'', JStr ''tab-bar security-tabs''), (''role'', JStr ''tablist'')] []
           (map (\<lambda>pr6.
                   El ''button''
                     [(''key'', (idx pr6 0)),
                      (''className'',
                       JStr (if JStr (Security_tab st) = (idx pr6 0) then ''active'' else []))]
                     [(''onClick'', \<lambda>ev. set_state (\<lambda>s. s\<lparr>Security_tab := jstring (idx pr6 0)\<rparr>))]
                     (child (idx pr6 1)))
              [JArr [JStr ''overview'', JStr t_security_overview],
               JArr [JStr ''firewall'', JStr t_firewall_word],
               JArr [JStr ''fail2ban'', JStr ''Fail2ban''],
               JArr [JStr ''access'', JStr t_access_protection]])] @
        (if Security_error st \<noteq> []
           then [ErrorState (JStr (Security_error st)) (\<lambda>ev. Security_reload st)]
         else if Security_loading st \<and> \<not> truthy (fld (Security_report st) ''score'') \<and>
            Security_tab st = ''overview''
           then [LoadingState 6]
         else if Security_tab st = ''overview'' then [Security_scoreCard st, Security_checkGrid st]
         else if Security_tab st = ''firewall''
           then ([Security_firewallCard st] @
                 (if truthy (fld (Security_firewall st) ''recovery_pending'')
                    then [El ''div'' [(''className'', JStr ''recovery-banner'')] []
                            [El ''div'' [] [] [El ''strong'' [] [] [Txt t_lockout_window],
                                               El ''p'' [] [] [Txt t_confirm_keep_ufw]],
                             Button [(''tone'', JStr ''primary''),
                                     (''busy'', JBool (Security_working st))]
                               [(''onClick'',
                                 \<lambda>ev.
                                   Security_securityAction st ''firewall/confirm'' (JObj [])
                                     t_ufw_confirmed)]
                               [Txt t_connection_ok]]]
                  else []) @
                 (if truthy (fld (Security_firewall st) ''installed'') then [Security_ruleForm st]
                  else []) @
                 [Security_ruleList st])
         else if Security_tab st = ''fail2ban''
           then (if \<not> truthy (fld (Security_fail2ban st) ''installed'')
                   then [Card [] [EmptyState [(''icon'', JStr ''security''),
                                              (''title'', JStr t_fail2ban_missing),
                                              (''description'', JStr t_fail2ban_hint)]
                                    [Button [(''tone'', JStr ''primary''),
                                             (''busy'', JBool (Security_working st))]
                                       [(''onClick'',
                                         \<lambda>ev.
                                           Security_securityAction st ''fail2ban/install'' (JObj [])
                                             t_fail2ban_installed)]
                                       [Txt t_install_and_enable]]]]
                 else [El ''div'' [(''className'', JStr ''metric-grid compact-metrics'')] []
                         [Metric
                            [(''title'', JStr t_now_failed),
                             (''value'',
                              JStr (text_or (fld (Security_fail2ban st) ''currently_failed'') ''0'')),
                             (''detail'', JStr t_current_jail), (''icon'', JStr ''warning'')],
                          Metric [(''title'', JStr t_total_failed),
                                  (''value'',
                                   JStr (text_or (fld (Security_fail2ban st) ''total_failed'') ''0'')),
                                  (''detail'', JStr t_history_total), (''icon'', JStr ''audit'')],
                          Metric
                            [(''title'', JStr t_now_banned),
                             (''value'',
                              JStr (text_or (fld (Security_fail2ban st) ''currently_banned'') ''0'')),
                             (''detail'', JStr t_blocking_now), (''icon'', JStr ''security'')],
                          Metric [(''title'', JStr t_total_banned),
                                  (''value'',
                                   JStr (text_or (fld (Security_fail2ban st) ''total_banned'') ''0'')),
                                  (''detail'', JStr t_history_total), (''icon'', JStr ''backup'')]],
                       Security_jailLists st])
         else [El ''div'' [(''className'', JStr ''settings-grid'')] []
                 [Security_allowlistCard st, Security_notificationCard st]]))"

definition Security_init :: "string \<Rightarrow> Security_state" where
  "Security_init origin =
     \<lparr>Security_origin = origin, Security_tab = ''overview'', Security_report = JObj [(''checks'', JArr [])],
      Security_firewall = JObj [(''rules'', JArr [])], Security_fail2ban = JObj [],
      Security_allowlist = JObj [(''enabled'', JBool False), (''entries'', JArr [])],
      Security_notifications = JObj [(''enabled'', JBool False)], Security_allowlistText = [],
      Security_notificationForm = JObj [(''enabled'', JBool False), (''bot_token'', JStr []), (''chat_id'', JStr [])],
      Security_rule = JObj [(''action'', JStr ''allow''), (''direction'', JStr ''in''), (''protocol'', JStr ''tcp''),
        (''port'', JStr []), (''source'', JStr []), (''comment'', JStr [])],
      Security_ignoreEntry = [], Security_loading = True, Security_working = False, Security_error = []\<rparr>"

subsection \<open>The page keeps the rules\<close>

text \<open>What counts as destructive: turning the firewall off and deleting one of its rules.\<close>

definition cuts_defence :: "string \<Rightarrow> json \<Rightarrow> bool" where
  "cuts_defence url operation \<longleftrightarrow> url = ''/api/v1/security/firewall/disable'' \<or>
     url = ''/api/v1/security/firewall/rule'' \<and> operation = JStr ''delete''"

definition harms_security :: "request \<Rightarrow> bool" where
  "harms_security r \<longleftrightarrow> changing r \<and> cuts_defence (req_url r) (body_fld r ''operation'')"

lemma harms_security_mk [simp]:
  "harms_security (mk_request url i tok) \<longleftrightarrow> sends_change i \<and> cuts_defence url (init_fld i ''operation'')"
  by (simp add: harms_security_def)

lemma cuts_no_defence [simp]:
  "\<not> cuts_defence ''/api/v1/security/ip-allowlist'' a" "\<not> cuts_defence ''/api/v1/security/login-notifications'' a"
  "\<not> cuts_defence ''/api/v1/security/firewall/rule'' (JStr ''add'')"
  by (simp_all add: cuts_defence_def)

abbreviation security_safe :: "Security_state io \<Rightarrow> bool" where
  "security_safe \<equiv> safe_loud {} harms_security"

lemma Security_reload_wp:
  assumes "\<And>s'. Q JUndef g s'"
  shows "wp (w_ok harms_security) w_upd (Security_reload st) Q E g s"
proof -
  have all: "wp (w_ok harms_security) w_upd (promise_all (map (\<lambda>u. api u empty_init) us)) Q' E' g s"
    if "\<And>v s'. Q' v g s'" "\<And>c s'. E' c g s'" for us Q' E' s
    using that by (intro wp_promise_all) (auto intro!: wp_get_quiet)
  show ?thesis
    unfolding Security_reload_def io_simps Let_def
    by (auto simp: io_simps assms intro!: all [of _ _ "[_, _, _, _, _]", simplified])
qed

lemma Security_reload_shows [simp]: "shows_ok R (Security_reload st)"
  by (simp add: Security_reload_def Let_def)

lemma Security_reload_safe [simp]: "security_safe (Security_reload st)"
  by (rule safe_loudI) (auto intro!: Security_reload_wp)

lemma Security_securityAction_wp:
  assumes "endpoint = ''firewall/disable'' \<Longrightarrow> w_confirmed g" and "endpoint \<noteq> ''firewall/rule''" and "\<not> w_failed g"
    and "\<And>v h s'. \<not> w_failed h \<Longrightarrow> (w_confirmed g \<Longrightarrow> w_confirmed h) \<Longrightarrow> Q v h s'"
  shows "wp (w_ok harms_security) w_upd (Security_securityAction st endpoint b success) Q E g s"
  unfolding Security_securityAction_def io_simps Let_def
  using assms by (auto simp: io_simps cuts_defence_def intro!: wp_secureApi Security_reload_wp split: if_splits)

lemma Security_securityAction_shows [simp]: "shows_ok R (Security_securityAction st endpoint b success)"
  by (simp add: Security_securityAction_def Let_def)

lemma Security_securityAction_safe [simp]:
  "endpoint \<noteq> ''firewall/disable'' \<Longrightarrow> endpoint \<noteq> ''firewall/rule'' \<Longrightarrow>
   security_safe (Security_securityAction st endpoint b success)"
  by (rule safe_loudI) (auto intro!: Security_securityAction_wp)

lemma Security_confirmed_safe [simp]:
  "endpoint \<noteq> ''firewall/rule'' \<Longrightarrow> security_safe (bnd (confirm_io t d l x)
     (\<lambda>r. if truthy r then Security_securityAction st endpoint b success else skip))"
  by (rule safe_loudI) (auto simp: io_simps intro!: Security_securityAction_wp)

lemma Security_addRule_safe [simp]: "safe_loud {} harms_security (Security_addRule st ev)"
  by (auto simp: Security_addRule_def Let_def io_simps intro!: safe_loudI io_rules Security_securityAction_wp Security_reload_wp)

lemma Security_deleteRule_safe [simp]: "safe_loud {} harms_security (Security_deleteRule st item)"
  by (auto simp: Security_deleteRule_def Let_def io_simps cuts_defence_def intro!: safe_loudI io_rules Security_securityAction_wp Security_reload_wp)

lemma Security_saveAllowlist_safe [simp]: "safe_loud {} harms_security (Security_saveAllowlist st)"
  by (auto simp: Security_saveAllowlist_def Let_def io_simps intro!: safe_loudI io_rules Security_securityAction_wp Security_reload_wp shows_ok_combinators)

lemma Security_saveNotifications_safe [simp]: "safe_loud {} harms_security (Security_saveNotifications st test)"
  by (auto simp: Security_saveNotifications_def Let_def io_simps intro!: safe_loudI io_rules Security_securityAction_wp Security_reload_wp)

lemma Security_runCheck_safe [simp]: "safe_loud {} harms_security (Security_runCheck st ident)"
  by (auto simp: Security_runCheck_def Let_def io_simps intro!: safe_loudI io_rules Security_securityAction_wp Security_reload_wp)

lemma Security_disableFirewall_safe [simp]: "safe_loud {} harms_security (Security_disableFirewall st)"
  by (auto simp: Security_disableFirewall_def Let_def io_simps intro!: safe_loudI io_rules Security_securityAction_wp Security_reload_wp)

lemma Security_ignoreSubmit_safe [simp]: "safe_loud {} harms_security (Security_ignoreSubmit st)"
  by (auto simp: Security_ignoreSubmit_def Let_def io_simps intro!: safe_loudI io_rules Security_securityAction_wp Security_reload_wp)

lemma Security_cards_safe [simp]:
  "vnode_ok (behaves_loud {} harms_security) (Security_checkGrid st)"
  "vnode_ok (behaves_loud {} harms_security) (Security_scoreCard st)"
  "vnode_ok (behaves_loud {} harms_security) (Security_firewallCard st)"
  "vnode_ok (behaves_loud {} harms_security) (Security_ruleForm st)"
  "vnode_ok (behaves_loud {} harms_security) (Security_ruleList st)"
  "vnode_ok (behaves_loud {} harms_security) (Security_jailLists st)"
  "vnode_ok (behaves_loud {} harms_security) (Security_allowlistCard st)"
  "vnode_ok (behaves_loud {} harms_security) (Security_notificationCard st)"
  by (simp_all add: Security_checkGrid_def Security_scoreCard_def Security_firewallCard_def Security_ruleForm_def
      Security_ruleList_def Security_jailLists_def Security_allowlistCard_def Security_notificationCard_def)

interpretation security: loud_page "Security_view route" "{}" harms_security
  by unfold_locales (simp add: Security_view_def)

text \<open>Rules of interaction of the security page. Take any handler the page, or a dialog opened from it, offers
  in any state, and any run of it: turning the firewall off and deleting one of its rules are sent only after
  the user confirmed them, a success message appears only after the server acknowledged a change, and no
  refused change is passed over in silence.\<close>

theorem security_rules:
  assumes "offered (Security_view route) m" and "run m as s = (tr, out, s')" and "legal tr"
  shows "guarded_trace harms_security tr \<and> honest_trace tr \<and> (out \<noteq> Suspended \<longrightarrow> \<not> silent_failure tr)"
  using security.rules_kept_loud [OF assms] by blast

definition sample_security :: Security_state where
  "sample_security = (Security_init [])\<lparr>Security_tab := ''firewall'',
     Security_firewall := JObj [(''installed'', JBool True), (''enabled'', JBool True)]\<rparr>"

theorem security_rules_witness:
  "let r = run_alone (Security_disableFirewall sample_security) yes_but_down sample_security
   in length (requests (dids (events r))) = 1 \<and> guarded_trace harms_security (events r) \<and> \<not> silent_failure (events r)"
proof -
  let ?m = "Security_disableFirewall sample_security"
  let ?r = "run_alone ?m yes_but_down sample_security"
  have "offered (Security_view sample_route) ?m"
    by (rule offered_handler [of "''onClick''" "\<lambda>ev. ?m" _ sample_security])
       (auto simp: Security_view_def Security_firewallCard_def sample_security_def Security_init_def)
  moreover have "legal (events ?r) \<and> length (requests (dids (events ?r))) = 1 \<and> fst (snd ?r) \<noteq> Suspended"
    by (simp add: Security_disableFirewall_def Security_securityAction_def yes_but_down_def run_ops)
  ultimately show ?thesis
    using security_rules [OF _ run_alone_split] by (simp add: Let_def)
qed

end
