(* ===== verification/Settings_Page.thy ===== *)
theory Settings_Page imports Webauthn begin

text \<open>
  The settings page, \<open>web/assets/app.js\<close>, lines 3178 to 3368. The user name the shell passes, the version, the platform
  the browser reports and whether it has a credential store are fields of its state; \<open>onLogout\<close> and the credential
  store itself are calls that may fail.
\<close>

subsection \<open>The settings page\<close>

record Settings_state =
  Settings_owner :: string
  Settings_version :: string
  Settings_platform :: json
  Settings_credentialStore :: bool
  Settings_settings :: json
  Settings_sessions :: "json list"
  Settings_currentSession :: string
  Settings_passkeys :: "json list"
  Settings_totp :: json
  Settings_account :: json
  Settings_password :: json
  Settings_refreshSeconds :: rat
  Settings_passkeyName :: string
  Settings_loading :: bool
  Settings_working :: bool
  Settings_error :: string

definition Settings_reload :: "Settings_state \<Rightarrow> Settings_state io" where
  "Settings_reload st =
     steps
       [set_state (\<lambda>s. s\<lparr>Settings_loading := True\<rparr>),
        set_state (\<lambda>s. s\<lparr>Settings_error := []\<rparr>),
        try_finally
          (try_catch
             (bnd (promise_all [api ''/api/v1/settings'' empty_init,
                                api ''/api/v1/auth/sessions'' empty_init,
                                api ''/api/v1/auth/passkeys'' empty_init,
                                api ''/api/v1/auth/totp/status'' empty_init])
                (\<lambda>r1.
                   let a = idx r1 0;
                       b = idx r1 1;
                       c = idx r1 2;
                       d = idx r1 3
                   in let config = asObject a
                      in let sessionData = asObject b
                         in steps [set_state (\<lambda>s. s\<lparr>Settings_settings := config\<rparr>),
                                   set_state
                                     (\<lambda>s. s\<lparr>Settings_sessions := listOf sessionData [''sessions'']\<rparr>),
                                   set_state (\<lambda>s.
                                                s\<lparr>Settings_currentSession := text_or
                                                    (fld sessionData ''current'') []\<rparr>),
                                   set_state (\<lambda>s. s\<lparr>Settings_passkeys := listOf c [''passkeys'']\<rparr>),
                                   set_state (\<lambda>s. s\<lparr>Settings_totp := asObject d\<rparr>),
                                   set_state (\<lambda>s.
                                                s\<lparr>Settings_account := spread (Settings_account s)
                                                    [(''username'',
                                                      JStr (text_or (fld config ''admin_user'')
                                                              (Settings_owner st)))]\<rparr>),
                                   set_state (\<lambda>s.
                                                s\<lparr>Settings_refreshSeconds := number_or
                                                    (fld config ''auto_refresh_seconds'') 10\<rparr>)]))
             (\<lambda>cause. set_state (\<lambda>s. s\<lparr>Settings_error := errorDetail cause\<rparr>)))
          (set_state (\<lambda>s. s\<lparr>Settings_loading := False\<rparr>))]"

definition Settings_effect :: "Settings_state \<Rightarrow> Settings_state io" where
  "Settings_effect st = Settings_reload st"

definition Settings_run :: "Settings_state \<Rightarrow> string \<Rightarrow> Settings_state io \<Rightarrow> Settings_state io" where
  "Settings_run st title task =
     steps [set_state (\<lambda>s. s\<lparr>Settings_working := True\<rparr>),
            try_finally (try_catch (task) (\<lambda>cause. notify Failure title (JStr (errorDetail cause))))
              (set_state (\<lambda>s. s\<lparr>Settings_working := False\<rparr>))]"

definition Settings_recoveryModal :: "Settings_state \<Rightarrow> json list \<Rightarrow> Settings_state io" where
  "Settings_recoveryModal st codes =
     open_modal t_save_recovery_codes []
       [El ''div'' [(''className'', JStr ''form-stack'')] []
          [El ''p'' [] [] [Txt t_recovery_codes_once],
           Terminal [] [Txt (join_with nl (map array_text codes))],
           El ''div'' [(''className'', JStr ''form-actions'')] []
             [Button [(''icon'', JStr ''copy'')]
                [(''onClick'',
                  \<lambda>ev.
                    steps [copyText (JStr (join_with nl (map array_text codes))),
                           notify Success t_recovery_codes_copied JUndef])]
                [Txt t_copy_all],
              Button [(''tone'', JStr ''primary'')] [(''onClick'', \<lambda>ev. perform Close_modal)]
                [Txt t_saved_it]]]]"

definition Settings_totpSubmit :: "Settings_state \<Rightarrow> json \<Rightarrow> json \<Rightarrow> Settings_state io" where
  "Settings_totpSubmit st setup ev =
     steps [perform Prevent_default,
            let code0 = js_trim (jstring (jor (form_get (fld ev ''form'') ''code'') (JStr [])))
            in Settings_run st t_totp_confirm_failed
                 (steps [secureApi ''/api/v1/auth/totp/confirm''
                           (with_body ''POST'' (jsonBody (JObj [(''code'', JStr code0)]))),
                         perform Close_modal,
                         Settings_recoveryModal st (listOf (fld setup ''recovery_codes'') []),
                         Settings_reload st, notify Success t_totp_enabled JUndef])]"

definition Settings_beginTotp :: "Settings_state \<Rightarrow> Settings_state io" where
  "Settings_beginTotp st =
     Settings_run st t_totp_setup_failed
       (bnd (secureApi ''/api/v1/auth/totp/setup'' (with_body ''POST'' (Text_body ''{}'')))
          (\<lambda>r2.
             let setup = asObject r2
             in open_modal t_setup_totp []
                  [El ''form'' [(''className'', JStr ''form-stack'')]
                     [(''onSubmit'', \<lambda>ev. Settings_totpSubmit st setup ev)]
                     [El ''p'' [] [] [Txt t_totp_manual],
                      Field [(''label'', JStr t_secret_word)]
                        [El ''div'' [(''className'', JStr ''input-copy'')] []
                           [TextInput [(''readOnly'', JBool True),
                                       (''value'', JStr (text_or (fld setup ''secret'') []))]
                              [],
                            Button [(''icon'', JStr ''copy''), (''title'', JStr t_copy_secret)]
                              [(''onClick'',
                                \<lambda>ev.
                                  steps [copyText (JStr (text_or (fld setup ''secret'') [])),
                                         notify Success t_secret_copied JUndef])]
                              []]],
                      Field [(''label'', JStr ''OTPAuth URI'')]
                        [TextArea [(''readOnly'', JBool True), (''rows'', JStr ''3''),
                                   (''value'', JStr (text_or (fld setup ''otpauth_uri'') []))]
                           []],
                      Field [(''label'', JStr t_six_digit_code)]
                        [TextInput [(''name'', JStr ''code''), (''inputMode'', JStr ''numeric''),
                                    (''autoComplete'', JStr ''one-time-code''),
                                    (''pattern'', JStr ''[0-9]{6}''), (''required'', JBool True),
                                    (''autoFocus'', JBool True)]
                           []],
                      El ''div'' [(''className'', JStr ''form-actions'')] []
                        [Button [] [(''onClick'', \<lambda>ev. perform Close_modal)] [Txt t_cancel],
                         Button [(''type'', JStr ''submit''), (''tone'', JStr ''primary'')] []
                           [Txt t_verify_and_open]]]]))"

definition Settings_codeAction :: "Settings_state \<Rightarrow> string \<Rightarrow> string \<Rightarrow> string \<Rightarrow> string \<Rightarrow> bool \<Rightarrow> Settings_state io" where
  "Settings_codeAction st title description endpoint success destructive =
     bnd (confirm_io title description (if destructive then t_confirm_close else t_continue_word)
            destructive)
       (\<lambda>r3.
          if \<not> truthy r3 then skip
          else Settings_run st (title @ t_failed_word)
                 (bnd (secureApi endpoint (with_body ''POST'' (Text_body ''{}'')))
                    (\<lambda>r4.
                       let out = asObject r4
                       in steps
                            [if truthy (fld out ''recovery_codes'')
                               then Settings_recoveryModal st (listOf (fld out ''recovery_codes'') [])
                             else skip,
                             Settings_reload st, notify Success success JUndef])))"

definition Settings_registerPasskey :: "Settings_state \<Rightarrow> Settings_state io" where
  "Settings_registerPasskey st =
     Settings_run st t_passkey_register_failed
       (if \<not> Settings_credentialStore st then Throw (Js_error t_passkey_unsupported)
        else let name = jor (jor (JStr (js_trim (Settings_passkeyName st))) (Settings_platform st))
                          (JStr t_current_device)
             in bnd (secureApi ''/api/v1/auth/passkey/register/begin''
                       (with_body ''POST'' (jsonBody (JObj [(''name'', name)]))))
                  (\<lambda>r5.
                     let begin = asObject r5
                     in bnd
                          (lift_result
                             (normalizeCreationOptions
                                (jor (jor (fld begin ''public_key'') (fld begin ''options'')) begin)))
                          (\<lambda>publicKey.
                             bnd (perform (Prop_call ''navigator.credentials.create''
                                             [JObj [(''publicKey'', publicKey)]]))
                               (\<lambda>credential.
                                  if \<not> truthy credential
                                    then Throw (Js_error t_passkey_not_created)
                                  else steps
                                         [secureApi ''/api/v1/auth/passkey/register/finish''
                                            (with_body ''POST''
                                               (jsonBody (JObj [(''flow_id'', fld begin ''flow_id''),
                                                                (''name'', name),
                                                                (''credential'',
                                                                 serializeCredential credential)]))),
                                          set_state (\<lambda>s. s\<lparr>Settings_passkeyName := []\<rparr>),
                                          Settings_reload st,
                                          notify Success t_passkey_added JUndef]))))"

definition Settings_upgradeSubmit :: "Settings_state \<Rightarrow> json \<Rightarrow> Settings_state io" where
  "Settings_upgradeSubmit st ev =
     steps [perform Prevent_default, perform (Dom ''submit.disabled'' [JBool True]),
            try_catch (steps [api ''/api/v1/auth/password/upgrade''
                                (with_body ''POST''
                                   (jsonBody (JObj [(''current_password'',
                                                     form_get (fld ev ''form'') ''current_password'')]))),
                              perform Close_modal, Settings_reload st,
                              notify Success t_upgraded_argon2id JUndef])
              (\<lambda>cause.
                 steps [notify Failure t_upgrade_failed (JStr (errorDetail cause)),
                        perform (Dom ''submit.disabled'' [JBool False])])]"

definition Settings_upgradePasswordProtection :: "Settings_state \<Rightarrow> Settings_state io" where
  "Settings_upgradePasswordProtection st =
     open_modal t_upgrade_password []
       [El ''form'' [(''className'', JStr ''form-stack'')]
          [(''onSubmit'', \<lambda>ev. Settings_upgradeSubmit st ev)]
          [El ''div'' [(''className'', JStr ''notice info kdf-upgrade-notice'')] []
             [Icon [(''name'', JStr ''security'')],
              El ''div'' [] [] [El ''strong'' [] [] [Txt t_password_unchanged_note],
                                El ''span'' [] [] [Txt t_argon_regenerates]]],
           Field [(''label'', JStr t_current_password)]
             [TextInput [(''name'', JStr ''current_password''), (''type'', JStr ''password''),
                         (''autoComplete'', JStr ''current-password''),
                         (''required'', JBool True), (''autoFocus'', JBool True)]
                []],
           El ''p'' [(''className'', JStr ''form-help'')] [] [Txt t_argon_costs],
           El ''div'' [(''className'', JStr ''form-actions'')] []
             [Button [] [(''onClick'', \<lambda>ev. perform Close_modal)] [Txt t_later_word],
              Button [(''type'', JStr ''submit''), (''tone'', JStr ''primary'')] []
                [Txt t_upgrade_now]]]]"

definition Settings_accountSubmit :: "Settings_state \<Rightarrow> Settings_state io" where
  "Settings_accountSubmit st =
     steps
       [perform Prevent_default,
        Settings_run st t_rename_failed
          (steps
             [api ''/api/v1/auth/account''
                (with_body ''PATCH''
                   (jsonBody
                      (JObj [(''username'',
                              JStr (js_trim (jstring (fld (Settings_account st) ''username'')))),
                             (''current_password'', fld (Settings_account st) ''current_password''),
                             (''otp'', JStr (js_trim (jstring (fld (Settings_account st) ''otp''))))]))),
              set_state (\<lambda>s.
                           s\<lparr>Settings_account := spread (Settings_account s)
                               [(''current_password'', JStr []), (''otp'', JStr [])]\<rparr>),
              Settings_reload st, notify Success t_admin_renamed JUndef])]"

definition Settings_accountCard :: "Settings_state \<Rightarrow> Settings_state vnode" where
  "Settings_accountCard st =
     Card [(''className'', JStr ''setting-card'')]
       [SectionTitle [(''title'', JStr t_admin_account), (''subtitle'', JStr t_rename_revokes)] [],
        El ''form'' [(''className'', JStr ''form-stack'')]
          [(''onSubmit'', \<lambda>ev. Settings_accountSubmit st)]
          ([Field [(''label'', JStr t_admin_username)]
              [TextInput [(''value'', fld (Settings_account st) ''username''),
                          (''autoCapitalize'', JStr ''none''), (''required'', JBool True)]
                 [(''onChange'',
                   \<lambda>ev.
                     set_state (\<lambda>s.
                                  s\<lparr>Settings_account := spread (Settings_account s)
                                      [(''username'', fld ev ''value'')]\<rparr>))]],
            Field [(''label'', JStr t_current_password)]
              [TextInput [(''type'', JStr ''password''),
                          (''value'', fld (Settings_account st) ''current_password''),
                          (''autoComplete'', JStr ''current-password''),
                          (''required'', JBool True)]
                 [(''onChange'',
                   \<lambda>ev.
                     set_state (\<lambda>s.
                                  s\<lparr>Settings_account := spread (Settings_account s)
                                      [(''current_password'', fld ev ''value'')]\<rparr>))]]] @
           (if truthy (fld (Settings_totp st) ''enabled'')
              then [Field [(''label'', JStr t_otp_or_recovery_long)]
                      [SecondFactorInput [(''value'', fld (Settings_account st) ''otp''),
                                          (''required'', JBool True)]
                         [(''onChange'',
                           \<lambda>ev.
                             set_state (\<lambda>s.
                                          s\<lparr>Settings_account := spread (Settings_account s)
                                              [(''otp'', fld ev ''value'')]\<rparr>))]]]
            else []) @
           [Button [(''type'', JStr ''submit''), (''tone'', JStr ''primary''),
                    (''busy'', JBool (Settings_working st))]
              [] [Txt t_save_username]])]"

definition Settings_passwordSubmit :: "Settings_state \<Rightarrow> Settings_state io" where
  "Settings_passwordSubmit st =
     steps
       [perform Prevent_default,
        if fld (Settings_password st) ''new_password'' \<noteq> fld (Settings_password st) ''confirm''
          then notify Warning t_passwords_differ JUndef
        else Settings_run st t_password_change_failed
               (steps
                  [api ''/api/v1/auth/password''
                     (with_body ''POST''
                        (jsonBody
                           (JObj [(''current_password'',
                                   fld (Settings_password st) ''current_password''),
                                  (''new_password'', fld (Settings_password st) ''new_password''),
                                  (''otp'',
                                   JStr (js_trim (jstring (fld (Settings_password st) ''otp''))))]))),
                   set_state (\<lambda>s.
                                s\<lparr>Settings_password := JObj
                                    [(''current_password'', JStr []), (''new_password'', JStr []),
                                     (''confirm'', JStr []), (''otp'', JStr [])]\<rparr>),
                   Settings_reload st, notify Success t_password_changed JUndef])]"

definition Settings_passwordCard :: "Settings_state \<Rightarrow> Settings_state vnode" where
  "Settings_passwordCard st =
     Card [(''className'', JStr ''setting-card'')]
       [SectionTitle [(''title'', JStr t_change_password), (''subtitle'', JStr t_password_strength)] [],
        El ''form'' [(''className'', JStr ''form-stack'')]
          [(''onSubmit'', \<lambda>ev. Settings_passwordSubmit st)]
          ([Field [(''label'', JStr t_current_password)]
              [TextInput [(''type'', JStr ''password''),
                          (''value'', fld (Settings_password st) ''current_password''),
                          (''autoComplete'', JStr ''current-password''),
                          (''required'', JBool True)]
                 [(''onChange'',
                   \<lambda>ev.
                     set_state (\<lambda>s.
                                  s\<lparr>Settings_password := spread (Settings_password s)
                                      [(''current_password'', fld ev ''value'')]\<rparr>))]],
            Field [(''label'', JStr t_new_password)]
              [TextInput [(''type'', JStr ''password''),
                          (''value'', fld (Settings_password st) ''new_password''),
                          (''autoComplete'', JStr ''new-password''),
                          (''required'', JBool True)]
                 [(''onChange'',
                   \<lambda>ev.
                     set_state (\<lambda>s.
                                  s\<lparr>Settings_password := spread (Settings_password s)
                                      [(''new_password'', fld ev ''value'')]\<rparr>))]],
            Field [(''label'', JStr t_confirm_new_password)]
              [TextInput [(''type'', JStr ''password''),
                          (''value'', fld (Settings_password st) ''confirm''),
                          (''autoComplete'', JStr ''new-password''),
                          (''required'', JBool True)]
                 [(''onChange'',
                   \<lambda>ev.
                     set_state (\<lambda>s.
                                  s\<lparr>Settings_password := spread (Settings_password s)
                                      [(''confirm'', fld ev ''value'')]\<rparr>))]]] @
           (if truthy (fld (Settings_totp st) ''enabled'')
              then [Field [(''label'', JStr t_otp_or_recovery_long)]
                      [SecondFactorInput [(''value'', fld (Settings_password st) ''otp''),
                                          (''required'', JBool True)]
                         [(''onChange'',
                           \<lambda>ev.
                             set_state (\<lambda>s.
                                          s\<lparr>Settings_password := spread (Settings_password s)
                                              [(''otp'', fld ev ''value'')]\<rparr>))]]]
            else []) @
           [Button [(''type'', JStr ''submit''), (''tone'', JStr ''primary''),
                    (''busy'', JBool (Settings_working st))]
              [] [Txt t_change_password]])]"

definition Settings_totpCard :: "Settings_state \<Rightarrow> Settings_state vnode" where
  "Settings_totpCard st =
     Card [(''className'', JStr ''setting-card'')]
       ([SectionTitle [(''title'', JStr t_totp_word), (''subtitle'', JStr t_totp_hint)]
           [Badge [(''tone'',
                    JStr (if truthy (fld (Settings_totp st) ''enabled'') then ''success''
                          else ''neutral''))]
              [Txt (if truthy (fld (Settings_totp st) ''enabled'') then t_opened_word
                    else t_not_opened)]]] @
        (if truthy (fld (Settings_totp st) ''enabled'')
           then [El ''p'' [(''className'', JStr ''setting-note'')] []
                   [Txt t_codes_left,
                    Txt (num_str (number (fld (Settings_totp st) ''recovery_codes_remaining''))),
                    Txt t_codes_unit]]
         else [El ''p'' [(''className'', JStr ''setting-note'')] [] [Txt t_totp_recommended]]) @
        [El ''div'' [(''className'', JStr ''form-actions'')] []
           (if \<not> truthy (fld (Settings_totp st) ''enabled'')
              then [Button [(''tone'', JStr ''primary''), (''busy'', JBool (Settings_working st))]
                      [(''onClick'', \<lambda>ev. Settings_beginTotp st)] [Txt t_begin_setup]]
            else [Button [(''busy'', JBool (Settings_working st))]
                    [(''onClick'',
                      \<lambda>ev.
                        Settings_codeAction st t_regenerate_codes t_old_codes_invalid
                          ''/api/v1/auth/totp/recovery'' t_codes_regenerated False)]
                    [Txt t_regenerate_codes],
                  Button [(''tone'', JStr ''danger''), (''busy'', JBool (Settings_working st))]
                    [(''onClick'',
                      \<lambda>ev.
                        Settings_codeAction st t_disable_totp t_disable_totp_detail
                          ''/api/v1/auth/totp/disable'' t_totp_disabled True)]
                    [Txt t_close]])])"

definition Settings_prefsSubmit :: "Settings_state \<Rightarrow> Settings_state io" where
  "Settings_prefsSubmit st =
     steps [perform Prevent_default,
            Settings_run st t_save_failed
              (steps [api ''/api/v1/settings''
                        (with_body ''PATCH'' (jsonBody (JObj [(''auto_refresh_seconds'',
                                                               JNum (Settings_refreshSeconds st))]))),
                      Settings_reload st, notify Success t_refresh_saved JUndef])]"

definition Settings_cryptoList :: "Settings_state \<Rightarrow> Settings_state vnode" where
  "Settings_cryptoList st =
     El ''dl'' [(''className'', JStr ''key-value-list'')] []
       [KeyValue [(''label'', JStr t_version_word)]
          [Txt (text_or (fld (Settings_settings st) ''version'') (Settings_version st))],
        KeyValue [(''label'', JStr t_listen_word), (''mono'', JBool True)]
          [Txt (js_text (fld (Settings_settings st) ''listen''))],
        KeyValue [(''label'', JStr ''HTTPS Cookie'')]
          [Txt (boolText (fld (Settings_settings st) ''secure_cookie''))],
        KeyValue [(''label'', JStr t_password_storage)]
          [El ''span'' [(''className'', JStr ''inline-status'')] []
             ([Txt (text_or (fld (Settings_settings st) ''password_hash_algorithm'') t_unknown_word)] @
              (if truthy (fld (Settings_settings st) ''password_upgrade_required'')
                 then [Badge [(''tone'', JStr ''warning'')] [Txt t_to_upgrade]]
               else [Badge [(''tone'', JStr ''success'')] [Txt t_current_preset]]))],
        KeyValue [(''label'', JStr t_kdf_word)]
          [Txt (js_text (fld (fld (Settings_settings st) ''crypto'') ''password_kdf''))],
        KeyValue [(''label'', JStr t_memory_cost)]
          [Txt (num_str (number (fld (fld (Settings_settings st) ''crypto'') ''password_memory_mib'')) @
                t_mib_temporary)],
        KeyValue [(''label'', JStr t_time_cost)]
          [Txt (num_str (number (fld (fld (Settings_settings st) ''crypto'') ''password_time_cost'')) @
                t_rounds_suffix)],
        KeyValue [(''label'', JStr t_parallelism)]
          [Txt
             (num_str (number (fld (fld (Settings_settings st) ''crypto'') ''password_parallelism'')))],
        KeyValue [(''label'', JStr t_kdf_limit)]
          [Txt (num_str
                  (number (fld (fld (Settings_settings st) ''crypto'') ''password_max_concurrent'')) @
                t_about_open @
                num_str
                  (number (fld (fld (Settings_settings st) ''crypto'') ''password_memory_mib'') *
                     number (fld (fld (Settings_settings st) ''crypto'') ''password_max_concurrent'')) @
                t_mib_peak)],
        KeyValue [(''label'', JStr t_session_signature)]
          [Txt (js_text (fld (fld (Settings_settings st) ''crypto'') ''session_mac''))],
        KeyValue [(''label'', JStr t_pq_outbound)]
          (if truthy (fld (fld (Settings_settings st) ''crypto'') ''post_quantum_capable'')
             then [Badge [(''tone'', JStr ''success'')] [Txt t_ml_kem_enabled]]
           else [Badge [(''tone'', JStr ''warning'')] [Txt t_not_in_build]]),
        KeyValue [(''label'', JStr t_negotiated)]
          [Txt (js_text (fld (fld (Settings_settings st) ''crypto'') ''outbound_tls''))],
        KeyValue [(''label'', JStr t_inbound_https)]
          [Txt (js_text (fld (fld (Settings_settings st) ''crypto'') ''inbound_tls''))],
        KeyValue [(''label'', JStr t_runtime_word), (''mono'', JBool True)]
          [Txt (js_text (fld (fld (Settings_settings st) ''crypto'') ''runtime''))]]"

definition Settings_prefsCard :: "Settings_state \<Rightarrow> Settings_state vnode" where
  "Settings_prefsCard st =
     Card [(''className'', JStr ''setting-card'')]
       [SectionTitle [(''title'', JStr t_panel_preferences), (''subtitle'', JStr t_refresh_control)] [],
        El ''form'' [(''className'', JStr ''form-stack'')]
          [(''onSubmit'', \<lambda>ev. Settings_prefsSubmit st)]
          [Field [(''label'', JStr t_refresh_seconds)]
             [TextInput [(''type'', JStr ''number''), (''min'', JStr ''2''),
                         (''max'', JStr ''300''), (''value'', JNum (Settings_refreshSeconds st))]
                [(''onChange'',
                  \<lambda>ev. set_state (\<lambda>s. s\<lparr>Settings_refreshSeconds := number_or (fld ev ''value'') 10\<rparr>))]],
           Button [(''type'', JStr ''submit''), (''tone'', JStr ''primary''),
                   (''busy'', JBool (Settings_working st))]
             [] [Txt t_save_preferences]],
        Settings_cryptoList st]"

definition Settings_deletePasskey :: "Settings_state \<Rightarrow> json \<Rightarrow> Settings_state io" where
  "Settings_deletePasskey st item =
     bnd (confirm_io t_delete_passkey
            (t_delete_quote @ text_or (fld item ''name'') t_unnamed_passkey @ t_quote_question)
            t_delete True)
       (\<lambda>r6.
          if truthy r6
            then Settings_run st t_delete_failed
                   (steps [secureApi ''/api/v1/auth/passkeys''
                             (with_body ''DELETE'' (jsonBody (JObj [(''id'', fld item ''id'')]))),
                           Settings_reload st, notify Success t_passkey_deleted JUndef])
          else skip)"

definition Settings_passkeyCard :: "locale_date \<Rightarrow> Settings_state \<Rightarrow> Settings_state vnode" where
  "Settings_passkeyCard loc st =
     Card []
       ([SectionTitle [(''title'', JStr ''Passkey''), (''subtitle'', JStr t_passkey_hint)] [],
         El ''div'' [(''className'', JStr ''inline-form'')] []
           [TextInput [(''value'', JStr (Settings_passkeyName st)),
                       (''placeholder'', JStr t_device_name_example)]
              [(''onChange'',
                \<lambda>ev. set_state (\<lambda>s. s\<lparr>Settings_passkeyName := jstring (fld ev ''value'')\<rparr>))],
            Button [(''tone'', JStr ''primary''), (''icon'', JStr ''passkey''),
                    (''busy'', JBool (Settings_working st))]
              [(''onClick'', \<lambda>ev. Settings_registerPasskey st)] [Txt t_add_passkey]]] @
        (if length (Settings_passkeys st) \<noteq> 0
           then [El ''div'' [(''className'', JStr ''credential-list'')] []
                   (map (\<lambda>item.
                           El ''div''
                             [(''className'', JStr ''credential-row''), (''key'', fld item ''id'')] []
                             [El ''span'' [(''className'', JStr ''credential-icon'')] []
                                [Icon [(''name'', JStr ''passkey'')]],
                              El ''div'' [] []
                                [El ''strong'' [] []
                                   [Txt (text_or (fld item ''name'') t_unnamed_passkey)],
                                 El ''p'' [] [] [Txt t_created_colon,
                                                 Txt (formatDate loc (fld item ''created_at'')),
                                                 Txt (if truthy (fld item ''last_used'')
                                                        then t_last_used @
                                                             formatDate loc (fld item ''last_used'')
                                                      else [])]],
                              Button [(''tone'', JStr ''danger'')]
                                [(''onClick'', \<lambda>ev. Settings_deletePasskey st item)] [Txt t_delete]])
                      (Settings_passkeys st))]
         else [EmptyState [(''icon'', JStr ''passkey''), (''title'', JStr t_no_passkeys)] []]))"

definition Settings_revokeSessions :: "Settings_state \<Rightarrow> Settings_state io" where
  "Settings_revokeSessions st =
     Settings_run st t_revoke_failed
       (bnd (secureApi ''/api/v1/auth/sessions'' (with_body ''DELETE'' (Text_body ''{}'')))
          (\<lambda>r7.
             let out = asObject r7
             in steps [Settings_reload st,
                       notify Success (t_revoked_prefix @ num_str (number (fld out ''revoked'')) @
                                       t_other_sessions_suffix)
                         JUndef]))"

definition Settings_sessionsCard :: "locale_date \<Rightarrow> Settings_state \<Rightarrow> Settings_state vnode" where
  "Settings_sessionsCard loc st =
     Card []
       [SectionTitle
          [(''title'', JStr t_login_sessions), (''subtitle'', JStr t_current_not_revoked)]
          [Button [(''tone'', JStr ''danger''),
                   (''disabled'', JBool (length (Settings_sessions st) \<le> 1))]
             [(''onClick'', \<lambda>ev. Settings_revokeSessions st)] [Txt t_revoke_others]],
        El ''div'' [(''className'', JStr ''compact-list'')] []
          (map (\<lambda>session.
                  El ''div'' [(''className'', JStr ''compact-row''), (''key'', fld session ''id'')] []
                    [El ''div'' [] []
                       [El ''strong'' [] []
                          (child (fld session ''id'') @
                           (if fld session ''id'' = JStr (Settings_currentSession st)
                              then [Badge [(''tone'', JStr ''success'')] [Txt t_current_word]]
                            else [])),
                        El ''small'' [] []
                          [Txt (formatDate loc (fld session ''created_at'')),
                           Txt t_arrow_right, Txt (formatDate loc (fld session ''expires_at''))]]])
             (Settings_sessions st))]"

definition Settings_authRulesCard :: "Settings_state \<Rightarrow> Settings_state vnode" where
  "Settings_authRulesCard st =
     Card []
       [SectionTitle [(''title'', JStr t_auth_rules), (''subtitle'', JStr t_no_trusted_devices)] [],
        El ''dl'' [(''className'', JStr ''key-value-list'')] []
          [KeyValue [(''label'', JStr t_password_login)]
             (if truthy (fld (Settings_totp st) ''enabled'')
                then [Badge [(''tone'', JStr ''success'')] [Txt t_totp_every_time]]
              else [Badge [(''tone'', JStr ''warning'')] [Txt t_password_only]]),
           KeyValue [(''label'', JStr t_passkey_login)]
             [Badge [(''tone'', JStr ''success'')] [Txt t_no_username_auth]],
           KeyValue [(''label'', JStr t_risky_ops)]
             [Txt (if truthy (fld (Settings_totp st) ''enabled'') then t_password_and_totp
                   else t_current_password)],
           KeyValue [(''label'', JStr t_trusted_device)] [Txt t_not_supported]]]"

definition Settings_view :: "locale_date \<Rightarrow> route \<Rightarrow> Settings_state \<Rightarrow> Settings_state vnode" where
  "Settings_view loc route st =
     El ''div'' [(''className'', JStr ''page-stack settings-page'')] []
       ([PageHeader route (JBool (Settings_loading st)) (Some (\<lambda>ev. Settings_reload st))
           [Button [(''tone'', JStr ''danger'')]
              [(''onClick'', \<lambda>ev. perform (Prop_call ''onLogout'' []))] [Txt t_log_out]]] @
        (if Settings_error st \<noteq> []
           then [ErrorState (JStr (Settings_error st)) (\<lambda>ev. Settings_reload st)]
         else if Settings_loading st \<and> \<not> truthy (fld (Settings_settings st) ''version'')
           then [LoadingState 6]
         else ((if truthy (fld (Settings_settings st) ''password_upgrade_required'')
                  then [El ''div'' [(''className'', JStr ''notice warning kdf-upgrade-notice'')] []
                          [Icon [(''name'', JStr ''security'')],
                           El ''div'' [] [] [El ''strong'' [] [] [Txt t_password_compat_mode],
                                             El ''span'' [] [] [Txt t_pbkdf2_still_ok]],
                           Button [(''tone'', JStr ''primary'')]
                             [(''onClick'', \<lambda>ev. Settings_upgradePasswordProtection st)]
                             [Txt t_upgrade_now]]]
                else []) @
               [El ''div'' [(''className'', JStr ''settings-grid'')] []
                  [Settings_accountCard st, Settings_passwordCard st, Settings_totpCard st,
                   Settings_prefsCard st],
                Settings_passkeyCard loc st,
                El ''div'' [(''className'', JStr ''settings-two-column'')] []
                  [Settings_sessionsCard loc st, Settings_authRulesCard st]])))"

definition Settings_init :: "string \<Rightarrow> string \<Rightarrow> json \<Rightarrow> bool \<Rightarrow> Settings_state" where
  "Settings_init username version platform store =
     \<lparr>Settings_owner = username, Settings_version = version, Settings_platform = platform,
      Settings_credentialStore = store, Settings_settings = JObj [], Settings_sessions = [],
      Settings_currentSession = [], Settings_passkeys = [], Settings_totp = JObj [],
      Settings_account = JObj [(''username'', JStr username), (''current_password'', JStr []), (''otp'', JStr [])],
      Settings_password = JObj [(''current_password'', JStr []), (''new_password'', JStr []), (''confirm'', JStr []),
        (''otp'', JStr [])],
      Settings_refreshSeconds = 10, Settings_passkeyName = [], Settings_loading = True, Settings_working = False,
      Settings_error = []\<rparr>"

subsection \<open>The page keeps the rules\<close>

text \<open>What counts as destructive: turning off the second factor, replacing its recovery codes, and deleting a
  passkey.\<close>

definition cuts_factor :: "string \<Rightarrow> bool" where
  "cuts_factor url \<longleftrightarrow> url \<in> set [''/api/v1/auth/totp/disable'', ''/api/v1/auth/totp/recovery'', ''/api/v1/auth/passkeys'']"

definition harms_settings :: "request \<Rightarrow> bool" where
  "harms_settings r \<longleftrightarrow> changing r \<and> cuts_factor (req_url r)"

lemma harms_settings_mk [simp]: "harms_settings (mk_request url i tok) \<longleftrightarrow> sends_change i \<and> cuts_factor url"
  by (simp add: harms_settings_def)

lemma cuts_no_factor [simp]:
  "\<not> cuts_factor ''/api/v1/auth/totp/setup''" "\<not> cuts_factor ''/api/v1/auth/totp/confirm''"
  "\<not> cuts_factor ''/api/v1/auth/passkey/register/begin''" "\<not> cuts_factor ''/api/v1/auth/passkey/register/finish''"
  "\<not> cuts_factor ''/api/v1/auth/password/upgrade''" "\<not> cuts_factor ''/api/v1/auth/account''"
  "\<not> cuts_factor ''/api/v1/auth/password''" "\<not> cuts_factor ''/api/v1/settings''"
  "\<not> cuts_factor ''/api/v1/auth/sessions''"
  by (simp_all add: cuts_factor_def)

abbreviation settings_safe :: "Settings_state io \<Rightarrow> bool" where
  "settings_safe \<equiv> safe_loud {} harms_settings"

lemma Settings_reload_wp:
  assumes "\<And>s'. Q JUndef g s'"
  shows "wp (w_ok harms_settings) w_upd (Settings_reload st) Q E g s"
proof -
  have all: "wp (w_ok harms_settings) w_upd (promise_all (map (\<lambda>u. api u empty_init) us)) Q' E' g s"
    if "\<And>v s'. Q' v g s'" "\<And>c s'. E' c g s'" for us Q' E' s
    using that by (intro wp_promise_all) (auto intro!: wp_get_quiet)
  show ?thesis
    unfolding Settings_reload_def io_simps Let_def
    by (auto simp: io_simps assms intro!: all [of _ _ "[_, _, _, _]", simplified])
qed

lemma Settings_recoveryModal_wp [io_simps]:
  "wp ok upd (Settings_recoveryModal st codes) Q E g s = Q JUndef g s"
  by (simp add: Settings_recoveryModal_def open_modal_def io_simps)

lemma Settings_run_wp [io_simps]:
  "wp (w_ok P) w_upd (Settings_run st title task) Q E g s =
     wp (w_ok P) w_upd task (\<lambda>v g s. Q v g (s\<lparr>Settings_working := False\<rparr>))
       (\<lambda>c g s. \<forall>s'. Q JUndef (w_told Failure g) (s'\<lparr>Settings_working := False\<rparr>)) g (s\<lparr>Settings_working := True\<rparr>)"
  by (simp add: Settings_run_def io_simps)

lemma Settings_shows [simp]:
  "shows_ok R (Settings_reload st)"
  "(\<And>v. handler_ok R (perform Close_modal)) \<Longrightarrow> (\<And>v m. handler_ok R (seqs (copyText v) (notify Success m JUndef))) \<Longrightarrow>
     shows_ok R (Settings_recoveryModal st codes)"
  "shows_ok R task \<Longrightarrow> shows_ok R (Settings_run st title task)"
  by (simp_all add: Settings_reload_def Settings_recoveryModal_def Settings_run_def Let_def)

lemma Settings_reload_safe [simp]: "settings_safe (Settings_reload st)"
  by (rule safe_loudI) (auto intro!: Settings_reload_wp)

lemma Settings_totpSubmit_safe [simp]: "safe_loud {} harms_settings (Settings_totpSubmit st setup ev)"
  by (auto simp: Settings_totpSubmit_def Let_def io_simps intro!: safe_loudI io_rules Settings_reload_wp wp_secureApi shows_ok_combinators)

lemma Settings_beginTotp_safe [simp]: "safe_loud {} harms_settings (Settings_beginTotp st)"
  by (auto simp: Settings_beginTotp_def Let_def io_simps intro!: safe_loudI io_rules Settings_reload_wp wp_secureApi shows_ok_combinators)

lemma Settings_codeAction_safe [simp]: "safe_loud {} harms_settings (Settings_codeAction st title description endpoint success destructive)"
  by (auto simp: Settings_codeAction_def Let_def io_simps intro!: safe_loudI io_rules Settings_reload_wp wp_secureApi shows_ok_combinators)

lemma Settings_registerPasskey_safe [simp]: "safe_loud {} harms_settings (Settings_registerPasskey st)"
  by (auto simp: Settings_registerPasskey_def Let_def io_simps intro!: safe_loudI io_rules Settings_reload_wp wp_secureApi)

lemma Settings_upgradeSubmit_safe [simp]: "safe_loud {} harms_settings (Settings_upgradeSubmit st ev)"
  by (auto simp: Settings_upgradeSubmit_def Let_def io_simps intro!: safe_loudI io_rules Settings_reload_wp wp_secureApi)

lemma Settings_upgradePasswordProtection_safe [simp]: "safe_loud {} harms_settings (Settings_upgradePasswordProtection st)"
  by (auto simp: Settings_upgradePasswordProtection_def Let_def io_simps intro!: safe_loudI io_rules Settings_reload_wp wp_secureApi)

lemma Settings_accountSubmit_safe [simp]: "safe_loud {} harms_settings (Settings_accountSubmit st)"
  by (auto simp: Settings_accountSubmit_def Let_def io_simps intro!: safe_loudI io_rules Settings_reload_wp wp_secureApi)

lemma Settings_passwordSubmit_safe [simp]: "safe_loud {} harms_settings (Settings_passwordSubmit st)"
  by (auto simp: Settings_passwordSubmit_def Let_def io_simps intro!: safe_loudI io_rules Settings_reload_wp wp_secureApi)

lemma Settings_prefsSubmit_safe [simp]: "safe_loud {} harms_settings (Settings_prefsSubmit st)"
  by (auto simp: Settings_prefsSubmit_def Let_def io_simps intro!: safe_loudI io_rules Settings_reload_wp wp_secureApi)

lemma Settings_deletePasskey_safe [simp]: "safe_loud {} harms_settings (Settings_deletePasskey st item)"
  by (auto simp: Settings_deletePasskey_def Let_def io_simps intro!: safe_loudI io_rules Settings_reload_wp wp_secureApi)

lemma Settings_revokeSessions_safe [simp]: "safe_loud {} harms_settings (Settings_revokeSessions st)"
  by (auto simp: Settings_revokeSessions_def Let_def io_simps intro!: safe_loudI io_rules Settings_reload_wp wp_secureApi)

lemma Settings_logout_safe [simp]: "settings_safe (perform (Prop_call ''onLogout'' []))"
  by (auto simp: io_simps intro!: safe_loudI io_rules)

lemma Settings_cards_safe [simp]:
  "vnode_ok (behaves_loud {} harms_settings) (Settings_accountCard st)"
  "vnode_ok (behaves_loud {} harms_settings) (Settings_passwordCard st)"
  "vnode_ok (behaves_loud {} harms_settings) (Settings_totpCard st)"
  "vnode_ok (behaves_loud {} harms_settings) (Settings_cryptoList st)"
  "vnode_ok (behaves_loud {} harms_settings) (Settings_prefsCard st)"
  "vnode_ok (behaves_loud {} harms_settings) (Settings_passkeyCard loc st)"
  "vnode_ok (behaves_loud {} harms_settings) (Settings_sessionsCard loc st)"
  "vnode_ok (behaves_loud {} harms_settings) (Settings_authRulesCard st)"
proof -
  show c: "vnode_ok (behaves_loud {} harms_settings) (Settings_cryptoList st)" by (simp add: Settings_cryptoList_def)
  show "vnode_ok (behaves_loud {} harms_settings) (Settings_prefsCard st)" by (simp add: Settings_prefsCard_def c)
qed (simp_all add: Settings_accountCard_def Settings_passwordCard_def Settings_totpCard_def Settings_passkeyCard_def
    Settings_sessionsCard_def Settings_authRulesCard_def)

interpretation settings: loud_page "Settings_view loc route" "{}" harms_settings
  by unfold_locales (simp add: Settings_view_def)

text \<open>Rules of interaction of the settings page. Take any handler the page, or a dialog opened from it, offers
  in any state, and any run of it: turning off the second factor, replacing its recovery codes and deleting a
  passkey are requested only after the user confirmed them, a success message appears only after the server
  acknowledged a change, and no refused change is passed over in silence.\<close>

theorem settings_rules:
  assumes "offered (Settings_view loc route) m" and "run m as s = (tr, out, s')" and "legal tr"
  shows "guarded_trace harms_settings tr \<and> honest_trace tr \<and> (out \<noteq> Suspended \<longrightarrow> \<not> silent_failure tr)"
  using settings.rules_kept_loud [OF assms] by blast

definition sample_settings :: Settings_state where
  "sample_settings = (Settings_init ''luke'' ''v2'' JUndef True)\<lparr>Settings_loading := False,
     Settings_passkeys := [JObj [(''id'', JStr ''p1'')]]\<rparr>"

theorem settings_rules_witness:
  "let r = run_alone (Settings_deletePasskey sample_settings (JObj [(''id'', JStr ''p1'')])) yes_but_down sample_settings
   in length (requests (dids (events r))) = 1 \<and> guarded_trace harms_settings (events r) \<and> \<not> silent_failure (events r)"
proof -
  let ?m = "Settings_deletePasskey sample_settings (JObj [(''id'', JStr ''p1'')])"
  let ?r = "run_alone ?m yes_but_down sample_settings"
  have "offered (Settings_view (\<lambda>n. None) sample_route) ?m"
    by (rule offered_handler [of "''onClick''" "\<lambda>ev. ?m" _ sample_settings])
       (auto simp: Settings_view_def Settings_passkeyCard_def sample_settings_def Settings_init_def)
  moreover have "legal (events ?r) \<and> length (requests (dids (events ?r))) = 1 \<and> fst (snd ?r) \<noteq> Suspended"
    by (simp add: Settings_deletePasskey_def Settings_run_def yes_but_down_def run_ops)
  ultimately show ?thesis
    using settings_rules [OF _ run_alone_split] by (simp add: Let_def)
qed

end
