(* ===== verification/Shell.thy ===== *)
theory Shell imports Page_Base begin

text \<open>
  The application shell, \<open>App\<close> and \<open>Modal\<close> of \<open>web/assets/app.js\<close> (lines 380 to 439 and 3386 to 3595): one
  record for the state of \<open>App\<close>, its references, the module variables it sets and what it leaves in the document.
  A promise is a number; the answers given to confirmations and second authentications are lists, in the order
  in which they were given. \<open>commit\<close> is the moment React puts a state on the screen and runs the effects. What the pages use of the shell as effects
  (\<open>Confirm\<close>, \<open>Elevate\<close>, \<open>Notify\<close>) is here the code behind them.
\<close>

subsection \<open>State\<close>

text \<open>What occupies the single slot for a dialog: the dialog of a page, known by its title, the confirmation
  that answers the promise \<open>n\<close>, the form of the second authentication \<open>p\<close>, and the form that offers to
  upgrade the password, for the session key it was raised for.\<close>

datatype dialog =
    Page_dialog string
  | Confirm_dialog nat string string string bool
  | Elevation_dialog nat bool
  | Upgrade_dialog string string

record shell =
  sh_router :: router
  sh_ready :: bool
  sh_identity :: json
  sh_modal :: "dialog option"
  sh_drawer :: bool
  sh_compactLayout :: bool
  sh_toasts :: "toast list"
  sh_confirmResolve :: "nat option"
  sh_elevationResolve :: "nat option"
  sh_elevationReject :: "nat option"
  sh_elevationPromise :: "nat option"
  sh_modalReturnFocus :: json
  sh_toastId :: nat
  sh_csrfToken :: string
  sh_elevationHandler :: bool
  sh_document :: "dialog option"
  sh_locked :: bool
  sh_keyListeners :: nat
  sh_focus :: json
  sh_committed :: "json \<times> string"
  sh_sessionStorage :: "string list"
  sh_upgradeTimer :: "(string \<times> string) option"
  sh_lastUser :: string
  sh_asked :: nat
  sh_confirmed :: "(nat \<times> bool) list"
  sh_challenged :: nat
  sh_elevated :: "(nat \<times> cause option) list"

definition App :: "router \<Rightarrow> bool \<Rightarrow> json \<Rightarrow> string list \<Rightarrow> shell" where
  "App router narrow focused storage =
     \<lparr>sh_router = router, sh_ready = False, sh_identity = JNull, sh_modal = None, sh_drawer = False,
      sh_compactLayout = narrow, sh_toasts = [], sh_confirmResolve = None, sh_elevationResolve = None,
      sh_elevationReject = None, sh_elevationPromise = None, sh_modalReturnFocus = JNull, sh_toastId = 0,
      sh_csrfToken = [], sh_elevationHandler = True, sh_document = None, sh_locked = False, sh_keyListeners = 0,
      sh_focus = focused, sh_committed = (JNull, rs_path router), sh_sessionStorage = storage,
      sh_upgradeTimer = None, sh_lastUser = [], sh_asked = 0, sh_confirmed = [], sh_challenged = 0, sh_elevated = []\<rparr>"

subsection \<open>Messages\<close>

definition slice_last :: "nat \<Rightarrow> 'a list \<Rightarrow> 'a list" where
  "slice_last n xs = drop (length xs - n) xs"

definition shell_notify :: "toast_kind \<Rightarrow> string \<Rightarrow> json \<Rightarrow> shell \<Rightarrow> shell" where
  "shell_notify kind title detail0 s =
     (let ident = sh_toastId s + 1
      in s\<lparr>sh_toastId := ident,
           sh_toasts := slice_last 3 (sh_toasts s) @
             [\<lparr>to_id = ident, to_kind = kind, to_title = title, to_detail = detail0\<rparr>]\<rparr>)"

definition toast_delay :: "toast_kind \<Rightarrow> nat" where
  "toast_delay kind = (if kind = Failure then 10000 else 5000)"

definition dismiss_toast :: "nat \<Rightarrow> shell \<Rightarrow> shell" where
  "dismiss_toast ident s = s\<lparr>sh_toasts := filter (\<lambda>item. to_id item \<noteq> ident) (sh_toasts s)\<rparr>"

subsection \<open>Dialogs and confirmations\<close>

text \<open>The element that had the focus is remembered only when no dialog is in the document.\<close>

definition presentModal :: "dialog \<Rightarrow> shell \<Rightarrow> shell" where
  "presentModal d s =
     (let s1 = (if sh_document s = None then s\<lparr>sh_modalReturnFocus := sh_focus s\<rparr> else s)
      in s1\<lparr>sh_modal := Some d\<rparr>)"

text \<open>\<open>confirmResolve.current?.(b); confirmResolve.current = null\<close>.\<close>

definition answer_confirm :: "bool \<Rightarrow> shell \<Rightarrow> shell" where
  "answer_confirm b s = (case sh_confirmResolve s of None \<Rightarrow> s
     | Some n \<Rightarrow> s\<lparr>sh_confirmed := sh_confirmed s @ [(n, b)], sh_confirmResolve := None\<rparr>)"

definition closeModal :: "shell \<Rightarrow> shell" where
  "closeModal s = (answer_confirm False s)\<lparr>sh_modal := None\<rparr>"

definition openModal :: "string \<Rightarrow> shell \<Rightarrow> shell" where
  "openModal title s = presentModal (Page_dialog title) s"

definition confirmAction :: "string \<Rightarrow> string \<Rightarrow> string \<Rightarrow> bool \<Rightarrow> shell \<Rightarrow> shell" where
  "confirmAction title message actionLabel destructive s =
     (let n = sh_asked s;
          s1 = (answer_confirm False s)\<lparr>sh_asked := n + 1, sh_confirmResolve := Some n\<rparr>
      in presentModal (Confirm_dialog n title message actionLabel destructive) s1)"

text \<open>The two buttons of the confirmation.\<close>

definition confirm_button :: "bool \<Rightarrow> shell \<Rightarrow> shell" where
  "confirm_button b s = (answer_confirm b s)\<lparr>sh_modal := None\<rparr>"

subsection \<open>The second authentication\<close>

text \<open>\<open>settle_elevation\<close> is a call of \<open>elevationResolve.current\<close> or of \<open>elevationReject.current\<close>: it clears the three
  references and settles the promise they belong to. The handler asks for a code when the identity it was set
  up for, that of the last commit, has a second factor.\<close>

definition settle_elevation :: "nat option \<Rightarrow> cause option \<Rightarrow> shell \<Rightarrow> shell" where
  "settle_elevation ref r s = (case ref of None \<Rightarrow> s
     | Some p \<Rightarrow> s\<lparr>sh_elevated := sh_elevated s @ [(p, r)], sh_elevationPromise := None,
                   sh_elevationResolve := None, sh_elevationReject := None\<rparr>)"

definition resolve_elevation :: "shell \<Rightarrow> shell" where
  "resolve_elevation s = settle_elevation (sh_elevationResolve s) None s"

definition reject_elevation :: "string \<Rightarrow> shell \<Rightarrow> shell" where
  "reject_elevation m s = settle_elevation (sh_elevationReject s) (Some (Js_error m)) s"

definition elevationHandler :: "shell \<Rightarrow> nat \<times> shell" where
  "elevationHandler s =
     (case sh_elevationPromise s of Some p \<Rightarrow> (p, s)
      | None \<Rightarrow> (let p = sh_challenged s;
              s1 = s\<lparr>sh_challenged := p + 1, sh_elevationResolve := Some p, sh_elevationReject := Some p\<rparr>;
              s2 = presentModal (Elevation_dialog p (truthy (fld (fst (sh_committed s)) ''totp_enabled''))) s1
            in (p, s2\<lparr>sh_elevationPromise := Some p\<rparr>)))"

definition elevation_cancel :: "shell \<Rightarrow> shell" where
  "elevation_cancel s = reject_elevation t_elevation_cancelled (s\<lparr>sh_modal := None\<rparr>)"

definition elevation_accepted :: "shell \<Rightarrow> shell" where
  "elevation_accepted s = resolve_elevation (s\<lparr>sh_modal := None\<rparr>)"

text \<open>The form of the second authentication.\<close>

definition elevation_submit :: "json \<Rightarrow> shell io" where
  "elevation_submit ev =
     (let values = fld ev ''form''
      in steps [perform Prevent_default, perform (Dom ''submit.disabled'' [JBool True]),
           try_catch
             (steps [api ''/api/v1/auth/elevate'' (with_body ''POST'' (jsonBody
                       (JObj [(''password'', form_get values ''password''), (''otp'', form_get values ''otp'')]))),
                     set_state elevation_accepted])
             (\<lambda>cause. steps [set_state (shell_notify Failure t_elevation_failed (JStr (errorDetail cause))),
                            perform (Dom ''submit.disabled'' [JBool False])])])"

text \<open>\<open>onClose\<close> of the dialog: its close button, the Escape key and the backdrop.\<close>

definition shell_onClose :: "shell \<Rightarrow> shell" where
  "shell_onClose s =
     (let s1 = (if sh_elevationReject s \<noteq> None
                then (reject_elevation t_elevation_cancelled s)\<lparr>sh_elevationResolve := None, sh_elevationReject := None\<rparr>
                else s)
      in closeModal s1)"

subsection \<open>Identity\<close>

definition resetAuth :: "shell \<Rightarrow> shell" where
  "resetAuth s =
     (reject_elevation t_session_ended (s\<lparr>sh_csrfToken := []\<rparr>))\<lparr>sh_elevationResolve := None,
        sh_elevationReject := None, sh_elevationPromise := None, sh_identity := JNull, sh_modal := None\<rparr>"

definition applyIdentity :: "json \<Rightarrow> shell \<Rightarrow> cause + shell" where
  "applyIdentity nxt s =
     (if nullish nxt then Inl (Js_error ''cannot read properties of null'')
      else Inr (s\<lparr>sh_csrfToken := text_or (fld nxt ''csrf_token'') [], sh_identity := nxt, sh_ready := True,
                  sh_lastUser := text_or (fld nxt ''username'') []\<rparr>))"

text \<open>What follows the answer to \<open>/api/v1/auth/me\<close> when the panel is opened.\<close>

definition boot :: "cause + json \<Rightarrow> shell \<Rightarrow> shell" where
  "boot r s =
     (case (case r of Inr v \<Rightarrow> applyIdentity v s | Inl c \<Rightarrow> Inl c) of Inr s' \<Rightarrow> s'
      | Inl c \<Rightarrow> (resetAuth s)\<lparr>sh_ready := True\<rparr>)"

text \<open>The request that opens the panel.\<close>

definition shell_boot :: "shell io" where
  "shell_boot = settle (api ''/api/v1/auth/me'' empty_init) (\<lambda>r. set_state (boot r))"

definition shell_logout :: "string \<Rightarrow> shell io" where
  "shell_logout captured =
     try_finally
       (try_catch (api ''/api/v1/auth/logout'' (with_body ''POST'' (Text_body ''{}''))) (\<lambda>c. skip))
       (steps [set_state resetAuth,
               set_state (\<lambda>s. s\<lparr>sh_router := navigate captured ''/'' True (sh_router s)\<rparr>)])"

subsection \<open>The offer to upgrade the password\<close>

definition upgrade_key :: "json \<Rightarrow> string" where
  "upgrade_key identity = ''lukepanel:kdf-upgrade-prompted:'' @ jstring (fld identity ''session_id'')"

definition upgrade_effect :: "shell \<Rightarrow> shell" where
  "upgrade_effect s =
     (let identity = sh_identity s; dismissedKey = upgrade_key identity
      in if \<not> truthy (fld identity ''password_upgrade_required'') \<or> \<not> truthy (fld identity ''session_id'') then s
         else if dismissedKey \<in> set (sh_sessionStorage s) then s
         else s\<lparr>sh_sessionStorage := dismissedKey # sh_sessionStorage s,
                sh_upgradeTimer := Some (dismissedKey,
                  text_or (fld identity ''password_hash_algorithm'') ''PBKDF2'')\<rparr>)"

definition upgrade_timer :: "shell \<Rightarrow> shell" where
  "upgrade_timer s = (case sh_upgradeTimer s of None \<Rightarrow> s
     | Some (k, algorithm) \<Rightarrow> presentModal (Upgrade_dialog k algorithm) (s\<lparr>sh_upgradeTimer := None\<rparr>))"

definition upgrade_accepted :: "shell \<Rightarrow> shell" where
  "upgrade_accepted s =
     s\<lparr>sh_identity := (if truthy (sh_identity s)
           then spread (sh_identity s) [(''password_upgrade_required'', JBool False),
                  (''password_hash_algorithm'', JStr ''Argon2id'')]
           else sh_identity s),
       sh_modal := None\<rparr>"

definition upgrade_submit :: "string \<Rightarrow> json \<Rightarrow> shell io" where
  "upgrade_submit dismissedKey ev =
     steps [perform Prevent_default, perform (Dom ''submit.disabled'' [JBool True]),
       try_catch
         (steps [api ''/api/v1/auth/password/upgrade'' (with_body ''POST'' (jsonBody
                   (JObj [(''current_password'', form_get (fld ev ''form'') ''current_password'')]))),
                 set_state upgrade_accepted,
                 set_state (\<lambda>s. s\<lparr>sh_sessionStorage := filter (\<lambda>k. k \<noteq> dismissedKey) (sh_sessionStorage s)\<rparr>),
                 set_state (shell_notify Success t_upgraded_argon2id JUndef)])
         (\<lambda>cause. steps [set_state (shell_notify Failure t_upgrade_failed (JStr (errorDetail cause))),
                        perform (Dom ''submit.disabled'' [JBool False])])]"

subsection \<open>Effects\<close>

text \<open>\<open>Modal\<close> is part of the tree only when somebody is signed in. Its effect depends on the dialog: the clean-up
  of the old one unlocks the page behind and removes the key listener, the effect of the new one locks it
  and listens.\<close>

definition shown_modal :: "shell \<Rightarrow> dialog option" where
  "shown_modal s = (if sh_ready s \<and> truthy (sh_identity s) then sh_modal s else None)"

definition modal_cleanup :: "shell \<Rightarrow> shell" where
  "modal_cleanup s = (case sh_document s of None \<Rightarrow> s
     | Some d \<Rightarrow> s\<lparr>sh_locked := False, sh_keyListeners := sh_keyListeners s - 1\<rparr>)"

definition modal_effect :: "shell \<Rightarrow> shell" where
  "modal_effect s = (case sh_document s of None \<Rightarrow> s
     | Some d \<Rightarrow> s\<lparr>sh_locked := True, sh_keyListeners := sh_keyListeners s + 1\<rparr>)"

definition modal_commit :: "shell \<Rightarrow> shell" where
  "modal_commit s = (if sh_document s = shown_modal s then s
     else modal_effect ((modal_cleanup s)\<lparr>sh_document := shown_modal s\<rparr>))"

text \<open>The second authentication is set up anew when it changes whether a code has to be asked for.\<close>

definition elevation_commit :: "shell \<Rightarrow> shell" where
  "elevation_commit s =
     (if fld (fst (sh_committed s)) ''totp_enabled'' = fld (sh_identity s) ''totp_enabled'' then s
      else (reject_elevation t_elevation_over (s\<lparr>sh_elevationHandler := False\<rparr>))
        \<lparr>sh_elevationPromise := None, sh_elevationHandler := True\<rparr>)"

definition upgrade_commit :: "shell \<Rightarrow> shell" where
  "upgrade_commit s =
     (let deps = (\<lambda>i. (fld i ''password_upgrade_required'', fld i ''password_hash_algorithm'', fld i ''session_id''))
      in if deps (fst (sh_committed s)) = deps (sh_identity s) then s
         else upgrade_effect (s\<lparr>sh_upgradeTimer := None\<rparr>))"

definition route_commit :: "shell \<Rightarrow> shell" where
  "route_commit s = (if snd (sh_committed s) = rs_path (sh_router s) then s else s\<lparr>sh_drawer := False\<rparr>)"

definition commit :: "shell \<Rightarrow> shell" where
  "commit s =
     (let s1 = route_commit (elevation_commit (upgrade_commit (modal_commit s)))
      in s1\<lparr>sh_committed := (sh_identity s, rs_path (sh_router s))\<rparr>)"

definition sidebar_inert :: "shell \<Rightarrow> bool" where
  "sidebar_inert s \<longleftrightarrow> sh_compactLayout s \<and> \<not> sh_drawer s"

subsection \<open>Pages\<close>

datatype page =
    DashboardPage | SystemPage | ServicesPage | ProcessesPage | NetworkPage | StoragePage | TasksPage | UpdatesPage
  | HostPage | SnapshotsPage | DockerPage | FilesPage | ToolsPage | GitHubPage | SSHPage | AuditPage | SecurityPage
  | SettingsPage

definition renderPage :: "string \<Rightarrow> page" where
  "renderPage path =
     (if path = ''/'' then DashboardPage
      else if path = ''/system'' then SystemPage
      else if path = ''/system/services'' then ServicesPage
      else if path = ''/system/processes'' then ProcessesPage
      else if path = ''/system/network'' then NetworkPage
      else if path = ''/system/storage'' then StoragePage
      else if path = ''/system/tasks'' then TasksPage
      else if path = ''/system/updates'' then UpdatesPage
      else if path = ''/system/host'' then HostPage
      else if path = ''/system/snapshots'' then SnapshotsPage
      else if path = ''/docker'' then DockerPage
      else if path = ''/files'' then FilesPage
      else if path = ''/tools'' then ToolsPage
      else if path = ''/tools/github'' then GitHubPage
      else if path = ''/ssh'' then SSHPage
      else if path = ''/audit'' then AuditPage
      else if path = ''/security'' then SecurityPage
      else if path = ''/settings'' then SettingsPage
      else DashboardPage)"

text \<open>The page is one of the three screens of the shell.\<close>

datatype screen = Boot_screen | Login_screen | Page_screen route page

definition current_route :: "shell \<Rightarrow> route option" where
  "current_route s = (case ROUTE_MAP (rs_path (sh_router s)) of Some r \<Rightarrow> Some r | None \<Rightarrow> ROUTE_MAP ''/'')"

definition shell_screen :: "shell \<Rightarrow> screen option" where
  "shell_screen s =
     (if \<not> sh_ready s then Some Boot_screen
      else if \<not> truthy (sh_identity s) then Some Login_screen
      else map_option (\<lambda>r. Page_screen r (renderPage (r_path r))) (current_route s))"

definition nav_active :: "route \<Rightarrow> route \<Rightarrow> bool" where
  "nav_active route item \<longleftrightarrow> r_path route = r_path item \<or>
     (r_path item \<noteq> ''/'' \<and> starts_with (r_path route) (r_path item @ ''/''))"

subsection \<open>The operations, for the proofs\<close>

lemmas shell_ops [app_ops] =
  presentModal_def answer_confirm_def closeModal_def openModal_def confirmAction_def confirm_button_def
  settle_elevation_def resolve_elevation_def reject_elevation_def elevationHandler_def elevation_cancel_def
  elevation_accepted_def shell_onClose_def resetAuth_def applyIdentity_def boot_def upgrade_timer_def
  upgrade_accepted_def shell_notify_def dismiss_toast_def

lemmas commit_ops [app_ops] =
  commit_def modal_commit_def modal_cleanup_def modal_effect_def upgrade_commit_def upgrade_effect_def
  elevation_commit_def route_commit_def

end
