(* ===== verification/Shell_View.thy ===== *)
theory Shell_View imports Shell begin

text \<open>
  What the shell renders: \<open>Modal\<close> (\<open>web/assets/app.js\<close>, lines 380 to 439) with its keyboard handling, the contents of
  the dialogs the shell opens itself, the frame around the pages (lines 3520 to 3595), the error boundary
  (3369 to 3385) and the mount of the root (3596 to 3600). The content of a page's dialog and the full
  \<open>toUpperCase\<close> of the language are arguments.
\<close>

subsection \<open>The keyboard in a dialog\<close>

text \<open>The elements that can have the focus are numbered in document order.\<close>

datatype key_move = Close_it | Focus_dialog | Focus_item nat | Browser_default

definition modal_onKey :: "string \<Rightarrow> bool \<Rightarrow> nat list \<Rightarrow> nat \<Rightarrow> key_move" where
  "modal_onKey key shift focusables active =
     (if key = ''Escape'' then Close_it
      else if key \<noteq> ''Tab'' then Browser_default
      else if focusables = [] then Focus_dialog
      else if shift \<and> active = hd focusables then Focus_item (last focusables)
      else if \<not> shift \<and> active = last focusables then Focus_item (hd focusables)
      else Browser_default)"

definition modal_initialFocus :: "nat option \<Rightarrow> nat list \<Rightarrow> key_move" where
  "modal_initialFocus autofocus focusables =
     (case autofocus of Some e \<Rightarrow> Focus_item e
      | None \<Rightarrow> (case focusables of [] \<Rightarrow> Focus_dialog | e # es \<Rightarrow> Focus_item e))"

text \<open>The element that gets the focus back two frames after the dialog has gone.\<close>

definition modal_previousFocus :: "json \<Rightarrow> json \<Rightarrow> json" where
  "modal_previousFocus returnFocus active = jor returnFocus active"

definition modal_givesBack :: "dialog option \<Rightarrow> json \<Rightarrow> bool \<Rightarrow> json option" where
  "modal_givesBack document previousFocus isConnected =
     (if document = None \<and> truthy previousFocus \<and> isConnected then Some previousFocus else None)"

text \<open>What the Tab key does when the dialog leaves it to the browser: the next or the previous element.\<close>

definition next_item :: "bool \<Rightarrow> nat list \<Rightarrow> nat \<Rightarrow> nat option" where
  "next_item shift items active =
     (let order = (if shift then rev items else items)
      in case dropWhile (\<lambda>e. e \<noteq> active) order of _ # e # es \<Rightarrow> Some e | _ \<Rightarrow> None)"

definition after_tab :: "bool \<Rightarrow> nat list \<Rightarrow> nat \<Rightarrow> nat option" where
  "after_tab shift items active = (case modal_onKey ''Tab'' shift items active of
       Focus_item e \<Rightarrow> Some e | Browser_default \<Rightarrow> next_item shift items active | _ \<Rightarrow> None)"

lemma dropWhile_distinct:
  "distinct xs \<Longrightarrow> i < length xs \<Longrightarrow> dropWhile (\<lambda>e. e \<noteq> xs ! i) xs = drop i xs"
proof (induction xs arbitrary: i)
  case (Cons x xs)
  then show ?case by (cases i) (auto dest: nth_mem split: if_split)
qed simp

lemma next_in_order:
  assumes "distinct xs" and "Suc i < length xs"
  shows "(case dropWhile (\<lambda>e. e \<noteq> xs ! i) xs of _ # e # es \<Rightarrow> Some e | _ \<Rightarrow> None) = Some (xs ! Suc i)"
proof -
  have "dropWhile (\<lambda>e. e \<noteq> xs ! i) xs = xs ! i # xs ! Suc i # drop (Suc (Suc i)) xs"
    using assms dropWhile_distinct [of xs i] by (simp add: Cons_nth_drop_Suc)
  then show ?thesis by simp
qed

lemma tab_forward:
  assumes "distinct items" and "i < length items"
  shows "after_tab False items (items ! i) = Some (items ! (Suc i mod length items))"
proof (cases "Suc i = length items")
  case True
  have "items \<noteq> []" using assms(2) by auto
  then have "last items = items ! (length items - 1)" "hd items = items ! 0" by (simp_all add: last_conv_nth hd_conv_nth)
  moreover have "i = length items - 1" using True by simp
  ultimately have "last items = items ! i" "hd items = items ! 0" by simp_all
  then show ?thesis using True \<open>items \<noteq> []\<close> by (simp add: after_tab_def modal_onKey_def)
next
  case False
  have "items \<noteq> []" using assms(2) by auto
  moreover have "items ! i \<noteq> last items"
    using False assms \<open>items \<noteq> []\<close> by (simp add: last_conv_nth nth_eq_iff_index_eq)
  ultimately show ?thesis
    using False assms(2) next_in_order [OF assms(1), of i] by (simp add: after_tab_def modal_onKey_def next_item_def)
qed

lemma tab_backward: "after_tab True items e = after_tab False (rev items) e"
  by (auto simp: after_tab_def modal_onKey_def next_item_def hd_rev last_rev split: if_split)

text \<open>The Tab key never leaves a dialog. From any of the elements of the dialog that can have the focus, Tab
  leads to the next one and, from the last, to the first; with Shift it leads to the one before and, from the
  first, to the last.\<close>

theorem tab_cycles:
  assumes "distinct items" and "i < length items"
  shows "after_tab False items (items ! i) = Some (items ! (Suc i mod length items)) \<and>
    after_tab True items (items ! i) = Some (items ! ((i + (length items - 1)) mod length items))"
proof -
  let ?n = "length items"
  have "items ! i = rev items ! (?n - 1 - i)" using assms(2) by (simp add: rev_nth)
  then have "after_tab True items (items ! i) = Some (rev items ! (Suc (?n - 1 - i) mod ?n))"
    using tab_forward [of "rev items" "?n - 1 - i"] assms by (simp add: tab_backward)
  moreover have "rev items ! (Suc (?n - 1 - i) mod ?n) = items ! ((i + (?n - 1)) mod ?n)"
  proof (cases i)
    case 0
    then show ?thesis using assms(2) rev_nth [of 0 items] by simp
  next
    case (Suc k)
    then have "Suc (?n - 1 - i) = ?n - 1 - k" "i + (?n - 1) = k + ?n" using assms(2) by simp_all
    then show ?thesis using Suc assms(2) by (simp add: rev_nth)
  qed
  ultimately show ?thesis using tab_forward [OF assms] by simp
qed

theorem tab_cycles_witness: "after_tab False [7, 4, 9] 9 = Some 7 \<and> after_tab True [7, 4, 9] 9 = Some (4::nat)"
  using tab_cycles [of "[7, 4, 9]" 2] by (simp add: numeral_2_eq_2)

subsection \<open>Dialogs\<close>

definition Modal :: "string \<Rightarrow> string \<Rightarrow> shell vnode list \<Rightarrow> (json \<Rightarrow> shell io) \<Rightarrow> shell vnode" where
  "Modal title sz content onClose =
     El ''div'' [(''className'', JStr ''modal-backdrop''), (''role'', JStr ''presentation'')]
       [(''onMouseDown'', \<lambda>ev. if truthy (fld ev ''onBackdrop'') then onClose ev else skip)]
       [El ''section''
          [(''tabIndex'', JNum (- 1)), (''className'', JStr (''modal modal-'' @ (if sz = [] then ''medium'' else sz))),
           (''role'', JStr ''dialog''), (''aria-modal'', JStr ''true''), (''aria-labelledby'', JStr ''modal-title'')] []
          [El ''header'' [] []
             [El ''h2'' [(''id'', JStr ''modal-title'')] [] [Txt title],
              El ''button'' [(''className'', JStr ''icon-button''), (''aria-label'', JStr t_close)]
                [(''onClick'', onClose)] [Icon [(''name'', JStr ''close'')]]],
           El ''div'' [(''className'', JStr ''modal-body'')] [] content]]"

definition confirm_content :: "string \<Rightarrow> string \<Rightarrow> bool \<Rightarrow> shell vnode list" where
  "confirm_content message actionLabel destructive =
     [El ''div'' [(''className'', JStr ''confirm-dialog'')] []
        [El ''p'' [] [] [Txt message],
         El ''div'' [(''className'', JStr ''form-actions'')] []
           [Button [] [(''onClick'', \<lambda>ev. set_state (confirm_button False))] [Txt t_cancel],
            Button [(''tone'', JStr (if destructive then ''danger'' else ''primary''))]
              [(''onClick'', \<lambda>ev. set_state (confirm_button True))] [Txt actionLabel]]]]"

definition elevation_content :: "bool \<Rightarrow> shell vnode list" where
  "elevation_content totp_enabled =
     [El ''form'' [(''className'', JStr ''form-stack elevation-form'')] [(''onSubmit'', \<lambda>ev. elevation_submit ev)]
        ([El ''p'' [] [] [Txt t_elevation_lead],
          Field [(''label'', JStr t_current_password)]
            [TextInput [(''name'', JStr ''password''), (''type'', JStr ''password''),
                        (''autoComplete'', JStr ''current-password''), (''required'', JBool True),
                        (''autoFocus'', JBool True)] []]] @
         (if totp_enabled
            then [Field [(''label'', JStr t_otp_or_recovery_long), (''hint'', JStr t_otp_hint)]
                    [SecondFactorInput [(''name'', JStr ''otp''), (''required'', JBool True)] []]]
          else []) @
         [El ''div'' [(''className'', JStr ''form-actions'')] []
            [Button [] [(''onClick'', \<lambda>ev. set_state elevation_cancel)] [Txt t_cancel],
             Button [(''type'', JStr ''submit''), (''tone'', JStr ''primary'')] [] [Txt t_verify_and_continue]]])]"

definition upgrade_content :: "string \<Rightarrow> string \<Rightarrow> shell vnode list" where
  "upgrade_content dismissedKey algorithm =
     [El ''form'' [(''className'', JStr ''form-stack'')] [(''onSubmit'', \<lambda>ev. upgrade_submit dismissedKey ev)]
        [El ''div'' [(''className'', JStr ''notice info kdf-upgrade-notice'')] []
           [Icon [(''name'', JStr ''security'')],
            El ''div'' [] []
              [El ''strong'' [] [] [Txt t_old_kdf_detected],
               El ''span'' [] [] [Txt algorithm, Txt t_old_kdf_detail]]],
         Field [(''label'', JStr t_current_password)]
           [TextInput [(''name'', JStr ''current_password''), (''type'', JStr ''password''),
                       (''autoComplete'', JStr ''current-password''), (''required'', JBool True),
                       (''autoFocus'', JBool True)] []],
         El ''p'' [(''className'', JStr ''form-help'')] [] [Txt t_upgrade_memory_note],
         El ''div'' [(''className'', JStr ''form-actions'')] []
           [Button [] [(''onClick'', \<lambda>ev. set_state (\<lambda>s. s\<lparr>sh_modal := None\<rparr>))] [Txt t_later],
            Button [(''type'', JStr ''submit''), (''tone'', JStr ''primary'')] [] [Txt t_upgrade_now]]]]"

text \<open>The dialog in the slot; a page's dialog brings its size and its content.\<close>

fun dialog_view :: "(string \<Rightarrow> string \<times> shell vnode list) \<Rightarrow> dialog \<Rightarrow> shell vnode" where
  "dialog_view page_content (Page_dialog title) =
     Modal title (fst (page_content title)) (snd (page_content title)) (\<lambda>ev. set_state shell_onClose)"
| "dialog_view page_content (Confirm_dialog n title message l destructive) =
     Modal title [] (confirm_content message l destructive) (\<lambda>ev. set_state shell_onClose)"
| "dialog_view page_content (Elevation_dialog p totp) =
     Modal t_elevation_title [] (elevation_content totp) (\<lambda>ev. set_state shell_onClose)"
| "dialog_view page_content (Upgrade_dialog k algorithm) =
     Modal t_upgrade_password [] (upgrade_content k algorithm) (\<lambda>ev. set_state shell_onClose)"

subsection \<open>The error boundary\<close>

text \<open>A boundary belongs to its key: for another key React builds a new one, without an error. The stack of the
  error is an argument.\<close>

record boundary =
  b_key :: string
  b_error :: "cause option"

definition boundary_at :: "string \<Rightarrow> boundary \<Rightarrow> boundary" where
  "boundary_at key b = (if b_key b = key then b else \<lparr>b_key = key, b_error = None\<rparr>)"

definition getDerivedStateFromError :: "cause \<Rightarrow> boundary \<Rightarrow> boundary" where
  "getDerivedStateFromError c b = b\<lparr>b_error := Some c\<rparr>"

definition t_page_error :: string where
  "t_page_error = uni [0x9875, 0x9762, 0x53D1, 0x751F, 0x9519, 0x8BEF]"

definition t_page_error_detail :: string where
  "t_page_error_detail = uni [0x4E3A, 0x907F, 0x514D, 0x9519, 0x8BEF, 0x72B6, 0x6001, 0x7EE7, 0x7EED, 0x5F71, 0x54CD, 0x64CD, 0x4F5C, 0xFF0C, 0x754C, 0x9762, 0x5DF2, 0x505C, 0x6B62, 0x6E32, 0x67D3, 0x3002]"

definition t_reload :: string where
  "t_reload = uni [0x91CD, 0x65B0, 0x52A0, 0x8F7D]"

definition boundary_render :: "(cause \<Rightarrow> string \<times> string) \<Rightarrow> shell vnode list \<Rightarrow> boundary \<Rightarrow> shell vnode list" where
  "boundary_render message_and_stack children b =
     (case b_error b of None \<Rightarrow> children
      | Some c \<Rightarrow>
          [El ''main'' [(''className'', JStr ''fatal-layout'')] []
             [El ''div'' [(''className'', JStr ''fatal-card'')] []
                [El ''span'' [(''className'', JStr ''empty-icon'')] []
                   [Icon [(''name'', JStr ''warning''), (''size'', JNum 32)]],
                 El ''h1'' [] [] [Txt t_page_error],
                 El ''p'' [] [] [Txt t_page_error_detail],
                 Terminal [] [Txt (fst (message_and_stack c)), Txt [CHR 0x5C, CHR ''n''], Txt (snd (message_and_stack c))],
                 Button [(''tone'', JStr ''primary'')] [(''onClick'', \<lambda>ev. perform (Dom ''location.reload'' []))]
                   [Txt t_reload]]]])"

subsection \<open>The frame\<close>

fun page_name :: "page \<Rightarrow> string" where
  "page_name DashboardPage = ''DashboardPage''" | "page_name SystemPage = ''SystemPage''"
| "page_name ServicesPage = ''ServicesPage''" | "page_name ProcessesPage = ''ProcessesPage''"
| "page_name NetworkPage = ''NetworkPage''" | "page_name StoragePage = ''StoragePage''"
| "page_name TasksPage = ''TasksPage''" | "page_name UpdatesPage = ''UpdatesPage''"
| "page_name HostPage = ''HostPage''" | "page_name SnapshotsPage = ''SnapshotsPage''"
| "page_name DockerPage = ''DockerPage''" | "page_name FilesPage = ''FilesPage''"
| "page_name ToolsPage = ''ToolsPage''" | "page_name GitHubPage = ''GitHubPage''"
| "page_name SSHPage = ''SSHPage''" | "page_name AuditPage = ''AuditPage''"
| "page_name SecurityPage = ''SecurityPage''" | "page_name SettingsPage = ''SettingsPage''"

definition set_drawer :: "bool \<Rightarrow> shell io" where
  "set_drawer b = set_state (\<lambda>s. s\<lparr>sh_drawer := b\<rparr>)"

definition go_to :: "string \<Rightarrow> string \<Rightarrow> shell io" where
  "go_to captured p = set_state (\<lambda>s. s\<lparr>sh_router := navigate captured p False (sh_router s)\<rparr>)"

definition set_identity :: "json \<Rightarrow> shell io" where
  "set_identity v = Get (\<lambda>s. case applyIdentity v s of Inl c \<Rightarrow> Throw c | Inr s' \<Rightarrow> set_state (\<lambda>_. s'))"

definition page_element :: "shell \<Rightarrow> page \<Rightarrow> shell vnode" where
  "page_element s p =
     (let captured = rs_path (sh_router s)
      in if p = SettingsPage
         then El (page_name p) [(''username'', JStr (text_or (fld (sh_identity s) ''username'') []))]
                [(''onLogout'', \<lambda>ev. shell_logout captured)] []
         else El (page_name p) [] [] [])"

definition Sidebar :: "(string \<Rightarrow> string) \<Rightarrow> string \<Rightarrow> shell \<Rightarrow> route \<Rightarrow> shell vnode" where
  "Sidebar upper version s route =
     (let captured = rs_path (sh_router s); identity = sh_identity s
      in El ''aside''
           [(''className'', JStr (''sidebar '' @ (if sh_drawer s then ''is-open'' else []))),
            (''aria-hidden'', if sh_compactLayout s \<and> \<not> sh_drawer s then JBool True else JUndef)] []
           [El ''div'' [(''className'', JStr ''sidebar-brand'')] []
              [El ''img'' [(''src'', JStr ''/assets/favicon-64.png''), (''alt'', JStr ''LukePanel'')] [] [],
               El ''div'' [] [] [El ''strong'' [] [] [Txt ''LukePanel''], El ''span'' [] [] [Txt version]],
               El ''button'' [(''className'', JStr ''icon-button sidebar-close''), (''aria-label'', JStr t_close_menu)]
                 [(''onClick'', \<lambda>ev. set_drawer False)] [Icon [(''name'', JStr ''close'')]]],
            El ''nav'' [(''className'', JStr ''sidebar-nav''), (''aria-label'', JStr t_main_nav)] []
              (map (\<lambda>item. El ''button''
                 [(''key'', JStr (r_path item)), (''className'', JStr (if nav_active route item then ''active'' else []))]
                 [(''onClick'', \<lambda>ev. go_to captured (r_path item))]
                 [Icon [(''name'', JStr (r_icon item))], El ''span'' [] [] [Txt (r_title item)]]) PRIMARY_ROUTES),
            El ''div'' [(''className'', JStr ''sidebar-account'')] []
              [El ''span'' [(''className'', JStr ''avatar'')] [] [Txt (upper (js_take 1 (text_or (fld identity ''username'') ''L'')))],
               El ''div'' [] []
                 [El ''strong'' [] [] [Txt (text_or (fld identity ''username'') t_administrator)],
                  El ''small'' [] [] [Txt t_local_admin]],
               El ''button'' [(''className'', JStr ''icon-button''), (''aria-label'', JStr t_log_out)]
                 [(''onClick'', \<lambda>ev. shell_logout captured)] [Icon [(''name'', JStr ''logout'')]]]])"

definition MobileBars :: "shell \<Rightarrow> shell vnode" where
  "MobileBars s =
     El ''header'' [(''className'', JStr ''mobile-topbar'')] []
       [El ''button'' [(''className'', JStr ''icon-button''), (''aria-label'', JStr t_open_menu)]
          [(''onClick'', \<lambda>ev. set_drawer True)] [Icon [(''name'', JStr ''menu'')]],
        El ''div'' [(''className'', JStr ''mobile-brand'')] []
          [El ''img'' [(''src'', JStr ''/assets/favicon-64.png''), (''alt'', JStr [])] [] [],
           El ''strong'' [] [] [Txt ''LukePanel'']],
        El ''span'' [(''className'', JStr ''mobile-user'')] []
          [Txt (text_or (fld (sh_identity s) ''username'') t_administrator)]]"

definition BottomNav :: "shell \<Rightarrow> route \<Rightarrow> shell vnode" where
  "BottomNav s route =
     El ''nav'' [(''className'', JStr ''mobile-bottom-nav''), (''aria-label'', JStr t_mobile_nav)] []
       (map (\<lambda>path. let item = the (ROUTE_MAP path)
           in El ''button''
                [(''key'', JStr path), (''className'', JStr (if nav_active route item then ''active'' else []))]
                [(''onClick'', \<lambda>ev. go_to (rs_path (sh_router s)) path)]
                [Icon [(''name'', JStr (r_icon item)), (''size'', JNum 20)], El ''span'' [] [] [Txt (r_title item)]])
          MOBILE_ROUTES @
        [El ''button'' [] [(''onClick'', \<lambda>ev. set_drawer True)]
           [Icon [(''name'', JStr ''more''), (''size'', JNum 20)], El ''span'' [] [] [Txt t_more]]])"

definition App_view :: "(string \<Rightarrow> string) \<Rightarrow> string \<Rightarrow> (cause \<Rightarrow> string \<times> string) \<Rightarrow> (string \<Rightarrow> string \<times> shell vnode list) \<Rightarrow>
    boundary \<Rightarrow> shell \<Rightarrow> shell vnode" where
  "App_view upper version message_and_stack page_content b s =
     (case shell_screen s of
        Some (Page_screen route p) \<Rightarrow>
          El ''div'' [(''className'', JStr ''app-shell'')] []
            ([Sidebar upper version s route] @
             (if sh_drawer s
                then [El ''button'' [(''className'', JStr ''drawer-scrim''), (''aria-label'', JStr t_close_menu)]
                        [(''onClick'', \<lambda>ev. set_drawer False)] []]
              else []) @
             [El ''section'' [(''className'', JStr ''workspace'')] []
                [MobileBars s,
                 El ''main'' [(''className'', JStr ''content'')] []
                   (boundary_render message_and_stack [page_element s p] (boundary_at (r_path route) b))],
              BottomNav s route] @
             (case sh_modal s of None \<Rightarrow> [] | Some d \<Rightarrow> [dialog_view page_content d]) @
             [Toasts (sh_toasts s) (\<lambda>i. set_state (dismiss_toast i))])
      | Some Login_screen \<Rightarrow>
          El ''LoginPage'' [] [(''onAuthenticated'', set_identity)] []
      | _ \<Rightarrow>
          El ''main'' [(''className'', JStr ''boot-screen'')] []
            [El ''img'' [(''src'', JStr ''/assets/favicon-64.png''), (''alt'', JStr [])] [] [],
             El ''span'' [(''className'', JStr ''spinner'')] [] [], El ''p'' [] [] [Txt t_connecting]])"

definition mount_root :: "bool \<Rightarrow> shell vnode \<Rightarrow> cause + shell vnode" where
  "mount_root found app = (if \<not> found then Inl (Js_error t_no_root) else Inr app)"

end
