(* ===== verification/Shell_Rules.thy ===== *)
theory Shell_Rules imports Shell begin

text \<open>
  What holds of the shell whatever is done with it: \<open>shell_step\<close> is one callback, \<open>shell_ok\<close> the invariant of its
  references, dialogs, messages and document, and \<open>ask_step\<close> the contract of a confirmation, which the dialogs
  implement (\<open>asking_of\<close> is the abstraction).
\<close>

subsection \<open>Steps\<close>

text \<open>The callbacks: answers of the server, calls of the pages, what the user does in the dialog, timers, and
  React's commits. The user acts on the dialog in the document, once the document shows the present state.\<close>

inductive shell_step :: "shell \<Rightarrow> shell \<Rightarrow> bool" where
  boots: "shell_step s (boot r s)"
| signs_in: "applyIdentity v s = Inr s' \<Longrightarrow> shell_step s s'"
| loses_session: "shell_step s (resetAuth s)"
| upgrades: "shell_step s (upgrade_accepted s)"
| asks: "shell_step s (confirmAction t m l d s)"
| opens: "shell_step s (openModal t s)"
| closes: "shell_step s (closeModal s)"
| answers: "sh_document s = Some (Confirm_dialog n t m l d) \<Longrightarrow> sh_document s = shown_modal s \<Longrightarrow>
    shell_step s (confirm_button b s)"
| challenges: "shell_step s (snd (elevationHandler s))"
| passes: "shell_step s (elevation_accepted s)"
| gives_up: "sh_document s = Some (Elevation_dialog p b) \<Longrightarrow> sh_document s = shown_modal s \<Longrightarrow>
    shell_step s (elevation_cancel s)"
| dismisses: "sh_document s = Some x \<Longrightarrow> sh_document s = shown_modal s \<Longrightarrow> shell_step s (shell_onClose s)"
| offers: "shell_step s (upgrade_timer s)"
| leaves_offer: "sh_document s = Some (Upgrade_dialog k a) \<Longrightarrow> shell_step s (s\<lparr>sh_modal := None\<rparr>)"
| notifies: "shell_step s (shell_notify k t j s)"
| expires: "shell_step s (dismiss_toast i s)"
| navigates: "shell_step s (s\<lparr>sh_router := navigate captured p replace (sh_router s)\<rparr>)"
| goes_back: "shell_step s (s\<lparr>sh_router := go_back (sh_router s)\<rparr>)"
| goes_forward: "shell_step s (s\<lparr>sh_router := go_forward (sh_router s)\<rparr>)"
| drawer: "shell_step s (s\<lparr>sh_drawer := b\<rparr>)"
| layout: "shell_step s (s\<lparr>sh_compactLayout := b\<rparr>)"
| focuses: "shell_step s (s\<lparr>sh_focus := j\<rparr>)"
| forgets: "shell_step s (s\<lparr>sh_sessionStorage := filter (\<lambda>k'. k' \<noteq> k) (sh_sessionStorage s)\<rparr>)"
| commits: "shell_step s (commit s)"

inductive shell_reach :: "shell \<Rightarrow> bool" where
  starts: "w_back b = [] \<Longrightarrow> w_forward b = [] \<Longrightarrow> shell_reach (App (useRoute p b) narrow focused storage)"
| goes_on: "shell_reach s \<Longrightarrow> shell_step s s' \<Longrightarrow> shell_reach s'"

inductive_cases shell_stepE: "shell_step s s'"

subsection \<open>Invariant\<close>

text \<open>The promises made so far are those settled, each once, and the one that is pending.\<close>

definition promises_ok :: "nat \<Rightarrow> nat list \<Rightarrow> nat option \<Rightarrow> bool" where
  "promises_ok made settled pending \<longleftrightarrow> distinct settled \<and> set settled \<inter> set_option pending = {} \<and>
     set settled \<union> set_option pending = {..<made}"

fun dialog_ok :: "dialog option \<Rightarrow> nat option \<Rightarrow> nat option \<Rightarrow> bool" where
  "dialog_ok (Some (Confirm_dialog n t m l d)) resolve promise \<longleftrightarrow> resolve = Some n"
| "dialog_ok (Some (Elevation_dialog p b)) resolve promise \<longleftrightarrow> promise = None \<or> promise = Some p"
| "dialog_ok m resolve promise \<longleftrightarrow> True"

definition toasts_ok :: "toast list \<Rightarrow> nat \<Rightarrow> bool" where
  "toasts_ok ts last_id \<longleftrightarrow> length ts \<le> 4 \<and> sorted_wrt (<) (map to_id ts) \<and> (\<forall>t\<in>set ts. to_id t \<le> last_id)"

definition document_ok :: "dialog option \<Rightarrow> bool \<Rightarrow> nat \<Rightarrow> bool" where
  "document_ok d locked listeners \<longleftrightarrow> (locked \<longleftrightarrow> d \<noteq> None) \<and> listeners = (if d = None then 0 else 1)"

definition shell_ok :: "shell \<Rightarrow> bool" where
  "shell_ok s \<longleftrightarrow> sh_elevationResolve s = sh_elevationPromise s \<and> sh_elevationReject s = sh_elevationPromise s \<and>
     sh_elevationHandler s \<and> dialog_ok (sh_modal s) (sh_confirmResolve s) (sh_elevationPromise s) \<and>
     promises_ok (sh_asked s) (map fst (sh_confirmed s)) (sh_confirmResolve s) \<and>
     promises_ok (sh_challenged s) (map fst (sh_elevated s)) (sh_elevationPromise s) \<and>
     toasts_ok (sh_toasts s) (sh_toastId s) \<and> document_ok (sh_document s) (sh_locked s) (sh_keyListeners s) \<and>
     (truthy (sh_identity s) \<or> sh_csrfToken s = []) \<and> router_ok (sh_router s)"

lemma promises_settle [simp]:
  "promises_ok made settled (Some n) \<Longrightarrow> promises_ok made (settled @ [n]) None"
  by (auto simp: promises_ok_def)

lemma promises_make [simp]:
  "promises_ok made settled None \<Longrightarrow> promises_ok (Suc made) settled (Some made)"
  by (auto simp: promises_ok_def lessThan_Suc)

lemma truthy_fld: "\<not> truthy v \<Longrightarrow> k \<noteq> ''length'' \<Longrightarrow> fld v k = JUndef"
  by (cases v) auto

lemma dialog_ok_None [simp]: "dialog_ok None c e"
  by simp

lemma dialog_ok_settled [simp]: "dialog_ok m c e \<Longrightarrow> dialog_ok m c None"
  by (cases "(m, c, e)" rule: dialog_ok.cases) auto

text \<open>The operations keep it.\<close>

lemma shell_ok_present [simp]:
  "shell_ok s \<Longrightarrow> dialog_ok (Some d) (sh_confirmResolve s) (sh_elevationPromise s) \<Longrightarrow> shell_ok (presentModal d s)"
  by (auto simp: presentModal_def Let_def shell_ok_def split: if_splits)

lemma shell_ok_answer [simp]: "shell_ok s \<Longrightarrow> shell_ok ((answer_confirm b s)\<lparr>sh_modal := None\<rparr>)"
  by (auto simp: answer_confirm_def shell_ok_def split: option.split)

lemma shell_ok_settle [simp]: "shell_ok s \<Longrightarrow> shell_ok (settle_elevation (sh_elevationReject s) r s)"
  by (auto simp: settle_elevation_def shell_ok_def split: option.split)

lemma shell_ok_no_modal [simp]: "shell_ok s \<Longrightarrow> shell_ok (s\<lparr>sh_modal := None\<rparr>)"
  by (simp add: shell_ok_def)

lemma settle_same [simp]:
  "sh_elevationReject (settle_elevation ref r s) = (if ref = None then sh_elevationReject s else None)"
  "sh_elevationPromise (settle_elevation ref r s) = (if ref = None then sh_elevationPromise s else None)"
  by (auto simp: settle_elevation_def split: option.split)

lemma shell_ok_close [simp]: "shell_ok s \<Longrightarrow> shell_ok (closeModal s)" "shell_ok s \<Longrightarrow> shell_ok (confirm_button b s)"
  by (simp_all add: closeModal_def confirm_button_def)

lemma shell_ok_confirm [simp]: "shell_ok s \<Longrightarrow> shell_ok (confirmAction t m l d s)"
  by (auto simp: confirmAction_def presentModal_def answer_confirm_def shell_ok_def Let_def
      split: option.splits if_splits)

lemma shell_ok_challenge [simp]: "shell_ok s \<Longrightarrow> shell_ok (snd (elevationHandler s))"
  by (auto simp: elevationHandler_def presentModal_def Let_def shell_ok_def split: option.splits if_splits)

lemma shell_ok_elevation [simp]:
  "shell_ok s \<Longrightarrow> shell_ok (reject_elevation m s)" "shell_ok s \<Longrightarrow> shell_ok (resolve_elevation s)"
  "shell_ok s \<Longrightarrow> shell_ok (elevation_cancel s)" "shell_ok s \<Longrightarrow> shell_ok (elevation_accepted s)"
  "shell_ok s \<Longrightarrow> shell_ok (shell_onClose s)"
proof -
  show rej: "shell_ok (reject_elevation m s)" if "shell_ok s" for m s using that by (simp add: reject_elevation_def)
  show res: "shell_ok (resolve_elevation s)" if "shell_ok s" for s
  proof -
    have "sh_elevationResolve s = sh_elevationReject s" using that by (simp add: shell_ok_def)
    with that show ?thesis by (simp add: resolve_elevation_def)
  qed
  show "shell_ok (elevation_cancel s)" "shell_ok (elevation_accepted s)" if "shell_ok s"
    using that by (simp_all add: elevation_cancel_def elevation_accepted_def rej res)
  have "shell_ok ((reject_elevation m s)\<lparr>sh_elevationResolve := None, sh_elevationReject := None\<rparr>)"
    if "shell_ok s" "sh_elevationReject s \<noteq> None" for m s
    using that by (auto simp: reject_elevation_def settle_elevation_def shell_ok_def)
  then show "shell_ok (shell_onClose s)" if "shell_ok s"
    using that unfolding shell_onClose_def Let_def by (auto split: if_splits)
qed

lemma shell_ok_ready: "shell_ok s \<Longrightarrow> shell_ok (s\<lparr>sh_ready := b\<rparr>)"
  by (simp add: shell_ok_def)

lemma applyIdentity_Inr:
  "applyIdentity v s = Inr s' \<longleftrightarrow> \<not> nullish v \<and> s' = s\<lparr>sh_csrfToken := text_or (fld v ''csrf_token'') [],
     sh_identity := v, sh_ready := True, sh_lastUser := text_or (fld v ''username'') []\<rparr>"
  unfolding applyIdentity_def by (auto split: if_splits)

lemma shell_ok_applied:
  assumes "applyIdentity v s = Inr s'" and "shell_ok s" shows "shell_ok s'"
proof -
  have "truthy v \<or> text_or (fld v ''csrf_token'') [] = []"
    using truthy_fld [of v "''csrf_token''"] by (auto simp: text_or_def split: if_splits)
  then show ?thesis
    using assms by (simp add: applyIdentity_Inr shell_ok_def)
qed

lemma shell_ok_identity [simp]:
  "shell_ok s \<Longrightarrow> shell_ok (resetAuth s)" "shell_ok s \<Longrightarrow> shell_ok (upgrade_accepted s)"
  "shell_ok s \<Longrightarrow> shell_ok (boot r s)"
proof -
  show reset: "shell_ok (resetAuth s)" if "shell_ok s" for s
    using that by (auto simp: resetAuth_def reject_elevation_def settle_elevation_def shell_ok_def split: option.splits)
  show "shell_ok (upgrade_accepted s)" if "shell_ok s"
    using that by (auto simp: upgrade_accepted_def shell_ok_def spread_def split: if_splits)
  show "shell_ok (boot r s)" if "shell_ok s"
    unfolding boot_def
    by (cases r) (auto simp: reset [OF that] shell_ok_ready intro: shell_ok_applied [OF _ that] split: sum.split)
qed

lemma sorted_filter_ids: "sorted_wrt (<) (map to_id ts) \<Longrightarrow> sorted_wrt (<) (map to_id (filter p ts))"
  by (induction ts) (auto split: if_split)

lemma toasts_ok_moves [simp]:
  "toasts_ok ts i \<Longrightarrow> toasts_ok (slice_last 3 ts @ [\<lparr>to_id = Suc i, to_kind = k, to_title = t, to_detail = j\<rparr>]) (Suc i)"
  "toasts_ok ts i \<Longrightarrow> toasts_ok (filter p ts) i"
proof -
  assume "toasts_ok ts i"
  then show "toasts_ok (slice_last 3 ts @ [\<lparr>to_id = Suc i, to_kind = k, to_title = t, to_detail = j\<rparr>]) (Suc i)"
    unfolding toasts_ok_def slice_last_def
    by (auto simp: sorted_wrt_append drop_map [symmetric] sorted_wrt_drop less_Suc_eq_le le_Suc_eq dest!: in_set_dropD)
  show "toasts_ok (filter p ts) i"
    using \<open>toasts_ok ts i\<close> le_trans [OF length_filter_le] by (auto simp: toasts_ok_def sorted_filter_ids)
qed

lemma shell_ok_rest [simp]:
  "shell_ok s \<Longrightarrow> shell_ok (shell_notify k t j s)" "shell_ok s \<Longrightarrow> shell_ok (dismiss_toast i s)"
  "shell_ok s \<Longrightarrow> shell_ok (openModal t s)" "shell_ok s \<Longrightarrow> shell_ok (upgrade_timer s)"
proof -
  show "shell_ok (shell_notify k t j s)" "shell_ok (dismiss_toast i s)" "shell_ok (openModal t s)" if "shell_ok s"
    using that by (simp_all add: shell_notify_def dismiss_toast_def openModal_def Let_def) (simp_all add: shell_ok_def)
  show "shell_ok (upgrade_timer s)" if "shell_ok s"
    using that by (auto simp: upgrade_timer_def presentModal_def Let_def shell_ok_def split: option.splits if_splits)
qed

lemma shell_ok_commit [simp]: "shell_ok s \<Longrightarrow> shell_ok (commit s)"
proof -
  assume ok: "shell_ok s"
  have modal: "shell_ok (modal_commit s)"
    using ok by (auto simp: modal_commit_def modal_cleanup_def modal_effect_def shell_ok_def document_ok_def
        split: option.split if_splits)
  have upgrade: "shell_ok (upgrade_commit s)" if "shell_ok s" for s
    using that by (auto simp: upgrade_commit_def upgrade_effect_def shell_ok_def Let_def split: if_splits)
  have elevation: "shell_ok (elevation_commit s)" if "shell_ok s" for s
    using that by (auto simp: elevation_commit_def reject_elevation_def settle_elevation_def shell_ok_def
        split: option.splits if_splits)
  have route: "shell_ok (route_commit s)" if "shell_ok s" for s
    using that by (auto simp: route_commit_def shell_ok_def split: if_splits)
  have "shell_ok (t\<lparr>sh_committed := c\<rparr>) = shell_ok t" for t c by (simp add: shell_ok_def)
  then show ?thesis
    by (simp add: commit_def Let_def route elevation upgrade modal)
qed

lemma shell_ok_moves [simp]:
  "shell_ok s \<Longrightarrow> shell_ok (s\<lparr>sh_router := navigate captured p replace (sh_router s)\<rparr>)"
  "shell_ok s \<Longrightarrow> shell_ok (s\<lparr>sh_router := go_back (sh_router s)\<rparr>)"
  "shell_ok s \<Longrightarrow> shell_ok (s\<lparr>sh_router := go_forward (sh_router s)\<rparr>)"
  "shell_ok s \<Longrightarrow> shell_ok (s\<lparr>sh_drawer := b\<rparr>)" "shell_ok s \<Longrightarrow> shell_ok (s\<lparr>sh_compactLayout := b\<rparr>)"
  "shell_ok s \<Longrightarrow> shell_ok (s\<lparr>sh_focus := j\<rparr>)" "shell_ok s \<Longrightarrow> shell_ok (s\<lparr>sh_sessionStorage := ks\<rparr>)"
  by (simp_all add: shell_ok_def router_ok_navigate router_ok_back router_ok_forward)

lemma shell_ok_step:
  assumes "shell_step s s'" and "shell_ok s" shows "shell_ok s'"
  using assms
proof cases
  case (signs_in v)
  then show ?thesis using shell_ok_applied assms(2) by blast
qed (use assms(2) in simp_all)

lemma shell_reach_ok: "shell_reach s \<Longrightarrow> shell_ok s"
proof (induction rule: shell_reach.induct)
  case (starts b p narrow focused storage)
  then show ?case
    by (simp add: App_def shell_ok_def promises_ok_def toasts_ok_def document_ok_def router_ok_start)
qed (rule shell_ok_step)

subsection \<open>Promises\<close>

text \<open>What callers of a slot for one pending promise may rely on; confirmations and second authentications
  are the two slots.\<close>

locale promise_slot =
  fixes ok :: "'s \<Rightarrow> bool" and made :: "'s \<Rightarrow> nat" and settled :: "'s \<Rightarrow> nat list" and pending :: "'s \<Rightarrow> nat option"
  assumes slot_ok: "ok s \<Longrightarrow> promises_ok (made s) (settled s) (pending s)"
begin

lemma settled_once: "ok s \<Longrightarrow> distinct (settled s)"
  using slot_ok by (auto simp: promises_ok_def)

lemma settled_or_pending: "ok s \<Longrightarrow> n < made s \<Longrightarrow> n \<in> set (settled s) \<longleftrightarrow> pending s \<noteq> Some n"
  using slot_ok [of s] by (fastforce simp: promises_ok_def)

lemma all_accounted: "ok s \<Longrightarrow> length (settled s) + (case pending s of None \<Rightarrow> 0 | Some n \<Rightarrow> 1) = made s"
proof -
  assume "ok s"
  note p = slot_ok [OF this, unfolded promises_ok_def]
  have "card (set (settled s) \<union> set_option (pending s)) = card (set (settled s)) + card (set_option (pending s))"
    using p by (intro card_Un_disjoint) auto
  moreover have "card (set_option (pending s)) = (case pending s of None \<Rightarrow> 0 | Some n \<Rightarrow> 1)"
    by (cases "pending s") auto
  ultimately show ?thesis using p by (simp add: distinct_card)
qed

end

interpretation confirms: promise_slot shell_ok sh_asked "\<lambda>s. map fst (sh_confirmed s)" sh_confirmResolve
  by unfold_locales (simp add: shell_ok_def)

interpretation challenges: promise_slot shell_ok sh_challenged "\<lambda>s. map fst (sh_elevated s)" sh_elevationPromise
  by unfold_locales (simp add: shell_ok_def)

subsection \<open>The contract of a confirmation\<close>

text \<open>A question is put on the screen under a new number, and a question left open before is withdrawn, that
  is, answered with no. Yes is the answer to the question on the screen and to no other; no may be the answer
  at any time; and the screen may be taken away, which leaves the question open.\<close>

record asking =
  ak_made :: nat
  ak_open :: "nat option"
  ak_screen :: "nat option"
  ak_answers :: "(nat \<times> bool) list"

definition withdrawn :: "asking \<Rightarrow> (nat \<times> bool) list" where
  "withdrawn a = (case ak_open a of None \<Rightarrow> [] | Some n \<Rightarrow> [(n, False)])"

inductive ask_step :: "asking \<Rightarrow> asking \<Rightarrow> bool" where
  put: "ask_step a \<lparr>ak_made = Suc (ak_made a), ak_open = Some (ak_made a), ak_screen = Some (ak_made a),
    ak_answers = ak_answers a @ withdrawn a\<rparr>"
| yes: "ak_screen a = Some n \<Longrightarrow> ak_open a = Some n \<Longrightarrow>
    ask_step a (a\<lparr>ak_open := None, ak_screen := None, ak_answers := ak_answers a @ [(n, True)]\<rparr>)"
| no: "ask_step a (a\<lparr>ak_open := None, ak_screen := None, ak_answers := ak_answers a @ withdrawn a\<rparr>)"
| taken: "ask_step a (a\<lparr>ak_screen := None\<rparr>)"

fun confirm_number :: "dialog option \<Rightarrow> nat option" where
  "confirm_number (Some (Confirm_dialog n t m l d)) = Some n"
| "confirm_number x = None"

definition asking_of :: "shell \<Rightarrow> asking" where
  "asking_of s = \<lparr>ak_made = sh_asked s, ak_open = sh_confirmResolve s, ak_screen = confirm_number (sh_modal s),
     ak_answers = sh_confirmed s\<rparr>"

lemma asking_settle [simp]:
  "asking_of (settle_elevation ref r s) = asking_of s" "asking_of (reject_elevation t s) = asking_of s"
  "asking_of (resolve_elevation s) = asking_of s"
  "asking_of (s\<lparr>sh_elevationResolve := a, sh_elevationReject := b\<rparr>) = asking_of s"
  by (simp_all add: settle_elevation_def reject_elevation_def resolve_elevation_def asking_of_def split: option.split)

lemma asking_present [simp]:
  "asking_of (presentModal d s) = (asking_of s)\<lparr>ak_screen := confirm_number (Some d)\<rparr>"
  "asking_of (s\<lparr>sh_modal := None\<rparr>) = (asking_of s)\<lparr>ak_screen := None\<rparr>"
  by (simp_all add: presentModal_def asking_of_def Let_def split: if_splits)

lemma asking_commit [simp]: "asking_of (commit s) = asking_of s"
  by (auto simp: app_ops asking_of_def Let_def split: option.splits if_splits)

lemma asking_answer:
  "asking_of (closeModal s) = (asking_of s)\<lparr>ak_open := None, ak_screen := None,
     ak_answers := ak_answers (asking_of s) @ withdrawn (asking_of s)\<rparr>"
  by (auto simp: closeModal_def answer_confirm_def asking_of_def withdrawn_def split: option.split)

lemma asking_ops [simp]:
  "asking_of (resetAuth s) = (asking_of s)\<lparr>ak_screen := None\<rparr>"
  "asking_of (upgrade_accepted s) = (asking_of s)\<lparr>ak_screen := None\<rparr>"
  "asking_of (openModal t s) = (asking_of s)\<lparr>ak_screen := None\<rparr>"
  "asking_of (elevation_accepted s) = (asking_of s)\<lparr>ak_screen := None\<rparr>"
  "asking_of (elevation_cancel s) = (asking_of s)\<lparr>ak_screen := None\<rparr>"
  "asking_of (shell_notify k t j s) = asking_of s" "asking_of (dismiss_toast i s) = asking_of s"
  "asking_of (s\<lparr>sh_router := r\<rparr>) = asking_of s" "asking_of (s\<lparr>sh_drawer := b\<rparr>) = asking_of s"
  "asking_of (s\<lparr>sh_compactLayout := b\<rparr>) = asking_of s" "asking_of (s\<lparr>sh_focus := j\<rparr>) = asking_of s"
  "asking_of (s\<lparr>sh_sessionStorage := ks\<rparr>) = asking_of s"
  "asking_of (s\<lparr>sh_ready := b\<rparr>) = asking_of s"
proof -
  have "asking_of (t\<lparr>sh_csrfToken := c\<rparr>) = asking_of t" for t c by (simp add: asking_of_def)
  moreover have "asking_of (t\<lparr>sh_elevationResolve := a, sh_elevationReject := b, sh_elevationPromise := c,
      sh_identity := i, sh_modal := None\<rparr>) = (asking_of t)\<lparr>ak_screen := None\<rparr>" for t a b c i
    by (simp add: asking_of_def)
  ultimately show "asking_of (resetAuth s) = (asking_of s)\<lparr>ak_screen := None\<rparr>"
    unfolding resetAuth_def by simp
qed (simp_all add: upgrade_accepted_def openModal_def elevation_accepted_def elevation_cancel_def shell_notify_def
    dismiss_toast_def Let_def, simp_all add: asking_of_def)

lemma asking_challenge: "asking_of (snd (elevationHandler s)) \<in> {asking_of s, (asking_of s)\<lparr>ak_screen := None\<rparr>}"
proof -
  have "asking_of (t\<lparr>sh_elevationPromise := p\<rparr>) = asking_of t"
    "asking_of (t\<lparr>sh_challenged := n, sh_elevationResolve := a, sh_elevationReject := b\<rparr>) = asking_of t" for t p n a b
    by (simp_all add: asking_of_def)
  then show ?thesis by (simp add: elevationHandler_def Let_def split: option.split)
qed

lemma asking_confirm: "ask_step (asking_of s) (asking_of (confirmAction t m l d s))"
proof -
  have "asking_of (confirmAction t m l d s) = \<lparr>ak_made = Suc (ak_made (asking_of s)),
      ak_open = Some (ak_made (asking_of s)), ak_screen = Some (ak_made (asking_of s)),
      ak_answers = ak_answers (asking_of s) @ withdrawn (asking_of s)\<rparr>"
    by (auto simp: confirmAction_def presentModal_def answer_confirm_def asking_of_def withdrawn_def Let_def
        split: option.split if_split)
  then show ?thesis by (simp add: ask_step.put)
qed

lemma asking_button:
  assumes "shell_ok s" and "sh_modal s = Some (Confirm_dialog n t m l d)"
  shows "ask_step (asking_of s) (asking_of (confirm_button b s))"
proof -
  have open_n: "sh_confirmResolve s = Some n" using assms by (simp add: shell_ok_def)
  show ?thesis
  proof (cases b)
    case True
    have "asking_of (confirm_button True s) = (asking_of s)\<lparr>ak_open := None, ak_screen := None,
        ak_answers := ak_answers (asking_of s) @ [(n, True)]\<rparr>"
      using open_n by (simp add: confirm_button_def answer_confirm_def asking_of_def)
    moreover have "ak_screen (asking_of s) = Some n" "ak_open (asking_of s) = Some n"
      using open_n assms(2) by (simp_all add: asking_of_def)
    ultimately show ?thesis using True ask_step.yes by simp
  next
    case False
    then have "asking_of (confirm_button b s) = asking_of (closeModal s)" by (simp add: confirm_button_def closeModal_def)
    then show ?thesis by (simp add: asking_answer ask_step.no)
  qed
qed

lemma asking_onClose: "ask_step (asking_of s) (asking_of (shell_onClose s))"
  by (auto simp: shell_onClose_def asking_answer Let_def split: if_split intro: ask_step.no)

lemma asking_step:
  assumes "shell_reach s" and "shell_step s s'"
  shows "asking_of s' = asking_of s \<or> ask_step (asking_of s) (asking_of s')"
proof -
  note ok = shell_reach_ok [OF assms(1)]
  note taken = ask_step.taken [of "asking_of s"]
  show ?thesis
    using assms(2)
  proof cases
    case (boots r)
    then show ?thesis using taken
      by (auto simp: boot_def applyIdentity_def split: sum.splits if_splits) (auto simp: asking_of_def)
  next
    case (signs_in v)
    then show ?thesis by (auto simp: applyIdentity_Inr asking_of_def)
  next
    case (answers n t m l d b)
    then have "sh_modal s = Some (Confirm_dialog n t m l d)" by (auto simp: shown_modal_def split: if_splits)
    then show ?thesis using asking_button [OF ok] answers by blast
  next
    case challenges
    then show ?thesis using asking_challenge [of s] taken by auto
  next
    case offers
    have "asking_of (t\<lparr>sh_upgradeTimer := x\<rparr>) = asking_of t" for t x by (simp add: asking_of_def)
    then show ?thesis using taken offers by (auto simp: upgrade_timer_def split: option.split)
  qed (use taken in \<open>simp_all add: asking_answer ask_step.no asking_confirm asking_onClose\<close>)
qed

text \<open>C6. The dialogs implement the contract of a confirmation. Whatever state the shell has reached, and
  whatever happens next, it is a step of the contract or changes nothing of it: yes is answered only to the
  question whose dialog is on the screen, a question asked while another is open withdraws that one, and no
  callback of the shell answers a question twice.\<close>

theorem confirm_refines:
  assumes "shell_reach s" and "shell_step s s'"
  shows "asking_of s' = asking_of s \<or> ask_step (asking_of s) (asking_of s')"
  by (rule asking_step [OF assms])

definition sample_shell :: shell where
  "sample_shell = App (useRoute [] \<lparr>w_origin_null = False, w_back = [], w_here = ''/'', w_forward = []\<rparr>) False JNull []"

definition sample_identity :: json where
  "sample_identity = JObj [(''username'', JStr ''luke''), (''csrf_token'', JStr ''t'')]"

definition sample_asked :: shell where
  "sample_asked = commit (confirmAction ''t'' ''m'' ''l'' True (boot (Inr sample_identity) sample_shell))"

lemma sample_reach: "shell_reach sample_shell" "shell_reach sample_asked"
proof -
  show start: "shell_reach sample_shell" unfolding sample_shell_def by (rule shell_reach.starts) simp_all
  then show "shell_reach sample_asked"
    unfolding sample_asked_def by (intro shell_reach.goes_on [OF _ commits] shell_reach.goes_on [OF _ asks]
        shell_reach.goes_on [OF _ boots])
qed

lemma sample_asked_simps:
  "sh_document sample_asked = Some (Confirm_dialog 0 ''t'' ''m'' ''l'' True)"
  "sh_modal sample_asked = Some (Confirm_dialog 0 ''t'' ''m'' ''l'' True)" "sh_ready sample_asked" "sh_identity sample_asked = sample_identity"
  "sh_asked sample_asked = 1" "sh_confirmResolve sample_asked = Some 0" "sh_confirmed sample_asked = []"
  by (simp_all add: sample_asked_def app_ops shown_modal_def sample_shell_def App_def sample_identity_def nullish_def
      Let_def)

theorem confirm_refines_witness:
  "sh_confirmed (confirm_button True sample_asked) = [(0, True)] \<and>
   ask_step (asking_of sample_asked) (asking_of (confirm_button True sample_asked))"
proof -
  have doc: "sh_document sample_asked = shown_modal sample_asked"
    by (simp add: shown_modal_def sample_asked_simps sample_identity_def)
  have yes: "sh_confirmed (confirm_button True sample_asked) = [(0, True)]"
    by (simp add: confirm_button_def answer_confirm_def sample_asked_simps)
  then have "asking_of (confirm_button True sample_asked) \<noteq> asking_of sample_asked"
    by (auto simp: asking_of_def sample_asked_simps)
  then show ?thesis
    using confirm_refines [OF sample_reach(2) answers [OF sample_asked_simps(1) doc, of True]] yes by blast
qed

text \<open>C7. The invariant of the shell. In every state it can reach, every question put to the user has exactly
  one answer, but for the one that may still be open, and the same holds of the second authentications; the
  confirmation on the screen is the open one; there are at most four messages, with different numbers;
  the page behind is locked, and exactly one key listener installed, as long as a dialog is in the document,
  and only then; and without somebody signed in there is no CSRF token.\<close>

theorem shell_invariant:
  assumes "shell_reach s"
  shows "distinct (map fst (sh_confirmed s)) \<and>
    (\<forall>n<sh_asked s. n \<in> fst ` set (sh_confirmed s) \<longleftrightarrow> sh_confirmResolve s \<noteq> Some n) \<and>
    length (sh_elevated s) + (case sh_elevationPromise s of None \<Rightarrow> 0 | Some p \<Rightarrow> 1) = sh_challenged s \<and>
    distinct (map fst (sh_elevated s)) \<and>
    confirm_number (sh_modal s) \<in> {None, sh_confirmResolve s} \<and>
    length (sh_toasts s) \<le> 4 \<and> distinct (map to_id (sh_toasts s)) \<and>
    sh_locked s = (sh_document s \<noteq> None) \<and> sh_keyListeners s = (if sh_document s = None then 0 else 1) \<and>
    (truthy (sh_identity s) \<or> sh_csrfToken s = [])"
proof -
  note ok = shell_reach_ok [OF assms]
  have "confirm_number (sh_modal s) \<in> {None, sh_confirmResolve s}"
    using ok by (cases "sh_modal s" rule: confirm_number.cases) (auto simp: shell_ok_def)
  moreover have "distinct (map to_id (sh_toasts s))"
    using ok by (auto simp: shell_ok_def toasts_ok_def strict_sorted_iff)
  ultimately show ?thesis
    using ok confirms.settled_once [OF ok] confirms.settled_or_pending [OF ok] challenges.all_accounted [OF ok]
      challenges.settled_once [OF ok]
    by (auto simp: shell_ok_def toasts_ok_def document_ok_def)
qed

theorem shell_invariant_witness:
  "sh_locked sample_asked \<and> sh_keyListeners sample_asked = 1 \<and> sh_asked sample_asked = 1"
  using shell_invariant [OF sample_reach(2)] by (simp add: sample_asked_simps)

text \<open>C24. A second authentication can get stuck. When another dialog opens while its form is on the screen, it
  takes the form's place; closing that dialog from within leaves the authentication open, with nothing on the
  screen to complete it, and from then on a request that needs one gets the same promise back and shows no
  form.\<close>

theorem elevation_gets_stuck:
  "let (p, s1) = elevationHandler s; s2 = closeModal (openModal title s1)
   in sh_modal s2 = None \<and> sh_elevationPromise s2 = Some p \<and> elevationHandler s2 = (p, s2)"
proof -
  have "sh_elevationPromise (closeModal (openModal title t)) = sh_elevationPromise t" for t
    by (auto simp: closeModal_def openModal_def presentModal_def answer_confirm_def Let_def split: option.split if_split)
  moreover have "sh_elevationPromise (snd (elevationHandler s)) = Some (fst (elevationHandler s))"
    by (auto simp: elevationHandler_def presentModal_def Let_def split: option.split if_split)
  moreover have "sh_modal (closeModal t) = None" for t by (simp add: closeModal_def)
  ultimately show ?thesis
    by (auto simp: case_prod_beta Let_def) (simp add: elevationHandler_def)
qed

text \<open>C22. Signing out always works. However the server answers the request, even when it refuses it or cannot be
  reached, and whatever else goes on meanwhile, the handler ends after at most three answers and raises no
  exception; then nobody is signed in, no CSRF token is left, no dialog and no second authentication is open,
  and the panel is at its first page.\<close>

theorem logout_ends_session:
  assumes "run (shell_logout captured) as s = (tr, out, s')" and "legal tr" and "3 \<le> length as"
  shows "(\<exists>v. out = Returned v) \<and> sh_identity s' = JNull \<and> sh_csrfToken s' = [] \<and> sh_modal s' = None \<and>
    sh_elevationPromise s' = None \<and> rs_path (sh_router s') = ''/''"
proof -
  let ?done = "\<lambda>s. sh_identity s = JNull \<and> sh_csrfToken s = [] \<and> sh_modal s = None \<and>
    sh_elevationPromise s = None \<and> rs_path (sh_router s) = ''/''"
  have home: "rs_path (navigate captured ''/'' True r) = ''/''" for r
    using rt.norm_of_known [OF is_route_table(3)] by (auto simp: router_ops split: if_split)
  have reset: "?done ((resetAuth t)\<lparr>sh_router := navigate captured ''/'' True (sh_router (resetAuth t))\<rparr>)" for t
    by (auto simp: home resetAuth_def reject_elevation_def settle_elevation_def split: option.split)
  obtain a1 f1 a2 f2 a3 f3 rest where as: "as = (a1, f1) # (a2, f2) # (a3, f3) # rest"
    using assms(3) by (cases as rule: list.exhaust; auto simp: numeral_3_eq_3 Suc_le_length_iff)
  have "\<exists>v. out = Returned v"
    using assms(1,2)
    by (auto simp: as shell_logout_def run_ops legal_def split: answer.splits prod.splits if_splits)
  moreover have "wp (\<lambda>_ _. True) (\<lambda>_ _ _. ()) (shell_logout captured) (\<lambda>_ _ s. ?done s) (\<lambda>_ _ _. False) () s"
    using reset by (auto simp: shell_logout_def api_def handle_response_def perform_def io_simps Let_def)
  ultimately show ?thesis
    using wp_sound [OF _ assms(1,2)] by fastforce
qed

theorem logout_ends_session_witness:
  "let s' = snd (snd (run_alone (shell_logout ''/ssh'') [AVal (JStr ''t''), AFail (Js_error ''down''), AVal JUndef] sample_asked))
   in sh_identity s' = JNull \<and> sh_modal s' = None"
proof -
  let ?r = "run_alone (shell_logout ''/ssh'') [AVal (JStr ''t''), AFail (Js_error ''down''), AVal JUndef] sample_asked"
  have "legal (events ?r)"
    by (simp add: shell_logout_def run_ops)
  then show ?thesis
    using logout_ends_session [OF run_alone_split] by (simp add: Let_def)
qed

subsection \<open>Pages\<close>

instantiation page :: enum
begin

definition enum_page :: "page list" where
  "enum_page = map (\<lambda>r. renderPage (r_path r)) ROUTES"

definition enum_all_page :: "(page \<Rightarrow> bool) \<Rightarrow> bool" where
  "enum_all_page p \<longleftrightarrow> list_all p enum_class.enum"

definition enum_ex_page :: "(page \<Rightarrow> bool) \<Rightarrow> bool" where
  "enum_ex_page p \<longleftrightarrow> list_ex p enum_class.enum"

instance
proof
  have pages: "(enum_class.enum :: page list) = [DashboardPage, SystemPage, ServicesPage, ProcessesPage, NetworkPage, StoragePage,
      TasksPage, UpdatesPage, HostPage, SnapshotsPage, DockerPage, FilesPage, ToolsPage, GitHubPage, SSHPage,
      AuditPage, SecurityPage, SettingsPage]"
    by (simp add: enum_page_def ROUTES_def renderPage_def)
  have "p \<in> set enum_class.enum" for p :: page unfolding pages by (cases p) simp_all
  then show all: "UNIV = set (enum_class.enum :: page list)" by auto
  show "distinct (enum_class.enum :: page list)" by (simp add: pages)
  show "enum_class.enum_all p = Ball UNIV p" "enum_class.enum_ex p = Bex UNIV p" for p :: "page \<Rightarrow> bool"
    by (simp_all add: enum_all_page_def enum_ex_page_def list_all_iff list_ex_iff flip: all)
qed

end

text \<open>C33. The pages and the table of routes fit together: every route has a page of its own and every page has
  a route. Whatever is done with the shell, it always has a screen to show, and once somebody is signed in
  that screen is the page of the very route the address names, so the default case of the dispatch is never
  taken.\<close>

theorem pages_dispatched:
  assumes "shell_reach s"
  shows "bij_betw (\<lambda>r. renderPage (r_path r)) (set ROUTES) UNIV \<and>
    shell_screen s \<noteq> None \<and>
    (sh_ready s \<and> truthy (sh_identity s) \<longleftrightarrow>
       (\<exists>r\<in>set ROUTES. r_path r = rs_path (sh_router s) \<and> shell_screen s = Some (Page_screen r (renderPage (r_path r)))))"
proof -
  have all: "set (map (\<lambda>r. renderPage (r_path r)) ROUTES) = UNIV" and once: "distinct (map (\<lambda>r. renderPage (r_path r)) ROUTES)"
    using UNIV_enum [where 'a = page] enum_distinct [where 'a = page] by (simp_all add: enum_page_def)
  have "bij_betw (\<lambda>r. renderPage (r_path r)) (set ROUTES) UNIV"
    using all once by (simp add: bij_betw_def distinct_map)
  moreover have "is_route (rs_path (sh_router s))"
    using shell_reach_ok [OF assms] by (simp add: shell_ok_def router_ok_def Let_def)
  then obtain r where r: "ROUTE_MAP (rs_path (sh_router s)) = Some r"
    using ROUTE_MAP_None [of "rs_path (sh_router s)"] by (auto simp: is_route_def)
  have "r \<in> set ROUTES \<and> r_path r = rs_path (sh_router s)"
    using map_of_SomeD [OF r [unfolded ROUTE_MAP_def]] by auto
  ultimately show ?thesis
    using r by (auto simp: shell_screen_def current_route_def split: if_splits)
qed

theorem pages_dispatched_witness: "shell_screen sample_asked \<noteq> None"
  using pages_dispatched [OF sample_reach(2)] by blast

end
