(* ===== verification/Shell_Runs.thy ===== *)
theory Shell_Runs imports Shell_View Shell_Rules begin

text \<open>
  The handlers of the shell on its machine. \<open>Shell_Rules\<close> proves its invariants about the steps \<open>shell_step\<close>; here
  every handler that \<open>App_view\<close> binds is shown to move the shell along these steps, and every handler of a page or of
  its dialogs, put into the shell (\<open>hosted\<close>), so that the invariants hold of the program and not only of the machine.
\<close>

subsection \<open>Programs that move along a relation\<close>

text \<open>Every assignment of the program is a step. Behind an effect the state is arbitrary, as in \<open>wp\<close>.\<close>

primrec moves_by :: "('s \<Rightarrow> 's \<Rightarrow> bool) \<Rightarrow> 's io \<Rightarrow> 's \<Rightarrow> bool" where
  "moves_by R (Ret v) s = True"
| "moves_by R (Throw c) s = True"
| "moves_by R (Get f) s = moves_by R (f s) s"
| "moves_by R (Put u m) s = (R s (u s) \<and> moves_by R m (u s))"
| "moves_by R (Do e k) s = (\<forall>a s'. moves_by R (k a) s')"
| "moves_by R (Show t z v m) s = moves_by R m s"

lemma moves_settle: "moves_by R m s \<Longrightarrow> (\<And>r s. moves_by R (f r) s) \<Longrightarrow> moves_by R (settle m f) s"
  by (induction m arbitrary: s rule: io_induct) auto

lemma moves_bnd: "moves_by R m s \<Longrightarrow> (\<And>v s. moves_by R (f v) s) \<Longrightarrow> moves_by R (bnd m f) s"
  unfolding bnd_def by (rule moves_settle) (auto split: sum.split)

lemma moves_try: "moves_by R m s \<Longrightarrow> (\<And>c s. moves_by R (h c) s) \<Longrightarrow> moves_by R (try_catch m h) s"
  "moves_by R m s \<Longrightarrow> (\<And>s. moves_by R n s) \<Longrightarrow> moves_by R (try_finally m n) s"
  unfolding try_catch_def try_finally_def
  by (rule moves_settle; auto split: sum.split intro!: moves_bnd)+

lemma moves_steps: "(\<And>m s. m \<in> set ms \<Longrightarrow> moves_by R m s) \<Longrightarrow> moves_by R (steps ms) s"
  by (induction ms arbitrary: s rule: steps.induct) (auto simp: seqs_def intro!: moves_bnd)

lemma moves_basic [simp]:
  "moves_by R (set_state u) s \<longleftrightarrow> R s (u s)" "moves_by R (perform e) s"
  by (auto simp: set_state_def perform_def split: answer.split)

lemma moves_api [simp]: "moves_by R (api url i) s"
  unfolding api_def
  by (rule moves_bnd) (auto simp: handle_response_def seqs_def Let_def split: answer.split if_split intro!: moves_bnd)

text \<open>What it means for a run, with others moving along the same relation meanwhile.\<close>

lemma moves_run:
  assumes "moves_by R m s" and "run m as s = (tr, out, s')"
    and "\<forall>(a, other)\<in>set as. \<forall>t. R\<^sup>*\<^sup>* t (other t)"
  shows "R\<^sup>*\<^sup>* s s'"
  using assms
proof (induction m arbitrary: s as tr rule: io_induct)
  case (Put u m)
  then have "R\<^sup>*\<^sup>* (u s) s'" by auto
  then show ?case using Put.prems(1) by (auto intro: converse_rtranclp_into_rtranclp)
next
  case (Do e k)
  show ?case
  proof (cases as)
    case (Cons x as')
    obtain a other where x: "x = (a, other)" by (cases x)
    then obtain tr' where "run (k a) as' (other s) = (tr', out, s')"
      using Do.prems(2) Cons by (auto split: prod.splits)
    moreover have "moves_by R (k a) (other s)" using Do.prems(1) by simp
    moreover have "\<forall>(a, other)\<in>set as'. \<forall>t. R\<^sup>*\<^sup>* t (other t)" using Do.prems(3) Cons by simp
    ultimately have "R\<^sup>*\<^sup>* (other s) s'" using Do.IH by blast
    moreover have "R\<^sup>*\<^sup>* s (other s)" using Do.prems(3) Cons x by simp
    ultimately show ?thesis by (rule rtranclp_trans [rotated])
  qed (use Do.prems in simp)
qed (auto split: prod.splits)

subsection \<open>The handlers of the shell\<close>

declare handlers_of.simps(2) [simp del]

text \<open>What any element binds for the shell, for all events.\<close>

definition binds_steps :: "shell \<Rightarrow> shell handler set \<Rightarrow> bool" where
  "binds_steps s hs \<longleftrightarrow> (\<forall>(n, f)\<in>hs. \<forall>ev. moves_by shell_step (f ev) s)"

lemma binds_steps_simps [simp]:
  "binds_steps s {}" "binds_steps s (A \<union> B) \<longleftrightarrow> binds_steps s A \<and> binds_steps s B"
  "binds_steps s (insert (n, f) A) \<longleftrightarrow> (\<forall>ev. moves_by shell_step (f ev) s) \<and> binds_steps s A"
  "binds_steps s (\<Union>x\<in>X. F x) \<longleftrightarrow> (\<forall>x\<in>X. binds_steps s (F x))"
  by (auto simp: binds_steps_def)

lemmas free_steps [simp] =
  loses_session upgrades passes notifies expires navigates drawer forgets

lemma asynchronous_steps [simp]:
  "moves_by shell_step (elevation_submit ev) s" "moves_by shell_step (upgrade_submit k ev) s"
  "moves_by shell_step (shell_logout captured) s"
  unfolding elevation_submit_def upgrade_submit_def shell_logout_def Let_def
  by (auto simp del: steps.simps intro!: moves_steps moves_try)

lemma frame_steps [simp]:
  "moves_by shell_step (set_drawer b) s" "moves_by shell_step (go_to captured p) s"
  "moves_by shell_step (set_identity v) s" "shell_step s (dismiss_toast i s)"
  by (auto simp: set_drawer_def go_to_def set_identity_def intro: signs_in split: sum.split)

lemma widget_handlers [simp]:
  "set (handlers_of (Terminal as kids)) = handlers_in kids"
  "set (handlers_of (SecondFactorInput as hs)) = set hs"
  "set (handlers_of (Toasts ts dismiss)) = (\<Union>t\<in>set ts. {(''onClick'', \<lambda>ev. dismiss (to_id t))})"
  by (auto simp: Terminal_def SecondFactorInput_def Toasts_def not_has_children_in split: if_splits)

lemma boundary_steps:
  "binds_steps s (handlers_in children) \<Longrightarrow> binds_steps s (handlers_in (boundary_render texts children b))"
  by (auto simp: boundary_render_def split: option.split)

lemma dialog_steps:
  assumes "sh_document s = Some d" and "shown_modal s = Some d"
    and "binds_steps s (handlers_in (snd (content (case d of Page_dialog t \<Rightarrow> t | _ \<Rightarrow> []))))"
  shows "binds_steps s (set (handlers_of (dialog_view content d)))"
proof -
  have close: "shell_step s (shell_onClose s)" using dismisses assms(1,2) by simp
  show ?thesis
  proof (cases d)
    case (Confirm_dialog n t m l x)
    then have "shell_step s (confirm_button b s)" for b using answers assms(1,2) by simp
    then show ?thesis using close by (simp add: Confirm_dialog Modal_def confirm_content_def split: if_split)
  next
    case (Elevation_dialog p x)
    then have "shell_step s (elevation_cancel s)" using gives_up assms(1,2) by simp
    then show ?thesis using close by (simp add: Elevation_dialog Modal_def elevation_content_def split: if_split)
  next
    case (Upgrade_dialog k a)
    then have "shell_step s (s\<lparr>sh_modal := None\<rparr>)" using leaves_offer assms(1) by simp
    then show ?thesis using close by (simp add: Upgrade_dialog Modal_def upgrade_content_def split: if_split)
  qed (use close assms(3) in \<open>simp add: Modal_def split: if_split\<close>)
qed

lemma app_steps:
  assumes "sh_document s = shown_modal s" and "\<And>t. binds_steps s (handlers_in (snd (content t)))"
  shows "binds_steps s (set (handlers_of (App_view upper version texts content b s)))"
proof (cases "shell_screen s")
  case (Some scr)
  have dialog: "binds_steps s (set (handlers_of (dialog_view content d)))" if "shown_modal s = Some d" for d
    using that assms by (intro dialog_steps) simp_all
  show ?thesis
  proof (cases scr)
    case (Page_screen r p)
    then have shown: "shown_modal s = sh_modal s"
      using Some by (auto simp: shell_screen_def shown_modal_def split: if_splits)
    have page: "binds_steps s (handlers_in [page_element s p])"
      by (simp add: page_element_def Let_def split: if_split)
    show ?thesis
      using dialog shown boundary_steps [OF page]
      by (auto simp: handlers_in_def App_view_def Some Page_screen Sidebar_def MobileBars_def BottomNav_def Let_def
          split: option.split if_split)
  qed (simp_all add: App_view_def Some)
qed (simp add: App_view_def)

subsection \<open>Pages and their dialogs inside the shell\<close>

text \<open>What the shell does when a page calls one of the functions it was given (\<open>pageProps\<close>) or one of those the
  request layer was given; \<open>captured\<close> is the path \<open>navigate\<close> closes over.\<close>

fun page_props :: "string \<Rightarrow> eff \<Rightarrow> (shell \<Rightarrow> shell) option" where
  "page_props captured (Navigate p) = Some (\<lambda>s. s\<lparr>sh_router := navigate captured p False (sh_router s)\<rparr>)"
| "page_props captured (Notify k t j) = Some (shell_notify k t j)"
| "page_props captured Close_modal = Some closeModal"
| "page_props captured (Confirm t m l d) = Some (confirmAction t m l d)"
| "page_props captured Elevate = Some (\<lambda>s. snd (elevationHandler s))"
| "page_props captured Call_unauthorized = Some resetAuth"
| "page_props captured e = None"

text \<open>A program of a page as a program of the shell. The page's state \<open>w\<close> becomes an argument; \<open>meanwhile\<close> is what
  the other handlers of the page do to it while the program waits. The answers stay open here, as they are in \<open>run\<close>;
  \<open>performs\<close> says which of them the shell gives.\<close>

primrec in_shell :: "string \<Rightarrow> (eff \<Rightarrow> answer \<Rightarrow> 'p \<Rightarrow> 'p) \<Rightarrow> 'p io \<Rightarrow> 'p \<Rightarrow> shell io" where
  "in_shell captured meanwhile (Ret v) w = Ret v"
| "in_shell captured meanwhile (Throw c) w = Throw c"
| "in_shell captured meanwhile (Get g) w = in_shell captured meanwhile (g w) w"
| "in_shell captured meanwhile (Put u m) w = in_shell captured meanwhile m (u w)"
| "in_shell captured meanwhile (Do e k) w =
     (let waits = Do e (\<lambda>a. in_shell captured meanwhile (k a) (meanwhile e a w))
      in case page_props captured e of None \<Rightarrow> waits | Some u \<Rightarrow> Put u waits)"
| "in_shell captured meanwhile (Show t z vs m) w = Put (openModal t) (in_shell captured meanwhile m w)"

text \<open>An element of a page in the document of the shell.\<close>

primrec hosted :: "string \<Rightarrow> (eff \<Rightarrow> answer \<Rightarrow> 'p \<Rightarrow> 'p) \<Rightarrow> 'p \<Rightarrow> 'p vnode \<Rightarrow> shell vnode" where
  "hosted captured meanwhile w (Txt t) = Txt t"
| "hosted captured meanwhile w (El tag attrs hs kids) =
     El tag attrs (map (\<lambda>(n, f). (n, \<lambda>ev. in_shell captured meanwhile (f ev) w)) hs)
       (map (hosted captured meanwhile w) kids)"
| "hosted captured meanwhile w Bad_child = Bad_child"

lemma page_props_steps: "page_props captured e = Some u \<Longrightarrow> shell_step s (u s)"
  by (cases e) (auto intro: shell_step.intros)

lemma in_shell_steps: "moves_by shell_step (in_shell captured meanwhile m w) s"
proof (induction m arbitrary: w s rule: io_induct)
  case (Do e k)
  then show ?case using page_props_steps [of captured e] by (auto simp: Let_def split: option.split)
qed (auto intro: opens)

lemma hosted_steps: "binds_steps s (set (handlers_of (hosted captured meanwhile w v)))"
proof (induction v rule: vnode.induct [where ?P1.0 = "\<lambda>_. True"])
  case (El tag attrs hs kids)
  have "binds_steps s (set (map (\<lambda>(n, f). (n, \<lambda>ev. in_shell captured meanwhile (f ev) w)) hs))"
    by (auto simp: binds_steps_def in_shell_steps)
  then show ?case using El by simp
qed (simp_all)

text \<open>What is on the screen: the shell with the dialog of a page inside, and the page.\<close>

lemma screen_steps:
  assumes "sh_document s = shown_modal s"
    and "(n, f) \<in> set (handlers_of (App_view upper version texts
        (\<lambda>t. (sizes t, map (hosted captured inner x) (body t))) b s)) \<union>
      set (handlers_of (hosted captured outer w pg))"
    and "run (f ev) as s = (tr, out, s')" and "\<forall>(a, other)\<in>set as. \<forall>t. shell_step\<^sup>*\<^sup>* t (other t)"
  shows "shell_step\<^sup>*\<^sup>* s s'"
proof -
  have "binds_steps s (handlers_in (map (hosted captured inner x) (body t)))" for t
    by (simp add: hosted_steps)
  then have "binds_steps s (set (handlers_of (App_view upper version texts
        (\<lambda>t. (sizes t, map (hosted captured inner x) (body t))) b s)))"
    by (intro app_steps [OF assms(1)]) simp
  then have "moves_by shell_step (f ev) s" using assms(2) hosted_steps by (fastforce simp: binds_steps_def)
  from moves_run [OF this assms(3,4)] show ?thesis .
qed

end
