(* ===== verification/Composition.thy ===== *)
theory Composition imports Shell_Rules begin

text \<open>
  The pages on the shell. A page sees the shell through effects; here each effect of a page is given the moves of
  the shell that answer it, so that a run of a handler becomes a run of the shell: \<open>plays s tr u\<close> says that the
  events \<open>tr\<close> of a page can lead the shell from \<open>s\<close> to \<open>u\<close>, with anything else happening in between.
\<close>

subsection \<open>The moves that answer an effect\<close>

fun of_shell :: "eff \<Rightarrow> bool" where
  "of_shell (Confirm t m l d) = True"
| "of_shell (Notify k t j) = True"
| "of_shell Close_modal = True"
| "of_shell (Navigate p) = True"
| "of_shell Elevate = True"
| "of_shell Has_elevation = True"
| "of_shell Read_csrf = True"
| "of_shell Call_unauthorized = True"
| "of_shell e = False"

text \<open>A confirmation and a second authentication are awaited: the shell moves on until the promise is settled.
  While the page waits for the server or the browser, the shell moves on as it likes.\<close>

inductive performs :: "shell \<Rightarrow> event \<Rightarrow> shell \<Rightarrow> bool" where
  asked: "shell_step\<^sup>*\<^sup>* (confirmAction t m l d s) u \<Longrightarrow> (sh_asked s, b) \<in> set (sh_confirmed u) \<Longrightarrow>
    performs s (Did (Confirm t m l d) (AVal (JBool b))) u"
| elevated: "elevationHandler s = (p, s1) \<Longrightarrow> shell_step\<^sup>*\<^sup>* s1 u \<Longrightarrow> (p, None) \<in> set (sh_elevated u) \<Longrightarrow>
    performs s (Did Elevate (AVal JUndef)) u"
| refused: "elevationHandler s = (p, s1) \<Longrightarrow> shell_step\<^sup>*\<^sup>* s1 u \<Longrightarrow> (p, Some c) \<in> set (sh_elevated u) \<Longrightarrow>
    performs s (Did Elevate (AFail c)) u"
| told: "performs s (Did (Notify k t j) a) (shell_notify k t j s)"
| closed: "performs s (Did Close_modal a) (closeModal s)"
| opened: "performs s (Opened t) (openModal t s)"
| went: "performs s (Did (Navigate p) a) (s\<lparr>sh_router := navigate captured p False (sh_router s)\<rparr>)"
| ended: "performs s (Did Call_unauthorized a) (resetAuth s)"
| token: "performs s (Did Read_csrf (AVal (JStr (sh_csrfToken s)))) s"
| handler: "performs s (Did Has_elevation (AVal (JBool (sh_elevationHandler s)))) s"
| outside: "\<not> of_shell e \<Longrightarrow> shell_step\<^sup>*\<^sup>* s u \<Longrightarrow> performs s (Did e a) u"

inductive_cases performs_confirmE: "performs s (Did (Confirm t m l d) a) u"

inductive plays :: "shell \<Rightarrow> event list \<Rightarrow> shell \<Rightarrow> bool" where
  stops: "plays s [] s"
| meanwhile: "shell_step s t \<Longrightarrow> plays t tr u \<Longrightarrow> plays s tr u"
| performs: "performs s e t \<Longrightarrow> plays t tr u \<Longrightarrow> plays s (e # tr) u"

lemma performs_steps: "performs s e u \<Longrightarrow> shell_step\<^sup>*\<^sup>* s u"
proof (induction rule: performs.induct)
  case (asked t m l d s u b)
  then show ?case by (meson asks converse_rtranclp_into_rtranclp)
next
  case (elevated s p s1 u)
  then show ?case using challenges [of s] by (auto intro: converse_rtranclp_into_rtranclp)
next
  case (refused s p s1 u c)
  then show ?case using challenges [of s] by (auto intro: converse_rtranclp_into_rtranclp)
qed (auto intro: shell_step.intros)

lemma plays_steps: "plays s tr u \<Longrightarrow> shell_step\<^sup>*\<^sup>* s u"
proof (induction rule: plays.induct)
  case (performs s e t tr u)
  then show ?case using performs_steps rtranclp_trans by metis
qed (auto intro: converse_rtranclp_into_rtranclp)

lemma plays_append: "plays s (xs @ ys) u \<Longrightarrow> \<exists>t. plays s xs t \<and> plays t ys u"
proof (induction s "xs @ ys" u arbitrary: xs rule: plays.induct)
  case (performs s e t tr u)
  show ?case
  proof (cases xs)
    case Nil
    then show ?thesis using performs plays.performs plays.stops by fastforce
  next
    case (Cons x xs')
    then show ?thesis using performs by (auto intro: plays.performs)
  qed
qed (auto intro: plays.intros)

lemma plays_one: "plays s [e] u \<Longrightarrow> \<exists>v w. shell_step\<^sup>*\<^sup>* s v \<and> performs v e w \<and> shell_step\<^sup>*\<^sup>* w u"
proof (induction s "[e]" u rule: plays.induct)
  case (performs s t u)
  then show ?case using plays_steps by blast
qed (meson converse_rtranclp_into_rtranclp)

lemma shell_reach_steps: "shell_step\<^sup>*\<^sup>* s u \<Longrightarrow> shell_reach s \<Longrightarrow> shell_reach u"
  by (induction rule: rtranclp_induct) (auto intro: shell_reach.goes_on)

subsection \<open>Who says yes\<close>

lemma answers_asking: "sh_confirmed s = ak_answers (asking_of s)"
  by (simp add: asking_of_def)

lemma in_withdrawn: "(n, True) \<in> set (withdrawn a) \<longleftrightarrow> False"
  by (auto simp: withdrawn_def split: option.splits)

text \<open>A question is answered with yes in one way only: by the button of its dialog, while that is on the screen.\<close>

lemma yes_pressed:
  assumes "shell_step w u" and "(n, True) \<in> set (sh_confirmed u)" and "(n, True) \<notin> set (sh_confirmed w)"
    and "shell_ok w"
  shows "\<exists>t m l d. sh_document w = Some (Confirm_dialog n t m l d) \<and> shown_modal w = sh_document w \<and>
    u = confirm_button True w"
  using assms(1)
proof cases
  case (boots r)
  then show ?thesis using assms(2,3)
    by (auto simp: boot_def applyIdentity_def answers_asking split: sum.splits if_splits) (auto simp: asking_of_def)
next
  case (signs_in v)
  then show ?thesis using assms(2,3) by (auto simp: applyIdentity_Inr)
next
  case (asks t m l d)
  then show ?thesis using assms(2,3)
    by (auto simp: confirmAction_def presentModal_def answer_confirm_def Let_def split: option.splits if_splits)
next
  case (answers k t m l d b)
  then have "sh_modal w = Some (Confirm_dialog k t m l d)" by (auto simp: shown_modal_def split: if_splits)
  then have "sh_confirmResolve w = Some k" using assms(4) by (simp add: shell_ok_def)
  then have "k = n \<and> b" using answers(1) assms(2,3)
    by (auto simp: confirm_button_def answer_confirm_def)
  then show ?thesis using answers by auto
next
  case challenges
  then show ?thesis using assms(2,3) asking_challenge [of w] by (auto simp: answers_asking)
next
  case offers
  have "asking_of (t\<lparr>sh_upgradeTimer := x\<rparr>) = asking_of t" for t x by (simp add: asking_of_def)
  then show ?thesis using offers assms(2,3) by (auto simp: answers_asking upgrade_timer_def split: option.splits)
next
  case dismisses
  then show ?thesis using assms(2,3)
    by (auto simp: answers_asking shell_onClose_def asking_answer in_withdrawn Let_def split: if_splits)
qed (use assms(2,3) in \<open>auto simp: answers_asking asking_answer in_withdrawn\<close>)

text \<open>The dialog with a question's number shows that question.\<close>

fun shows_question :: "nat \<Rightarrow> string \<times> string \<times> string \<times> bool \<Rightarrow> dialog option \<Rightarrow> bool" where
  "shows_question n q (Some (Confirm_dialog k t m l d)) \<longleftrightarrow> k = n \<longrightarrow> (t, m, l, d) = q"
| "shows_question n q x \<longleftrightarrow> True"

definition question_ok :: "nat \<Rightarrow> string \<times> string \<times> string \<times> bool \<Rightarrow> shell \<Rightarrow> bool" where
  "question_ok n q s \<longleftrightarrow> n < sh_asked s \<and> shows_question n q (sh_modal s)"

lemma question_kept:
  assumes "shell_step w u" and "question_ok n q w"
  shows "question_ok n q u"
proof -
  have kept: "sh_modal (settle_elevation ref r s) = sh_modal s" "sh_asked (settle_elevation ref r s) = sh_asked s"
    "sh_modal (answer_confirm b s) = sh_modal s" "sh_asked (answer_confirm b s) = sh_asked s"
    "sh_modal (commit s) = sh_modal s" "sh_asked (commit s) = sh_asked s" for ref r b s
    by (simp_all add: app_ops Let_def split: option.split if_split)
  show ?thesis
    using assms
    by (cases rule: shell_step.cases)
       (auto simp: question_ok_def kept app_ops Let_def simp del: answer_confirm_def settle_elevation_def commit_ops
          split: sum.splits option.splits if_splits)
qed

lemma question_asked: "question_ok (sh_asked s) (t, m, l, d) (confirmAction t m l d s)"
  by (auto simp: question_ok_def confirmAction_def presentModal_def answer_confirm_def Let_def
      split: option.split if_split)

lemma yes_of_asked:
  assumes "shell_step\<^sup>*\<^sup>* (confirmAction t m l d s) u" and "(sh_asked s, True) \<in> set (sh_confirmed u)"
    and "shell_reach s"
  shows "\<exists>w. shell_step\<^sup>*\<^sup>* s w \<and> shell_reach w \<and> sh_document w = Some (Confirm_dialog (sh_asked s) t m l d) \<and>
    shown_modal w = sh_document w \<and> shell_step\<^sup>*\<^sup>* (confirm_button True w) u"
proof -
  let ?n = "sh_asked s" and ?s1 = "confirmAction t m l d s"
  have step1: "shell_step s ?s1" by (rule asks)
  have "n < ?n" if "n \<in> fst ` set (sh_confirmed s)" for n
    using shell_reach_ok [OF assms(3)] that by (auto simp: shell_ok_def promises_ok_def)
  moreover have "(?n, True) \<in> set (sh_confirmed ?s1) \<Longrightarrow> (?n, True) \<in> set (sh_confirmed s)"
    by (auto simp: confirmAction_def presentModal_def answer_confirm_def Let_def split: option.splits if_splits)
  ultimately have fresh: "(?n, True) \<notin> set (sh_confirmed ?s1)" by fastforce
  have "question_ok ?n (t, m, l, d) u \<and> ((?n, True) \<in> set (sh_confirmed u) \<longrightarrow>
    (\<exists>w. shell_step\<^sup>*\<^sup>* s w \<and> shell_reach w \<and> sh_document w = Some (Confirm_dialog ?n t m l d) \<and>
       shown_modal w = sh_document w \<and> shell_step\<^sup>*\<^sup>* (confirm_button True w) u))"
    using assms(1)
  proof (induction rule: rtranclp_induct)
    case base
    then show ?case using question_asked fresh by blast
  next
    case (step w u)
    have reach: "shell_step\<^sup>*\<^sup>* s w" using step1 step(1) by (rule converse_rtranclp_into_rtranclp)
    have ok: "shell_reach w" using shell_reach_steps [OF reach assms(3)] .
    have "\<exists>w. shell_step\<^sup>*\<^sup>* s w \<and> shell_reach w \<and> sh_document w = Some (Confirm_dialog ?n t m l d) \<and>
       shown_modal w = sh_document w \<and> shell_step\<^sup>*\<^sup>* (confirm_button True w) u"
      if yes: "(?n, True) \<in> set (sh_confirmed u)"
    proof (cases "(?n, True) \<in> set (sh_confirmed w)")
      case True
      then show ?thesis using step.IH step(2) by (meson rtranclp.rtrancl_into_rtrancl)
    next
      case False
      from yes_pressed [OF step(2) yes False shell_reach_ok [OF ok]] obtain t' m' l' d' where
        w: "sh_document w = Some (Confirm_dialog ?n t' m' l' d')" "shown_modal w = sh_document w" "u = confirm_button True w"
        by blast
      then have "sh_modal w = Some (Confirm_dialog ?n t' m' l' d')" by (auto simp: shown_modal_def split: if_splits)
      then have "(t', m', l', d') = (t, m, l, d)" using step.IH by (simp add: question_ok_def)
      then show ?thesis using w reach ok by auto
    qed
    then show ?case using step.IH question_kept [OF step(2)] by blast
  qed
  then show ?thesis using assms(2) by blast
qed

lemma confirms_iff: "confirms e a \<longleftrightarrow> (\<exists>t m l d. e = Confirm t m l d \<and> a = AVal (JBool True))"
  by (cases e) (auto simp: confirms_def)

text \<open>A confirmed event of a page is a button pressed in the shell.\<close>

definition pressed :: "shell \<Rightarrow> eff \<Rightarrow> shell \<Rightarrow> bool" where
  "pressed s e u \<longleftrightarrow> (\<exists>n t m l d w. e = Confirm t m l d \<and> shell_step\<^sup>*\<^sup>* s w \<and> shell_reach w \<and>
     sh_document w = Some (Confirm_dialog n t m l d) \<and> shown_modal w = sh_document w \<and>
     shell_step\<^sup>*\<^sup>* (confirm_button True w) u)"

lemma confirmed_pressed:
  assumes "plays s pre u" and "list_ex (\<lambda>(e, a). confirms e a) (dids pre)" and "shell_reach s"
  shows "\<exists>e. (e, AVal (JBool True)) \<in> set (dids pre) \<and> pressed s e u"
proof -
  from assms(2) obtain t m l d where mem: "Did (Confirm t m l d) (AVal (JBool True)) \<in> set pre"
    by (auto simp: list_ex_iff dids_def confirms_iff split: event.splits)
  then obtain xs ys where pre: "pre = (xs @ [Did (Confirm t m l d) (AVal (JBool True))]) @ ys"
    by (auto dest!: split_list)
  obtain v w where run: "plays s xs v" "plays v [Did (Confirm t m l d) (AVal (JBool True))] w" "plays w ys u"
    using plays_append assms(1)[unfolded pre] by (metis plays_append)
  obtain v' w' where c: "shell_step\<^sup>*\<^sup>* v v'" "performs v' (Did (Confirm t m l d) (AVal (JBool True))) w'" "shell_step\<^sup>*\<^sup>* w' w"
    using plays_one [OF run(2)] by blast
  have sv: "shell_step\<^sup>*\<^sup>* s v'" using plays_steps [OF run(1)] c(1) by (rule rtranclp_trans)
  then have reach: "shell_reach v'" using assms(3) shell_reach_steps by blast
  from c(2) have "shell_step\<^sup>*\<^sup>* (confirmAction t m l d v') w' \<and> (sh_asked v', True) \<in> set (sh_confirmed w')"
    by (cases rule: performs_confirmE) auto
  with yes_of_asked reach obtain x where x: "shell_step\<^sup>*\<^sup>* v' x" "shell_reach x"
    "sh_document x = Some (Confirm_dialog (sh_asked v') t m l d)" "shown_modal x = sh_document x"
    "shell_step\<^sup>*\<^sup>* (confirm_button True x) w'" by blast
  have "shell_step\<^sup>*\<^sup>* (confirm_button True x) u"
    using x(5) c(3) plays_steps [OF run(3)] by (meson rtranclp_trans)
  moreover have "shell_step\<^sup>*\<^sup>* s x" using sv x(1) by (rule rtranclp_trans)
  ultimately have "pressed s (Confirm t m l d) u" using x unfolding pressed_def by blast
  moreover have "(Confirm t m l d, AVal (JBool True)) \<in> set (dids pre)"
    using mem by (force simp: dids_def)
  ultimately show ?thesis by blast
qed

text \<open>What a page's rule about confirmations means for the shell.\<close>

lemma guarded_pressed:
  assumes "guarded_trace P tr" and "plays s tr u" and "shell_reach s" and "tr = pre @ Did (Fetch r) a # post" and "P r"
  shows "\<exists>e v. (e, AVal (JBool True)) \<in> set (dids pre) \<and> pressed s e v \<and> plays v (Did (Fetch r) a # post) u"
proof -
  have "list_ex (\<lambda>(e, a). confirms e a) (dids pre)"
    using assms(1,4,5) unfolding guarded_trace_def by blast
  moreover obtain v where "plays s pre v" "plays v (Did (Fetch r) a # post) u"
    using plays_append assms(2,4) by blast
  ultimately show ?thesis using confirmed_pressed [OF _ _ assms(3)] by blast
qed

text \<open>A question can be answered at once, either way, whenever somebody is signed in.\<close>

lemma commit_shown: "sh_document (commit s) = shown_modal (commit s)" "sh_modal (commit s) = sh_modal s"
  "sh_confirmed (commit s) = sh_confirmed s" "sh_confirmResolve (commit s) = sh_confirmResolve s"
  "sh_ready (commit s) = sh_ready s" "sh_identity (commit s) = sh_identity s" "sh_csrfToken (commit s) = sh_csrfToken s"
proof -
  show kept: "sh_modal (commit s) = sh_modal s" "sh_confirmed (commit s) = sh_confirmed s"
    "sh_confirmResolve (commit s) = sh_confirmResolve s" "sh_ready (commit s) = sh_ready s"
    "sh_identity (commit s) = sh_identity s" "sh_csrfToken (commit s) = sh_csrfToken s"
    by (simp_all add: app_ops Let_def split: option.split if_split)
  have "sh_document (modal_commit s) = shown_modal s"
    by (simp add: modal_commit_def modal_effect_def modal_cleanup_def split: option.split if_split)
  moreover have "sh_document (commit s) = sh_document (modal_commit s)"
    by (simp add: commit_def upgrade_commit_def upgrade_effect_def elevation_commit_def reject_elevation_def
        settle_elevation_def route_commit_def Let_def split: option.split if_split)
  ultimately show "sh_document (commit s) = shown_modal (commit s)" by (simp add: shown_modal_def kept split: if_split)
qed

lemma ask_shown: "sh_modal (confirmAction t m l d s) = Some (Confirm_dialog (sh_asked s) t m l d)"
  "sh_confirmResolve (confirmAction t m l d s) = Some (sh_asked s)"
  "sh_ready (confirmAction t m l d s) = sh_ready s" "sh_identity (confirmAction t m l d s) = sh_identity s"
  "sh_csrfToken (confirmAction t m l d s) = sh_csrfToken s"
  by (simp_all add: app_ops Let_def split: option.split if_split)

lemma answered_at_once:
  assumes "sh_ready s" and "truthy (sh_identity s)"
  shows "performs s (Did (Confirm t m l d) (AVal (JBool b))) (confirm_button b (commit (confirmAction t m l d s)))"
proof (rule asked)
  let ?c = "commit (confirmAction t m l d s)"
  have "sh_document ?c = Some (Confirm_dialog (sh_asked s) t m l d)"
    using assms by (simp add: commit_shown ask_shown shown_modal_def)
  then have "shell_step ?c (confirm_button b ?c)" using commit_shown(1) by (rule answers)
  then show "shell_step\<^sup>*\<^sup>* (confirmAction t m l d s) (confirm_button b ?c)"
    by (meson commits rtranclp.rtrancl_refl rtranclp.rtrancl_into_rtrancl)
  show "(sh_asked s, b) \<in> set (sh_confirmed (confirm_button b ?c))"
    by (simp add: confirm_button_def answer_confirm_def commit_shown ask_shown)
qed

subsection \<open>Tokens\<close>

inductive_cases performs_tokenE: "performs s (Did Read_csrf a) u"

lemma api_sends:
  assumes "run (api url i) as st = (tr, out, st')" and "legal tr" and "\<not> safe_method (method_of i)"
    and "tr = pre @ Did (Fetch r) a # post"
  shows "\<exists>tok. Did Read_csrf (AVal (JStr tok)) \<in> set pre \<and> r = mk_request url i tok"
proof -
  have "wp (\<lambda>h e. \<forall>r. e = Fetch r \<longrightarrow> (\<exists>tok. h = [(Read_csrf, AVal (JStr tok))] \<and> r = mk_request url i tok)) hist_upd (api url i)
     (\<lambda>_ _ _. True) (\<lambda>_ _ _. True) [] st"
    using assms(3) by (auto simp: api_def handle_response_def Let_def io_simps perform_def hist_upd_def)
  from run_history [OF assms(1,2) this] assms(4) obtain tok where
    "dids pre = [(Read_csrf, AVal (JStr tok))]" "r = mk_request url i tok" by blast
  then show ?thesis using in_dids [of Read_csrf "AVal (JStr tok)" pre] by auto
qed

lemma token_read:
  assumes "plays s tr u" and "Did Read_csrf (AVal (JStr tok)) \<in> set pre" and "tr = pre @ post"
  shows "\<exists>v. shell_step\<^sup>*\<^sup>* s v \<and> shell_step\<^sup>*\<^sup>* v u \<and> sh_csrfToken v = tok"
proof -
  from assms(2,3) obtain xs ys where tr: "tr = xs @ [Did Read_csrf (AVal (JStr tok))] @ ys"
    by (auto dest!: split_list)
  then obtain t1 t2 where "plays s xs t1" "plays t1 [Did Read_csrf (AVal (JStr tok))] t2" "plays t2 ys u"
    using plays_append assms(1) by metis
  then obtain v w where v: "shell_step\<^sup>*\<^sup>* s v" "performs v (Did Read_csrf (AVal (JStr tok))) w" "shell_step\<^sup>*\<^sup>* w u"
    using plays_one plays_steps by (meson rtranclp_trans)
  from v(2) have "w = v \<and> sh_csrfToken v = tok" by (cases rule: performs_tokenE) auto
  with v show ?thesis by blast
qed

lemma csrf_header: "\<not> safe_method (method_of i) \<Longrightarrow> get_header ''X-CSRF-Token'' (request_headers i tok) =
    (if tok = [] then get_header ''X-CSRF-Token'' (i_headers i) else Some tok)"
  using header_names [symmetric] by (simp add: request_headers_def Let_def get_set_header split: if_split)

definition signed_in :: shell where
  "signed_in = boot (Inr sample_identity) sample_shell"

lemma signed_in_simps: "sh_ready signed_in" "sh_identity signed_in = sample_identity" "sh_csrfToken signed_in = ''t''"
  "shell_reach signed_in"
proof -
  show "shell_reach signed_in" unfolding signed_in_def using sample_reach(1) boots by (rule shell_reach.goes_on)
qed (simp_all add: signed_in_def boot_def applyIdentity_def sample_identity_def nullish_def text_or_def)

text \<open>C10. A changing request carries the token of the session that is open. Whatever the shell does meanwhile: the
  header \<open>X-CSRF-Token\<close> of a request that changes something is the token the shell holds at a moment of
  that very call, and when it holds one then somebody is signed in at that moment; so no token of a
  session that was closed before the call is sent.\<close>

theorem request_carries_token:
  assumes "run (api url i) as st = (tr, out, st')" and "legal tr" and "\<not> safe_method (method_of i)"
    and "shell_reach s" and "plays s tr u" and "tr = pre @ Did (Fetch r) a # post"
  shows "\<exists>v. shell_step\<^sup>*\<^sup>* s v \<and> shell_step\<^sup>*\<^sup>* v u \<and> shell_reach v \<and> req_url r = url \<and> req_method r = method_of i \<and>
    (if sh_csrfToken v = [] then get_header ''X-CSRF-Token'' (req_headers r) = get_header ''X-CSRF-Token'' (i_headers i)
     else get_header ''X-CSRF-Token'' (req_headers r) = Some (sh_csrfToken v) \<and> truthy (sh_identity v))"
proof -
  from api_sends [OF assms(1-3,6)] obtain tok where tok: "Did Read_csrf (AVal (JStr tok)) \<in> set pre" "r = mk_request url i tok"
    by blast
  from token_read [OF assms(5) tok(1) assms(6)] obtain v where
    v: "shell_step\<^sup>*\<^sup>* s v" "shell_step\<^sup>*\<^sup>* v u" "sh_csrfToken v = tok" by blast
  have reach: "shell_reach v" using shell_reach_steps [OF v(1) assms(4)] .
  then have "tok \<noteq> [] \<Longrightarrow> truthy (sh_identity v)" using v(3) shell_reach_ok by (auto simp: shell_ok_def)
  moreover have "r = mk_request url i (sh_csrfToken v)" using tok(2) v(3) by simp
  ultimately show ?thesis
    using v reach csrf_header [OF assms(3), of tok] by (intro exI [of _ v]) (auto simp: mk_request_def split: if_split)
qed

theorem request_carries_token_witness:
  "let tr = events (run_alone (api ''/api/v1/tasks'' (with_body ''POST'' (Text_body ''{}''))) [AVal (JStr ''t''), AFail (Js_error ''down'')] ())
   in \<exists>r a v. Did (Fetch r) a \<in> set tr \<and> plays signed_in tr signed_in \<and> shell_step\<^sup>*\<^sup>* signed_in v \<and> req_method r = ''POST''"
proof -
  let ?i = "with_body ''POST'' (Text_body ''{}'')"
  let ?r = "run_alone (api ''/api/v1/tasks'' ?i) [AVal (JStr ''t''), AFail (Js_error ''down'')] ()"
  let ?q = "mk_request ''/api/v1/tasks'' ?i ''t''"
  have m: "\<not> safe_method (method_of ?i)" "method_of ?i = ''POST''" by (simp_all add: run_ops)
  have tr: "events ?r = [Did Read_csrf (AVal (JStr ''t''))] @ Did (Fetch ?q) (AFail (Js_error ''down'')) # []" "legal (events ?r)"
    using m by (simp_all add: api_def run_ops)
  have "performs signed_in (Did (Fetch ?q) (AFail (Js_error ''down''))) signed_in" by (rule outside) simp_all
  then have plays: "plays signed_in (events ?r) signed_in"
    unfolding tr(1) using plays.performs [OF token [of signed_in] plays.performs [OF _ plays.stops]]
    by (simp add: signed_in_simps)
  from request_carries_token [OF run_alone_split tr(2) m(1) signed_in_simps(4) plays tr(1)] show ?thesis
    unfolding Let_def using plays tr(1) m(2) by (auto simp del: method_of_def)
qed

subsection \<open>The form of a second authentication\<close>

text \<open>A response that ends the session.\<close>

definition lost_in :: "response \<Rightarrow> bool" where
  "lost_in p = session_lost (resp_status p) (asObject (parsePayload p))"

lemma handled:
  "is_ok p \<Longrightarrow> handle_response p = Ret (parsePayload p)"
  "\<not> is_ok p \<Longrightarrow> \<not> lost_in p \<Longrightarrow> handle_response p = Throw (request_failed (resp_status p) (asObject (parsePayload p)))"
  by (auto simp: handle_response_def lost_in_def session_lost_def is_ok_def seqs_def bnd_def Let_def)

lemma elevation_submit_run:
  "is_ok p \<Longrightarrow> run_alone (elevation_submit ev) [AVal JUndef, AVal JUndef, AVal (JStr tok), AResp p, AVal JUndef] s =
     (tr, out, s') \<Longrightarrow> (\<exists>v. out = Returned v) \<and> s' = elevation_accepted s"
  "ans = AFail c \<or> (ans = AResp p \<and> \<not> is_ok p \<and> \<not> lost_in p) \<Longrightarrow>
   run_alone (elevation_submit ev) [AVal JUndef, AVal JUndef, AVal (JStr tok), ans, AVal JUndef] s =
     (tr, out, s') \<Longrightarrow> (\<exists>v. out = Returned v) \<and> (\<exists>d. s' = shell_notify Failure t_elevation_failed d s)"
  by (auto simp: elevation_submit_def run_ops handled simp del: handle_response_def)

text \<open>C21. What comes of the form of a second authentication. Whatever the answer, a response or a failure of the
  network (but for the loss of the session, which resets the shell), its handler ends without an exception.
  After a success the dialog is closed and the pending authentication, and no other, settled without an
  error. In every other case the authentication stays pending with its form on the screen, so that the user can try
  again, and an error message is shown.\<close>

theorem elevation_form_decides:
  assumes "shell_reach s" and "sh_elevationPromise s = Some n" and "sh_modal s = Some (Elevation_dialog n b)"
    and "ans = AFail c \<or> (ans = AResp p \<and> (is_ok p \<or> \<not> lost_in p))"
  shows "let r = run_alone (elevation_submit ev) [AVal JUndef, AVal JUndef, AVal (JStr tok), ans, AVal JUndef] s;
      s' = snd (snd r)
    in (\<exists>v. fst (snd r) = Returned v) \<and>
       (if ans = AResp p \<and> is_ok p
        then sh_modal s' = None \<and> sh_elevationPromise s' = None \<and> sh_elevated s' = sh_elevated s @ [(n, None)]
        else sh_modal s' = sh_modal s \<and> sh_elevationPromise s' = Some n \<and> sh_elevated s' = sh_elevated s \<and>
          to_kind (last (sh_toasts s')) = Failure \<and> to_title (last (sh_toasts s')) = t_elevation_failed)"
proof -
  let ?r = "run_alone (elevation_submit ev) [AVal JUndef, AVal JUndef, AVal (JStr tok), ans, AVal JUndef] s"
  have resolve: "sh_elevationResolve s = Some n" using shell_reach_ok [OF assms(1)] assms(2) by (simp add: shell_ok_def)
  show ?thesis
  proof (cases "ans = AResp p \<and> is_ok p")
    case True
    with elevation_submit_run(1) [of p ev tok s "fst ?r" "fst (snd ?r)" "snd (snd ?r)"]
    have "\<exists>v. fst (snd ?r) = Returned v" "snd (snd ?r) = elevation_accepted s" by auto
    then show ?thesis unfolding Let_def if_P [OF True] using resolve
      by (simp add: elevation_accepted_def resolve_elevation_def settle_elevation_def)
  next
    case False
    then have "ans = AFail c \<or> (ans = AResp p \<and> \<not> is_ok p \<and> \<not> lost_in p)" using assms(4) by blast
    from elevation_submit_run(2) [OF this, of ev tok s "fst ?r" "fst (snd ?r)" "snd (snd ?r)"] obtain d where
      "\<exists>v. fst (snd ?r) = Returned v" "snd (snd ?r) = shell_notify Failure t_elevation_failed d s" by auto
    then show ?thesis unfolding Let_def if_not_P [OF False] using assms(2,3) by (simp add: shell_notify_def)
  qed
qed

definition challenged_shell :: shell where
  "challenged_shell = snd (elevationHandler signed_in)"

theorem elevation_form_decides_witness:
  "let r = run_alone (elevation_submit JUndef) [AVal JUndef, AVal JUndef, AVal (JStr ''t''), AFail (Js_error ''down''), AVal JUndef] challenged_shell
   in sh_elevationPromise (snd (snd r)) = Some 0 \<and> to_kind (last (sh_toasts (snd (snd r)))) = Failure"
proof -
  have "shell_reach challenged_shell"
    unfolding challenged_shell_def using signed_in_simps(4) challenges by (rule shell_reach.goes_on)
  moreover have "sh_elevationPromise challenged_shell = Some 0" "sh_modal challenged_shell = Some (Elevation_dialog 0 False)"
    by (simp_all add: challenged_shell_def elevationHandler_def presentModal_def signed_in_def boot_def applyIdentity_def
        sample_identity_def sample_shell_def App_def nullish_def Let_def split: if_split)
  ultimately show ?thesis
    using elevation_form_decides [of challenged_shell 0 _ "AFail (Js_error ''down'')" "Js_error ''down''"]
    by (auto simp: Let_def)
qed

end
