(* ===== verification/Loader.thy ===== *)
theory Loader imports Prelude begin

text \<open>
  The loader of the vendored React chunks, \<open>web/assets/vendor-runtime.js\<close>, and the script that validates what it loads,
  \<open>web/assets/react-bootstrap.js\<close>. The factories of the chunks are third-party code: each is a program that
  assigns its exports, requires other modules, and may throw. The type of the values that are exported
  is that of the few things the scripts look at.
\<close>

subsection \<open>Modules\<close>

datatype export = E_undefined | E_string string | E_function | E_object "(string \<times> export) list"

datatype factory =
    Return
  | Raise string
  | Set_exports export factory
  | Require string "export \<Rightarrow> factory"

text \<open>\<open>ld_started\<close> records the factories called, in the order of the calls.\<close>

record loader =
  ld_modules :: "string \<rightharpoonup> factory"
  ld_cache :: "string \<rightharpoonup> export"
  ld_started :: "string list"

definition new_loader :: loader where
  "new_loader = \<lparr>ld_modules = Map.empty, ld_cache = Map.empty, ld_started = []\<rparr>"

text \<open>The body of a factory for the module \<open>key\<close>; \<open>req\<close> is \<open>requireModule\<close>. Running out of fuel is \<open>None\<close>.\<close>

primrec run_factory ::
  "(string \<Rightarrow> loader \<Rightarrow> ((string + export) \<times> loader) option) \<Rightarrow> string \<Rightarrow> factory \<Rightarrow> loader \<Rightarrow>
     ((string + unit) \<times> loader) option" where
  "run_factory req key Return s = Some (Inr (), s)"
| "run_factory req key (Raise message) s = Some (Inl message, s)"
| "run_factory req key (Set_exports e f) s = run_factory req key f (s\<lparr>ld_cache := (ld_cache s)(key \<mapsto> e)\<rparr>)"
| "run_factory req key (Require other k) s =
     (case req other s of None \<Rightarrow> None
      | Some (Inl message, s') \<Rightarrow> Some (Inl message, s')
      | Some (Inr e, s') \<Rightarrow> run_factory req key (k e) s')"

definition missing :: "string \<Rightarrow> string" where
  "missing key = ''LukePanel vendor module missing: '' @ key"

text \<open>The fuel bounds the depth of the calls.\<close>

fun requireModule :: "nat \<Rightarrow> string \<Rightarrow> loader \<Rightarrow> ((string + export) \<times> loader) option" where
  "requireModule 0 key s = None"
| "requireModule (Suc n) key s =
     (case ld_cache s key of Some e \<Rightarrow> Some (Inr e, s)
      | None \<Rightarrow> (case ld_modules s key of None \<Rightarrow> Some (Inl (missing key), s)
          | Some factory \<Rightarrow>
              (case run_factory (requireModule n) key factory
                      (s\<lparr>ld_cache := (ld_cache s)(key \<mapsto> E_object []), ld_started := ld_started s @ [key]\<rparr>) of
                 None \<Rightarrow> None
               | Some (Inl message, s') \<Rightarrow> Some (Inl message, s')
               | Some (Inr _, s') \<Rightarrow> Some (Inr (the (ld_cache s' key)), s'))))"

text \<open>A chunk pushes its payload: nothing, or the factories it brings.\<close>

definition register :: "(string \<times> factory) list option \<Rightarrow> loader \<Rightarrow> nat \<times> loader" where
  "register payload s = (0, case payload of None \<Rightarrow> s
     | Some fs \<Rightarrow> s\<lparr>ld_modules := foldl (\<lambda>m (key, f). m(key \<mapsto> f)) (ld_modules s) fs\<rparr>)"

definition alias_module :: "string \<Rightarrow> export \<Rightarrow> loader \<Rightarrow> loader" where
  "alias_module key e s = s\<lparr>ld_modules := (ld_modules s)(key \<mapsto> Set_exports e Return)\<rparr>"

subsection \<open>The bootstrap\<close>

record globals =
  g_vendor :: "loader option"
  g_React :: export
  g_ReactDOM :: export

text \<open>Member access throws on \<open>undefined\<close>.\<close>

fun member :: "export \<Rightarrow> string \<Rightarrow> export option" where
  "member E_undefined k = None"
| "member (E_object fs) k = Some (case map_of fs k of Some e \<Rightarrow> e | None \<Rightarrow> E_undefined)"
| "member e k = Some E_undefined"

fun truthy_export :: "export \<Rightarrow> bool" where
  "truthy_export E_undefined = False"
| "truthy_export (E_string t) = (t \<noteq> [])"
| "truthy_export e = True"

definition validation :: "export \<Rightarrow> export \<Rightarrow> string + unit" where
  "validation React ReactDOM =
     (if \<not> truthy_export React \<or> member React ''version'' \<noteq> Some (E_string ''18.2.0'')
      then Inl ''LukePanel React runtime validation failed''
      else (case member ReactDOM ''createRoot'' of None \<Rightarrow> Inl ''TypeError''
            | Some e \<Rightarrow> if e \<noteq> E_function then Inl ''LukePanel React runtime validation failed'' else Inr ()))"

definition bootstrap :: "nat \<Rightarrow> globals \<Rightarrow> ((string + unit) \<times> globals) option" where
  "bootstrap fuel g =
     (case g_vendor g of None \<Rightarrow> Some (Inl ''LukePanel vendor runtime did not load'', g)
      | Some vendor \<Rightarrow>
          (case requireModule fuel ''96540'' vendor of None \<Rightarrow> None
           | Some (Inl message, v1) \<Rightarrow> Some (Inl message, g\<lparr>g_vendor := Some v1\<rparr>)
           | Some (Inr React, v1) \<Rightarrow>
               (case requireModule fuel ''40961'' (alias_module ''44914'' React v1) of None \<Rightarrow> None
                | Some (Inl message, v2) \<Rightarrow> Some (Inl message, g\<lparr>g_vendor := Some v2\<rparr>)
                | Some (Inr ReactDOM, v2) \<Rightarrow>
                    (case validation React ReactDOM of
                       Inl message \<Rightarrow> Some (Inl message, g\<lparr>g_vendor := Some v2\<rparr>)
                     | Inr _ \<Rightarrow> Some (Inr (), g\<lparr>g_vendor := Some v2, g_React := React, g_ReactDOM := ReactDOM\<rparr>)))))"

subsection \<open>Every factory at most once\<close>

definition uncached :: "loader \<Rightarrow> string set" where
  "uncached s = dom (ld_modules s) - dom (ld_cache s)"

definition loader_ok :: "loader \<Rightarrow> bool" where
  "loader_ok s \<longleftrightarrow> finite (dom (ld_modules s)) \<and> distinct (ld_started s) \<and> set (ld_started s) = dom (ld_cache s)"

text \<open>What a call of \<open>requireModule\<close> may do to the loader.\<close>

definition loads_more :: "loader \<Rightarrow> loader \<Rightarrow> bool" where
  "loads_more s s' \<longleftrightarrow> ld_modules s' = ld_modules s \<and> dom (ld_cache s) \<subseteq> dom (ld_cache s') \<and>
     prefix (ld_started s) (ld_started s') \<and> (loader_ok s \<longrightarrow> loader_ok s')"

lemma loads_more_refl [simp]: "loads_more s s"
  by (simp add: loads_more_def)

lemma loads_more_trans: "loads_more s t \<Longrightarrow> loads_more t u \<Longrightarrow> loads_more s u"
  by (auto simp: loads_more_def intro: prefix_order.trans)

lemma loads_more_exports: "key \<in> dom (ld_cache s) \<Longrightarrow> loads_more s (s\<lparr>ld_cache := (ld_cache s)(key \<mapsto> e)\<rparr>)"
  by (auto simp: loads_more_def loader_ok_def)

lemma loads_more_start:
  "key \<notin> dom (ld_cache s) \<Longrightarrow>
     loads_more s (s\<lparr>ld_cache := (ld_cache s)(key \<mapsto> e), ld_started := ld_started s @ [key]\<rparr>)"
  by (auto simp: loads_more_def loader_ok_def)

lemma uncached_mono: "loads_more s s' \<Longrightarrow> uncached s' \<subseteq> uncached s"
  by (auto simp: loads_more_def uncached_def)

text \<open>The loader when the factory of \<open>key\<close> is called.\<close>

definition begun :: "string \<Rightarrow> loader \<Rightarrow> loader" where
  "begun key s = s\<lparr>ld_cache := (ld_cache s)(key \<mapsto> E_object []), ld_started := ld_started s @ [key]\<rparr>"

lemma begun_simps [simp]: "key \<in> dom (ld_cache (begun key s))" "ld_modules (begun key s) = ld_modules s"
  "ld_started (begun key s) = ld_started s @ [key]"
  by (simp_all add: begun_def)

lemma requireModule_call:
  "ld_cache s key = None \<Longrightarrow> ld_modules s key = Some f \<Longrightarrow> requireModule (Suc n) key s =
     map_option (\<lambda>(r, s'). (case r of Inl m \<Rightarrow> Inl m | Inr _ \<Rightarrow> Inr (the (ld_cache s' key)), s'))
       (run_factory (requireModule n) key f (begun key s))"
  by (auto simp: begun_def split: option.split sum.split)

lemma requireModule_known [simp]:
  "ld_cache s key = Some e \<Longrightarrow> requireModule (Suc n) key s = Some (Inr e, s)"
  "ld_cache s key = None \<Longrightarrow> ld_modules s key = None \<Longrightarrow> requireModule (Suc n) key s = Some (Inl (missing key), s)"
  by simp_all

declare requireModule.simps(2) [simp del]

lemma requireModule_cases:
  obtains (cached) e where "ld_cache s key = Some e" "requireModule (Suc n) key s = Some (Inr e, s)"
  | (absent) "ld_cache s key = None" "ld_modules s key = None" "requireModule (Suc n) key s = Some (Inl (missing key), s)"
  | (called) f where "ld_cache s key = None" "ld_modules s key = Some f"
  by (cases "ld_cache s key"; cases "ld_modules s key") auto

lemma run_factory_more:
  assumes "\<And>k t r t'. req k t = Some (r, t') \<Longrightarrow> loads_more t t'"
    and "run_factory req key f s = Some (r, s')" and "key \<in> dom (ld_cache s)"
  shows "loads_more s s'"
  using assms(2,3)
proof (induction f arbitrary: s)
  case (Set_exports e f)
  have "loads_more (s\<lparr>ld_cache := (ld_cache s)(key \<mapsto> e)\<rparr>) s'"
    by (rule Set_exports.IH) (use Set_exports.prems in \<open>simp_all add: domIff\<close>)
  with loads_more_exports [OF Set_exports.prems(2)] show ?case by (rule loads_more_trans)
next
  case (Require other k)
  from Require.prems obtain q t where q: "req other s = Some (q, t)"
    by (auto split: option.splits)
  note more = assms(1) [OF q]
  then have "key \<in> dom (ld_cache t)" using Require.prems(2) by (auto simp: loads_more_def)
  then show ?case
  proof (cases q)
    case (Inr e)
    then have "loads_more t s'"
      using Require.IH [OF rangeI] Require.prems(1) q \<open>key \<in> dom (ld_cache t)\<close> by simp
    with more show ?thesis by (rule loads_more_trans)
  qed (use more q Require.prems(1) in simp)
qed auto

lemma begun_more: "ld_cache s key = None \<Longrightarrow> loads_more s (begun key s)"
  unfolding begun_def by (rule loads_more_start) auto

lemma call_more:
  assumes "\<And>k t r t'. requireModule n k t = Some (r, t') \<Longrightarrow> loads_more t t'"
    and "requireModule (Suc n) key s = Some (r, s')" and "ld_cache s key = None" and "ld_modules s key = Some f"
  shows "loads_more (begun key s) s'"
  using assms(2) run_factory_more [OF assms(1), where key = key and f = f and s = "begun key s"]
  unfolding requireModule_call [OF assms(3,4)] by auto

lemma requireModule_more: "requireModule n key s = Some (r, s') \<Longrightarrow> loads_more s s'"
proof (induction n arbitrary: key s r s')
  case (Suc n)
  show ?case
  proof (cases rule: requireModule_cases [where s = s and key = key and n = n])
    case (called f)
    then show ?thesis using call_more [OF _ Suc.prems called] Suc.IH begun_more loads_more_trans by blast
  qed (use Suc.prems in simp_all)
qed simp

lemma requireModule_begun:
  "requireModule (Suc n) key s = Some (r, s') \<Longrightarrow> ld_cache s key = None \<Longrightarrow> ld_modules s key = Some f \<Longrightarrow>
     loads_more (begun key s) s'"
  by (rule call_more [OF requireModule_more])

lemma run_factory_total:
  assumes "\<And>k t. loads_more s0 t \<Longrightarrow> \<exists>r t'. req k t = Some (r, t') \<and> loads_more t t'"
    and "loads_more s0 s" and "key \<in> dom (ld_cache s)"
  shows "run_factory req key f s \<noteq> None"
  using assms(2,3)
proof (induction f arbitrary: s)
  case (Set_exports e f)
  have "run_factory req key f (s\<lparr>ld_cache := (ld_cache s)(key \<mapsto> e)\<rparr>) \<noteq> None"
  proof (rule Set_exports.IH)
    show "loads_more s0 (s\<lparr>ld_cache := (ld_cache s)(key \<mapsto> e)\<rparr>)"
      using Set_exports.prems loads_more_exports loads_more_trans by blast
  qed (simp add: domIff)
  then show ?case by simp
next
  case (Require other k)
  obtain r t where r: "req other s = Some (r, t)" "loads_more s t" using assms(1) Require.prems(1) by blast
  have "loads_more s0 t" using Require.prems(1) r(2) by (rule loads_more_trans)
  moreover have "key \<in> dom (ld_cache t)" using Require.prems(2) r(2) by (auto simp: loads_more_def)
  ultimately have "run_factory req key (k e) t \<noteq> None" for e by (rule Require.IH [OF rangeI])
  then show ?case using r(1) by (cases r) simp_all
qed simp_all

lemma requireModule_total:
  "finite (dom (ld_modules s)) \<Longrightarrow> card (uncached s) < n \<Longrightarrow> \<exists>r s'. requireModule n key s = Some (r, s')"
proof (induction n arbitrary: key s)
  case (Suc n)
  show ?case
  proof (cases rule: requireModule_cases [where s = s and key = key and n = n])
    case (called f)
    have fin: "finite (uncached s)" "uncached (begun key s) = uncached s - {key}" "key \<in> uncached s"
      using called Suc.prems(1) by (auto simp: uncached_def begun_def)
    then have less: "card (uncached (begun key s)) < n" using Suc.prems(2) card_Diff1_less [of "uncached s" key] by simp
    have total: "\<exists>r t'. requireModule n k t = Some (r, t') \<and> loads_more t t'" if "loads_more (begun key s) t" for k t
    proof -
      have "finite (dom (ld_modules t))" using that Suc.prems(1) by (simp add: loads_more_def)
      moreover have "card (uncached t) < n"
        using less card_mono [OF _ uncached_mono [OF that]] fin by simp
      ultimately show ?thesis using Suc.IH requireModule_more by blast
    qed
    have "run_factory (requireModule n) key f (begun key s) \<noteq> None"
      by (rule run_factory_total [OF total loads_more_refl]) simp_all
    then show ?thesis using requireModule_call [OF called] by auto
  qed simp_all
qed simp

lemma run_factory_mono:
  assumes "\<And>k t r. req k t = Some r \<Longrightarrow> req' k t = Some r"
  shows "run_factory req key f s = Some r \<Longrightarrow> run_factory req' key f s = Some r"
proof (induction f arbitrary: s)
  case (Require other k)
  from Require.prems obtain q t where q: "req other s = Some (q, t)" by (auto split: option.splits)
  with assms have "req' other s = Some (q, t)" by blast
  moreover have "run_factory req key (k e) t = Some r \<Longrightarrow> run_factory req' key (k e) t = Some r" for e
    by (rule Require.IH [OF rangeI])
  ultimately show ?case using Require.prems q by (cases q) simp_all
qed simp_all

lemma requireModule_mono: "requireModule n key s = Some r \<Longrightarrow> n \<le> m \<Longrightarrow> requireModule m key s = Some r"
proof (induction n arbitrary: m key s r)
  case (Suc n)
  obtain k where m: "m = Suc k" "n \<le> k" using Suc.prems(2) by (cases m) auto
  show ?case
  proof (cases rule: requireModule_cases [where s = s and key = key and n = n])
    case (called f)
    obtain q where q: "run_factory (requireModule n) key f (begun key s) = Some q"
      using Suc.prems(1) called by (auto simp: requireModule_call)
    have "run_factory (requireModule k) key f (begun key s) = Some q"
      by (rule run_factory_mono [OF _ q]) (rule Suc.IH [OF _ m(2)])
    then show ?thesis using Suc.prems(1) q called by (simp add: requireModule_call m(1))
  qed (use Suc.prems(1) m(1) in simp_all)
qed simp

text \<open>The states of the loader: chunks register their factories, scripts require modules and put aliases.\<close>

inductive loader_reach :: "loader \<Rightarrow> bool" where
  starts: "loader_reach new_loader"
| registers: "loader_reach s \<Longrightarrow> loader_reach (snd (register payload s))"
| renames: "loader_reach s \<Longrightarrow> loader_reach (alias_module key e s)"
| requires: "loader_reach s \<Longrightarrow> requireModule n key s = Some (r, s') \<Longrightarrow> loader_reach s'"

lemma dom_registered: "dom (foldl (\<lambda>m (key, f). m(key \<mapsto> f)) m fs) = dom m \<union> fst ` set fs"
  by (induction fs arbitrary: m) auto

lemma loader_reach_ok: "loader_reach s \<Longrightarrow> loader_ok s"
proof (induction rule: loader_reach.induct)
  case (registers s payload)
  then show ?case by (auto simp: register_def loader_ok_def dom_registered split: option.split)
next
  case (requires s n key r s')
  then show ?case using requireModule_more by (auto simp: loads_more_def)
qed (auto simp: new_loader_def alias_module_def loader_ok_def)

text \<open>C34. Loading a module ends, and calls no factory twice. In every state the loader can reach, requiring a module,
  be it missing, loaded, half loaded or part of a cycle, gives one result, the same for every fuel above the
  number of modules not yet loaded; the factories called so far stay called, each exactly once, even when one of
  them throws; and a module called before is answered without calling anything.\<close>

theorem modules_loaded_once:
  assumes "loader_reach s"
  shows "\<exists>r s'. (\<forall>n. card (uncached s) < n \<longrightarrow> requireModule n key s = Some (r, s')) \<and>
    distinct (ld_started s') \<and> prefix (ld_started s) (ld_started s') \<and>
    (key \<in> set (ld_started s) \<longrightarrow> s' = s) \<and> (key \<notin> set (ld_started s) \<and> ld_modules s key \<noteq> None \<longrightarrow> key \<in> set (ld_started s'))"
proof -
  note ok = loader_reach_ok [OF assms]
  have fin: "finite (dom (ld_modules s))" using ok by (simp add: loader_ok_def)
  let ?n = "Suc (card (uncached s))"
  obtain r s' where r: "requireModule ?n key s = Some (r, s')"
    using requireModule_total [OF fin, of ?n key] by auto
  note more = requireModule_more [OF r]
  have "requireModule n key s = Some (r, s')" if "card (uncached s) < n" for n
    by (rule requireModule_mono [OF r]) (use that in simp)
  moreover have "distinct (ld_started s')" "prefix (ld_started s) (ld_started s')"
    using more ok by (auto simp: loads_more_def loader_ok_def)
  moreover have "s' = s" if "key \<in> set (ld_started s)"
  proof -
    from that ok obtain e where "ld_cache s key = Some e" by (auto simp: loader_ok_def)
    then show ?thesis using r by simp
  qed
  moreover have "key \<in> set (ld_started s')" if "key \<notin> set (ld_started s)" "ld_modules s key \<noteq> None"
  proof -
    from that ok have "ld_cache s key = None" by (auto simp: loader_ok_def)
    then show ?thesis using requireModule_begun [OF r] that(2) by (fastforce simp: loads_more_def dest: set_mono_prefix)
  qed
  ultimately show ?thesis by blast
qed

text \<open>Two modules that need each other.\<close>

definition sample_loader :: loader where
  "sample_loader = snd (register (Some
     [(''a'', Require ''b'' (\<lambda>e. Set_exports e Return)),
      (''b'', Require ''a'' (\<lambda>e. Set_exports E_function (Raise ''b'')))]) new_loader)"

lemma sample_loader_run:
  "requireModule 3 ''a'' sample_loader = Some (Inl ''b'', sample_loader
     \<lparr>ld_cache := [''a'' \<mapsto> E_object [], ''b'' \<mapsto> E_function], ld_started := [''a'', ''b'']\<rparr>)"
  by (simp add: numeral_3_eq_3 requireModule.simps(2) sample_loader_def register_def new_loader_def fun_upd_twist)

theorem modules_loaded_once_witness:
  "\<exists>s'. requireModule 3 ''a'' sample_loader = Some (Inl ''b'', s') \<and> distinct (ld_started s') \<and> ''a'' \<in> set (ld_started s')"
proof -
  have "loader_reach sample_loader" unfolding sample_loader_def by (intro loader_reach.intros)
  from modules_loaded_once [OF this, of "''a''"] obtain r s' where
    "\<forall>n. card (uncached sample_loader) < n \<longrightarrow> requireModule n ''a'' sample_loader = Some (r, s')"
    "distinct (ld_started s')" "''a'' \<notin> set (ld_started sample_loader) \<longrightarrow> ''a'' \<in> set (ld_started s')"
    by (auto simp: sample_loader_def register_def new_loader_def)
  moreover have "uncached sample_loader = {''a'', ''b''}"
    by (auto simp: uncached_def sample_loader_def register_def new_loader_def split: if_splits)
  ultimately show ?thesis
    using sample_loader_run by (auto simp: sample_loader_def register_def new_loader_def)
qed

subsection \<open>What the bootstrap lets through\<close>

lemma validation_Inr: "validation React ReactDOM = Inr u \<longleftrightarrow> truthy_export React \<and>
    member React ''version'' = Some (E_string ''18.2.0'') \<and> member ReactDOM ''createRoot'' = Some E_function"
  by (auto simp: validation_def split: option.splits if_splits)

lemma bootstrap_ends:
  assumes "loader_reach v" and "Suc (card (dom (ld_modules v))) < fuel" and "g_vendor g = Some v"
  shows "bootstrap fuel g \<noteq> None"
proof -
  note fin = loader_reach_ok [OF assms(1), unfolded loader_ok_def]
  have few: "card (uncached s) \<le> card (dom (ld_modules s))" if "finite (dom (ld_modules s))" for s
    unfolding uncached_def using that by (intro card_mono) auto
  obtain r v1 where v1: "requireModule fuel ''96540'' v = Some (r, v1)"
    using requireModule_total few assms(2) fin by (meson Suc_lessD le_less_trans)
  have "ld_modules v1 = ld_modules v" using requireModule_more [OF v1] by (simp add: loads_more_def)
  then have "finite (dom (ld_modules (alias_module k e v1)))"
    "card (dom (ld_modules (alias_module k e v1))) \<le> Suc (card (dom (ld_modules v)))" for k e
    using fin by (auto simp: alias_module_def card_insert_if)
  then have "\<exists>q v2. requireModule fuel ''40961'' (alias_module k e v1) = Some (q, v2)" for k e
    using requireModule_total few assms(2) by (meson le_less_trans)
  then show ?thesis
    using assms(3) v1 by (auto simp: bootstrap_def split: sum.splits option.splits) (metis option.discI)+
qed

text \<open>C35. The bootstrap lets nothing else through than the React it was written for. With the loader in any state it
  can reach it ends, given fuel for one module more than are registered, and without the loader it ends at
  once, with an error. When it succeeds, the two globals are what the chunks export, React says it is
  version 18.2.0 and ReactDOM has \<open>createRoot\<close>; when it fails, the globals are what they were.\<close>

theorem bootstrap_validates:
  assumes "\<And>v. g_vendor g = Some v \<Longrightarrow> loader_reach v \<and> Suc (card (dom (ld_modules v))) < fuel"
  shows "\<exists>out g'. bootstrap fuel g = Some (out, g') \<and>
    (case out of
       Inr _ \<Rightarrow> g_vendor g \<noteq> None \<and> member (g_React g') ''version'' = Some (E_string ''18.2.0'') \<and>
         member (g_ReactDOM g') ''createRoot'' = Some E_function \<and>
         (\<exists>v v1. g_vendor g = Some v \<and> requireModule fuel ''96540'' v = Some (Inr (g_React g'), v1) \<and>
            map_option fst (requireModule fuel ''40961'' (alias_module ''44914'' (g_React g') v1)) = Some (Inr (g_ReactDOM g')))
     | Inl message \<Rightarrow> g_React g' = g_React g \<and> g_ReactDOM g' = g_ReactDOM g)"
proof (cases "g_vendor g")
  case None
  then show ?thesis by (simp add: bootstrap_def)
next
  case (Some v)
  with assms bootstrap_ends obtain out g' where out: "bootstrap fuel g = Some (out, g')" by fastforce
  then show ?thesis
    using Some by (auto simp: bootstrap_def validation_Inr split: option.splits sum.splits)
qed

definition react_loader :: loader where
  "react_loader = snd (register (Some
     [(''96540'', Set_exports (E_object [(''version'', E_string ''18.2.0'')]) Return),
      (''40961'', Require ''44914'' (\<lambda>e. if e = E_object [] then Raise ''no React''
         else Set_exports (E_object [(''createRoot'', E_function)]) Return))]) new_loader)"

lemma react_loads: "map_option fst (bootstrap 4 \<lparr>g_vendor = Some react_loader, g_React = E_undefined, g_ReactDOM = E_undefined\<rparr>) =
    Some (Inr ())"
  by (simp add: bootstrap_def validation_def react_loader_def register_def new_loader_def alias_module_def
      requireModule.simps(2) eval_nat_numeral)

theorem bootstrap_validates_witness:
  "\<exists>g'. bootstrap 4 \<lparr>g_vendor = Some react_loader, g_React = E_undefined, g_ReactDOM = E_undefined\<rparr> = Some (Inr (), g') \<and>
     member (g_React g') ''version'' = Some (E_string ''18.2.0'')"
proof -
  have reach: "loader_reach react_loader" unfolding react_loader_def by (intro loader_reach.intros)
  have "dom (ld_modules react_loader) = {''96540'', ''40961''}"
    by (auto simp: react_loader_def register_def new_loader_def split: if_splits)
  then have "Suc (card (dom (ld_modules react_loader))) < 4" by simp
  with bootstrap_validates [of "\<lparr>g_vendor = Some react_loader, g_React = E_undefined, g_ReactDOM = E_undefined\<rparr>" 4] reach
  obtain out g' where "bootstrap 4 \<lparr>g_vendor = Some react_loader, g_React = E_undefined, g_ReactDOM = E_undefined\<rparr> = Some (out, g')"
    "case out of Inr _ \<Rightarrow> member (g_React g') ''version'' = Some (E_string ''18.2.0'') | Inl m \<Rightarrow> True"
    by (fastforce split: sum.splits)
  then show ?thesis using react_loads by (cases out) auto
qed

end
