(* ===== verification/Session_Store.thy ===== *)
theory Session_Store imports Prelude Js_String begin

text \<open>
  The sessions of the server: \<open>internal/auth/session.go\<close>. A session is kept under a random identifier; the cookie
  is that identifier with its signature behind a dot. The signature (an HMAC over the secret of the
  installation) is the argument \<open>sign\<close>, the encoded random bytes are arguments of \<open>Store_Create\<close>, and the time
  is a number of seconds. The shortened identifier (\<open>se_id\<close>) names a session to the rest of the server.
\<close>

subsection \<open>The store\<close>

record session =
  se_id :: string
  se_username :: string
  se_csrf :: string
  se_created :: nat
  se_expires :: nat

type_synonym store = "(string \<times> session) list"

definition store_put :: "string \<Rightarrow> session \<Rightarrow> store \<Rightarrow> store" where
  "store_put k se st = (k, se) # filter (\<lambda>e. fst e \<noteq> k) st"

definition shortID :: "string \<Rightarrow> string" where
  "shortID i = (if length i > 10 then take 10 i else i)"

fun verify_from :: "string \<Rightarrow> string \<Rightarrow> (string \<times> string) option" where
  "verify_from i [] = None"
| "verify_from i (c # cs) = (if c = CHR ''.'' then Some (i, cs) else verify_from (i @ [c]) cs)"

definition Store_verify :: "(string \<Rightarrow> string) \<Rightarrow> string \<Rightarrow> string \<times> bool" where
  "Store_verify sign token =
     (case verify_from [] token of None \<Rightarrow> ([], False) | Some (i, sig) \<Rightarrow> (i, sig = sign i))"

definition Store_Create :: "(string \<Rightarrow> string) \<Rightarrow> nat \<Rightarrow> nat \<Rightarrow> string \<Rightarrow> string \<Rightarrow> string \<Rightarrow> store \<Rightarrow>
    (string \<times> session) \<times> store" where
  "Store_Create sign ttl now username i csrf st =
     (let token = i @ ''.'' @ sign i;
          se = \<lparr>se_id = shortID i, se_username = username, se_csrf = csrf, se_created = now, se_expires = now + ttl\<rparr>
      in ((token, se), store_put i se st))"

definition Store_Delete :: "(string \<Rightarrow> string) \<Rightarrow> string \<Rightarrow> store \<Rightarrow> store" where
  "Store_Delete sign token st =
     (case Store_verify sign token of (i, ok) \<Rightarrow> if \<not> ok then st else filter (\<lambda>e. fst e \<noteq> i) st)"

definition Store_Get :: "(string \<Rightarrow> string) \<Rightarrow> nat \<Rightarrow> string \<Rightarrow> store \<Rightarrow> session option \<times> store" where
  "Store_Get sign now token st =
     (case Store_verify sign token of (i, ok) \<Rightarrow>
        if \<not> ok then (None, st)
        else (case map_of st i of None \<Rightarrow> (None, st)
              | Some se \<Rightarrow> if now > se_expires se then (None, Store_Delete sign token st) else (Some se, st)))"

definition Store_RenameCurrentAndDeleteOthers :: "string \<Rightarrow> string \<Rightarrow> store \<Rightarrow> nat \<times> store" where
  "Store_RenameCurrentAndDeleteOthers sessionID username st =
     (length (filter (\<lambda>e. se_id (snd e) \<noteq> sessionID) st),
      map (\<lambda>(i, se). (i, se\<lparr>se_username := username\<rparr>)) (filter (\<lambda>e. se_id (snd e) = sessionID) st))"

definition Store_DeleteAllExcept :: "string \<Rightarrow> store \<Rightarrow> nat \<times> store" where
  "Store_DeleteAllExcept sessionID st =
     (length (filter (\<lambda>e. se_id (snd e) \<noteq> sessionID) st), filter (\<lambda>e. se_id (snd e) = sessionID) st)"

definition Store_List :: "nat \<Rightarrow> store \<Rightarrow> session list" where
  "Store_List now st = filter (\<lambda>se. now < se_expires se) (map snd st)"

definition Store_Cleanup :: "nat \<Rightarrow> store \<Rightarrow> store" where
  "Store_Cleanup now st = filter (\<lambda>e. \<not> now > se_expires (snd e)) st"

subsection \<open>Its life\<close>

text \<open>The calls the server makes, in any order, with the time of each.\<close>

datatype store_call =
    Creates nat string string string
  | Gets nat string
  | Deletes string
  | Renames string string
  | Keeps_only string
  | Cleans nat

fun store_step :: "(string \<Rightarrow> string) \<Rightarrow> nat \<Rightarrow> store_call \<Rightarrow> store \<Rightarrow> store" where
  "store_step sign ttl (Creates now username i csrf) st = snd (Store_Create sign ttl now username i csrf st)"
| "store_step sign ttl (Gets now token) st = snd (Store_Get sign now token st)"
| "store_step sign ttl (Deletes token) st = Store_Delete sign token st"
| "store_step sign ttl (Renames sid username) st = snd (Store_RenameCurrentAndDeleteOthers sid username st)"
| "store_step sign ttl (Keeps_only sid) st = snd (Store_DeleteAllExcept sid st)"
| "store_step sign ttl (Cleans now) st = Store_Cleanup now st"

definition store_after :: "(string \<Rightarrow> string) \<Rightarrow> nat \<Rightarrow> store_call list \<Rightarrow> store" where
  "store_after sign ttl cs = fold (store_step sign ttl) cs []"

lemma store_after_snoc [simp]: "store_after sign ttl (cs @ [c]) = store_step sign ttl c (store_after sign ttl cs)"
  by (simp add: store_after_def)

lemma store_after_Nil [simp]: "store_after sign ttl [] = []"
  by (simp add: store_after_def)

text \<open>Whether a call ends the session of an identifier.\<close>

fun ends_session :: "(string \<Rightarrow> string) \<Rightarrow> string \<Rightarrow> store_call \<Rightarrow> bool" where
  "ends_session sign i (Deletes token) \<longleftrightarrow> Store_verify sign token = (i, True)"
| "ends_session sign i (Renames sid username) \<longleftrightarrow> shortID i \<noteq> sid"
| "ends_session sign i (Keeps_only sid) \<longleftrightarrow> shortID i \<noteq> sid"
| "ends_session sign i c \<longleftrightarrow> False"

lemma verify_from_Some:
  "verify_from acc cs = Some (i, sig) \<longleftrightarrow> (\<exists>x. i = acc @ x \<and> cs = x @ CHR ''.'' # sig \<and> CHR ''.'' \<notin> set x)"
proof (induction acc cs rule: verify_from.induct)
  case (2 acc c cs)
  show ?case
  proof (cases "c = CHR ''.''")
    case False
    then have "(\<exists>x. i = acc @ x \<and> c # cs = x @ CHR ''.'' # sig \<and> CHR ''.'' \<notin> set x) \<longleftrightarrow>
        (\<exists>x. i = (acc @ [c]) @ x \<and> cs = x @ CHR ''.'' # sig \<and> CHR ''.'' \<notin> set x)"
      by (auto simp: Cons_eq_append_conv)
    then show ?thesis using 2 False by simp
  qed (auto simp: Cons_eq_append_conv)
qed simp

lemma Store_verify_True:
  "Store_verify sign token = (i, True) \<longleftrightarrow> token = i @ ''.'' @ sign i \<and> CHR ''.'' \<notin> set i"
proof -
  have "Store_verify sign token = (i, True) \<longleftrightarrow> verify_from [] token = Some (i, sign i)"
    by (auto simp: Store_verify_def split: option.split)
  then show ?thesis by (auto simp: verify_from_Some)
qed

lemma Store_verify_created: "CHR ''.'' \<notin> set i \<Longrightarrow> Store_verify sign (i @ ''.'' @ sign i) = (i, True)"
  by (simp add: Store_verify_True)

subsection \<open>Who is in the store\<close>

text \<open>Every session of the store was created, and nothing has ended it since.\<close>

definition created_by :: "(string \<Rightarrow> string) \<Rightarrow> nat \<Rightarrow> store_call list \<Rightarrow> string \<Rightarrow> session \<Rightarrow> bool" where
  "created_by sign ttl cs i se \<longleftrightarrow> (\<exists>pre t username csrf post. cs = pre @ Creates t username i csrf # post \<and>
     se_id se = shortID i \<and> se_csrf se = csrf \<and> se_created se = t \<and> se_expires se = t + ttl \<and>
     list_all (\<lambda>c. \<not> ends_session sign i c) post)"

lemma created_by_snoc:
  "created_by sign ttl cs i se \<Longrightarrow> \<not> ends_session sign i c \<Longrightarrow> created_by sign ttl (cs @ [c]) i se"
  unfolding created_by_def by (metis append.assoc append_Cons list_all_append list.pred_inject)

lemma created_by_rename: "created_by sign ttl cs i (se\<lparr>se_username := u\<rparr>) = created_by sign ttl cs i se"
  by (simp add: created_by_def)

lemma store_created:
  assumes "(i, se) \<in> set (store_after sign ttl cs)" shows "created_by sign ttl cs i se"
  using assms
proof (induction cs arbitrary: i se rule: rev_induct)
  case (snoc c cs)
  have same: "(j, v) \<in> set (store_after sign ttl cs) \<Longrightarrow> \<not> ends_session sign j c \<Longrightarrow>
      created_by sign ttl (cs @ [c]) j v" for j v
    using snoc.IH created_by_snoc by blast
  have named: "(j, v) \<in> set (store_after sign ttl cs) \<Longrightarrow> se_id v = shortID j" for j v
    using snoc.IH by (auto simp: created_by_def)
  show ?case
  proof (cases c)
    case (Creates t username j csrf)
    show ?thesis
    proof (cases "i = j")
      case True
      then have "se = \<lparr>se_id = shortID i, se_username = username, se_csrf = csrf, se_created = t, se_expires = t + ttl\<rparr>"
        using snoc.prems by (auto simp: Creates Store_Create_def store_put_def Let_def)
      then show ?thesis
        unfolding created_by_def Creates True
        by (intro exI [of _ cs] exI [of _ t] exI [of _ username] exI [of _ csrf] exI [of _ "[]"]) simp
    next
      case False
      then show ?thesis using snoc.prems same by (auto simp: Creates Store_Create_def store_put_def Let_def)
    qed
  next
    case (Gets t token)
    have "(i, se) \<in> set (store_after sign ttl cs)"
      using snoc.prems by (auto simp: Gets Store_Get_def Store_Delete_def split: prod.splits option.splits if_splits)
    then show ?thesis using same by (simp add: Gets)
  next
    case (Deletes token)
    obtain j ok where v: "Store_verify sign token = (j, ok)" by (cases "Store_verify sign token")
    then have "(i, se) \<in> set (store_after sign ttl cs) \<and> \<not> (ok \<and> i = j)"
      using snoc.prems by (auto simp: Deletes Store_Delete_def split: if_splits)
    then show ?thesis using same v by (auto simp: Deletes)
  next
    case (Renames sid username)
    then obtain v where "(i, v) \<in> set (store_after sign ttl cs)" "se = v\<lparr>se_username := username\<rparr>" "se_id v = sid"
      using snoc.prems by (auto simp: Store_RenameCurrentAndDeleteOthers_def)
    then show ?thesis using same named by (auto simp: Renames created_by_rename)
  next
    case (Keeps_only sid)
    then show ?thesis using snoc.prems same named by (auto simp: Store_DeleteAllExcept_def)
  next
    case (Cleans t)
    then show ?thesis using snoc.prems same by (auto simp: Store_Cleanup_def)
  qed
qed simp

text \<open>C5. Nobody gets in who was not let in. Whatever calls the store has served, in whatever order: a cookie for
  which it returns a session is the identifier of a session it has created together with the signature
  over it; the session is that one, with its CSRF token; it is not older than its lifetime; and since it was
  created nobody has signed it out or revoked it.\<close>

theorem session_authentic:
  assumes "Store_Get sign now token (store_after sign ttl cs) = (Some se, st)"
  shows "\<exists>pre t username i csrf post. cs = pre @ Creates t username i csrf # post \<and>
    token = i @ ''.'' @ sign i \<and> se_id se = shortID i \<and> se_csrf se = csrf \<and> now \<le> t + ttl \<and>
    list_all (\<lambda>c. \<not> ends_session sign i c) post \<and> st = store_after sign ttl cs"
proof -
  obtain i where v: "Store_verify sign token = (i, True)"
    and se: "map_of (store_after sign ttl cs) i = Some se" "now \<le> se_expires se" "st = store_after sign ttl cs"
    using assms by (auto simp: Store_Get_def split: prod.splits if_splits option.splits)
  obtain pre t username csrf post where c: "cs = pre @ Creates t username i csrf # post" "se_id se = shortID i"
    "se_csrf se = csrf" "se_expires se = t + ttl" "list_all (\<lambda>c. \<not> ends_session sign i c) post"
    using store_created [OF map_of_SomeD [OF se(1)]] unfolding created_by_def by auto
  moreover have "token = i @ ''.'' @ sign i" "now \<le> t + ttl" using v se(2) c(4) by (simp_all add: Store_verify_True)
  ultimately show ?thesis using se(3) by blast
qed

theorem session_authentic_witness:
  "let sign = (\<lambda>i. i @ ''x''); cs = [Creates 5 ''admin'' ''ab'' ''tok'', Keeps_only ''ab'', Cleans 20]
   in fst (Store_Get sign 30 ''ab.abx'' (store_after sign 100 cs)) \<noteq> None \<and> (\<exists>t u c. Creates t u ''ab'' c \<in> set cs)"
proof -
  let ?sign = "\<lambda>i. i @ ''x''" and ?cs = "[Creates 5 ''admin'' ''ab'' ''tok'', Keeps_only ''ab'', Cleans 20]"
  let ?st = "store_after ?sign 100 ?cs"
  let ?se = "\<lparr>se_id = ''ab'', se_username = ''admin'', se_csrf = ''tok'', se_created = 5, se_expires = 105\<rparr>"
  have st: "?st = [(''ab'', ?se)]"
    by (simp add: store_after_def Store_Create_def store_put_def shortID_def Store_DeleteAllExcept_def
        Store_Cleanup_def Let_def)
  have get: "Store_Get ?sign 30 ''ab.abx'' ?st = (Some ?se, ?st)"
    unfolding st by (simp add: Store_Get_def Store_verify_def)
  have "(\<exists>t u c. Creates t u ''ab'' c \<in> set ?cs)"
    using session_authentic [OF get] by auto
  then show ?thesis using get by simp
qed

end
