(* ===== verification/Server_Gate.thy ===== *)
theory Server_Gate imports Api Session_Store begin

text \<open>
  What the server checks before a request reaches the work it asks for: the registration of the handlers
  (\<open>New\<close> in \<open>internal/server/server.go\<close>), \<open>requireAuth\<close> in front of most of them, and the checks at
  the head of each handler, the method and the second authentication (\<open>requireElevation\<close>). The work behind
  these checks is not modelled; its answers are arbitrary. Elevation is taken before the body is decoded, which
  is the order of all handlers but three, and those differ only for bodies that are no JSON object.
\<close>

subsection \<open>Refusals\<close>

definition t_not_logged_in :: string where
  "t_not_logged_in = uni [0x672A, 0x767B, 0x5F55]"

definition t_session_over :: string where
  "t_session_over = uni [0x4F1A, 0x8BDD, 0x5DF2, 0x8FC7, 0x671F]"

definition t_ip_denied :: string where
  "t_ip_denied = uni [0x5F53, 0x524D] @ '' IP '' @ uni [0x4E0D, 0x5728, 0x9762, 0x677F, 0x5141, 0x8BB8, 0x5217, 0x8868, 0x4E2D]"

definition t_cross_site :: string where
  "t_cross_site = uni [0x62D2, 0x7EDD, 0x8DE8, 0x7AD9, 0x8BF7, 0x6C42]"

definition t_csrf_failed :: string where
  "t_csrf_failed = ''CSRF '' @ uni [0x6821, 0x9A8C, 0x5931, 0x8D25]"

definition t_method_denied :: string where
  "t_method_denied = uni [0x65B9, 0x6CD5, 0x4E0D, 0x5141, 0x8BB8]"

definition t_elevation_needed :: string where
  "t_elevation_needed = uni [0x9700, 0x8981, 0x4E8C, 0x6B21, 0x9A8C, 0x8BC1, 0x540E, 0x6267, 0x884C, 0x6B64, 0x64CD, 0x4F5C]"

definition t_bad_request :: string where
  "t_bad_request = uni [0x8BF7, 0x6C42, 0x683C, 0x5F0F, 0x9519, 0x8BEF]"

definition t_content_elevation :: string where
  "t_content_elevation = uni [0x9700, 0x8981, 0x4E8C, 0x6B21, 0x9A8C, 0x8BC1, 0x540E, 0x8BBF, 0x95EE, 0x6587, 0x4EF6, 0x5185, 0x5BB9]"

text \<open>An error of the server: its status, its message and its code, which most errors do not have.\<close>

datatype refusal = Refusal nat string string | Not_found

fun writeError :: "refusal \<Rightarrow> response" where
  "writeError (Refusal status message errcode) =
     \<lparr>resp_status = status, resp_type = ''application/json; charset=utf-8'',
      resp_json = Some (JObj ((if errcode = [] then [] else [(''code'', JStr errcode)]) @ [(''error'', JStr message)])),
      resp_text = None\<rparr>"
| "writeError Not_found =
     \<lparr>resp_status = 404, resp_type = ''text/plain; charset=utf-8'', resp_json = None,
      resp_text = Some (''404 page not found'' @ [CHR 0x0A])\<rparr>"

definition elevation_required :: refusal where
  "elevation_required = Refusal 403 t_elevation_needed ''elevation_required''"

definition content_refused :: refusal where
  "content_refused = Refusal 403 t_content_elevation []"

definition methodNotAllowed :: refusal where
  "methodNotAllowed = Refusal 405 t_method_denied []"

subsection \<open>The handlers\<close>

text \<open>The checks of a handler, in the order in which it makes them: its methods; the second authentication,
  for all requests, for some methods, for every action but \<open>start\<close>, for a download, or for the content of a file.\<close>

datatype check =
    Methods "string list"
  | Elevated
  | Elevated_for "string list"
  | Elevated_unless_start
  | Elevated_for_download
  | Content_elevated

text \<open>Handlers that only pass a request on share their checks.\<close>

definition systemMutation :: "check list" where
  "systemMutation = [Methods [''POST''], Elevated]"

definition dockerJSONMutation :: "check list" where
  "dockerJSONMutation = [Methods [''POST''], Elevated]"

definition dockerResourceMutation :: "check list" where
  "dockerResourceMutation = [Methods [''POST''], Elevated]"

definition elevatedAgentAction :: "check list" where
  "elevatedAgentAction = [Methods [''POST''], Elevated]"

definition fileMutation :: "check list" where
  "fileMutation = [Methods [''POST''], Elevated]"

definition proxyAgentJSON :: "string \<Rightarrow> check list" where
  "proxyAgentJSON m = [Methods [m]]"

text \<open>Handlers of \<open>internal/server/server.go\<close>.\<close>

definition Srv_health :: "check list" where
  "Srv_health = [Methods [''GET'']]"

definition Srv_login :: "check list" where
  "Srv_login = [Methods [''POST'']]"

definition Srv_upgradePasswordKDF :: "check list" where
  "Srv_upgradePasswordKDF = [Methods [''POST'']]"

definition Srv_logout :: "check list" where
  "Srv_logout = [Methods [''POST'']]"

definition Srv_changePassword :: "check list" where
  "Srv_changePassword = [Methods [''POST'']]"

definition Srv_changeAccount :: "check list" where
  "Srv_changeAccount = [Methods [''PATCH'']]"

definition Srv_elevate :: "check list" where
  "Srv_elevate = [Methods [''POST'']]"

definition Srv_me :: "check list" where
  "Srv_me = [Methods [''GET'']]"

definition Srv_sessionManagement :: "check list" where
  "Srv_sessionManagement = [Methods [''GET'', ''DELETE'']]"

definition Srv_overview :: "check list" where
  "Srv_overview = [Methods [''GET'']]"

definition Srv_overviewStream :: "check list" where
  "Srv_overviewStream = [Methods [''GET'']]"

definition Srv_serviceList :: "check list" where
  "Srv_serviceList = proxyAgentJSON ''GET''"

definition Srv_serviceLogs :: "check list" where
  "Srv_serviceLogs = proxyAgentJSON ''GET''"

definition Srv_serviceAction :: "check list" where
  "Srv_serviceAction = [Methods [''POST''], Elevated_unless_start]"

definition Srv_processList :: "check list" where
  "Srv_processList = proxyAgentJSON ''GET''"

definition Srv_processAction :: "check list" where
  "Srv_processAction = [Methods [''POST''], Elevated]"

definition Srv_networkInfo :: "check list" where
  "Srv_networkInfo = proxyAgentJSON ''GET''"

definition Srv_storageInfo :: "check list" where
  "Srv_storageInfo = proxyAgentJSON ''GET''"

definition Srv_timerInfo :: "check list" where
  "Srv_timerInfo = proxyAgentJSON ''GET''"

definition Srv_taskList :: "check list" where
  "Srv_taskList = proxyAgentJSON ''GET''"

definition Srv_taskCreate :: "check list" where
  "Srv_taskCreate = dockerJSONMutation"

definition Srv_taskAction :: "check list" where
  "Srv_taskAction = dockerJSONMutation"

definition Srv_updateInfo :: "check list" where
  "Srv_updateInfo = proxyAgentJSON ''GET''"

definition Srv_dockerStatus :: "check list" where
  "Srv_dockerStatus = proxyAgentJSON ''GET''"

definition Srv_dockerInstall :: "check list" where
  "Srv_dockerInstall = [Methods [''POST''], Elevated]"

definition Srv_dockerContainers :: "check list" where
  "Srv_dockerContainers = proxyAgentJSON ''GET''"

definition Srv_dockerStats :: "check list" where
  "Srv_dockerStats = proxyAgentJSON ''GET''"

definition Srv_dockerLogs :: "check list" where
  "Srv_dockerLogs = Elevated # proxyAgentJSON ''GET''"

definition Srv_dockerInspect :: "check list" where
  "Srv_dockerInspect = Elevated # proxyAgentJSON ''GET''"

definition Srv_dockerRecreate :: "check list" where
  "Srv_dockerRecreate = [Methods [''POST''], Elevated]"

definition Srv_dockerAction :: "check list" where
  "Srv_dockerAction = [Methods [''POST''], Elevated_unless_start]"

definition Srv_dockerCompose :: "check list" where
  "Srv_dockerCompose = proxyAgentJSON ''GET''"

definition Srv_dockerComposeAction :: "check list" where
  "Srv_dockerComposeAction = [Methods [''POST''], Elevated]"

definition Srv_dockerImages :: "check list" where
  "Srv_dockerImages = proxyAgentJSON ''GET''"

definition Srv_dockerNetworks :: "check list" where
  "Srv_dockerNetworks = proxyAgentJSON ''GET''"

definition Srv_dockerNetworkCreate :: "check list" where
  "Srv_dockerNetworkCreate = dockerJSONMutation"

definition Srv_dockerVolumes :: "check list" where
  "Srv_dockerVolumes = proxyAgentJSON ''GET''"

definition Srv_dockerVolumeCreate :: "check list" where
  "Srv_dockerVolumeCreate = dockerJSONMutation"

definition Srv_dockerCleanupPreview :: "check list" where
  "Srv_dockerCleanupPreview = proxyAgentJSON ''GET''"

definition Srv_dockerCleanup :: "check list" where
  "Srv_dockerCleanup = dockerJSONMutation"

definition Srv_dockerImagePull :: "check list" where
  "Srv_dockerImagePull = [Methods [''POST''], Elevated]"

definition Srv_dockerImageDelete :: "check list" where
  "Srv_dockerImageDelete = dockerResourceMutation"

definition Srv_dockerNetworkDelete :: "check list" where
  "Srv_dockerNetworkDelete = dockerResourceMutation"

definition Srv_dockerVolumeDelete :: "check list" where
  "Srv_dockerVolumeDelete = dockerResourceMutation"

definition Srv_dockerHubSearch :: "check list" where
  "Srv_dockerHubSearch = proxyAgentJSON ''GET''"

definition Srv_dockerVolumeUsage :: "check list" where
  "Srv_dockerVolumeUsage = proxyAgentJSON ''GET''"

definition Srv_dockerComposeCreate :: "check list" where
  "Srv_dockerComposeCreate = dockerJSONMutation"

definition Srv_files :: "check list" where
  "Srv_files = proxyAgentJSON ''GET''"

definition Srv_fileContent :: "check list" where
  "Srv_fileContent = [Methods [''GET'', ''PUT''], Elevated_for [''PUT''], Content_elevated]"

definition Srv_fileCreate :: "check list" where
  "Srv_fileCreate = fileMutation"

definition Srv_fileMkdir :: "check list" where
  "Srv_fileMkdir = fileMutation"

definition Srv_fileRename :: "check list" where
  "Srv_fileRename = fileMutation"

definition Srv_fileDelete :: "check list" where
  "Srv_fileDelete = fileMutation"

definition Srv_fileCopy :: "check list" where
  "Srv_fileCopy = fileMutation"

definition Srv_fileMove :: "check list" where
  "Srv_fileMove = fileMutation"

definition Srv_fileChmod :: "check list" where
  "Srv_fileChmod = fileMutation"

definition Srv_fileRecycle :: "check list" where
  "Srv_fileRecycle = [Methods [''GET'', ''POST''], Elevated_for [''POST'']]"

definition Srv_fileBackups :: "check list" where
  "Srv_fileBackups = proxyAgentJSON ''GET'' @ [Content_elevated]"

definition Srv_fileBackupDiff :: "check list" where
  "Srv_fileBackupDiff = proxyAgentJSON ''GET'' @ [Content_elevated]"

definition Srv_fileBackupRestore :: "check list" where
  "Srv_fileBackupRestore = [Methods [''POST''], Elevated]"

definition Srv_filePreferences :: "check list" where
  "Srv_filePreferences = [Methods [''GET'', ''POST'']]"

definition Srv_fileDownload :: "check list" where
  "Srv_fileDownload = [Methods [''GET''], Content_elevated]"

definition Srv_fileUpload :: "check list" where
  "Srv_fileUpload = [Methods [''POST''], Elevated]"

definition Srv_fileArchiveExtract :: "check list" where
  "Srv_fileArchiveExtract = [Methods [''POST''], Elevated]"

definition Srv_sshStatus :: "check list" where
  "Srv_sshStatus = proxyAgentJSON ''GET''"

definition Srv_sshUsers :: "check list" where
  "Srv_sshUsers = proxyAgentJSON ''GET''"

definition Srv_sshKeys :: "check list" where
  "Srv_sshKeys = proxyAgentJSON ''GET''"

definition Srv_sshKeyAdd :: "check list" where
  "Srv_sshKeyAdd = [Methods [''POST''], Elevated]"

definition Srv_sshKeyDelete :: "check list" where
  "Srv_sshKeyDelete = [Methods [''POST''], Elevated]"

definition Srv_sshKeyGenerate :: "check list" where
  "Srv_sshKeyGenerate = [Methods [''POST''], Elevated]"

definition Srv_sshPassword :: "check list" where
  "Srv_sshPassword = [Methods [''POST''], Elevated]"

definition Srv_securityStatus :: "check list" where
  "Srv_securityStatus = [Methods [''GET'']]"

definition Srv_fail2ban :: "check list" where
  "Srv_fail2ban = proxyAgentJSON ''GET''"

definition Srv_fail2banUnban :: "check list" where
  "Srv_fail2banUnban = systemMutation"

definition Srv_fail2banIgnore :: "check list" where
  "Srv_fail2banIgnore = [Methods [''POST''], Elevated]"

definition Srv_autoUpdatesEnable :: "check list" where
  "Srv_autoUpdatesEnable = [Methods [''POST''], Elevated]"

definition Srv_fail2banInstall :: "check list" where
  "Srv_fail2banInstall = [Methods [''POST''], Elevated]"

definition Srv_githubSummary :: "check list" where
  "Srv_githubSummary = [Methods [''GET'']]"

definition Srv_githubCreateTag :: "check list" where
  "Srv_githubCreateTag = [Methods [''POST''], Elevated]"

definition Srv_githubCreateBranch :: "check list" where
  "Srv_githubCreateBranch = [Methods [''POST''], Elevated]"

definition Srv_githubCreatePullRequest :: "check list" where
  "Srv_githubCreatePullRequest = [Methods [''POST''], Elevated]"

definition Srv_githubMergePullRequest :: "check list" where
  "Srv_githubMergePullRequest = [Methods [''POST''], Elevated]"

definition Srv_githubRerunFailed :: "check list" where
  "Srv_githubRerunFailed = [Methods [''POST''], Elevated]"

definition Srv_systemLogs :: "check list" where
  "Srv_systemLogs = proxyAgentJSON ''GET''"

definition Srv_auditEvents :: "check list" where
  "Srv_auditEvents = [Methods [''GET'']]"

definition Srv_runTool :: "check list" where
  "Srv_runTool = [Methods [''POST'']]"

definition Srv_firewall :: "check list" where
  "Srv_firewall = proxyAgentJSON ''GET''"

definition Srv_firewallInstall :: "check list" where
  "Srv_firewallInstall = elevatedAgentAction"

definition Srv_firewallEnable :: "check list" where
  "Srv_firewallEnable = [Methods [''POST''], Elevated]"

definition Srv_firewallConfirm :: "check list" where
  "Srv_firewallConfirm = systemMutation"

definition Srv_firewallDisable :: "check list" where
  "Srv_firewallDisable = systemMutation"

definition Srv_firewallRule :: "check list" where
  "Srv_firewallRule = systemMutation"

definition Srv_hostNTP :: "check list" where
  "Srv_hostNTP = [Methods [''GET'', ''POST''], Elevated_for [''POST'']]"

definition Srv_aptSources :: "check list" where
  "Srv_aptSources = [Methods [''GET'', ''POST''], Elevated_for [''POST'']]"

definition Srv_settings :: "check list" where
  "Srv_settings = [Methods [''GET'', ''PATCH'']]"

definition Srv_backgroundJobs :: "check list" where
  "Srv_backgroundJobs = [Methods [''GET'']]"

definition Srv_backgroundJobStart :: "check list" where
  "Srv_backgroundJobStart = [Methods [''POST''], Elevated]"

definition Srv_aptPreflight :: "check list" where
  "Srv_aptPreflight = proxyAgentJSON ''GET''"

definition Srv_aptSearch :: "check list" where
  "Srv_aptSearch = proxyAgentJSON ''GET''"

definition Srv_aptDownload :: "check list" where
  "Srv_aptDownload = elevatedAgentAction"

definition Srv_aptUpgrade :: "check list" where
  "Srv_aptUpgrade = elevatedAgentAction"

definition Srv_aptPackage :: "check list" where
  "Srv_aptPackage = [Methods [''POST''], Elevated]"

definition Srv_hostSettings :: "check list" where
  "Srv_hostSettings = proxyAgentJSON ''GET''"

definition Srv_hostHostname :: "check list" where
  "Srv_hostHostname = systemMutation"

definition Srv_hostTimezone :: "check list" where
  "Srv_hostTimezone = systemMutation"

definition Srv_hostDNS :: "check list" where
  "Srv_hostDNS = systemMutation"

definition Srv_hostSysctl :: "check list" where
  "Srv_hostSysctl = systemMutation"

definition Srv_hostSwap :: "check list" where
  "Srv_hostSwap = [Methods [''POST'', ''DELETE''], Elevated]"

definition Srv_snapshots :: "check list" where
  "Srv_snapshots = [Methods [''GET'', ''POST''], Elevated_for [''POST'']]"

definition Srv_dockerComposeConfig :: "check list" where
  "Srv_dockerComposeConfig = [Methods [''GET'', ''PUT''], Elevated]"

definition Srv_dockerImageBuild :: "check list" where
  "Srv_dockerImageBuild = [Methods [''POST''], Elevated]"

definition Srv_fileSearch :: "check list" where
  "Srv_fileSearch = proxyAgentJSON ''GET''"

definition Srv_filePreview :: "check list" where
  "Srv_filePreview = proxyAgentJSON ''GET'' @ [Content_elevated]"

definition Srv_filePreviewRaw :: "check list" where
  "Srv_filePreviewRaw = [Methods [''GET''], Content_elevated]"

definition Srv_fileArchiveList :: "check list" where
  "Srv_fileArchiveList = proxyAgentJSON ''GET'' @ [Content_elevated]"

definition Srv_fileArchiveCreate :: "check list" where
  "Srv_fileArchiveCreate = [Methods [''POST''], Elevated]"

definition Srv_sshSettings :: "check list" where
  "Srv_sshSettings = [Methods [''POST''], Elevated]"

definition Srv_sshPortConfirm :: "check list" where
  "Srv_sshPortConfirm = [Methods [''POST''], Elevated]"

definition Srv_githubCreateRelease :: "check list" where
  "Srv_githubCreateRelease = [Methods [''POST''], Elevated]"

definition Srv_dockerExec :: "check list" where
  "Srv_dockerExec = [Methods [''POST''], Elevated]"

definition Srv_dockerVolumeArchive :: "check list" where
  "Srv_dockerVolumeArchive = [Methods [''POST''], Elevated]"

definition Srv_fileChown :: "check list" where
  "Srv_fileChown = [Methods [''POST''], Elevated]"

definition Srv_sshUserManage :: "check list" where
  "Srv_sshUserManage = [Methods [''POST''], Elevated]"

text \<open>Handlers of \<open>internal/server/passkey.go\<close>.\<close>

definition Srv_passkeyLoginBegin :: "check list" where
  "Srv_passkeyLoginBegin = [Methods [''POST'']]"

definition Srv_passkeyLoginFinish :: "check list" where
  "Srv_passkeyLoginFinish = [Methods [''POST'']]"

definition Srv_passkeyRegisterBegin :: "check list" where
  "Srv_passkeyRegisterBegin = [Methods [''POST''], Elevated]"

definition Srv_passkeyRegisterFinish :: "check list" where
  "Srv_passkeyRegisterFinish = [Methods [''POST''], Elevated]"

definition Srv_passkeyManagement :: "check list" where
  "Srv_passkeyManagement = [Methods [''GET'', ''DELETE''], Elevated_for [''DELETE'']]"

text \<open>Handlers of \<open>internal/server/totp.go\<close>.\<close>

definition Srv_totpStatus :: "check list" where
  "Srv_totpStatus = [Methods [''GET'']]"

definition Srv_totpSetup :: "check list" where
  "Srv_totpSetup = [Methods [''POST''], Elevated]"

definition Srv_totpConfirm :: "check list" where
  "Srv_totpConfirm = [Methods [''POST''], Elevated]"

definition Srv_totpDisable :: "check list" where
  "Srv_totpDisable = [Methods [''POST''], Elevated]"

definition Srv_totpRegenerateRecovery :: "check list" where
  "Srv_totpRegenerateRecovery = [Methods [''POST''], Elevated]"

text \<open>Handlers of \<open>internal/server/backup.go\<close>.\<close>

definition Srv_scheduledBackups :: "check list" where
  "Srv_scheduledBackups = [Methods [''GET'', ''POST''], Elevated_for [''POST''], Elevated_for_download]"

definition Srv_backupExport :: "check list" where
  "Srv_backupExport = [Methods [''GET''], Elevated]"

definition Srv_backupImport :: "check list" where
  "Srv_backupImport = [Methods [''POST''], Elevated]"

text \<open>Handlers of \<open>internal/server/security_auth.go\<close>.\<close>

definition Srv_ipAllowlist :: "check list" where
  "Srv_ipAllowlist = [Methods [''GET'', ''POST''], Elevated_for [''POST'']]"

definition Srv_ipAllowlistRecoveryPage :: "check list" where
  "Srv_ipAllowlistRecoveryPage = [Methods [''GET'']]"

definition Srv_ipAllowlistRecover :: "check list" where
  "Srv_ipAllowlistRecover = [Methods [''POST'']]"

definition Srv_loginNotifications :: "check list" where
  "Srv_loginNotifications = [Methods [''GET'', ''POST''], Elevated_for [''POST'']]"

text \<open>Handlers of \<open>internal/server/github_auth.go\<close>.\<close>

definition Srv_githubAuthStatus :: "check list" where
  "Srv_githubAuthStatus = [Methods [''GET'']]"

definition Srv_githubDeviceStart :: "check list" where
  "Srv_githubDeviceStart = [Methods [''POST'']]"

definition Srv_githubDevicePoll :: "check list" where
  "Srv_githubDevicePoll = [Methods [''POST'']]"

definition Srv_githubDeviceCancel :: "check list" where
  "Srv_githubDeviceCancel = [Methods [''POST'']]"

definition Srv_githubTokenConnect :: "check list" where
  "Srv_githubTokenConnect = [Methods [''POST'']]"

definition Srv_githubDisconnect :: "check list" where
  "Srv_githubDisconnect = [Methods [''POST'']]"

definition Srv_githubRepositories :: "check list" where
  "Srv_githubRepositories = [Methods [''GET'']]"

definition Srv_githubImportPreview :: "check list" where
  "Srv_githubImportPreview = [Methods [''POST'']]"

definition Srv_githubImportCommit :: "check list" where
  "Srv_githubImportCommit = [Methods [''POST''], Elevated]"

text \<open>Handlers of \<open>internal/server/github_extra.go\<close>.\<close>

definition Srv_githubActionJobs :: "check list" where
  "Srv_githubActionJobs = [Methods [''GET'']]"

definition Srv_githubActionJobLogs :: "check list" where
  "Srv_githubActionJobLogs = [Methods [''GET'']]"

definition Srv_githubReleaseAssets :: "check list" where
  "Srv_githubReleaseAssets = [Methods [''GET'']]"

definition Srv_githubReleaseAssetUpload :: "check list" where
  "Srv_githubReleaseAssetUpload = [Methods [''POST''], Elevated]"

text \<open>The registered paths, whether \<open>requireAuth\<close> stands in front, and the handler.\<close>

definition registered :: "(string \<times> bool \<times> check list) list" where
  "registered =
    [(''/api/v1/health'', False, Srv_health),
     (''/api/v1/jobs'', True, Srv_backgroundJobs),
     (''/api/v1/jobs/start'', True, Srv_backgroundJobStart),
     (''/api/v1/auth/login'', False, Srv_login),
     (''/api/v1/auth/passkey/login/begin'', False, Srv_passkeyLoginBegin),
     (''/api/v1/auth/passkey/login/finish'', False, Srv_passkeyLoginFinish),
     (''/api/v1/auth/passkey/register/begin'', True, Srv_passkeyRegisterBegin),
     (''/api/v1/auth/passkey/register/finish'', True, Srv_passkeyRegisterFinish),
     (''/api/v1/auth/passkeys'', True, Srv_passkeyManagement),
     (''/api/v1/auth/logout'', True, Srv_logout),
     (''/api/v1/auth/password'', True, Srv_changePassword),
     (''/api/v1/auth/password/upgrade'', True, Srv_upgradePasswordKDF),
     (''/api/v1/auth/account'', True, Srv_changeAccount),
     (''/api/v1/auth/elevate'', True, Srv_elevate),
     (''/api/v1/auth/me'', True, Srv_me),
     (''/api/v1/auth/sessions'', True, Srv_sessionManagement),
     (''/api/v1/auth/totp/status'', True, Srv_totpStatus),
     (''/api/v1/auth/totp/setup'', True, Srv_totpSetup),
     (''/api/v1/auth/totp/confirm'', True, Srv_totpConfirm),
     (''/api/v1/auth/totp/disable'', True, Srv_totpDisable),
     (''/api/v1/auth/totp/recovery'', True, Srv_totpRegenerateRecovery),
     (''/api/v1/system/overview'', True, Srv_overview),
     (''/api/v1/system/overview/stream'', True, Srv_overviewStream),
     (''/api/v1/system/services'', True, Srv_serviceList),
     (''/api/v1/system/services/action'', True, Srv_serviceAction),
     (''/api/v1/system/services/logs'', True, Srv_serviceLogs),
     (''/api/v1/system/processes'', True, Srv_processList),
     (''/api/v1/system/processes/action'', True, Srv_processAction),
     (''/api/v1/system/network'', True, Srv_networkInfo),
     (''/api/v1/system/storage'', True, Srv_storageInfo),
     (''/api/v1/system/timers'', True, Srv_timerInfo),
     (''/api/v1/system/tasks'', True, Srv_taskList),
     (''/api/v1/system/tasks/create'', True, Srv_taskCreate),
     (''/api/v1/system/tasks/action'', True, Srv_taskAction),
     (''/api/v1/system/updates'', True, Srv_updateInfo),
     (''/api/v1/system/apt/preflight'', True, Srv_aptPreflight),
     (''/api/v1/system/apt/search'', True, Srv_aptSearch),
     (''/api/v1/system/apt/download'', True, Srv_aptDownload),
     (''/api/v1/system/apt/upgrade'', True, Srv_aptUpgrade),
     (''/api/v1/system/apt/package'', True, Srv_aptPackage),
     (''/api/v1/system/host'', True, Srv_hostSettings),
     (''/api/v1/system/host/hostname'', True, Srv_hostHostname),
     (''/api/v1/system/host/timezone'', True, Srv_hostTimezone),
     (''/api/v1/system/host/dns'', True, Srv_hostDNS),
     (''/api/v1/system/host/swap'', True, Srv_hostSwap),
     (''/api/v1/system/host/sysctl'', True, Srv_hostSysctl),
     (''/api/v1/system/snapshots'', True, Srv_snapshots),
     (''/api/v1/backup/export'', True, Srv_backupExport),
     (''/api/v1/backup/import'', True, Srv_backupImport),
     (''/api/v1/backup/scheduled'', True, Srv_scheduledBackups),
     (''/api/v1/docker/status'', True, Srv_dockerStatus),
     (''/api/v1/docker/install'', True, Srv_dockerInstall),
     (''/api/v1/docker/containers'', True, Srv_dockerContainers),
     (''/api/v1/docker/stats'', True, Srv_dockerStats),
     (''/api/v1/docker/action'', True, Srv_dockerAction),
     (''/api/v1/docker/logs'', True, Srv_dockerLogs),
     (''/api/v1/docker/inspect'', True, Srv_dockerInspect),
     (''/api/v1/docker/recreate'', True, Srv_dockerRecreate),
     (''/api/v1/docker/images'', True, Srv_dockerImages),
     (''/api/v1/docker/images/pull'', True, Srv_dockerImagePull),
     (''/api/v1/docker/images/delete'', True, Srv_dockerImageDelete),
     (''/api/v1/docker/networks'', True, Srv_dockerNetworks),
     (''/api/v1/docker/networks/create'', True, Srv_dockerNetworkCreate),
     (''/api/v1/docker/networks/delete'', True, Srv_dockerNetworkDelete),
     (''/api/v1/docker/volumes'', True, Srv_dockerVolumes),
     (''/api/v1/docker/volumes/create'', True, Srv_dockerVolumeCreate),
     (''/api/v1/docker/volumes/delete'', True, Srv_dockerVolumeDelete),
     (''/api/v1/docker/cleanup/preview'', True, Srv_dockerCleanupPreview),
     (''/api/v1/docker/cleanup'', True, Srv_dockerCleanup),
     (''/api/v1/docker/compose'', True, Srv_dockerCompose),
     (''/api/v1/docker/compose/action'', True, Srv_dockerComposeAction),
     (''/api/v1/docker/compose/config'', True, Srv_dockerComposeConfig),
     (''/api/v1/docker/images/build'', True, Srv_dockerImageBuild),
     (''/api/v1/docker/hub/search'', True, Srv_dockerHubSearch),
     (''/api/v1/docker/volumes/usage'', True, Srv_dockerVolumeUsage),
     (''/api/v1/docker/compose/create'', True, Srv_dockerComposeCreate),
     (''/api/v1/docker/exec'', True, Srv_dockerExec),
     (''/api/v1/docker/volumes/archive'', True, Srv_dockerVolumeArchive),
     (''/api/v1/files'', True, Srv_files),
     (''/api/v1/files/content'', True, Srv_fileContent),
     (''/api/v1/files/create'', True, Srv_fileCreate),
     (''/api/v1/files/mkdir'', True, Srv_fileMkdir),
     (''/api/v1/files/rename'', True, Srv_fileRename),
     (''/api/v1/files/delete'', True, Srv_fileDelete),
     (''/api/v1/files/download'', True, Srv_fileDownload),
     (''/api/v1/files/upload'', True, Srv_fileUpload),
     (''/api/v1/files/archive/extract'', True, Srv_fileArchiveExtract),
     (''/api/v1/files/search'', True, Srv_fileSearch),
     (''/api/v1/files/preview'', True, Srv_filePreview),
     (''/api/v1/files/preview/raw'', True, Srv_filePreviewRaw),
     (''/api/v1/files/archive/list'', True, Srv_fileArchiveList),
     (''/api/v1/files/archive/create'', True, Srv_fileArchiveCreate),
     (''/api/v1/files/copy'', True, Srv_fileCopy),
     (''/api/v1/files/move'', True, Srv_fileMove),
     (''/api/v1/files/chmod'', True, Srv_fileChmod),
     (''/api/v1/files/chown'', True, Srv_fileChown),
     (''/api/v1/files/recycle'', True, Srv_fileRecycle),
     (''/api/v1/files/backups'', True, Srv_fileBackups),
     (''/api/v1/files/backups/diff'', True, Srv_fileBackupDiff),
     (''/api/v1/files/backups/restore'', True, Srv_fileBackupRestore),
     (''/api/v1/files/preferences'', True, Srv_filePreferences),
     (''/api/v1/ssh/status'', True, Srv_sshStatus),
     (''/api/v1/ssh/users'', True, Srv_sshUsers),
     (''/api/v1/ssh/users/manage'', True, Srv_sshUserManage),
     (''/api/v1/ssh/keys'', True, Srv_sshKeys),
     (''/api/v1/ssh/keys/add'', True, Srv_sshKeyAdd),
     (''/api/v1/ssh/keys/delete'', True, Srv_sshKeyDelete),
     (''/api/v1/ssh/keys/generate'', True, Srv_sshKeyGenerate),
     (''/api/v1/ssh/password'', True, Srv_sshPassword),
     (''/api/v1/ssh/settings'', True, Srv_sshSettings),
     (''/api/v1/ssh/port/confirm'', True, Srv_sshPortConfirm),
     (''/api/v1/security/status'', True, Srv_securityStatus),
     (''/api/v1/security/ip-allowlist'', True, Srv_ipAllowlist),
     (''/api/v1/security/ip-allowlist/recover'', False, Srv_ipAllowlistRecover),
     (''/recover-access'', False, Srv_ipAllowlistRecoveryPage),
     (''/api/v1/security/login-notifications'', True, Srv_loginNotifications),
     (''/api/v1/security/fail2ban/install'', True, Srv_fail2banInstall),
     (''/api/v1/security/fail2ban'', True, Srv_fail2ban),
     (''/api/v1/security/fail2ban/unban'', True, Srv_fail2banUnban),
     (''/api/v1/security/fail2ban/ignore'', True, Srv_fail2banIgnore),
     (''/api/v1/security/auto-updates/enable'', True, Srv_autoUpdatesEnable),
     (''/api/v1/security/firewall'', True, Srv_firewall),
     (''/api/v1/security/firewall/install'', True, Srv_firewallInstall),
     (''/api/v1/security/firewall/enable'', True, Srv_firewallEnable),
     (''/api/v1/security/firewall/confirm'', True, Srv_firewallConfirm),
     (''/api/v1/security/firewall/disable'', True, Srv_firewallDisable),
     (''/api/v1/security/firewall/rule'', True, Srv_firewallRule),
     (''/api/v1/system/host/ntp'', True, Srv_hostNTP),
     (''/api/v1/system/apt/sources'', True, Srv_aptSources),
     (''/api/v1/github/auth/status'', True, Srv_githubAuthStatus),
     (''/api/v1/github/auth/device/start'', True, Srv_githubDeviceStart),
     (''/api/v1/github/auth/device/poll'', True, Srv_githubDevicePoll),
     (''/api/v1/github/auth/device/cancel'', True, Srv_githubDeviceCancel),
     (''/api/v1/github/auth/token'', True, Srv_githubTokenConnect),
     (''/api/v1/github/auth/disconnect'', True, Srv_githubDisconnect),
     (''/api/v1/github/import/preview'', True, Srv_githubImportPreview),
     (''/api/v1/github/import/commit'', True, Srv_githubImportCommit),
     (''/api/v1/github/summary'', True, Srv_githubSummary),
     (''/api/v1/github/repositories'', True, Srv_githubRepositories),
     (''/api/v1/github/tag'', True, Srv_githubCreateTag),
     (''/api/v1/github/branch'', True, Srv_githubCreateBranch),
     (''/api/v1/github/pull'', True, Srv_githubCreatePullRequest),
     (''/api/v1/github/pull/merge'', True, Srv_githubMergePullRequest),
     (''/api/v1/github/rerun'', True, Srv_githubRerunFailed),
     (''/api/v1/github/release'', True, Srv_githubCreateRelease),
     (''/api/v1/github/actions/jobs'', True, Srv_githubActionJobs),
     (''/api/v1/github/actions/job-logs'', True, Srv_githubActionJobLogs),
     (''/api/v1/github/release/assets'', True, Srv_githubReleaseAssets),
     (''/api/v1/github/release/assets/upload'', True, Srv_githubReleaseAssetUpload),
     (''/api/v1/logs/system'', True, Srv_systemLogs),
     (''/api/v1/audit'', True, Srv_auditEvents),
     (''/api/v1/tools/run'', True, Srv_runTool),
     (''/api/v1/settings'', True, Srv_settings)]"

definition route_checks :: "string \<Rightarrow> (bool \<times> check list) option" where
  "route_checks p = map_of registered p"

subsection \<open>The server\<close>

text \<open>What of the server's state the checks read: the sessions, until when each is elevated, the time in
  seconds, and which paths the agent can resolve to a file. A request comes with what the browser adds to it: whether its address is allowed, the
  session cookie, and where it was issued from.\<close>

record server =
  sv_store :: store
  sv_elevated :: "string \<rightharpoonup> nat"
  sv_now :: nat
  sv_file :: "string \<Rightarrow> bool"

record wire =
  wi_allowed :: bool
  wi_cookie :: "string option"
  wi_site :: string

definition header_of :: "request \<Rightarrow> string \<Rightarrow> string" where
  "header_of r n = (case get_header n (req_headers r) of None \<Rightarrow> [] | Some v \<Rightarrow> v)"

definition elevationActive :: "string \<Rightarrow> server \<Rightarrow> bool \<times> server" where
  "elevationActive sid s =
     (if sid = [] then (False, s)
      else case sv_elevated s sid of
        None \<Rightarrow> (False, s)
      | Some expires \<Rightarrow>
          if sv_now s > expires then (False, s\<lparr>sv_elevated := (sv_elevated s)(sid := None)\<rparr>) else (True, s))"

text \<open>What the handler of \<open>/api/v1/auth/elevate\<close> does once password and second factor are right.\<close>

definition elevate_session :: "string \<Rightarrow> server \<Rightarrow> server" where
  "elevate_session sid s = s\<lparr>sv_elevated := (sv_elevated s)(sid \<mapsto> sv_now s + 300)\<rparr>"

text \<open>Restoring a backup of the panel ends every elevation.\<close>

definition forget_elevations :: "server \<Rightarrow> server" where
  "forget_elevations s = s\<lparr>sv_elevated := (\<lambda>sid. None)\<rparr>"

definition requireElevation :: "string \<Rightarrow> server \<Rightarrow> refusal option \<times> server" where
  "requireElevation sid s =
     (case elevationActive sid s of (active, s') \<Rightarrow> (if active then None else Some elevation_required, s'))"

text \<open>The content of a file is demanded of the agent, which refuses it unless the server says that the session is
  elevated (\<open>fileAgentQuery\<close>). The refusal has no code; status and message reach the panel as they are.\<close>

definition requireSensitiveFileElevation :: "string \<Rightarrow> server \<Rightarrow> refusal option \<times> server" where
  "requireSensitiveFileElevation sid s =
     (case elevationActive sid s of (active, s') \<Rightarrow> (if active then None else Some content_refused, s'))"

definition requireAuth :: "(string \<Rightarrow> string) \<Rightarrow> wire \<Rightarrow> request \<Rightarrow> server \<Rightarrow> (refusal + session) \<times> server" where
  "requireAuth sign w r s =
     (if \<not> wi_allowed w then (Inl (Refusal 403 t_ip_denied []), s)
      else case wi_cookie w of
        None \<Rightarrow> (Inl (Refusal 401 t_not_logged_in ''session_required''), s)
      | Some cookie \<Rightarrow>
          (case Store_Get sign (sv_now s) cookie (sv_store s) of
             (None, st) \<Rightarrow> (Inl (Refusal 401 t_session_over ''session_expired''), s\<lparr>sv_store := st\<rparr>)
           | (Some se, st) \<Rightarrow>
               (if ToLower (wi_site w) = ''cross-site'' then Inl (Refusal 403 t_cross_site [])
                else if req_method r \<noteq> ''GET'' \<and> header_of r ''X-CSRF-Token'' \<noteq> se_csrf se
                then Inl (Refusal 403 t_csrf_failed [])
                else Inr se, s\<lparr>sv_store := st\<rparr>)))"

text \<open>The two handlers that look at the body first decode it into a map of strings. The only text the panel
  sends as a body is the empty object.\<close>

fun body_value :: "body option \<Rightarrow> json option" where
  "body_value (Some (Json_body v)) = Some v"
| "body_value (Some (Text_body t)) = (if t = ''{}'' then Some (JObj []) else None)"
| "body_value _ = None"

definition decode_strings :: "body option \<Rightarrow> (string \<times> string) list option" where
  "decode_strings b = (case body_value b of
       Some (JObj kvs) \<Rightarrow>
         (if list_all (\<lambda>(k, v). case v of JStr t \<Rightarrow> True | JNull \<Rightarrow> True | JUndef \<Rightarrow> True | _ \<Rightarrow> False) kvs
          then Some (concat (map (\<lambda>(k, v). case v of JUndef \<Rightarrow> [] | JStr t \<Rightarrow> [(k, t)] | _ \<Rightarrow> [(k, [])]) kvs))
          else None)
     | Some JNull \<Rightarrow> Some []
     | _ \<Rightarrow> None)"

definition action_of :: "(string \<times> string) list \<Rightarrow> string" where
  "action_of m = (case map_of (rev m) ''action'' of None \<Rightarrow> [] | Some a \<Rightarrow> a)"

definition path_of :: "string \<Rightarrow> string" where
  "path_of url = takeWhile (\<lambda>c. c \<noteq> CHR ''?'') url"

definition query_value :: "string \<Rightarrow> string \<Rightarrow> string" where
  "query_value url k = (case map_of (parse_query (dropWhile (\<lambda>c. c \<noteq> CHR ''?'') url)) k of None \<Rightarrow> [] | Some v \<Rightarrow> v)"

fun run_check :: "check \<Rightarrow> request \<Rightarrow> string \<Rightarrow> server \<Rightarrow> refusal option \<times> server" where
  "run_check (Methods ms) r sid s = (if req_method r \<in> set ms then None else Some methodNotAllowed, s)"
| "run_check Elevated r sid s = requireElevation sid s"
| "run_check (Elevated_for ms) r sid s = (if req_method r \<in> set ms then requireElevation sid s else (None, s))"
| "run_check Elevated_unless_start r sid s =
     (case decode_strings (req_body r) of
        None \<Rightarrow> (Some (Refusal 400 t_bad_request []), s)
      | Some m \<Rightarrow> if action_of m = ''start'' then (None, s) else requireElevation sid s)"
| "run_check Elevated_for_download r sid s =
     (if req_method r = ''GET'' \<and> js_trim (query_value (req_url r) ''download'') \<noteq> [] then requireElevation sid s
      else (None, s))"
| "run_check Content_elevated r sid s =
     (if req_method r = ''GET'' \<and> sv_file s (query_value (req_url r) ''path'') then requireSensitiveFileElevation sid s
      else (None, s))"

fun run_checks :: "check list \<Rightarrow> request \<Rightarrow> string \<Rightarrow> server \<Rightarrow> refusal option \<times> server" where
  "run_checks [] r sid s = (None, s)"
| "run_checks (c # cs) r sid s =
     (case run_check c r sid s of (Some e, s') \<Rightarrow> (Some e, s') | (None, s') \<Rightarrow> run_checks cs r sid s')"

text \<open>A request at the server: refused, or handed to the work of its handler (\<open>None\<close>). What is not registered is
  an asset, unless it lies below \<open>/api/\<close>.\<close>

definition serve :: "(string \<Rightarrow> string) \<Rightarrow> wire \<Rightarrow> request \<Rightarrow> server \<Rightarrow> refusal option \<times> server" where
  "serve sign w r s =
     (case route_checks (path_of (req_url r)) of
        None \<Rightarrow> (if starts_with (req_url r) ''/api/'' then Some Not_found else None, s)
      | Some (False, cs) \<Rightarrow> run_checks cs r [] s
      | Some (True, cs) \<Rightarrow>
          (case requireAuth sign w r s of
             (Inl e, s') \<Rightarrow> (Some e, s')
           | (Inr se, s') \<Rightarrow> run_checks cs r (se_id se) s'))"

subsection \<open>The routes, for the proofs\<close>

lemmas handler_defs = systemMutation_def dockerJSONMutation_def dockerResourceMutation_def elevatedAgentAction_def
    fileMutation_def proxyAgentJSON_def Srv_health_def Srv_login_def Srv_upgradePasswordKDF_def Srv_logout_def
    Srv_changePassword_def Srv_changeAccount_def Srv_elevate_def Srv_me_def Srv_sessionManagement_def
    Srv_overview_def Srv_overviewStream_def Srv_serviceList_def Srv_serviceLogs_def Srv_serviceAction_def
    Srv_processList_def Srv_processAction_def Srv_networkInfo_def Srv_storageInfo_def Srv_timerInfo_def
    Srv_taskList_def Srv_taskCreate_def Srv_taskAction_def Srv_updateInfo_def Srv_dockerStatus_def
    Srv_dockerInstall_def Srv_dockerContainers_def Srv_dockerStats_def Srv_dockerLogs_def Srv_dockerInspect_def
    Srv_dockerRecreate_def Srv_dockerAction_def Srv_dockerCompose_def Srv_dockerComposeAction_def
    Srv_dockerImages_def Srv_dockerNetworks_def Srv_dockerNetworkCreate_def Srv_dockerVolumes_def
    Srv_dockerVolumeCreate_def Srv_dockerCleanupPreview_def Srv_dockerCleanup_def Srv_dockerImagePull_def
    Srv_dockerImageDelete_def Srv_dockerNetworkDelete_def Srv_dockerVolumeDelete_def Srv_dockerHubSearch_def
    Srv_dockerVolumeUsage_def Srv_dockerComposeCreate_def Srv_files_def Srv_fileContent_def Srv_fileCreate_def
    Srv_fileMkdir_def Srv_fileRename_def Srv_fileDelete_def Srv_fileCopy_def Srv_fileMove_def Srv_fileChmod_def
    Srv_fileRecycle_def Srv_fileBackups_def Srv_fileBackupDiff_def Srv_fileBackupRestore_def
    Srv_filePreferences_def Srv_fileDownload_def Srv_fileUpload_def Srv_fileArchiveExtract_def Srv_sshStatus_def
    Srv_sshUsers_def Srv_sshKeys_def Srv_sshKeyAdd_def Srv_sshKeyDelete_def Srv_sshKeyGenerate_def
    Srv_sshPassword_def Srv_securityStatus_def Srv_fail2ban_def Srv_fail2banUnban_def Srv_fail2banIgnore_def
    Srv_autoUpdatesEnable_def Srv_fail2banInstall_def Srv_githubSummary_def Srv_githubCreateTag_def
    Srv_githubCreateBranch_def Srv_githubCreatePullRequest_def Srv_githubMergePullRequest_def
    Srv_githubRerunFailed_def Srv_systemLogs_def Srv_auditEvents_def Srv_runTool_def Srv_firewall_def
    Srv_firewallInstall_def Srv_firewallEnable_def Srv_firewallConfirm_def Srv_firewallDisable_def
    Srv_firewallRule_def Srv_hostNTP_def Srv_aptSources_def Srv_settings_def Srv_backgroundJobs_def
    Srv_backgroundJobStart_def Srv_aptPreflight_def Srv_aptSearch_def Srv_aptDownload_def Srv_aptUpgrade_def
    Srv_aptPackage_def Srv_hostSettings_def Srv_hostHostname_def Srv_hostTimezone_def Srv_hostDNS_def
    Srv_hostSysctl_def Srv_hostSwap_def Srv_snapshots_def Srv_dockerComposeConfig_def Srv_dockerImageBuild_def
    Srv_fileSearch_def Srv_filePreview_def Srv_filePreviewRaw_def Srv_fileArchiveList_def
    Srv_fileArchiveCreate_def Srv_sshSettings_def Srv_sshPortConfirm_def Srv_githubCreateRelease_def
    Srv_dockerExec_def Srv_dockerVolumeArchive_def Srv_fileChown_def Srv_sshUserManage_def
    Srv_passkeyLoginBegin_def Srv_passkeyLoginFinish_def Srv_passkeyRegisterBegin_def
    Srv_passkeyRegisterFinish_def Srv_passkeyManagement_def Srv_totpStatus_def Srv_totpSetup_def
    Srv_totpConfirm_def Srv_totpDisable_def Srv_totpRegenerateRecovery_def Srv_scheduledBackups_def
    Srv_backupExport_def Srv_backupImport_def Srv_ipAllowlist_def Srv_ipAllowlistRecoveryPage_def
    Srv_ipAllowlistRecover_def Srv_loginNotifications_def Srv_githubAuthStatus_def Srv_githubDeviceStart_def
    Srv_githubDevicePoll_def Srv_githubDeviceCancel_def Srv_githubTokenConnect_def Srv_githubDisconnect_def
    Srv_githubRepositories_def Srv_githubImportPreview_def Srv_githubImportCommit_def Srv_githubActionJobs_def
    Srv_githubActionJobLogs_def Srv_githubReleaseAssets_def Srv_githubReleaseAssetUpload_def

text \<open>The paths are pairwise different, for they have different fingerprints.\<close>

definition fingerprint :: "string \<Rightarrow> int" where
  "fingerprint p = foldl (\<lambda>h c. 2 * h + of_char c) 0 p"

lemma distinct_routes: "distinct (map fst registered)"
proof -
  have "distinct (map fingerprint (map fst registered))"
    by (simp add: registered_def fingerprint_def)
  then show ?thesis by (simp only: distinct_map)
qed

lemma route_in_list: "list_all (\<lambda>(p, x). route_checks p = Some x) registered"
  using distinct_routes by (auto simp: route_checks_def list_all_iff)

lemmas route_facts = route_in_list [unfolded registered_def list.pred_inject prod.case]

end
