(* ===== verification/Contract.thy ===== *)
theory Contract imports Server_Gate Page_Base begin

text \<open>
  The panel against the checks of the server. A program \<open>minds\<close> the server if every request it issues is one a
  registered handler takes, and if it answers the refusal that asks for a second authentication by starting one.
  The rules below carry this from the request layer to everything that is built from it; \<open>Contract_Pages\<close>
  applies them to all pages.
\<close>

subsection \<open>What the server takes and what it demands\<close>

definition takes :: "string \<Rightarrow> check \<Rightarrow> bool" where
  "takes m c = (case c of Methods ms \<Rightarrow> m \<in> set ms | _ \<Rightarrow> True)"

definition may_demand :: "string \<Rightarrow> string \<Rightarrow> check \<Rightarrow> bool" where
  "may_demand m url c = (case c of
       Methods ms \<Rightarrow> False
     | Elevated \<Rightarrow> True
     | Elevated_for ms \<Rightarrow> m \<in> set ms
     | Elevated_unless_start \<Rightarrow> True
     | Elevated_for_download \<Rightarrow> m = ''GET'' \<and> js_trim (query_value url ''download'') \<noteq> []
     | Content_elevated \<Rightarrow> m = ''GET'')"

text \<open>A handler is registered for the path and takes the method; it may demand a second authentication.\<close>

definition served_at :: "string \<Rightarrow> string \<Rightarrow> bool" where
  "served_at m url = (case route_checks (path_of url) of None \<Rightarrow> False | Some (auth, cs) \<Rightarrow> list_all (takes m) cs)"

definition demands_at :: "string \<Rightarrow> string \<Rightarrow> bool" where
  "demands_at m url = (case route_checks (path_of url) of None \<Rightarrow> False
     | Some (auth, cs) \<Rightarrow> list_ex (may_demand m url) cs)"

lemma no_mark_query: "path_of (query ps) = []"
  by (simp add: path_of_def query_def Let_def)

lemma path_of_simps [simp]:
  "path_of [] = []" "path_of (c # cs) = (if c = CHR ''?'' then [] else c # path_of cs)" "path_of (query ps) = []"
  by (simp_all add: path_of_def no_mark_query [unfolded path_of_def])

lemma no_download [simp]: "js_trim (query_value ''/api/v1/backup/scheduled'' ''download'') = []"
  by code_simp

lemmas gate_eval = served_at_def demands_at_def takes_def may_demand_def route_facts handler_defs Let_def handler_ok_def

subsection \<open>Minding the gate\<close>

text \<open>The state of a watcher: nothing special; refused for want of a second authentication, so that the next
  thing must be to see about one; or about to repeat a request after one.\<close>

datatype gate_watch = Calm | Turned_away | Repeating

definition turned_away :: "answer \<Rightarrow> bool" where
  "turned_away a = (case a of
       AResp p \<Rightarrow> (case result_of p of Inl c \<Rightarrow> wants_elevation c | Inr v \<Rightarrow> False)
     | AFail c \<Rightarrow> wants_elevation c | _ \<Rightarrow> False)"

fun gate_ok :: "gate_watch \<Rightarrow> eff \<Rightarrow> bool" where
  "gate_ok g Has_elevation \<longleftrightarrow> True"
| "gate_ok g (Fetch r) \<longleftrightarrow> g \<noteq> Turned_away \<and> served_at (req_method r) (req_url r)"
| "gate_ok g (Upload u f n) \<longleftrightarrow> g \<noteq> Turned_away \<and> served_at ''POST'' u"
| "gate_ok g e \<longleftrightarrow> g \<noteq> Turned_away"

fun gate_upd :: "gate_watch \<Rightarrow> eff \<Rightarrow> answer \<Rightarrow> gate_watch" where
  "gate_upd g (Fetch r) a =
     (if g \<noteq> Repeating \<and> demands_at (req_method r) (req_url r) \<and> (\<exists>p. a = AResp p) \<and> turned_away a then Turned_away else Calm)"
| "gate_upd g (Upload u f n) a =
     (if g \<noteq> Repeating \<and> demands_at ''POST'' u \<and> turned_away a then Turned_away else Calm)"
| "gate_upd g Elevate a = (case a of AVal v \<Rightarrow> Repeating | _ \<Rightarrow> Calm)"
| "gate_upd g Read_csrf a = g"
| "gate_upd g e a = Calm"

definition minds :: "'s io \<Rightarrow> bool" where
  "minds m \<longleftrightarrow> (\<forall>s. wp gate_ok gate_upd m (\<lambda>_ g _. g = Calm) (\<lambda>_ g _. g = Calm) Calm s)"

lemma minds_settle: "minds m \<Longrightarrow> (\<And>r. minds (f r)) \<Longrightarrow> minds (settle m f)"
  unfolding minds_def wp_settle by (blast intro: wp_mono)

lemma minds_simple [intro!]:
  "minds (Ret v)" "minds (Throw c)" "minds m \<Longrightarrow> minds (Put u m)" "minds m \<Longrightarrow> minds (Show t z vs m)"
  "(\<And>s. minds (f s)) \<Longrightarrow> minds (Get f)" "minds (set_state u)" "minds (notify k t d)" "minds (confirm_io t m' l b)"
  "minds (open_modal t z vs)"
  by (auto simp: minds_def set_state_def open_modal_def notify_def confirm_io_def perform_def split: answer.split)

lemma minds_combinators [intro!]:
  "minds m \<Longrightarrow> (\<And>v. minds (f v)) \<Longrightarrow> minds (bnd m f)" "minds m \<Longrightarrow> minds n \<Longrightarrow> minds (seqs m n)"
  "minds m \<Longrightarrow> (\<And>c. minds (h c)) \<Longrightarrow> minds (try_catch m h)" "minds m \<Longrightarrow> minds n \<Longrightarrow> minds (try_finally m n)"
  unfolding bnd_def seqs_def try_catch_def try_finally_def
  by (auto intro!: minds_settle split: sum.split simp: bnd_def)

lemma minds_steps [intro!]: "list_all minds ms \<Longrightarrow> minds (steps ms)"
  by (induction ms rule: steps.induct) auto

lemma minds_if [intro!]: "(c \<Longrightarrow> minds m) \<Longrightarrow> (\<not> c \<Longrightarrow> minds n) \<Longrightarrow> minds (if c then m else n)"
  by simp

lemma minds_all_settled: "list_all minds ms \<Longrightarrow> (\<And>rs. minds (k rs)) \<Longrightarrow> minds (all_settled ms k)"
  by (induction ms k rule: all_settled.induct) (auto intro!: minds_settle)

lemma minds_join: "minds (join_results rs)"
  by (auto simp: join_results_def minds_def split: answer.split if_split)

lemma minds_promise_all [intro!]: "list_all minds ms \<Longrightarrow> minds (promise_all ms)"
  unfolding promise_all_def by (rule minds_all_settled) (auto intro: minds_join)

definition quiet :: "eff \<Rightarrow> bool" where
  "quiet e = (case e of Fetch r \<Rightarrow> False | Upload u f n \<Rightarrow> False | Elevate \<Rightarrow> False | _ \<Rightarrow> True)"

lemma minds_perform [intro!]: "quiet e \<Longrightarrow> minds (perform e)"
  by (cases e) (auto simp: minds_def quiet_def perform_def split: answer.split)

lemma quiet_effs [simp]:
  "quiet Read_csrf" "quiet Call_unauthorized" "quiet Has_elevation" "quiet (Notify k t d)" "quiet (Confirm t m l b)"
  "quiet Close_modal" "quiet (Navigate p)" "quiet Prevent_default" "quiet (Prop_call n vs)" "quiet (Browser n vs)"
  "quiet (Dom n vs)" "quiet (Race i)"
  by (simp_all add: quiet_def)

subsection \<open>The request layer\<close>

lemma wants_not_lost:
  "result_of p = Inl c \<Longrightarrow> wants_elevation c \<Longrightarrow> \<not> session_lost (resp_status p) b"
  by (auto simp: result_of_def request_failed_def ApiError_def wants_elevation_def session_lost_def split: if_splits)

text \<open>A call of \<open>api\<close>, with what it leaves the watcher in.\<close>

lemma wp_api_gate:
  assumes "served_at (method_of i) url" and "g \<noteq> Turned_away"
    and "\<And>v s. Q v Calm s" and "\<And>c s. \<not> wants_elevation c \<Longrightarrow> E c Calm s"
    and "\<And>c s. wants_elevation c \<Longrightarrow> E c (if g \<noteq> Repeating \<and> demands_at (method_of i) url then Turned_away else Calm) s"
  shows "wp gate_ok gate_upd (api url i) Q E g s"
proof -
  have answer: "wp gate_ok gate_upd (handle_response p) Q E
      (if g \<noteq> Repeating \<and> demands_at (method_of i) url \<and> turned_away (AResp p) then Turned_away else Calm) s'" for p s'
  proof (cases "result_of p")
    case (Inr v)
    then show ?thesis
      using assms(3) by (auto simp: handle_response_def result_of_def turned_away_def io_simps perform_def Let_def
          split: if_splits)
  next
    case (Inl c)
    then have c: "request_failed (resp_status p) (asObject (parsePayload p)) = c" "\<not> is_ok p"
      by (auto simp: result_of_def split: if_splits)
    have away: "turned_away (AResp p) \<longleftrightarrow> wants_elevation c" by (simp add: turned_away_def Inl)
    show ?thesis
    proof (cases "wants_elevation c")
      case True
      then show ?thesis
        using assms(5) [OF True] wants_not_lost [OF Inl True] by (simp add: handle_response_def io_simps Let_def c away)
    next
      case False
      then show ?thesis
        using assms(4) [OF False] by (simp add: handle_response_def io_simps perform_def Let_def c away split: answer.split)
    qed
  qed
  let ?call = "\<lambda>t. Do (Fetch (mk_request url i t)) (\<lambda>a. case a of AResp p \<Rightarrow> handle_response p
    | AFail c \<Rightarrow> Throw (network_error c) | _ \<Rightarrow> skip)"
  have resp: "wp gate_ok gate_upd (handle_response p) Q E (gate_upd g (Fetch (mk_request url i t)) (AResp p)) s'" for p t s'
    using answer [of p s'] by simp
  have fail: "gate_upd g (Fetch r) (AFail c) = Calm" for r c by simp
  have call: "wp gate_ok gate_upd (?call t) Q E g s'" for t s'
    using assms(1,2,4) resp by (auto simp: fail simp del: gate_upd.simps(1))
  then show ?thesis
    by (cases "safe_method (method_of i)") (auto simp: api_def io_simps perform_def simp del: wp.simps(5) intro!: wp.simps(5) [THEN iffD2] simp: assms(2))
qed

lemma minds_api [intro!]: "served_at (method_of i) url \<Longrightarrow> \<not> demands_at (method_of i) url \<Longrightarrow> minds (api url i)"
  unfolding minds_def by (intro allI wp_api_gate) simp_all

lemma wp_retry_gate:
  assumes "\<And>g s. g \<noteq> Turned_away \<Longrightarrow> wp gate_ok gate_upd m (\<lambda>_ g' _. g' = Calm)
      (\<lambda>c g' _. g' = (if g \<noteq> Repeating \<and> wants_elevation c \<and> d then Turned_away else Calm)) g s"
  shows "minds (retry_elevated m)"
  unfolding minds_def
proof
  fix s
  have again: "wp gate_ok gate_upd m (\<lambda>_ g _. g = Calm) (\<lambda>_ g _. g = Calm) Repeating s'" for s'
    using assms [of Repeating s'] by simp
  have calm: "wp gate_ok gate_upd m (\<lambda>_ g' _. g' = Calm)
      (\<lambda>c g' _. g' = (if wants_elevation c \<and> d then Turned_away else Calm)) Calm s"
    using assms [of Calm s] by simp
  show "wp gate_ok gate_upd (retry_elevated m) (\<lambda>_ g _. g = Calm) (\<lambda>_ g _. g = Calm) Calm s"
    unfolding retry_elevated_def wp_try_catch
    by (rule wp_mono [OF calm]) (auto simp: io_simps perform_def again split: if_splits)
qed

lemma minds_secureApi [intro!]: "served_at (method_of i) url \<Longrightarrow> minds (secureApi url i)"
  unfolding secureApi_def
  by (rule wp_retry_gate [where d = "demands_at (method_of i) url"]) (auto intro!: wp_api_gate)

lemma minds_uploadApi [intro!]: "served_at ''POST'' url \<Longrightarrow> minds (uploadApi url form name)"
  unfolding uploadApi_def
  by (rule wp_retry_gate [where d = "demands_at ''POST'' url"]) (auto simp: perform_def turned_away_def)

lemma minds_copyText [intro!]: "minds (copyText v)"
  unfolding copyText_def Let_def by (auto intro!: minds_settle split: sum.split)

lemma minds_reload [intro!]: "minds loader \<Longrightarrow> minds (reload slot upd loader silent)"
  unfolding reload_def Let_def by (auto intro!: minds_settle)

text \<open>What the shared elements need of any rule: navigating and setting state are allowed.\<close>

lemma minds_steady [simp]: "minds (set_state u)" "quiet e \<Longrightarrow> minds (perform e)" "minds skip"
  by auto

lemma served_at_if [simp]: "served_at m (if c then u else v) \<longleftrightarrow> (if c then served_at m u else served_at m v)"
  by simp

lemma list_all_intros: "list_all P []" "P x \<Longrightarrow> list_all P xs \<Longrightarrow> list_all P (x # xs)"
  by simp_all

text \<open>The rules as introduction steps, for the handlers whose conditions would multiply under simplification.\<close>

lemmas minding = minds_simple minds_combinators minds_steps minds_if minds_promise_all minds_perform minds_secureApi
  minds_api minds_uploadApi minds_copyText minds_reload list_all_intros

lemma minds_lift [intro!]: "minds (lift_result r)"
  unfolding lift_result_def by (auto split: sum.split)

text \<open>The dialogs a handler opens are checked with it.\<close>

lemma shows_ok_minds [intro!]:
  "shows_ok minds m \<Longrightarrow> (\<And>v. shows_ok minds (f v)) \<Longrightarrow> shows_ok minds (bnd m f)"
  "shows_ok minds m \<Longrightarrow> (\<And>c. shows_ok minds (h c)) \<Longrightarrow> shows_ok minds (try_catch m h)"
  "shows_ok minds m \<Longrightarrow> shows_ok minds n \<Longrightarrow> shows_ok minds (seqs m n)"
  "shows_ok minds m \<Longrightarrow> shows_ok minds n \<Longrightarrow> shows_ok minds (try_finally m n)"
  "(\<And>m. m \<in> set ms \<Longrightarrow> shows_ok minds m) \<Longrightarrow> shows_ok minds (steps ms)"
  by simp_all

lemma method_of_patch [simp]: "method_of (with_body ''PATCH'' b) = ''PATCH''"
  by (simp add: method_of_def with_body_def; code_simp)

end
