(* ===== verification/Contract_Pages.thy ===== *)
theory Contract_Pages imports Contract Overview_Pages System_Pages Tasks_Page Updates_Page Host_Page Snapshots_Page Ssh_Page Login_Page Security_Page Settings_Page begin

text \<open>
  Every handler of these pages, with the dialogs it opens, minds the gate of the server, and so does every element
  of the pages as rendered. A handler that is given its endpoint does so for any path that is served.
\<close>

subsection \<open>Overview\<close>

lemma Dashboard_loader_gate [simp]: "minds (Dashboard_loader a)" "shows_ok minds (Dashboard_loader a)"
  by (auto simp: Dashboard_loader_def gate_eval intro!: minds_settle)

lemma Dashboard_reload_gate [simp]: "minds (Dashboard_reload a b)" "shows_ok minds (Dashboard_reload a b)"
  by (auto simp: Dashboard_reload_def gate_eval)

lemma Dashboard_view_gate [simp]: "vnode_ok minds (Dashboard_view a b c)"
  by (auto simp: Dashboard_view_def gate_eval)

lemma System_view_gate [simp]: "vnode_ok minds (System_view a b)"
  by (auto simp: System_view_def gate_eval)

subsection \<open>System pages\<close>

lemma Services_loader_gate [simp]: "minds (Services_loader a)" "shows_ok minds (Services_loader a)"
  by (auto simp: Services_loader_def gate_eval)

lemma Services_reload_gate [simp]: "minds (Services_reload a b)" "shows_ok minds (Services_reload a b)"
  by (auto simp: Services_reload_def gate_eval)

lemma Services_act_gate [simp]: "minds (Services_act a b c)" "shows_ok minds (Services_act a b c)"
  by (auto simp: Services_act_def gate_eval)

lemma Services_logs_gate [simp]: "minds (Services_logs a b)" "shows_ok minds (Services_logs a b)"
  by (auto simp: Services_logs_def gate_eval)

lemma Services_view_gate [simp]: "vnode_ok minds (Services_view a b)"
  by (auto simp: Services_view_def gate_eval)

lemma Processes_loader_gate [simp]: "minds (Processes_loader a)" "shows_ok minds (Processes_loader a)"
  by (auto simp: Processes_loader_def gate_eval)

lemma Processes_reload_gate [simp]: "minds (Processes_reload a b)" "shows_ok minds (Processes_reload a b)"
  by (auto simp: Processes_reload_def gate_eval)

lemma Processes_signal_gate [simp]: "minds (Processes_signal a b c)" "shows_ok minds (Processes_signal a b c)"
  by (auto simp: Processes_signal_def gate_eval)

lemma Processes_view_gate [simp]: "vnode_ok minds (Processes_view a b)"
  by (auto simp: Processes_view_def gate_eval)

lemma Network_loader_gate [simp]: "minds (Network_loader a)" "shows_ok minds (Network_loader a)"
  by (auto simp: Network_loader_def gate_eval)

lemma Network_reload_gate [simp]: "minds (Network_reload a b)" "shows_ok minds (Network_reload a b)"
  by (auto simp: Network_reload_def gate_eval)

lemma Network_view_gate [simp]: "vnode_ok minds (Network_view a b)"
  by (auto simp: Network_view_def gate_eval)

lemma Storage_loader_gate [simp]: "minds (Storage_loader a)" "shows_ok minds (Storage_loader a)"
  by (auto simp: Storage_loader_def gate_eval)

lemma Storage_reload_gate [simp]: "minds (Storage_reload a b)" "shows_ok minds (Storage_reload a b)"
  by (auto simp: Storage_reload_def gate_eval)

lemma Storage_view_gate [simp]: "vnode_ok minds (Storage_view a b)"
  by (auto simp: Storage_view_def gate_eval)

subsection \<open>Tasks\<close>

lemma TaskCreateForm_view_gate [simp]: "vnode_ok minds (TaskCreateForm_view a b)"
  by (auto simp: TaskCreateForm_view_def gate_eval)

lemma Tasks_reload_gate [simp]: "minds (Tasks_reload a)" "shows_ok minds (Tasks_reload a)"
  by (auto simp: Tasks_reload_def gate_eval)

lemma Tasks_effect_gate [simp]: "minds (Tasks_effect a)" "shows_ok minds (Tasks_effect a)"
  by (auto simp: Tasks_effect_def gate_eval)

lemma Tasks_createDialog_gate [simp]: "minds (Tasks_createDialog a)" "shows_ok minds (Tasks_createDialog a)"
  by (auto simp: Tasks_createDialog_def gate_eval)

lemma Tasks_act_gate [simp]: "minds (Tasks_act a b c)" "shows_ok minds (Tasks_act a b c)"
  by (auto simp: Tasks_act_def gate_eval)

lemma Tasks_view_gate [simp]: "vnode_ok minds (Tasks_view a b)"
  by (auto simp: Tasks_view_def gate_eval)

subsection \<open>Software\<close>

lemma Updates_reload_gate [simp]: "minds (Updates_reload a)" "shows_ok minds (Updates_reload a)"
  by (auto simp: Updates_reload_def gate_eval)

lemma Updates_effect_gate [simp]: "minds (Updates_effect a)" "shows_ok minds (Updates_effect a)"
  by (auto simp: Updates_effect_def gate_eval)

lemma Updates_find_gate [simp]: "minds (Updates_find a)" "shows_ok minds (Updates_find a)"
  by (auto simp: Updates_find_def gate_eval)

lemma Updates_action_gate [simp]: "minds (Updates_action a b c)" "shows_ok minds (Updates_action a b c)"
  unfolding Updates_action_def Let_def by ((intro minding; simp add: gate_eval), simp)

lemma Updates_sourceAction_gate [simp]: "minds (Updates_sourceAction a b c)" "shows_ok minds (Updates_sourceAction a b c)"
  by (auto simp: Updates_sourceAction_def gate_eval)

lemma Updates_addSource_gate [simp]: "minds (Updates_addSource a)" "shows_ok minds (Updates_addSource a)"
  by (auto simp: Updates_addSource_def gate_eval)

lemma Updates_view_gate [simp]: "vnode_ok minds (Updates_view a b)"
  by (auto simp: Updates_view_def gate_eval)

subsection \<open>Host\<close>

lemma Host_reload_gate [simp]: "minds (Host_reload a)" "shows_ok minds (Host_reload a)"
  by (auto simp: Host_reload_def gate_eval)

lemma Host_effect_gate [simp]: "minds (Host_effect a)" "shows_ok minds (Host_effect a)"
  by (auto simp: Host_effect_def gate_eval)

lemma Host_mutate_gate [simp]: "served_at ''POST'' (''/api/v1/system/host/'' @ b) \<Longrightarrow> minds (Host_mutate a b c d)" "served_at ''POST'' (''/api/v1/system/host/'' @ b) \<Longrightarrow> shows_ok minds (Host_mutate a b c d)"
  by (auto simp: Host_mutate_def gate_eval)

lemma Host_deleteSwap_gate [simp]: "minds (Host_deleteSwap a)" "shows_ok minds (Host_deleteSwap a)"
  by (auto simp: Host_deleteSwap_def gate_eval)

lemma Host_view_gate [simp]: "vnode_ok minds (Host_view a b)"
  by (auto simp: Host_view_def gate_eval)

subsection \<open>Snapshots and backups\<close>

lemma Snapshots_reload_gate [simp]: "minds (Snapshots_reload a)" "shows_ok minds (Snapshots_reload a)"
  by (auto simp: Snapshots_reload_def gate_eval)

lemma Snapshots_effect_gate [simp]: "minds (Snapshots_effect a)" "shows_ok minds (Snapshots_effect a)"
  by (auto simp: Snapshots_effect_def gate_eval)

lemma Snapshots_action_gate [simp]: "minds (Snapshots_action a b c)" "shows_ok minds (Snapshots_action a b c)"
  by (auto simp: Snapshots_action_def gate_eval)

lemma Snapshots_importFile_gate [simp]: "minds (Snapshots_importFile a b)" "shows_ok minds (Snapshots_importFile a b)"
  by (auto simp: Snapshots_importFile_def gate_eval)

lemma Snapshots_createScheduledBackup_gate [simp]: "minds (Snapshots_createScheduledBackup a)" "shows_ok minds (Snapshots_createScheduledBackup a)"
  by (auto simp: Snapshots_createScheduledBackup_def gate_eval)

lemma Snapshots_deleteScheduledBackup_gate [simp]: "minds (Snapshots_deleteScheduledBackup a b)" "shows_ok minds (Snapshots_deleteScheduledBackup a b)"
  by (auto simp: Snapshots_deleteScheduledBackup_def gate_eval)

lemma Snapshots_view_gate [simp]: "vnode_ok minds (Snapshots_view a b c)"
  by (auto simp: Snapshots_view_def gate_eval)

subsection \<open>Tools, audit and SSH\<close>

lemma Tools_run_gate [simp]: "minds (Tools_run a b)" "shows_ok minds (Tools_run a b)"
  by (auto simp: Tools_run_def gate_eval)

lemma Tools_view_gate [simp]: "vnode_ok minds (Tools_view a b)"
  by (auto simp: Tools_view_def gate_eval)

lemma Audit_reload_gate [simp]: "minds (Audit_reload a)" "shows_ok minds (Audit_reload a)"
  by (auto simp: Audit_reload_def gate_eval)

lemma Audit_effect_gate [simp]: "minds (Audit_effect a)" "shows_ok minds (Audit_effect a)"
  by (auto simp: Audit_effect_def gate_eval)

lemma Audit_tick_gate [simp]: "minds (Audit_tick a b)" "shows_ok minds (Audit_tick a b)"
  by (auto simp: Audit_tick_def gate_eval)

lemma Audit_view_gate [simp]: "vnode_ok minds (Audit_view a b c)"
  by (auto simp: Audit_view_def gate_eval)

lemma Ssh_reload_gate [simp]: "minds (Ssh_reload a b)" "shows_ok minds (Ssh_reload a b)"
  by (auto simp: Ssh_reload_def gate_eval)

lemma Ssh_effect_gate [simp]: "minds (Ssh_effect a)" "shows_ok minds (Ssh_effect a)"
  by (auto simp: Ssh_effect_def gate_eval)

lemma Ssh_mutate_gate [simp]: "served_at ''POST'' b \<Longrightarrow> minds (Ssh_mutate a b c d e)" "served_at ''POST'' b \<Longrightarrow> shows_ok minds (Ssh_mutate a b c d e)"
  by (auto simp: Ssh_mutate_def gate_eval)

lemma Ssh_addSubmit_gate [simp]: "minds (Ssh_addSubmit a b)" "shows_ok minds (Ssh_addSubmit a b)"
  by (auto simp: Ssh_addSubmit_def gate_eval)

lemma Ssh_addKey_gate [simp]: "minds (Ssh_addKey a)" "shows_ok minds (Ssh_addKey a)"
  by (auto simp: Ssh_addKey_def gate_eval)

lemma Ssh_generateSubmit_gate [simp]: "minds (Ssh_generateSubmit a b)" "shows_ok minds (Ssh_generateSubmit a b)"
  by (auto simp: Ssh_generateSubmit_def gate_eval)

lemma Ssh_generateKey_gate [simp]: "minds (Ssh_generateKey a)" "shows_ok minds (Ssh_generateKey a)"
  by (auto simp: Ssh_generateKey_def gate_eval)

lemma Ssh_createSubmit_gate [simp]: "minds (Ssh_createSubmit a b)" "shows_ok minds (Ssh_createSubmit a b)"
  by (auto simp: Ssh_createSubmit_def gate_eval)

lemma Ssh_createUser_gate [simp]: "minds (Ssh_createUser a)" "shows_ok minds (Ssh_createUser a)"
  by (auto simp: Ssh_createUser_def gate_eval)

lemma Ssh_saveSettings_gate [simp]: "minds (Ssh_saveSettings a b)" "shows_ok minds (Ssh_saveSettings a b)"
  by (auto simp: Ssh_saveSettings_def gate_eval)

lemma Ssh_settingsCard_gate [simp]: "vnode_ok minds (Ssh_settingsCard a)"
  by (auto simp: Ssh_settingsCard_def gate_eval)

lemma Ssh_switchPassword_gate [simp]: "minds (Ssh_switchPassword a)" "shows_ok minds (Ssh_switchPassword a)"
  by (auto simp: Ssh_switchPassword_def gate_eval)

lemma Ssh_passwordCard_gate [simp]: "vnode_ok minds (Ssh_passwordCard a)"
  by (auto simp: Ssh_passwordCard_def gate_eval)

lemma Ssh_deleteKey_gate [simp]: "minds (Ssh_deleteKey a b)" "shows_ok minds (Ssh_deleteKey a b)"
  by (auto simp: Ssh_deleteKey_def gate_eval)

lemma Ssh_keysCard_gate [simp]: "vnode_ok minds (Ssh_keysCard a)"
  by (auto simp: Ssh_keysCard_def gate_eval)

lemma Ssh_deleteUser_gate [simp]: "minds (Ssh_deleteUser a b)" "shows_ok minds (Ssh_deleteUser a b)"
  by (auto simp: Ssh_deleteUser_def gate_eval)

lemma Ssh_usersCard_gate [simp]: "vnode_ok minds (Ssh_usersCard a)"
  by (auto simp: Ssh_usersCard_def gate_eval)

lemma Ssh_view_gate [simp]: "vnode_ok minds (Ssh_view a b)"
  by (auto simp: Ssh_view_def gate_eval)

subsection \<open>Login\<close>

lemma Login_changeUsername_gate [simp]: "minds (Login_changeUsername a b)" "shows_ok minds (Login_changeUsername a b)"
  by (auto simp: Login_changeUsername_def gate_eval)

lemma Login_changePassword_gate [simp]: "minds (Login_changePassword a b)" "shows_ok minds (Login_changePassword a b)"
  by (auto simp: Login_changePassword_def gate_eval)

lemma Login_submit_gate [simp]: "minds (Login_submit a b)" "shows_ok minds (Login_submit a b)"
  by (auto simp: Login_submit_def gate_eval)

lemma Login_passkey_gate [simp]: "minds (Login_passkey a)" "shows_ok minds (Login_passkey a)"
  by (auto simp: Login_passkey_def gate_eval)

lemma Login_view_gate [simp]: "vnode_ok minds (Login_view a b)"
  by (auto simp: Login_view_def gate_eval)

subsection \<open>Security\<close>

lemma Security_reload_gate [simp]: "minds (Security_reload a)" "shows_ok minds (Security_reload a)"
  by (auto simp: Security_reload_def gate_eval)

lemma Security_effect_gate [simp]: "minds (Security_effect a)" "shows_ok minds (Security_effect a)"
  by (auto simp: Security_effect_def gate_eval)

lemma Security_securityAction_gate [simp]: "served_at ''POST'' (''/api/v1/security/'' @ b) \<Longrightarrow> minds (Security_securityAction a b c d)" "served_at ''POST'' (''/api/v1/security/'' @ b) \<Longrightarrow> shows_ok minds (Security_securityAction a b c d)"
  by (auto simp: Security_securityAction_def gate_eval)

lemma Security_addRule_gate [simp]: "minds (Security_addRule a b)" "shows_ok minds (Security_addRule a b)"
  by (auto simp: Security_addRule_def gate_eval)

lemma Security_deleteRule_gate [simp]: "minds (Security_deleteRule a b)" "shows_ok minds (Security_deleteRule a b)"
  by (auto simp: Security_deleteRule_def gate_eval)

lemma Security_saveAllowlist_gate [simp]: "minds (Security_saveAllowlist a)" "shows_ok minds (Security_saveAllowlist a)"
  by (auto simp: Security_saveAllowlist_def gate_eval)

lemma Security_saveNotifications_gate [simp]: "minds (Security_saveNotifications a b)" "shows_ok minds (Security_saveNotifications a b)"
  by (auto simp: Security_saveNotifications_def gate_eval)

lemma Security_runCheck_gate [simp]: "minds (Security_runCheck a b)" "shows_ok minds (Security_runCheck a b)"
  by (auto simp: Security_runCheck_def gate_eval)

lemma Security_scoreCard_gate [simp]: "vnode_ok minds (Security_scoreCard a)"
  by (auto simp: Security_scoreCard_def gate_eval)

lemma Security_checkGrid_gate [simp]: "vnode_ok minds (Security_checkGrid a)"
  by (auto simp: Security_checkGrid_def gate_eval)

lemma Security_disableFirewall_gate [simp]: "minds (Security_disableFirewall a)" "shows_ok minds (Security_disableFirewall a)"
  by (auto simp: Security_disableFirewall_def gate_eval)

lemma Security_firewallCard_gate [simp]: "vnode_ok minds (Security_firewallCard a)"
  by (auto simp: Security_firewallCard_def gate_eval)

lemma Security_ruleForm_gate [simp]: "vnode_ok minds (Security_ruleForm a)"
  by (auto simp: Security_ruleForm_def gate_eval)

lemma Security_ruleList_gate [simp]: "vnode_ok minds (Security_ruleList a)"
  by (auto simp: Security_ruleList_def gate_eval)

lemma Security_ignoreSubmit_gate [simp]: "minds (Security_ignoreSubmit a)" "shows_ok minds (Security_ignoreSubmit a)"
  by (auto simp: Security_ignoreSubmit_def gate_eval)

lemma Security_jailLists_gate [simp]: "vnode_ok minds (Security_jailLists a)"
  by (auto simp: Security_jailLists_def gate_eval)

lemma Security_allowlistCard_gate [simp]: "vnode_ok minds (Security_allowlistCard a)"
  by (auto simp: Security_allowlistCard_def gate_eval)

lemma Security_notificationCard_gate [simp]: "vnode_ok minds (Security_notificationCard a)"
  by (auto simp: Security_notificationCard_def gate_eval)

lemma Security_view_gate [simp]: "vnode_ok minds (Security_view a b)"
  by (auto simp: Security_view_def gate_eval)

subsection \<open>Settings\<close>

lemma Settings_reload_gate [simp]: "minds (Settings_reload a)" "shows_ok minds (Settings_reload a)"
  by (auto simp: Settings_reload_def gate_eval)

lemma Settings_effect_gate [simp]: "minds (Settings_effect a)" "shows_ok minds (Settings_effect a)"
  by (auto simp: Settings_effect_def gate_eval)

lemma Settings_run_gate [simp, intro!]: "(minds c) \<Longrightarrow> minds (Settings_run a b c)" "(minds c) \<Longrightarrow> (shows_ok minds c) \<Longrightarrow> shows_ok minds (Settings_run a b c)"
  by (auto simp: Settings_run_def gate_eval)

lemma Settings_recoveryModal_gate [simp]: "minds (Settings_recoveryModal a b)" "shows_ok minds (Settings_recoveryModal a b)"
  by (auto simp: Settings_recoveryModal_def gate_eval)

lemma Settings_totpSubmit_gate [simp]: "minds (Settings_totpSubmit a b c)" "shows_ok minds (Settings_totpSubmit a b c)"
  by (auto simp: Settings_totpSubmit_def gate_eval)

lemma Settings_beginTotp_gate [simp]: "minds (Settings_beginTotp a)" "shows_ok minds (Settings_beginTotp a)"
  by (auto simp: Settings_beginTotp_def gate_eval)

lemma Settings_codeAction_gate [simp]: "served_at ''POST'' d \<Longrightarrow> minds (Settings_codeAction a b c d e f)" "served_at ''POST'' d \<Longrightarrow> shows_ok minds (Settings_codeAction a b c d e f)"
  by (auto simp: Settings_codeAction_def gate_eval)

lemma Settings_registerPasskey_gate [simp]: "minds (Settings_registerPasskey a)" "shows_ok minds (Settings_registerPasskey a)"
  by (auto simp: Settings_registerPasskey_def gate_eval)

lemma Settings_upgradeSubmit_gate [simp]: "minds (Settings_upgradeSubmit a b)" "shows_ok minds (Settings_upgradeSubmit a b)"
  by (auto simp: Settings_upgradeSubmit_def gate_eval)

lemma Settings_upgradePasswordProtection_gate [simp]: "minds (Settings_upgradePasswordProtection a)" "shows_ok minds (Settings_upgradePasswordProtection a)"
  by (auto simp: Settings_upgradePasswordProtection_def gate_eval)

lemma Settings_accountSubmit_gate [simp]: "minds (Settings_accountSubmit a)" "shows_ok minds (Settings_accountSubmit a)"
  by (auto simp: Settings_accountSubmit_def gate_eval)

lemma Settings_accountCard_gate [simp]: "vnode_ok minds (Settings_accountCard a)"
  by (auto simp: Settings_accountCard_def gate_eval)

lemma Settings_passwordSubmit_gate [simp]: "minds (Settings_passwordSubmit a)" "shows_ok minds (Settings_passwordSubmit a)"
  by (auto simp: Settings_passwordSubmit_def gate_eval)

lemma Settings_passwordCard_gate [simp]: "vnode_ok minds (Settings_passwordCard a)"
  by (auto simp: Settings_passwordCard_def gate_eval)

lemma Settings_totpCard_gate [simp]: "vnode_ok minds (Settings_totpCard a)"
  by (auto simp: Settings_totpCard_def gate_eval)

lemma Settings_prefsSubmit_gate [simp]: "minds (Settings_prefsSubmit a)" "shows_ok minds (Settings_prefsSubmit a)"
  by (auto simp: Settings_prefsSubmit_def gate_eval)

lemma Settings_cryptoList_gate [simp]: "vnode_ok minds (Settings_cryptoList a)"
  by (auto simp: Settings_cryptoList_def gate_eval)

lemma Settings_prefsCard_gate [simp]: "vnode_ok minds (Settings_prefsCard a)"
  by (auto simp: Settings_prefsCard_def gate_eval)

lemma Settings_deletePasskey_gate [simp]: "minds (Settings_deletePasskey a b)" "shows_ok minds (Settings_deletePasskey a b)"
  by (auto simp: Settings_deletePasskey_def gate_eval)

lemma Settings_passkeyCard_gate [simp]: "vnode_ok minds (Settings_passkeyCard a b)"
  by (auto simp: Settings_passkeyCard_def gate_eval)

lemma Settings_revokeSessions_gate [simp]: "minds (Settings_revokeSessions a)" "shows_ok minds (Settings_revokeSessions a)"
  by (auto simp: Settings_revokeSessions_def gate_eval)

lemma Settings_sessionsCard_gate [simp]: "vnode_ok minds (Settings_sessionsCard a b)"
  by (auto simp: Settings_sessionsCard_def gate_eval)

lemma Settings_authRulesCard_gate [simp]: "vnode_ok minds (Settings_authRulesCard a)"
  by (auto simp: Settings_authRulesCard_def gate_eval)

lemma Settings_view_gate [simp]: "vnode_ok minds (Settings_view a b c)"
  by (auto simp: Settings_view_def gate_eval)

end
