(* ===== verification/Contract_Large.thy ===== *)
theory Contract_Large imports Contract Docker_Page Files_Page Github_Page begin

text \<open>
  The same as \<open>Contract_Pages\<close>, for the pages of the containers, of the files and of GitHub.
\<close>

subsection \<open>Containers\<close>

lemma ComposeEditor_submit_gate [simp]: "minds (ComposeEditor_submit a b)" "shows_ok minds (ComposeEditor_submit a b)"
  by (auto simp: ComposeEditor_submit_def gate_eval)

lemma ComposeEditor_view_gate [simp]: "vnode_ok minds (ComposeEditor_view a b)"
  by (auto simp: ComposeEditor_view_def gate_eval)

lemma DockerImage_submit_gate [simp]: "minds (DockerImage_submit a b)" "shows_ok minds (DockerImage_submit a b)"
  by (auto simp: DockerImage_submit_def gate_eval)

lemma DockerImage_view_gate [simp]: "vnode_ok minds (DockerImage_view a b)"
  by (auto simp: DockerImage_view_def gate_eval)

lemma Docker_stats_gate [simp]: "minds (Docker_stats a)" "shows_ok minds (Docker_stats a)"
  by (auto simp: Docker_stats_def gate_eval)

lemma Docker_reload_gate [simp]: "minds (Docker_reload a)" "shows_ok minds (Docker_reload a)"
  by (auto simp: Docker_reload_def gate_eval)

lemma Docker_effect_gate [simp]: "minds (Docker_effect a)" "shows_ok minds (Docker_effect a)"
  by (auto simp: Docker_effect_def gate_eval)

lemma Docker_tick_gate [simp]: "minds (Docker_tick a b)" "shows_ok minds (Docker_tick a b)"
  by (auto simp: Docker_tick_def gate_eval)

lemma Docker_mutate_gate [simp]: "served_at ''POST'' b \<Longrightarrow> minds (Docker_mutate a b c d)" "served_at ''POST'' b \<Longrightarrow> shows_ok minds (Docker_mutate a b c d)"
  by (auto simp: Docker_mutate_def gate_eval)

lemma Docker_containerAction_gate [simp]: "minds (Docker_containerAction a b c)" "shows_ok minds (Docker_containerAction a b c)"
  by (auto simp: Docker_containerAction_def gate_eval)

lemma Docker_showLogs_gate [simp]: "minds (Docker_showLogs a b)" "shows_ok minds (Docker_showLogs a b)"
  by (auto simp: Docker_showLogs_def gate_eval)

lemma Docker_diagnosticSubmit_gate [simp]: "minds (Docker_diagnosticSubmit a b c)" "shows_ok minds (Docker_diagnosticSubmit a b c)"
  by (auto simp: Docker_diagnosticSubmit_def gate_eval)

lemma Docker_runDiagnostic_gate [simp]: "minds (Docker_runDiagnostic a b)" "shows_ok minds (Docker_runDiagnostic a b)"
  by (auto simp: Docker_runDiagnostic_def gate_eval)

lemma Docker_editSubmit_gate [simp]: "minds (Docker_editSubmit a b c d)" "shows_ok minds (Docker_editSubmit a b c d)"
  by (auto simp: Docker_editSubmit_def gate_eval)

lemma Docker_editContainer_gate [simp]: "minds (Docker_editContainer a b)" "shows_ok minds (Docker_editContainer a b)"
  by (auto simp: Docker_editContainer_def gate_eval)

lemma Docker_composeAction_gate [simp]: "minds (Docker_composeAction a b c)" "shows_ok minds (Docker_composeAction a b c)"
  by (auto simp: Docker_composeAction_def gate_eval)

lemma Docker_editCompose_gate [simp]: "minds (Docker_editCompose a b)" "shows_ok minds (Docker_editCompose a b)"
  by (auto simp: Docker_editCompose_def gate_eval)

lemma Docker_createSubmit_gate [simp]: "minds (Docker_createSubmit a b)" "shows_ok minds (Docker_createSubmit a b)"
  by (auto simp: Docker_createSubmit_def gate_eval)

lemma Docker_createCompose_gate [simp]: "minds (Docker_createCompose a)" "shows_ok minds (Docker_createCompose a)"
  by (auto simp: Docker_createCompose_def gate_eval)

lemma Docker_imageDialog_gate [simp]: "minds (Docker_imageDialog a)" "shows_ok minds (Docker_imageDialog a)"
  by (auto simp: Docker_imageDialog_def gate_eval)

lemma Docker_resourceSubmit_gate [simp]: "minds (Docker_resourceSubmit a b c)" "shows_ok minds (Docker_resourceSubmit a b c)"
  by (auto simp: Docker_resourceSubmit_def gate_eval)

lemma Docker_createResource_gate [simp]: "minds (Docker_createResource a b)" "shows_ok minds (Docker_createResource a b)"
  by (auto simp: Docker_createResource_def gate_eval)

lemma Docker_volumeSubmit_gate [simp]: "minds (Docker_volumeSubmit a b)" "shows_ok minds (Docker_volumeSubmit a b)"
  by (auto simp: Docker_volumeSubmit_def gate_eval)

lemma Docker_volumeTools_gate [simp]: "minds (Docker_volumeTools a b)" "shows_ok minds (Docker_volumeTools a b)"
  by (auto simp: Docker_volumeTools_def gate_eval)

lemma Docker_cleanupSubmit_gate [simp]: "minds (Docker_cleanupSubmit a b)" "shows_ok minds (Docker_cleanupSubmit a b)"
  by (auto simp: Docker_cleanupSubmit_def gate_eval)

lemma Docker_cleanup_gate [simp]: "minds (Docker_cleanup a)" "shows_ok minds (Docker_cleanup a)"
  by (auto simp: Docker_cleanup_def gate_eval)

lemma Docker_containerCard_gate [simp]: "vnode_ok minds (Docker_containerCard a b c d)"
  by (auto simp: Docker_containerCard_def gate_eval)

lemma Docker_projectCard_gate [simp]: "vnode_ok minds (Docker_projectCard a b)"
  by (auto simp: Docker_projectCard_def gate_eval)

lemma Docker_imageGrid_gate [simp]: "vnode_ok minds (Docker_imageGrid a b)"
  by (auto simp: Docker_imageGrid_def gate_eval)

lemma Docker_networkGrid_gate [simp]: "vnode_ok minds (Docker_networkGrid a)"
  by (auto simp: Docker_networkGrid_def gate_eval)

lemma Docker_volumeGrid_gate [simp]: "vnode_ok minds (Docker_volumeGrid a)"
  by (auto simp: Docker_volumeGrid_def gate_eval)

lemma Docker_view_gate [simp]: "vnode_ok minds (Docker_view a b c)"
  by (auto simp: Docker_view_def gate_eval)

subsection \<open>Files\<close>

lemma Files_load_gate [simp]: "minds (Files_load a b)" "shows_ok minds (Files_load a b)"
  by (auto simp: Files_load_def gate_eval)

lemma Files_loadRecycle_gate [simp]: "minds (Files_loadRecycle a)" "shows_ok minds (Files_loadRecycle a)"
  by (auto simp: Files_loadRecycle_def gate_eval)

lemma Files_effect_gate [simp]: "minds (Files_effect a)" "shows_ok minds (Files_effect a)"
  by (auto simp: Files_effect_def gate_eval)

lemma Files_switchMode_gate [simp]: "minds (Files_switchMode a b)" "shows_ok minds (Files_switchMode a b)"
  by (auto simp: Files_switchMode_def gate_eval)

lemma Files_mutate_gate [simp]: "served_at ''POST'' b \<Longrightarrow> minds (Files_mutate a b c d)" "served_at ''POST'' b \<Longrightarrow> shows_ok minds (Files_mutate a b c d)"
  unfolding Files_mutate_def Let_def by ((intro minding; simp add: gate_eval), simp)

lemma Files_restoreCompared_gate [simp]: "minds (Files_restoreCompared a b c d)" "shows_ok minds (Files_restoreCompared a b c d)"
  by (auto simp: Files_restoreCompared_def gate_eval)

lemma Files_compareVersion_gate [simp]: "minds (Files_compareVersion a b c d)" "shows_ok minds (Files_compareVersion a b c d)"
  by (auto simp: Files_compareVersion_def gate_eval)

lemma Files_restoreVersion_gate [simp]: "minds (Files_restoreVersion a b c d)" "shows_ok minds (Files_restoreVersion a b c d)"
  by (auto simp: Files_restoreVersion_def gate_eval)

lemma Files_showHistory_gate [simp]: "minds (Files_showHistory a b c)" "shows_ok minds (Files_showHistory a b c)"
  by (auto simp: Files_showHistory_def gate_eval)

lemma Files_saveContent_gate [simp]: "minds (Files_saveContent a b c)" "shows_ok minds (Files_saveContent a b c)"
  by (auto simp: Files_saveContent_def gate_eval)

lemma Files_openEditor_gate [simp]: "minds (Files_openEditor a b c)" "shows_ok minds (Files_openEditor a b c)"
  by (auto simp: Files_openEditor_def gate_eval)

lemma Files_downloadEntry_gate [simp]: "minds (Files_downloadEntry a b)" "shows_ok minds (Files_downloadEntry a b)"
  by (auto simp: Files_downloadEntry_def gate_eval)

lemma Files_openEntry_gate [simp]: "minds (Files_openEntry a b c)" "shows_ok minds (Files_openEntry a b c)"
  by (auto simp: Files_openEntry_def gate_eval)

lemma Files_promptSubmit_gate [simp]: "served_at ''POST'' b \<Longrightarrow> minds (Files_promptSubmit a b c d e f)" "served_at ''POST'' b \<Longrightarrow> shows_ok minds (Files_promptSubmit a b c d e f)"
  by (auto simp: Files_promptSubmit_def gate_eval)

lemma Files_promptMutation_gate [simp]: "served_at ''POST'' e \<Longrightarrow> minds (Files_promptMutation a b c d e f g h)" "served_at ''POST'' e \<Longrightarrow> shows_ok minds (Files_promptMutation a b c d e f g h)"
  by (auto simp: Files_promptMutation_def gate_eval)

lemma Files_createEntry_gate [simp]: "minds (Files_createEntry a b)" "shows_ok minds (Files_createEntry a b)"
  by (auto simp: Files_createEntry_def gate_eval)

lemma Files_chownSubmit_gate [simp]: "minds (Files_chownSubmit a b c)" "shows_ok minds (Files_chownSubmit a b c)"
  by (auto simp: Files_chownSubmit_def gate_eval)

lemma Files_trashEntry_gate [simp]: "minds (Files_trashEntry a b)" "shows_ok minds (Files_trashEntry a b)"
  by (auto simp: Files_trashEntry_def gate_eval)

lemma Files_actionMenu_gate [simp]: "minds (Files_actionMenu a b c)" "shows_ok minds (Files_actionMenu a b c)"
  by (auto simp: Files_actionMenu_def gate_eval)

lemma Files_toggleFavorite_gate [simp]: "minds (Files_toggleFavorite a b)" "shows_ok minds (Files_toggleFavorite a b)"
  by (auto simp: Files_toggleFavorite_def gate_eval)

lemma Files_cancelUpload_gate [simp]: "minds (Files_cancelUpload)" "shows_ok minds (Files_cancelUpload)"
  by (auto simp: Files_cancelUpload_def gate_eval split: option.split list.split)

lemma Files_uploadFailed_gate [simp]: "minds (Files_uploadFailed a b c d)" "shows_ok minds (Files_uploadFailed a b c d)"
  by (auto simp: Files_uploadFailed_def gate_eval)

lemma Files_uploadArchive_gate [simp]: "minds (Files_uploadArchive a b)" "shows_ok minds (Files_uploadArchive a b)"
  by (auto simp: Files_uploadArchive_def gate_eval)

lemma Files_uploadEach_gate [simp]: "minds (Files_uploadEach st n k files)" "shows_ok minds (Files_uploadEach st n k files)"
 by (induction files arbitrary: k) (auto simp: gate_eval split: sum.split intro!: minds_settle shows_ok_settle)

lemma Files_upload_gate [simp]: "minds (Files_upload a b c)" "shows_ok minds (Files_upload a b c)"
  by (auto simp: Files_upload_def gate_eval)

lemma Files_searchSubmit_gate [simp]: "minds (Files_searchSubmit a b c)" "shows_ok minds (Files_searchSubmit a b c)"
  by (auto simp: Files_searchSubmit_def gate_eval)

lemma Files_searchAll_gate [simp]: "minds (Files_searchAll a b)" "shows_ok minds (Files_searchAll a b)"
  by (auto simp: Files_searchAll_def gate_eval)

lemma Files_recycleAction_gate [simp]: "minds (Files_recycleAction a b c)" "shows_ok minds (Files_recycleAction a b c)"
  by (auto simp: Files_recycleAction_def gate_eval)

lemma Files_view_gate [simp]: "vnode_ok minds (Files_view a b c)"
  by (auto simp: Files_view_def gate_eval)

lemma FileEditor_close_gate [simp]: "minds (FileEditor_close a)" "shows_ok minds (FileEditor_close a)"
  by (auto simp: FileEditor_close_def gate_eval)

lemma FileEditor_history_gate [simp]: "minds (FileEditor_history a)" "shows_ok minds (FileEditor_history a)"
  by (auto simp: FileEditor_history_def gate_eval)

lemma FileEditor_save_gate [simp]: "minds (FileEditor_save a)" "shows_ok minds (FileEditor_save a)"
  by (auto simp: FileEditor_save_def gate_eval)

lemma FileEditor_view_gate [simp]: "vnode_ok minds (FileEditor_view a b)"
  by (auto simp: FileEditor_view_def gate_eval)

subsection \<open>GitHub\<close>

lemma Assets_abort_gate [simp]: "minds (Assets_abort)" "shows_ok minds (Assets_abort)"
  by (auto simp: Assets_abort_def gate_eval split: option.split list.split)

lemma Assets_load_gate [simp]: "minds (Assets_load a)" "shows_ok minds (Assets_load a)"
  by (auto simp: Assets_load_def gate_eval)

lemma Assets_effect_gate [simp]: "minds (Assets_effect a)" "shows_ok minds (Assets_effect a)"
  by (auto simp: Assets_effect_def gate_eval)

lemma Assets_upload_gate [simp]: "minds (Assets_upload a b)" "shows_ok minds (Assets_upload a b)"
  by (auto simp: Assets_upload_def gate_eval split: option.split list.split)

lemma Assets_view_gate [simp]: "vnode_ok minds (Assets_view a b c)"
  by (auto simp: Assets_view_def gate_eval)

lemma Assets_leave_gate [simp]: "minds (Assets_leave)" "shows_ok minds (Assets_leave)"
  by (auto simp: Assets_leave_def gate_eval)

lemma Github_abort_gate [simp]: "minds (Github_abort)" "shows_ok minds (Github_abort)"
  by (auto simp: Github_abort_def gate_eval split: option.split list.split)

lemma Github_setTimeout_gate [simp]: "minds (Github_setTimeout a b)" "shows_ok minds (Github_setTimeout a b)"
  by (auto simp: Github_setTimeout_def gate_eval)

lemma Github_clearTimeout_gate [simp]: "minds (Github_clearTimeout)" "shows_ok minds (Github_clearTimeout)"
  by (auto simp: Github_clearTimeout_def gate_eval)

lemma Github_loadAuth_gate [simp]: "minds (Github_loadAuth a)" "shows_ok minds (Github_loadAuth a)"
  by (auto simp: Github_loadAuth_def gate_eval)

lemma Github_loadRepo_gate [simp]: "minds (Github_loadRepo a)" "shows_ok minds (Github_loadRepo a)"
  by (auto simp: Github_loadRepo_def gate_eval)

lemma Github_chooseRepository_gate [simp]: "minds (Github_chooseRepository a b)" "shows_ok minds (Github_chooseRepository a b)"
  by (auto simp: Github_chooseRepository_def gate_eval)

lemma Github_reload_gate [simp]: "minds (Github_reload a)" "shows_ok minds (Github_reload a)"
  by (auto simp: Github_reload_def gate_eval)

lemma Github_effect_gate [simp]: "minds (Github_effect a)" "shows_ok minds (Github_effect a)"
  by (auto simp: Github_effect_def gate_eval)

lemma Github_connectSubmit_gate [simp]: "minds (Github_connectSubmit a b)" "shows_ok minds (Github_connectSubmit a b)"
  by (auto simp: Github_connectSubmit_def gate_eval)

lemma Github_connectToken_gate [simp]: "minds (Github_connectToken a)" "shows_ok minds (Github_connectToken a)"
  by (auto simp: Github_connectToken_def gate_eval)

lemma Github_pollDevice_gate [simp]: "minds (Github_pollDevice a b)" "shows_ok minds (Github_pollDevice a b)"
  by (auto simp: Github_pollDevice_def gate_eval)

lemma Github_startDevice_gate [simp]: "minds (Github_startDevice a)" "shows_ok minds (Github_startDevice a)"
  by (auto simp: Github_startDevice_def gate_eval)

lemma Github_disconnect_gate [simp]: "minds (Github_disconnect a)" "shows_ok minds (Github_disconnect a)"
  by (auto simp: Github_disconnect_def gate_eval)

lemma Github_repoMutation_gate [simp]: "served_at ''POST'' b \<Longrightarrow> minds (Github_repoMutation a b c d)" "served_at ''POST'' b \<Longrightarrow> shows_ok minds (Github_repoMutation a b c d)"
  by (auto simp: Github_repoMutation_def gate_eval)

lemma Github_simpleForm_gate [simp, intro!]: "(\<And>v. minds (d v)) \<Longrightarrow> minds (Github_simpleForm a b c d e)" "(\<And>v. minds (d v)) \<Longrightarrow> (\<And>v. shows_ok minds (d v)) \<Longrightarrow> shows_ok minds (Github_simpleForm a b c d e)"
  by (auto simp: Github_simpleForm_def gate_eval)

lemma Github_jobLogs_gate [simp]: "minds (Github_jobLogs a b)" "shows_ok minds (Github_jobLogs a b)"
  by (auto simp: Github_jobLogs_def gate_eval)

lemma Github_openRun_gate [simp]: "minds (Github_openRun a b c)" "shows_ok minds (Github_openRun a b c)"
  by (auto simp: Github_openRun_def gate_eval)

lemma Github_previewImport_gate [simp]: "minds (Github_previewImport a b)" "shows_ok minds (Github_previewImport a b)"
  by (auto simp: Github_previewImport_def gate_eval split: option.split list.split)

lemma Github_commitImport_gate [simp]: "minds (Github_commitImport a)" "shows_ok minds (Github_commitImport a)"
  by (auto simp: Github_commitImport_def gate_eval)

lemma Github_openAssets_gate [simp]: "minds (Github_openAssets a)" "shows_ok minds (Github_openAssets a)"
  by (auto simp: Github_openAssets_def gate_eval)

lemma Github_cancelDevice_gate [simp]: "minds (Github_cancelDevice a)" "shows_ok minds (Github_cancelDevice a)"
  by (auto simp: Github_cancelDevice_def gate_eval)

lemma Github_deviceCard_gate [simp]: "vnode_ok minds (Github_deviceCard a)"
  by (auto simp: Github_deviceCard_def gate_eval)

lemma Github_authCard_gate [simp]: "vnode_ok minds (Github_authCard a)"
  by (auto simp: Github_authCard_def gate_eval)

lemma Github_repoCard_gate [simp]: "vnode_ok minds (Github_repoCard a)"
  by (auto simp: Github_repoCard_def gate_eval)

lemma Github_summaryCard_gate [simp]: "vnode_ok minds (Github_summaryCard a)"
  by (auto simp: Github_summaryCard_def gate_eval)

lemma Github_actionsCard_gate [simp]: "vnode_ok minds (Github_actionsCard a b)"
  by (auto simp: Github_actionsCard_def gate_eval)

lemma Github_mergeSubmit_gate [simp]: "minds (Github_mergeSubmit a b c)" "shows_ok minds (Github_mergeSubmit a b c)"
  by (auto simp: Github_mergeSubmit_def gate_eval)

lemma Github_pullsCard_gate [simp]: "vnode_ok minds (Github_pullsCard a)"
  by (auto simp: Github_pullsCard_def gate_eval)

lemma Github_branchSubmit_gate [simp]: "minds (Github_branchSubmit a b)" "shows_ok minds (Github_branchSubmit a b)"
  by (auto simp: Github_branchSubmit_def gate_eval)

lemma Github_tagSubmit_gate [simp]: "minds (Github_tagSubmit a b)" "shows_ok minds (Github_tagSubmit a b)"
  by (auto simp: Github_tagSubmit_def gate_eval)

lemma Github_pullSubmit_gate [simp]: "minds (Github_pullSubmit a b)" "shows_ok minds (Github_pullSubmit a b)"
  by (auto simp: Github_pullSubmit_def gate_eval)

lemma Github_releaseSubmit_gate [simp]: "minds (Github_releaseSubmit a b)" "shows_ok minds (Github_releaseSubmit a b)"
  by (auto simp: Github_releaseSubmit_def gate_eval)

lemma Github_createCards_gate [simp]: "vnode_ok minds (Github_createCards a)"
  by (auto simp: Github_createCards_def gate_eval)

lemma Github_importCard_gate [simp]: "vnode_ok minds (Github_importCard a)"
  by (auto simp: Github_importCard_def gate_eval)

lemma Github_view_gate [simp]: "vnode_ok minds (Github_view a b c)"
  by (auto simp: Github_view_def gate_eval)

lemma Github_fire_gate [simp]: "minds (Github_fire a b)" "shows_ok minds (Github_fire a b)"
  by (auto simp: Github_fire_def gate_eval split: option.split list.split)

lemma Github_leave_gate [simp]: "minds (Github_leave)" "shows_ok minds (Github_leave)"
  by (auto simp: Github_leave_def gate_eval)

end
