(* ===== verification/Panel_Contract.thy ===== *)
theory Panel_Contract imports Contract_Pages Contract_Large Shell begin

text \<open>
  The contract between the panel and its server, over every page: what the panel asks for is served, and the demand
  for a second authentication is met where the user is. \<open>panel_trace\<close> collects the runs of all programs of the
  panel; the event lists of \<open>run\<close> do not depend on the state of a page, so the pages can be put together.
\<close>

subsection \<open>Everything the panel runs\<close>

text \<open>A run of a program a page offers, or of one of its programs \<open>extra\<close> that nobody clicks: the effects on
  mounting it and its timers. \<open>done\<close> tells whether the run is over.\<close>

inductive page_trace :: "('s \<Rightarrow> 's vnode) \<Rightarrow> 's io set \<Rightarrow> event list \<Rightarrow> bool \<Rightarrow> bool" for view extra where
  clicked: "offered view m \<Longrightarrow> run m as s = (tr, out, s') \<Longrightarrow> legal tr \<Longrightarrow> page_trace view extra tr (out \<noteq> Suspended)"
| started: "m \<in> extra \<Longrightarrow> run m as s = (tr, out, s') \<Longrightarrow> legal tr \<Longrightarrow> page_trace view extra tr (out \<noteq> Suspended)"

inductive panel_trace :: "event list \<Rightarrow> bool \<Rightarrow> bool" where
  dashboard: "page_trace (Dashboard_view loc route) {Dashboard_reload st silent} tr d \<Longrightarrow> panel_trace tr d"
| system: "page_trace (System_view route) {} tr d \<Longrightarrow> panel_trace tr d"
| services: "page_trace (Services_view route) {Services_reload st silent} tr d \<Longrightarrow> panel_trace tr d"
| processes: "page_trace (Processes_view route) {Processes_reload st silent} tr d \<Longrightarrow> panel_trace tr d"
| network: "page_trace (Network_view route) {Network_reload st silent} tr d \<Longrightarrow> panel_trace tr d"
| storage: "page_trace (Storage_view route) {Storage_reload st silent} tr d \<Longrightarrow> panel_trace tr d"
| tasks: "page_trace (Tasks_view route) {Tasks_effect st} tr d \<Longrightarrow> panel_trace tr d"
| task_form: "page_trace (TaskCreateForm_view route) {} tr d \<Longrightarrow> panel_trace tr d"
| updates: "page_trace (Updates_view route) {Updates_effect st} tr d \<Longrightarrow> panel_trace tr d"
| host: "page_trace (Host_view route) {Host_effect st} tr d \<Longrightarrow> panel_trace tr d"
| snapshots: "page_trace (Snapshots_view loc route) {Snapshots_effect st} tr d \<Longrightarrow> panel_trace tr d"
| docker: "page_trace (Docker_view loc route) {Docker_effect st, Docker_tick hidden st} tr d \<Longrightarrow> panel_trace tr d"
| docker_image: "page_trace (DockerImage_view route) {} tr d \<Longrightarrow> panel_trace tr d"
| compose: "page_trace (ComposeEditor_view route) {} tr d \<Longrightarrow> panel_trace tr d"
| files: "page_trace (Files_view loc route) {Files_effect st} tr d \<Longrightarrow> panel_trace tr d"
| editor: "page_trace (FileEditor_view route) {} tr d \<Longrightarrow> panel_trace tr d"
| tools: "page_trace (Tools_view route) {} tr d \<Longrightarrow> panel_trace tr d"
| audit: "page_trace (Audit_view loc route) {Audit_effect st, Audit_tick hidden st} tr d \<Longrightarrow> panel_trace tr d"
| ssh: "page_trace (Ssh_view route) {Ssh_effect st} tr d \<Longrightarrow> panel_trace tr d"
| github: "page_trace (Github_view loc route) {Github_effect st, Github_fire st n} tr d \<Longrightarrow> panel_trace tr d"
| assets: "page_trace (Assets_view loc route) {Assets_effect st} tr d \<Longrightarrow> panel_trace tr d"
| login: "page_trace (Login_view route) {} tr d \<Longrightarrow> panel_trace tr d"
| security: "page_trace (Security_view route) {Security_effect st} tr d \<Longrightarrow> panel_trace tr d"
| settings: "page_trace (Settings_view loc route) {Settings_effect st} tr d \<Longrightarrow> panel_trace tr d"
| shell_programs: "run m as s = (tr, out, s') \<Longrightarrow> legal tr \<Longrightarrow>
    m \<in> {shell_boot, elevation_submit ev, upgrade_submit key ev, shell_logout path} \<Longrightarrow> panel_trace tr (out \<noteq> Suspended)"

subsection \<open>What minding the gate means for a trace\<close>

text \<open>The last thing that happened, latest first, is a second authentication that succeeded: the request that
  follows is a repetition.\<close>

fun repeating :: "(eff \<times> answer) list \<Rightarrow> bool" where
  "repeating ((Elevate, AVal v) # h) = True"
| "repeating ((Read_csrf, a) # h) = repeating h"
| "repeating h = False"

text \<open>A request together with its method and path.\<close>

fun asks_for :: "eff \<Rightarrow> (string \<times> string) option" where
  "asks_for (Fetch r) = Some (req_method r, req_url r)"
| "asks_for (Upload u f n) = Some (''POST'', u)"
| "asks_for e = None"

definition elevation_refusal :: "eff \<Rightarrow> answer \<Rightarrow> bool" where
  "elevation_refusal e a = (turned_away a \<and> (case e of Fetch r \<Rightarrow> (\<exists>p. a = AResp p) | _ \<Rightarrow> True))"

definition gate_kept :: "event list \<Rightarrow> bool \<Rightarrow> bool" where
  "gate_kept tr d \<longleftrightarrow>
     (\<forall>e a m url. Did e a \<in> set tr \<and> asks_for e = Some (m, url) \<longrightarrow> served_at m url) \<and>
     (\<forall>pre e a post m url. dids tr = pre @ (e, a) # post \<and> asks_for e = Some (m, url) \<and> demands_at m url \<and>
        elevation_refusal e a \<and> \<not> repeating (rev pre) \<longrightarrow>
        (case post of [] \<Rightarrow> \<not> d | (e', a') # _ \<Rightarrow> e' = Has_elevation))"

lemma ghost_dids: "ghost gate_upd g tr = foldl (\<lambda>g (e, a). gate_upd g e a) g (dids tr)"
  by (induction tr arbitrary: g) (auto simp: ghost_def dids_def split: event.split)

lemma repeating_ghost:
  "foldl (\<lambda>g (e, a). gate_upd g e a) Calm h = Repeating \<Longrightarrow> repeating (rev h)"
proof (induction h rule: rev_induct)
  case (snoc x h)
  obtain e a where x: "x = (e, a)" by (cases x)
  show ?case
    using snoc by (cases e) (auto simp: x split: if_splits answer.splits)
qed simp

lemma dids_split:
  "dids tr = ps @ (e, a) # qs \<Longrightarrow> \<exists>pre post. tr = pre @ Did e a # post \<and> dids pre = ps \<and> dids post = qs"
proof (induction tr arbitrary: ps)
  case (Cons ev tr)
  show ?case
  proof (cases "\<exists>t. ev = Opened t")
    case True
    then obtain t where ev: "ev = Opened t" ..
    then obtain pre post where "tr = pre @ Did e a # post \<and> dids pre = ps \<and> dids post = qs"
      using Cons by auto
    then show ?thesis using ev by (intro exI [of _ "ev # pre"] exI [of _ post]) auto
  next
    case False
    then obtain e0 a0 where ev: "ev = Did e0 a0" by (cases ev) auto
    show ?thesis
    proof (cases ps)
      case Nil
      then show ?thesis using Cons.prems ev by (intro exI [of _ "[]"] exI [of _ tr]) auto
    next
      case (Cons p ps')
      then obtain pre post where "tr = pre @ Did e a # post \<and> dids pre = ps' \<and> dids post = qs"
        using Cons.IH Cons.prems ev by auto
      then show ?thesis using ev Cons Cons.prems by (intro exI [of _ "ev # pre"] exI [of _ post]) auto
    qed
  qed
qed simp

lemma minds_run:
  assumes "minds m" and "run m as s = (tr, out, s')" and "legal tr"
  shows "gate_kept tr (out \<noteq> Suspended)"
proof -
  let ?G = "foldl (\<lambda>g (e, a). gate_upd g e a) Calm"
  have "wp gate_ok gate_upd m (\<lambda>_ g _. g = Calm) (\<lambda>_ g _. g = Calm) Calm s" using assms(1) by (simp add: minds_def)
  note sound = wp_sound [OF this assms(2,3)]
  have allowed: "gate_ok (?G ps) e" if "dids tr = ps @ (e, a) # qs" for ps e a qs
    using sound dids_split [OF that] by (auto simp: ghost_dids)
  have calm: "?G (dids tr) = Calm" if "out \<noteq> Suspended"
    using sound that by (cases out) (auto simp: ghost_dids)
  have served: "served_at u url" if "Did e a \<in> set tr" "asks_for e = Some (u, url)" for e a u url
  proof -
    have "(e, a) \<in> set (dids tr)" using that by simp
    then obtain ps qs where "dids tr = ps @ (e, a) # qs" by (meson split_list)
    from allowed [OF this] that(2) show ?thesis by (cases e) auto
  qed
  have elevated: "case post of [] \<Rightarrow> \<not> out \<noteq> Suspended | (e', a') # _ \<Rightarrow> e' = Has_elevation"
    if tr: "dids tr = pre @ (e, a) # post" and "asks_for e = Some (u, url)" "demands_at u url"
      and "elevation_refusal e a" "\<not> repeating (rev pre)" for pre e a post u url
  proof -
    have "?G pre \<noteq> Repeating" using repeating_ghost that(5) by blast
    then have away: "?G (pre @ [(e, a)]) = Turned_away"
      using that(2-4) by (cases e) (auto simp: elevation_refusal_def)
    show ?thesis
    proof (cases post)
      case Nil
      then show ?thesis using calm away tr by auto
    next
      case (Cons p rest)
      obtain e' a' where p: "p = (e', a')" by (cases p)
      have "gate_ok (?G (pre @ [(e, a)])) e'" by (rule allowed [of _ _ a' rest]) (simp add: tr Cons p)
      then show ?thesis using away Cons p by (cases e') auto
    qed
  qed
  show ?thesis unfolding gate_kept_def using served elevated by blast
qed

lemma page_keeps:
  assumes "elements view minds" and "\<forall>m\<in>extra. minds m" and "page_trace view extra tr d"
  shows "gate_kept tr d"
  using assms(3)
proof cases
  case (clicked m as s out s')
  show ?thesis
    unfolding clicked(1) by (rule minds_run [OF elements.offers [OF assms(1) clicked(2)] clicked(3,4)])
next
  case (started m as s out s')
  have "minds m" using assms(2) started(2) by blast
  then show ?thesis unfolding started(1) by (rule minds_run [OF _ started(3,4)])
qed

subsection \<open>All pages\<close>

text \<open>The pages as instances of \<open>elements\<close>: everything bound in them minds the gate.\<close>

interpretation dashboard_gate: elements "Dashboard_view loc route" minds by unfold_locales simp
interpretation system_gate: elements "System_view route" minds by unfold_locales simp
interpretation services_gate: elements "Services_view route" minds by unfold_locales simp
interpretation processes_gate: elements "Processes_view route" minds by unfold_locales simp
interpretation network_gate: elements "Network_view route" minds by unfold_locales simp
interpretation storage_gate: elements "Storage_view route" minds by unfold_locales simp
interpretation tasks_gate: elements "Tasks_view route" minds by unfold_locales simp
interpretation task_form_gate: elements "TaskCreateForm_view route" minds by unfold_locales simp
interpretation updates_gate: elements "Updates_view route" minds by unfold_locales simp
interpretation host_gate: elements "Host_view route" minds by unfold_locales simp
interpretation snapshots_gate: elements "Snapshots_view loc route" minds by unfold_locales simp
interpretation docker_gate: elements "Docker_view loc route" minds by unfold_locales simp
interpretation image_gate: elements "DockerImage_view route" minds by unfold_locales simp
interpretation compose_gate: elements "ComposeEditor_view route" minds by unfold_locales simp
interpretation files_gate: elements "Files_view loc route" minds by unfold_locales simp
interpretation editor_gate: elements "FileEditor_view route" minds by unfold_locales simp
interpretation tools_gate: elements "Tools_view route" minds by unfold_locales simp
interpretation audit_gate: elements "Audit_view loc route" minds by unfold_locales simp
interpretation ssh_gate: elements "Ssh_view route" minds by unfold_locales simp
interpretation github_gate: elements "Github_view loc route" minds by unfold_locales simp
interpretation assets_gate: elements "Assets_view loc route" minds by unfold_locales simp
interpretation login_gate: elements "Login_view route" minds by unfold_locales simp
interpretation security_gate: elements "Security_view route" minds by unfold_locales simp
interpretation settings_gate: elements "Settings_view loc route" minds by unfold_locales simp

lemmas all_pages = dashboard_gate.elements_axioms system_gate.elements_axioms services_gate.elements_axioms
  processes_gate.elements_axioms network_gate.elements_axioms storage_gate.elements_axioms tasks_gate.elements_axioms
  task_form_gate.elements_axioms updates_gate.elements_axioms host_gate.elements_axioms snapshots_gate.elements_axioms
  docker_gate.elements_axioms image_gate.elements_axioms compose_gate.elements_axioms files_gate.elements_axioms
  editor_gate.elements_axioms tools_gate.elements_axioms audit_gate.elements_axioms ssh_gate.elements_axioms
  github_gate.elements_axioms assets_gate.elements_axioms login_gate.elements_axioms security_gate.elements_axioms
  settings_gate.elements_axioms

lemma shell_gate: "minds shell_boot" "minds (elevation_submit ev)" "minds (upgrade_submit key ev)" "minds (shell_logout path)"
  by (auto simp: shell_boot_def elevation_submit_def upgrade_submit_def shell_logout_def gate_eval intro!: minds_settle)

lemma panel_keeps: "panel_trace tr d \<Longrightarrow> gate_kept tr d"
proof (induction rule: panel_trace.induct)
  case (shell_programs m as s tr out s' ev key path)
  then have "minds m" using shell_gate by auto
  then show ?case using shell_programs minds_run by simp
qed (rule page_keeps [rotated 2], assumption, rule all_pages, simp)+

subsection \<open>The refusals of the server\<close>

text \<open>What a check, and what the server, can answer.\<close>

lemma elevation_answers:
  "fst (requireElevation sid s) \<in> {None, Some elevation_required}"
  "fst (requireSensitiveFileElevation sid s) \<in> {None, Some content_refused}"
  by (auto simp: requireElevation_def requireSensitiveFileElevation_def split: prod.split if_split)

definition demand :: "refusal \<Rightarrow> bool" where
  "demand x \<longleftrightarrow> x = elevation_required \<or> x = content_refused"

lemma demand_simps [simp]:
  "demand elevation_required" "demand content_refused" "\<not> demand methodNotAllowed" "\<not> demand Not_found"
  "\<not> demand (Refusal 400 m c)" "\<not> demand (Refusal 401 m c)" "\<not> demand (Refusal 405 m c)"
  by (simp_all add: demand_def elevation_required_def content_refused_def methodNotAllowed_def)

lemma demand_auth [simp]:
  "\<not> demand (Refusal 403 t_ip_denied [])" "\<not> demand (Refusal 403 t_cross_site [])" "\<not> demand (Refusal 403 t_csrf_failed [])"
  by (simp_all add: demand_def elevation_required_def content_refused_def t_ip_denied_def t_cross_site_def
      t_csrf_failed_def t_content_elevation_def uni_def utf8_def)

lemma run_check_answers:
  "fst (run_check c r sid s) = Some x \<Longrightarrow>
     (x = methodNotAllowed \<and> \<not> takes (req_method r) c) \<or>
     (demand x \<and> may_demand (req_method r) (req_url r) c) \<or> x = Refusal 400 t_bad_request []"
  using elevation_answers [of sid s]
  by (cases c) (auto simp: takes_def may_demand_def split: if_splits option.splits)

lemma run_checks_answers:
  "fst (run_checks cs r sid s) = Some x \<Longrightarrow>
     (x = methodNotAllowed \<and> \<not> list_all (takes (req_method r)) cs) \<or>
     (demand x \<and> list_ex (may_demand (req_method r) (req_url r)) cs) \<or> x = Refusal 400 t_bad_request []"
proof (induction cs arbitrary: s)
  case (Cons c cs)
  obtain o' s1 where c: "run_check c r sid s = (o', s1)" by (cases "run_check c r sid s")
  show ?case
  proof (cases o')
    case None
    then show ?thesis using Cons c by (auto split: prod.splits option.splits)
  next
    case (Some y)
    then show ?thesis using Cons.prems c run_check_answers [of c r sid s y] by auto
  qed
qed simp

lemma requireAuth_answers:
  "fst (requireAuth sign w r s) = Inl x \<Longrightarrow>
     x \<in> {Refusal 403 t_ip_denied [], Refusal 401 t_not_logged_in ''session_required'',
       Refusal 401 t_session_over ''session_expired'', Refusal 403 t_cross_site [], Refusal 403 t_csrf_failed []}"
  by (auto simp: requireAuth_def split: if_splits option.splits prod.splits)

lemma serve_answers:
  assumes "fst (serve sign w r s) = Some x"
  shows "x = Not_found \<and> route_checks (path_of (req_url r)) = None \<or>
    x = methodNotAllowed \<and> \<not> served_at (req_method r) (req_url r) \<or>
    demand x \<and> demands_at (req_method r) (req_url r) \<or> x = Refusal 400 t_bad_request [] \<or>
    (\<exists>cs. route_checks (path_of (req_url r)) = Some (True, cs) \<and> fst (requireAuth sign w r s) = Inl x)"
proof (cases "route_checks (path_of (req_url r))")
  case None
  then show ?thesis using assms by (auto simp: serve_def split: if_splits)
next
  case (Some route)
  obtain auth cs where route: "route_checks (path_of (req_url r)) = Some (auth, cs)" using Some by (cases route) auto
  have checked: ?thesis if "fst (run_checks cs r sid s') = Some x" for sid s'
    using run_checks_answers [OF that] by (auto simp: served_at_def demands_at_def route)
  show ?thesis
  proof (cases auth)
    case False
    then show ?thesis using assms checked by (simp add: serve_def route)
  next
    case True
    obtain y s1 where y: "requireAuth sign w r s = (y, s1)" by (cases "requireAuth sign w r s")
    show ?thesis
    proof (cases y)
      case (Inl z)
      then show ?thesis using assms route True y by (simp add: serve_def)
    next
      case (Inr se)
      then show ?thesis using assms route True y checked by (simp add: serve_def)
    qed
  qed
qed

subsection \<open>How the panel reads them\<close>

declare writeError.simps [simp del]

lemma response_simps [simp]:
  "parsePayload (writeError (Refusal n m c)) =
     JObj ((if c = [] then [] else [(''code'', JStr c)]) @ [(''error'', JStr m)])"
  "resp_status (writeError (Refusal n m c)) = n" "is_ok (writeError (Refusal n m c)) \<longleftrightarrow> 200 \<le> n \<and> n < 300"
  by (simp_all add: writeError.simps parsePayload_def is_ok_def str_includes_def starts_with_def)



lemma content_text: "str_includes t_content_elevation t_second_factor" "t_content_elevation \<noteq> []"
proof -
  have "t_content_elevation = uni [0x9700, 0x8981] @ t_second_factor @ uni [0x540E, 0x8BBF, 0x95EE, 0x6587, 0x4EF6, 0x5185, 0x5BB9]"
    by (simp add: t_content_elevation_def t_second_factor_def uni_def)
  then show "str_includes t_content_elevation t_second_factor" unfolding str_includes_def sublist_def by blast
qed (simp add: t_content_elevation_def uni_def utf8_def)

lemma demand_understood:
  "turned_away (AResp (writeError elevation_required))" "turned_away (AResp (writeError content_refused))"
  by (simp_all add: turned_away_def result_of_def request_failed_def ApiError_def wants_elevation_def asObject_def
      elevation_required_def content_refused_def text_or_def content_text)

text \<open>An error of the server as the panel reads it.\<close>

definition error_read :: "nat \<Rightarrow> string \<Rightarrow> string \<Rightarrow> cause" where
  "error_read n m e = Api_error \<lparr>e_message = m, e_status = n, e_code = e, e_command = [], e_output = []\<rparr>"

lemma error_result:
  "\<not> (200 \<le> n \<and> n < 300) \<Longrightarrow> m \<noteq> [] \<Longrightarrow> result_of (writeError (Refusal n m e)) = Inl (error_read n m e)"
  by (cases "e = []")
     (simp_all add: result_of_def request_failed_def ApiError_def asObject_def text_or_def error_read_def jor_def)

lemma not_found_read:
  "\<exists>c. result_of (writeError Not_found) = Inl c \<and> \<not> wants_elevation c"
  "\<not> session_lost (resp_status (writeError Not_found)) b"
  by (simp_all add: writeError.simps result_of_def is_ok_def request_failed_def ApiError_def wants_elevation_def
      session_lost_def)

lemma error_facts [simp]:
  "wants_elevation (error_read n m e) \<longleftrightarrow> n = 403 \<and> (e = ''elevation_required'' \<or> str_includes m t_second_factor)"
  "m \<noteq> [] \<Longrightarrow> errorDetail (error_read n m e) = m"
  by (simp_all add: wants_elevation_def errorDetail_def detail_def error_read_def)

lemma error_lost [simp]:
  "session_lost n (asObject (parsePayload (writeError (Refusal n m e)))) \<longleftrightarrow>
     n = 401 \<and> (e = ''session_required'' \<or> e = ''session_expired'')"
  by (auto simp: session_lost_def asObject_def)

lemma no_second_factor: "char_of (186 :: nat) \<notin> set m \<Longrightarrow> \<not> str_includes m t_second_factor"
  unfolding str_includes_def t_second_factor_def using set_mono_sublist by (fastforce simp: uni_def utf8_def)

lemma no_such_byte [simp]:
  "char_of (186 :: nat) \<noteq> CHR '' ''" "char_of (186 :: nat) \<noteq> CHR ''I''" "char_of (186 :: nat) \<noteq> CHR ''P''"
  "char_of (186 :: nat) \<noteq> CHR ''C''" "char_of (186 :: nat) \<noteq> CHR ''S''" "char_of (186 :: nat) \<noteq> CHR ''R''"
  "char_of (186 :: nat) \<noteq> CHR ''F''"
  by code_simp+

lemma gate_texts [simp]:
  "\<not> str_includes t_ip_denied t_second_factor" "\<not> str_includes t_cross_site t_second_factor"
  "\<not> str_includes t_csrf_failed t_second_factor" "t_ip_denied \<noteq> []" "t_cross_site \<noteq> []" "t_csrf_failed \<noteq> []"
  "t_not_logged_in \<noteq> []" "t_session_over \<noteq> []" "t_bad_request \<noteq> []" "t_method_denied \<noteq> []" "t_elevation_needed \<noteq> []"
proof -
  show "\<not> str_includes t_ip_denied t_second_factor" "\<not> str_includes t_cross_site t_second_factor"
    "\<not> str_includes t_csrf_failed t_second_factor"
    by (rule no_second_factor; simp add: t_ip_denied_def t_cross_site_def t_csrf_failed_def uni_def utf8_def)+
qed (simp_all add: t_ip_denied_def t_cross_site_def t_csrf_failed_def t_not_logged_in_def t_session_over_def
    t_bad_request_def t_method_denied_def t_elevation_needed_def uni_def utf8_def)

subsection \<open>A run at the gate\<close>

text \<open>The user ends a process; the server demands a second authentication, and none is offered.\<close>

definition gate_server :: server where
  "gate_server = \<lparr>sv_store = [(''ab'', \<lparr>se_id = ''ab'', se_username = ''admin'', se_csrf = ''tok'', se_created = 0, se_expires = 100\<rparr>)],
     sv_elevated = (\<lambda>i. None), sv_now = 10, sv_file = (\<lambda>p. True)\<rparr>"

definition gate_wire :: wire where
  "gate_wire = \<lparr>wi_allowed = True, wi_cookie = Some ''ab.ab'', wi_site = ''same-origin''\<rparr>"

abbreviation gate_kill :: "Processes_state io" where
  "gate_kill \<equiv> Processes_signal sample_processes sample_process ''kill''"

definition gate_answers :: "answer list" where
  "gate_answers = [AVal (JBool True), AVal (JStr ''tok''), AResp (writeError elevation_required), AVal (JBool False),
     AVal JUndef]"

lemma same_origin_lower [simp]: "ToLower ''same-origin'' = ''same-origin''"
proof -
  have "ToLower ''same-origin'' = to_lower ''same-origin''" by (rule lower_ascii) (simp add: code_def)
  then show ?thesis by (simp add: to_lower_def lower_char_def code_def)
qed

definition gate_request :: request where
  "gate_request = mk_request ''/api/v1/system/processes/action''
     (with_body ''POST'' (jsonBody (JObj [(''pid'', JNum 7), (''signal'', JStr ''kill'')]))) ''tok''"

lemma gate_kill_offered: "offered (Processes_view sample_route) gate_kill"
  by (rule offered_handler [of "''onClick''" "\<lambda>ev. gate_kill" _ sample_processes])
     (auto simp: Processes_view_def Processes_processes_def Processes_source_def sample_processes_def sample_process_def
        Processes_init_def new_resource_def listOf_def find_json_def lower_Nil)

lemma gate_refusal [simp]:
  "\<not> is_ok (writeError elevation_required)" "resp_status (writeError elevation_required) = 403"
  "wants_elevation (request_failed 403 (case parsePayload (writeError elevation_required) of
     JObj kvs \<Rightarrow> parsePayload (writeError elevation_required) | _ \<Rightarrow> JObj []))"
  by (simp_all add: elevation_required_def request_failed_def ApiError_def wants_elevation_def text_or_def)

lemma gate_kill_run:
  "\<exists>b j. events (run_alone gate_kill gate_answers sample_processes) =
     [Did b (AVal (JBool True)), Did Read_csrf (AVal (JStr ''tok'')), Did (Fetch gate_request) (AResp (writeError elevation_required)),
      Did Has_elevation (AVal (JBool False)), Did (Notify Failure t_process_action_failed j) (AVal JUndef)] \<and>
     possible b (AVal (JBool True)) \<and> fst (snd (run_alone gate_kill gate_answers sample_processes)) \<noteq> Suspended"
  by (simp add: Processes_signal_def gate_answers_def gate_request_def sample_process_def run_ops)

lemma gate_kill_trace:
  "panel_trace (events (run_alone gate_kill gate_answers sample_processes)) True"
proof -
  let ?r = "run_alone gate_kill gate_answers sample_processes"
  have "legal (events ?r)" "fst (snd ?r) \<noteq> Suspended" using gate_kill_run by auto
  then have "page_trace (Processes_view sample_route) {Processes_reload sample_processes True} (events ?r) True"
    using page_trace.clicked [OF gate_kill_offered run_alone_split, where as1 = gate_answers and s = sample_processes]
    by simp
  then show ?thesis by (rule panel_trace.processes)
qed

lemma gate_kill_refused: "fst (serve (\<lambda>i. i) gate_wire gate_request gate_server) = Some elevation_required"
proof -
  have "requireAuth (\<lambda>i. i) gate_wire gate_request gate_server = (Inr (snd (hd (sv_store gate_server))), gate_server)"
    by (simp add: requireAuth_def gate_wire_def gate_server_def gate_request_def Store_Get_def Store_verify_def
        header_of_def run_ops) code_simp
  moreover have "req_method gate_request = ''POST''" "req_url gate_request = ''/api/v1/system/processes/action''"
    by (simp_all add: gate_request_def)
  ultimately show ?thesis
    by (simp add: serve_def gate_eval requireElevation_def elevationActive_def gate_server_def)
qed

subsection \<open>The contract\<close>

lemma panel_served:
  assumes "panel_trace tr d" and "Did e a \<in> set tr" and "asks_for e = Some (m, url)"
  shows "served_at m url"
  using panel_keeps [OF assms(1)] assms(2,3) unfolding gate_kept_def by blast

text \<open>C2. The panel asks for nothing the server does not have. Take any run of any program of the panel: a handler of
  a page or of a dialog, an effect or a timer of a page, a form of the shell, its first request. Whatever it requests or uploads, for the path
  a handler is registered, and the handler takes the method: in no state of the server is the answer of the gate
  404 or 405.\<close>

theorem requests_served:
  assumes "panel_trace tr d" and "Did e a \<in> set tr" and "asks_for e = Some (req_method r, req_url r)"
  shows "route_checks (path_of (req_url r)) \<noteq> None \<and>
    fst (serve sign w r s) \<noteq> Some Not_found \<and> fst (serve sign w r s) \<noteq> Some methodNotAllowed"
proof -
  have served: "served_at (req_method r) (req_url r)" by (rule panel_served [OF assms])
  then have route: "route_checks (path_of (req_url r)) \<noteq> None" by (auto simp: served_at_def split: option.splits)
  have "x \<noteq> Not_found \<and> x \<noteq> methodNotAllowed" if "fst (serve sign w r s) = Some x" for x
    using serve_answers [OF that] served route requireAuth_answers [of sign w r s x] by (auto simp: methodNotAllowed_def)
  with route show ?thesis by auto
qed

theorem requests_served_witness:
  "route_checks ''/api/v1/system/processes/action'' \<noteq> None \<and>
   fst (serve (\<lambda>i. i) gate_wire gate_request gate_server) \<noteq> Some methodNotAllowed"
proof -
  have "Did (Fetch gate_request) (AResp (writeError elevation_required)) \<in>
      set (events (run_alone gate_kill gate_answers sample_processes))"
    using gate_kill_run by auto
  from requests_served [OF gate_kill_trace this, of gate_request "\<lambda>i. i" gate_wire gate_server]
  show ?thesis by (simp add: gate_request_def)
qed

text \<open>C3. A demand for a second authentication reaches the user. Take any run of any program of the panel, and in it a
  request the gate answers with that demand, its own or the one of the agent for the content of a file. Unless
  this request already is the repetition after a successful authentication, the next thing the program does is
  to see about one; a program that is over has done so.\<close>

theorem demand_reaches_user:
  assumes "panel_trace tr d" and "dids tr = pre @ (Fetch r, AResp (writeError x)) # post"
    and "fst (serve sign w r s) = Some x" and "x = elevation_required \<or> x = content_refused"
    and "\<not> repeating (rev pre)"
  shows "(post = [] \<and> \<not> d) \<or> (\<exists>a' post'. post = (Has_elevation, a') # post')"
proof -
  have demand: "demand x" using assms(4) by (auto simp: demand_def)
  have "fst (requireAuth sign w r s) \<noteq> Inl x"
  proof
    assume "fst (requireAuth sign w r s) = Inl x"
    from requireAuth_answers [OF this] demand show False by auto
  qed
  then have "demands_at (req_method r) (req_url r)"
    using serve_answers [OF assms(3)] demand by auto
  moreover have "elevation_refusal (Fetch r) (AResp (writeError x))"
    using assms(4) demand_understood by (auto simp: elevation_refusal_def)
  ultimately have "case post of [] \<Rightarrow> \<not> d | (e', a') # _ \<Rightarrow> e' = Has_elevation"
    using panel_keeps [OF assms(1)] assms(2,5) unfolding gate_kept_def by fastforce
  then show ?thesis by (cases post) auto
qed

theorem demand_reaches_user_witness:
  "\<exists>pre a post. dids (events (run_alone gate_kill gate_answers sample_processes)) =
     pre @ (Fetch gate_request, AResp (writeError elevation_required)) # (Has_elevation, a) # post"
proof -
  obtain b j where "dids (events (run_alone gate_kill gate_answers sample_processes)) =
      [(b, AVal (JBool True)), (Read_csrf, AVal (JStr ''tok''))] @
      (Fetch gate_request, AResp (writeError elevation_required)) #
      [(Has_elevation, AVal (JBool False)), (Notify Failure t_process_action_failed j, AVal JUndef)]"
    and confirm: "possible b (AVal (JBool True))"
    using gate_kill_run by auto
  note split = this(1)
  have "\<not> repeating (rev [(b, AVal (JBool True)), (Read_csrf, AVal (JStr ''tok''))])"
    using confirm by (cases b) auto
  from demand_reaches_user [OF gate_kill_trace split gate_kill_refused _ this] obtain a p where
    "[(Has_elevation, AVal (JBool False)), (Notify Failure t_process_action_failed j, AVal JUndef)] = (Has_elevation, a) # p"
    by blast
  then have "dids (events (run_alone gate_kill gate_answers sample_processes)) =
      [(b, AVal (JBool True)), (Read_csrf, AVal (JStr ''tok''))] @
      (Fetch gate_request, AResp (writeError elevation_required)) # (Has_elevation, a) # p"
    using split by (simp only:)
  then show ?thesis by blast
qed

text \<open>Whether the gate knows no session for a request it would need one for.\<close>

definition session_gone :: "(string \<Rightarrow> string) \<Rightarrow> wire \<Rightarrow> request \<Rightarrow> server \<Rightarrow> bool" where
  "session_gone sign w r s \<longleftrightarrow>
     (case route_checks (path_of (req_url r)) of Some (True, cs) \<Rightarrow> wi_allowed w | _ \<Rightarrow> False) \<and>
     (case wi_cookie w of None \<Rightarrow> True | Some cookie \<Rightarrow> fst (Store_Get sign (sv_now s) cookie (sv_store s)) = None)"

lemma serve_lost:
  "fst (serve sign w r s) \<in> {Some (Refusal 401 t_not_logged_in ''session_required''),
     Some (Refusal 401 t_session_over ''session_expired'')} \<longleftrightarrow> session_gone sign w r s"
proof -
  have checks: "fst (run_checks cs r sid s') \<noteq> Some (Refusal 401 m c)" for cs sid s' m c
    using run_checks_answers [of cs r sid s' "Refusal 401 m c"] by (auto simp: methodNotAllowed_def)
  have checks': "run_checks cs r sid s' \<noteq> (Some (Refusal 401 m c), s'')" for cs sid s' s'' m c
    using checks [of cs sid s' m c] by auto
  show ?thesis
    by (auto simp: serve_def session_gone_def requireAuth_def checks checks' split: option.splits bool.splits prod.splits
        if_splits)
qed

text \<open>C12. What the panel understands of a refusal. Whatever the gate answers instead of admitting a request: the panel
  takes it for a failure; it takes it for the demand for a second authentication exactly when it is that demand;
  it gives the session up exactly when the server has none for the cookie of the request (not when its address,
  its origin or its token was refused); and what it shows to the user is the message of the server, with a text
  of its own for a path that is not registered.\<close>

theorem refusals_understood:
  assumes "fst (serve sign w r s) = Some x"
  shows "\<exists>c. result_of (writeError x) = Inl c \<and>
    (wants_elevation c \<longleftrightarrow> x = elevation_required \<or> x = content_refused) \<and>
    (session_lost (resp_status (writeError x)) (asObject (parsePayload (writeError x))) \<longleftrightarrow> session_gone sign w r s) \<and>
    (\<forall>n m e. x = Refusal n m e \<longrightarrow> errorDetail c = m)"
proof -
  have lost: "session_gone sign w r s \<longleftrightarrow> x = Refusal 401 t_not_logged_in ''session_required'' \<or>
      x = Refusal 401 t_session_over ''session_expired''"
    unfolding serve_lost [symmetric] assms by auto
  have "x = Not_found \<or> x = methodNotAllowed \<or> x = elevation_required \<or> x = content_refused \<or>
      x = Refusal 400 t_bad_request [] \<or> x \<in> {Refusal 403 t_ip_denied [], Refusal 403 t_cross_site [],
        Refusal 403 t_csrf_failed [], Refusal 401 t_not_logged_in ''session_required'',
        Refusal 401 t_session_over ''session_expired''}"
    using serve_answers [OF assms] requireAuth_answers [of sign w r s x] by (auto simp: demand_def)
  then show ?thesis
  proof (elim disjE)
    assume "x = Not_found"
    then show ?thesis using not_found_read lost by (simp add: elevation_required_def content_refused_def)
  qed (use lost in \<open>auto simp: error_result content_text elevation_required_def content_refused_def methodNotAllowed_def
      session_lost_def asObject_def\<close>)
qed

theorem refusals_understood_witness:
  "\<exists>c. result_of (writeError elevation_required) = Inl c \<and> wants_elevation c"
  using refusals_understood [OF gate_kill_refused] by blast

end
