(* ===== verification/Server_Runs.thy ===== *)
theory Server_Runs imports Panel_Contract begin

text \<open>
  Runs of the panel against the server: which of the requests of a run reach the work of their handlers. The state of
  the server may change arbitrarily between two requests (other clients, the elevation of the session, time);
  what is shown holds for all of that.
\<close>

subsection \<open>A run with the server\<close>

text \<open>\<open>with_server s tr ex u\<close>: from \<open>s\<close> to \<open>u\<close>, the events \<open>tr\<close> had the answers of the server, and \<open>ex\<close> are the requests
  its handlers carried out. A refusal of the gate carries nothing out. The work behind the gate answers as it
  likes, but not with the demand of the gate. Of a request without an answer nobody knows.\<close>

inductive with_server :: "(string \<Rightarrow> string) \<Rightarrow> wire \<Rightarrow> server \<Rightarrow> event list \<Rightarrow> request list \<Rightarrow> server \<Rightarrow> bool" for sign w where
  ends: "with_server sign w s [] [] s"
| meanwhile: "sv_now s \<le> sv_now t \<Longrightarrow> with_server sign w t tr ex u \<Longrightarrow> with_server sign w s tr ex u"
| refused: "serve sign w r s = (Some x, t) \<Longrightarrow> with_server sign w t tr ex u \<Longrightarrow>
    with_server sign w s (Did (Fetch r) (AResp (writeError x)) # tr) ex u"
| handled: "serve sign w r s = (None, t) \<Longrightarrow> \<not> turned_away (AResp p) \<Longrightarrow> with_server sign w t tr ex u \<Longrightarrow>
    with_server sign w s (Did (Fetch r) (AResp p) # tr) (r # ex) u"
| lost: "reached = [] \<or> reached = [r] \<Longrightarrow> with_server sign w s tr ex u \<Longrightarrow>
    with_server sign w s (Did (Fetch r) (AFail c) # tr) (reached @ ex) u"
| elsewhere: "asks_for e = None \<Longrightarrow> with_server sign w s tr ex u \<Longrightarrow> with_server sign w s (Did e a # tr) ex u"
| opened: "with_server sign w s tr ex u \<Longrightarrow> with_server sign w s (Opened t # tr) ex u"

lemma serve_not_ok:
  assumes "fst (serve sign w r s) = Some x" shows "\<not> is_ok (writeError x)"
  using serve_answers [OF assms] requireAuth_answers [of sign w r s x]
  by (auto simp: methodNotAllowed_def demand_def elevation_required_def content_refused_def)
     (simp add: writeError.simps is_ok_def)

subsection \<open>Counting what may have been carried out\<close>

text \<open>How many requests may have been carried out, and how many succeeded.\<close>

fun once_upd :: "nat \<times> nat \<Rightarrow> eff \<Rightarrow> answer \<Rightarrow> nat \<times> nat" where
  "once_upd (m, k) (Fetch r) (AResp p) =
     (if turned_away (AResp p) then m else Suc m, if is_ok p then Suc k else k)"
| "once_upd (m, k) (Fetch r) a = (Suc m, k)"
| "once_upd g e a = g"

definition once_ok :: "string \<Rightarrow> init \<Rightarrow> nat \<times> nat \<Rightarrow> eff \<Rightarrow> bool" where
  "once_ok url i g e = (case e of Fetch r \<Rightarrow> fst g = 0 \<and> (\<exists>tok. r = mk_request url i tok) | _ \<Rightarrow> True)"

lemma once_simps [simp]:
  "once_ok url i (0, k) (Fetch (mk_request url i t))" "once_ok url i g Read_csrf" "once_ok url i g Has_elevation"
  "once_ok url i g Elevate" "once_ok url i g Call_unauthorized"
  by (auto simp: once_ok_def)

lemma away_ok: "turned_away (AResp p) \<longleftrightarrow> \<not> is_ok p \<and> wants_elevation (request_failed (resp_status p) (asObject (parsePayload p)))"
  by (auto simp: turned_away_def result_of_def split: if_split)

lemma wp_api_once:
  assumes "\<And>v s. Q v (1, 1) s" and "\<And>c s. \<not> wants_elevation c \<Longrightarrow> E c (1, 0) s" and "\<And>c s. wants_elevation c \<Longrightarrow> E c (0, 0) s"
  shows "wp (once_ok url i) once_upd (api url i) Q E (0, 0) s"
  using assms
  by (auto simp: api_def handle_response_def Let_def io_simps perform_def away_ok split: if_split)

lemma wp_secureApi_once:
  "wp (once_ok url i) once_upd (secureApi url i) (\<lambda>_ g _. g = (1, 1)) (\<lambda>_ _ _. True) (0, 0) s"
  unfolding secureApi_def retry_elevated_def wp_try_catch
  by (rule wp_api_once) (auto simp: io_simps perform_def intro!: wp_api_once split: if_split)

text \<open>Every effect of the events was allowed.\<close>

definition once_run :: "string \<Rightarrow> init \<Rightarrow> nat \<times> nat \<Rightarrow> event list \<Rightarrow> bool" where
  "once_run url i g tr \<longleftrightarrow> (\<forall>pre e a post. tr = pre @ Did e a # post \<longrightarrow> once_ok url i (ghost once_upd g pre) e)"

lemma once_run_Did:
  assumes "once_run url i g (Did e a # tr)"
  shows "once_ok url i g e" "once_run url i (once_upd g e a) tr"
proof -
  show "once_ok url i g e" using assms by (auto simp: once_run_def dest: spec [of _ "[]"])
  have "once_ok url i (ghost once_upd g (Did e a # pre)) e'" if "tr = pre @ Did e' a' # post" for pre e' a' post
    using assms that unfolding once_run_def by (metis append_Cons)
  then show "once_run url i (once_upd g e a) tr" by (auto simp: once_run_def)
qed

lemma once_run_Opened: "once_run url i g (Opened t # tr) \<Longrightarrow> once_run url i g tr"
  unfolding once_run_def by (metis append_Cons ghost_simps(3))

lemma once_bound: "once_run url i g tr \<Longrightarrow> fst g \<le> 1 \<Longrightarrow> fst (ghost once_upd g tr) \<le> 1"
proof (induction tr arbitrary: g)
  case (Cons ev tr)
  show ?case
  proof (cases ev)
    case (Did e a)
    note ok = once_run_Did [OF Cons.prems(1) [unfolded Did]]
    have "fst (once_upd g e a) \<le> 1"
      using ok(1) Cons.prems(2) by (cases g; cases e; cases a) (auto simp: once_ok_def split: if_splits)
    then show ?thesis using Cons.IH [OF ok(2)] Did by simp
  next
    case (Opened t)
    then show ?thesis using Cons once_run_Opened by auto
  qed
qed simp

lemma carried_out_counts:
  "with_server sign w s tr ex u \<Longrightarrow> once_run url i g tr \<Longrightarrow>
     fst g + length ex \<le> fst (ghost once_upd g tr) \<and> snd (ghost once_upd g tr) \<le> snd g + length ex \<and>
     (\<forall>q\<in>set ex. \<exists>tok. q = mk_request url i tok)"
proof (induction arbitrary: g rule: with_server.induct)
  case (refused r s x t tr ex u)
  have "\<not> is_ok (writeError x)" using refused(1) by (intro serve_not_ok [of sign w r s x]) simp
  then show ?case
    using refused.IH [OF once_run_Did(2) [OF refused.prems]] by (cases g) (auto split: if_splits)
next
  case (handled r s t p tr ex u)
  then show ?case
    using handled.IH [OF once_run_Did(2) [OF handled.prems]] once_run_Did(1) [OF handled.prems]
    by (cases g) (auto simp: once_ok_def split: if_splits)
next
  case (lost reached r s tr ex u c)
  then show ?case
    using lost.IH [OF once_run_Did(2) [OF lost.prems]] once_run_Did(1) [OF lost.prems]
    by (cases g) (auto simp: once_ok_def)
next
  case (elsewhere e s tr ex u a)
  then show ?case
    using elsewhere.IH [OF once_run_Did(2) [OF elsewhere.prems]] by (cases g; cases e) auto
next
  case (opened s tr ex u t)
  then show ?case using once_run_Opened by fastforce
qed auto

text \<open>C4. Nothing is carried out twice. Take any run of \<open>secureApi\<close>, the call behind every protected operation of the
  panel, together with what the server does with its requests, whatever happens to the server in between. The
  server carries out at most one request of the run, and it is the one the arguments describe, although the
  call may send it twice; and when the call returns, it has carried out exactly one.\<close>

theorem carried_out_once:
  assumes "run (secureApi url i) as st = (tr, out, st')" and "legal tr" and "with_server sign w s tr ex u"
  shows "length ex \<le> 1 \<and> (\<forall>q\<in>set ex. \<exists>tok. q = mk_request url i tok) \<and> (\<forall>v. out = Returned v \<longrightarrow> length ex = 1)"
proof -
  note sound = wp_sound [OF wp_secureApi_once assms(1,2)]
  then have run: "once_run url i (0, 0) tr" by (simp add: once_run_def)
  have "length ex = 1" if "out = Returned v" for v
  proof -
    have "ghost once_upd (0, 0) tr = (1, 1)" using sound that by blast
    with carried_out_counts [OF assms(3) run] show ?thesis by simp
  qed
  with carried_out_counts [OF assms(3) run] once_bound [OF run] show ?thesis by force
qed

subsection \<open>After the second authentication\<close>

lemma elevated_active:
  assumes "sid \<noteq> []" and "sv_elevated s sid = Some e" and "sv_now s \<le> e"
  shows "elevationActive sid s = (True, s)"
  using assms by (simp add: elevationActive_def)

text \<open>The handlers that look into the body before they decide find what they can decode.\<close>

definition readable :: "check list \<Rightarrow> request \<Rightarrow> bool" where
  "readable cs r \<longleftrightarrow> Elevated_unless_start \<in> set cs \<longrightarrow> decode_strings (req_body r) \<noteq> None"

lemma run_checks_pass:
  assumes "elevationActive sid s = (True, s)" and "list_all (takes (req_method r)) cs" and "readable cs r"
  shows "run_checks cs r sid s = (None, s)"
  using assms(2,3)
proof (induction cs)
  case (Cons c cs)
  have "run_check c r sid s = (None, s)"
    using Cons.prems assms(1)
    by (cases c) (auto simp: takes_def readable_def requireElevation_def requireSensitiveFileElevation_def
        split: option.splits if_split)
  moreover have "readable cs r" using Cons.prems(2) by (simp add: readable_def)
  ultimately show ?case using Cons by simp
qed simp

text \<open>C11. One second authentication is enough, for five minutes. Let the panel send a request its server takes, from a
  session of which the server has noted, at the time \<open>sv_now s\<close>, that it has authenticated a second time. As long
  as the session lasts and up to 300 seconds later, whatever else has happened to the sessions, the request passes the
  gate: it is handed to the work of its handler.\<close>

theorem elevation_suffices:
  assumes "route_checks (path_of (req_url r)) = Some (True, cs)" and "list_all (takes (req_method r)) cs" and "readable cs r"
    and "sv_elevated t = sv_elevated (elevate_session (se_id se) s)" and "sv_now t \<le> sv_now s + 300"
    and "fst (requireAuth sign w r t) = Inr se" and "se_id se \<noteq> []"
  shows "fst (serve sign w r t) = None"
proof -
  obtain t' where auth: "requireAuth sign w r t = (Inr se, t')" using assms(6) by (cases "requireAuth sign w r t") auto
  then have "sv_elevated t' = sv_elevated t" "sv_now t' = sv_now t"
    by (auto simp: requireAuth_def split: if_splits option.splits prod.splits)
  then have "elevationActive (se_id se) t' = (True, t')"
    using assms(4,5,7) by (intro elevated_active) (auto simp: elevate_session_def)
  from run_checks_pass [OF this assms(2,3)] show ?thesis using assms(1) auth by (simp add: serve_def)
qed

text \<open>The gate does not turn the clock.\<close>

lemma check_now: "sv_now (snd (run_check c r sid s)) = sv_now s"
  by (cases c) (auto simp: requireElevation_def requireSensitiveFileElevation_def elevationActive_def
      split: option.splits prod.splits if_splits)

lemma checks_now: "sv_now (snd (run_checks cs r sid s)) = sv_now s"
proof (induction cs arbitrary: s)
  case (Cons c cs)
  then show ?case using check_now [of c r sid s] by (auto split: prod.split option.split)
qed simp

lemma serve_now: "sv_now (snd (serve sign w r s)) = sv_now s"
proof -
  have "sv_now (snd (requireAuth sign w r s)) = sv_now s"
    by (auto simp: requireAuth_def split: if_split option.split prod.split)
  then show ?thesis by (auto simp: serve_def checks_now split: option.split prod.split bool.split sum.split if_split)
qed

subsection \<open>A refusal, a second authentication, a success\<close>

definition gate_elevated :: server where
  "gate_elevated = elevate_session ''ab'' gate_server"

definition once_answers :: "answer list" where
  "once_answers = [AVal (JStr ''tok''), AResp (writeError elevation_required), AVal (JBool True), AVal JUndef,
     AVal (JStr ''tok''), AResp sample_success]"

definition once_events :: "event list" where
  "once_events = [Did Read_csrf (AVal (JStr ''tok'')), Did (Fetch gate_request) (AResp (writeError elevation_required)),
     Did Has_elevation (AVal (JBool True)), Did Elevate (AVal JUndef), Did Read_csrf (AVal (JStr ''tok'')),
     Did (Fetch gate_request) (AResp sample_success)]"

abbreviation gate_secure :: "unit io" where
  "gate_secure \<equiv> secureApi ''/api/v1/system/processes/action''
     (with_body ''POST'' (jsonBody (JObj [(''pid'', JNum 7), (''signal'', JStr ''kill'')])))"

lemma once_run_sample:
  "run gate_secure (map (\<lambda>a. (a, id)) once_answers) () = (once_events, Returned (JObj [(''ok'', JBool True)]), ())"
  by (simp add: once_answers_def once_events_def gate_request_def run_ops)

lemma gate_auth:
  "requireAuth (\<lambda>i. i) gate_wire gate_request gate_elevated = (Inr (snd (hd (sv_store gate_server))), gate_elevated)"
  by (simp add: requireAuth_def gate_wire_def gate_elevated_def elevate_session_def gate_server_def gate_request_def
      Store_Get_def Store_verify_def header_of_def run_ops) code_simp

theorem elevation_suffices_witness:
  "fst (serve (\<lambda>i. i) gate_wire gate_request gate_elevated) = None"
  using gate_auth
  by (intro elevation_suffices [where se = "snd (hd (sv_store gate_server))" and s = gate_server and cs = Srv_processAction])
     (simp_all add: gate_eval gate_request_def readable_def gate_elevated_def elevate_session_def gate_server_def)

lemma gate_admits: "serve (\<lambda>i. i) gate_wire gate_request gate_elevated = (None, gate_elevated)"
  using gate_auth
  by (simp add: serve_def gate_request_def gate_eval requireElevation_def)
     (simp add: elevationActive_def gate_elevated_def elevate_session_def gate_server_def)

theorem carried_out_once_witness:
  "\<exists>ex u. with_server (\<lambda>i. i) gate_wire gate_server once_events ex u \<and> length ex = 1"
proof -
  obtain t where refused: "serve (\<lambda>i. i) gate_wire gate_request gate_server = (Some elevation_required, t)"
    using gate_kill_refused by (cases "serve (\<lambda>i. i) gate_wire gate_request gate_server") auto
  have "sv_now t = sv_now gate_server"
    using serve_now [of "\<lambda>i. i" gate_wire gate_request gate_server] refused by simp
  then have "sv_now t \<le> sv_now gate_elevated" by (simp add: gate_elevated_def elevate_session_def)
  then have server: "with_server (\<lambda>i. i) gate_wire gate_server once_events [gate_request] gate_elevated"
    unfolding once_events_def
    by (auto intro!: with_server.elsewhere with_server.refused [OF refused] with_server.meanwhile [of t gate_elevated]
        with_server.handled [OF gate_admits] with_server.ends simp: away_ok)
  have "length [gate_request] = 1"
    using carried_out_once [OF once_run_sample _ server] by (simp add: once_events_def)
  with server show ?thesis by blast
qed

subsection \<open>Links to the server\<close>

text \<open>The addresses a page links to without a handler: the browser follows them, no code of the panel runs.\<close>

primrec plain_links :: "'s vnode \<Rightarrow> string set" where
  "plain_links (Txt t) = {}"
| "plain_links (El tag attrs hs kids) =
     (if tag = ''a'' \<and> hs = [] then {jstring (attr attrs ''href'')} else {}) \<union> \<Union> (set (map plain_links kids))"
| "plain_links Bad_child = {}"

lemma no_children_links: "\<not> has_children kids \<Longrightarrow> \<Union> (plain_links ` set kids) = {}"
  by (auto simp: has_children_def split: list.splits vnode.splits)

lemma child_links [simp]: "\<Union> (plain_links ` set (child v)) = {}"
  by (induction v rule: child.induct) auto

lemma widget_links [simp]:
  "plain_links (Icon as) = {}" "plain_links (LoadingState n) = {}"
  "plain_links (Button as hs kids) = \<Union> (plain_links ` set kids)"
  "plain_links (Card as kids) = \<Union> (plain_links ` set kids)"
  "plain_links (SectionTitle as kids) = \<Union> (plain_links ` set kids)"
  "plain_links (EmptyState as kids) = \<Union> (plain_links ` set kids)"
  "plain_links (ErrorState v f) = {}"
  by (auto simp: Icon_def LoadingState_def Button_def Card_def SectionTitle_def EmptyState_def ErrorState_def Let_def
      no_children_links split: if_splits)

lemma header_links [simp]: "plain_links (PageHeader route busy refresh kids) = \<Union> (plain_links ` set kids)"
  by (auto simp: PageHeader_def no_children_links split: if_splits option.splits)

lemma snapshot_links:
  "plain_links (Snapshots_view loc route st) \<subseteq>
     {''/api/v1/backup/export''} \<union> range (\<lambda>n. ''/api/v1/backup/scheduled?download='' @ encodeURIComponent n)"
  by (auto simp: Snapshots_view_def Let_def attr_def split: if_splits)

lemma link_path [simp]:
  "path_of (''/api/v1/backup/scheduled?download='' @ x) = ''/api/v1/backup/scheduled''"
  by simp

text \<open>C36. The downloads of the backup page. They are plain links: the browser follows them, no code of the panel sees the
  answer. For a user who is signed in the server serves such a link, the export of the panel or a scheduled
  backup, only while the session counts as authenticated a second time; otherwise what the link yields is the demand,
  which nothing turns into the dialog that would meet it.\<close>

theorem backup_links_demand:
  assumes "url \<in> plain_links (Snapshots_view loc route st)" and "req_method r = ''GET''" and "req_url r = url"
    and "url = ''/api/v1/backup/export'' \<or> js_trim (query_value url ''download'') \<noteq> []"
    and "requireAuth sign w r s = (Inr se, t)"
  shows "fst (serve sign w r s) = (if fst (elevationActive (se_id se) t) then None else Some elevation_required)"
proof -
  have "url = ''/api/v1/backup/export'' \<or> (\<exists>n. url = ''/api/v1/backup/scheduled?download='' @ encodeURIComponent n)"
    using snapshot_links assms(1) by blast
  then show ?thesis
  proof (elim disjE exE)
    assume "url = ''/api/v1/backup/export''"
    then show ?thesis
      using assms(2,3,5) by (simp add: serve_def route_facts handler_defs requireElevation_def split: prod.split if_split)
  next
    fix n assume url: "url = ''/api/v1/backup/scheduled?download='' @ encodeURIComponent n"
    then have "js_trim (query_value url ''download'') \<noteq> []" using assms(4) by simp
    moreover have "path_of url = ''/api/v1/backup/scheduled''" by (simp only: url link_path)
    ultimately show ?thesis
      using assms(2,3,5) by (simp add: serve_def route_facts handler_defs requireElevation_def split: prod.split if_split)
  qed
qed

theorem backup_links_demand_witness:
  "let r = mk_request ''/api/v1/backup/export'' empty_init []
   in ''/api/v1/backup/export'' \<in> plain_links (Snapshots_view Map.empty sample_route Snapshots_init) \<and>
      fst (serve (\<lambda>i. i) gate_wire r gate_server) = Some elevation_required"
proof -
  let ?r = "mk_request ''/api/v1/backup/export'' empty_init []" and ?se = "snd (hd (sv_store gate_server))"
  have link: "''/api/v1/backup/export'' \<in> plain_links (Snapshots_view Map.empty sample_route Snapshots_init)"
    by (simp add: Snapshots_view_def Snapshots_init_def Let_def attr_def)
  have auth: "requireAuth (\<lambda>i. i) gate_wire ?r gate_server = (Inr ?se, gate_server)"
    by (simp add: requireAuth_def gate_wire_def gate_server_def Store_Get_def Store_verify_def)
  have "fst (serve (\<lambda>i. i) gate_wire ?r gate_server) =
      (if fst (elevationActive (se_id ?se) gate_server) then None else Some elevation_required)"
    by (rule backup_links_demand [OF link _ _ _ auth]) simp_all
  then show ?thesis using link by (simp add: elevationActive_def gate_server_def)
qed

end
