(* ===== verification/File_Prefs.thy ===== *)
theory File_Prefs imports Files_Page Server_Gate "HOL-Library.Char_ord" "HOL-Library.List_Lexorder" "HOL-Library.Multiset" begin

text \<open>
  The favorites and the recent files the server keeps for the file manager: \<open>internal/server/fileprefs.go\<close> with the
  handler in \<open>server.go\<close>, and what becomes of the requests of the file page there. The file the
  store is written to is not modelled; a time is a number, 0 the one that was never set. \<open>sort.Slice\<close> is the
  argument \<open>sorter\<close>: it promises a sorted permutation, and nothing about the order of equal names. The lower case it
  compares names in is an argument as well (\<open>lower\<close>): what is proved holds for any, so for \<open>strings.ToLower\<close> with the case
  table of every version of Unicode; \<open>ToLower\<close> is that of the samples. Texts are compared byte by byte, as Go does.
\<close>

subsection \<open>Paths\<close>

text \<open>\<open>filepath.Clean\<close>, segment by segment (\<open>out\<close> is reversed), and \<open>filepath.Base\<close>.\<close>

fun clean_walk :: "bool \<Rightarrow> string list \<Rightarrow> string list \<Rightarrow> string list" where
  "clean_walk rooted out [] = rev out"
| "clean_walk rooted out (x # xs) =
     (if x = [] \<or> x = ''.'' then clean_walk rooted out xs
      else if x = ''..'' then
        (case out of [] \<Rightarrow> clean_walk rooted (if rooted then [] else [''..'']) xs
         | y # ys \<Rightarrow> if y = ''..'' then clean_walk rooted (''..'' # out) xs else clean_walk rooted ys xs)
      else clean_walk rooted (x # out) xs)"

definition Clean :: "string \<Rightarrow> string" where
  "Clean p =
     (if p = [] then ''.''
      else let rooted = (hd p = CHR ''/''); body = join_with ''/'' (clean_walk rooted [] (split_at (CHR ''/'') p))
        in if rooted then ''/'' @ body else if body = [] then ''.'' else body)"

definition Base :: "string \<Rightarrow> string" where
  "Base p = (let segments = filter (\<lambda>x. x \<noteq> []) (split_at (CHR ''/'') p)
     in if p = [] then ''.'' else if segments = [] then ''/'' else last segments)"

text \<open>Segments as \<open>Clean\<close> leaves them, last one first: \<open>..\<close> only in front, and only without a root.\<close>

fun canonical :: "bool \<Rightarrow> string list \<Rightarrow> bool" where
  "canonical rooted [] \<longleftrightarrow> True"
| "canonical rooted (x # xs) \<longleftrightarrow> x \<noteq> [] \<and> x \<noteq> ''.'' \<and> CHR ''/'' \<notin> set x \<and>
     (x = ''..'' \<longrightarrow> \<not> rooted \<and> set xs \<subseteq> {''..''}) \<and> canonical rooted xs"

lemma canonical_front: "canonical rooted (xs @ ys) \<Longrightarrow> canonical rooted ys"
  by (induction xs) auto

lemma canonical_parts: "canonical rooted xs \<Longrightarrow> \<forall>x\<in>set xs. x \<noteq> [] \<and> CHR ''/'' \<notin> set x"
  by (induction xs) auto

lemma clean_walk_canonical:
  "canonical rooted out \<Longrightarrow> \<forall>x\<in>set xs. CHR ''/'' \<notin> set x \<Longrightarrow> canonical rooted (rev (clean_walk rooted out xs))"
  by (induction rooted out xs rule: clean_walk.induct) (auto split: list.split if_split)

lemma clean_walk_id: "canonical rooted (rev xs @ out) \<Longrightarrow> clean_walk rooted out xs = rev out @ xs"
proof (induction xs arbitrary: out)
  case (Cons x xs)
  have "canonical rooted (x # out)" using canonical_front [of rooted "rev xs" "x # out"] Cons.prems by simp
  with Cons show ?case by (cases out) (auto split: if_split)
qed simp

text \<open>\<open>Clean\<close> in terms of the segments, rooted or not.\<close>

definition path_text :: "bool \<Rightarrow> string list \<Rightarrow> string" where
  "path_text rooted xs = (let body = join_with ''/'' xs in if rooted then ''/'' @ body else if body = [] then ''.'' else body)"

lemma Clean_path_text:
  "p \<noteq> [] \<Longrightarrow> Clean p = path_text (hd p = CHR ''/'') (clean_walk (hd p = CHR ''/'') [] (split_at (CHR ''/'') p))"
  by (simp add: Clean_def path_text_def Let_def)

lemma join_with_hd: "xs \<noteq> [] \<Longrightarrow> hd xs \<noteq> [] \<Longrightarrow> join_with c xs \<noteq> [] \<and> hd (join_with c xs) = hd (hd xs)"
  by (cases xs; cases "tl xs") auto

lemma Clean_canonical:
  assumes "canonical rooted (rev xs)" shows "Clean (path_text rooted xs) = path_text rooted xs"
proof (cases "xs = []")
  case True
  then show ?thesis by (cases rooted) (simp_all add: path_text_def Clean_def Let_def)
next
  case False
  have parts: "\<forall>x\<in>set xs. x \<noteq> [] \<and> CHR ''/'' \<notin> set x" using canonical_parts [OF assms] by simp
  have hd: "hd xs \<in> set xs" using False by simp
  have body: "join_with ''/'' xs \<noteq> []" "hd (join_with ''/'' xs) = hd (hd xs)"
    using join_with_hd [OF False] hd parts by auto
  have "hd (hd xs) \<noteq> CHR ''/''" using hd parts by (metis list.set_sel(1))
  moreover have "split_at (CHR ''/'') (join_with ''/'' xs) = xs" using False parts by (intro split_join_with) auto
  moreover have "clean_walk rooted [] xs = xs" using clean_walk_id [of rooted xs "[]"] assms by simp
  ultimately show ?thesis
    using body by (cases rooted) (simp_all add: path_text_def Clean_def Let_def)
qed

lemma Clean_shape:
  obtains rooted xs where "Clean p = path_text rooted xs" and "canonical rooted (rev xs)"
proof (cases "p = []")
  case True
  then show ?thesis using that [of False "[]"] by (simp add: Clean_def path_text_def)
next
  case False
  then show ?thesis
    using that Clean_path_text clean_walk_canonical [of _ "[]" "split_at (CHR ''/'') p"] split_at_parts by (metis canonical.simps(1))
qed

lemma Clean_idem [simp]: "Clean (Clean p) = Clean p"
  using Clean_shape [of p] Clean_canonical by metis

subsection \<open>The store\<close>

record pref_entry =
  en_path :: string
  en_name :: string
  en_isdir :: bool
  en_access :: nat
  en_modify :: nat
  en_download :: nat

record prefs =
  pr_favorites :: "pref_entry list"
  pr_recent :: "pref_entry list"

definition name_key :: "(string \<Rightarrow> string) \<Rightarrow> pref_entry \<Rightarrow> string" where
  "name_key lower e = lower (en_name e)"

definition settle_entry :: "pref_entry \<Rightarrow> pref_entry" where
  "settle_entry e = e\<lparr>en_path := Clean (en_path e), en_name := Base (Clean (en_path e))\<rparr>"

text \<open>The loop over the favorites: what is kept, and whether the path was among them.\<close>

fun favorite_loop :: "pref_entry \<Rightarrow> bool \<Rightarrow> pref_entry list \<Rightarrow> pref_entry list \<times> bool" where
  "favorite_loop e enabled [] = ([], False)"
| "favorite_loop e enabled (x # xs) =
     (case favorite_loop e enabled xs of (rest, found) \<Rightarrow>
        if en_path x = en_path e then ((if enabled then e # rest else rest), True) else (x # rest, found))"

definition Favorite :: "(pref_entry list \<Rightarrow> pref_entry list) \<Rightarrow> pref_entry \<Rightarrow> bool \<Rightarrow> prefs \<Rightarrow> prefs" where
  "Favorite sorter entry enabled d =
     (let e = settle_entry entry
      in case favorite_loop e enabled (pr_favorites d) of (kept, found) \<Rightarrow>
           d\<lparr>pr_favorites := take 100 (sorter (if enabled \<and> \<not> found then kept @ [e] else kept))\<rparr>)"

text \<open>The loop over the recent files, which stops when fifty are kept.\<close>

definition merge_times :: "pref_entry \<Rightarrow> pref_entry \<Rightarrow> pref_entry \<Rightarrow> pref_entry" where
  "merge_times e item new =
     new\<lparr>en_modify := (if en_modify item > en_modify e then en_modify item else en_modify new),
       en_download := (if en_download item > en_download e then en_download item else en_download new)\<rparr>"

fun touch_loop :: "pref_entry \<Rightarrow> pref_entry list \<Rightarrow> pref_entry list \<Rightarrow> pref_entry list" where
  "touch_loop e kept [] = kept"
| "touch_loop e kept (x # xs) =
     (if en_path x = en_path e then touch_loop e (merge_times e x (hd kept) # tl kept) xs
      else if length (kept @ [x]) \<ge> 50 then kept @ [x] else touch_loop e (kept @ [x]) xs)"

definition Touch :: "nat \<Rightarrow> pref_entry \<Rightarrow> string \<Rightarrow> prefs \<Rightarrow> prefs" where
  "Touch now entry kind d =
     (let e = (settle_entry entry)\<lparr>en_access := now\<rparr>;
          e = (if kind = ''modify'' then e\<lparr>en_modify := now\<rparr> else e);
          e = (if kind = ''download'' then e\<lparr>en_download := now\<rparr> else e)
      in d\<lparr>pr_recent := touch_loop e [e] (pr_recent d)\<rparr>)"

subsection \<open>The handler\<close>

text \<open>A text or a truth value of a Go structure, decoded from the members whose name is that of the field but for the
  case of its ASCII letters (Go also takes the long s for an s and the sign for Kelvin for a k, which nobody sends); the last
  one counts, and \<open>null\<close> leaves the field as it is.\<close>

fun go_string :: "string \<Rightarrow> string \<Rightarrow> (string \<times> json) list \<Rightarrow> string option" where
  "go_string field v [] = Some v"
| "go_string field v ((k, x) # kvs) =
     (if to_lower k \<noteq> to_lower field then go_string field v kvs
      else case x of JStr t \<Rightarrow> go_string field t kvs | JNull \<Rightarrow> go_string field v kvs | JUndef \<Rightarrow> go_string field v kvs
        | _ \<Rightarrow> None)"

fun go_bool :: "string \<Rightarrow> bool \<Rightarrow> (string \<times> json) list \<Rightarrow> bool option" where
  "go_bool field v [] = Some v"
| "go_bool field v ((k, x) # kvs) =
     (if to_lower k \<noteq> to_lower field then go_bool field v kvs
      else case x of JBool b \<Rightarrow> go_bool field b kvs | JNull \<Rightarrow> go_bool field v kvs | JUndef \<Rightarrow> go_bool field v kvs
        | _ \<Rightarrow> None)"

definition decode_preference :: "body option \<Rightarrow> (string \<times> string \<times> bool) option" where
  "decode_preference b = (case body_value b of
       Some (JObj kvs) \<Rightarrow>
         (case (go_string ''Action'' [] kvs, go_string ''Path'' [] kvs, go_bool ''IsDir'' False kvs) of
            (Some a, Some p, Some d) \<Rightarrow> Some (a, p, d) | _ \<Rightarrow> None)
     | Some JNull \<Rightarrow> Some ([], [], False)
     | _ \<Rightarrow> None)"

definition t_pref_unsupported :: string where
  "t_pref_unsupported = uni [0x4E0D, 0x652F, 0x6301, 0x7684, 0x6587, 0x4EF6, 0x504F, 0x597D, 0x64CD, 0x4F5C]"

definition t_pref_unsaved :: string where
  "t_pref_unsaved = uni [0x6587, 0x4EF6, 0x6536, 0x85CF, 0x4FDD, 0x5B58, 0x5931, 0x8D25]"

text \<open>\<open>saved\<close> tells whether the file could be written; the store is changed all the same.\<close>

definition filePreferences :: "(pref_entry list \<Rightarrow> pref_entry list) \<Rightarrow> bool \<Rightarrow> request \<Rightarrow> prefs \<Rightarrow> (refusal + prefs) \<times> prefs" where
  "filePreferences sorter saved r d =
     (if req_method r = ''GET'' then (Inr d, d)
      else if req_method r = ''POST'' then
        (case decode_preference (req_body r) of
           None \<Rightarrow> (Inl (Refusal 400 t_bad_request []), d)
         | Some (action, path, isdir) \<Rightarrow>
             if action \<noteq> ''favorite'' \<and> action \<noteq> ''unfavorite'' then (Inl (Refusal 400 t_pref_unsupported []), d)
             else let d' = Favorite sorter \<lparr>en_path = path, en_name = [], en_isdir = isdir, en_access = 0,
                      en_modify = 0, en_download = 0\<rparr> (action = ''favorite'') d
               in (if saved then Inr d' else Inl (Refusal 500 t_pref_unsaved []), d'))
      else (Inl methodNotAllowed, d))"

subsection \<open>What the store keeps\<close>

text \<open>What \<open>sort.Slice\<close> promises for the comparison of the names in lower case.\<close>

locale name_sort =
  fixes lower :: "string \<Rightarrow> string" and sorter :: "pref_entry list \<Rightarrow> pref_entry list"
  assumes permutes: "mset (sorter xs) = mset xs"
    and sorts: "sorted (map (name_key lower) (sorter xs))"
begin

lemma sorter_set: "set (sorter xs) = set xs"
  using permutes by (metis set_mset_mset)

lemma sorter_distinct: "distinct (map f (sorter xs)) \<longleftrightarrow> distinct (map f xs)"
  using permutes by (metis mset_eq_imp_distinct_iff mset_map)

end

interpretation stable: name_sort ToLower "sort_key (name_key ToLower)"
  by unfold_locales simp_all

definition settled :: "pref_entry \<Rightarrow> bool" where
  "settled e \<longleftrightarrow> Clean (en_path e) = en_path e \<and> en_name e = Base (en_path e)"

definition prefs_ok :: "(string \<Rightarrow> string) \<Rightarrow> prefs \<Rightarrow> bool" where
  "prefs_ok lower d \<longleftrightarrow> distinct (map en_path (pr_favorites d)) \<and> sorted (map (name_key lower) (pr_favorites d)) \<and>
     length (pr_favorites d) \<le> 100 \<and> list_all settled (pr_favorites d) \<and>
     distinct (map en_path (pr_recent d)) \<and> length (pr_recent d) \<le> 50 \<and> list_all settled (pr_recent d)"

lemma settle_entry_simps [simp]:
  "settled (settle_entry e)" "en_path (settle_entry e) = Clean (en_path e)" "en_isdir (settle_entry e) = en_isdir e"
  by (simp_all add: settled_def settle_entry_def)

lemma favorite_loop_facts:
  "snd (favorite_loop e b xs) \<longleftrightarrow> en_path e \<in> en_path ` set xs"
  "set (fst (favorite_loop e b xs)) =
     {x \<in> set xs. en_path x \<noteq> en_path e} \<union> (if b \<and> en_path e \<in> en_path ` set xs then {e} else {})"
  "map en_path (fst (favorite_loop e b xs)) =
     (if b then map en_path xs else filter (\<lambda>p. p \<noteq> en_path e) (map en_path xs))"
  by (induction xs) (auto split: prod.splits if_split)

lemma settled_times [simp]:
  "settled (e\<lparr>en_access := n\<rparr>) = settled e" "settled (e\<lparr>en_modify := n\<rparr>) = settled e"
  "settled (e\<lparr>en_download := n\<rparr>) = settled e"
  by (simp_all add: settled_def)

lemma merge_times_simps [simp]:
  "en_path (merge_times e x n) = en_path n" "settled (merge_times e x n) = settled n"
  "en_isdir (merge_times e x n) = en_isdir n"
  by (simp_all add: merge_times_def settled_def)

lemma touch_loop_kept:
  assumes "kept \<noteq> []" and "en_path (hd kept) = en_path e" and "distinct (map en_path kept)" and "distinct (map en_path xs)"
    and "en_path ` set (tl kept) \<inter> en_path ` set xs = {}" and "length kept < 50"
    and "list_all settled kept" and "list_all settled xs"
  shows "distinct (map en_path (touch_loop e kept xs)) \<and> length (touch_loop e kept xs) \<le> 50 \<and>
    list_all settled (touch_loop e kept xs)"
  using assms
proof (induction xs arbitrary: kept)
  case (Cons x xs)
  obtain k ks where kept: "kept = k # ks" using Cons.prems(1) by (cases kept) auto
  show ?case
  proof (cases "en_path x = en_path e")
    case True
    then show ?thesis using Cons.IH [of "merge_times e x k # ks"] Cons.prems kept by auto
  next
    case False
    then show ?thesis using Cons.IH [of "kept @ [x]"] Cons.prems kept by auto
  qed
qed auto

lemma Touch_recent:
  assumes "prefs_ok lower d" shows "prefs_ok lower (Touch now entry kind d)"
proof -
  define e where "e = (let e = (settle_entry entry)\<lparr>en_access := now\<rparr>;
      e = (if kind = ''modify'' then e\<lparr>en_modify := now\<rparr> else e)
    in if kind = ''download'' then e\<lparr>en_download := now\<rparr> else e)"
  have e: "settled e" by (simp add: e_def Let_def split: if_split)
  have "Touch now entry kind d = d\<lparr>pr_recent := touch_loop e [e] (pr_recent d)\<rparr>"
    by (simp add: Touch_def e_def Let_def)
  then show ?thesis using touch_loop_kept [of "[e]" e "pr_recent d"] assms e by (simp add: prefs_ok_def)
qed

text \<open>The favorites before they are sorted and cut.\<close>

definition favorite_new :: "pref_entry \<Rightarrow> bool \<Rightarrow> pref_entry list \<Rightarrow> pref_entry list" where
  "favorite_new e b xs = (case favorite_loop e b xs of (kept, found) \<Rightarrow> if b \<and> \<not> found then kept @ [e] else kept)"

lemma Favorite_new: "Favorite sorter entry b d =
    d\<lparr>pr_favorites := take 100 (sorter (favorite_new (settle_entry entry) b (pr_favorites d)))\<rparr>"
  by (simp add: Favorite_def favorite_new_def split: prod.split)

lemma favorite_new_facts:
  "set (favorite_new e b xs) = {x \<in> set xs. en_path x \<noteq> en_path e} \<union> (if b then {e} else {})"
  "distinct (map en_path xs) \<Longrightarrow> distinct (map en_path (favorite_new e b xs))"
proof -
  obtain kept found where loop: "favorite_loop e b xs = (kept, found)" by (cases "favorite_loop e b xs")
  note facts = favorite_loop_facts [of e b xs, unfolded loop fst_conv snd_conv]
  show "set (favorite_new e b xs) = {x \<in> set xs. en_path x \<noteq> en_path e} \<union> (if b then {e} else {})"
    unfolding favorite_new_def loop prod.case using facts(1,2) by (cases b; cases found) auto
  show "distinct (map en_path (favorite_new e b xs))" if xs: "distinct (map en_path xs)"
  proof -
    have kept: "distinct (map en_path kept)" using xs unfolding facts(3) by (simp split: if_split)
    have "set (map en_path kept) \<subseteq> set (map en_path xs)" unfolding facts(3) by (simp only: set_filter split: if_split) blast
    then have "\<not> found \<Longrightarrow> en_path e \<notin> set (map en_path kept)" using facts(1) by (simp only: set_map) blast
    then have "distinct (map en_path kept @ [en_path e])" if "\<not> found" using that kept by simp
    then show ?thesis unfolding favorite_new_def loop prod.case using kept by simp
  qed
qed

lemma Favorite_kept:
  assumes "name_sort lower sorter" and "prefs_ok lower d" shows "prefs_ok lower (Favorite sorter entry b d)"
proof -
  let ?new = "favorite_new (settle_entry entry) b (pr_favorites d)"
  have "distinct (map en_path (sorter ?new))"
    using assms favorite_new_facts(2) by (simp add: name_sort.sorter_distinct prefs_ok_def)
  moreover have "\<forall>x\<in>set (sorter ?new). settled x"
    using assms by (auto simp: name_sort.sorter_set favorite_new_facts(1) prefs_ok_def list_all_iff split: if_splits)
  ultimately show ?thesis
    using assms name_sort.sorts [OF assms(1), of ?new]
    by (auto simp: Favorite_new prefs_ok_def list_all_iff take_map [symmetric] sorted_wrt_take dest: in_set_takeD)
qed

text \<open>The calls of the server, in any order.\<close>

datatype pref_call = Favors pref_entry bool | Touches nat pref_entry string

fun pref_step :: "(pref_entry list \<Rightarrow> pref_entry list) \<Rightarrow> pref_call \<Rightarrow> prefs \<Rightarrow> prefs" where
  "pref_step sorter (Favors entry b) d = Favorite sorter entry b d"
| "pref_step sorter (Touches now entry kind) d = Touch now entry kind d"

definition no_prefs :: prefs where
  "no_prefs = \<lparr>pr_favorites = [], pr_recent = []\<rparr>"

text \<open>C38. The lists of the file manager stay in order. Whatever is marked, unmarked and opened, in whatever order, from
  the empty store on, and however equal names are sorted: no path is listed twice, neither among the favorites
  nor among the recent files; there are at most 100 of the former and 50 of the latter; the favorites are sorted by
  their names in lower case; and every entry has a cleaned path and the last part of it as its name.\<close>

theorem preferences_kept:
  assumes "name_sort lower sorter"
  shows "prefs_ok lower (fold (pref_step sorter) calls no_prefs)"
proof -
  have "prefs_ok lower d \<Longrightarrow> prefs_ok lower (fold (pref_step sorter) calls d)" for d
  proof (induction calls arbitrary: d)
    case (Cons c calls)
    have "prefs_ok lower (pref_step sorter c d)"
      using Cons.prems by (cases c) (simp_all add: Favorite_kept [OF assms] Touch_recent)
    then show ?case using Cons.IH by simp
  qed simp
  moreover have "prefs_ok lower no_prefs" by (simp add: prefs_ok_def no_prefs_def)
  ultimately show ?thesis by blast
qed

definition plain_entry :: "string \<Rightarrow> pref_entry" where
  "plain_entry p = \<lparr>en_path = p, en_name = [], en_isdir = False, en_access = 0, en_modify = 0, en_download = 0\<rparr>"

theorem preferences_kept_witness:
  "prefs_ok ToLower (fold (pref_step (sort_key (name_key ToLower)))
     [Favors (plain_entry ''/b/../etc'') True, Touches 5 (plain_entry ''/var//log'') ''access'', Favors (plain_entry ''/b'') True] no_prefs)"
  by (rule preferences_kept) (rule stable.name_sort_axioms)

subsection \<open>A full list\<close>

lemma favorite_new_fresh: "en_path e \<notin> en_path ` set xs \<Longrightarrow> favorite_new e True xs = xs @ [e]"
proof -
  have "en_path e \<notin> en_path ` set xs \<Longrightarrow> favorite_loop e True xs = (xs, False)" by (induction xs) auto
  then show "en_path e \<notin> en_path ` set xs \<Longrightarrow> favorite_new e True xs = xs @ [e]" by (simp add: favorite_new_def)
qed

lemma take_but_last:
  assumes "length zs = Suc n" shows "zs = take n zs @ [last zs]"
proof -
  have "zs \<noteq> []" "butlast zs = take n zs" using assms by (auto simp: butlast_conv_take)
  then show ?thesis by (metis append_butlast_last_id)
qed

lemma sorted_last:
  assumes "sorted (map k zs)" and "e \<in> set zs" and "\<forall>x\<in>set zs. x = e \<or> k x < k e"
  shows "last zs = e"
proof -
  obtain us x where zs: "zs = us @ [x]" using assms(2) by (metis append_is_Nil_conv empty_iff list.set(1) rev_exhaust)
  have "k e \<le> k x" using assms(1,2) by (auto simp: zs sorted_append)
  then show ?thesis using assms(3) by (auto simp: zs)
qed

text \<open>C39. A favorite too many is dropped in silence. When a hundred favorites are stored and all their names, in lower case, come before
  the one of a path that is marked now, the handler answers with success, as it does when it has stored
  a favorite, but the favorites are what they were.\<close>

theorem favorite_dropped:
  assumes "name_sort lower sorter" and "prefs_ok lower d" and "length (pr_favorites d) = 100"
    and "\<forall>x\<in>set (pr_favorites d). name_key lower x < lower (Base (Clean p))"
    and "req_method r = ''POST''" and "decode_preference (req_body r) = Some (''favorite'', p, isdir)"
  shows "\<exists>d'. filePreferences sorter True r d = (Inr d', d') \<and>
    mset (pr_favorites d') = mset (pr_favorites d) \<and> Clean p \<notin> en_path ` set (pr_favorites d')"
proof -
  define entry where "entry = \<lparr>en_path = p, en_name = [], en_isdir = isdir, en_access = 0, en_modify = 0, en_download = 0\<rparr>"
  define e where "e = settle_entry entry"
  let ?zs = "sorter (pr_favorites d @ [e])"
  have e: "en_path e = Clean p" "name_key lower e = lower (Base (Clean p))"
    by (simp_all add: e_def entry_def settle_entry_def name_key_def)
  have fresh: "Clean p \<notin> en_path ` set (pr_favorites d)"
  proof
    assume "Clean p \<in> en_path ` set (pr_favorites d)"
    then obtain x where x: "x \<in> set (pr_favorites d)" "en_path x = Clean p" by auto
    then have "settled x" using assms(2) by (simp add: prefs_ok_def list_all_iff)
    then have "name_key lower x = lower (Base (Clean p))" using x(2) by (simp add: settled_def name_key_def)
    then show False using assms(4) x(1) by force
  qed
  then have new: "favorite_new e True (pr_favorites d) = pr_favorites d @ [e]" by (intro favorite_new_fresh) (simp add: e)
  have zs: "mset ?zs = mset (pr_favorites d) + {#e#}" using name_sort.permutes [OF assms(1)] by simp
  then have "length ?zs = Suc 100" using assms(3) by (metis size_mset mset_append mset_single_iff_right length_append_singleton mset.simps(1) mset.simps(2))
  note take = take_but_last [OF this]
  moreover have "last ?zs = e"
    using name_sort.sorts [OF assms(1)] assms(4) e
    by (intro sorted_last [of "name_key lower"]) (auto simp: name_sort.sorter_set [OF assms(1)])
  ultimately have "mset (take 100 ?zs) + {#e#} = mset (pr_favorites d) + {#e#}" using zs by (metis mset_append mset.simps add_mset_add_single union_mset_add_mset_right)
  then have kept: "mset (take 100 ?zs) = mset (pr_favorites d)" by simp
  then have "set (take 100 ?zs) = set (pr_favorites d)" by (metis set_mset_mset)
  then show ?thesis
    using kept fresh assms(5,6) new by (simp add: filePreferences_def Favorite_new e_def entry_def Let_def)
qed

text \<open>A hundred favorites \<open>/a\<close>, \<open>/aa\<close>, \<open>/aaa\<close>, and so on, and the request that marks \<open>/b\<close>.\<close>

definition sample_favorite :: "nat \<Rightarrow> pref_entry" where
  "sample_favorite i = \<lparr>en_path = ''/'' @ replicate (Suc i) (CHR ''a''), en_name = replicate (Suc i) (CHR ''a''),
     en_isdir = False, en_access = 0, en_modify = 0, en_download = 0\<rparr>"

definition full_prefs :: prefs where
  "full_prefs = \<lparr>pr_favorites = map sample_favorite [0..<100], pr_recent = []\<rparr>"

definition mark_request :: request where
  "mark_request = mk_request ''/api/v1/files/preferences''
     (with_body ''POST'' (jsonBody (JObj [(''action'', JStr ''favorite''), (''path'', JStr ''/b''), (''is_dir'', JBool True)]))) ''tok''"

lemma sample_parts: "split_at (CHR ''/'') (''/'' @ replicate n (CHR ''a'')) = [[], replicate n (CHR ''a'')]"
  using split_at_append [of "CHR ''/''" "[]" "replicate n (CHR ''a'')"] split_at_no_sep [of "CHR ''/''" "replicate n (CHR ''a'')"]
  by simp

lemma sample_settled: "settled (sample_favorite i)"
proof -
  have "replicate (Suc i) (CHR ''a'') \<noteq> ''.''" "replicate (Suc i) (CHR ''a'') \<noteq> ''..''" by simp_all
  then show ?thesis
    using sample_parts [of "Suc i"] by (simp add: settled_def sample_favorite_def Clean_def Base_def Let_def)
qed

lemma sample_key: "name_key ToLower (sample_favorite i) = replicate (Suc i) (CHR ''a'')"
proof -
  have "ToLower (replicate (Suc i) (CHR ''a'')) = to_lower (replicate (Suc i) (CHR ''a''))"
    by (rule lower_ascii) (simp add: code_def)
  then show ?thesis by (simp add: name_key_def sample_favorite_def to_lower_def lower_char_def code_def)
qed

lemma key_less_b: "name_key ToLower (sample_favorite i) < ''b''"
  unfolding sample_key by simp

lemma sample_sorted: "i \<le> j \<Longrightarrow> name_key ToLower (sample_favorite i) \<le> name_key ToLower (sample_favorite j)"
  unfolding sample_key
proof (induction i arbitrary: j)
  case 0
  then show ?case by (cases j) auto
next
  case (Suc i)
  then obtain j' where "j = Suc j'" "i \<le> j'" by (cases j) auto
  then show ?case using Suc.IH [of j'] by simp
qed

lemma ToLower_b: "ToLower ''b'' = ''b''"
proof -
  have "ToLower ''b'' = to_lower ''b''" by (rule lower_ascii) (simp add: code_def)
  then show ?thesis by (simp add: to_lower_def lower_char_def code_def)
qed

lemma full_prefs_ok: "prefs_ok ToLower full_prefs"
proof -
  have "inj sample_favorite" by (auto simp: inj_def sample_favorite_def dest: arg_cong [of _ _ length])
  moreover have "inj_on en_path (range sample_favorite)"
    by (auto simp: inj_on_def sample_favorite_def dest: arg_cong [of _ _ length])
  ultimately have "distinct (map en_path (map sample_favorite [0..<100]))"
    by (auto simp: distinct_map inj_on_def)
  moreover have "sorted (map (name_key ToLower) (map sample_favorite [0..<100]))"
    by (auto simp: sorted_iff_nth_mono sample_sorted)
  ultimately show ?thesis
    by (simp add: prefs_ok_def full_prefs_def list_all_iff sample_settled)
qed

lemma mark_decoded: "decode_preference (req_body mark_request) = Some (''favorite'', ''/b'', False)"
  by (simp add: mark_request_def with_body_def jsonBody_def mk_request_def decode_preference_def to_lower_def) code_simp

theorem favorite_dropped_witness:
  "\<exists>d'. filePreferences (sort_key (name_key ToLower)) True mark_request full_prefs = (Inr d', d') \<and>
     ''/b'' \<notin> en_path ` set (pr_favorites d')"
proof -
  have base: "Clean ''/b'' = ''/b''" "Base ''/b'' = ''b''" by code_simp+
  have "\<forall>x\<in>set (pr_favorites full_prefs). name_key ToLower x < ToLower (Base (Clean ''/b''))"
    by (auto simp: full_prefs_def base ToLower_b key_less_b)
  moreover have "length (pr_favorites full_prefs) = 100" "req_method mark_request = ''POST''"
    by (simp_all add: full_prefs_def mark_request_def)
  ultimately show ?thesis
    using favorite_dropped [OF stable.name_sort_axioms full_prefs_ok _ _ _ mark_decoded] by (auto simp: base(1))
qed

subsection \<open>What the page asks for and what is stored\<close>

definition favorite_body :: "bool \<Rightarrow> json \<Rightarrow> body" where
  "favorite_body enabled item = jsonBody (JObj [(''action'', JStr (if enabled then ''favorite'' else ''unfavorite'')),
     (''path'', fld item ''path''), (''is_dir'', fld item ''is_dir'')])"

definition asks_favorite :: "json \<Rightarrow> eff \<Rightarrow> bool" where
  "asks_favorite item e = (case e of Fetch r \<Rightarrow> (\<exists>b. req_body r = Some (favorite_body b item)) | _ \<Rightarrow> True)"

lemma asks_favorite_simps [simp]:
  "asks_favorite item Read_csrf" "asks_favorite item Call_unauthorized" "asks_favorite item (Notify k m j)"
  "asks_favorite item (Fetch (mk_request url (with_body ''POST'' (favorite_body b item)) t))"
  by (auto simp: asks_favorite_def mk_request_def with_body_def)

lemma wp_favorite_api:
  assumes "\<And>v h s. Q v h s" and "\<And>c h s. E c h s"
  shows "wp (\<lambda>_. asks_favorite item) hist_upd (api url (with_body ''POST'' (favorite_body b item))) Q E h s"
  by (auto simp: api_def handle_response_def Let_def io_simps perform_def assms split: if_split)

lemma toggle_asks:
  "wp (\<lambda>_. asks_favorite item) hist_upd (Files_toggleFavorite st item) (\<lambda>_ _ _. True) (\<lambda>_ _ _. True) h s"
  by (auto simp: Files_toggleFavorite_def Let_def io_simps notify_def perform_def favorite_body_def [symmetric]
      intro!: wp_favorite_api)

lemma favorite_decoded:
  "decode_preference (Some (favorite_body b item)) = Some (action, p, isdir) \<Longrightarrow> \<not> isdir"
  by (auto simp: decode_preference_def favorite_body_def jsonBody_def to_lower_def lower_char_def split: option.splits)

text \<open>C37. Directories do not stay directories among the favorites. Take any run of the handler behind the star of the file
  list, for any entry, a directory or a file, and a request of this run that the server takes: whatever the
  request says, the favorite it stores is a file. (The handler sends \<open>is_dir\<close>; the structure of the server
  has \<open>IsDir\<close> without a tag and ignores it.)\<close>

theorem favorites_forget_directories:
  assumes "run (Files_toggleFavorite st item) as s = (tr, out, s')" and "legal tr" and "Did (Fetch r) a \<in> set tr"
    and "name_sort lower sorter" and "decode_preference (req_body r) = Some (''favorite'', p, isdir)" and "req_method r = ''POST''"
  shows "\<exists>d'. snd (filePreferences sorter saved r d) = d' \<and>
    (\<forall>e\<in>set (pr_favorites d'). en_path e = Clean p \<longrightarrow> \<not> en_isdir e)"
proof -
  obtain pre post where "tr = pre @ Did (Fetch r) a # post" using assms(3) by (meson split_list)
  then have "asks_favorite item (Fetch r)" using wp_sound [OF toggle_asks assms(1,2)] by blast
  then obtain b where "req_body r = Some (favorite_body b item)" by (auto simp: asks_favorite_def)
  then have isdir: "\<not> isdir" using favorite_decoded assms(5) by metis
  show ?thesis
    using assms(5,6) isdir
    by (auto simp: filePreferences_def Let_def Favorite_new name_sort.sorter_set [OF assms(4)] favorite_new_facts
        dest!: in_set_takeD)
qed

text \<open>The star of the directory \<open>/etc\<close> is pressed, and the server stores a favorite.\<close>

definition sample_directory :: json where
  "sample_directory = JObj [(''path'', JStr ''/etc''), (''is_dir'', JBool True)]"

definition star_answers :: "answer list" where
  "star_answers = [AVal (JStr ''tok''), AFail (Js_error ''down''), AVal JUndef]"

definition star_request :: request where
  "star_request = mk_request ''/api/v1/files/preferences'' (with_body ''POST'' (favorite_body True sample_directory)) ''tok''"

lemma star_run:
  "run_alone (Files_toggleFavorite Files_init sample_directory) star_answers Files_init = (tr, out, s') \<Longrightarrow>
     legal tr \<and> Did (Fetch star_request) (AFail (Js_error ''down'')) \<in> set tr"
  by (auto simp: Files_toggleFavorite_def Files_init_def Files_favorites_def star_answers_def star_request_def
      favorite_body_def listOf_def sample_directory_def run_ops)

lemma star_decoded: "decode_preference (req_body star_request) = Some (''favorite'', ''/etc'', False)"
  by (simp add: star_request_def sample_directory_def favorite_body_def with_body_def jsonBody_def mk_request_def
      decode_preference_def to_lower_def) code_simp

theorem favorites_forget_directories_witness:
  "let d' = snd (filePreferences (sort_key (name_key ToLower)) True star_request no_prefs)
   in map en_path (pr_favorites d') = [''/etc''] \<and> (\<forall>e\<in>set (pr_favorites d'). en_path e = ''/etc'' \<longrightarrow> \<not> en_isdir e)"
proof -
  obtain tr out s' where run: "run_alone (Files_toggleFavorite Files_init sample_directory) star_answers Files_init = (tr, out, s')"
    by (cases "run_alone (Files_toggleFavorite Files_init sample_directory) star_answers Files_init")
  note star = star_run [OF this]
  have post: "req_method star_request = ''POST''" and clean: "Clean ''/etc'' = ''/etc''"
    by (simp add: star_request_def, code_simp)
  have "\<forall>e\<in>set (pr_favorites (snd (filePreferences (sort_key (name_key ToLower)) True star_request no_prefs))).
      en_path e = ''/etc'' \<longrightarrow> \<not> en_isdir e"
    using favorites_forget_directories [OF run [unfolded run_alone_def] conjunct1 [OF star] conjunct2 [OF star]
        stable.name_sort_axioms star_decoded post, of True no_prefs] by (simp add: clean)
  moreover have "map en_path (pr_favorites (snd (filePreferences (sort_key (name_key ToLower)) True star_request no_prefs))) = [''/etc'']"
    using star_decoded post
    by (simp add: filePreferences_def no_prefs_def Favorite_def Let_def settle_entry_def clean)
  ultimately show ?thesis by (simp add: Let_def)
qed

subsection \<open>The times of a recent file\<close>

lemma touch_loop_other:
  "kept \<noteq> [] \<Longrightarrow> en_path e \<notin> en_path ` set xs \<Longrightarrow> hd (touch_loop e kept xs) = hd kept"
  by (induction e kept xs rule: touch_loop.induct) auto

lemma touch_loop_found:
  assumes "kept \<noteq> []" and "en_path e \<notin> en_path ` set us" and "en_path e \<notin> en_path ` set vs" and "en_path x = en_path e"
    and "length kept \<le> 49"
  shows "hd (touch_loop e kept (us @ x # vs)) =
    (if length kept + length us < 50 then merge_times e x (hd kept) else hd kept)"
  using assms
proof (induction us arbitrary: kept)
  case Nil
  then show ?case by (simp add: touch_loop_other)
next
  case (Cons u us)
  show ?case
  proof (cases "length kept = 49")
    case True
    then show ?thesis using Cons.prems by (simp add: eq_commute [of "en_path u"])
  next
    case False
    then show ?thesis using Cons.IH [of "kept @ [u]"] Cons.prems by (simp add: eq_commute [of "en_path u"])
  qed
qed

text \<open>C40. When a recent file is opened again, the entry that takes the place of the old one keeps the times of its last
  change and its last download, but not if the old one is the fiftieth: the loop ends before it comes to
  that, and they are lost.\<close>

theorem touch_keeps_times:
  assumes "distinct (map en_path (pr_recent d))" and "i < length (pr_recent d)" and "length (pr_recent d) \<le> 50"
    and "en_path (pr_recent d ! i) = Clean (en_path entry)" and "en_modify entry = 0" and "en_download entry = 0"
  shows "en_modify (hd (pr_recent (Touch now entry ''access'' d))) = (if i < 49 then en_modify (pr_recent d ! i) else 0) \<and>
    en_download (hd (pr_recent (Touch now entry ''access'' d))) = (if i < 49 then en_download (pr_recent d ! i) else 0)"
proof -
  let ?xs = "pr_recent d" and ?e = "(settle_entry entry)\<lparr>en_access := now\<rparr>"
  have split: "?xs = take i ?xs @ ?xs ! i # drop (Suc i) ?xs" using assms(2) by (rule id_take_nth_drop)
  have "distinct (map en_path (take i ?xs @ ?xs ! i # drop (Suc i) ?xs))" using assms(1) split by simp
  then have fresh: "en_path (?xs ! i) \<notin> en_path ` set (take i ?xs)" "en_path (?xs ! i) \<notin> en_path ` set (drop (Suc i) ?xs)"
    by auto
  have "hd (touch_loop ?e [?e] ?xs) = (if 1 + i < 50 then merge_times ?e (?xs ! i) ?e else ?e)"
    using touch_loop_found [of "[?e]" ?e "take i ?xs" "drop (Suc i) ?xs" "?xs ! i"] split fresh assms(2,4) by simp
  then show ?thesis using assms(5,6) by (simp add: Touch_def Let_def merge_times_def settle_entry_def split: if_split)
qed

theorem touch_keeps_times_witness:
  "let old = (plain_entry ''/etc'')\<lparr>en_modify := 7\<rparr>; d = \<lparr>pr_favorites = [], pr_recent = [old]\<rparr>
   in en_modify (hd (pr_recent (Touch 9 (plain_entry ''//etc/'') ''access'' d))) = 7"
proof -
  let ?old = "(plain_entry ''/etc'')\<lparr>en_modify := 7\<rparr>"
  let ?d = "\<lparr>pr_favorites = [], pr_recent = [?old]\<rparr>"
  have "Clean ''//etc/'' = ''/etc''" by code_simp
  then show ?thesis
    using touch_keeps_times [of ?d 0 "plain_entry ''//etc/''" 9] by (simp add: plain_entry_def Let_def)
qed

end
