(* ===== verification/Spec2Isabelle.thy ===== *)
theory Spec2Isabelle imports Upload Overview_Pages System_Pages Tasks_Page Updates_Page Host_Page Snapshots_Page Docker_Page Files_Page Ssh_Page Github_Page Login_Page Security_Page Settings_Page Shell_View Shell_Runs Composition Loader Server_Runs File_Prefs begin

text \<open>
  LukePanel administers a Linux server from the browser. This development models its frontend,
  \<open>web/assets/app.js\<close>: one script of some 3600 lines, a React application without further modules, which the
  server embeds and every browser runs. All of it is modelled, from the table of routes (line 7) to the mount of the root
  element (line 3600). Of the server it models what stands between the panel and the work of the server: the
  sessions, the registered handlers with the checks at their heads, and the preferences of the file manager.

  \<^bold>\<open>The program.\<close> At the bottom lie the guards through which the code reads what the server sends (\<open>asObject\<close>,
  \<open>listOf\<close>, \<open>text\<close>, \<open>number\<close>) and the formatters. Above them is the request layer: \<open>api\<close> issues one request,
  \<open>secureApi\<close> repeats it once after a second authentication, \<open>xhrUpload\<close> sends files. Three hooks keep state:
  \<open>useRoute\<close> the path, \<open>useResource\<close> the data of a page, and \<open>App\<close> all the rest: who is signed in, the single
  slot for a dialog, the question put to the user, the second authentication, the messages. Nineteen page
  components use them. A page is given five callbacks by the shell (\<open>navigate\<close>, \<open>notify\<close>, \<open>openModal\<close>, \<open>closeModal\<close>,
  \<open>confirm\<close>); the request layer reaches the shell through module variables (\<open>csrfToken\<close>, \<open>elevationHandler\<close>,
  \<open>unauthorizedHandler\<close>).

  \<^bold>\<open>The model.\<close> A value of the server is a \<open>json\<close>. A component is a record of its state variables, one
  definition per derived value and handler, and a view: a function from the state to the element React would
  render, with the handlers it binds. An asynchronous handler is a program over effects (\<open>'s io\<close>, theory
  \<open>Effects\<close>): every await, callback and browser call is an effect, and what comes back is an answer chosen freely among
  those that are possible. With each answer comes a function on the state, what the other handlers of the component did
  meanwhile. A run is given by its list of answers; a program without answers left is suspended. Every program is
  a finite tree, so no fuel is involved: \<open>run_ends\<close> bounds the answers a run can use up. Only the module loader has
  fuel, for the depth of nested calls; more than the number of modules not yet loaded is enough. The loops of
  the formatters, the router and the codec terminate by measures.

  What several things drive at once is a machine: the router over the history of a tab, the resource with
  overlapping loads, the upload over the events of its request, the device login over its timers, and the shell.

  \<^bold>\<open>The theories.\<close>
  \<^item> \<open>Prelude\<close>, \<open>Js_String\<close>, \<open>Texts\<close>, \<open>Js_Value\<close>: generic facts, strings as UTF-8, the literals of the user
    interface, values and guards (lines 73 to 85 and 109 to 113). \<open>Format\<close>: bytes, durations, dates, tasks (86 to 122).
  \<^item> \<open>Effects\<close>: effects, programs, elements, runs, weakest preconditions and their soundness. \<open>Api\<close>: the request layer
    (123 to 186, 241 to 252). \<open>Upload\<close>: \<open>xhrUpload\<close> (187 to 240).
  \<^item> \<open>Router\<close>: routes and \<open>useRoute\<close> (7 to 34, 253 to 273). \<open>Resource\<close>: \<open>useResource\<close> (274 to 300).
  \<^item> \<open>Handlers\<close>: the rules of interaction and the locales that lift them from handlers to everything a page
    offers. \<open>Widgets\<close>: the shared elements (35 to 72, 301 to 379, 440 to 446, 647 to 659). \<open>Page_Base\<close>: what the pages share.
  \<^item> The pages, in the order of the code: \<open>Login_Page\<close> (447 to 525), \<open>Webauthn\<close> (its codec, 526 to 569),
    \<open>Overview_Pages\<close> (570 to 673), \<open>System_Pages\<close> (674 to 819), \<open>Tasks_Page\<close> (820 to 923), \<open>Updates_Page\<close> (924 to 1044),
    \<open>Host_Page\<close> (1045 to 1164), \<open>Snapshots_Page\<close> (1165 to 1280), \<open>Docker_Page\<close> (1281 to 1741), \<open>Files_Page\<close> (1742
    to 2159), \<open>Ssh_Page\<close> (network tools, SSH, logs: 2160 to 2202 and 2622 to 2909), \<open>Github_Page\<close> (2203 to 2621),
    \<open>Security_Page\<close> (2910 to 3177), \<open>Settings_Page\<close> (3178 to 3368).
  \<^item> \<open>Shell\<close>: the state and the operations of \<open>App\<close> and \<open>Modal\<close> (380 to 439, 3386 to 3595). \<open>Shell_Rules\<close>: its steps, its
    invariant, the contract of a confirmation. \<open>Shell_View\<close>: keyboard, dialogs, frame, error boundary, mount
    (3369 to 3385, 3520 to 3600). \<open>Shell_Runs\<close>: the handlers of the shell as steps. \<open>Composition\<close>: runs of a page
    as runs of the shell.
  \<^item> \<open>Loader\<close>: \<open>web/assets/vendor-runtime.js\<close> and \<open>web/assets/react-bootstrap.js\<close>, which load and check React before the
    script runs.
  \<^item> \<open>Session_Store\<close>: \<open>internal/auth/session.go\<close>. \<open>Server_Gate\<close>: the routes and \<open>requireAuth\<close> of
    \<open>internal/server/server.go\<close>, and for each of the 153 handlers under \<open>internal/server\<close> the list of its checks
    (\<open>Srv_\<dots>\<close>): the methods it takes, and when it demands a second authentication. \<open>File_Prefs\<close>:
    \<open>internal/server/fileprefs.go\<close> with its handler, and what it makes of the requests of the file page.
  \<^item> \<open>Contract\<close>: when a program minds that gate. \<open>Contract_Pages\<close> and \<open>Contract_Large\<close>: every handler and every
    element of every page does. \<open>Panel_Contract\<close>: the contract over all runs of the panel. \<open>Server_Runs\<close>:
    runs against the server, what it carries out, and the links that bypass the request layer.

  \<^bold>\<open>What is shown.\<close>
  \<^item> Request layer: one request per call, its headers, the result as a function of the response, a single retry. Upload:
    the first final event decides, progress keeps its bounds, and the one case that never settles.
  \<^item> Router and resource: invariants over all histories and all interleavings of loads.
  \<^item> Pages: for every handler a page or one of its dialogs offers, in every state and every run, the four rules of
    \<open>docs/UI_AND_INTERACTION.md\<close>: a destructive request only behind a confirmation, a success message
    only after the server's acknowledgement, no refused change passed over in silence, no escaping exception. Where the code
    breaks a rule, the handler that does is excepted by name, and a theorem says what it does instead.
    The requests that count as destructive are named per page (\<open>harms_\<dots>\<close>): those the page itself guards.
  \<^item> Codecs and forms: round trips of the query string, of base64url, of the container form; paths of the file manager.
  \<^item> Login: signing in rests on an answer of the server, at most once per handler. Device login: it ends when authorized,
    expired or denied.
  \<^item> Shell: every promise is settled at most once and all are accounted for, the dialogs implement the contract of a
    confirmation, signing out always clears the session, every route has its page.
  \<^item> Module loader: loading ends whatever the cycles, calls no factory twice, and lets only the expected React through.
  \<^item> Together (\<open>Shell_Runs\<close>, \<open>Composition\<close> and this theory): every handler on the screen, of the shell, of a page and of
    a page's dialog put into it (\<open>hosted\<close>), moves the shell along the steps its invariants are proved for; a changing request carries the token of the session that is
    open; behind every destructive request of a page stands a press of the button of that question's
    dialog; the editor loses unsaved changes whatever its question is answered; the form of a second
    authentication settles the promise exactly when the server accepts it; and no handler leaves its page busy.

  \<^item> Panel and server: whatever the panel requests is registered under that path and method; the demand for a second
    authentication, of the server or of its agent, is always followed by asking the user; one authentication
    then opens the gate for five minutes; what is sent through \<open>secureApi\<close> is carried out at most once, and exactly once when
    the call returns; the panel gives its session up exactly when the server has none. A cookie that is accepted
    belongs to a session that was created and not ended since. Against this stand the download links of the
    backup page, which never reach the request layer.
  \<^item> File preferences: their invariant, and three places where they lose what they should keep.

  \<^bold>\<open>Parameters and assumptions.\<close> Code outside the repository is an argument or an answer: the browser's locale data
  (\<open>loc\<close>), \<open>JSON.parse\<close> of an upload's answer, the browser's credential store, the clipboard and
  pop-up windows (calls that may fail), the stack text of an exception. React is modelled by what the code relies on: a view is a
  function of the state, \<open>commit\<close> puts the state in the document and runs the effects whose
  dependencies changed, and the user acts on a dialog once the document shows the present state. On the
  server the signature of a cookie (\<open>sign\<close>), random identifiers, the list of allowed addresses, the clock and
  the lower case of names and the order in which \<open>sort.Slice\<close> leaves equal ones (\<open>name_sort\<close>) are arguments; of the work behind the
  gate \<open>with_server\<close> assumes that it never answers with the demand of the gate itself. Numbers are exact
  rationals, so the rounding of binary64 is not modelled; strings are compared as UTF-8. The lower case of a
  text is that of Unicode's case table (\<open>toLowerCase\<close>), but for the form of a sigma at the end of a word.

  \<^bold>\<open>Not modelled.\<close> The rest of the Go backend, the work of the handlers behind their checks and the agent that
  administers the system, is another language and appears through its answers, all of which are considered. \<open>frontend/src/app.tsx\<close> is the source the script is compiled from, with the same
  functions; \<open>internal/server/webdist/assets/app.js\<close> is a copy of the script. The React chunks
  (\<open>react-18.2.0.js\<close>, \<open>react-dom-18.2.0.js\<close>) are third-party code: to the loader their factories are arbitrary programs. The style sheets have no behaviour.
\<close>

subsection \<open>Pages and shell together\<close>

text \<open>The runs of what a page offers, with the requests of that page that destroy something.\<close>

inductive guarded_run :: "(request \<Rightarrow> bool) \<Rightarrow> event list \<Rightarrow> bool" where
  on_docker: "offered (Docker_view loc route) m \<Longrightarrow> run m as s = (tr, out, s') \<Longrightarrow> legal tr \<Longrightarrow>
    guarded_run harms_docker tr"
| on_docker_image: "offered (DockerImage_view route) m \<Longrightarrow> run m as s = (tr, out, s') \<Longrightarrow> legal tr \<Longrightarrow>
    guarded_run harms_docker tr"
| on_compose_editor: "offered (ComposeEditor_view route) m \<Longrightarrow> run m as s = (tr, out, s') \<Longrightarrow> legal tr \<Longrightarrow>
    guarded_run harms_docker tr"
| on_files: "offered (Files_view loc route) m \<Longrightarrow> run m as s = (tr, out, s') \<Longrightarrow> legal tr \<Longrightarrow>
    guarded_run harms_files tr"
| on_file_editor: "offered (FileEditor_view route) m \<Longrightarrow> run m as s = (tr, out, s') \<Longrightarrow> legal tr \<Longrightarrow>
    guarded_run harms_files tr"
| on_services: "offered (Services_view route) m \<Longrightarrow> run m as s = (tr, out, s') \<Longrightarrow> legal tr \<Longrightarrow>
    guarded_run ends_process tr"
| on_processes: "offered (Processes_view route) m \<Longrightarrow> run m as s = (tr, out, s') \<Longrightarrow> legal tr \<Longrightarrow>
    guarded_run ends_process tr"
| on_tasks: "offered (Tasks_view route) m \<Longrightarrow> run m as s = (tr, out, s') \<Longrightarrow> legal tr \<Longrightarrow>
    guarded_run deletes_task tr"
| on_task_form: "offered (TaskCreateForm_view route) m \<Longrightarrow> run m as s = (tr, out, s') \<Longrightarrow> legal tr \<Longrightarrow>
    guarded_run deletes_task tr"
| on_updates: "offered (Updates_view route) m \<Longrightarrow> run m as s = (tr, out, s') \<Longrightarrow> legal tr \<Longrightarrow>
    guarded_run changes_software tr"
| on_host: "offered (Host_view route) m \<Longrightarrow> run m as s = (tr, out, s') \<Longrightarrow> legal tr \<Longrightarrow>
    guarded_run deletes_swap tr"
| on_snapshots: "offered (Snapshots_view loc route) m \<Longrightarrow> run m as s = (tr, out, s') \<Longrightarrow> legal tr \<Longrightarrow>
    guarded_run changes_backups tr"
| on_tools: "offered (Tools_view route) m \<Longrightarrow> run m as s = (tr, out, s') \<Longrightarrow> legal tr \<Longrightarrow>
    guarded_run harms_ssh tr"
| on_audit: "offered (Audit_view loc route) m \<Longrightarrow> run m as s = (tr, out, s') \<Longrightarrow> legal tr \<Longrightarrow>
    guarded_run harms_ssh tr"
| on_ssh: "offered (Ssh_view route) m \<Longrightarrow> run m as s = (tr, out, s') \<Longrightarrow> legal tr \<Longrightarrow>
    guarded_run harms_ssh tr"
| on_github: "offered (Github_view loc route) m \<Longrightarrow> run m as s = (tr, out, s') \<Longrightarrow> legal tr \<Longrightarrow>
    guarded_run harms_github tr"
| on_assets: "offered (Assets_view loc route) m \<Longrightarrow> run m as s = (tr, out, s') \<Longrightarrow> legal tr \<Longrightarrow>
    guarded_run harms_github tr"
| on_security: "offered (Security_view route) m \<Longrightarrow> run m as s = (tr, out, s') \<Longrightarrow> legal tr \<Longrightarrow>
    guarded_run harms_security tr"
| on_settings: "offered (Settings_view loc route) m \<Longrightarrow> run m as s = (tr, out, s') \<Longrightarrow> legal tr \<Longrightarrow>
    guarded_run harms_settings tr"

lemma guarded_run_trace: "guarded_run harms tr \<Longrightarrow> guarded_trace harms tr"
proof (induction rule: guarded_run.induct)
  case (on_docker)
  then show ?case using docker.rules_kept by blast
next
  case (on_docker_image)
  then show ?case using docker_image.rules_kept by blast
next
  case (on_compose_editor)
  then show ?case using compose_editor.rules_kept by blast
next
  case (on_files)
  then show ?case using files.rules_kept_but by blast
next
  case (on_file_editor)
  then show ?case using file_editor.rules_kept_but by blast
next
  case (on_services)
  then show ?case using services.rules_kept by blast
next
  case (on_processes)
  then show ?case using processes.rules_kept by blast
next
  case (on_tasks)
  then show ?case using tasks.rules_kept by blast
next
  case (on_task_form)
  then show ?case using task_form.rules_kept by blast
next
  case (on_updates)
  then show ?case using updates.rules_kept by blast
next
  case (on_host)
  then show ?case using host.most_rules_kept by blast
next
  case (on_snapshots)
  then show ?case using snapshots.rules_kept by blast
next
  case (on_tools)
  then show ?case using tools.rules_kept_loud by blast
next
  case (on_audit)
  then show ?case using audit.rules_kept_loud by blast
next
  case (on_ssh)
  then show ?case using ssh.rules_kept_loud by blast
next
  case (on_github)
  then show ?case using github.rules_kept_loud by blast
next
  case (on_assets)
  then show ?case using assets.rules_kept by blast
next
  case (on_security)
  then show ?case using security.rules_kept_loud by blast
next
  case (on_settings)
  then show ?case using settings.rules_kept_loud by blast
qed

text \<open>C1. From the button to the server, through page and shell. Whatever handler of a page runs, in
  whatever state the shell is and whatever else happens meanwhile: before a request that destroys something is
  sent, the shell had a confirmation on the screen with the very title and text of a question that this handler
  asked, and the user pressed its button. What destroys something is named for each page: removing and
  stopping containers, deleting and restoring files, ending processes, changing software, deleting tasks, swap, snapshots
  and keys, weakening the firewall and the sign-in, and more. It is what the page itself guards: what it sends
  unasked, such as stopping a service or taking a file back from the recycle bin, is not among it, and
  the pages of services, tools and the audit log guard nothing.\<close>

theorem destructive_request_pressed:
  assumes "guarded_run harms tr" and "shell_reach s" and "plays s tr u" and "tr = pre @ Did (Fetch r) a # post" and "harms r"
  shows "\<exists>t m l d n w v. Did (Confirm t m l d) (AVal (JBool True)) \<in> set pre \<and>
    shell_step\<^sup>*\<^sup>* s w \<and> sh_document w = Some (Confirm_dialog n t m l d) \<and> shown_modal w = sh_document w \<and>
    shell_step\<^sup>*\<^sup>* (confirm_button True w) v \<and> plays v (Did (Fetch r) a # post) u"
  using guarded_pressed [OF guarded_run_trace [OF assms(1)] assms(3,2,4,5)] unfolding pressed_def in_dids by blast

theorem destructive_request_pressed_witness:
  "let tr = events (run_alone (Docker_containerAction sample_docker sample_container ''remove'')
         [AVal (JBool True), AVal (JStr ''t''), AFail (Js_error ''down''), AVal JUndef] sample_docker)
   in \<exists>u w n m. plays signed_in tr u \<and> shell_step\<^sup>*\<^sup>* signed_in w \<and>
        sh_document w = Some (Confirm_dialog n t_delete_container m t_confirm True)"
proof -
  let ?h = "Docker_containerAction sample_docker sample_container ''remove''"
  let ?r = "run_alone ?h [AVal (JBool True), AVal (JStr ''t''), AFail (Js_error ''down''), AVal JUndef] sample_docker"
  let ?q = "Did (Confirm t_delete_container (Docker_containerName sample_docker sample_container) t_confirm True)"
  have offered: "offered (Docker_view (\<lambda>n. None) sample_route) ?h"
    by (rule offered_handler [of "''onClick''" "\<lambda>ev. ?h" _ sample_docker])
       (auto simp: Docker_view_def Docker_containerCard_def Docker_available_def Docker_status_def sample_docker_def
          sample_container_def Docker_init_def array_of_def jor_def)
  obtain r c n1 n2 n3 where tr: "events ?r = [?q (AVal (JBool True))] @ [Did Read_csrf (AVal (JStr ''t'')),
      Did (Fetch r) (AFail c), Did (Notify n1 n2 n3) (AVal JUndef)]" "legal (events ?r)" "harms_docker r"
    by (simp add: Docker_containerAction_def Docker_mutate_def sample_container_def run_ops destroys_def)
  let ?u = "confirm_button True (commit (confirmAction t_delete_container (Docker_containerName sample_docker sample_container)
     t_confirm True signed_in))"
  have "sh_csrfToken ?u = ''t''"
    by (simp add: confirm_button_def answer_confirm_def commit_shown ask_shown signed_in_simps split: option.split)
  then have p2: "performs ?u (Did Read_csrf (AVal (JStr ''t''))) ?u" using token [of ?u] by simp
  have p1: "performs signed_in (?q (AVal (JBool True))) ?u"
    by (rule answered_at_once) (simp_all add: signed_in_simps sample_identity_def)
  have p3: "performs ?u (Did (Fetch r) (AFail c)) ?u" by (rule outside) simp_all
  have run: "plays signed_in (events ?r) (shell_notify n1 n2 n3 ?u)"
    unfolding tr append_Cons append_Nil
    using plays.performs [OF p1 plays.performs [OF p2 plays.performs [OF p3 plays.performs [OF told plays.stops]]]] by simp
  have reach: "shell_reach signed_in"
    unfolding signed_in_def using sample_reach(1) boots by (rule shell_reach.goes_on)
  have split: "events ?r = [?q (AVal (JBool True)), Did Read_csrf (AVal (JStr ''t''))] @ Did (Fetch r) (AFail c) #
      [Did (Notify n1 n2 n3) (AVal JUndef)]"
    using tr(1) by simp
  obtain t m l d n w where hit: "Did (Confirm t m l d) (AVal (JBool True)) \<in> set [?q (AVal (JBool True)), Did Read_csrf (AVal (JStr ''t''))]"
    "shell_step\<^sup>*\<^sup>* signed_in w" "sh_document w = Some (Confirm_dialog n t m l d)"
    using destructive_request_pressed [OF guarded_run.on_docker [OF offered run_alone_split tr(2)] reach run split tr(3)] by blast
  then have "t = t_delete_container" "l = t_confirm" "d = True" by simp_all
  then show ?thesis unfolding Let_def using run hit(2,3) by blast
qed

text \<open>C23. Declining to discard the changes discards them. When the editor of a file holds changes that are not saved
  and the user asks to close it, the editor asks first, and on no it does nothing more, as it means to keep
  the changes. But the question has taken the editor's place in the only slot for a dialog, and answering it,
  with no as with yes, leaves the slot empty: the editor is not in the document any more, neither while the
  question is asked nor afterwards, and its text is gone.\<close>

theorem unsaved_editor_lost:
  assumes "FileEditor_value ed \<noteq> FileEditor_saved ed"
    and "sh_ready s" and "truthy (sh_identity s)" and "sh_modal s = Some (Page_dialog title)"
  shows "let asks = Did (Confirm t_discard_changes t_discard_detail t_discard True) (AVal (JBool False));
      r = run_alone (FileEditor_close ed) [AVal (JBool False)] ed;
      q = commit (confirmAction t_discard_changes t_discard_detail t_discard True s);
      u = confirm_button False q
    in events r = [asks] \<and> fst (snd r) = Returned JUndef \<and> snd (snd r) = ed \<and> performs s asks u \<and>
       sh_document q = Some (Confirm_dialog (sh_asked s) t_discard_changes t_discard_detail t_discard True) \<and>
       sh_document (commit u) = None"
proof -
  have "performs s (Did (Confirm t_discard_changes t_discard_detail t_discard True) (AVal (JBool False)))
      (confirm_button False (commit (confirmAction t_discard_changes t_discard_detail t_discard True s)))"
    by (rule answered_at_once [OF assms(2,3)])
  moreover have "shown_modal (commit (confirm_button False v)) = None" for v
    by (simp add: shown_modal_def commit_shown(2) confirm_button_def split: if_split)
  ultimately show ?thesis
    using assms by (simp add: FileEditor_close_def confirm_io_def run_ops Let_def commit_shown(1))
       (simp add: shown_modal_def commit_shown ask_shown)
qed

definition edited :: FileEditor_state where
  "edited = (FileEditor_init JUndef ''old'')\<lparr>FileEditor_value := ''new''\<rparr>"

theorem unsaved_editor_lost_witness:
  "let q = commit (confirmAction t_discard_changes t_discard_detail t_discard True (openModal ''notes.txt'' signed_in))
   in confirm_number (sh_document q) = Some 0 \<and> sh_document (commit (confirm_button False q)) = None"
proof -
  have "sh_ready (openModal ''notes.txt'' signed_in)" "truthy (sh_identity (openModal ''notes.txt'' signed_in))"
    "sh_modal (openModal ''notes.txt'' signed_in) = Some (Page_dialog ''notes.txt'')" "sh_asked (openModal ''notes.txt'' signed_in) = 0"
    by (simp_all add: signed_in_def app_ops nullish_def sample_identity_def sample_shell_def App_def Let_def split: option.split if_split)
  moreover have "FileEditor_value edited \<noteq> FileEditor_saved edited" by (simp add: edited_def FileEditor_init_def)
  ultimately show ?thesis
    using unsaved_editor_lost [of edited "openModal ''notes.txt'' signed_in" "''notes.txt''"] by (simp add: Let_def)
qed

subsection \<open>The handlers on the screen\<close>

text \<open>C8. The machine is the program. Take whatever is on the screen once the document shows the present state: the frame,
  the dialogs of the shell and its messages (\<open>App_view\<close>), in the slot the dialog of a page, with any elements of
  that page inside, and the page itself, with any elements. Every handler bound anywhere in it moves the shell along the steps
  of its machine and no others, whatever the server answers, whatever becomes of the page's own state and
  whatever other steps are taken while it waits; so a reachable state leads to reachable states.\<close>

theorem shell_handlers_step:
  assumes "sh_document s = shown_modal s"
    and "(n, f) \<in> set (handlers_of (App_view upper version texts
        (\<lambda>t. (sizes t, map (hosted captured inner x) (body t))) b s)) \<union>
      set (handlers_of (hosted captured outer w pg))"
    and "run (f ev) as s = (tr, out, s')" and "\<forall>(a, other)\<in>set as. \<forall>t. shell_step\<^sup>*\<^sup>* t (other t)"
  shows "shell_step\<^sup>*\<^sup>* s s' \<and> (shell_reach s \<longrightarrow> shell_reach s')"
  using screen_steps [OF assms] shell_reach_steps by blast

text \<open>The editor of a file in its dialog: closing it with unsaved changes asks a question of the shell.\<close>

definition editing :: shell where
  "editing = commit (openModal ''notes.txt'' signed_in)"

lemma editing_simps: "shell_reach editing" "sh_document editing = shown_modal editing"
  "sh_modal editing = Some (Page_dialog ''notes.txt'')" "sh_ready editing" "sh_identity editing = sample_identity"
proof -
  show "shell_reach editing"
    unfolding editing_def using signed_in_simps(4) opens commits by (meson shell_reach.goes_on)
qed (simp_all add: editing_def shown_modal_def signed_in_def app_ops nullish_def sample_identity_def sample_shell_def App_def
    Let_def split: option.split if_split)

definition closing :: "string \<times> (json \<Rightarrow> shell io)" where
  "closing = (''onClick'', \<lambda>ev. in_shell ''/'' (\<lambda>e a ed. ed) (FileEditor_close edited) edited)"

theorem shell_handlers_step_witness:
  "let asked = confirmAction t_discard_changes t_discard_detail t_discard True editing
   in shell_step\<^sup>*\<^sup>* editing asked \<and> shell_reach asked"
proof -
  let ?asked = "confirmAction t_discard_changes t_discard_detail t_discard True editing"
  let ?body = "map (hosted ''/'' (\<lambda>e a ed. ed) edited) [FileEditor_view sample_route edited]"
  let ?view = "App_view id ''1'' (\<lambda>c. ([], [])) (\<lambda>t. (''large'', ?body)) \<lparr>b_key = [], b_error = None\<rparr> editing"
  have "ROUTE_MAP ''/'' \<noteq> None" using is_route_table(3) by (simp add: ROUTE_MAP_None is_route_def)
  then obtain r where "current_route editing = Some r"
    by (cases "ROUTE_MAP (rs_path (sh_router editing))") (auto simp: current_route_def editing_simps)
  then have screen: "shell_screen editing = Some (Page_screen r (renderPage (r_path r)))"
    by (simp add: shell_screen_def editing_simps sample_identity_def)
  have "closing \<in> set (handlers_of (hosted ''/'' (\<lambda>e a ed. ed) edited (FileEditor_view sample_route edited)))"
    by (simp add: FileEditor_view_def closing_def Button_def Let_def)
  then have bound: "closing \<in> set (handlers_of ?view)"
    by (simp add: App_view_def screen editing_simps Modal_def)
  have runs: "run (snd closing JNull) [(AVal (JBool False), \<lambda>s. s)] editing =
      ([Did (Confirm t_discard_changes t_discard_detail t_discard True) (AVal (JBool False))], Returned JUndef, ?asked)"
    by (simp add: closing_def FileEditor_close_def edited_def FileEditor_init_def bnd_def confirm_io_def perform_def)
  have shown: "(fst closing, snd closing) \<in> set (handlers_of ?view) \<union>
      set (handlers_of (hosted ''/'' (\<lambda>e a ed. ed) edited (FileEditor_view sample_route edited)))"
    using bound by simp
  have "shell_step\<^sup>*\<^sup>* editing ?asked \<and> (shell_reach editing \<longrightarrow> shell_reach ?asked)"
    by (rule shell_handlers_step [where sizes = "\<lambda>t. ''large''" and body = "\<lambda>t. [FileEditor_view sample_route edited]",
          OF editing_simps(2) shown runs]) simp
  then show ?thesis using editing_simps(1) by (simp add: Let_def)
qed

subsection \<open>Busy states of all pages\<close>

text \<open>C20. No handler leaves its page busy. Of each of these handlers, which mark their page, form or editor as busy and
  send a request: whatever the server answers, whatever else happens to the page meanwhile, and whether it
  returns or fails, once it has sent a request and is over, the mark is gone. The editor of a file sends none
  itself, the page that opened it does: its mark is gone once it has called the page to save and is over,
  whether that call returned or failed.\<close>

theorem handlers_end_idle:
  "ends_idle (\<lambda>s. Services_working s \<noteq> []) (Services_act a1 a2 a3) \<and>
   ends_idle Updates_working (Updates_find b1) \<and>
   ends_idle Updates_working (Updates_action b1 b2 b3) \<and>
   ends_idle Host_working (Host_mutate c1 c2 c3 c4) \<and>
   ends_idle Host_working (Host_deleteSwap c1) \<and>
   ends_idle Snapshots_working (Snapshots_action d1 d2 d3) \<and>
   ends_idle Snapshots_working (Snapshots_importFile d1 d2) \<and>
   ends_idle Snapshots_working (Snapshots_createScheduledBackup d1) \<and>
   ends_idle Snapshots_working (Snapshots_deleteScheduledBackup d1 d2) \<and>
   ends_idle Docker_working (Docker_mutate e1 e2 e3 e4) \<and>
   ends_idle ComposeEditor_saving (ComposeEditor_submit f1 ev) \<and>
   ends_idle Files_working (Files_mutate g1 g2 g3 g4) \<and>
   ends_idle Files_working (Files_toggleFavorite g1 g3) \<and>
   ends_idle Files_working (Files_recycleAction g1 g3 g2) \<and>
   idle_after_call ''onSave'' FileEditor_busy (FileEditor_save h1) \<and>
   ends_idle Ssh_working (Ssh_mutate i1 i2 i3 i4 i5) \<and>
   ends_idle Github_working (Github_loadRepo j1) \<and>
   ends_idle Github_working (Github_chooseRepository j1 j2) \<and>
   ends_idle Github_working (Github_connectSubmit j1 ev) \<and>
   ends_idle Github_working (Github_startDevice j1) \<and>
   ends_idle Github_working (Github_repoMutation j1 j2 j3 j4) \<and>
   ends_idle Login_busy (Login_submit k1 ev) \<and>
   ends_idle Login_busy (Login_passkey k1) \<and>
   ends_idle Security_working (Security_securityAction l1 l2 l3 l4) \<and>
   ends_idle Security_working (Security_addRule l1 ev) \<and>
   ends_idle Security_working (Security_deleteRule l1 l3) \<and>
   ends_idle Security_working (Security_saveAllowlist l1) \<and>
   ends_idle Security_working (Security_saveNotifications l1 l5) \<and>
   ends_idle Settings_working (Settings_run m1 m2 m3)"
  by (intro conjI ends_idleI idle_after_callI) (auto simp: Services_act_def Updates_find_def Updates_action_def Host_mutate_def
      Host_deleteSwap_def Snapshots_action_def Snapshots_importFile_def Snapshots_createScheduledBackup_def
      Snapshots_deleteScheduledBackup_def Docker_mutate_def ComposeEditor_submit_def Files_mutate_def
      Files_toggleFavorite_def Files_recycleAction_def FileEditor_save_def Ssh_mutate_def
      Github_loadRepo_def Github_chooseRepository_def Github_connectSubmit_def Github_startDevice_def
      Github_repoMutation_def Login_submit_def Login_passkey_def Security_securityAction_def
      Security_addRule_def Security_deleteRule_def Security_saveAllowlist_def Security_saveNotifications_def
      Settings_run_def
      Let_def idle_simps split: answer.split intro!: wp_any)

end
